(* ===== verification/Prelude.thy ===== *)
theory Prelude
  imports Main
begin

text \<open>
  What the component theories share: the two error monads (a fallible computation, and a fallible
  computation over a state), tables of rows with the SQL operations the stores use, and the
  collections of rewrite rules the component proofs are run with.
\<close>

named_theorems op_defs \<open>definitions of the operations of a component\<close>
named_theorems table_simps \<open>what a table operation leaves in a table\<close>

section \<open>Fallible computations\<close>

text \<open>
  A Python function that may raise is a function into \<open>'e + 'a\<close>: \<open>Inl\<close> is the exception,
  \<open>Inr\<close> the returned value. \<open>bindE\<close> is sequencing: an exception ends the sequence.
\<close>

definition bindE :: "'e + 'a \<Rightarrow> ('a \<Rightarrow> 'e + 'b) \<Rightarrow> 'e + 'b" where
  "bindE m f = (case m of Inl e \<Rightarrow> Inl e | Inr a \<Rightarrow> f a)"

definition checkE :: "bool \<Rightarrow> 'e \<Rightarrow> 'e + unit" where
  "checkE ok e = (if ok then Inr () else Inl e)"

fun mapE :: "('a \<Rightarrow> 'e + 'b) \<Rightarrow> 'a list \<Rightarrow> 'e + 'b list" where
  "mapE f [] = Inr []"
| "mapE f (x # xs) = bindE (f x) (\<lambda>y. bindE (mapE f xs) (\<lambda>ys. Inr (y # ys)))"

definition of_option :: "'e \<Rightarrow> 'a option \<Rightarrow> 'e + 'a" where
  "of_option e x = (case x of None \<Rightarrow> Inl e | Some a \<Rightarrow> Inr a)"

definition the_default :: "'a \<Rightarrow> 'a option \<Rightarrow> 'a" where
  "the_default d x = (case x of None \<Rightarrow> d | Some a \<Rightarrow> a)"

lemma the_default_simps [simp]: "the_default d None = d" "the_default d (Some a) = a"
  by (simp_all add: the_default_def)

lemma bindE_simps [simp]: "bindE (Inl e) f = Inl e" "bindE (Inr a) f = f a"
  by (simp_all add: bindE_def)

lemma bindE_Inr_iff: "bindE m f = Inr b \<longleftrightarrow> (\<exists>a. m = Inr a \<and> f a = Inr b)"
  by (cases m) auto

lemma bindE_Inl_iff: "bindE m f = Inl e \<longleftrightarrow> m = Inl e \<or> (\<exists>a. m = Inr a \<and> f a = Inl e)"
  by (cases m) auto

lemma checkE_Inr_iff [simp]: "checkE ok e = Inr u \<longleftrightarrow> ok"
  by (simp add: checkE_def)

lemma checkE_Inl_iff [simp]: "checkE ok e = Inl e' \<longleftrightarrow> \<not> ok \<and> e' = e"
  by (auto simp: checkE_def)

lemma checkE_simps [simp]: "checkE True e = Inr ()" "checkE False e = Inl e"
  by (simp_all add: checkE_def)

lemma of_option_simps [simp]: "of_option e None = Inl e" "of_option e (Some a) = Inr a"
  by (simp_all add: of_option_def)

lemma of_option_Inr_iff [simp]: "of_option e x = Inr a \<longleftrightarrow> x = Some a"
  by (cases x) auto

lemma mapE_Inr_length: "mapE f xs = Inr ys \<Longrightarrow> length ys = length xs"
  by (induction xs arbitrary: ys) (auto simp: bindE_Inr_iff)

lemma mapE_Inr_nth: "mapE f xs = Inr ys \<Longrightarrow> i < length xs \<Longrightarrow> f (xs ! i) = Inr (ys ! i)"
  by (induction xs arbitrary: ys i) (auto simp: bindE_Inr_iff nth_Cons split: nat.splits)

lemma mapE_map:
  "mapE f xs = Inr ys \<Longrightarrow> (\<And>x y. x \<in> set xs \<Longrightarrow> f x = Inr y \<Longrightarrow> g y = h x) \<Longrightarrow> map g ys = map h xs"
  by (induction xs arbitrary: ys) (auto simp: bindE_Inr_iff)

lemma mapE_Inr_src: "mapE f xs = Inr ys \<Longrightarrow> y \<in> set ys \<Longrightarrow> \<exists>x \<in> set xs. f x = Inr y"
  by (induction xs arbitrary: ys) (auto simp: bindE_Inr_iff)

lemma mapE_total: "(\<And>x. x \<in> set xs \<Longrightarrow> \<exists>y. f x = Inr y) \<Longrightarrow> \<exists>ys. mapE f xs = Inr ys"
proof (induction xs)
  case (Cons x xs)
  then obtain ys y where "mapE f xs = Inr ys" "f x = Inr y" by (metis list.set_intros)
  then show ?case by simp
qed simp

lemma mapE_Inr_mem: "mapE f xs = Inr ys \<Longrightarrow> x \<in> set xs \<Longrightarrow> \<exists>y \<in> set ys. f x = Inr y"
  by (induction xs arbitrary: ys) (auto simp: bindE_Inr_iff)

section \<open>Fallible computations over a state\<close>

text \<open>
  An operation on a state \<open>'s\<close> returns the exception or the value, and the state it leaves. The
  state an exception leaves is kept: a call that changed an external system before it raised has
  changed it.
\<close>

type_synonym ('s, 'e, 'a) op = "'s \<Rightarrow> ('e + 'a) \<times> 's"

definition returnS :: "'a \<Rightarrow> ('s, 'e, 'a) op" where
  "returnS a s = (Inr a, s)"

definition raiseS :: "'e \<Rightarrow> ('s, 'e, 'a) op" where
  "raiseS e s = (Inl e, s)"

definition bindS :: "('s, 'e, 'a) op \<Rightarrow> ('a \<Rightarrow> ('s, 'e, 'b) op) \<Rightarrow> ('s, 'e, 'b) op" where
  "bindS m f s = (case m s of (Inl e, s') \<Rightarrow> (Inl e, s') | (Inr a, s') \<Rightarrow> f a s')"

definition checkS :: "bool \<Rightarrow> 'e \<Rightarrow> ('s, 'e, unit) op" where
  "checkS ok e = (if ok then returnS () else raiseS e)"

definition liftS :: "'e + 'a \<Rightarrow> ('s, 'e, 'a) op" where
  "liftS m s = (m, s)"

definition readS :: "('s \<Rightarrow> 'a) \<Rightarrow> ('s, 'e, 'a) op" where
  "readS f s = (Inr (f s), s)"

definition writeS :: "('s \<Rightarrow> 's) \<Rightarrow> ('s, 'e, unit) op" where
  "writeS f s = (Inr (), f s)"

lemma opS_simps [simp]:
  "returnS a s = (Inr a, s)" "raiseS e s = (Inl e, s)" "liftS m s = (m, s)"
  "readS f s = (Inr (f s), s)" "writeS h s = (Inr (), h s)"
  by (simp_all add: returnS_def raiseS_def liftS_def readS_def writeS_def)

lemma checkS_simps [simp]: "checkS True e s = (Inr (), s)" "checkS False e s = (Inl e, s)"
  by (simp_all add: checkS_def)

lemma bindS_step:
  "m s = (Inr a, s') \<Longrightarrow> bindS m f s = f a s'"
  "m s = (Inl e, s') \<Longrightarrow> bindS m f s = (Inl e, s')"
  by (simp_all add: bindS_def)

lemma bindS_checkS [simp]: "bindS (checkS ok e) f s = (if ok then f () s else (Inl e, s))"
  by (simp add: bindS_def checkS_def)

lemma bindS_simps [simp]:
  "bindS (returnS a) f s = f a s"
  "bindS (raiseS e) f1 s = (Inl e, s)"
  "bindS (readS g) f2 s = f2 (g s) s"
  "bindS (writeS h) f3 s = f3 () (h s)"
  by (simp_all add: bindS_def returnS_def raiseS_def readS_def writeS_def)

lemma bindS_Inr_iff:
  "bindS m f s = (Inr b, s'') \<longleftrightarrow> (\<exists>a s'. m s = (Inr a, s') \<and> f a s' = (Inr b, s''))"
  by (auto simp: bindS_def split: prod.splits sum.splits)

lemma bindS_Inl_iff:
  "bindS m f s = (Inl e, s'') \<longleftrightarrow>
     m s = (Inl e, s'') \<or> (\<exists>a s'. m s = (Inr a, s') \<and> f a s' = (Inl e, s''))"
  by (auto simp: bindS_def split: prod.splits sum.splits)

section \<open>What an operation does to its state\<close>

text \<open>
  \<open>within R m\<close>: whatever \<open>m\<close> returns or raises, the state it leaves is related by \<open>R\<close> to the state it
  was run on. For a reflexive and transitive \<open>R\<close> it passes from the parts of an operation to the whole.
\<close>

named_theorems within_intros \<open>operations that stay within a relation\<close>

definition within :: "('s \<Rightarrow> 's \<Rightarrow> bool) \<Rightarrow> ('s, 'e, 'a) op \<Rightarrow> bool" where
  "within R m \<longleftrightarrow> (\<forall>s. R s (snd (m s)))"

lemma withinD: "within R m \<Longrightarrow> m s = (r, s') \<Longrightarrow> R s s'"
  unfolding within_def by (metis snd_conv)

lemma within_stop [within_intros]:
  assumes "reflp R"
  shows "within R (returnS a)" "within R (raiseS e)" "within R (liftS r)" "within R (readS f)" "within R (checkS ok e)"
  using assms by (simp_all add: within_def checkS_def returnS_def raiseS_def liftS_def readS_def reflpD)

lemma within_bindS [within_intros]:
  assumes "transp R" "within R m" "\<And>a. within R (f a)"
  shows "within R (bindS m f)"
proof -
  have "R s (snd (bindS m f s))" for s
  proof (cases "m s")
    case (Pair r s1)
    then have "R s s1" using withinD [OF assms(2)] by blast
    moreover have "R s1 (snd (f a s1))" for a using assms(3) by (simp add: within_def)
    ultimately show ?thesis using assms(1) Pair by (cases r) (auto simp: bindS_def elim: transpE)
  qed
  then show ?thesis by (simp add: within_def)
qed

lemma within_if [within_intros]:
  "(b \<Longrightarrow> within R m) \<Longrightarrow> (\<not> b \<Longrightarrow> within R n) \<Longrightarrow> within R (if b then m else n)"
  by simp

lemma within_case_option [within_intros]:
  "(x = None \<Longrightarrow> within R m) \<Longrightarrow> (\<And>a. x = Some a \<Longrightarrow> within R (f a)) \<Longrightarrow> within R (case x of None \<Rightarrow> m | Some a \<Rightarrow> f a)"
  by (cases x) auto

lemma within_case_sum [within_intros]:
  "(\<And>e. x = Inl e \<Longrightarrow> within R (g e)) \<Longrightarrow> (\<And>a. x = Inr a \<Longrightarrow> within R (f a)) \<Longrightarrow>
     within R (case x of Inl e \<Rightarrow> g e | Inr a \<Rightarrow> f a)"
  by (cases x) auto

lemma within_case_prod [within_intros]:
  "(\<And>a b. x = (a, b) \<Longrightarrow> within R (f a b)) \<Longrightarrow> within R (case x of (a, b) \<Rightarrow> f a b)"
  by (cases x) auto

lemma within_case_list [within_intros]:
  "(x = [] \<Longrightarrow> within R m) \<Longrightarrow> (\<And>y ys. x = y # ys \<Longrightarrow> within R (f y ys)) \<Longrightarrow> within R (case x of [] \<Rightarrow> m | y # ys \<Rightarrow> f y ys)"
  by (cases x) auto

text \<open>\<open>keeps P m\<close>: when \<open>m\<close> returns, a state with \<open>P\<close> is left with \<open>P\<close>; nothing is said of a raise.\<close>

definition keeps :: "('s \<Rightarrow> bool) \<Rightarrow> ('s, 'e, 'a) op \<Rightarrow> bool" where
  "keeps P m \<longleftrightarrow> (\<forall>s a s'. P s \<longrightarrow> m s = (Inr a, s') \<longrightarrow> P s')"

lemma keepsD: "keeps P m \<Longrightarrow> P s \<Longrightarrow> m s = (Inr a, s') \<Longrightarrow> P s'"
  by (auto simp: keeps_def)

lemma keeps_stop: "keeps P (returnS a)" "keeps P (raiseS e)" "keeps P (liftS r)" "keeps P (readS f)" "keeps P (checkS ok e)"
  by (simp_all add: keeps_def checkS_def returnS_def raiseS_def liftS_def readS_def)

lemma keeps_bindS: "keeps P m \<Longrightarrow> (\<And>a. keeps P (f a)) \<Longrightarrow> keeps P (bindS m f)"
proof -
  assume m: "keeps P m" and f: "\<And>a. keeps P (f a)"
  have "P s'" if p: "P s" and run: "bindS m f s = (Inr b, s')" for s b s'
  proof -
    from run obtain a s1 where "m s = (Inr a, s1)" "f a s1 = (Inr b, s')" unfolding bindS_Inr_iff by blast
    with keepsD [OF m p] keepsD [OF f] show ?thesis by blast
  qed
  then show "keeps P (bindS m f)" unfolding keeps_def by blast
qed

lemma keeps_cases:
  "(b \<Longrightarrow> keeps P m) \<Longrightarrow> (\<not> b \<Longrightarrow> keeps P n) \<Longrightarrow> keeps P (if b then m else n)"
  "(x = None \<Longrightarrow> keeps P m) \<Longrightarrow> (\<And>a. x = Some a \<Longrightarrow> keeps P (f a)) \<Longrightarrow> keeps P (case x of None \<Rightarrow> m | Some a \<Rightarrow> f a)"
  "(\<And>a b. y = (a, b) \<Longrightarrow> keeps P (g a b)) \<Longrightarrow> keeps P (case y of (a, b) \<Rightarrow> g a b)"
  "(\<And>e. z = Inl e \<Longrightarrow> keeps P (h e)) \<Longrightarrow> (\<And>a. z = Inr a \<Longrightarrow> keeps P (k a)) \<Longrightarrow> keeps P (case z of Inl e \<Rightarrow> h e | Inr a \<Rightarrow> k a)"
  by (cases x; cases y; cases z; auto)+

section \<open>Tables\<close>

text \<open>
  A Postgres table is the list of its rows in the order they were inserted (the order of a
  \<open>BIGSERIAL\<close> key). \<open>select_one\<close> is a \<open>SELECT\<close> read with \<open>fetchone\<close>, \<open>update_where\<close> an
  \<open>UPDATE\<close>, \<open>unique_on\<close> a (partial) unique index: among the rows that satisfy the index's
  \<open>WHERE\<close>, no two share the key.
\<close>

definition select_one :: "('r \<Rightarrow> bool) \<Rightarrow> 'r list \<Rightarrow> 'r option" where
  "select_one P rows = find P rows"

definition update_where :: "('r \<Rightarrow> bool) \<Rightarrow> ('r \<Rightarrow> 'r) \<Rightarrow> 'r list \<Rightarrow> 'r list" where
  "update_where P f rows = map (\<lambda>r. if P r then f r else r) rows"

definition count_where :: "('r \<Rightarrow> bool) \<Rightarrow> 'r list \<Rightarrow> nat" where
  "count_where P rows = length (filter P rows)"

definition unique_on :: "('r \<Rightarrow> bool) \<Rightarrow> ('r \<Rightarrow> 'k) \<Rightarrow> 'r list \<Rightarrow> bool" where
  "unique_on P key rows \<longleftrightarrow> distinct (map key (filter P rows))"

lemma select_one_Nil [simp]: "select_one P [] = None"
  by (simp add: select_one_def)

lemma select_one_Cons [simp]: "select_one P (r # rows) = (if P r then Some r else select_one P rows)"
  by (simp add: select_one_def)

lemma select_one_SomeD: "select_one P rows = Some r \<Longrightarrow> r \<in> set rows \<and> P r"
  by (induction rows) (auto split: if_splits)

lemma select_one_None_iff: "select_one P rows = None \<longleftrightarrow> (\<forall>r \<in> set rows. \<not> P r)"
  by (induction rows) auto

lemma select_one_append:
  "select_one P (rows @ more) = (case select_one P rows of None \<Rightarrow> select_one P more | Some r \<Rightarrow> Some r)"
  by (induction rows) auto

lemma select_one_cong: "(\<And>r. r \<in> set rows \<Longrightarrow> P r = Q r) \<Longrightarrow> select_one P rows = select_one Q rows"
  by (induction rows) auto

lemma update_where_simps [simp]:
  "update_where P f [] = []"
  "update_where P f (r # rows) = (if P r then f r else r) # update_where P f rows"
  by (simp_all add: update_where_def)

lemma length_update_where [simp]: "length (update_where P f rows) = length rows"
  by (simp add: update_where_def)

lemma set_update_where: "set (update_where P f rows) = (\<lambda>r. if P r then f r else r) ` set rows"
  by (simp add: update_where_def)

lemma update_where_none: "(\<And>r. r \<in> set rows \<Longrightarrow> \<not> P r) \<Longrightarrow> update_where P f rows = rows"
  by (induction rows) auto

lemma map_update_where:
  "(\<And>r. P r \<Longrightarrow> key (f r) = key r) \<Longrightarrow> map key (update_where P f rows) = map key rows"
  by (induction rows) auto

lemma select_one_update_same:
  assumes "\<And>r. P r \<Longrightarrow> P (f r)"
  shows "select_one P (update_where P f rows) = map_option f (select_one P rows)"
  using assms by (induction rows) auto

lemma select_one_update_other:
  assumes "\<And>r. P r \<Longrightarrow> \<not> Q r" "\<And>r. P r \<Longrightarrow> \<not> Q (f r)"
  shows "select_one Q (update_where P f rows) = select_one Q rows"
  using assms by (induction rows) auto

lemma count_where_simps [simp]:
  "count_where P [] = 0"
  "count_where P (r # rows) = (if P r then Suc (count_where P rows) else count_where P rows)"
  by (simp_all add: count_where_def)

lemma count_where_append [simp]: "count_where P (xs @ ys) = count_where P xs + count_where P ys"
  by (simp add: count_where_def)

subsection \<open>Unique indexes\<close>

lemma unique_on_Nil [simp]: "unique_on P key []"
  by (simp add: unique_on_def)

lemma unique_on_eq:
  assumes "unique_on P key rows" "r \<in> set rows" "r' \<in> set rows" "P r" "P r'" "key r = key r'"
  shows "r = r'"
proof -
  from assms(1) have "inj_on key (set (filter P rows))"
    by (simp add: unique_on_def distinct_map)
  with assms(2-6) show ?thesis by (auto dest: inj_onD)
qed

lemma unique_on_select:
  assumes "unique_on P key rows" "r \<in> set rows" "P r"
  shows "select_one (\<lambda>x. key x = key r \<and> P x) rows = Some r"
proof (cases "select_one (\<lambda>x. key x = key r \<and> P x) rows")
  case None
  with assms show ?thesis by (auto simp: select_one_None_iff)
next
  case (Some r')
  then have "r' \<in> set rows" "key r' = key r" "P r'" by (auto dest: select_one_SomeD)
  with assms have "r' = r" by (blast intro: unique_on_eq)
  with Some show ?thesis by simp
qed

lemma unique_on_insert:
  assumes "unique_on P key rows" "P r \<Longrightarrow> \<not> (\<exists>x \<in> set rows. P x \<and> key x = key r)"
  shows "unique_on P key (rows @ [r])"
  using assms by (auto simp: unique_on_def)

lemma unique_on_update:
  assumes "unique_on P key rows"
    and "\<And>r. r \<in> set rows \<Longrightarrow> Q r \<Longrightarrow> P (f r) = P r \<and> key (f r) = key r"
  shows "unique_on P key (update_where Q f rows)"
proof -
  from assms(2) have "map key (filter P (update_where Q f rows)) = map key (filter P rows)"
    by (induction rows) auto
  with assms(1) show ?thesis by (simp add: unique_on_def)
qed

lemma unique_on_select_iff:
  assumes "unique_on P key rows"
  shows "select_one (\<lambda>x. key x = k \<and> P x) rows = Some r \<longleftrightarrow> r \<in> set rows \<and> P r \<and> key r = k"
  using assms unique_on_select [OF assms] by (auto dest: select_one_SomeD)

lemma count_where_unique_le:
  assumes "unique_on P key rows"
  shows "count_where (\<lambda>x. P x \<and> key x = k) rows \<le> 1"
  using assms
proof (induction rows)
  case Nil
  then show ?case by simp
next
  case (Cons r rows)
  have "count_where (\<lambda>x. P x \<and> key x = k) rows = 0" if "P r" "key r = k"
  proof -
    from Cons.prems that have "k \<notin> key ` set (filter P rows)" by (simp add: unique_on_def)
    then show ?thesis by (auto simp: count_where_def filter_empty_conv)
  qed
  moreover from Cons.prems have "unique_on P key rows"
    by (auto simp: unique_on_def split: if_splits)
  ultimately show ?case using Cons.IH by auto
qed

end
