(* ===== verification/Rx.thy ===== *)
theory Rx
  imports Main
begin

text \<open>
  The part of Python's \<open>re\<close> the sources use: patterns over character ranges, sequences,
  alternatives, repetition (\<open>*\<close>, \<open>+\<close>, \<open>?\<close>, \<open>{n,m}\<close>) and the negative look-ahead of the trace
  context grammar (as a complement). Every use in the sources is \<open>fullmatch\<close>, which is
  membership of the whole string in the pattern's language. \<open>fullmatch\<close> computes with
  derivatives and \<open>fullmatch_lang\<close> shows it decides \<open>lang\<close>.
\<close>

datatype rx =
    Zero
  | Eps
  | Cls "(char \<times> char) list"
  | Seq rx rx
  | Alt rx rx
  | Star rx
  | Rep nat nat rx
  | Neg rx

definition Plus :: "rx \<Rightarrow> rx" where
  "Plus r = Seq r (Star r)"

definition Opt :: "rx \<Rightarrow> rx" where
  "Opt r = Alt r Eps"

fun Lit :: "string \<Rightarrow> rx" where
  "Lit [] = Eps"
| "Lit [c] = Cls [(c, c)]"
| "Lit (c # cs) = Seq (Cls [(c, c)]) (Lit cs)"

definition in_range :: "char \<Rightarrow> char \<times> char \<Rightarrow> bool" where
  "in_range c lh = ((of_char (fst lh) :: nat) \<le> of_char c \<and> (of_char c :: nat) \<le> of_char (snd lh))"

definition in_cls :: "char \<Rightarrow> (char \<times> char) list \<Rightarrow> bool" where
  "in_cls c rs = list_ex (in_range c) rs"

section \<open>The language of a pattern\<close>

definition conc :: "string set \<Rightarrow> string set \<Rightarrow> string set" where
  "conc A B = {u @ v | u v. u \<in> A \<and> v \<in> B}"

fun pow :: "string set \<Rightarrow> nat \<Rightarrow> string set" where
  "pow A 0 = {[]}"
| "pow A (Suc n) = conc A (pow A n)"

fun lang :: "rx \<Rightarrow> string set" where
  "lang Zero = {}"
| "lang Eps = {[]}"
| "lang (Cls rs) = {[c] | c. in_cls c rs}"
| "lang (Seq r s) = conc (lang r) (lang s)"
| "lang (Alt r s) = lang r \<union> lang s"
| "lang (Star r) = (\<Union>n. pow (lang r) n)"
| "lang (Rep n m r) = (\<Union>k \<in> {n..m}. pow (lang r) k)"
| "lang (Neg r) = - lang r"

section \<open>The matcher\<close>

fun nullable :: "rx \<Rightarrow> bool" where
  "nullable Zero = False"
| "nullable Eps = True"
| "nullable (Cls rs) = False"
| "nullable (Seq r s) = (nullable r \<and> nullable s)"
| "nullable (Alt r s) = (nullable r \<or> nullable s)"
| "nullable (Star r) = True"
| "nullable (Rep n m r) = (n \<le> m \<and> (n = 0 \<or> nullable r))"
| "nullable (Neg r) = (\<not> nullable r)"

fun seq :: "rx \<Rightarrow> rx \<Rightarrow> rx" where
  "seq Zero s = Zero"
| "seq Eps s = s"
| "seq r s = Seq r s"

fun alt :: "rx \<Rightarrow> rx \<Rightarrow> rx" where
  "alt Zero s = s"
| "alt r Zero = r"
| "alt r s = (if r = s then r else Alt r s)"

fun deriv :: "char \<Rightarrow> rx \<Rightarrow> rx" where
  "deriv c Zero = Zero"
| "deriv c Eps = Zero"
| "deriv c (Cls rs) = (if in_cls c rs then Eps else Zero)"
| "deriv c (Seq r s) =
     (if nullable r then alt (seq (deriv c r) s) (deriv c s) else seq (deriv c r) s)"
| "deriv c (Alt r s) = alt (deriv c r) (deriv c s)"
| "deriv c (Star r) = seq (deriv c r) (Star r)"
| "deriv c (Rep n m r) = (if m = 0 \<or> m < n then Zero else seq (deriv c r) (Rep (n - 1) (m - 1) r))"
| "deriv c (Neg r) = Neg (deriv c r)"

fun fullmatch :: "rx \<Rightarrow> string \<Rightarrow> bool" where
  "fullmatch r [] = nullable r"
| "fullmatch r (c # cs) = fullmatch (deriv c r) cs"

section \<open>The matcher decides the language\<close>

definition left_quot :: "char \<Rightarrow> string set \<Rightarrow> string set" where
  "left_quot c A = {w. c # w \<in> A}"

lemma conc_iff: "w \<in> conc A B \<longleftrightarrow> (\<exists>u v. w = u @ v \<and> u \<in> A \<and> v \<in> B)"
  by (auto simp: conc_def)

lemma Nil_in_conc [simp]: "[] \<in> conc A B \<longleftrightarrow> [] \<in> A \<and> [] \<in> B"
  by (auto simp: conc_def)

lemma conc_empty [simp]: "conc {} B = {}" "conc {[]} B = B"
  by (auto simp: conc_def)

lemma Nil_in_pow: "[] \<in> pow A n \<longleftrightarrow> n = 0 \<or> [] \<in> A"
  by (induction n) auto

lemma nullable_lang: "nullable r \<longleftrightarrow> [] \<in> lang r"
  by (induction r) (auto simp: Nil_in_pow)

lemma left_quot_conc:
  "left_quot c (conc A B) = conc (left_quot c A) B \<union> (if [] \<in> A then left_quot c B else {})"
proof (rule set_eqI)
  fix w
  have "c # w \<in> conc A B \<longleftrightarrow>
      (\<exists>u v. w = u @ v \<and> c # u \<in> A \<and> v \<in> B) \<or> ([] \<in> A \<and> c # w \<in> B)"
    by (auto simp: conc_iff Cons_eq_append_conv)
  then show "w \<in> left_quot c (conc A B) \<longleftrightarrow>
      w \<in> conc (left_quot c A) B \<union> (if [] \<in> A then left_quot c B else {})"
    by (auto simp: left_quot_def conc_iff)
qed

lemma conc_mono_right: "B \<subseteq> C \<Longrightarrow> conc A B \<subseteq> conc A C"
  by (auto simp only: conc_iff subset_iff)

lemma pow_Suc_nullable: "[] \<in> A \<Longrightarrow> pow A n \<subseteq> pow A (Suc n)"
  by (metis append_Nil conc_iff pow.simps(2) subsetI)

lemma left_quot_pow: "left_quot c (pow A (Suc n)) = conc (left_quot c A) (pow A n)"
proof (induction n)
  case 0
  then show ?case by (auto simp: left_quot_conc) (auto simp: left_quot_def)
next
  case (Suc n)
  have "left_quot c (pow A (Suc (Suc n))) =
      conc (left_quot c A) (pow A (Suc n)) \<union> (if [] \<in> A then left_quot c (pow A (Suc n)) else {})"
    by (simp only: pow.simps(2) [of A "Suc n"] left_quot_conc)
  moreover have "left_quot c (pow A (Suc n)) \<subseteq> conc (left_quot c A) (pow A (Suc n))" if "[] \<in> A"
    unfolding Suc.IH by (rule conc_mono_right) (rule pow_Suc_nullable [OF that])
  ultimately show ?case by auto
qed

lemma left_quot_pow_0 [simp]: "left_quot c (pow A 0) = {}"
  by (simp add: left_quot_def)

lemma left_quot_UN: "left_quot c (\<Union>k \<in> K. F k) = (\<Union>k \<in> K. left_quot c (F k))"
  by (auto simp: left_quot_def)

lemma conc_UN: "conc A (\<Union>k \<in> K. F k) = (\<Union>k \<in> K. conc A (F k))"
  by (rule set_eqI) (auto simp only: conc_iff UN_iff)

lemma left_quot_star: "left_quot c (\<Union>n. pow A n) = conc (left_quot c A) (\<Union>n. pow A n)"
proof -
  have "left_quot c (\<Union>n. pow A n) = (\<Union>n. left_quot c (pow A n))"
    by (rule left_quot_UN)
  also have "\<dots> = (\<Union>n. left_quot c (pow A (Suc n)))"
    by (rule subset_antisym; rule UN_least) (metis UNIV_I UN_upper empty_subsetI left_quot_pow_0 not0_implies_Suc, blast)
  finally show ?thesis by (simp only: left_quot_pow conc_UN)
qed

lemma left_quot_rep:
  assumes "n \<le> m" "m \<noteq> 0"
  shows "left_quot c (\<Union>k \<in> {n..m}. pow A k) = conc (left_quot c A) (\<Union>k \<in> {n - 1..m - 1}. pow A k)"
proof -
  have "left_quot c (\<Union>k \<in> {n..m}. pow A k) = (\<Union>k \<in> {n..m}. left_quot c (pow A k))"
    by (rule left_quot_UN)
  also have "\<dots> = (\<Union>k \<in> {n - 1..m - 1}. left_quot c (pow A (Suc k)))"
  proof (rule set_eqI, rule iffI)
    fix w assume "w \<in> (\<Union>k \<in> {n..m}. left_quot c (pow A k))"
    then obtain k where k: "n \<le> k" "k \<le> m" and w: "w \<in> left_quot c (pow A k)" by auto
    from w obtain j where j: "k = Suc j" by (cases k) (auto simp: left_quot_def)
    from k j have "j \<in> {n - 1..m - 1}" by auto
    with w j show "w \<in> (\<Union>k \<in> {n - 1..m - 1}. left_quot c (pow A (Suc k)))" by blast
  next
    fix w assume "w \<in> (\<Union>k \<in> {n - 1..m - 1}. left_quot c (pow A (Suc k)))"
    then obtain j where j: "n - 1 \<le> j" "j \<le> m - 1" and w: "w \<in> left_quot c (pow A (Suc j))" by auto
    from j assms have "Suc j \<in> {n..m}" by auto
    with w show "w \<in> (\<Union>k \<in> {n..m}. left_quot c (pow A k))" by blast
  qed
  finally show ?thesis by (simp only: left_quot_pow conc_UN)
qed

lemma lang_seq [simp]: "lang (seq r s) = conc (lang r) (lang s)"
  by (cases r) simp_all

lemma lang_alt [simp]: "lang (alt r s) = lang r \<union> lang s"
  by (induction r s rule: alt.induct) auto

lemma lang_deriv: "lang (deriv c r) = left_quot c (lang r)"
proof (induction r)
  case (Cls rs)
  then show ?case by (auto simp: left_quot_def)
next
  case (Seq r s)
  then show ?case by (auto simp: left_quot_conc nullable_lang)
next
  case (Alt r s)
  then show ?case by (auto simp: left_quot_def)
next
  case (Star r)
  then show ?case by (simp only: deriv.simps lang_seq lang.simps left_quot_star)
next
  case (Rep n m r)
  show ?case
  proof (cases "m = 0 \<or> m < n")
    case True
    then show ?thesis by (auto simp: left_quot_def)
  next
    case False
    then have "lang (deriv c (Rep n m r)) = conc (left_quot c (lang r)) (\<Union>k \<in> {n - 1..m - 1}. pow (lang r) k)"
      using Rep by simp
    also have "\<dots> = left_quot c (\<Union>k \<in> {n..m}. pow (lang r) k)"
      using False by (intro left_quot_rep [symmetric]) auto
    finally show ?thesis by simp
  qed
qed (auto simp: left_quot_def)

theorem fullmatch_lang: "fullmatch r s \<longleftrightarrow> s \<in> lang r"
proof (induction s arbitrary: r)
  case Nil
  then show ?case by (simp add: nullable_lang)
next
  case (Cons c cs)
  then show ?case by (simp add: lang_deriv left_quot_def)
qed

section \<open>Reading a match\<close>

lemma fullmatch_Seq: "fullmatch (Seq r s) w \<longleftrightarrow> (\<exists>u v. w = u @ v \<and> fullmatch r u \<and> fullmatch s v)"
  by (simp add: fullmatch_lang conc_iff)

lemma fullmatch_Alt: "fullmatch (Alt r s) w \<longleftrightarrow> fullmatch r w \<or> fullmatch s w"
  by (simp add: fullmatch_lang)

lemma fullmatch_Neg: "fullmatch (Neg r) w \<longleftrightarrow> \<not> fullmatch r w"
  by (simp add: fullmatch_lang)

lemma in_cls_single [simp]: "in_cls d [(c, c)] \<longleftrightarrow> d = c"
proof -
  have "(of_char d :: nat) = of_char c \<longleftrightarrow> d = c" by simp
  then show ?thesis by (auto simp add: in_cls_def in_range_def)
qed

lemma conc_singletons: "conc {[c]} {w} = {c # w}"
  by (simp add: conc_def)

lemma lang_Lit: "lang (Lit w) = {w}"
  by (induction w rule: Lit.induct) (simp_all add: conc_singletons)

lemma fullmatch_Lit: "fullmatch (Lit p) w \<longleftrightarrow> w = p"
  by (simp add: fullmatch_lang lang_Lit)

text \<open>The characters a pattern without a complement can match.\<close>

fun chars_ok :: "(char \<Rightarrow> bool) \<Rightarrow> rx \<Rightarrow> bool" where
  "chars_ok P Zero = True"
| "chars_ok P Eps = True"
| "chars_ok P (Cls rs) = (\<forall>c. in_cls c rs \<longrightarrow> P c)"
| "chars_ok P (Seq r s) = (chars_ok P r \<and> chars_ok P s)"
| "chars_ok P (Alt r s) = (chars_ok P r \<and> chars_ok P s)"
| "chars_ok P (Star r) = chars_ok P r"
| "chars_ok P (Rep n m r) = chars_ok P r"
| "chars_ok P (Neg r) = False"

lemma pow_chars: "(\<And>w. w \<in> A \<Longrightarrow> list_all P w) \<Longrightarrow> w \<in> pow A n \<Longrightarrow> list_all P w"
  by (induction n arbitrary: w) (auto simp: conc_iff)

lemma chars_ok_lang: "chars_ok P r \<Longrightarrow> w \<in> lang r \<Longrightarrow> list_all P w"
proof (induction r arbitrary: w)
  case (Seq r s)
  then show ?case by (auto simp: conc_iff)
next
  case (Star r)
  then show ?case by (auto intro: pow_chars [of "lang r"])
next
  case (Rep n m r)
  then show ?case by (auto intro: pow_chars [of "lang r"])
qed auto

lemma fullmatch_chars: "fullmatch r w \<Longrightarrow> chars_ok P r \<Longrightarrow> list_all P w"
  by (simp add: fullmatch_lang chars_ok_lang)

text \<open>Repetitions of one character class.\<close>

lemma pow_Cls: "w \<in> pow (lang (Cls rs)) n \<longleftrightarrow> length w = n \<and> list_all (\<lambda>c. in_cls c rs) w"
proof (induction n arbitrary: w)
  case (Suc n)
  have "w \<in> pow (lang (Cls rs)) (Suc n) \<longleftrightarrow> (\<exists>u v. w = u @ v \<and> u \<in> lang (Cls rs) \<and> v \<in> pow (lang (Cls rs)) n)"
    by (simp only: pow.simps conc_iff)
  also have "\<dots> \<longleftrightarrow> (\<exists>c v. w = c # v \<and> in_cls c rs \<and> length v = n \<and> list_all (\<lambda>c. in_cls c rs) v)"
    unfolding Suc.IH by (auto, metis append_Cons append_Nil)
  also have "\<dots> \<longleftrightarrow> length w = Suc n \<and> list_all (\<lambda>c. in_cls c rs) w"
    by (cases w) auto
  finally show ?case .
qed auto

lemma fullmatch_Star_Cls: "fullmatch (Star (Cls rs)) w \<longleftrightarrow> list_all (\<lambda>c. in_cls c rs) w"
  unfolding fullmatch_lang lang.simps(6) UN_iff pow_Cls by blast

lemma fullmatch_Rep_Cls:
  "fullmatch (Rep n m (Cls rs)) w \<longleftrightarrow> n \<le> length w \<and> length w \<le> m \<and> list_all (\<lambda>c. in_cls c rs) w"
  unfolding fullmatch_lang lang.simps(7) UN_iff pow_Cls by auto

lemma fullmatch_Cls_Seq: "fullmatch (Seq (Cls rs) r) w \<longleftrightarrow> (\<exists>c cs. w = c # cs \<and> in_cls c rs \<and> fullmatch r cs)"
  unfolding fullmatch_Seq by (auto simp: fullmatch_lang) (metis append_Cons append_Nil)

end
