(* ===== verification/Py.thy ===== *)
theory Py
  imports Main
begin

text \<open>
  The Python values and library functions the sources use: JSON documents as the parsers receive
  them, the \<open>str\<close> methods, \<open>int()\<close>, \<open>str()\<close> of an integer, \<open>uuid.UUID\<close> and instants. A \<open>str\<close> is a
  list of characters; the character predicates are Python's own on the code points below 256,
  which is what a character of the model can be.
\<close>

section \<open>JSON documents\<close>

text \<open>
  What \<open>json.loads\<close> returns. An object is its members in order; the decoder never leaves two
  members with one name. A \<open>float\<close> is kept as the text it prints as.
\<close>

datatype json =
    JNull
  | JBool bool
  | JInt int
  | JFloat string
  | JStr string
  | JArr "json list"
  | JObj "(string \<times> json) list"

fun is_obj :: "json \<Rightarrow> bool" where
  "is_obj (JObj _) = True"
| "is_obj _ = False"

fun is_jstr :: "json \<Rightarrow> bool" where
  "is_jstr (JStr _) = True"
| "is_jstr _ = False"

fun members :: "json \<Rightarrow> (string \<times> json) list" where
  "members (JObj ms) = ms"
| "members _ = []"

definition has_key :: "json \<Rightarrow> string \<Rightarrow> bool" where
  "has_key v k = (map_of (members v) k \<noteq> None)"

text \<open>\<open>d.get(k)\<close>: the member, or \<open>None\<close> when it is absent.\<close>

definition jget :: "json \<Rightarrow> string \<Rightarrow> json" where
  "jget v k = (case map_of (members v) k of None \<Rightarrow> JNull | Some x \<Rightarrow> x)"

text \<open>A positive \<open>int\<close> that is not a \<open>bool\<close> (which Python counts as an \<open>int\<close>).\<close>

fun positive_int :: "json \<Rightarrow> int option" where
  "positive_int (JInt i) = (if i < 1 then None else Some i)"
| "positive_int _ = None"

section \<open>Characters and strings\<close>

definition code :: "char \<Rightarrow> nat" where
  "code c = of_char c"

definition py_isspace :: "char \<Rightarrow> bool" where
  "py_isspace c = (let n = code c in (9 \<le> n \<and> n \<le> 13) \<or> (28 \<le> n \<and> n \<le> 32) \<or> n = 133 \<or> n = 160)"

definition py_strip :: "string \<Rightarrow> string" where
  "py_strip s = rev (dropWhile py_isspace (rev (dropWhile py_isspace s)))"

text \<open>\<open>bool(s.strip())\<close>\<close>

definition nonblank :: "string \<Rightarrow> bool" where
  "nonblank s = list_ex (\<lambda>c. \<not> py_isspace c) s"

definition starts_with :: "string \<Rightarrow> string \<Rightarrow> bool" where
  "starts_with s p = (take (length p) s = p)"

definition remove_prefix :: "string \<Rightarrow> string \<Rightarrow> string" where
  "remove_prefix s p = (if starts_with s p then drop (length p) s else s)"

definition upper_char :: "char \<Rightarrow> bool" where
  "upper_char c = (let n = code c in (65 \<le> n \<and> n \<le> 90) \<or> (192 \<le> n \<and> n \<le> 222 \<and> n \<noteq> 215))"

definition lower_char :: "char \<Rightarrow> bool" where
  "lower_char c = (let n = code c in (97 \<le> n \<and> n \<le> 122) \<or> n = 170 \<or> n = 181 \<or> n = 186 \<or> (223 \<le> n \<and> n \<noteq> 247))"

definition py_isupper :: "string \<Rightarrow> bool" where
  "py_isupper s = (list_ex upper_char s \<and> \<not> list_ex lower_char s)"

definition to_lower :: "char \<Rightarrow> char" where
  "to_lower c = (if upper_char c then char_of (code c + 32) else c)"

definition py_lower :: "string \<Rightarrow> string" where
  "py_lower s = map to_lower s"

text \<open>
  \<open>s.upper()\<close>. The two code points whose capital lies above 255 (181 and 255) are left as they are;
  the sources only compare the result with ASCII names.
\<close>

definition to_upper :: "char \<Rightarrow> string" where
  "to_upper c = (let n = code c in
     if n = 223 then ''SS''
     else if lower_char c \<and> n \<noteq> 170 \<and> n \<noteq> 181 \<and> n \<noteq> 186 \<and> n \<noteq> 255 then [char_of (n - 32)] else [c])"

definition py_upper :: "string \<Rightarrow> string" where
  "py_upper s = concat (map to_upper s)"

definition digit_char :: "char \<Rightarrow> bool" where
  "digit_char c = (48 \<le> code c \<and> code c \<le> 57)"

text \<open>\<open>str.isdigit\<close> also accepts the superscripts one, two and three, which \<open>int()\<close> refuses.\<close>

definition py_isdigit :: "string \<Rightarrow> bool" where
  "py_isdigit s = (s \<noteq> [] \<and> list_all (\<lambda>c. digit_char c \<or> code c \<in> {178, 179, 185}) s)"

text \<open>\<open>s.replace(p, "")\<close> for a non-empty \<open>p\<close>; the counter skips the rest of an occurrence.\<close>

fun remove_all :: "string \<Rightarrow> nat \<Rightarrow> string \<Rightarrow> string" where
  "remove_all p k [] = []"
| "remove_all p (Suc k) (c # cs) = remove_all p k cs"
| "remove_all p 0 (c # cs) =
     (if starts_with (c # cs) p then remove_all p (length p - 1) cs else c # remove_all p 0 cs)"

text \<open>\<open>s.replace(p, q)\<close>\<close>

fun replace_all :: "string \<Rightarrow> string \<Rightarrow> nat \<Rightarrow> string \<Rightarrow> string" where
  "replace_all p q k [] = []"
| "replace_all p q (Suc k) (c # cs) = replace_all p q k cs"
| "replace_all p q 0 (c # cs) =
     (if starts_with (c # cs) p then q @ replace_all p q (length p - 1) cs else c # replace_all p q 0 cs)"

definition strip_chars :: "string \<Rightarrow> string \<Rightarrow> string" where
  "strip_chars cs s = rev (dropWhile (\<lambda>c. c \<in> set cs) (rev (dropWhile (\<lambda>c. c \<in> set cs) s)))"

fun join :: "string \<Rightarrow> string list \<Rightarrow> string" where
  "join sep [] = []"
| "join sep [s] = s"
| "join sep (s # ss) = s @ sep @ join sep ss"

text \<open>\<open>s.split(c)\<close> for a one-character separator\<close>

fun split_on :: "char \<Rightarrow> string \<Rightarrow> string list" where
  "split_on c [] = [[]]"
| "split_on c (d # ds) =
     (if d = c then [] # split_on c ds
      else (case split_on c ds of [] \<Rightarrow> [[d]] | w # ws \<Rightarrow> (d # w) # ws))"

section \<open>Integers as text\<close>

fun show_nat :: "nat \<Rightarrow> string" where
  "show_nat n = (if n < 10 then [char_of (48 + n)] else show_nat (n div 10) @ [char_of (48 + n mod 10)])"

declare show_nat.simps [simp del]

definition show_int :: "int \<Rightarrow> string" where
  "show_int i = (if i < 0 then ''-'' @ show_nat (nat (- i)) else show_nat (nat i))"

definition digit_val :: "char \<Rightarrow> nat option" where
  "digit_val c = (let n = code c in
     if 48 \<le> n \<and> n \<le> 57 then Some (n - 48)
     else if 97 \<le> n \<and> n \<le> 122 then Some (n - 87)
     else if 65 \<le> n \<and> n \<le> 90 then Some (n - 55) else None)"

text \<open>Digits with single underscores between them; \<open>ok\<close> says the last character was a digit.\<close>

fun read_digits :: "nat \<Rightarrow> nat \<Rightarrow> bool \<Rightarrow> string \<Rightarrow> nat option" where
  "read_digits base acc ok [] = (if ok then Some acc else None)"
| "read_digits base acc ok (c # cs) =
     (if c = CHR ''_'' then (if ok then read_digits base acc False cs else None)
      else case digit_val c of
        None \<Rightarrow> None
      | Some d \<Rightarrow> if d < base then read_digits base (acc * base + d) True cs else None)"

definition split_sign :: "string \<Rightarrow> bool \<times> string" where
  "split_sign s = (if starts_with s ''-'' then (True, tl s)
                   else if starts_with s ''+'' then (False, tl s) else (False, s))"

definition drop_hex_prefix :: "string \<Rightarrow> string" where
  "drop_hex_prefix s = (if starts_with s ''0x'' \<or> starts_with s ''0X''
     then (if starts_with (drop 2 s) ''_'' then drop 3 s else drop 2 s) else s)"

definition max_str_digits :: nat where
  "max_str_digits = 4300"

text \<open>\<open>int(s)\<close> and \<open>int(s, 16)\<close>; \<open>None\<close> is the \<open>ValueError\<close>.\<close>

definition py_int :: "string \<Rightarrow> int option" where
  "py_int s = (let (neg, u) = split_sign (py_strip s) in
     if max_str_digits < length (filter (\<lambda>c. c \<noteq> CHR ''_'') u) then None
     else map_option (\<lambda>n. if neg then - int n else int n) (read_digits 10 0 False u))"

definition py_int16 :: "string \<Rightarrow> int option" where
  "py_int16 s = (let (neg, u) = split_sign (py_strip s) in
     map_option (\<lambda>n. if neg then - int n else int n) (read_digits 16 0 False (drop_hex_prefix u)))"

text \<open>
  \<open>str(v)\<close>. Of a list or an object only the brackets are modelled: the sources test such a text against
  words and numbers, which it never is.
\<close>

fun py_str :: "json \<Rightarrow> string" where
  "py_str JNull = ''None''"
| "py_str (JBool b) = (if b then ''True'' else ''False'')"
| "py_str (JInt i) = show_int i"
| "py_str (JFloat s) = s"
| "py_str (JStr s) = s"
| "py_str (JArr xs) = ''[...]''"
| "py_str (JObj ms) = ''{...}''"

section \<open>UUIDs\<close>

definition hex_char :: "nat \<Rightarrow> char" where
  "hex_char d = (if d < 10 then char_of (48 + d) else char_of (87 + d))"

fun hex_digits :: "nat \<Rightarrow> nat \<Rightarrow> string" where
  "hex_digits 0 n = []"
| "hex_digits (Suc k) n = hex_digits k (n div 16) @ [hex_char (n mod 16)]"

text \<open>\<open>str(uuid.UUID(int=n))\<close>\<close>

definition show_uuid :: "nat \<Rightarrow> string" where
  "show_uuid n = (let h = hex_digits 32 n in
     take 8 h @ ''-'' @ take 4 (drop 8 h) @ ''-'' @ take 4 (drop 12 h) @ ''-'' @ take 4 (drop 16 h) @ ''-'' @ drop 20 h)"

text \<open>\<open>uuid.UUID(s)\<close>: the prefixes, braces and hyphens are dropped wherever they stand, the rest is 32 hexadecimal digits.\<close>

definition uuid_of :: "string \<Rightarrow> nat option" where
  "uuid_of s = (let h = remove_all ''-'' 0 (strip_chars ''{}'' (remove_all ''uuid:'' 0 (remove_all ''urn:'' 0 s))) in
     if length h \<noteq> 32 then None
     else case py_int16 h of
       None \<Rightarrow> None
     | Some i \<Rightarrow> if 0 \<le> i \<and> i < 2 ^ 128 then Some (nat i) else None)"

text \<open>\<open>str(uuid.UUID(str(v)))\<close>. The text of an array, an object or a float never reads as a UUID.\<close>

fun uuid_text :: "json \<Rightarrow> string option" where
  "uuid_text (JStr s) = map_option show_uuid (uuid_of s)"
| "uuid_text (JInt i) = map_option show_uuid (uuid_of (show_int i))"
| "uuid_text _ = None"

section \<open>Instants\<close>

text \<open>
  A timezone-aware \<open>datetime\<close> is its instant in microseconds since the epoch; the sources only
  compare and subtract them. A parsed \<open>datetime\<close> may be naive, which every caller rejects.
\<close>

type_synonym instant = int

datatype datetime = Aware instant | Naive int

definition seconds :: "int \<Rightarrow> int" where
  "seconds n = n * 1000000"

definition hours :: "int \<Rightarrow> int" where
  "hours n = seconds (3600 * n)"

text \<open>
  The library functions the model takes as arguments: the ISO 8601 reader and printer of
  \<open>datetime\<close>, \<open>strftime\<close> and \<open>strptime\<close> with the format \<open>%Y-%m-%dT%H:%M:%SZ\<close>, the scheme \<open>urlsplit\<close> reads (\<open>None\<close> when it raises \<open>ValueError\<close>), the JSON reader and
  its canonical printer, the hash functions and \<open>uuid.uuid5\<close>.
\<close>

record pylib =
  fromisoformat :: "string \<Rightarrow> datetime option"
  isoformat :: "instant \<Rightarrow> string"
  strftime_z :: "instant \<Rightarrow> string"
  strptime_z :: "string \<Rightarrow> instant option"
  url_scheme :: "string \<Rightarrow> string option"
  json_loads :: "string \<Rightarrow> json option"
  json_dumps :: "json \<Rightarrow> string"
  json_dumps_unicode :: "json \<Rightarrow> string"
  sha256_hex :: "string \<Rightarrow> string"
  hmac_sha256_hex :: "string \<Rightarrow> string \<Rightarrow> string"
  uuid5 :: "nat \<Rightarrow> string \<Rightarrow> nat"

text \<open>\<open>t.astimezone(UTC).isoformat().replace("+00:00", "Z")\<close>, and the reading the sources pair with it.\<close>

definition utc_z :: "('x) pylib_scheme \<Rightarrow> instant \<Rightarrow> string" where
  "utc_z L t = replace_all ''+00:00'' ''Z'' 0 (isoformat L t)"

definition read_instant :: "('x) pylib_scheme \<Rightarrow> string \<Rightarrow> datetime option" where
  "read_instant L s = fromisoformat L (replace_all ''Z'' ''+00:00'' 0 s)"

section \<open>Facts\<close>

lemma split_on_nonempty [simp]: "split_on c s \<noteq> []"
  by (induction s) (auto split: list.splits)

lemma split_on_absent: "c \<notin> set s \<Longrightarrow> split_on c s = [s]"
  by (induction s) auto

lemma split_on_append: "c \<notin> set s \<Longrightarrow> split_on c (s @ c # t) = s # split_on c t"
  by (induction s) auto

lemma code_eq_iff [simp]: "code c = code d \<longleftrightarrow> c = d"
  by (simp add: code_def)

lemma nonblank_Nil [simp]: "\<not> nonblank []"
  by (simp add: nonblank_def)

lemma dropWhile_isspace_empty: "dropWhile py_isspace s = [] \<longleftrightarrow> list_all py_isspace s"
  by (simp add: list_all_iff)

lemma nonblank_strip: "nonblank s \<longleftrightarrow> py_strip s \<noteq> []"
proof -
  have "py_strip s = [] \<longleftrightarrow> list_all py_isspace (dropWhile py_isspace s)"
    by (simp add: py_strip_def list_all_iff)
  also have "\<dots> \<longleftrightarrow> list_all py_isspace s"
    by (induction s) auto
  also have "\<dots> \<longleftrightarrow> \<not> nonblank s"
    by (induction s) (auto simp: nonblank_def)
  finally show ?thesis by blast
qed

lemma replace_all_absent: "p \<noteq> [] \<Longrightarrow> hd p \<notin> set s \<Longrightarrow> replace_all p q 0 s = s"
  by (induction s) (auto simp: starts_with_def neq_Nil_conv)

lemma replace_all_last:
  assumes "p \<noteq> []" "hd p \<notin> set s"
  shows "replace_all p q 0 (s @ p) = s @ q"
  using assms(2)
proof (induction s)
  case Nil
  have skip: "replace_all p q (length cs) cs = []" for cs by (induction cs) auto
  from assms(1) skip [of "tl p"] show ?case by (cases p) (auto simp: starts_with_def)
next
  case (Cons c cs)
  with assms(1) show ?case by (auto simp: starts_with_def neq_Nil_conv)
qed

text \<open>
  The documented behaviour of the ISO 8601 pair on an instant: a UTC text ends in its offset, holds
  no other plus sign and no letter Z, and reads back as the instant.
\<close>

definition iso_law :: "('x) pylib_scheme \<Rightarrow> instant \<Rightarrow> bool" where
  "iso_law L t \<longleftrightarrow> fromisoformat L (isoformat L t) = Some (Aware t)
     \<and> (\<exists>s. isoformat L t = s @ ''+00:00'' \<and> CHR ''+'' \<notin> set s \<and> CHR ''Z'' \<notin> set s)"

lemma read_utc_z: "iso_law L t \<Longrightarrow> read_instant L (utc_z L t) = Some (Aware t)"
  unfolding iso_law_def
  by (elim conjE exE) (simp add: read_instant_def utc_z_def replace_all_last del: replace_all.simps)

lemma nonblank_nonempty: "nonblank s \<Longrightarrow> s \<noteq> []"
  by auto

lemma length_hex_digits [simp]: "length (hex_digits k n) = k"
  by (induction k arbitrary: n) auto

lemma length_show_uuid [simp]: "length (show_uuid n) = 36"
  by (simp add: show_uuid_def Let_def)

lemma code_char_of: "n < 256 \<Longrightarrow> code (char_of n) = n"
  by (simp add: code_def)

lemma digit_val_hex_char: "d < 16 \<Longrightarrow> digit_val (hex_char d) = Some d"
  by (simp add: hex_char_def digit_val_def code_char_of Let_def)

lemma read_digits_hex:
  "n < 16 ^ k \<Longrightarrow> read_digits 16 acc ok (hex_digits k n @ rest) = read_digits 16 (acc * 16 ^ k + n) (ok \<or> k \<noteq> 0) rest"
proof (induction k arbitrary: n acc rest)
  case 0
  then show ?case by simp
next
  case (Suc k)
  have "n div 16 < 16 ^ k" using Suc.prems by (simp add: less_mult_imp_div_less mult.commute)
  moreover have "hex_char (n mod 16) \<noteq> CHR ''_''"
    using digit_val_hex_char [of "n mod 16"] by (auto simp: digit_val_def code_def)
  ultimately show ?case
    using digit_val_hex_char [of "n mod 16"] by (simp add: Suc.IH algebra_simps)
qed

definition hex_low :: "char \<Rightarrow> bool" where
  "hex_low c = ((48 \<le> code c \<and> code c \<le> 57) \<or> (97 \<le> code c \<and> code c \<le> 102))"

lemma hex_char_low: "d < 16 \<Longrightarrow> hex_low (hex_char d)"
  by (simp add: hex_char_def hex_low_def code_char_of)

lemma hex_digits_low: "list_all hex_low (hex_digits k n)"
  by (induction k arbitrary: n) (auto simp: hex_char_low)

lemma remove_all_absent: "p \<noteq> [] \<Longrightarrow> hd p \<notin> set s \<Longrightarrow> remove_all p 0 s = s"
  by (induction s) (auto simp: starts_with_def neq_Nil_conv)

lemma remove_all_char: "remove_all [c] 0 s = filter (\<lambda>d. d \<noteq> c) s"
  by (induction s) (auto simp: starts_with_def)

lemma dropWhile_ident: "list_all (\<lambda>c. \<not> P c) s \<Longrightarrow> dropWhile P s = s"
  by (cases s) auto

lemma hex_low_facts:
  "hex_low c \<Longrightarrow> c \<noteq> CHR ''u'' \<and> c \<noteq> CHR ''{'' \<and> c \<noteq> CHR ''}'' \<and> c \<noteq> CHR ''-'' \<and> c \<noteq> CHR ''+''
     \<and> c \<noteq> CHR ''x'' \<and> c \<noteq> CHR ''X'' \<and> \<not> py_isspace c"
  by (auto simp: hex_low_def py_isspace_def code_def Let_def)

lemma py_int16_hex:
  assumes "n < 16 ^ 32"
  shows "py_int16 (hex_digits 32 n) = Some (int n)"
proof -
  let ?h = "hex_digits 32 n"
  have low: "list_all hex_low ?h" by (rule hex_digits_low)
  then have nospace: "list_all (\<lambda>c. \<not> py_isspace c) ?h"
    by (auto simp: list_all_iff dest: hex_low_facts)
  have strip: "py_strip ?h = ?h"
    using nospace by (simp add: py_strip_def dropWhile_ident list_all_rev)
  have "2 \<le> length ?h" by simp
  then obtain a b t where h: "?h = a # b # t" by (cases ?h rule: remdups_adj.cases) simp_all
  from low h have ab: "hex_low a" "hex_low b" by auto
  have sign: "split_sign ?h = (False, ?h)"
    unfolding h using hex_low_facts [OF ab(1)] by (simp add: split_sign_def starts_with_def)
  have hex: "drop_hex_prefix ?h = ?h"
    unfolding h using hex_low_facts [OF ab(2)] by (simp add: drop_hex_prefix_def starts_with_def)
  from assms have "read_digits 16 0 False (?h @ []) = Some n"
    by (simp only: read_digits_hex) simp
  then show ?thesis by (simp add: py_int16_def strip sign hex)
qed

theorem uuid_roundtrip:
  assumes "n < 2 ^ 128"
  shows "uuid_of (show_uuid n) = Some n"
proof -
  let ?h = "hex_digits 32 n"
  have low: "list_all hex_low ?h" by (rule hex_digits_low)
  have ok: "c \<in> set (show_uuid n) \<Longrightarrow> hex_low c \<or> c = CHR ''-''" for c
    using low by (auto simp: show_uuid_def Let_def list_all_iff dest: in_set_takeD in_set_dropD)
  have absent: "CHR ''u'' \<notin> set (show_uuid n)"
    using ok by (fastforce dest: hex_low_facts)
  have braces: "list_all (\<lambda>c. c \<notin> set ''{}'') (show_uuid n)"
    using ok by (fastforce simp: list_all_iff dest: hex_low_facts)
  have kept: "filter (\<lambda>d. d \<noteq> CHR ''-'') (take i (drop j ?h)) = take i (drop j ?h)"
      "filter (\<lambda>d. d \<noteq> CHR ''-'') (drop j ?h) = drop j ?h" for i j
    using low by (auto simp: filter_id_conv list_all_iff dest!: in_set_takeD in_set_dropD dest: hex_low_facts)
  have "filter (\<lambda>d. d \<noteq> CHR ''-'') (show_uuid n) =
      take 8 (drop 0 ?h) @ take 4 (drop 8 ?h) @ take 4 (drop 12 ?h) @ take 4 (drop 16 ?h) @ drop 20 ?h"
    unfolding show_uuid_def Let_def filter_append kept using kept(1) [of 8 0] by simp
  also have "\<dots> = ?h"
    using append_take_drop_id [of 4 "drop 16 ?h"] append_take_drop_id [of 4 "drop 12 ?h"]
      append_take_drop_id [of 4 "drop 8 ?h"] append_take_drop_id [of 8 ?h] by simp
  finally have "remove_all ''-'' 0 (show_uuid n) = ?h" by (simp add: remove_all_char)
  moreover have "(2::nat) ^ 128 = 16 ^ 32" by simp
  ultimately show ?thesis
    using assms braces
    by (simp add: uuid_of_def remove_all_absent absent strip_chars_def dropWhile_ident list_all_rev
        py_int16_hex Let_def)
qed

lemma uuid_of_bound: "uuid_of s = Some n \<Longrightarrow> n < 2 ^ 128"
  by (auto simp: uuid_of_def Let_def nat_less_iff split: if_splits option.splits)

lemma uuid_text_canonical: "uuid_text v = Some u \<Longrightarrow> uuid_text (JStr u) = Some u"
  by (cases v) (auto simp: uuid_roundtrip dest: uuid_of_bound)

lemma positive_int_Some: "positive_int v = Some i \<longleftrightarrow> v = JInt i \<and> 1 \<le> i"
  by (cases v) auto

section \<open>A concrete library\<close>

text \<open>
  One instance of the library functions, on which the theorems that take them are applied: it knows
  one instant, reads every JSON text as the document given, and its hashes are constant.
\<close>

definition sample_lib :: "json \<Rightarrow> pylib" where
  "sample_lib j = \<lparr>fromisoformat = (\<lambda>s. if s = ''2026-01-01T00:00:00+00:00'' then Some (Aware 0) else None),
    isoformat = (\<lambda>t. ''2026-01-01T00:00:00+00:00''),
    strftime_z = (\<lambda>t. ''2026-01-01T00:00:00Z''), strptime_z = (\<lambda>s. if s = ''2026-01-01T00:00:00Z'' then Some 0 else None), url_scheme = (\<lambda>s. Some (takeWhile (\<lambda>c. c \<noteq> CHR '':'') s)),
    json_loads = (\<lambda>s. Some j), json_dumps = (\<lambda>v. []), json_dumps_unicode = (\<lambda>v. []), sha256_hex = (\<lambda>s. replicate 64 CHR ''0''),
    hmac_sha256_hex = (\<lambda>k b. ''00ff''), uuid5 = (\<lambda>n s. 0)\<rparr>"

lemma sample_lib_iso: "iso_law (sample_lib j) 0"
proof -
  have "isoformat (sample_lib j) 0 = ''2026-01-01T00:00:00'' @ ''+00:00''"
    "CHR ''+'' \<notin> set ''2026-01-01T00:00:00''" "CHR ''Z'' \<notin> set ''2026-01-01T00:00:00''"
    by (simp_all add: sample_lib_def)
  then have "\<exists>s. isoformat (sample_lib j) 0 = s @ ''+00:00'' \<and> CHR ''+'' \<notin> set s \<and> CHR ''Z'' \<notin> set s" by blast
  then show ?thesis unfolding iso_law_def by (simp add: sample_lib_def)
qed

end
