(* ===== verification/Identifiers.thy ===== *)
theory Identifiers
  imports Prelude Rx Py
begin

text \<open>
  The identifier grammars of \<open>modules/mapping/identifiers.py\<close> and the pair
  \<open>LegalEntityContext\<close> of \<open>modules/mapping/context.py\<close>, whose constructor checks both.
\<close>

definition lower_alnum :: rx where
  "lower_alnum = Cls [(CHR ''a'', CHR ''z''), (CHR ''0'', CHR ''9'')]"

definition upper_alnum :: rx where
  "upper_alnum = Cls [(CHR ''A'', CHR ''Z''), (CHR ''0'', CHR ''9'')]"

definition upper_letter :: rx where
  "upper_letter = Cls [(CHR ''A'', CHR ''Z'')]"

definition TENANT_ID :: rx where
  "TENANT_ID = Seq (Lit ''tn_'') (Plus lower_alnum)"

definition LEGAL_ENTITY_ID :: rx where
  "LEGAL_ENTITY_ID = Seq upper_letter (Seq (Star upper_alnum) (Star (Seq (Lit ''-'') (Plus upper_alnum))))"

definition MAPPING_ID :: rx where
  "MAPPING_ID = Seq (Lit ''map_'') (Plus lower_alnum)"

definition ERP_RESOURCE_ID :: rx where
  "ERP_RESOURCE_ID = Seq (Lit ''erp_'') (Plus lower_alnum)"

datatype identifier_error = IdentifierError string

fun check_identifier :: "json \<Rightarrow> rx \<Rightarrow> string \<Rightarrow> nat \<Rightarrow> nat \<Rightarrow> identifier_error + string" where
  "check_identifier (JStr v) pattern name low high =
     (if \<not> (low \<le> length v \<and> length v \<le> high) \<or> \<not> fullmatch pattern v then Inl (IdentifierError name) else Inr v)"
| "check_identifier _ pattern name low high = Inl (IdentifierError name)"

definition tenant_id :: "json \<Rightarrow> identifier_error + string" where
  "tenant_id v = check_identifier v TENANT_ID ''tenant_id'' 6 63"

definition legal_entity_id :: "json \<Rightarrow> identifier_error + string" where
  "legal_entity_id v = check_identifier v LEGAL_ENTITY_ID ''legal_entity_id'' 3 63"

definition mapping_id :: "json \<Rightarrow> identifier_error + string" where
  "mapping_id v = check_identifier v MAPPING_ID ''mapping_id'' 8 63"

definition erp_resource_id :: "json \<Rightarrow> identifier_error + string" where
  "erp_resource_id v = check_identifier v ERP_RESOURCE_ID ''erp_resource_id'' 8 63"

text \<open>The minted identifiers; \<open>hex\<close> is \<open>uuid.uuid4().hex\<close>.\<close>

definition new_mapping_id :: "string \<Rightarrow> string" where
  "new_mapping_id hex = ''map_'' @ hex"

definition new_erp_resource_id :: "string \<Rightarrow> string" where
  "new_erp_resource_id hex = ''erp_'' @ hex"

record legal_entity_context =
  lec_tenant_id :: string
  lec_legal_entity_id :: string

definition make_legal_entity_context :: "string \<Rightarrow> string \<Rightarrow> identifier_error + legal_entity_context" where
  "make_legal_entity_context tenant entity =
     bindE (tenant_id (JStr tenant)) (\<lambda>_.
     bindE (legal_entity_id (JStr entity)) (\<lambda>_.
     Inr \<lparr>lec_tenant_id = tenant, lec_legal_entity_id = entity\<rparr>))"

section \<open>Facts\<close>

lemma check_identifier_Inr:
  "check_identifier v p name low high = Inr s \<longleftrightarrow>
     v = JStr s \<and> low \<le> length s \<and> length s \<le> high \<and> fullmatch p s"
  by (cases v) auto

lemma tenant_id_Inr:
  "tenant_id v = Inr s \<longleftrightarrow> v = JStr s \<and> 6 \<le> length s \<and> length s \<le> 63 \<and> fullmatch TENANT_ID s"
  by (simp add: tenant_id_def check_identifier_Inr)

lemma legal_entity_id_Inr:
  "legal_entity_id v = Inr s \<longleftrightarrow> v = JStr s \<and> 3 \<le> length s \<and> length s \<le> 63 \<and> fullmatch LEGAL_ENTITY_ID s"
  by (simp add: legal_entity_id_def check_identifier_Inr)

lemmas identifier_Inr = tenant_id_Inr legal_entity_id_Inr

lemma tenant_id_Inl: "tenant_id v = Inl e \<Longrightarrow> e = IdentifierError ''tenant_id''"
  by (cases v) (auto simp: tenant_id_def split: if_splits)

definition plain_char :: "char \<Rightarrow> bool" where
  "plain_char c = (c \<noteq> CHR ''|'' \<and> c \<noteq> CHR '':'' \<and> code c \<noteq> 31)"

lemma plain_ranges:
  assumes "list_all (\<lambda>(l, h). code l \<ge> 97 \<and> code h \<le> 122 \<or> code l \<ge> 48 \<and> code h \<le> 57
      \<or> code l \<ge> 65 \<and> code h \<le> 95 \<or> code l = 45 \<and> code h = 45) rs" "in_cls c rs"
  shows "plain_char c"
proof -
  from assms(2) obtain l h where lh: "(l, h) \<in> set rs" "in_range c (l, h)"
    by (auto simp: in_cls_def list_ex_iff)
  with assms(1) have r: "code l \<ge> 97 \<and> code h \<le> 122 \<or> code l \<ge> 48 \<and> code h \<le> 57
      \<or> code l \<ge> 65 \<and> code h \<le> 95 \<or> code l = 45 \<and> code h = 45" by (auto simp: list_all_iff)
  from lh(2) have "code l \<le> code c" "code c \<le> code h" by (auto simp: in_range_def code_def)
  with r have "code c \<noteq> 124" "code c \<noteq> 58" "code c \<noteq> 31" by linarith+
  moreover have "code (CHR ''|'') = 124" "code (CHR '':'') = 58" by (simp_all add: code_def)
  ultimately show ?thesis unfolding plain_char_def by metis
qed

lemma identifier_patterns_plain:
  "chars_ok plain_char TENANT_ID" "chars_ok plain_char LEGAL_ENTITY_ID"
  unfolding TENANT_ID_def LEGAL_ENTITY_ID_def Plus_def lower_alnum_def upper_alnum_def upper_letter_def
  by (auto intro!: plain_ranges simp: code_def simp del: in_cls_single elim!: notE)

text \<open>
  No checked identifier holds a separator of the composite keys the program builds from them
  (\<open>|\<close>, \<open>:\<close>, unit separator), so such a key determines the identifiers it was built from.
\<close>

lemma tenant_id_plain: "tenant_id v = Inr s \<Longrightarrow> list_all plain_char s"
  using identifier_patterns_plain(1) by (auto simp: tenant_id_Inr dest: fullmatch_chars)

lemma legal_entity_id_plain: "legal_entity_id v = Inr s \<Longrightarrow> list_all plain_char s"
  using identifier_patterns_plain(2) by (auto simp: legal_entity_id_Inr dest: fullmatch_chars)

lemma separated_inject:
  assumes "a @ c # b = a' @ c # b'" "c \<notin> set a" "c \<notin> set a'"
  shows "a = a' \<and> b = b'"
  using assms
proof (induction a arbitrary: a')
  case Nil
  then show ?case by (cases a') auto
next
  case (Cons x xs)
  then show ?case by (cases a') auto
qed

lemma tenant_id_no_bar: "tenant_id v = Inr s \<Longrightarrow> CHR ''|'' \<notin> set s"
  by (drule tenant_id_plain) (auto simp: list_all_iff plain_char_def)

end
