(* ===== verification/Entity_Mapping.thy ===== *)
theory Entity_Mapping
  imports Identifiers
begin

text \<open>
  The canonical identity mapping: \<open>modules/mapping/model.py\<close>, the store over
  \<open>baobab.entity_mapping\<close> (\<open>modules/mapping/postgres_store.py\<close>) and the resolvers
  (\<open>modules/mapping/resolver.py\<close>). The state is the table, rows in the order of their serial id.
  The database is outside the sources: \<open>pg_uuid\<close> is its cast \<open>::uuid\<close> (\<open>None\<close> is the error the
  cast raises), the identifiers its column defaults mint are arguments of the insert, and the
  unique indexes of the migrations are part of the insert.
\<close>

section \<open>Data\<close>

record native_record_ref =
  ref_table :: string
  ref_record_id :: int

datatype mapping_status = Pending | Active | Suspended | Retired | Quarantined

definition CANONICAL_OWNERS :: "string set" where
  "CANONICAL_OWNERS =
     {''control-plane'', ''shared'', ''trade'', ''erp'', ''identity-provider'', ''payment-provider''}"

record canonical_reference =
  cr_owner :: string
  cr_resource_type :: string
  cr_resource_id :: string

record entity_map =
  m_mapping_id :: string
  m_tenant_id :: string
  m_legal_entity_id :: "string option"
  m_canonical_reference :: "canonical_reference option"
  m_erp_resource_id :: string
  m_status :: mapping_status
  m_revision :: int
  m_effective_from :: instant
  m_effective_to :: "instant option"
  m_replaces :: "string option"

text \<open>One row of \<open>baobab.entity_mapping\<close>; \<open>e_id\<close> is the serial key, \<open>e_canonical_id\<close> the UUID column.\<close>

record entity_row =
  e_id :: nat
  e_mapping_id :: string
  e_tenant :: string
  e_entity :: "string option"
  e_type :: string
  e_canonical_id :: nat
  e_owner :: "string option"
  e_table :: string
  e_native :: int
  e_erp_id :: string
  e_status :: mapping_status
  e_revision :: int
  e_from :: instant
  e_to :: "instant option"
  e_replaces :: "nat option"

datatype mapping_error =
    BadIdentifier string
  | UniqueViolation
  | DataError
  | MappingNotFound
  | NotPublishable

fun status_value :: "mapping_status \<Rightarrow> string" where
  "status_value Pending = ''pending''"
| "status_value Active = ''active''"
| "status_value Suspended = ''suspended''"
| "status_value Retired = ''retired''"
| "status_value Quarantined = ''quarantined''"

text \<open>\<open>Mapping.to_contract\<close>\<close>

definition to_contract :: "pylib \<Rightarrow> entity_map \<Rightarrow> mapping_error + json" where
  "to_contract L m =
     (case (m_legal_entity_id m, m_canonical_reference m) of
        (Some entity, Some reference) \<Rightarrow>
          Inr (JObj ([(''mapping_id'', JStr (m_mapping_id m)),
                      (''tenant_id'', JStr (m_tenant_id m)),
                      (''legal_entity_id'', JStr entity),
                      (''canonical_reference'', JObj [(''owner'', JStr (cr_owner reference)),
                                                    (''resource_type'', JStr (cr_resource_type reference)),
                                                    (''resource_id'', JStr (cr_resource_id reference))]),
                      (''erp_resource_id'', JStr (m_erp_resource_id m)),
                      (''status'', JStr (status_value (m_status m))),
                      (''revision'', JInt (m_revision m)),
                      (''effective_from'', JStr (isoformat L (m_effective_from m)))]
                @ (case m_effective_to m of None \<Rightarrow> [] | Some t \<Rightarrow> [(''effective_to'', JStr (isoformat L t))])
                @ (case m_replaces m of None \<Rightarrow> [] | Some r \<Rightarrow> [(''replaces_mapping_id'', JStr r)])))
      | _ \<Rightarrow> Inl NotPublishable)"

section \<open>The store\<close>

definition lift_identifier :: "identifier_error + 'a \<Rightarrow> mapping_error + 'a" where
  "lift_identifier r = (case r of Inl (IdentifierError n) \<Rightarrow> Inl (BadIdentifier n) | Inr a \<Rightarrow> Inr a)"

definition active :: "entity_row \<Rightarrow> bool" where
  "active r = (e_status r = Active)"

definition canonical_key :: "entity_row \<Rightarrow> string \<times> string \<times> nat" where
  "canonical_key r = (e_tenant r, e_type r, e_canonical_id r)"

definition native_key :: "entity_row \<Rightarrow> string \<times> string \<times> int" where
  "native_key r = (e_tenant r, e_table r, e_native r)"

text \<open>The row an insert adds, with the defaults of the columns it does not name.\<close>

definition new_row :: "instant \<Rightarrow> string \<Rightarrow> string \<Rightarrow> nat \<Rightarrow> string \<Rightarrow> string \<Rightarrow> string \<Rightarrow> nat \<Rightarrow> string \<Rightarrow> int \<Rightarrow> string \<Rightarrow> entity_row" where
  "new_row now mid erp i tenant entity ctype u table nid owner =
     \<lparr>e_id = i, e_mapping_id = mid, e_tenant = tenant, e_entity = Some entity, e_type = ctype,
      e_canonical_id = u, e_owner = Some owner, e_table = table, e_native = nid, e_erp_id = erp,
      e_status = Active, e_revision = 1, e_from = now, e_to = None, e_replaces = None\<rparr>"

definition insert_row :: "entity_row \<Rightarrow> entity_row list \<Rightarrow> mapping_error + entity_row list" where
  "insert_row r db =
     (if list_ex (\<lambda>x. active x \<and> canonical_key x = canonical_key r) db
       \<or> list_ex (\<lambda>x. active x \<and> native_key x = native_key r) db
       \<or> list_ex (\<lambda>x. e_mapping_id x = e_mapping_id r) db
       \<or> list_ex (\<lambda>x. e_erp_id x = e_erp_id r) db
      then Inl UniqueViolation else Inr (db @ [r]))"

definition create_mapping ::
  "(string \<Rightarrow> nat option) \<Rightarrow> instant \<Rightarrow> string \<Rightarrow> string \<Rightarrow> string \<Rightarrow> string \<Rightarrow> string \<Rightarrow> string \<Rightarrow> string \<Rightarrow> int \<Rightarrow> string
    \<Rightarrow> entity_row list \<Rightarrow> mapping_error + string \<times> entity_row list" where
  "create_mapping pg_uuid now mid erp tenant entity ctype cid table nid owner db =
     bindE (lift_identifier (tenant_id (JStr tenant))) (\<lambda>_.
     bindE (lift_identifier (legal_entity_id (JStr entity))) (\<lambda>_.
     bindE (checkE (owner \<in> CANONICAL_OWNERS) (BadIdentifier ''canonical_owner'')) (\<lambda>_.
     bindE (of_option DataError (pg_uuid cid)) (\<lambda>u.
     bindE (checkE (- (2 ^ 31) \<le> nid \<and> nid < 2 ^ 31) DataError) (\<lambda>_.
     bindE (insert_row (new_row now mid erp (Suc (length db)) tenant entity ctype u table nid owner) db) (\<lambda>db'.
     Inr (mid, db')))))))"

definition row_mapping :: "entity_row list \<Rightarrow> entity_row \<Rightarrow> entity_map" where
  "row_mapping db r =
     \<lparr>m_mapping_id = e_mapping_id r, m_tenant_id = e_tenant r, m_legal_entity_id = e_entity r,
      m_canonical_reference =
        (case e_owner r of
           None \<Rightarrow> None
         | Some owner \<Rightarrow> if owner = [] then None
             else Some \<lparr>cr_owner = owner, cr_resource_type = e_type r, cr_resource_id = show_uuid (e_canonical_id r)\<rparr>),
      m_erp_resource_id = e_erp_id r, m_status = e_status r, m_revision = e_revision r,
      m_effective_from = e_from r, m_effective_to = e_to r,
      m_replaces = (case e_replaces r of None \<Rightarrow> None
        | Some i \<Rightarrow> map_option e_mapping_id (select_one (\<lambda>x. e_id x = i) db))\<rparr>"

definition get_mapping :: "string \<Rightarrow> string \<Rightarrow> entity_row list \<Rightarrow> entity_map option" where
  "get_mapping tenant mid db =
     map_option (row_mapping db) (select_one (\<lambda>r. e_tenant r = tenant \<and> e_mapping_id r = mid) db)"

text \<open>\<open>ORDER BY revision DESC, effective_from DESC, id DESC LIMIT 100\<close>, as stable sorts from the last key to the first.\<close>

definition newest_first :: "entity_row list \<Rightarrow> entity_row list" where
  "newest_first rows =
     take 100 (sort_key (\<lambda>r. - e_revision r) (sort_key (\<lambda>r. - e_from r) (sort_key (\<lambda>r. - int (e_id r)) rows)))"

definition find_mappings :: "(string \<Rightarrow> nat option) \<Rightarrow> string \<Rightarrow> string \<Rightarrow> string \<Rightarrow> string \<Rightarrow> entity_row list \<Rightarrow> mapping_error + entity_map list" where
  "find_mappings pg_uuid tenant owner rtype rid db =
     (if uuid_of rid = None then Inr []
      else bindE (of_option DataError (pg_uuid rid)) (\<lambda>u.
        let ids = map e_mapping_id (newest_first (filter (\<lambda>r. e_tenant r = tenant \<and> e_owner r = Some owner
            \<and> e_type r = rtype \<and> e_canonical_id r = u \<and> e_entity r \<noteq> None \<and> e_status r \<noteq> Quarantined) db))
        in Inr (List.map_filter (\<lambda>i. get_mapping tenant i db) ids)))"

definition quarantined_count :: "string \<Rightarrow> entity_row list \<Rightarrow> nat" where
  "quarantined_count tenant db = count_where (\<lambda>r. e_tenant r = tenant \<and> e_status r = Quarantined) db"

definition find_native :: "(string \<Rightarrow> nat option) \<Rightarrow> entity_row list \<Rightarrow> string \<Rightarrow> string \<Rightarrow> string \<Rightarrow> mapping_error + native_record_ref option" where
  "find_native pg_uuid db tenant ctype cid =
     bindE (of_option DataError (pg_uuid cid)) (\<lambda>u.
     Inr (map_option (\<lambda>r. \<lparr>ref_table = e_table r, ref_record_id = e_native r\<rparr>)
       (select_one (\<lambda>r. canonical_key r = (tenant, ctype, u) \<and> active r) db)))"

definition find_erp_resource_id :: "(string \<Rightarrow> nat option) \<Rightarrow> entity_row list \<Rightarrow> string \<Rightarrow> string \<Rightarrow> string \<Rightarrow> mapping_error + string option" where
  "find_erp_resource_id pg_uuid db tenant ctype cid =
     bindE (of_option DataError (pg_uuid cid)) (\<lambda>u.
     Inr (map_option e_erp_id (select_one (\<lambda>r. canonical_key r = (tenant, ctype, u) \<and> active r) db)))"

definition find_canonical :: "entity_row list \<Rightarrow> string \<Rightarrow> string \<Rightarrow> int \<Rightarrow> string option" where
  "find_canonical db tenant table nid =
     map_option (\<lambda>r. show_uuid (e_canonical_id r)) (select_one (\<lambda>r. native_key r = (tenant, table, nid) \<and> active r) db)"

definition active_canonical_ids :: "string \<Rightarrow> string \<Rightarrow> entity_row list \<Rightarrow> string set" where
  "active_canonical_ids tenant ctype db =
     (\<lambda>r. show_uuid (e_canonical_id r)) ` set (filter (\<lambda>r. e_tenant r = tenant \<and> e_type r = ctype \<and> active r) db)"

section \<open>The resolvers\<close>

text \<open>The store is the argument the Python functions take; only its two look-ups are called.\<close>

definition resolve_to_native ::
  "(string \<Rightarrow> string \<Rightarrow> string \<Rightarrow> mapping_error + native_record_ref option) \<Rightarrow> string \<Rightarrow> string \<Rightarrow> string \<Rightarrow> mapping_error + native_record_ref" where
  "resolve_to_native find_nat tenant ctype cid =
     bindE (find_nat tenant ctype cid) (\<lambda>ref. of_option MappingNotFound ref)"

definition resolve_to_canonical ::
  "(string \<Rightarrow> string \<Rightarrow> int \<Rightarrow> string option) \<Rightarrow> string \<Rightarrow> string \<Rightarrow> int \<Rightarrow> mapping_error + string" where
  "resolve_to_canonical find_can tenant table nid = of_option MappingNotFound (find_can tenant table nid)"

section \<open>The invariant\<close>

definition mapping_inv :: "entity_row list \<Rightarrow> bool" where
  "mapping_inv db \<longleftrightarrow>
     unique_on active canonical_key db \<and> unique_on active native_key db
     \<and> unique_on (\<lambda>_. True) e_mapping_id db \<and> unique_on (\<lambda>_. True) e_erp_id db
     \<and> (\<forall>r \<in> set db. active r \<longrightarrow> e_entity r \<noteq> None)"

lemma mapping_inv_empty: "mapping_inv []"
  by (simp add: mapping_inv_def)

lemma active_new_row [simp]: "active (new_row now mid erp i t e ty u tb n ow)"
  by (simp add: active_def new_row_def)

lemma new_row_fields [simp]:
  "canonical_key (new_row now mid erp i t e ty u tb n ow) = (t, ty, u)"
  "native_key (new_row now mid erp i t e ty u tb n ow) = (t, tb, n)"
  "e_mapping_id (new_row now mid erp i t e ty u tb n ow) = mid"
  "e_erp_id (new_row now mid erp i t e ty u tb n ow) = erp"
  "e_entity (new_row now mid erp i t e ty u tb n ow) = Some e"
  "e_table (new_row now mid erp i t e ty u tb n ow) = tb"
  "e_native (new_row now mid erp i t e ty u tb n ow) = n"
  "e_canonical_id (new_row now mid erp i t e ty u tb n ow) = u"
  "e_tenant (new_row now mid erp i t e ty u tb n ow) = t"
  by (simp_all add: new_row_def canonical_key_def native_key_def)

lemma insert_row_Inr:
  "insert_row r db = Inr db' \<longleftrightarrow> db' = db @ [r]
     \<and> (\<forall>x \<in> set db. active x \<longrightarrow> canonical_key x \<noteq> canonical_key r \<and> native_key x \<noteq> native_key r)
     \<and> (\<forall>x \<in> set db. e_mapping_id x \<noteq> e_mapping_id r \<and> e_erp_id x \<noteq> e_erp_id r)"
  by (auto simp: insert_row_def list_ex_iff)

lemma insert_row_inv:
  "mapping_inv db \<Longrightarrow> insert_row r db = Inr db' \<Longrightarrow> e_entity r \<noteq> None \<Longrightarrow> mapping_inv db'"
  unfolding mapping_inv_def insert_row_Inr by (auto intro!: unique_on_insert)

lemma lift_identifier_Inr [simp]: "lift_identifier r = Inr a \<longleftrightarrow> r = Inr a"
  by (auto simp: lift_identifier_def split: sum.splits identifier_error.splits)

lemma create_mapping_Inr:
  "create_mapping pg_uuid now mid erp t e ty c tb n ow db = Inr (i, db') \<longleftrightarrow>
     i = mid \<and> tenant_id (JStr t) = Inr t \<and> legal_entity_id (JStr e) = Inr e \<and> ow \<in> CANONICAL_OWNERS
     \<and> - (2 ^ 31) \<le> n \<and> n < 2 ^ 31
     \<and> (\<exists>u. pg_uuid c = Some u \<and> insert_row (new_row now mid erp (Suc (length db)) t e ty u tb n ow) db = Inr db')"
  by (auto simp: create_mapping_def bindE_Inr_iff tenant_id_Inr legal_entity_id_Inr)

lemma create_mapping_inv:
  "mapping_inv db \<Longrightarrow> create_mapping pg_uuid now mid erp t e ty c tb n ow db = Inr (i, db') \<Longrightarrow> mapping_inv db'"
  by (auto simp: create_mapping_Inr intro: insert_row_inv)

section \<open>What the look-ups answer\<close>

lemma find_native_Inr:
  "mapping_inv db \<Longrightarrow> find_native pg_uuid db t ty c = Inr (Some ref) \<longleftrightarrow>
     (\<exists>u r. pg_uuid c = Some u \<and> r \<in> set db \<and> active r \<and> canonical_key r = (t, ty, u)
        \<and> ref = \<lparr>ref_table = e_table r, ref_record_id = e_native r\<rparr>)"
  by (auto simp: find_native_def bindE_Inr_iff mapping_inv_def unique_on_select_iff)

lemma find_canonical_Some:
  "mapping_inv db \<Longrightarrow> find_canonical db t tb n = Some c \<longleftrightarrow>
     (\<exists>r \<in> set db. active r \<and> native_key r = (t, tb, n) \<and> c = show_uuid (e_canonical_id r))"
  by (auto simp: find_canonical_def mapping_inv_def unique_on_select_iff)

lemma find_native_append:
  assumes "mapping_inv db" "insert_row r db = Inr db'"
  shows "find_native pg_uuid db' t ty c =
     (if \<exists>u. pg_uuid c = Some u \<and> active r \<and> canonical_key r = (t, ty, u)
      then Inr (Some \<lparr>ref_table = e_table r, ref_record_id = e_native r\<rparr>)
      else find_native pg_uuid db t ty c)"
proof (cases "pg_uuid c")
  case None
  then show ?thesis by (simp add: find_native_def)
next
  case (Some u)
  have "select_one (\<lambda>x. canonical_key x = (t, ty, u) \<and> active x) db = None"
    if "active r" "canonical_key r = (t, ty, u)"
    using assms(2) that by (auto simp: insert_row_Inr select_one_None_iff)
  with Some assms(2) show ?thesis
    by (auto simp: find_native_def insert_row_Inr select_one_append split: option.splits)
qed

lemma find_canonical_append:
  assumes "mapping_inv db" "insert_row r db = Inr db'"
  shows "find_canonical db' t tb n =
     (if active r \<and> native_key r = (t, tb, n) then Some (show_uuid (e_canonical_id r)) else find_canonical db t tb n)"
proof -
  have "select_one (\<lambda>x. native_key x = (t, tb, n) \<and> active x) db = None" if "active r" "native_key r = (t, tb, n)"
    using assms(2) that by (auto simp: insert_row_Inr select_one_None_iff)
  with assms(2) show ?thesis
    by (auto simp: find_canonical_def insert_row_Inr select_one_append split: option.splits)
qed

section \<open>The interface\<close>

text \<open>
  What the resolvers and the command layer rely on: a canonical identity found natively is found
  back from its native record, and what \<open>create\<close> recorded is what the look-ups answer, every other
  answer staying as it was.
\<close>

locale canonical_mapping_store =
  fixes inv :: "'s \<Rightarrow> bool"
    and find_nat :: "'s \<Rightarrow> string \<Rightarrow> string \<Rightarrow> string \<Rightarrow> mapping_error + native_record_ref option"
    and find_can :: "'s \<Rightarrow> string \<Rightarrow> string \<Rightarrow> int \<Rightarrow> string option"
    and canon :: "string \<Rightarrow> string option"
    and create :: "string \<Rightarrow> string \<Rightarrow> string \<Rightarrow> string \<Rightarrow> string \<Rightarrow> int \<Rightarrow> string \<Rightarrow> 's \<Rightarrow> mapping_error + string \<times> 's"
  assumes create_inv: "inv s \<Longrightarrow> create t e ty c tb n ow s = Inr (i, s') \<Longrightarrow> inv s'"
    and native_found_back:
      "inv s \<Longrightarrow> find_nat s t ty c = Inr (Some r) \<Longrightarrow> find_can s t (ref_table r) (ref_record_id r) = canon c"
    and create_finds:
      "inv s \<Longrightarrow> create t e ty c tb n ow s = Inr (i, s') \<Longrightarrow>
        find_nat s' t ty c = Inr (Some \<lparr>ref_table = tb, ref_record_id = n\<rparr>) \<and> canon c \<noteq> None"
    and create_keeps:
      "inv s \<Longrightarrow> create t e ty c tb n ow s = Inr (i, s') \<Longrightarrow> find_nat s t' ty' c' = Inr (Some r) \<Longrightarrow>
        find_nat s' t' ty' c' = Inr (Some r)"
begin

lemma resolve_round_trip:
  assumes "inv s" "resolve_to_native (find_nat s) t ty c = Inr r" "canon c = Some c'"
  shows "resolve_to_canonical (find_can s) t (ref_table r) (ref_record_id r) = Inr c'"
proof -
  from assms(2) have "find_nat s t ty c = Inr (Some r)"
    by (auto simp: resolve_to_native_def bindE_Inr_iff)
  with assms(1,3) native_found_back have "find_can s t (ref_table r) (ref_record_id r) = Some c'" by metis
  then show ?thesis by (simp add: resolve_to_canonical_def)
qed

lemma created_resolves:
  assumes "inv s" "create t e ty c tb n ow s = Inr (i, s')"
  shows "resolve_to_native (find_nat s') t ty c = Inr \<lparr>ref_table = tb, ref_record_id = n\<rparr>"
    and "\<exists>c'. canon c = Some c' \<and> resolve_to_canonical (find_can s') t tb n = Inr c'"
proof -
  from create_finds [OF assms] have
    found: "find_nat s' t ty c = Inr (Some \<lparr>ref_table = tb, ref_record_id = n\<rparr>)" and "canon c \<noteq> None"
    by auto
  then show nat: "resolve_to_native (find_nat s') t ty c = Inr \<lparr>ref_table = tb, ref_record_id = n\<rparr>"
    by (simp add: resolve_to_native_def)
  from \<open>canon c \<noteq> None\<close> obtain c' where "canon c = Some c'" by auto
  with resolve_round_trip [OF create_inv [OF assms] nat] show
    "\<exists>c'. canon c = Some c' \<and> resolve_to_canonical (find_can s') t tb n = Inr c'" by auto
qed

lemma created_keeps_resolved:
  assumes "inv s" "create t e ty c tb n ow s = Inr (i, s')"
    and "resolve_to_native (find_nat s) t' ty' c' = Inr r"
  shows "resolve_to_native (find_nat s') t' ty' c' = Inr r"
  using assms create_keeps by (auto simp: resolve_to_native_def bindE_Inr_iff)

end

interpretation entity_store: canonical_mapping_store
  mapping_inv "find_native pg_uuid" find_canonical "\<lambda>c. map_option show_uuid (pg_uuid c)"
  "\<lambda>t e ty c tb n ow. create_mapping pg_uuid now mid erp t e ty c tb n ow"
  for pg_uuid :: "string \<Rightarrow> nat option" and now mid erp
proof
  fix s t e ty c tb n ow i s'
  assume inv: "mapping_inv s" and made: "create_mapping pg_uuid now mid erp t e ty c tb n ow s = Inr (i, s')"
  show "mapping_inv s'" using inv made by (rule create_mapping_inv)
  from made obtain u where u: "pg_uuid c = Some u"
    and ins: "insert_row (new_row now mid erp (Suc (length s)) t e ty u tb n ow) s = Inr s'"
    by (auto simp: create_mapping_Inr)
  show "find_native pg_uuid s' t ty c = Inr (Some \<lparr>ref_table = tb, ref_record_id = n\<rparr>)
      \<and> map_option show_uuid (pg_uuid c) \<noteq> None"
    using u by (simp add: find_native_append [OF inv ins])
  fix t' ty' c' r
  assume old: "find_native pg_uuid s t' ty' c' = Inr (Some r)"
  have "canonical_key (new_row now mid erp (Suc (length s)) t e ty u tb n ow) \<noteq> (t', ty', v)" if "pg_uuid c' = Some v" for v
    using old that ins inv by (auto simp: find_native_Inr insert_row_Inr)
  with old show "find_native pg_uuid s' t' ty' c' = Inr (Some r)"
    by (simp only: find_native_append [OF inv ins] if_False) auto
next
  fix s t ty c r
  assume inv: "mapping_inv s" and "find_native pg_uuid s t ty c = Inr (Some r)"
  then obtain u x where "pg_uuid c = Some u" and x: "x \<in> set s" "active x" "canonical_key x = (t, ty, u)"
    and "r = \<lparr>ref_table = e_table x, ref_record_id = e_native x\<rparr>"
    by (auto simp: find_native_Inr)
  then show "find_canonical s t (ref_table r) (ref_record_id r) = map_option show_uuid (pg_uuid c)"
    using inv by (auto simp: find_canonical_Some canonical_key_def native_key_def)
qed

end
