(* ===== verification/Tenant_Context.thy ===== *)
theory Tenant_Context
  imports Prelude Py
begin

text \<open>
  The resolved request context: \<open>modules/context/model.py\<close>, the store over
  \<open>baobab.tenant_mapping\<close> (\<open>modules/context/postgres_store.py\<close>), the two resolvers
  (\<open>modules/context/resolver.py\<close>), the engine placement the inbox reads from the same table
  (\<open>PostgresMasterData.target\<close>), the repeatable writer provisioning uses
  (\<open>ConfirmingTenantMappings\<close>) and the reconciliations of \<open>modules/reconciliation\<close>.
\<close>

section \<open>Data\<close>

record tenant_context =
  c_tenant_id :: string
  c_entity_id :: string
  c_ad_client_id :: int
  c_ad_org_id :: int

record tenant_row =
  t_tenant :: string
  t_entity :: string
  t_client :: int
  t_org :: int
  t_engine :: "string option"
  t_active :: bool

datatype context_error = ContextResolutionError | EngineInstanceRequired | ContextUniqueViolation | MappingConflict

section \<open>The store\<close>

definition entity_key :: "tenant_row \<Rightarrow> string \<times> string" where
  "entity_key r = (t_tenant r, t_entity r)"

definition native_pair :: "tenant_row \<Rightarrow> int \<times> int" where
  "native_pair r = (t_client r, t_org r)"

text \<open>The insert with the two unique indexes on active rows (migrations 0002 and 0006).\<close>

definition insert_tenant_row :: "tenant_row \<Rightarrow> tenant_row list \<Rightarrow> context_error + tenant_row list" where
  "insert_tenant_row r db =
     (if list_ex (\<lambda>x. t_active x \<and> (entity_key x = entity_key r \<or> native_pair x = native_pair r)) db
      then Inl ContextUniqueViolation else Inr (db @ [r]))"

definition create_tenant_mapping :: "string \<Rightarrow> string \<Rightarrow> int \<Rightarrow> int \<Rightarrow> string \<Rightarrow> tenant_row list \<Rightarrow> context_error + tenant_row list" where
  "create_tenant_mapping tenant entity client org engine db =
     (if \<not> nonblank engine then Inl EngineInstanceRequired
      else insert_tenant_row \<lparr>t_tenant = tenant, t_entity = entity, t_client = client, t_org = org,
             t_engine = Some engine, t_active = True\<rparr> db)"

definition find_active_row :: "tenant_row list \<Rightarrow> string \<Rightarrow> string \<Rightarrow> tenant_row option" where
  "find_active_row db tenant entity = select_one (\<lambda>r. entity_key r = (tenant, entity) \<and> t_active r) db"

definition find_active_mapping :: "tenant_row list \<Rightarrow> string \<Rightarrow> string \<Rightarrow> (int \<times> int) option" where
  "find_active_mapping db tenant entity = map_option native_pair (find_active_row db tenant entity)"

definition find_by_native :: "tenant_row list \<Rightarrow> int \<Rightarrow> int \<Rightarrow> (string \<times> string) option" where
  "find_by_native db client org =
     map_option entity_key (select_one (\<lambda>r. native_pair r = (client, org) \<and> t_active r) db)"

text \<open>\<open>Target\<close>: where the tenant's documents are written.\<close>

record target =
  g_client :: int
  g_org :: int
  g_engine :: "string option"

definition find_target :: "tenant_row list \<Rightarrow> string \<Rightarrow> string \<Rightarrow> target option" where
  "find_target db tenant entity =
     map_option (\<lambda>r. \<lparr>g_client = t_client r, g_org = t_org r, g_engine = t_engine r\<rparr>) (find_active_row db tenant entity)"

definition confirm_tenant_mapping :: "string \<Rightarrow> string \<Rightarrow> int \<Rightarrow> int \<Rightarrow> string \<Rightarrow> tenant_row list \<Rightarrow> context_error + tenant_row list" where
  "confirm_tenant_mapping tenant entity client org engine db =
     (case find_active_row db tenant entity of
        None \<Rightarrow>
          (case create_tenant_mapping tenant entity client org engine db of
             Inl ContextUniqueViolation \<Rightarrow> Inl MappingConflict
           | r \<Rightarrow> r)
      | Some r \<Rightarrow>
          if (t_client r, t_org r, t_engine r) \<noteq> (client, org, Some engine) then Inl MappingConflict else Inr db)"

section \<open>The resolvers\<close>

definition resolve_context ::
  "string option \<Rightarrow> string option \<Rightarrow> (string \<Rightarrow> string \<Rightarrow> (int \<times> int) option) \<Rightarrow> context_error + tenant_context" where
  "resolve_context tenant entity find_active =
     (case (tenant, entity) of
        (Some t, Some e) \<Rightarrow>
          if t = [] \<or> e = [] then Inl ContextResolutionError
          else (case find_active t e of
                  None \<Rightarrow> Inl ContextResolutionError
                | Some (client, org) \<Rightarrow>
                    Inr \<lparr>c_tenant_id = t, c_entity_id = e, c_ad_client_id = client, c_ad_org_id = org\<rparr>)
      | _ \<Rightarrow> Inl ContextResolutionError)"

definition resolve_tenant :: "int \<Rightarrow> int \<Rightarrow> (int \<Rightarrow> int \<Rightarrow> (string \<times> string) option) \<Rightarrow> context_error + tenant_context" where
  "resolve_tenant client org find_native_pair =
     (case find_native_pair client org of
        None \<Rightarrow> Inl ContextResolutionError
      | Some (tenant, entity) \<Rightarrow>
          Inr \<lparr>c_tenant_id = tenant, c_entity_id = entity, c_ad_client_id = client, c_ad_org_id = org\<rparr>)"

section \<open>Reconciliation\<close>

record identity_result =
  i_canonical_type :: string
  i_missing :: "string set"
  i_unexpected :: "string set"

definition identity_matches :: "identity_result \<Rightarrow> bool" where
  "identity_matches r = (Set.is_empty (i_missing r) \<and> Set.is_empty (i_unexpected r))"

definition reconcile_identity :: "string \<Rightarrow> string \<Rightarrow> string set \<Rightarrow> (string \<Rightarrow> string \<Rightarrow> string set) \<Rightarrow> identity_result" where
  "reconcile_identity tenant ctype expected active_ids =
     (let mapped = active_ids tenant ctype in
      \<lparr>i_canonical_type = ctype, i_missing = expected - mapped, i_unexpected = mapped - expected\<rparr>)"

record count_result =
  n_category :: string
  n_left :: int
  n_right :: int

definition counts_match :: "count_result \<Rightarrow> bool" where
  "counts_match r = (n_left r = n_right r)"

definition reconcile_record_counts :: "string \<Rightarrow> string \<Rightarrow> (string \<Rightarrow> string \<Rightarrow> int) \<Rightarrow> (string \<Rightarrow> string \<Rightarrow> int) \<Rightarrow> count_result" where
  "reconcile_record_counts tenant category left right =
     \<lparr>n_category = category, n_left = left tenant category, n_right = right tenant category\<rparr>"

lemma identity_matches_iff: "identity_matches (reconcile_identity t ty expected ids) \<longleftrightarrow> ids t ty = expected"
  by (auto simp: identity_matches_def reconcile_identity_def Let_def)

section \<open>The invariant\<close>

definition tenant_inv :: "tenant_row list \<Rightarrow> bool" where
  "tenant_inv db \<longleftrightarrow> unique_on t_active entity_key db \<and> unique_on t_active native_pair db
     \<and> (\<forall>r \<in> set db. \<forall>e. t_engine r = Some e \<longrightarrow> nonblank e)"

lemma tenant_inv_empty: "tenant_inv []"
  by (simp add: tenant_inv_def)

lemma create_tenant_mapping_Inr:
  "create_tenant_mapping t e c og g db = Inr db' \<longleftrightarrow> nonblank g
     \<and> db' = db @ [\<lparr>t_tenant = t, t_entity = e, t_client = c, t_org = og, t_engine = Some g, t_active = True\<rparr>]
     \<and> (\<forall>x \<in> set db. t_active x \<longrightarrow> entity_key x \<noteq> (t, e) \<and> native_pair x \<noteq> (c, og))"
  by (auto simp: create_tenant_mapping_def insert_tenant_row_def list_ex_iff entity_key_def native_pair_def)

lemma create_tenant_mapping_inv:
  "tenant_inv db \<Longrightarrow> create_tenant_mapping t e c og g db = Inr db' \<Longrightarrow> tenant_inv db'"
  unfolding tenant_inv_def create_tenant_mapping_Inr
  by (auto intro!: unique_on_insert simp: entity_key_def native_pair_def)

lemma find_active_row_Some:
  "tenant_inv db \<Longrightarrow> find_active_row db t e = Some r \<longleftrightarrow> r \<in> set db \<and> t_active r \<and> entity_key r = (t, e)"
  by (simp add: find_active_row_def tenant_inv_def unique_on_select_iff)

lemma find_by_native_Some:
  "tenant_inv db \<Longrightarrow> find_by_native db c og = Some k \<longleftrightarrow>
     (\<exists>r \<in> set db. t_active r \<and> native_pair r = (c, og) \<and> k = entity_key r)"
  by (auto simp: find_by_native_def tenant_inv_def unique_on_select_iff)

lemma find_active_after_create:
  assumes "create_tenant_mapping t e c og g db = Inr db'"
  shows "find_active_row db' t' e' =
     (if (t', e') = (t, e)
      then Some \<lparr>t_tenant = t, t_entity = e, t_client = c, t_org = og, t_engine = Some g, t_active = True\<rparr>
      else find_active_row db t' e')"
proof -
  have "select_one (\<lambda>r. entity_key r = (t, e) \<and> t_active r) db = None"
    using assms by (auto simp: create_tenant_mapping_Inr select_one_None_iff)
  with assms show ?thesis
    by (auto simp: create_tenant_mapping_Inr find_active_row_def select_one_append entity_key_def split: option.splits)
qed

lemma confirm_tenant_mapping_inv:
  "tenant_inv db \<Longrightarrow> confirm_tenant_mapping t e c og g db = Inr db' \<Longrightarrow> tenant_inv db'"
  by (auto simp: confirm_tenant_mapping_def intro: create_tenant_mapping_inv
      split: option.splits sum.splits context_error.splits if_splits)

lemma confirm_finds:
  assumes "confirm_tenant_mapping t e c og g db = Inr db'"
  shows "find_target db' t e = Some \<lparr>g_client = c, g_org = og, g_engine = Some g\<rparr>"
proof (cases "find_active_row db t e")
  case None
  with assms have "create_tenant_mapping t e c og g db = Inr db'"
    by (auto simp: confirm_tenant_mapping_def split: sum.splits context_error.splits)
  then show ?thesis by (simp add: find_target_def find_active_after_create)
next
  case (Some r)
  with assms show ?thesis by (auto simp: confirm_tenant_mapping_def find_target_def split: if_splits)
qed

section \<open>The interface\<close>

text \<open>
  \<open>TenantMappingStore\<close>: the two look-ups answer with each other's keys. Under that law the two
  resolvers are inverse to each other.
\<close>

locale tenant_mapping_store =
  fixes inv :: "'s \<Rightarrow> bool"
    and find_active :: "'s \<Rightarrow> string \<Rightarrow> string \<Rightarrow> (int \<times> int) option"
    and find_native_pair :: "'s \<Rightarrow> int \<Rightarrow> int \<Rightarrow> (string \<times> string) option"
  assumes look_ups_agree:
    "inv s \<Longrightarrow> find_active s t e = Some (c, og) \<longleftrightarrow> find_native_pair s c og = Some (t, e)"
begin

lemma resolve_tenant_of_context:
  assumes "inv s" "resolve_context t e (find_active s) = Inr x"
  shows "resolve_tenant (c_ad_client_id x) (c_ad_org_id x) (find_native_pair s) = Inr x"
proof -
  from assms(2) obtain t' e' c og where "find_active s t' e' = Some (c, og)"
    and x: "x = \<lparr>c_tenant_id = t', c_entity_id = e', c_ad_client_id = c, c_ad_org_id = og\<rparr>"
    by (auto simp: resolve_context_def split: option.splits if_splits)
  then have "find_native_pair s c og = Some (t', e')" using look_ups_agree [OF assms(1)] by blast
  with x show ?thesis by (simp add: resolve_tenant_def)
qed

lemma resolve_context_of_tenant:
  assumes "inv s" "resolve_tenant c og (find_native_pair s) = Inr x" "c_tenant_id x \<noteq> []" "c_entity_id x \<noteq> []"
  shows "resolve_context (Some (c_tenant_id x)) (Some (c_entity_id x)) (find_active s) = Inr x"
proof -
  from assms(2) obtain t e where f: "find_native_pair s c og = Some (t, e)"
    and x: "x = \<lparr>c_tenant_id = t, c_entity_id = e, c_ad_client_id = c, c_ad_org_id = og\<rparr>"
    by (auto simp: resolve_tenant_def split: option.splits)
  from f assms(1) have "find_active s t e = Some (c, og)" by (simp add: look_ups_agree)
  with x assms(3,4) show ?thesis by (simp add: resolve_context_def)
qed

lemma contexts_disjoint:
  assumes "inv s" "resolve_context t e (find_active s) = Inr x" "resolve_context t' e' (find_active s) = Inr y"
    and "(c_ad_client_id x, c_ad_org_id x) = (c_ad_client_id y, c_ad_org_id y)"
  shows "x = y"
proof -
  have "Inr x = (Inr y :: context_error + tenant_context)"
    by (rule trans [OF resolve_tenant_of_context [OF assms(1,2), symmetric]])
      (use resolve_tenant_of_context [OF assms(1,3)] assms(4) in auto)
  then show ?thesis by simp
qed

end

interpretation tenant_store: tenant_mapping_store tenant_inv find_active_mapping find_by_native
proof
  fix s t e c og
  assume "tenant_inv s"
  then show "find_active_mapping s t e = Some (c, og) \<longleftrightarrow> find_by_native s c og = Some (t, e)"
    by (auto simp: find_active_mapping_def find_by_native_Some find_active_row_Some)
qed

end
