(* ===== verification/Cloud_Event.thy ===== *)
theory Cloud_Event
  imports Identifiers
begin

text \<open>
  The canonical event envelope (\<open>modules/events/cloudevent.py\<close>) and the registry of event types
  (\<open>modules/events/registry.py\<close>). The members are JSON values, as they are in Python before
  \<open>validate\<close> has looked at them; an absent optional member is \<open>JNull\<close> (Python's \<open>None\<close>).
\<close>

datatype event_error = EnvelopeError string | TypeErrorRaised | ValueErrorRaised

section \<open>The registry\<close>

definition CONTRACT_HOST :: string where
  "CONTRACT_HOST = ''https://contracts.baobab-platform.com/''"

definition ERP_SOURCE :: string where
  "ERP_SOURCE = ''urn:baobab-platform:service:baobab-erp''"

definition SOURCE_PREFIX :: string where
  "SOURCE_PREFIX = ''urn:baobab-platform:service:''"

definition erp_schema :: "string \<Rightarrow> string" where
  "erp_schema name = CONTRACT_HOST @ ''erp/v1/'' @ name @ ''.schema.json''"

definition PRODUCED :: "(string \<times> string) list" where
  "PRODUCED =
     [(''com.baobab-platform.erp.business-partner.changed.v1'', erp_schema ''business-partner-projection''),
      (''com.baobab-platform.erp.inventory.availability-changed.v1'', erp_schema ''inventory-availability''),
      (''com.baobab-platform.erp.invoice.changed.v1'', erp_schema ''invoice-outcome''),
      (''com.baobab-platform.erp.order.consequence-changed.v1'', erp_schema ''order-consequence-status''),
      (''com.baobab-platform.erp.payment.accounting-changed.v1'', erp_schema ''payment-outcome''),
      (''com.baobab-platform.erp.provisioning.changed.v1'', erp_schema ''provisioning-state''),
      (''com.baobab-platform.erp.warehouse.changed.v1'', erp_schema ''warehouse-projection''),
      (''com.baobab-platform.customer.buyer-commercial-profile.changed.v1'',
       CONTRACT_HOST @ ''buyer-organisation/v1/events.schema.json#/$defs/buyerCommercialProfileChangedEventData'')]"

definition CONSUMED :: "(string \<times> string \<times> string) list" where
  "CONSUMED =
     [(''com.baobab-platform.trade.order.placed.v1'', erp_schema ''commerce-order-consequence'', ''baobab-trade''),
      (''com.baobab-platform.trade.customer.projected.v1'', erp_schema ''customer-projection'', ''baobab-trade'')]"

text \<open>\<open>None\<close> is the \<open>KeyError\<close>.\<close>

definition dataschema_for :: "string \<Rightarrow> string option" where
  "dataschema_for ty =
     (case map_of PRODUCED ty of
        Some schema \<Rightarrow> Some schema
      | None \<Rightarrow> map_option fst (map_of CONSUMED ty))"

definition accepted_sources :: "string \<Rightarrow> string set" where
  "accepted_sources producer = {SOURCE_PREFIX @ producer, SOURCE_PREFIX @ remove_prefix producer ''baobab-''}"

section \<open>The grammars\<close>

definition lower_alnum_dash_free :: rx where
  "lower_alnum_dash_free = Cls [(CHR ''a'', CHR ''z''), (CHR ''0'', CHR ''9'')]"

definition event_type_rx :: rx where
  "event_type_rx = Seq (Lit ''com.baobab-platform.'') (Seq (Plus lower_alnum_dash_free)
     (Seq (Star (Seq (Cls [(CHR ''.'', CHR ''.''), (CHR ''-'', CHR ''-'')]) (Plus lower_alnum_dash_free)))
     (Seq (Lit ''.v'') (Seq (Cls [(CHR ''1'', CHR ''9'')]) (Star (Cls [(CHR ''0'', CHR ''9'')]))))))"

definition alnum :: rx where
  "alnum = Cls [(CHR ''A'', CHR ''Z''), (CHR ''a'', CHR ''z''), (CHR ''0'', CHR ''9'')]"

definition key_char :: rx where
  "key_char = Cls [(CHR ''A'', CHR ''Z''), (CHR ''a'', CHR ''z''), (CHR ''0'', CHR ''9''),
     (CHR ''.'', CHR ''.''), (CHR ''_'', CHR ''_''), (CHR '':'', CHR '':''), (CHR ''-'', CHR ''-'')]"

definition idempotency_rx :: rx where
  "idempotency_rx = Seq alnum (Star key_char)"

definition hex_rx :: rx where
  "hex_rx = Cls [(CHR ''0'', CHR ''9''), (CHR ''a'', CHR ''f'')]"

definition any_rx :: rx where
  "any_rx = Neg Zero"

text \<open>A string matches when it has the shape and neither look-ahead finds an all-zero identifier.\<close>

definition traceparent_ok :: "string \<Rightarrow> bool" where
  "traceparent_ok s =
     (fullmatch (Seq (Lit ''00-'') (Seq (Rep 32 32 hex_rx) (Seq (Lit ''-'') (Seq (Rep 16 16 hex_rx)
        (Seq (Lit ''-'') (Rep 2 2 hex_rx)))))) s
      \<and> \<not> starts_with (drop 3 s) (replicate 32 CHR ''0'')
      \<and> \<not> starts_with (drop 36 s) (replicate 16 CHR ''0''))"

definition tracestate_rx :: rx where
  "tracestate_rx = Plus (Cls [(CHR '' '', CHR ''~'')])"

section \<open>The envelope\<close>

record cloud_event =
  ev_id :: json
  ev_type :: json
  ev_source :: json
  ev_subject :: json
  ev_time :: datetime
  ev_dataschema :: json
  ev_scope :: json
  ev_correlationid :: json
  ev_data :: json
  ev_tenantid :: json
  ev_causationid :: json
  ev_idempotencykey :: json
  ev_traceparent :: json
  ev_tracestate :: json

definition REQUIRED :: "string list" where
  "REQUIRED = [''specversion'', ''id'', ''type'', ''source'', ''subject'', ''time'', ''datacontenttype'', ''dataschema'',
     ''baobabscope'', ''correlationid'', ''data'']"

definition OPTIONAL :: "string list" where
  "OPTIONAL = [''causationid'', ''tenantid'', ''idempotencykey'', ''traceparent'', ''tracestate'']"

definition check_uuid :: "json \<Rightarrow> string \<Rightarrow> event_error + string" where
  "check_uuid v name = of_option (EnvelopeError name) (uuid_text v)"

fun absolute_uri :: "pylib \<Rightarrow> json \<Rightarrow> string \<Rightarrow> nat \<Rightarrow> event_error + string" where
  "absolute_uri L (JStr v) name limit =
     (if v = [] \<or> limit < length v then Inl (EnvelopeError name)
      else (case url_scheme L v of
              None \<Rightarrow> Inl ValueErrorRaised
            | Some scheme \<Rightarrow> if scheme = [] then Inl (EnvelopeError name) else Inr v))"
| "absolute_uri L _ name limit = Inl (EnvelopeError name)"

definition read_timestamp :: "pylib \<Rightarrow> json \<Rightarrow> event_error + datetime" where
  "read_timestamp L v =
     (case (case v of JStr s \<Rightarrow> read_instant L s | JInt i \<Rightarrow> read_instant L (show_int i) | _ \<Rightarrow> None) of
        Some (Aware t) \<Rightarrow> Inr (Aware t)
      | _ \<Rightarrow> Inl (EnvelopeError ''time''))"

definition grammar_error :: "string \<Rightarrow> event_error" where
  "grammar_error name = EnvelopeError name"

text \<open>
  \<open>lo <= len(v) <= hi and pattern.fullmatch(v)\<close> on a value of any type: \<open>len\<close> of a number and
  \<open>fullmatch\<close> of a list or an object raise \<open>TypeError\<close>.
\<close>

fun sized_match :: "nat \<Rightarrow> nat \<Rightarrow> (string \<Rightarrow> bool) \<Rightarrow> string \<Rightarrow> json \<Rightarrow> event_error + unit" where
  "sized_match lo hi ok name (JStr s) = checkE (lo \<le> length s \<and> length s \<le> hi \<and> ok s) (EnvelopeError name)"
| "sized_match lo hi ok name (JArr xs) =
     (if lo \<le> length xs \<and> length xs \<le> hi then Inl TypeErrorRaised else Inl (EnvelopeError name))"
| "sized_match lo hi ok name (JObj ms) =
     (if lo \<le> length ms \<and> length ms \<le> hi then Inl TypeErrorRaised else Inl (EnvelopeError name))"
| "sized_match lo hi ok name _ = Inl TypeErrorRaised"

fun validate_type :: "json \<Rightarrow> event_error + unit" where
  "validate_type (JStr s) = checkE (length s \<le> 255 \<and> fullmatch event_type_rx s) (EnvelopeError ''type'')"
| "validate_type _ = Inl (EnvelopeError ''type'')"

fun validate_subject :: "json \<Rightarrow> event_error + unit" where
  "validate_subject (JStr s) = checkE (1 \<le> length s \<and> length s \<le> 255) (EnvelopeError ''subject'')"
| "validate_subject _ = Inl (EnvelopeError ''subject'')"

fun validate_time :: "datetime \<Rightarrow> event_error + unit" where
  "validate_time (Aware t) = Inr ()"
| "validate_time (Naive t) = Inl (EnvelopeError ''time'')"

definition validate_scope :: "json \<Rightarrow> json \<Rightarrow> event_error + unit" where
  "validate_scope scope tenant =
     (if scope \<noteq> JStr ''platform'' \<and> scope \<noteq> JStr ''tenant'' then Inl (EnvelopeError ''baobabscope'')
      else if scope = JStr ''tenant'' then
        (if tenant = JNull then Inl (EnvelopeError ''tenantid'')
         else (case tenant_id tenant of Inl _ \<Rightarrow> Inl (EnvelopeError ''tenantid'') | Inr _ \<Rightarrow> Inr ()))
      else if tenant \<noteq> JNull then Inl (EnvelopeError ''tenantid'') else Inr ())"

fun validate_traceparent :: "json \<Rightarrow> event_error + unit" where
  "validate_traceparent JNull = Inr ()"
| "validate_traceparent (JStr s) = checkE (traceparent_ok s) (EnvelopeError ''traceparent'')"
| "validate_traceparent _ = Inl TypeErrorRaised"

definition unless_null :: "json \<Rightarrow> event_error + unit \<Rightarrow> event_error + unit" where
  "unless_null v r = (if v = JNull then Inr () else r)"

definition validate :: "pylib \<Rightarrow> cloud_event \<Rightarrow> event_error + cloud_event" where
  "validate L e =
     bindE (check_uuid (ev_id e) ''id'') (\<lambda>_.
     bindE (check_uuid (ev_correlationid e) ''correlationid'') (\<lambda>_.
     bindE (unless_null (ev_causationid e) (bindE (check_uuid (ev_causationid e) ''causationid'') (\<lambda>_. Inr ()))) (\<lambda>_.
     bindE (validate_type (ev_type e)) (\<lambda>_.
     bindE (absolute_uri L (ev_source e) ''source'' 255) (\<lambda>_.
     bindE (absolute_uri L (ev_dataschema e) ''dataschema'' 512) (\<lambda>_.
     bindE (validate_subject (ev_subject e)) (\<lambda>_.
     bindE (validate_time (ev_time e)) (\<lambda>_.
     bindE (validate_scope (ev_scope e) (ev_tenantid e)) (\<lambda>_.
     bindE (unless_null (ev_idempotencykey e)
       (sized_match 16 128 (fullmatch idempotency_rx) ''idempotencykey'' (ev_idempotencykey e))) (\<lambda>_.
     bindE (validate_traceparent (ev_traceparent e)) (\<lambda>_.
     bindE (unless_null (ev_tracestate e)
       (sized_match 1 512 (fullmatch tracestate_rx) ''tracestate'' (ev_tracestate e))) (\<lambda>_.
     bindE (checkE (is_obj (ev_data e)) (EnvelopeError ''data'')) (\<lambda>_.
     Inr e)))))))))))))"

definition dedup_key :: "cloud_event \<Rightarrow> json \<times> json" where
  "dedup_key e = (ev_source e, ev_id e)"

section \<open>The wire form\<close>

definition opt_member :: "string \<Rightarrow> json \<Rightarrow> (string \<times> json) list" where
  "opt_member name v = (if v = JNull then [] else [(name, v)])"

fun instant_of :: "datetime \<Rightarrow> instant" where
  "instant_of (Aware t) = t"
| "instant_of (Naive t) = t"

definition to_wire :: "pylib \<Rightarrow> cloud_event \<Rightarrow> json" where
  "to_wire L e = JObj
     ([(''specversion'', JStr ''1.0''), (''id'', ev_id e), (''type'', ev_type e), (''source'', ev_source e),
       (''subject'', ev_subject e), (''time'', JStr (utc_z L (instant_of (ev_time e)))),
       (''datacontenttype'', JStr ''application/json''), (''dataschema'', ev_dataschema e),
       (''baobabscope'', ev_scope e), (''correlationid'', ev_correlationid e), (''data'', ev_data e)]
      @ opt_member ''causationid'' (ev_causationid e) @ opt_member ''tenantid'' (ev_tenantid e)
      @ opt_member ''idempotencykey'' (ev_idempotencykey e) @ opt_member ''traceparent'' (ev_traceparent e)
      @ opt_member ''tracestate'' (ev_tracestate e))"

definition from_wire :: "pylib \<Rightarrow> json \<Rightarrow> event_error + cloud_event" where
  "from_wire L v =
     (if \<not> is_obj v then Inl (EnvelopeError ''object'')
      else if list_ex (\<lambda>(k, _). k \<notin> set REQUIRED \<and> k \<notin> set OPTIONAL) (members v) then Inl (EnvelopeError ''unknown'')
      else if list_ex (\<lambda>name. \<not> has_key v name) REQUIRED then Inl (EnvelopeError ''missing'')
      else if jget v ''specversion'' \<noteq> JStr ''1.0'' then Inl (EnvelopeError ''specversion'')
      else if jget v ''datacontenttype'' \<noteq> JStr ''application/json'' then Inl (EnvelopeError ''datacontenttype'')
      else if list_ex (\<lambda>name. has_key v name \<and> jget v name = JNull) OPTIONAL then Inl (EnvelopeError ''null'')
      else bindE (read_timestamp L (jget v ''time'')) (\<lambda>t.
        validate L \<lparr>ev_id = jget v ''id'', ev_type = jget v ''type'', ev_source = jget v ''source'',
          ev_subject = jget v ''subject'', ev_time = t, ev_dataschema = jget v ''dataschema'',
          ev_scope = jget v ''baobabscope'', ev_correlationid = jget v ''correlationid'', ev_data = jget v ''data'',
          ev_tenantid = jget v ''tenantid'', ev_causationid = jget v ''causationid'',
          ev_idempotencykey = jget v ''idempotencykey'', ev_traceparent = jget v ''traceparent'',
          ev_tracestate = jget v ''tracestate''\<rparr>))"

section \<open>Producing and consuming\<close>

text \<open>\<open>new_event\<close>: \<open>eid\<close> is the \<open>uuid4\<close> it mints, \<open>t\<close> the time given or read from the clock.\<close>

definition new_event ::
  "pylib \<Rightarrow> nat \<Rightarrow> string \<Rightarrow> string \<Rightarrow> string \<Rightarrow> json \<Rightarrow> string option \<Rightarrow> json \<Rightarrow> json \<Rightarrow> json \<Rightarrow> instant \<Rightarrow> event_error + cloud_event" where
  "new_event L eid ty subject correlation data tenant causation idem traceparent t =
     (case (if ty \<in> fst ` set PRODUCED then dataschema_for ty else None) of
        None \<Rightarrow> Inl (EnvelopeError ''not produced'')
      | Some schema \<Rightarrow>
          validate L \<lparr>ev_id = JStr (show_uuid eid), ev_type = JStr ty, ev_source = JStr ERP_SOURCE,
            ev_subject = JStr subject, ev_time = Aware t, ev_dataschema = JStr schema,
            ev_scope = JStr (case tenant of None \<Rightarrow> ''platform'' | Some s \<Rightarrow> if s = [] then ''platform'' else ''tenant''),
            ev_correlationid = JStr correlation, ev_data = data,
            ev_tenantid = (case tenant of None \<Rightarrow> JNull | Some s \<Rightarrow> JStr s),
            ev_causationid = causation, ev_idempotencykey = idem, ev_traceparent = traceparent, ev_tracestate = JNull\<rparr>)"

fun jtext :: "json \<Rightarrow> string" where
  "jtext (JStr s) = s"
| "jtext _ = []"

definition check_consumable :: "cloud_event \<Rightarrow> event_error + cloud_event" where
  "check_consumable e =
     (case map_of CONSUMED (jtext (ev_type e)) of
        None \<Rightarrow> Inl (EnvelopeError ''not consumed'')
      | Some (schema, producer) \<Rightarrow>
          if Some (ev_dataschema e) \<noteq> map_option JStr (dataschema_for (jtext (ev_type e))) then Inl (EnvelopeError ''dataschema'')
          else if ev_source e \<notin> JStr ` accepted_sources producer then Inl (EnvelopeError ''source'')
          else if ev_scope e \<noteq> JStr ''tenant'' then Inl (EnvelopeError ''baobabscope'')
          else Inr e)"

section \<open>What a validated event satisfies\<close>

definition valid_event :: "pylib \<Rightarrow> cloud_event \<Rightarrow> bool" where
  "valid_event L e = (validate L e = Inr e)"

lemma validate_Inr: "validate L e = Inr e' \<Longrightarrow> e' = e"
  by (auto simp: validate_def bindE_Inr_iff)

lemma validate_facts:
  assumes "validate L e = Inr e'"
  shows "uuid_text (ev_id e) \<noteq> None" "uuid_text (ev_correlationid e) \<noteq> None"
    "\<exists>t. ev_time e = Aware t" "is_obj (ev_data e)"
    "validate_scope (ev_scope e) (ev_tenantid e) = Inr ()"
    "validate_type (ev_type e) = Inr ()" "validate_subject (ev_subject e) = Inr ()"
proof -
  show "\<exists>t. ev_time e = Aware t"
    using assms by (cases "ev_time e") (auto simp: validate_def bindE_Inr_iff)
qed (use assms in \<open>auto simp: validate_def bindE_Inr_iff check_uuid_def\<close>)

lemma validate_scope_tenant:
  "validate_scope (JStr ''tenant'') tenant = Inr () \<longleftrightarrow> (\<exists>s. tenant = JStr s \<and> tenant_id tenant = Inr s)"
  by (cases tenant; cases "tenant_id tenant") (auto simp: validate_scope_def dest: tenant_id_Inr [THEN iffD1])

lemma validate_scope_cases:
  assumes "validate_scope scope tenant = Inr ()"
  obtains "scope = JStr ''platform''" "tenant = JNull"
  | s where "scope = JStr ''tenant''" "tenant = JStr s" "tenant_id tenant = Inr s"
  using assms by (auto simp: validate_scope_def tenant_id_Inr split: if_splits sum.splits)

section \<open>The wire round trip\<close>

lemma map_of_opt_member: "map_of (opt_member n v) k = (if k = n \<and> v \<noteq> JNull then Some v else None)"
  by (simp add: opt_member_def)

lemma opt_member_keys: "list_all (\<lambda>(k, _). k = n) (opt_member n v)"
  by (simp add: opt_member_def)

lemmas wire_simps = to_wire_def jget_def has_key_def map_add_def map_of_opt_member

lemma wire_members:
  "jget (to_wire L e) ''id'' = ev_id e" "jget (to_wire L e) ''type'' = ev_type e"
  "jget (to_wire L e) ''source'' = ev_source e" "jget (to_wire L e) ''subject'' = ev_subject e"
  "jget (to_wire L e) ''time'' = JStr (utc_z L (instant_of (ev_time e)))"
  "jget (to_wire L e) ''dataschema'' = ev_dataschema e" "jget (to_wire L e) ''baobabscope'' = ev_scope e"
  "jget (to_wire L e) ''correlationid'' = ev_correlationid e" "jget (to_wire L e) ''data'' = ev_data e"
  "jget (to_wire L e) ''specversion'' = JStr ''1.0''"
  "jget (to_wire L e) ''datacontenttype'' = JStr ''application/json''"
  by (simp_all add: wire_simps)

lemma wire_optional:
  "jget (to_wire L e) ''causationid'' = ev_causationid e" "jget (to_wire L e) ''tenantid'' = ev_tenantid e"
  "jget (to_wire L e) ''idempotencykey'' = ev_idempotencykey e"
  "jget (to_wire L e) ''traceparent'' = ev_traceparent e" "jget (to_wire L e) ''tracestate'' = ev_tracestate e"
  by (simp_all add: wire_simps)

lemma wire_required: "\<not> list_ex (\<lambda>name. \<not> has_key (to_wire L e) name) REQUIRED"
  by (simp add: REQUIRED_def wire_simps)

lemma wire_no_null: "\<not> list_ex (\<lambda>name. has_key (to_wire L e) name \<and> jget (to_wire L e) name = JNull) OPTIONAL"
  by (simp add: OPTIONAL_def wire_simps)

lemma wire_known: "\<not> list_ex (\<lambda>(k, _). k \<notin> set REQUIRED \<and> k \<notin> set OPTIONAL) (members (to_wire L e))"
  by (simp add: to_wire_def REQUIRED_def OPTIONAL_def opt_member_def)

lemma from_wire_to_wire:
  assumes "valid_event L e" "iso_law L (instant_of (ev_time e))"
  shows "from_wire L (to_wire L e) = Inr e"
proof -
  from assms(1) obtain t where t: "ev_time e = Aware t"
    using validate_facts(3) [of L e e] by (auto simp: valid_event_def)
  have obj: "is_obj (to_wire L e)" by (simp add: to_wire_def)
  have ts: "read_timestamp L (jget (to_wire L e) ''time'') = Inr (ev_time e)"
    using assms(2) by (simp add: wire_members read_timestamp_def t read_utc_z)
  have "from_wire L (to_wire L e) = validate L e"
    by ((simp add: ts [unfolded wire_members] from_wire_def obj wire_known wire_required wire_no_null wire_members wire_optional), rule arg_cong [where f = "validate L"], simp)
  with assms(1) show ?thesis by (simp add: valid_event_def)
qed

lemma from_wire_valid: "from_wire L v = Inr e \<Longrightarrow> valid_event L e"
proof -
  assume "from_wire L v = Inr e"
  then obtain e' where "validate L e' = Inr e"
    by (auto simp: from_wire_def bindE_Inr_iff split: if_splits)
  then show ?thesis using validate_Inr by (auto simp: valid_event_def)
qed

lemma from_wire_closed:
  "from_wire L v = Inr e \<Longrightarrow> set (map fst (members v)) \<subseteq> set REQUIRED \<union> set OPTIONAL
     \<and> (\<forall>name \<in> set REQUIRED. has_key v name)"
  by (auto simp: from_wire_def list_ex_iff split: if_splits)

section \<open>Consumed and produced events\<close>

lemma check_consumable_Inr:
  assumes "check_consumable e = Inr e'"
  shows "e' = e" "ev_scope e = JStr ''tenant''"
    "ev_source e \<in> {JStr ''urn:baobab-platform:service:baobab-trade'', JStr ''urn:baobab-platform:service:trade''}"
    "jtext (ev_type e) \<in> {''com.baobab-platform.trade.order.placed.v1'', ''com.baobab-platform.trade.customer.projected.v1''}"
proof -
  from assms obtain schema producer where m: "map_of CONSUMED (jtext (ev_type e)) = Some (schema, producer)"
    and src: "ev_source e \<in> JStr ` accepted_sources producer" and rest: "e' = e" "ev_scope e = JStr ''tenant''"
    by (auto simp: check_consumable_def split: option.splits if_splits)
  from m have ty: "jtext (ev_type e) \<in> {''com.baobab-platform.trade.order.placed.v1'', ''com.baobab-platform.trade.customer.projected.v1''}"
    and "producer = ''baobab-trade''"
    by (auto simp: CONSUMED_def split: if_splits)
  with src show "ev_source e \<in> {JStr ''urn:baobab-platform:service:baobab-trade'', JStr ''urn:baobab-platform:service:trade''}"
    by (auto simp: accepted_sources_def SOURCE_PREFIX_def remove_prefix_def starts_with_def)
  from ty rest show "e' = e" "ev_scope e = JStr ''tenant''"
    "jtext (ev_type e) \<in> {''com.baobab-platform.trade.order.placed.v1'', ''com.baobab-platform.trade.customer.projected.v1''}"
    by auto
qed

lemma new_event_Inr:
  assumes "new_event L eid ty subject corr data tenant caus idem tp t = Inr e"
  shows "valid_event L e" "ty \<in> fst ` set PRODUCED" "ev_type e = JStr ty" "ev_source e = JStr ERP_SOURCE"
    "ev_data e = data" "ev_time e = Aware t" "ev_tenantid e = (case tenant of None \<Rightarrow> JNull | Some s \<Rightarrow> JStr s)"
    "ev_idempotencykey e = idem" "Some (ev_dataschema e) = map_option JStr (dataschema_for ty)"
    "ev_subject e = JStr subject" "ev_correlationid e = JStr corr" "ev_id e = JStr (show_uuid eid)"
proof -
  from assms obtain schema where ty: "ty \<in> fst ` set PRODUCED" "dataschema_for ty = Some schema"
    and v: "validate L \<lparr>ev_id = JStr (show_uuid eid), ev_type = JStr ty, ev_source = JStr ERP_SOURCE,
            ev_subject = JStr subject, ev_time = Aware t, ev_dataschema = JStr schema,
            ev_scope = JStr (case tenant of None \<Rightarrow> ''platform'' | Some s \<Rightarrow> if s = [] then ''platform'' else ''tenant''),
            ev_correlationid = JStr corr, ev_data = data,
            ev_tenantid = (case tenant of None \<Rightarrow> JNull | Some s \<Rightarrow> JStr s),
            ev_causationid = caus, ev_idempotencykey = idem, ev_traceparent = tp, ev_tracestate = JNull\<rparr> = Inr e"
    unfolding new_event_def by (cases "ty \<in> fst ` set PRODUCED"; cases "dataschema_for ty") auto
  note e = validate_Inr [OF v]
  show "valid_event L e" using v unfolding valid_event_def e .
  show "ty \<in> fst ` set PRODUCED" "ev_type e = JStr ty" "ev_source e = JStr ERP_SOURCE"
    "ev_data e = data" "ev_time e = Aware t" "ev_tenantid e = (case tenant of None \<Rightarrow> JNull | Some s \<Rightarrow> JStr s)"
    "ev_idempotencykey e = idem" "Some (ev_dataschema e) = map_option JStr (dataschema_for ty)"
    "ev_subject e = JStr subject" "ev_correlationid e = JStr corr" "ev_id e = JStr (show_uuid eid)"
    unfolding e using ty by simp_all
qed

text \<open>
  The documented behaviour the produced events rest on: the scheme \<open>urlsplit\<close> reads in the URIs of this
  platform, and \<open>uuid.uuid5\<close> being a UUID.
\<close>

definition lib_ok :: "pylib \<Rightarrow> bool" where
  "lib_ok L \<longleftrightarrow> url_scheme L ERP_SOURCE = Some ''urn'' \<and> (\<forall>s. starts_with s CONTRACT_HOST \<longrightarrow> url_scheme L s = Some ''https'')
     \<and> (\<forall>n s. uuid5 L n s < 2 ^ 128)"

lemma sample_lib_ok: "lib_ok (sample_lib j)"
proof -
  have "takeWhile (\<lambda>c. c \<noteq> CHR '':'') (''https'' @ CHR '':'' # s) = ''https''" for s by simp
  then have "takeWhile (\<lambda>c. c \<noteq> CHR '':'') s = ''https''" if "starts_with s CONTRACT_HOST" for s
  proof -
    from that have "s = CONTRACT_HOST @ drop (length CONTRACT_HOST) s"
      unfolding starts_with_def by (metis append_take_drop_id)
    also have "\<dots> = ''https'' @ CHR '':'' # (drop 6 CONTRACT_HOST @ drop (length CONTRACT_HOST) s)"
      by (simp add: CONTRACT_HOST_def)
    finally show ?thesis by (metis \<open>\<And>s. takeWhile (\<lambda>c. c \<noteq> CHR '':'') (''https'' @ CHR '':'' # s) = ''https''\<close>)
  qed
  then show ?thesis by (simp add: lib_ok_def sample_lib_def ERP_SOURCE_def)
qed

definition schema_ok :: "string \<Rightarrow> bool" where
  "schema_ok ty = (validate_type (JStr ty) = Inr () \<and> (case dataschema_for ty of None \<Rightarrow> False
     | Some s \<Rightarrow> starts_with s CONTRACT_HOST \<and> s \<noteq> [] \<and> length s \<le> 512))"

lemma produced_schemas: "list_all schema_ok (map fst PRODUCED)"
  by code_simp

lemma produced_schema:
  assumes "ty \<in> fst ` set PRODUCED"
  obtains schema where "validate_type (JStr ty) = Inr ()" "dataschema_for ty = Some schema" "starts_with schema CONTRACT_HOST"
    "schema \<noteq> []" "length schema \<le> 512"
  using assms produced_schemas by (auto simp: list_all_iff schema_ok_def split: option.splits)

lemma ERP_SOURCE_length: "ERP_SOURCE \<noteq> []" "length ERP_SOURCE \<le> 255"
  by (simp_all add: ERP_SOURCE_def)

text \<open>A produced event is built exactly when its idempotency key has the contract's form.\<close>

lemma new_event_iff:
  assumes "lib_ok L" "ty \<in> fst ` set PRODUCED" "eid < 2 ^ 128" "uuid_text (JStr corr) \<noteq> None"
    "1 \<le> length subject" "length subject \<le> 255" "tenant_id (JStr s) = Inr s" "is_obj data"
  shows "(\<exists>e. new_event L eid ty subject corr data (Some s) JNull (JStr k) JNull t = Inr e) \<longleftrightarrow>
    16 \<le> length k \<and> length k \<le> 128 \<and> fullmatch idempotency_rx k"
proof -
  obtain schema where sch: "validate_type (JStr ty) = Inr ()" "dataschema_for ty = Some schema" "starts_with schema CONTRACT_HOST"
    "schema \<noteq> []" "length schema \<le> 512"
    using assms(2) by (rule produced_schema)
  have s: "s \<noteq> []" using assms(7) by (auto simp: tenant_id_Inr)
  have scope: "validate_scope (JStr ''tenant'') (JStr s) = Inr ()" using assms(7) by (auto simp: validate_scope_tenant)
  have id: "check_uuid (JStr (show_uuid eid)) ''id'' = Inr (show_uuid eid)"
    using assms(3) by (simp add: check_uuid_def uuid_roundtrip)
  obtain c where corr: "check_uuid (JStr corr) ''correlationid'' = Inr c"
    using assms(4) by (auto simp: check_uuid_def simp del: uuid_text.simps)
  have src: "absolute_uri L (JStr ERP_SOURCE) ''source'' 255 = Inr ERP_SOURCE"
    using assms(1) ERP_SOURCE_length by (simp add: lib_ok_def)
  have ds: "absolute_uri L (JStr schema) ''dataschema'' 512 = Inr schema"
    using assms(1) sch(3,4,5) by (simp add: lib_ok_def)
  show ?thesis
    using assms(2,5,6,8) s unfolding new_event_def validate_def sch(2)
    by (simp add: id corr src ds sch(1) scope unless_null_def bindE_Inr_iff del: validate_type.simps absolute_uri.simps)
qed

lemma idempotency_rx_iff: "fullmatch idempotency_rx k \<longleftrightarrow>
    (\<exists>c cs. k = c # cs \<and> in_cls c [(CHR ''A'', CHR ''Z''), (CHR ''a'', CHR ''z''), (CHR ''0'', CHR ''9'')]
      \<and> list_all (\<lambda>c. in_cls c [(CHR ''A'', CHR ''Z''), (CHR ''a'', CHR ''z''), (CHR ''0'', CHR ''9''), (CHR ''.'', CHR ''.''),
           (CHR ''_'', CHR ''_''), (CHR '':'', CHR '':''), (CHR ''-'', CHR ''-'')]) cs)"
  unfolding idempotency_rx_def alnum_def key_char_def fullmatch_Cls_Seq fullmatch_Star_Cls ..

section \<open>Properties\<close>

definition sample_event :: cloud_event where
  "sample_event = \<lparr>ev_id = JStr ''00000000-0000-0000-0000-000000000001'',
     ev_type = JStr ''com.baobab-platform.trade.order.placed.v1'',
     ev_source = JStr ''urn:baobab-platform:service:baobab-trade'', ev_subject = JStr ''order_1'', ev_time = Aware 0,
     ev_dataschema = JStr ''https://contracts.baobab-platform.com/erp/v1/commerce-order-consequence.schema.json'',
     ev_scope = JStr ''tenant'', ev_correlationid = JStr ''00000000-0000-0000-0000-000000000002'',
     ev_data = JObj [], ev_tenantid = JStr ''tn_abc01'', ev_causationid = JNull, ev_idempotencykey = JNull,
     ev_traceparent = JStr ''00-11111111111111111111111111111111-1111111111111111-01'', ev_tracestate = JNull\<rparr>"

lemma sample_event_valid: "validate (sample_lib j) sample_event = Inr sample_event"
  by code_simp

text \<open>C22: A valid event is its wire form: reading the members written for a validated event gives the
  event back, with its instant (for an instant the ISO 8601 printer and reader agree on).\<close>

theorem event_wire_round_trip:
  assumes "validate L e = Inr e" "iso_law L (instant_of (ev_time e))"
  shows "from_wire L (to_wire L e) = Inr e"
  using assms by (intro from_wire_to_wire) (simp_all add: valid_event_def)

theorem event_wire_round_trip_witness:
  "from_wire (sample_lib JNull) (to_wire (sample_lib JNull) sample_event) = Inr sample_event"
  by (rule event_wire_round_trip [OF sample_event_valid]) (simp add: sample_event_def sample_lib_iso)

lemma from_wire_members:
  assumes "from_wire L v = Inr e"
  shows "ev_id e = jget v ''id'' \<and> ev_type e = jget v ''type'' \<and> ev_source e = jget v ''source'' \<and> ev_subject e = jget v ''subject''
    \<and> ev_dataschema e = jget v ''dataschema'' \<and> ev_scope e = jget v ''baobabscope'' \<and> ev_correlationid e = jget v ''correlationid''
    \<and> ev_data e = jget v ''data'' \<and> ev_tenantid e = jget v ''tenantid'' \<and> ev_causationid e = jget v ''causationid''
    \<and> ev_idempotencykey e = jget v ''idempotencykey'' \<and> ev_traceparent e = jget v ''traceparent'' \<and> ev_tracestate e = jget v ''tracestate''
    \<and> read_timestamp L (jget v ''time'') = Inr (ev_time e)"
  using assms by (auto simp: from_wire_def bindE_Inr_iff dest!: validate_Inr split: if_splits)

text \<open>The registered events with their schemas, spelled out.\<close>

lemma check_consumable_registered:
  assumes "check_consumable e = Inr e'" "ev_type e = JStr ty"
  shows "(ty, ev_dataschema e) \<in>
      {(''com.baobab-platform.trade.order.placed.v1'',
         JStr ''https://contracts.baobab-platform.com/erp/v1/commerce-order-consequence.schema.json''),
       (''com.baobab-platform.trade.customer.projected.v1'',
         JStr ''https://contracts.baobab-platform.com/erp/v1/customer-projection.schema.json'')}"
proof -
  have known: "ty \<in> {''com.baobab-platform.trade.order.placed.v1'', ''com.baobab-platform.trade.customer.projected.v1''}"
    using check_consumable_Inr(4) [OF assms(1)] assms(2) by simp
  have schema: "Some (ev_dataschema e) = map_option JStr (dataschema_for ty)"
    using assms by (auto simp: check_consumable_def split: option.splits prod.splits if_splits)
  have "dataschema_for ''com.baobab-platform.trade.order.placed.v1''
      = Some ''https://contracts.baobab-platform.com/erp/v1/commerce-order-consequence.schema.json''"
    "dataschema_for ''com.baobab-platform.trade.customer.projected.v1''
      = Some ''https://contracts.baobab-platform.com/erp/v1/customer-projection.schema.json''"
    by code_simp+
  with known schema show ?thesis by auto
qed

text \<open>C23: What \<open>from_wire\<close> and \<open>check_consumable\<close> let through: an object with only members of the closed set and all the
  required ones; one of the two registered types, under exactly the schema registered for it, from the producer that
  may send it; and a tenant scope with a tenant that matches the tenant grammar. The event carries the members of the wire form.\<close>

theorem consumable_event:
  assumes "from_wire L v = Inr e" "check_consumable e = Inr e'"
  shows "e' = e \<and> set (map fst (members v)) \<subseteq> set REQUIRED \<union> set OPTIONAL \<and> (\<forall>name \<in> set REQUIRED. has_key v name)
    \<and> ev_scope e = JStr ''tenant'' \<and> (\<exists>s. ev_tenantid e = JStr s \<and> tenant_id (JStr s) = Inr s)
    \<and> (ev_type e, ev_dataschema e) \<in>
        {(JStr ''com.baobab-platform.trade.order.placed.v1'',
           JStr ''https://contracts.baobab-platform.com/erp/v1/commerce-order-consequence.schema.json''),
         (JStr ''com.baobab-platform.trade.customer.projected.v1'',
           JStr ''https://contracts.baobab-platform.com/erp/v1/customer-projection.schema.json'')}
    \<and> ev_source e \<in> {JStr ''urn:baobab-platform:service:baobab-trade'', JStr ''urn:baobab-platform:service:trade''}
    \<and> ev_type e = jget v ''type'' \<and> ev_source e = jget v ''source'' \<and> ev_dataschema e = jget v ''dataschema''
    \<and> ev_tenantid e = jget v ''tenantid'' \<and> ev_id e = jget v ''id'' \<and> ev_data e = jget v ''data''"
proof -
  note c = check_consumable_Inr [OF assms(2)]
  have valid: "validate L e = Inr e" using from_wire_valid [OF assms(1)] by (simp add: valid_event_def)
  have "validate_scope (ev_scope e) (ev_tenantid e) = Inr ()" using validate_facts(5) [OF valid] .
  then have tenant: "\<exists>s. ev_tenantid e = JStr s \<and> tenant_id (JStr s) = Inr s" unfolding c(2) validate_scope_tenant by auto
  have "validate_type (ev_type e) = Inr ()" using valid by (auto simp: validate_def bindE_Inr_iff)
  then obtain ty where ty: "ev_type e = JStr ty" by (cases "ev_type e") auto
  from check_consumable_registered [OF assms(2) ty] c tenant from_wire_closed [OF assms(1)] from_wire_members [OF assms(1)]
  show ?thesis unfolding ty by blast
qed

lemma sample_event_consumable: "check_consumable sample_event = Inr sample_event"
  by code_simp

theorem consumable_event_witness:
  "\<exists>s. ev_tenantid sample_event = JStr s \<and> tenant_id (JStr s) = Inr s"
proof -
  have "from_wire (sample_lib JNull) (to_wire (sample_lib JNull) sample_event) = Inr sample_event" by code_simp
  from consumable_event [OF this sample_event_consumable] show ?thesis by blast
qed

end
