(* ===== verification/Execution_Policy.thy ===== *)
theory Execution_Policy
  imports Py Prelude
begin

text \<open>
  The pure rules of executing a received event (\<open>modules/order_to_cash/execution_policy.py\<close>): how an
  attempt ends, the retry and block budgets, and the deterministic ERP order identifier.
\<close>

definition ORDER_PLACED :: string where
  "ORDER_PLACED = ''com.baobab-platform.trade.order.placed.v1''"

definition MAX_ATTEMPTS :: nat where "MAX_ATTEMPTS = 24"
definition RETRY_BASE_SECONDS :: int where "RETRY_BASE_SECONDS = 30"
definition RETRY_CEILING_SECONDS :: int where "RETRY_CEILING_SECONDS = 3600"
definition ALL_ORGANIZATIONS_AD_ORG_ID :: int where "ALL_ORGANIZATIONS_AD_ORG_ID = 0"
definition CONTENTION_DELAY_SECONDS :: int where "CONTENTION_DELAY_SECONDS = 5"
definition BLOCKED_DELAY_SECONDS :: int where "BLOCKED_DELAY_SECONDS = 900"
definition BLOCKED_HORIZON :: int where "BLOCKED_HORIZON = hours 72"
definition CUSTOMER_KIND :: string where "CUSTOMER_KIND = ''business_partner''"
definition PRODUCT_KIND :: string where "PRODUCT_KIND = ''product''"

definition ORDER_NAMESPACE :: nat where
  "ORDER_NAMESPACE = 0xb0b2c7a13d6e5c418f0a6d1e9a4c2b77"

lemmas policy_constants =
  MAX_ATTEMPTS_def RETRY_BASE_SECONDS_def RETRY_CEILING_SECONDS_def CONTENTION_DELAY_SECONDS_def
  BLOCKED_DELAY_SECONDS_def BLOCKED_HORIZON_def

text \<open>The states of an inbox row; an outcome is one of the last four that a worker sets.\<close>

datatype row_status = RECEIVED | PROCESSING | FAILED | RETRY | BLOCKED | PROCESSED | DEAD_LETTER

record Outcome =
  oc_status :: row_status
  oc_code :: string
  oc_detail :: string
  oc_delay :: "int option"
  oc_refund :: bool

abbreviation outcome :: "row_status \<Rightarrow> string \<Rightarrow> string \<Rightarrow> Outcome" where
  "outcome status ocode detail \<equiv>
     \<lparr>oc_status = status, oc_code = ocode, oc_detail = detail, oc_delay = None, oc_refund = False\<rparr>"

definition erp_order_id :: "pylib \<Rightarrow> string \<Rightarrow> string \<Rightarrow> string" where
  "erp_order_id L tenant order_ref =
     ''erp_'' @ hex_digits 32 (uuid5 L ORDER_NAMESPACE (''order|'' @ tenant @ ''|'' @ order_ref))"

text \<open>An attempt is numbered from 1: a claim counts itself.\<close>

definition retry_delay_seconds :: "nat \<Rightarrow> int" where
  "retry_delay_seconds attempts = min (RETRY_BASE_SECONDS * 2 ^ (attempts - 1)) RETRY_CEILING_SECONDS"

definition failure_outcome :: "Outcome \<Rightarrow> nat \<Rightarrow> instant \<Rightarrow> instant \<Rightarrow> Outcome" where
  "failure_outcome oc attempts received_at t =
     (if oc_status oc = RETRY \<and> MAX_ATTEMPTS \<le> attempts
        then outcome DEAD_LETTER ''ATTEMPTS_EXHAUSTED'' (oc_code oc)
      else if oc_status oc = BLOCKED \<and> BLOCKED_HORIZON < t - received_at
        then outcome DEAD_LETTER ''BLOCKED_HORIZON_EXCEEDED'' (oc_code oc)
      else if oc_status oc = RETRY \<and> oc_delay oc = None
        then \<lparr>oc_status = RETRY, oc_code = oc_code oc, oc_detail = oc_detail oc,
               oc_delay = Some (retry_delay_seconds attempts), oc_refund = False\<rparr>
      else if oc_status oc = BLOCKED
        then \<lparr>oc_status = BLOCKED, oc_code = oc_code oc, oc_detail = oc_detail oc,
               oc_delay = Some BLOCKED_DELAY_SECONDS, oc_refund = False\<rparr>
      else oc)"

section \<open>What the budgets guarantee\<close>

lemma retry_delay_bounds: "30 \<le> retry_delay_seconds n \<and> retry_delay_seconds n \<le> 3600"
  by (simp add: retry_delay_seconds_def policy_constants)

lemma retry_delay_mono: "m \<le> n \<Longrightarrow> retry_delay_seconds m \<le> retry_delay_seconds n"
  by (simp add: retry_delay_seconds_def policy_constants min.coboundedI1)

lemma retry_delay_ceiling: "8 \<le> n \<Longrightarrow> retry_delay_seconds n = 3600"
proof -
  assume "8 \<le> n"
  then have "(2::int) ^ 7 \<le> 2 ^ (n - 1)" by (intro power_increasing) auto
  then show ?thesis by (simp add: retry_delay_seconds_def policy_constants)
qed

lemma failure_outcome_status:
  "oc_status (failure_outcome oc n r t) = oc_status oc \<or> oc_status (failure_outcome oc n r t) = DEAD_LETTER"
  by (simp add: failure_outcome_def)

lemma failure_outcome_retry:
  "oc_status (failure_outcome oc n r t) = RETRY \<Longrightarrow>
     oc_status oc = RETRY \<and> n < 24 \<and> oc_delay (failure_outcome oc n r t) \<noteq> None"
  by (auto simp: failure_outcome_def policy_constants split: if_splits)

lemma failure_outcome_blocked:
  "oc_status (failure_outcome oc n r t) = BLOCKED \<Longrightarrow>
     oc_status oc = BLOCKED \<and> t - r \<le> hours 72 \<and> oc_delay (failure_outcome oc n r t) = Some 900"
  by (auto simp: failure_outcome_def policy_constants split: if_splits)

lemma failure_outcome_processed [simp]:
  "oc_status oc = PROCESSED \<Longrightarrow> failure_outcome oc n r t = oc"
  by (simp add: failure_outcome_def)

end
