(* ===== verification/Inbox.thy ===== *)
theory Inbox
  imports Cloud_Event Execution_Policy "HOL-Library.Product_Lexorder"
begin

text \<open>
  The event inbox: the work queue over \<open>baobab.event_inbox\<close> (\<open>modules/inbox/postgres_queue.py\<close>,
  migrations 0005, 0013 and 0019), the receiving store (\<open>postgres_store.py\<close>) and \<open>receive\<close>
  (\<open>service.py\<close>) with the body signature (\<open>modules/security/signing.py\<close>). The last section is the
  step relation of any number of workers over one table and the fencing argument.
\<close>

section \<open>Rows and claims\<close>

record inbox_row =
  ib_id :: nat
  ib_event_id :: nat
  ib_type :: string
  ib_tenant :: "string option"
  ib_data :: json
  ib_cloudevents :: bool
  ib_source :: string
  ib_subject :: string
  ib_dataschema :: string
  ib_scope :: string
  ib_correlation :: "nat option"
  ib_causation :: "nat option"
  ib_idempotency :: "string option"
  ib_traceparent :: "string option"
  ib_tracestate :: "string option"
  ib_time :: instant
  ib_received_at :: instant
  ib_status :: row_status
  ib_attempts :: nat
  ib_next :: instant
  ib_claimed_by :: "string option"
  ib_lease :: "instant option"
  ib_code :: "string option"
  ib_error :: "string option"
  ib_processed_at :: "instant option"

record Claim =
  cl_row_id :: nat
  cl_event_id :: string
  cl_event_type :: string
  cl_tenant_id :: "string option"
  cl_data :: json
  cl_attempts :: nat
  cl_received_at :: instant
  cl_correlation_id :: "string option"
  cl_worker_id :: string

datatype queue_error = LeaseLost | Not_a_release_status

section \<open>Claiming\<close>

text \<open>A comparison with a null lease is not true.\<close>

definition due :: "instant \<Rightarrow> inbox_row \<Rightarrow> bool" where
  "due t r = ((ib_status r \<in> {RECEIVED, RETRY, BLOCKED} \<and> ib_next r \<le> t)
     \<or> (ib_status r = PROCESSING \<and> (case ib_lease r of None \<Rightarrow> False | Some x \<Rightarrow> x \<le> t)))"

definition claimable :: "string \<Rightarrow> instant \<Rightarrow> (nat \<Rightarrow> bool) \<Rightarrow> inbox_row \<Rightarrow> bool" where
  "claimable ty t locked r = (ib_cloudevents r \<and> ib_type r = ty \<and> due t r \<and> \<not> locked (ib_id r))"

definition next_row :: "string \<Rightarrow> instant \<Rightarrow> (nat \<Rightarrow> bool) \<Rightarrow> inbox_row list \<Rightarrow> inbox_row option" where
  "next_row ty t locked rows =
     (case sort_key (\<lambda>r. (ib_next r, ib_id r)) (filter (claimable ty t locked) rows) of
        [] \<Rightarrow> None | r # _ \<Rightarrow> Some r)"

definition stamp :: "string \<Rightarrow> instant \<Rightarrow> inbox_row \<Rightarrow> inbox_row" where
  "stamp worker expiry r =
     r\<lparr>ib_status := PROCESSING, ib_claimed_by := Some worker, ib_attempts := ib_attempts r + 1, ib_lease := Some expiry\<rparr>"

definition claim_of :: "string \<Rightarrow> inbox_row \<Rightarrow> Claim" where
  "claim_of worker r =
     \<lparr>cl_row_id = ib_id r, cl_event_id = show_uuid (ib_event_id r), cl_event_type = ib_type r, cl_tenant_id = ib_tenant r,
      cl_data = ib_data r, cl_attempts = ib_attempts r, cl_received_at = ib_received_at r,
      cl_correlation_id = map_option show_uuid (ib_correlation r), cl_worker_id = worker\<rparr>"

text \<open>\<open>locked\<close> are the rows other sessions hold locked at this moment, which \<open>SKIP LOCKED\<close> passes over.\<close>

definition claim ::
  "string \<Rightarrow> string \<Rightarrow> int \<Rightarrow> instant \<Rightarrow> (nat \<Rightarrow> bool) \<Rightarrow> inbox_row list \<Rightarrow> Claim option \<times> inbox_row list" where
  "claim ty worker lease_seconds t locked rows =
     (case next_row ty t locked rows of
        None \<Rightarrow> (None, rows)
      | Some r \<Rightarrow> (Some (claim_of worker (stamp worker (t + seconds lease_seconds) r)),
                   update_where (\<lambda>x. ib_id x = ib_id r) (stamp worker (t + seconds lease_seconds)) rows))"

section \<open>Settling\<close>

definition holds_row :: "Claim \<Rightarrow> inbox_row \<Rightarrow> bool" where
  "holds_row c r = (ib_id r = cl_row_id c \<and> ib_status r = PROCESSING
     \<and> ib_claimed_by r = Some (cl_worker_id c) \<and> ib_attempts r = cl_attempts c)"

definition settled ::
  "row_status \<Rightarrow> string \<Rightarrow> string option \<Rightarrow> instant option \<Rightarrow> bool \<Rightarrow> instant \<Rightarrow> inbox_row \<Rightarrow> inbox_row" where
  "settled status ocode err next refund t r =
     r\<lparr>ib_status := status, ib_code := Some ocode, ib_error := err,
       ib_next := (case next of None \<Rightarrow> ib_next r | Some n \<Rightarrow> n),
       ib_attempts := ib_attempts r - (if refund then 1 else 0),
       ib_claimed_by := None, ib_lease := None,
       ib_processed_at := (if status = PROCESSED then Some t else ib_processed_at r)\<rparr>"

definition settle_row ::
  "Claim \<Rightarrow> row_status \<Rightarrow> string \<Rightarrow> string option \<Rightarrow> instant option \<Rightarrow> bool \<Rightarrow> instant \<Rightarrow> inbox_row list
     \<Rightarrow> (queue_error + unit) \<times> inbox_row list" where
  "settle_row c status ocode err next refund t rows =
     (let rows' = update_where (holds_row c) (settled status ocode err next refund t) rows in
      if count_where (holds_row c) rows \<noteq> 1 then (Inl LeaseLost, rows') else (Inr (), rows'))"

definition processed :: "Claim \<Rightarrow> string \<Rightarrow> instant \<Rightarrow> inbox_row list \<Rightarrow> (queue_error + unit) \<times> inbox_row list" where
  "processed c ocode t rows = settle_row c PROCESSED ocode None None False t rows"

definition release ::
  "Claim \<Rightarrow> row_status \<Rightarrow> string \<Rightarrow> string \<Rightarrow> instant option \<Rightarrow> bool \<Rightarrow> instant \<Rightarrow> inbox_row list
     \<Rightarrow> (queue_error + unit) \<times> inbox_row list" where
  "release c status ocode err next refund t rows =
     (if status \<notin> {RETRY, BLOCKED, DEAD_LETTER} then (Inl Not_a_release_status, rows)
      else settle_row c status ocode (Some (take 500 err)) next refund t rows)"

definition counts :: "string \<Rightarrow> inbox_row list \<Rightarrow> row_status \<Rightarrow> nat" where
  "counts ty rows status = count_where (\<lambda>r. ib_cloudevents r \<and> ib_type r = ty \<and> ib_status r = status) rows"

section \<open>Receiving\<close>

datatype receive_error =
    InvalidSignature | NonAsciiSignature | ValueError string | Envelope event_error | DatabaseError

text \<open>
  \<open>hmac.compare_digest\<close> on two strings raises \<open>TypeError\<close> when one of them is not ASCII.
\<close>

definition verify_signature :: "pylib \<Rightarrow> string \<Rightarrow> string \<Rightarrow> string \<Rightarrow> bool option" where
  "verify_signature L body supplied secret =
     (if body = [] \<or> supplied = [] \<or> secret = [] then Some False
      else (let normalized = remove_prefix supplied ''sha256='' in
            if list_ex (\<lambda>c. 128 \<le> code c) normalized then None
            else Some (hmac_sha256_hex L secret body = normalized)))"

definition sign_body :: "pylib \<Rightarrow> string \<Rightarrow> string \<Rightarrow> string" where
  "sign_body L body secret = ''sha256='' @ hmac_sha256_hex L secret body"

text \<open>
  \<open>%s::uuid\<close>: \<open>pg_uuid\<close> is the input function of the server's \<open>uuid\<close> type; an argument it refuses, or
  one that is not text, is a database error.
\<close>

fun uuid_arg :: "(string \<Rightarrow> nat option) \<Rightarrow> json \<Rightarrow> receive_error + nat" where
  "uuid_arg pg_uuid (JStr s) = of_option DatabaseError (pg_uuid s)"
| "uuid_arg pg_uuid _ = Inl DatabaseError"

fun uuid_arg_opt :: "(string \<Rightarrow> nat option) \<Rightarrow> json \<Rightarrow> receive_error + nat option" where
  "uuid_arg_opt pg_uuid JNull = Inr None"
| "uuid_arg_opt pg_uuid v = bindE (uuid_arg pg_uuid v) (\<lambda>n. Inr (Some n))"

fun text_opt :: "json \<Rightarrow> string option" where
  "text_opt (JStr s) = Some s"
| "text_opt _ = None"

definition same_event :: "string \<Rightarrow> nat \<Rightarrow> inbox_row \<Rightarrow> bool" where
  "same_event source n r = (ib_cloudevents r \<and> ib_source r = source \<and> ib_event_id r = n)"

definition inbox_exists :: "(string \<Rightarrow> nat option) \<Rightarrow> json \<Rightarrow> json \<Rightarrow> inbox_row list \<Rightarrow> receive_error + bool" where
  "inbox_exists pg_uuid source eid rows =
     bindE (uuid_arg pg_uuid eid) (\<lambda>n. Inr (select_one (same_event (jtext source) n) rows \<noteq> None))"

text \<open>\<open>new_id\<close> is the next value of the table's sequence, \<open>t\<close> the transaction's \<open>now()\<close>.\<close>

definition record_received ::
  "(string \<Rightarrow> nat option) \<Rightarrow> cloud_event \<Rightarrow> nat \<Rightarrow> instant \<Rightarrow> inbox_row list \<Rightarrow> receive_error + inbox_row list" where
  "record_received pg_uuid e new_id t rows =
     bindE (uuid_arg pg_uuid (ev_id e)) (\<lambda>n.
     bindE (uuid_arg pg_uuid (ev_correlationid e)) (\<lambda>corr.
     bindE (uuid_arg_opt pg_uuid (ev_causationid e)) (\<lambda>caus.
     Inr (if select_one (same_event (jtext (ev_source e)) n) rows \<noteq> None then rows
          else rows @ [\<lparr>ib_id = new_id, ib_event_id = n, ib_type = jtext (ev_type e), ib_tenant = text_opt (ev_tenantid e),
            ib_data = ev_data e, ib_cloudevents = True, ib_source = jtext (ev_source e), ib_subject = jtext (ev_subject e),
            ib_dataschema = jtext (ev_dataschema e), ib_scope = jtext (ev_scope e), ib_correlation = Some corr,
            ib_causation = caus, ib_idempotency = text_opt (ev_idempotencykey e),
            ib_traceparent = text_opt (ev_traceparent e), ib_tracestate = text_opt (ev_tracestate e),
            ib_time = instant_of (ev_time e), ib_received_at = t, ib_status = RECEIVED, ib_attempts = 0, ib_next = t,
            ib_claimed_by = None, ib_lease = None, ib_code = None, ib_error = None, ib_processed_at = None\<rparr>]))))"

definition receive ::
  "pylib \<Rightarrow> (string \<Rightarrow> nat option) \<Rightarrow> string \<Rightarrow> string \<Rightarrow> string \<Rightarrow> nat \<Rightarrow> instant
     \<Rightarrow> (inbox_row list, receive_error, cloud_event) op" where
  "receive L pg_uuid body signature secret new_id t rows =
     (case verify_signature L body signature secret of
        None \<Rightarrow> (Inl NonAsciiSignature, rows)
      | Some False \<Rightarrow> (Inl InvalidSignature, rows)
      | Some True \<Rightarrow>
          (case json_loads L body of
             None \<Rightarrow> (Inl (ValueError ''the event body is not valid JSON''), rows)
           | Some parsed \<Rightarrow>
               (case bindE (from_wire L parsed) check_consumable of
                  Inl e \<Rightarrow> (Inl (Envelope e), rows)
                | Inr ev \<Rightarrow>
                    (case inbox_exists pg_uuid (ev_source ev) (ev_id ev) rows of
                       Inl e \<Rightarrow> (Inl e, rows)
                     | Inr True \<Rightarrow> (Inr ev, rows)
                     | Inr False \<Rightarrow>
                         (case record_received pg_uuid ev new_id t rows of
                            Inl e \<Rightarrow> (Inl e, rows)
                          | Inr rows' \<Rightarrow> (Inr ev, rows'))))))"

section \<open>Rows by identifier\<close>

definition row_at :: "nat \<Rightarrow> inbox_row list \<Rightarrow> inbox_row option" where
  "row_at i rows = select_one (\<lambda>r. ib_id r = i) rows"

definition ids_unique :: "inbox_row list \<Rightarrow> bool" where
  "ids_unique rows = distinct (map ib_id rows)"

lemma row_at_id: "row_at i rows = Some r \<Longrightarrow> ib_id r = i \<and> r \<in> set rows"
  by (auto simp: row_at_def dest: select_one_SomeD)

lemma row_at_mem: "ids_unique rows \<Longrightarrow> r \<in> set rows \<Longrightarrow> row_at (ib_id r) rows = Some r"
  unfolding ids_unique_def row_at_def by (induction rows) force+

lemma row_at_update:
  assumes "\<And>r. ib_id (f r) = ib_id r"
  shows "row_at j (update_where Q f rows) = map_option (\<lambda>r. if Q r then f r else r) (row_at j rows)"
  using assms unfolding row_at_def by (induction rows) auto

lemma ids_unique_update:
  "(\<And>r. ib_id (f r) = ib_id r) \<Longrightarrow> ids_unique (update_where Q f rows) = ids_unique rows"
  unfolding ids_unique_def by (simp add: map_update_where)

lemma stamp_id [simp]: "ib_id (stamp w t r) = ib_id r"
  by (simp add: stamp_def)

lemma settled_id [simp]: "ib_id (settled st oc err nx rf t r) = ib_id r"
  by (simp add: settled_def)

section \<open>What claiming does\<close>

lemma next_row_None: "next_row ty t locked rows = None \<longleftrightarrow> (\<forall>r \<in> set rows. \<not> claimable ty t locked r)"
proof -
  have "next_row ty t locked rows = None \<longleftrightarrow> sort_key (\<lambda>r. (ib_next r, ib_id r)) (filter (claimable ty t locked) rows) = []"
    by (simp add: next_row_def split: list.split)
  also have "\<dots> \<longleftrightarrow> filter (claimable ty t locked) rows = []"
    by (metis length_0_conv length_sort)
  finally show ?thesis by (auto simp: filter_empty_conv)
qed

lemma next_row_Some:
  assumes "next_row ty t locked rows = Some r"
  shows "r \<in> set rows" "claimable ty t locked r"
    "r' \<in> set rows \<Longrightarrow> claimable ty t locked r' \<Longrightarrow> (ib_next r, ib_id r) \<le> (ib_next r', ib_id r')"
proof -
  let ?xs = "sort_key (\<lambda>r. (ib_next r, ib_id r)) (filter (claimable ty t locked) rows)"
  from assms obtain rs where xs: "?xs = r # rs" by (auto simp: next_row_def split: list.splits)
  have set: "set ?xs = {x \<in> set rows. claimable ty t locked x}" by auto
  have "r \<in> set ?xs" unfolding xs by simp
  then show "r \<in> set rows" "claimable ty t locked r" unfolding set by auto
  have "sorted (map (\<lambda>r. (ib_next r, ib_id r)) ?xs)" by simp
  then have "\<forall>x \<in> set ?xs. (ib_next r, ib_id r) \<le> (ib_next x, ib_id x)" unfolding xs by simp
  then show "r' \<in> set rows \<Longrightarrow> claimable ty t locked r' \<Longrightarrow> (ib_next r, ib_id r) \<le> (ib_next r', ib_id r')"
    unfolding set by auto
qed

lemma claim_None: "claim ty w ls t locked rows = (None, rows') \<longleftrightarrow>
    rows' = rows \<and> (\<forall>r \<in> set rows. \<not> claimable ty t locked r)"
  by (auto simp: claim_def next_row_None [symmetric] split: option.splits)

lemma claim_Some:
  assumes "claim ty w ls t locked rows = (Some c, rows')" "ids_unique rows"
  obtains r where "row_at (cl_row_id c) rows = Some r" "claimable ty t locked r"
    "c = claim_of w (stamp w (t + seconds ls) r)"
    "\<And>j. row_at j rows' = (if j = cl_row_id c then Some (stamp w (t + seconds ls) r) else row_at j rows)"
    "ids_unique rows'" "map ib_id rows' = map ib_id rows"
    "\<forall>x \<in> set rows. claimable ty t locked x \<longrightarrow> (ib_next r, ib_id r) \<le> (ib_next x, ib_id x)"
proof -
  from assms(1) obtain r where nr: "next_row ty t locked rows = Some r"
    and c: "c = claim_of w (stamp w (t + seconds ls) r)"
    and rows': "rows' = update_where (\<lambda>x. ib_id x = ib_id r) (stamp w (t + seconds ls)) rows"
    by (auto simp: claim_def split: option.splits)
  from next_row_Some [OF nr] row_at_mem [OF assms(2)] have r: "row_at (ib_id r) rows = Some r" "claimable ty t locked r"
    by auto
  have id: "cl_row_id c = ib_id r" by (simp add: c claim_of_def)
  have at: "row_at j rows' = (if j = cl_row_id c then Some (stamp w (t + seconds ls) r) else row_at j rows)" for j
  proof (cases "j = ib_id r")
    case True
    then have "row_at j rows = Some r" using r(1) by simp
    with True show ?thesis by (simp add: rows' id row_at_update del: map_option_eq_Some)
  next
    case False
    then show ?thesis
      by (cases "row_at j rows") (auto simp: rows' id row_at_update dest: row_at_id)
  qed
  have ids: "ids_unique rows'" "map ib_id rows' = map ib_id rows"
    using assms(2) by (simp_all add: rows' ids_unique_update map_update_where)
  have first: "\<forall>x \<in> set rows. claimable ty t locked x \<longrightarrow> (ib_next r, ib_id r) \<le> (ib_next x, ib_id x)"
    using next_row_Some(3) [OF nr] by blast
  show thesis by (rule that [OF r(1) [folded id] r(2) c at ids first])
qed

section \<open>What settling does\<close>

lemma settle_row_cases:
  assumes "ids_unique rows"
  shows "settle_row c st oc err nx rf t rows =
    (case row_at (cl_row_id c) rows of
       None \<Rightarrow> (Inl LeaseLost, rows)
     | Some r \<Rightarrow> if holds_row c r
         then (Inr (), update_where (\<lambda>x. ib_id x = cl_row_id c) (settled st oc err nx rf t) rows)
         else (Inl LeaseLost, rows))"
proof -
  have P: "holds_row c = (\<lambda>x. ib_id x = cl_row_id c \<and> holds_row c x)"
    by (auto simp: holds_row_def)
  show ?thesis
  proof (cases "row_at (cl_row_id c) rows")
    case None
    then have none: "\<forall>r \<in> set rows. \<not> holds_row c r"
      by (auto simp: row_at_def select_one_None_iff holds_row_def)
    then have "count_where (holds_row c) rows = 0" by (simp add: count_where_def filter_empty_conv)
    with None none show ?thesis by (simp add: settle_row_def update_where_none)
  next
    case (Some r)
    then have r: "ib_id r = cl_row_id c" "r \<in> set rows" by (auto dest: row_at_id)
    have only: "x = r" if "x \<in> set rows" "ib_id x = cl_row_id c" for x
      using that Some row_at_mem [OF assms, of x] by auto
    show ?thesis
    proof (cases "holds_row c r")
      case True
      then have same: "\<forall>x \<in> set rows. holds_row c x = (ib_id x = cl_row_id c)"
        by (metis holds_row_def only)
      have "count_where (holds_row c) rows = count_where (\<lambda>x. True \<and> ib_id x = cl_row_id c) rows"
        using same by (simp add: count_where_def cong: filter_cong)
      moreover have "count_where (\<lambda>x. True \<and> ib_id x = cl_row_id c) rows \<le> 1"
        using assms by (intro count_where_unique_le) (simp add: unique_on_def ids_unique_def)
      moreover have "count_where (\<lambda>x. True \<and> ib_id x = cl_row_id c) rows \<noteq> 0"
        using r by (auto simp: count_where_def filter_empty_conv)
      ultimately have "count_where (holds_row c) rows = 1" by linarith
      moreover have "update_where (holds_row c) f rows = update_where (\<lambda>x. ib_id x = cl_row_id c) f rows" for f
        using same by (simp add: update_where_def)
      ultimately show ?thesis using Some True by (simp add: settle_row_def)
    next
      case False
      then have none: "\<forall>x \<in> set rows. \<not> holds_row c x" using only by (auto simp: holds_row_def)
      then have "count_where (holds_row c) rows = 0" by (simp add: count_where_def filter_empty_conv)
      with Some False none show ?thesis by (simp add: settle_row_def update_where_none)
    qed
  qed
qed

lemma settle_row_Inr:
  assumes "settle_row c st oc err nx rf t rows = (Inr (), rows')" "ids_unique rows"
  obtains r where "row_at (cl_row_id c) rows = Some r" "holds_row c r"
    "\<And>j. row_at j rows' = (if j = cl_row_id c then Some (settled st oc err nx rf t r) else row_at j rows)"
    "ids_unique rows'" "map ib_id rows' = map ib_id rows"
proof -
  from assms obtain r where r: "row_at (cl_row_id c) rows = Some r" "holds_row c r"
    and rows': "rows' = update_where (\<lambda>x. ib_id x = cl_row_id c) (settled st oc err nx rf t) rows"
    by (auto simp: settle_row_cases split: option.splits if_splits)
  have at: "row_at j rows' = (if j = cl_row_id c then Some (settled st oc err nx rf t r) else row_at j rows)" for j
  proof (cases "j = cl_row_id c")
    case True
    with r show ?thesis by (simp add: rows' row_at_update holds_row_def del: map_option_eq_Some)
  next
    case False
    then show ?thesis by (cases "row_at j rows") (auto simp: rows' row_at_update dest: row_at_id)
  qed
  have ids: "ids_unique rows'" "map ib_id rows' = map ib_id rows"
    using assms(2) by (simp_all add: rows' ids_unique_update map_update_where)
  show thesis by (rule that [OF r at ids])
qed

text \<open>A settlement that is refused changes nothing.\<close>

lemma settle_row_Inl:
  "settle_row c st oc err nx rf t rows = (Inl e, rows') \<Longrightarrow> ids_unique rows \<Longrightarrow> e = LeaseLost \<and> rows' = rows"
  by (auto simp: settle_row_cases split: option.splits if_splits)

section \<open>Workers over one table\<close>

text \<open>
  The table and the claims that have been handed out and not yet given back. A worker that dies keeps
  its claim for ever; a refused settlement (\<open>LeaseLostError\<close>) rolls back and drops it.
\<close>

record queue_state =
  q_rows :: "inbox_row list"
  q_out :: "Claim list"

inductive queue_step :: "queue_state \<Rightarrow> queue_state \<Rightarrow> bool" where
  Received: "record_received pg_uuid e new_id t (q_rows s) = Inr rows' \<Longrightarrow> new_id \<notin> ib_id ` set (q_rows s) \<Longrightarrow>
    queue_step s (s\<lparr>q_rows := rows'\<rparr>)"
| Claimed: "claim ty worker lease_seconds t locked (q_rows s) = (Some c, rows') \<Longrightarrow>
    queue_step s (s\<lparr>q_rows := rows', q_out := c # q_out s\<rparr>)"
| Processed: "c \<in> set (q_out s) \<Longrightarrow> processed c ocode t (q_rows s) = (Inr (), rows') \<Longrightarrow>
    queue_step s (s\<lparr>q_rows := rows', q_out := remove1 c (q_out s)\<rparr>)"
| Released: "c \<in> set (q_out s) \<Longrightarrow> release c status ocode err next refund t (q_rows s) = (Inr (), rows') \<Longrightarrow>
    queue_step s (s\<lparr>q_rows := rows', q_out := remove1 c (q_out s)\<rparr>)"
| Lost: "c \<in> set (q_out s) \<Longrightarrow> processed c ocode t (q_rows s) = (Inl LeaseLost, rows') \<Longrightarrow>
    queue_step s (s\<lparr>q_out := remove1 c (q_out s)\<rparr>)"

inductive_cases queue_stepE [consumes 1, case_names Received Claimed Processed Released Lost]: "queue_step s s'"

inductive queue_steps :: "queue_state \<Rightarrow> queue_state \<Rightarrow> bool" where
  Refl: "queue_steps s s"
| Step: "queue_steps s s' \<Longrightarrow> queue_step s' s'' \<Longrightarrow> queue_steps s s''"

definition empty_queue :: queue_state where
  "empty_queue = \<lparr>q_rows = [], q_out = []\<rparr>"

text \<open>Every step is one of three changes of the table.\<close>

lemma settlements:
  "processed c oc t rows = (r, rows') \<Longrightarrow> settle_row c PROCESSED oc None None False t rows = (r, rows')"
  "release c st oc err nx rf t rows = (Inr (), rows') \<Longrightarrow>
     st \<in> {RETRY, BLOCKED, DEAD_LETTER} \<and> settle_row c st oc (Some (take 500 err)) nx rf t rows = (Inr (), rows')"
  by (auto simp: processed_def release_def split: if_splits)

lemma record_received_Inr:
  assumes "record_received pg_uuid e new_id t rows = Inr rows'"
  obtains "rows' = rows" | r where "rows' = rows @ [r]" "ib_id r = new_id" "ib_status r = RECEIVED" "ib_attempts r = 0"
  using assms by (auto simp: record_received_def bindE_Inr_iff split: if_splits)

lemma row_at_append:
  "row_at j (rows @ [r]) = (case row_at j rows of None \<Rightarrow> if ib_id r = j then Some r else None | Some x \<Rightarrow> Some x)"
  by (simp add: row_at_def select_one_append split: option.split)

lemma queue_step_cases [consumes 2, case_names Same Insert Claim Settle]:
  assumes "queue_step s s'" "ids_unique (q_rows s)"
  obtains
    (Same) "q_rows s' = q_rows s" "q_out s' = q_out s \<or> (\<exists>c \<in> set (q_out s). q_out s' = remove1 c (q_out s))"
  | (Insert) r where "ib_id r \<notin> ib_id ` set (q_rows s)" "q_rows s' = q_rows s @ [r]" "ib_status r = RECEIVED"
      "q_out s' = q_out s"
  | (Claim) c r t x w where "row_at (cl_row_id c) (q_rows s) = Some r" "due t r" "ib_cloudevents r"
      "row_at (cl_row_id c) (q_rows s') = Some (stamp w x r)" "c = claim_of w (stamp w x r)"
      "\<And>j. j \<noteq> cl_row_id c \<Longrightarrow> row_at j (q_rows s') = row_at j (q_rows s)"
      "ids_unique (q_rows s')" "q_out s' = c # q_out s"
  | (Settle) c r st oc err nx rf t where "c \<in> set (q_out s)" "row_at (cl_row_id c) (q_rows s) = Some r" "holds_row c r"
      "st \<in> {PROCESSED, RETRY, BLOCKED, DEAD_LETTER}"
      "row_at (cl_row_id c) (q_rows s') = Some (settled st oc err nx rf t r)"
      "\<And>j. j \<noteq> cl_row_id c \<Longrightarrow> row_at j (q_rows s') = row_at j (q_rows s)"
      "ids_unique (q_rows s')" "q_out s' = remove1 c (q_out s)"
  using assms(1)
proof (cases rule: queue_stepE)
  case received: (Received pg_uuid e new_id t rows')
  from received(2) show thesis
    by (cases rule: record_received_Inr) (use received Same Insert in auto)
next
  case claimed: (Claimed ty worker lease_seconds t locked c rows')
  obtain r where r: "row_at (cl_row_id c) (q_rows s) = Some r" "claimable ty t locked r"
    "c = claim_of worker (stamp worker (t + seconds lease_seconds) r)"
    and at: "\<And>j. row_at j rows' = (if j = cl_row_id c then Some (stamp worker (t + seconds lease_seconds) r) else row_at j (q_rows s))"
    and ids: "ids_unique rows'"
    using claim_Some [OF claimed(2) assms(2)] by metis
  show thesis
    by (rule Claim [OF r(1) _ _ _ r(3)]) (use r(2) at ids claimed(1) in \<open>auto simp: claimable_def\<close>)
next
  case proc: (Processed c ocode t rows')
  obtain r where "row_at (cl_row_id c) (q_rows s) = Some r" "holds_row c r"
    "\<And>j. row_at j rows' = (if j = cl_row_id c then Some (settled PROCESSED ocode None None False t r) else row_at j (q_rows s))"
    "ids_unique rows'"
    using settle_row_Inr [OF settlements(1) [OF proc(3)] assms(2)] by metis
  then show thesis
    by (intro Settle [of c r PROCESSED ocode None None False t]) (use proc in auto)
next
  case rel: (Released c status ocode err nx refund t rows')
  note st = settlements(2) [OF rel(3)]
  obtain r where "row_at (cl_row_id c) (q_rows s) = Some r" "holds_row c r"
    "\<And>j. row_at j rows' = (if j = cl_row_id c then Some (settled status ocode (Some (take 500 err)) nx refund t r) else row_at j (q_rows s))"
    "ids_unique rows'"
    using settle_row_Inr [OF conjunct2 [OF st] assms(2)] by metis
  then show thesis
    by (intro Settle [of c r status ocode "Some (take 500 err)" nx refund t]) (use rel st in auto)
next
  case lost: (Lost c ocode t rows')
  then show thesis by (intro Same) auto
qed

section \<open>The fence\<close>

text \<open>
  Of the claims handed out for a row in \<open>processing\<close>, only the last one carries the row's attempt
  number; every other carries a smaller one, also after a refund.
\<close>

definition queue_inv :: "queue_state \<Rightarrow> bool" where
  "queue_inv s \<longleftrightarrow> ids_unique (q_rows s)
     \<and> (\<forall>c \<in> set (q_out s). 1 \<le> cl_attempts c \<and> (\<exists>r. row_at (cl_row_id c) (q_rows s) = Some r \<and> cl_attempts c \<le> ib_attempts r))
     \<and> (\<forall>i r. row_at i (q_rows s) = Some r \<and> ib_status r = PROCESSING \<longrightarrow>
          count_where (\<lambda>c. cl_row_id c = i \<and> cl_attempts c = ib_attempts r) (q_out s) \<le> 1)"

lemma queue_inv_empty: "queue_inv empty_queue"
  by (simp add: queue_inv_def empty_queue_def ids_unique_def row_at_def)

lemma count_where_remove1: "count_where P (remove1 c xs) \<le> count_where P xs"
  by (induction xs) auto

lemma count_where_remove1_same:
  "c \<in> set xs \<Longrightarrow> P c \<Longrightarrow> count_where P xs = Suc (count_where P (remove1 c xs))"
  by (induction xs) auto

lemma count_where_0: "count_where P xs = 0 \<longleftrightarrow> (\<forall>x \<in> set xs. \<not> P x)"
  by (induction xs) auto

lemma queue_inv_step: "queue_inv s \<Longrightarrow> queue_step s s' \<Longrightarrow> queue_inv s'"
proof -
  assume inv: "queue_inv s" and step: "queue_step s s'"
  from inv have uniq: "ids_unique (q_rows s)"
    and out: "\<And>c. c \<in> set (q_out s) \<Longrightarrow> 1 \<le> cl_attempts c \<and> (\<exists>r. row_at (cl_row_id c) (q_rows s) = Some r \<and> cl_attempts c \<le> ib_attempts r)"
    and one: "\<And>i r. row_at i (q_rows s) = Some r \<Longrightarrow> ib_status r = PROCESSING \<Longrightarrow>
          count_where (\<lambda>c. cl_row_id c = i \<and> cl_attempts c = ib_attempts r) (q_out s) \<le> 1"
    by (auto simp: queue_inv_def)
  from step uniq show "queue_inv s'"
  proof (cases rule: queue_step_cases)
    case Same
    then have "set (q_out s') \<subseteq> set (q_out s)" using set_remove1_subset by fastforce
    moreover have "count_where P (q_out s') \<le> count_where P (q_out s)" for P
      using Same(2) count_where_remove1 by auto
    ultimately show ?thesis
      using uniq out one unfolding queue_inv_def Same(1) by (meson le_trans subsetD)
  next
    case (Insert r)
    have fresh: "row_at (ib_id r) (q_rows s) = None"
      using Insert(1) unfolding row_at_def select_one_None_iff by (metis image_eqI)
    have at: "row_at i (q_rows s') = (if i = ib_id r then Some r else row_at i (q_rows s))" for i
      using fresh by (auto simp: Insert(2) row_at_append split: option.splits)
    have "\<exists>x. row_at (cl_row_id c) (q_rows s') = Some x \<and> cl_attempts c \<le> ib_attempts x" if "c \<in> set (q_out s)" for c
      using out [OF that] fresh by (auto simp: at)
    moreover have "ids_unique (q_rows s')" using uniq Insert(1,2) by (simp add: ids_unique_def)
    ultimately show ?thesis
      using out one Insert(3) unfolding queue_inv_def Insert(4) by (auto simp: at)
  next
    case (Claim c r t x w)
    have new: "cl_attempts c = ib_attempts r + 1" by (simp add: Claim(5) claim_of_def stamp_def)
    have at: "row_at j (q_rows s') = (if j = cl_row_id c then Some (stamp w x r) else row_at j (q_rows s))" for j
      using Claim(4,6) by simp
    have old: "cl_attempts d \<le> ib_attempts r" if "d \<in> set (q_out s)" "cl_row_id d = cl_row_id c" for d
      using out [OF that(1)] that(2) Claim(1) by auto
    then have "count_where (\<lambda>d. cl_row_id d = cl_row_id c \<and> cl_attempts d = ib_attempts r + 1) (q_out s) = 0"
      unfolding count_where_0 by force
    then have "count_where (\<lambda>d. cl_row_id d = i \<and> cl_attempts d = ib_attempts y) (q_out s') \<le> 1"
      if "row_at i (q_rows s') = Some y" "ib_status y = PROCESSING" for i y
      using that one [of i y] new unfolding Claim(8) at by (auto simp: stamp_def split: if_splits)
    moreover have "1 \<le> cl_attempts d \<and> (\<exists>y. row_at (cl_row_id d) (q_rows s') = Some y \<and> cl_attempts d \<le> ib_attempts y)"
      if "d \<in> set (q_out s')" for d
      using that out [of d] old [of d] new unfolding Claim(8) at by (auto simp: stamp_def)
    ultimately show ?thesis using Claim(7) by (auto simp: queue_inv_def)
  next
    case (Settle c r st oc err nx rf t)
    have at: "row_at j (q_rows s') = (if j = cl_row_id c then Some (settled st oc err nx rf t r) else row_at j (q_rows s))" for j
      using Settle(5,6) by simp
    have h: "ib_status r = PROCESSING" "ib_attempts r = cl_attempts c"
      using Settle(3) by (auto simp: holds_row_def)
    have "count_where (\<lambda>d. cl_row_id d = cl_row_id c \<and> cl_attempts d = ib_attempts r) (q_out s') = 0"
      using one [OF Settle(2) h(1)] count_where_remove1_same [OF Settle(1), of "\<lambda>d. cl_row_id d = cl_row_id c \<and> cl_attempts d = ib_attempts r"] h(2)
      unfolding Settle(8) by simp
    then have "cl_attempts d < ib_attempts r" if "d \<in> set (q_out s')" "cl_row_id d = cl_row_id c" for d
      using that out [of d] Settle(2) unfolding count_where_0 Settle(8)
      by (metis le_neq_implies_less notin_set_remove1 option.inject)
    then have "1 \<le> cl_attempts d \<and> (\<exists>y. row_at (cl_row_id d) (q_rows s') = Some y \<and> cl_attempts d \<le> ib_attempts y)"
      if "d \<in> set (q_out s')" for d
      using that out [of d] unfolding Settle(8) at by (fastforce simp: settled_def dest: notin_set_remove1)
    moreover have "count_where (\<lambda>d. cl_row_id d = i \<and> cl_attempts d = ib_attempts y) (q_out s') \<le> 1"
      if "row_at i (q_rows s') = Some y" "ib_status y = PROCESSING" for i y
      using that one [of i y] Settle(4) count_where_remove1 [of _ c "q_out s"] unfolding Settle(8) at
      by (auto simp: settled_def intro: le_trans split: if_splits)
    ultimately show ?thesis using Settle(7) by (auto simp: queue_inv_def)
  qed
qed

lemma queue_inv_steps: "queue_steps s s' \<Longrightarrow> queue_inv s \<Longrightarrow> queue_inv s'"
  by (induction rule: queue_steps.induct) (auto intro: queue_inv_step)

lemma queue_steps_one: "queue_step s s' \<Longrightarrow> queue_steps s s'"
  by (rule queue_steps.Step [OF queue_steps.Refl])

lemma queue_inv_holder:
  assumes "queue_inv s" "row_at i (q_rows s) = Some r"
  shows "count_where (\<lambda>c. holds_row c r) (q_out s) \<le> 1"
proof (cases "ib_status r = PROCESSING")
  case True
  have mono: "count_where P xs \<le> count_where Q xs" if "\<And>x. P x \<Longrightarrow> Q x" for P Q and xs :: "Claim list"
    using that by (induction xs) auto
  have "count_where (\<lambda>c. holds_row c r) (q_out s)
      \<le> count_where (\<lambda>c. cl_row_id c = i \<and> cl_attempts c = ib_attempts r) (q_out s)"
    by (rule mono) (use assms(2) in \<open>auto simp: holds_row_def dest: row_at_id\<close>)
  also have "\<dots> \<le> 1" using assms True by (simp add: queue_inv_def)
  finally show ?thesis .
next
  case False
  then have "count_where (\<lambda>c. holds_row c r) (q_out s) = 0" by (simp add: count_where_0 holds_row_def)
  then show ?thesis by simp
qed

text \<open>A claim whose row was claimed again: its attempt number is behind for ever.\<close>

definition superseded :: "Claim \<Rightarrow> inbox_row list \<Rightarrow> bool" where
  "superseded c rows \<longleftrightarrow> (\<exists>r. row_at (cl_row_id c) rows = Some r \<and> cl_attempts c \<le> ib_attempts r
     \<and> (ib_status r = PROCESSING \<longrightarrow> cl_attempts c < ib_attempts r))"

lemma superseded_step:
  assumes "queue_inv s" "superseded c (q_rows s)" "queue_step s s'"
  shows "superseded c (q_rows s')"
proof -
  from assms(1) have "ids_unique (q_rows s)" by (simp add: queue_inv_def)
  with assms(3) show ?thesis
  proof (cases rule: queue_step_cases)
    case Same
    with assms(2) show ?thesis by simp
  next
    case (Insert r)
    with assms(2) show ?thesis by (auto simp: superseded_def row_at_append)
  next
    case (Claim d r t x w)
    with assms(2) show ?thesis
      by (cases "cl_row_id c = cl_row_id d") (auto simp: superseded_def stamp_def)
  next
    case (Settle d r st oc err nx rf t)
    with assms(2) show ?thesis
      by (cases "cl_row_id c = cl_row_id d") (auto simp: superseded_def settled_def holds_row_def)
  qed
qed

lemma superseded_steps: "queue_steps s s' \<Longrightarrow> queue_inv s \<Longrightarrow> superseded c (q_rows s) \<Longrightarrow> superseded c (q_rows s')"
  by (induction rule: queue_steps.induct) (auto intro: superseded_step queue_inv_steps)

lemma superseded_settle:
  "ids_unique rows \<Longrightarrow> superseded c rows \<Longrightarrow> settle_row c st oc err nx rf t rows = (Inl LeaseLost, rows)"
  by (auto simp: settle_row_cases superseded_def holds_row_def)

lemma claimed_again_superseded:
  assumes "queue_inv s" "c \<in> set (q_out s)" "claim ty w ls t locked (q_rows s) = (Some c', rows')" "cl_row_id c' = cl_row_id c"
  shows "superseded c rows'"
proof -
  from assms(1) have uniq: "ids_unique (q_rows s)" by (simp add: queue_inv_def)
  obtain r where r: "row_at (cl_row_id c) (q_rows s) = Some r" "row_at (cl_row_id c) rows' = Some (stamp w (t + seconds ls) r)"
    using claim_Some [OF assms(3) uniq] assms(4) by metis
  moreover have "cl_attempts c \<le> ib_attempts r"
    using assms(1,2) r(1) by (force simp: queue_inv_def)
  ultimately show ?thesis by (auto simp: superseded_def stamp_def)
qed

text \<open>A row that was executed or given up on is never touched again.\<close>

lemma terminal_step:
  assumes "queue_step s s'" "ids_unique (q_rows s)" "row_at i (q_rows s) = Some r" "ib_status r \<in> {PROCESSED, FAILED, DEAD_LETTER}"
  shows "row_at i (q_rows s') = Some r"
  using assms(1,2)
proof (cases rule: queue_step_cases)
  case (Claim c x t y w)
  then show ?thesis using assms(3,4) by (cases "i = cl_row_id c") (auto simp: due_def)
next
  case (Settle c x st oc err nx rf t)
  then show ?thesis using assms(3,4) by (cases "i = cl_row_id c") (auto simp: holds_row_def)
qed (use assms(3) in \<open>auto simp: row_at_append\<close>)

lemma terminal_steps:
  assumes "queue_steps s s'" "queue_inv s" "row_at i (q_rows s) = Some r" "ib_status r \<in> {PROCESSED, FAILED, DEAD_LETTER}"
  shows "row_at i (q_rows s') = Some r"
  using assms
proof (induction rule: queue_steps.induct)
  case (Step s s' s'')
  then have "ids_unique (q_rows s')" using queue_inv_steps by (auto simp: queue_inv_def)
  with Step show ?case by (intro terminal_step [of s' s'']) auto
qed auto

section \<open>Draining the queue\<close>

text \<open>\<open>n\<close> claims one after another by one worker at time \<open>t\<close>.\<close>

fun claims :: "nat \<Rightarrow> string \<Rightarrow> string \<Rightarrow> int \<Rightarrow> instant \<Rightarrow> (nat \<Rightarrow> bool) \<Rightarrow> inbox_row list \<Rightarrow> Claim list \<times> inbox_row list" where
  "claims 0 ty w ls t locked rows = ([], rows)"
| "claims (Suc n) ty w ls t locked rows =
     (case claim ty w ls t locked rows of
        (None, rows') \<Rightarrow> ([], rows')
      | (Some c, rows') \<Rightarrow> (let (cs, rows'') = claims n ty w ls t locked rows' in (c # cs, rows'')))"

lemma count_where_map_less:
  assumes "r \<in> set rows" "P r" "\<not> P (f r)" "Q r" "\<And>x. x \<in> set rows \<Longrightarrow> Q x \<Longrightarrow> x = r"
  shows "count_where P (update_where Q f rows) < count_where P rows"
proof -
  have le: "count_where P (update_where Q f xs) \<le> count_where P xs" if "set xs \<subseteq> set rows" for xs
    using that assms(2,3,5) by (induction xs) auto
  from assms(1) obtain xs ys where "rows = xs @ r # ys" by (meson split_list)
  then have rows: "rows = xs @ r # ys" "set xs \<subseteq> set rows" "set ys \<subseteq> set rows" by auto
  have "update_where Q f rows = update_where Q f xs @ f r # update_where Q f ys"
    unfolding rows(1) update_where_def using assms(4) by simp
  moreover have "count_where P rows = Suc (count_where P xs + count_where P ys)"
    unfolding rows(1) using assms(2) by simp
  ultimately show ?thesis using le [OF rows(2)] le [OF rows(3)] assms(3) by simp
qed

lemma claim_progress:
  assumes "claim ty w ls t locked rows = (Some c, rows')" "ids_unique rows" "0 < ls"
  shows "count_where (claimable ty t locked) rows' < count_where (claimable ty t locked) rows"
proof -
  from assms(1) obtain r where nr: "next_row ty t locked rows = Some r"
    and rows': "rows' = update_where (\<lambda>x. ib_id x = ib_id r) (stamp w (t + seconds ls)) rows"
    by (auto simp: claim_def split: option.splits)
  from next_row_Some [OF nr] have r: "r \<in> set rows" "claimable ty t locked r" by auto
  have "\<not> claimable ty t locked (stamp w (t + seconds ls) r)"
    using assms(3) by (simp add: claimable_def due_def stamp_def seconds_def)
  then show ?thesis unfolding rows'
    by (intro count_where_map_less [of r]) (use r assms(2) in \<open>auto, metis option.inject row_at_mem\<close>)
qed

lemma claims_drain:
  assumes "ids_unique rows" "0 < ls" "count_where (claimable ty t locked) rows \<le> n"
    "claims n ty w ls t locked rows = (cs, rows')"
  shows "\<forall>r \<in> set rows'. \<not> claimable ty t locked r"
  using assms
proof (induction n arbitrary: rows cs)
  case 0
  then show ?case by (auto simp: count_where_0)
next
  case (Suc n)
  show ?case
  proof (cases "claim ty w ls t locked rows")
    case (Pair oc rows1)
    show ?thesis
    proof (cases oc)
      case None
      with Pair have "rows1 = rows" "\<forall>r \<in> set rows. \<not> claimable ty t locked r" by (simp_all add: claim_None)
      with Pair None Suc.prems(4) show ?thesis by simp
    next
      case (Some c)
      with Pair Suc.prems have "count_where (claimable ty t locked) rows1 \<le> n"
        using claim_progress [of ty w ls t locked rows c rows1] by simp
      moreover have "ids_unique rows1" using Pair Some claim_Some [of ty w ls t locked rows c rows1] Suc.prems(1) by blast
      ultimately show ?thesis using Suc.IH [of rows1] Suc.prems(2,4) Pair Some by (auto split: prod.splits)
    qed
  qed
qed

section \<open>Receiving\<close>

lemma same_event_inserted:
  assumes "record_received pg_uuid e new_id t rows = Inr rows'" "uuid_arg pg_uuid (ev_id e) = Inr n"
  shows "select_one (same_event (jtext (ev_source e)) n) rows' \<noteq> None"
  using assms by (auto simp: record_received_def bindE_Inr_iff select_one_append same_event_def
      split: if_splits option.splits)

lemma receive_Inr:
  assumes "receive L pg_uuid body signature secret new_id t rows = (Inr ev, rows')"
  obtains parsed n where "verify_signature L body signature secret = Some True" "json_loads L body = Some parsed"
    "from_wire L parsed = Inr ev" "check_consumable ev = Inr ev" "uuid_arg pg_uuid (ev_id ev) = Inr n"
    "if select_one (same_event (jtext (ev_source ev)) n) rows \<noteq> None then rows' = rows
     else record_received pg_uuid ev new_id t rows = Inr rows'"
proof -
  from assms obtain parsed ev0 where a: "verify_signature L body signature secret = Some True"
    "json_loads L body = Some parsed" "from_wire L parsed = Inr ev0" "check_consumable ev0 = Inr ev"
    and b: "(case inbox_exists pg_uuid (ev_source ev) (ev_id ev) rows of Inl e \<Rightarrow> (Inl e, rows)
       | Inr True \<Rightarrow> (Inr ev, rows) | Inr False \<Rightarrow> (case record_received pg_uuid ev new_id t rows of
            Inl e \<Rightarrow> (Inl e, rows) | Inr rows' \<Rightarrow> (Inr ev, rows'))) = (Inr ev, rows')"
    by (auto simp: receive_def bindE_Inr_iff split: option.splits bool.splits sum.splits)
  have same: "ev = ev0" using check_consumable_Inr(1) [OF a(4)] .
  from b obtain n where n: "uuid_arg pg_uuid (ev_id ev) = Inr n"
    by (cases "uuid_arg pg_uuid (ev_id ev)") (auto simp: inbox_exists_def)
  with b have "if select_one (same_event (jtext (ev_source ev)) n) rows \<noteq> None then rows' = rows
     else record_received pg_uuid ev new_id t rows = Inr rows'"
    by (auto simp: inbox_exists_def split: sum.splits bool.splits)
  with a n same that show thesis by simp
qed

definition event_unique :: "inbox_row list \<Rightarrow> bool" where
  "event_unique rows = unique_on ib_cloudevents (\<lambda>r. (ib_source r, ib_event_id r)) rows"

lemma record_received_unique:
  assumes "record_received pg_uuid e new_id t rows = Inr rows'" "event_unique rows"
  shows "event_unique rows'"
proof -
  from assms(1) obtain n where n: "uuid_arg pg_uuid (ev_id e) = Inr n" by (auto simp: record_received_def bindE_Inr_iff)
  show ?thesis
  proof (cases "select_one (same_event (jtext (ev_source e)) n) rows = None")
    case True
    with assms(1) n obtain r where r: "rows' = rows @ [r]" "ib_source r = jtext (ev_source e)" "ib_event_id r = n"
      by (auto simp: record_received_def bindE_Inr_iff)
    show ?thesis unfolding event_unique_def r(1)
      using assms(2) True r(2,3) by (intro unique_on_insert) (auto simp: event_unique_def select_one_None_iff same_event_def)
  next
    case False
    with assms n show ?thesis by (auto simp: record_received_def bindE_Inr_iff)
  qed
qed

lemma receive_unique:
  assumes "receive L pg_uuid body signature secret new_id t rows = (r, rows')" "event_unique rows"
  shows "event_unique rows'"
proof (cases r)
  case (Inl e)
  with assms show ?thesis
    by (auto simp: receive_def split: option.splits bool.splits sum.splits)
next
  case (Inr ev)
  with assms(1) have "receive L pg_uuid body signature secret new_id t rows = (Inr ev, rows')" by simp
  then show ?thesis
    by (rule receive_Inr) (use assms(2) record_received_unique in \<open>auto split: if_splits\<close>)
qed

section \<open>Properties\<close>

definition sample_row :: inbox_row where
  "sample_row = \<lparr>ib_id = 1, ib_event_id = 1, ib_type = ''com.baobab-platform.trade.order.placed.v1'',
     ib_tenant = Some ''tn_abc01'', ib_data = JObj [], ib_cloudevents = True,
     ib_source = ''urn:baobab-platform:service:baobab-trade'', ib_subject = ''order_1'',
     ib_dataschema = ''https://contracts.baobab-platform.com/erp/v1/commerce-order-consequence.schema.json'',
     ib_scope = ''tenant'', ib_correlation = Some 1, ib_causation = None, ib_idempotency = None,
     ib_traceparent = Some ''00-11111111111111111111111111111111-1111111111111111-01'', ib_tracestate = None,
     ib_time = 0, ib_received_at = 0, ib_status = RECEIVED, ib_attempts = 0, ib_next = 0, ib_claimed_by = None,
     ib_lease = None, ib_code = None, ib_error = None, ib_processed_at = None\<rparr>"

definition first_claim :: Claim where
  "first_claim = claim_of ''w1'' (stamp ''w1'' (seconds 300) sample_row)"

definition second_claim :: Claim where
  "second_claim = claim_of ''w2'' (stamp ''w2'' (seconds 700) (stamp ''w1'' (seconds 300) sample_row))"

definition claimed_once :: queue_state where
  "claimed_once = \<lparr>q_rows = [stamp ''w1'' (seconds 300) sample_row], q_out = [first_claim]\<rparr>"

lemma sample_received: "record_received (\<lambda>s. Some 1) sample_event 1 0 [] = Inr [sample_row]"
  by code_simp

lemma sample_claim: "claim ORDER_PLACED ''w1'' 300 0 (\<lambda>i. False) [sample_row] = (Some first_claim, [stamp ''w1'' (seconds 300) sample_row])"
  by code_simp

lemma sample_reclaim:
  "claim ORDER_PLACED ''w2'' 300 (seconds 400) (\<lambda>i. False) (q_rows claimed_once)
     = (Some second_claim, [stamp ''w2'' (seconds 700) (stamp ''w1'' (seconds 300) sample_row)])"
  by code_simp

lemma claimed_once_reachable: "queue_steps empty_queue claimed_once"
proof -
  have "queue_step empty_queue (empty_queue\<lparr>q_rows := [sample_row]\<rparr>)"
    by (rule Received [where pg_uuid = "\<lambda>s. Some 1" and e = sample_event and new_id = 1 and t = 0])
      (simp_all add: empty_queue_def sample_received [unfolded One_nat_def])
  moreover have "queue_step (empty_queue\<lparr>q_rows := [sample_row]\<rparr>) claimed_once"
    using Claimed [of ORDER_PLACED "''w1''" 300 0 "\<lambda>i. False" "empty_queue\<lparr>q_rows := [sample_row]\<rparr>"] sample_claim
    by (simp add: empty_queue_def claimed_once_def)
  ultimately show ?thesis using Refl Step by blast
qed

text \<open>C6: The lease is a fence. Once a row has been claimed again, the worker that held the earlier claim can
  never settle it, whatever the workers do in between (expiries, refunded attempts, releases, further
  claims): \<open>processed\<close> and \<open>release\<close> raise \<open>LeaseLostError\<close> and leave the table as it is.\<close>

theorem superseded_claim_lost:
  assumes "queue_steps empty_queue s" "c \<in> set (q_out s)"
    "claim ty w ls t locked (q_rows s) = (Some c', rows')" "cl_row_id c' = cl_row_id c"
    "queue_steps (s\<lparr>q_rows := rows', q_out := c' # q_out s\<rparr>) s'" "st \<in> {RETRY, BLOCKED, DEAD_LETTER}"
  shows "processed c oc t' (q_rows s') = (Inl LeaseLost, q_rows s')
    \<and> release c st oc err nx rf t' (q_rows s') = (Inl LeaseLost, q_rows s')"
proof -
  have inv: "queue_inv s" by (rule queue_inv_steps [OF assms(1) queue_inv_empty])
  note inv1 = queue_inv_step [OF inv Claimed [OF assms(3)]]
  have "superseded c (q_rows s')"
    using superseded_steps [OF assms(5) inv1] claimed_again_superseded [OF inv assms(2,3,4)] by simp
  then show ?thesis
    using assms(6) queue_inv_steps [OF assms(5) inv1] superseded_settle
    by (auto simp: processed_def release_def queue_inv_def)
qed

theorem superseded_claim_lost_witness:
  "processed first_claim ''EXECUTED'' 0 [stamp ''w2'' (seconds 700) (stamp ''w1'' (seconds 300) sample_row)]
     = (Inl LeaseLost, [stamp ''w2'' (seconds 700) (stamp ''w1'' (seconds 300) sample_row)])"
proof -
  have "cl_row_id second_claim = cl_row_id first_claim" "first_claim \<in> set (q_out claimed_once)"
    by (simp_all add: second_claim_def first_claim_def claim_of_def claimed_once_def)
  from superseded_claim_lost [OF claimed_once_reachable this(2) sample_reclaim this(1) Refl, of RETRY]
  show ?thesis by simp
qed

text \<open>C7: At most one outstanding claim holds a row, in every state any number of workers can reach.\<close>

theorem one_holder:
  assumes "queue_steps empty_queue s" "row_at i (q_rows s) = Some r"
  shows "count_where (\<lambda>c. holds_row c r) (q_out s) \<le> 1"
  using queue_inv_holder [OF queue_inv_steps [OF assms(1) queue_inv_empty] assms(2)] .

theorem one_holder_witness:
  "count_where (\<lambda>c. holds_row c (stamp ''w1'' (seconds 300) sample_row)) (q_out claimed_once) \<le> 1"
  by (rule one_holder [OF claimed_once_reachable, of 1])
    (simp add: claimed_once_def row_at_def stamp_def sample_row_def)

text \<open>C9: A row that was processed, failed or dead-lettered is final: no step of any worker and no later
  delivery changes it.\<close>

theorem settled_rows_final:
  assumes "queue_steps empty_queue s" "row_at i (q_rows s) = Some r" "ib_status r \<in> {PROCESSED, FAILED, DEAD_LETTER}"
    "queue_steps s s'"
  shows "row_at i (q_rows s') = Some r"
  using terminal_steps [OF assms(4) queue_inv_steps [OF assms(1) queue_inv_empty] assms(2,3)] .

lemma sample_processed:
  "processed first_claim ''EXECUTED'' 5 [stamp ''w1'' (seconds 300) sample_row]
     = (Inr (), [settled PROCESSED ''EXECUTED'' None None False 5 (stamp ''w1'' (seconds 300) sample_row)])"
  by code_simp

theorem settled_rows_final_witness:
  "\<exists>s. queue_steps empty_queue s \<and> row_at 1 (q_rows s)
     = Some (settled PROCESSED ''EXECUTED'' None None False 5 (stamp ''w1'' (seconds 300) sample_row))"
proof -
  let ?r = "settled PROCESSED ''EXECUTED'' None None False 5 (stamp ''w1'' (seconds 300) sample_row)"
  let ?s = "\<lparr>q_rows = [?r], q_out = []\<rparr>"
  have "queue_step claimed_once ?s"
    using Processed [of first_claim claimed_once "''EXECUTED''" 5] sample_processed by (simp add: claimed_once_def)
  then have s: "queue_steps empty_queue ?s" by (rule Step [OF claimed_once_reachable])
  have "row_at 1 (q_rows ?s) = Some ?r" "ib_status ?r \<in> {PROCESSED, FAILED, DEAD_LETTER}"
    by (simp_all add: row_at_def sample_row_def settled_def stamp_def)
  from settled_rows_final [OF s this Refl] s show ?thesis by blast
qed

text \<open>What the queue promises to hand out: a canonical event of the type that no other session has locked, either pending and due, or
  being processed under a lease that has run out.\<close>

fun waiting :: "string \<Rightarrow> instant \<Rightarrow> (nat \<Rightarrow> bool) \<Rightarrow> inbox_row \<Rightarrow> bool" where
  "waiting ty t locked r = (ib_cloudevents r \<and> ib_type r = ty \<and> \<not> locked (ib_id r)
     \<and> (case ib_status r of
          RECEIVED \<Rightarrow> ib_next r \<le> t | RETRY \<Rightarrow> ib_next r \<le> t | BLOCKED \<Rightarrow> ib_next r \<le> t
        | PROCESSING \<Rightarrow> (case ib_lease r of Some x \<Rightarrow> x \<le> t | None \<Rightarrow> False)
        | _ \<Rightarrow> False))"

declare waiting.simps [simp del]

lemma claimable_waiting: "claimable ty t locked = waiting ty t locked"
  by (rule ext) (auto simp: claimable_def due_def waiting.simps split: row_status.splits option.splits)

lemma waiting_stamped: "ib_cloudevents r \<Longrightarrow> ib_type r = ty \<Longrightarrow> waiting ty t (\<lambda>i. False) (stamp w x r) \<longleftrightarrow> x \<le> t"
  by (simp add: waiting.simps stamp_def)

text \<open>C8: Nothing that waits is left behind. A claim takes the earliest waiting row of the type asked for (ties by row number), where a
  row waits when it is pending and due or when the lease of the worker that has it has run out, and no other session has it locked;
  it returns nothing only when no such row is there, and as many claims as there are such rows leave none. A worker that
  dies holds its row no longer than its lease: the row claimed waits again from the moment the lease ends, and not before.\<close>

theorem due_rows_claimed:
  assumes "ids_unique rows" "0 < ls" "n = count_where (waiting ty t locked) rows"
  shows "(case claim ty w ls t locked rows of
            (None, rows') \<Rightarrow> n = 0 \<and> rows' = rows
          | (Some c, rows') \<Rightarrow> (\<exists>r \<in> set rows. waiting ty t locked r \<and> c = claim_of w (stamp w (t + seconds ls) r)
               \<and> (\<forall>x \<in> set rows. waiting ty t locked x \<longrightarrow> (ib_next r, ib_id r) \<le> (ib_next x, ib_id x))
               \<and> (\<exists>held. row_at (cl_row_id c) rows' = Some held \<and> (\<forall>t'. waiting ty t' (\<lambda>i. False) held \<longleftrightarrow> t + seconds ls \<le> t'))))
    \<and> (\<forall>r \<in> set (snd (claims n ty w ls t locked rows)). \<not> waiting ty t locked r)"
proof (intro conjI)
  show "\<forall>r \<in> set (snd (claims n ty w ls t locked rows)). \<not> waiting ty t locked r"
    using claims_drain [OF assms(1,2)] assms(3) unfolding claimable_waiting by (metis order_refl prod.collapse)
  show "case claim ty w ls t locked rows of
            (None, rows') \<Rightarrow> n = 0 \<and> rows' = rows
          | (Some c, rows') \<Rightarrow> (\<exists>r \<in> set rows. waiting ty t locked r \<and> c = claim_of w (stamp w (t + seconds ls) r)
               \<and> (\<forall>x \<in> set rows. waiting ty t locked x \<longrightarrow> (ib_next r, ib_id r) \<le> (ib_next x, ib_id x))
               \<and> (\<exists>held. row_at (cl_row_id c) rows' = Some held \<and> (\<forall>t'. waiting ty t' (\<lambda>i. False) held \<longleftrightarrow> t + seconds ls \<le> t')))"
  proof (cases "claim ty w ls t locked rows")
    case (Pair oc rows')
    show ?thesis
    proof (cases oc)
      case None
      with Pair have "rows' = rows" "\<forall>r \<in> set rows. \<not> waiting ty t locked r" by (simp_all add: claim_None claimable_waiting)
      with Pair None assms(3) show ?thesis by (simp add: count_where_0)
    next
      case (Some c)
      with Pair have "claim ty w ls t locked rows = (Some c, rows')" by simp
      then obtain r where r: "row_at (cl_row_id c) rows = Some r" "waiting ty t locked r" "c = claim_of w (stamp w (t + seconds ls) r)"
        and first: "\<forall>x \<in> set rows. waiting ty t locked x \<longrightarrow> (ib_next r, ib_id r) \<le> (ib_next x, ib_id x)"
        and at: "row_at (cl_row_id c) rows' = Some (stamp w (t + seconds ls) r)"
        by (rule claim_Some [OF _ assms(1)]) (auto simp: claimable_waiting)
      from r(2) have "ib_cloudevents r" "ib_type r = ty" by (simp_all add: waiting.simps)
      then have "\<forall>t'. waiting ty t' (\<lambda>i. False) (stamp w (t + seconds ls) r) \<longleftrightarrow> t + seconds ls \<le> t'" by (simp add: waiting_stamped)
      with r first at row_at_id [OF r(1)] show ?thesis unfolding Pair Some prod.case option.case by blast
    qed
  qed
qed

theorem due_rows_claimed_witness:
  "ids_unique [sample_row] \<and> count_where (waiting ORDER_PLACED 0 (\<lambda>i. False)) [sample_row] = 1
    \<and> list_all (\<lambda>r. \<not> waiting ORDER_PLACED 0 (\<lambda>i. False) r)
        (snd (claims 1 ORDER_PLACED ''w1'' 300 0 (\<lambda>i. False) [sample_row]))"
proof -
  have u: "ids_unique [sample_row]" and ls: "(0::int) < 300" by (simp_all add: ids_unique_def)
  have n: "1 = count_where (waiting ORDER_PLACED 0 (\<lambda>i. False)) [sample_row]" by code_simp
  note drained = due_rows_claimed [OF u ls n, of "''w1''", THEN conjunct2]
  show ?thesis by (intro conjI u n [symmetric] iffD2 [OF list_all_iff] drained)
qed

text \<open>The rows of an event stay, under the same source and event id, whatever the workers and other deliveries do.\<close>

definition has_event :: "string \<Rightarrow> nat \<Rightarrow> inbox_row list \<Rightarrow> bool" where
  "has_event source n rows \<longleftrightarrow> select_one (same_event source n) rows \<noteq> None"

lemma has_event_iff: "has_event source n rows \<longleftrightarrow> (\<exists>r \<in> set rows. same_event source n r)"
  by (simp add: has_event_def select_one_None_iff)

text \<open>The key of a row as far as duplicates are told apart.\<close>

definition event_key :: "inbox_row \<Rightarrow> bool \<times> string \<times> nat" where
  "event_key r = (ib_cloudevents r, ib_source r, ib_event_id r)"

lemma event_key_kept [simp]: "event_key (stamp w x r) = event_key r" "event_key (settled st oc err nx rf t r) = event_key r"
  by (simp_all add: event_key_def stamp_def settled_def)

lemma map_event_key: "(\<And>r. event_key (f r) = event_key r) \<Longrightarrow> map event_key (update_where P f rows) = map event_key rows"
  by (simp add: map_update_where)

lemma has_event_keys: "has_event source n rows \<longleftrightarrow> (True, source, n) \<in> set (map event_key rows)"
  by (auto simp: has_event_iff same_event_def event_key_def intro: rev_image_eqI)

lemma event_unique_keys: "event_unique rows \<longleftrightarrow> distinct (filter fst (map event_key rows))"
  unfolding event_unique_def unique_on_def
  by (induction rows) (auto simp: event_key_def)

lemma queue_step_keys:
  assumes "queue_step s s'"
  shows "map event_key (q_rows s') = map event_key (q_rows s)
    \<or> (\<exists>pg_uuid e new_id t. record_received pg_uuid e new_id t (q_rows s) = Inr (q_rows s'))"
  using assms
proof (cases rule: queue_stepE)
  case (Claimed ty worker ls t locked c rows')
  then show ?thesis by (auto simp: claim_def map_event_key split: option.splits)
next
  case (Processed c ocode t rows')
  then show ?thesis by (auto simp: processed_def settle_row_def map_event_key Let_def split: if_splits)
next
  case (Released c status ocode err nx refund t rows')
  then show ?thesis by (auto simp: release_def settle_row_def map_event_key Let_def split: if_splits)
qed auto

lemma queue_steps_event:
  assumes "queue_steps s s'" "event_unique (q_rows s)"
  shows "event_unique (q_rows s') \<and> (has_event source n (q_rows s) \<longrightarrow> has_event source n (q_rows s'))"
  using assms
proof (induction rule: queue_steps.induct)
  case (Step s s' s'')
  from queue_step_keys [OF Step.hyps(2)] show ?case
  proof
    assume "map event_key (q_rows s'') = map event_key (q_rows s')"
    with Step.IH Step.prems show ?thesis by (simp add: event_unique_keys has_event_keys)
  next
    assume "\<exists>pg_uuid e new_id t. record_received pg_uuid e new_id t (q_rows s') = Inr (q_rows s'')"
    then obtain pg_uuid e new_id t where r: "record_received pg_uuid e new_id t (q_rows s') = Inr (q_rows s'')" by blast
    from r have "set (q_rows s') \<subseteq> set (q_rows s'')" by (cases rule: record_received_Inr) auto
    with Step.IH Step.prems record_received_unique [OF r] show ?thesis by (auto simp: has_event_iff)
  qed
qed simp

text \<open>C10: Receiving is at-least-once safe. Once a delivery was accepted, the same delivery is answered with the same event and changes
  nothing, at any later time and any number of times: whatever claims, settlements, expiries and other deliveries happened to the
  queue in between, of this event and of others. And no two rows ever share a source and event id.\<close>

theorem receive_idempotent:
  assumes "receive L pg_uuid body signature secret new_id t rows = (Inr ev, rows')" "event_unique rows"
    "queue_steps \<lparr>q_rows = rows', q_out = out\<rparr> s"
  shows "receive L pg_uuid body signature secret new_id' t' (q_rows s) = (Inr ev, q_rows s) \<and> event_unique (q_rows s)"
proof -
  obtain parsed n where r: "verify_signature L body signature secret = Some True" "json_loads L body = Some parsed"
    "from_wire L parsed = Inr ev" "check_consumable ev = Inr ev" "uuid_arg pg_uuid (ev_id ev) = Inr n"
    and ins: "if select_one (same_event (jtext (ev_source ev)) n) rows \<noteq> None then rows' = rows
     else record_received pg_uuid ev new_id t rows = Inr rows'"
    using assms(1) by (rule receive_Inr)
  have "has_event (jtext (ev_source ev)) n rows'"
    using ins same_event_inserted [OF _ r(5)] by (auto simp: has_event_def split: if_splits)
  moreover have "event_unique rows'" using receive_unique [OF assms(1,2)] .
  ultimately have later: "event_unique (q_rows s)" "has_event (jtext (ev_source ev)) n (q_rows s)"
    using queue_steps_event [OF assms(3)] by auto
  then have "inbox_exists pg_uuid (ev_source ev) (ev_id ev) (q_rows s) = Inr True" by (simp add: inbox_exists_def r(5) has_event_def)
  with r(1-4) later(1) show ?thesis by (simp add: receive_def)
qed

lemma sample_receive:
  "receive (sample_lib (to_wire (sample_lib JNull) sample_event)) (\<lambda>s. Some 1) ''{}'' ''sha256=00ff'' ''key'' 1 0 []
     = (Inr sample_event, [sample_row])"
  by code_simp

theorem receive_idempotent_witness:
  "receive (sample_lib (to_wire (sample_lib JNull) sample_event)) (\<lambda>s. Some 1) ''{}'' ''sha256=00ff'' ''key'' 2 9 (q_rows claimed_once)
     = (Inr sample_event, q_rows claimed_once) \<and> q_rows claimed_once \<noteq> [sample_row]"
proof -
  have "queue_step \<lparr>q_rows = [sample_row], q_out = []\<rparr> claimed_once"
    using Claimed [of ORDER_PLACED "''w1''" 300 0 "\<lambda>i. False" "\<lparr>q_rows = [sample_row], q_out = []\<rparr>"] sample_claim
    by (simp add: claimed_once_def)
  from receive_idempotent [OF sample_receive _ queue_steps_one [OF this], of 2 9] show ?thesis
    by (simp add: event_unique_def claimed_once_def stamp_def sample_row_def)
qed

text \<open>The row an accepted event becomes.\<close>

definition stored_as :: "(string \<Rightarrow> nat option) \<Rightarrow> cloud_event \<Rightarrow> nat \<Rightarrow> instant \<Rightarrow> inbox_row \<Rightarrow> bool" where
  "stored_as pg_uuid ev new_id t row \<longleftrightarrow> ib_id row = new_id \<and> ib_cloudevents row
     \<and> (\<exists>i ty s src. ev_id ev = JStr i \<and> pg_uuid i = Some (ib_event_id row) \<and> ev_type ev = JStr ty \<and> ib_type row = ty
          \<and> ev_tenantid ev = JStr s \<and> tenant_id (JStr s) = Inr s \<and> ib_tenant row = Some s \<and> ev_source ev = JStr src \<and> ib_source row = src)
     \<and> ib_data row = ev_data ev \<and> ib_status row = RECEIVED \<and> ib_attempts row = 0 \<and> ib_next row = t \<and> ib_received_at row = t
     \<and> ib_claimed_by row = None \<and> ib_lease row = None"

text \<open>C11: Only an event whose body carries the HMAC of the shared secret, that parses as a closed, valid envelope of the members in the
  body and that a registered producer may send reaches the inbox; it becomes one new row under its own source, event id, type and
  tenant and with its own data, which no worker has taken, unless a row of that source and event id is already there, and then nothing
  changes. Every refusal leaves the inbox as it was.\<close>

theorem receive_accepts:
  assumes "receive L pg_uuid body signature secret new_id t rows = (r, rows')"
  shows "case r of
      Inl e \<Rightarrow> rows' = rows
    | Inr ev \<Rightarrow> remove_prefix signature ''sha256='' = hmac_sha256_hex L secret body
        \<and> (\<exists>parsed. json_loads L body = Some parsed \<and> from_wire L parsed = Inr ev
             \<and> set (map fst (members parsed)) \<subseteq> set REQUIRED \<union> set OPTIONAL \<and> (\<forall>name \<in> set REQUIRED. has_key parsed name)
             \<and> ev_id ev = jget parsed ''id'' \<and> ev_type ev = jget parsed ''type'' \<and> ev_source ev = jget parsed ''source''
             \<and> ev_tenantid ev = jget parsed ''tenantid'' \<and> ev_data ev = jget parsed ''data'')
        \<and> valid_event L ev \<and> check_consumable ev = Inr ev
        \<and> (if \<exists>row \<in> set rows. ib_cloudevents row \<and> JStr (ib_source row) = ev_source ev \<and> Some (ib_event_id row) = pg_uuid (jtext (ev_id ev))
           then rows' = rows else \<exists>row. rows' = rows @ [row] \<and> stored_as pg_uuid ev new_id t row)"
proof (cases r)
  case (Inl e)
  with assms show ?thesis by (auto simp: receive_def split: option.splits bool.splits sum.splits)
next
  case (Inr ev)
  with assms have "receive L pg_uuid body signature secret new_id t rows = (Inr ev, rows')" by simp
  then obtain parsed n where a: "verify_signature L body signature secret = Some True" "json_loads L body = Some parsed"
    "from_wire L parsed = Inr ev" "check_consumable ev = Inr ev" "uuid_arg pg_uuid (ev_id ev) = Inr n"
    and ins: "if select_one (same_event (jtext (ev_source ev)) n) rows \<noteq> None then rows' = rows
     else record_received pg_uuid ev new_id t rows = Inr rows'"
    by (rule receive_Inr)
  have valid: "valid_event L ev" by (rule from_wire_valid [OF a(3)])
  then have v: "validate L ev = Inr ev" by (simp add: valid_event_def)
  have "ev_scope ev = JStr ''tenant''" using check_consumable_Inr(2) [OF a(4)] .
  then obtain s where s: "ev_tenantid ev = JStr s" "tenant_id (JStr s) = Inr s"
    using validate_facts(5) [OF v] by (auto simp: validate_scope_tenant)
  obtain i where i: "ev_id ev = JStr i" "pg_uuid i = Some n" using a(5) by (cases "ev_id ev") (auto simp: of_option_def split: option.splits)
  obtain src where src: "ev_source ev = JStr src" using check_consumable_Inr(3) [OF a(4)] by auto
  have "validate_type (ev_type ev) = Inr ()" using v by (auto simp: validate_def bindE_Inr_iff)
  then obtain ty where ty: "ev_type ev = JStr ty" by (cases "ev_type ev") auto
  have dup: "select_one (same_event (jtext (ev_source ev)) n) rows \<noteq> None
    \<longleftrightarrow> (\<exists>row \<in> set rows. ib_cloudevents row \<and> JStr (ib_source row) = ev_source ev \<and> Some (ib_event_id row) = pg_uuid (jtext (ev_id ev)))"
    by (auto simp: select_one_None_iff same_event_def i src)
  have new: "\<exists>row. rows' = rows @ [row] \<and> stored_as pg_uuid ev new_id t row"
    if "select_one (same_event (jtext (ev_source ev)) n) rows = None"
    using that ins s i src ty by (auto simp: record_received_def bindE_Inr_iff stored_as_def split: if_splits)
  have "remove_prefix signature ''sha256='' = hmac_sha256_hex L secret body"
    using a(1) by (auto simp: verify_signature_def Let_def split: if_splits)
  moreover have "if \<exists>row \<in> set rows. ib_cloudevents row \<and> JStr (ib_source row) = ev_source ev \<and> Some (ib_event_id row) = pg_uuid (jtext (ev_id ev))
      then rows' = rows else \<exists>row. rows' = rows @ [row] \<and> stored_as pg_uuid ev new_id t row"
    unfolding dup [symmetric] using ins new by (simp split: if_splits)
  ultimately show ?thesis
    using valid a(2,3,4) from_wire_closed [OF a(3)] from_wire_members [OF a(3)] unfolding Inr sum.case by blast
qed

theorem receive_accepts_witness:
  "stored_as (\<lambda>s. Some 1) sample_event 1 0 sample_row \<and> valid_event (sample_lib (to_wire (sample_lib JNull) sample_event)) sample_event"
  using receive_accepts [OF sample_receive] by simp

end
