(* ===== verification/Outbox.thy ===== *)
theory Outbox
  imports Cloud_Event Inbox
begin

text \<open>
  The transactional outbox: the Postgres store (\<open>modules/outbox/postgres_store.py\<close>, migrations 0004,
  0013 and 0018), the retired envelope (\<open>modules/events/envelope.py\<close>) and the dispatcher with its
  retry policy (\<open>modules/outbox/service.py\<close>). The dispatcher knows the store only through the
  \<open>OutboxStore\<close> protocol, which is the locale \<open>outbox_contract\<close>; the last section interprets it on the
  Postgres store.
\<close>

section \<open>Rows\<close>

datatype outbox_status = PENDING | RETRYING | DELIVERED | DEAD | HELD

record outbox_row =
  ob_event_id :: nat
  ob_type :: string
  ob_tenant :: "string option"
  ob_data :: json
  ob_occurred_at :: instant
  ob_cloudevents :: bool
  ob_source :: string
  ob_subject :: string
  ob_dataschema :: string
  ob_scope :: string
  ob_correlation :: "nat option"
  ob_causation :: "nat option"
  ob_idempotency :: "string option"
  ob_traceparent :: "string option"
  ob_tracestate :: "string option"
  ob_status :: outbox_status
  ob_attempts :: nat
  ob_error :: "string option"
  ob_next :: "instant option"
  ob_delivered_at :: "instant option"
  ob_dead_at :: "instant option"
  ob_created_at :: instant

text \<open>The retired envelope. Its members are the values the caller put there.\<close>

record EventEnvelope =
  en_event_id :: json
  en_event_type :: json
  en_schema_version :: json
  en_occurred_at :: instant
  en_source :: json
  en_correlation_id :: json
  en_tenant_id :: json
  en_entity_id :: json
  en_payload :: json

definition envelope_required :: "string list" where
  "envelope_required = [''correlation_id'', ''entity_id'', ''event_id'', ''event_type'', ''occurred_at'', ''payload'',
     ''schema_version'', ''source'', ''tenant_id'']"

fun iso_text :: "json \<Rightarrow> string option" where
  "iso_text (JStr s) = Some s"
| "iso_text (JInt i) = Some (show_int i)"
| "iso_text (JFloat s) = Some s"
| "iso_text _ = None"

definition envelope_from_dict :: "pylib \<Rightarrow> json \<Rightarrow> string + EventEnvelope" where
  "envelope_from_dict L v =
     (let missing = filter (\<lambda>name. \<not> has_key v name) envelope_required in
      if missing \<noteq> [] then Inl (''Missing event envelope fields: '' @ join '', '' missing)
      else (case Option.bind (iso_text (jget v ''occurred_at'')) (read_instant L) of
              None \<Rightarrow> Inl ''Invalid isoformat string''
            | Some (Naive t) \<Rightarrow> Inl ''occurred_at must include a timezone''
            | Some (Aware t) \<Rightarrow>
                if \<not> is_obj (jget v ''payload'') then Inl ''payload must be an object''
                else Inr \<lparr>en_event_id = jget v ''event_id'', en_event_type = jget v ''event_type'',
                  en_schema_version = jget v ''schema_version'', en_occurred_at = t, en_source = jget v ''source'',
                  en_correlation_id = jget v ''correlation_id'', en_tenant_id = jget v ''tenant_id'',
                  en_entity_id = jget v ''entity_id'', en_payload = jget v ''payload''\<rparr>))"

section \<open>Recording\<close>

datatype outbox_error = NotProduced | SchemaMismatch | Invalid event_error | UniqueViolation | BadArgument

definition insert_row :: "outbox_row \<Rightarrow> outbox_row list \<Rightarrow> outbox_error + outbox_row list" where
  "insert_row r rows = (if ob_event_id r \<in> ob_event_id ` set rows then Inl UniqueViolation else Inr (rows @ [r]))"

text \<open>A retired envelope is kept as \<open>held\<close>.\<close>

definition record_legacy :: "(string \<Rightarrow> nat option) \<Rightarrow> EventEnvelope \<Rightarrow> instant \<Rightarrow> outbox_row list \<Rightarrow> outbox_error + outbox_row list" where
  "record_legacy pg_uuid en t rows =
     (case en_event_id en of
        JStr s \<Rightarrow> (case pg_uuid s of
            None \<Rightarrow> Inl BadArgument
          | Some n \<Rightarrow> insert_row \<lparr>ob_event_id = n, ob_type = jtext (en_event_type en), ob_tenant = text_opt (en_tenant_id en),
              ob_data = en_payload en, ob_occurred_at = en_occurred_at en, ob_cloudevents = False, ob_source = [],
              ob_subject = [], ob_dataschema = [], ob_scope = [], ob_correlation = None, ob_causation = None,
              ob_idempotency = None, ob_traceparent = None, ob_tracestate = None, ob_status = HELD, ob_attempts = 0,
              ob_error = Some ''legacy envelope: no registered canonical event to deliver as'', ob_next = None,
              ob_delivered_at = None, ob_dead_at = None, ob_created_at = t\<rparr> rows)
      | _ \<Rightarrow> Inl BadArgument)"

fun event_uuid :: "(string \<Rightarrow> nat option) \<Rightarrow> json \<Rightarrow> outbox_error + nat" where
  "event_uuid pg_uuid (JStr s) = of_option BadArgument (pg_uuid s)"
| "event_uuid pg_uuid _ = Inl BadArgument"

fun event_uuid_opt :: "(string \<Rightarrow> nat option) \<Rightarrow> json \<Rightarrow> outbox_error + nat option" where
  "event_uuid_opt pg_uuid JNull = Inr None"
| "event_uuid_opt pg_uuid v = bindE (event_uuid pg_uuid v) (\<lambda>n. Inr (Some n))"

definition event_row :: "cloud_event \<Rightarrow> nat \<Rightarrow> nat \<Rightarrow> nat option \<Rightarrow> instant \<Rightarrow> outbox_row" where
  "event_row e n corr caus t =
     \<lparr>ob_event_id = n, ob_type = jtext (ev_type e), ob_tenant = text_opt (ev_tenantid e), ob_data = ev_data e,
      ob_occurred_at = instant_of (ev_time e), ob_cloudevents = True, ob_source = jtext (ev_source e),
      ob_subject = jtext (ev_subject e), ob_dataschema = jtext (ev_dataschema e), ob_scope = jtext (ev_scope e),
      ob_correlation = Some corr, ob_causation = caus, ob_idempotency = text_opt (ev_idempotencykey e),
      ob_traceparent = text_opt (ev_traceparent e), ob_tracestate = text_opt (ev_tracestate e), ob_status = PENDING,
      ob_attempts = 0, ob_error = None, ob_next = None, ob_delivered_at = None, ob_dead_at = None, ob_created_at = t\<rparr>"

definition record_event ::
  "pylib \<Rightarrow> (string \<Rightarrow> nat option) \<Rightarrow> cloud_event \<Rightarrow> instant \<Rightarrow> outbox_row list \<Rightarrow> outbox_error + outbox_row list" where
  "record_event L pg_uuid e t rows =
     (case validate L e of
        Inl err \<Rightarrow> Inl (Invalid err)
      | Inr _ \<Rightarrow>
          if jtext (ev_type e) \<notin> fst ` set PRODUCED \<or> ev_source e \<noteq> JStr ERP_SOURCE then Inl NotProduced
          else if Some (ev_dataschema e) \<noteq> map_option JStr (dataschema_for (jtext (ev_type e))) then Inl SchemaMismatch
          else bindE (event_uuid pg_uuid (ev_id e)) (\<lambda>n.
            bindE (event_uuid pg_uuid (ev_correlationid e)) (\<lambda>corr.
            bindE (event_uuid_opt pg_uuid (ev_causationid e)) (\<lambda>caus.
            insert_row (event_row e n corr caus t) rows))))"

definition held_count :: "outbox_row list \<Rightarrow> nat" where
  "held_count rows = count_where (\<lambda>r. ob_status r = HELD) rows"

section \<open>Reading what is due\<close>

record outbox_record =
  or_name :: string
  or_attempts :: nat
  or_status :: outbox_status
  or_event :: cloud_event
  or_created_at :: "instant option"

definition opt_text :: "string option \<Rightarrow> json" where
  "opt_text v = (case v of None \<Rightarrow> JNull | Some s \<Rightarrow> JStr s)"

text \<open>\<open>str(correlation_id)\<close> of a null is the text \<open>None\<close>, which no uuid reads as.\<close>

definition event_of_row :: "outbox_row \<Rightarrow> cloud_event" where
  "event_of_row r =
     \<lparr>ev_id = JStr (show_uuid (ob_event_id r)), ev_type = JStr (ob_type r), ev_source = JStr (ob_source r),
      ev_subject = JStr (ob_subject r), ev_time = Aware (ob_occurred_at r), ev_dataschema = JStr (ob_dataschema r),
      ev_scope = JStr (ob_scope r),
      ev_correlationid = JStr (case ob_correlation r of None \<Rightarrow> ''None'' | Some n \<Rightarrow> show_uuid n),
      ev_data = ob_data r, ev_tenantid = opt_text (ob_tenant r),
      ev_causationid = opt_text (map_option show_uuid (ob_causation r)), ev_idempotencykey = opt_text (ob_idempotency r),
      ev_traceparent = opt_text (ob_traceparent r), ev_tracestate = opt_text (ob_tracestate r)\<rparr>"

text \<open>The \<open>types\<close> and \<open>exclude_types\<close> arguments: an absent or empty tuple selects everything.\<close>

definition selected :: "string list \<Rightarrow> string list \<Rightarrow> string \<Rightarrow> bool" where
  "selected types exclude_types ty = ((types = [] \<or> ty \<in> set types) \<and> (exclude_types = [] \<or> ty \<notin> set exclude_types))"

definition ob_due :: "instant \<Rightarrow> outbox_row \<Rightarrow> bool" where
  "ob_due t r = (case ob_next r of None \<Rightarrow> True | Some n \<Rightarrow> n \<le> t)"

definition due_rows :: "nat \<Rightarrow> string list \<Rightarrow> string list \<Rightarrow> instant \<Rightarrow> outbox_row list \<Rightarrow> outbox_row list" where
  "due_rows limit types exclude_types t rows =
     take limit (sort_key ob_occurred_at
       (filter (\<lambda>r. ob_status r \<in> {PENDING, RETRYING} \<and> ob_cloudevents r \<and> ob_due t r \<and> selected types exclude_types (ob_type r)) rows))"

definition pending ::
  "pylib \<Rightarrow> nat \<Rightarrow> string list \<Rightarrow> string list \<Rightarrow> instant \<Rightarrow> outbox_row list \<Rightarrow> event_error + outbox_record list" where
  "pending L limit types exclude_types t rows =
     mapE (\<lambda>r. bindE (validate L (event_of_row r)) (\<lambda>e.
        Inr \<lparr>or_name = show_uuid (ob_event_id r), or_attempts = ob_attempts r, or_status = ob_status r, or_event = e,
              or_created_at = Some (ob_created_at r)\<rparr>)) (due_rows limit types exclude_types t rows)"

section \<open>Marking\<close>

definition mark_delivered :: "nat \<Rightarrow> instant \<Rightarrow> outbox_row list \<Rightarrow> outbox_row list" where
  "mark_delivered n t rows =
     update_where (\<lambda>r. ob_event_id r = n) (\<lambda>r. r\<lparr>ob_status := DELIVERED, ob_delivered_at := Some t, ob_next := None\<rparr>) rows"

definition mark_retry :: "nat \<Rightarrow> nat \<Rightarrow> string \<Rightarrow> int \<Rightarrow> instant \<Rightarrow> outbox_row list \<Rightarrow> outbox_row list" where
  "mark_retry n attempts err delay t rows =
     update_where (\<lambda>r. ob_event_id r = n)
       (\<lambda>r. r\<lparr>ob_status := RETRYING, ob_attempts := attempts, ob_error := Some err, ob_next := Some (t + seconds delay)\<rparr>) rows"

definition mark_dead_letter :: "nat \<Rightarrow> nat \<Rightarrow> string \<Rightarrow> instant \<Rightarrow> outbox_row list \<Rightarrow> outbox_row list" where
  "mark_dead_letter n attempts err t rows =
     update_where (\<lambda>r. ob_event_id r = n)
       (\<lambda>r. r\<lparr>ob_status := DEAD, ob_attempts := attempts, ob_error := Some err, ob_dead_at := Some t, ob_next := None\<rparr>) rows"

record backlog =
  bl_pending :: nat
  bl_retry :: nat
  bl_dead :: nat
  bl_delivered :: nat
  bl_due :: nat
  bl_oldest_seconds :: int

definition stats :: "string list \<Rightarrow> string list \<Rightarrow> instant \<Rightarrow> outbox_row list \<Rightarrow> backlog" where
  "stats types exclude_types t rows =
     (let sel = filter (\<lambda>r. ob_cloudevents r \<and> selected types exclude_types (ob_type r)) rows;
          waiting = filter (\<lambda>r. ob_status r \<in> {PENDING, RETRYING}) sel in
      \<lparr>bl_pending = count_where (\<lambda>r. ob_status r = PENDING) sel, bl_retry = count_where (\<lambda>r. ob_status r = RETRYING) sel,
       bl_dead = count_where (\<lambda>r. ob_status r = DEAD) sel, bl_delivered = count_where (\<lambda>r. ob_status r = DELIVERED) sel,
       bl_due = count_where (ob_due t) waiting,
       bl_oldest_seconds = (if waiting = [] then 0
          else (let d = t - Min (ob_created_at ` set waiting) in if d < 0 then - ((- d) div 1000000) else d div 1000000))\<rparr>)"

section \<open>The dispatcher\<close>

definition OUTBOX_MAX_ATTEMPTS :: nat where "OUTBOX_MAX_ATTEMPTS = 8"
definition BACKOFF_CEILING_SECONDS :: nat where "BACKOFF_CEILING_SECONDS = 3600"

definition backoff_seconds :: "nat \<Rightarrow> nat" where
  "backoff_seconds attempt = min (2 ^ attempt) BACKOFF_CEILING_SECONDS"

record RetryPolicy =
  max_attempts :: "nat option"
  horizon :: "int option"

definition default_policy :: RetryPolicy where
  "default_policy = \<lparr>max_attempts = Some OUTBOX_MAX_ATTEMPTS, horizon = None\<rparr>"

record DispatchSummary =
  delivered :: nat
  retried :: nat
  dead_lettered :: nat

text \<open>
  The \<open>OutboxStore\<close> protocol over a state \<open>'st\<close>, and the world the dispatcher runs in: the
  \<open>EventTransport\<close> (accepted, refused for good, or failed) and the clock. A store call may raise; the
  exception is its text.
\<close>

record 'st outbox_ops =
  op_pending :: "nat \<Rightarrow> ('st, string, outbox_record list) op"
  op_delivered :: "string \<Rightarrow> ('st, string, unit) op"
  op_retry :: "string \<Rightarrow> nat \<Rightarrow> string \<Rightarrow> nat \<Rightarrow> ('st, string, unit) op"
  op_dead :: "string \<Rightarrow> nat \<Rightarrow> string \<Rightarrow> ('st, string, unit) op"

datatype delivery = Accepted | Permanent string | Failed string

record 'w world_ops =
  deliver :: "cloud_event \<Rightarrow> 'w \<Rightarrow> delivery \<times> 'w"
  clock :: "'w \<Rightarrow> instant \<times> 'w"

definition on_store :: "('st, 'e, 'a) op \<Rightarrow> ('st \<times> 'w, 'e, 'a) op" where
  "on_store f s = (case f (fst s) of (r, st) \<Rightarrow> (r, (st, snd s)))"

definition on_world :: "('w \<Rightarrow> 'a \<times> 'w) \<Rightarrow> ('st \<times> 'w, 'e, 'a) op" where
  "on_world f s = (case f (snd s) of (a, w) \<Rightarrow> (Inr a, (fst s, w)))"

text \<open>\<open>policy.horizon is not None and created_at is not None and now() - created_at >= policy.horizon\<close>\<close>

definition elapsed :: "'w world_ops \<Rightarrow> RetryPolicy \<Rightarrow> instant option \<Rightarrow> ('st \<times> 'w, string, bool) op" where
  "elapsed W policy created =
     (case (horizon policy, created) of
        (Some h, Some t) \<Rightarrow> bindS (on_world (clock W)) (\<lambda>now. returnS (h \<le> now - t))
      | _ \<Rightarrow> returnS False)"

datatype dispatched = Delivered | Retried | Dead_lettered

definition exhausted :: "'w world_ops \<Rightarrow> RetryPolicy \<Rightarrow> outbox_record \<Rightarrow> nat \<Rightarrow> ('st \<times> 'w, string, bool) op" where
  "exhausted W policy r attempts =
     (case max_attempts policy of
        Some m \<Rightarrow> if m \<le> attempts then returnS True else elapsed W policy (or_created_at r)
      | None \<Rightarrow> elapsed W policy (or_created_at r))"

definition failed_delivery ::
  "'st outbox_ops \<Rightarrow> 'w world_ops \<Rightarrow> RetryPolicy \<Rightarrow> outbox_record \<Rightarrow> string \<Rightarrow> ('st \<times> 'w, string, dispatched) op" where
  "failed_delivery S W policy r msg =
     (let attempts = or_attempts r + 1 in
      bindS (exhausted W policy r attempts)
        (\<lambda>stop.
           if stop
           then bindS (on_store (op_dead S (or_name r) attempts msg)) (\<lambda>_. returnS Dead_lettered)
           else bindS (on_store (op_retry S (or_name r) attempts msg (backoff_seconds attempts))) (\<lambda>_. returnS Retried)))"

definition horizon_message :: string where
  "horizon_message = ''the retry horizon elapsed before the next attempt''"

text \<open>
  One record. \<open>mark_delivered\<close> is inside the \<open>try\<close>: if it raises, the delivery counts as failed.
\<close>

definition dispatch_one ::
  "'st outbox_ops \<Rightarrow> 'w world_ops \<Rightarrow> RetryPolicy \<Rightarrow> outbox_record \<Rightarrow> ('st \<times> 'w, string, dispatched) op" where
  "dispatch_one S W policy r =
     bindS (if 0 < or_attempts r then elapsed W policy (or_created_at r) else returnS False) (\<lambda>expired.
       if expired
       then bindS (on_store (op_dead S (or_name r) (or_attempts r) horizon_message)) (\<lambda>_. returnS Dead_lettered)
       else bindS (on_world (deliver W (or_event r))) (\<lambda>d.
         case d of
           Accepted \<Rightarrow> (\<lambda>s. case on_store (op_delivered S (or_name r)) s of
               (Inr _, s') \<Rightarrow> (Inr Delivered, s')
             | (Inl e, s') \<Rightarrow> failed_delivery S W policy r e s')
         | Permanent msg \<Rightarrow> bindS (on_store (op_dead S (or_name r) (or_attempts r + 1) msg)) (\<lambda>_. returnS Dead_lettered)
         | Failed msg \<Rightarrow> failed_delivery S W policy r msg))"

fun dispatch_records ::
  "'st outbox_ops \<Rightarrow> 'w world_ops \<Rightarrow> RetryPolicy \<Rightarrow> outbox_record list \<Rightarrow> ('st \<times> 'w, string, dispatched list) op" where
  "dispatch_records S W policy [] = returnS []"
| "dispatch_records S W policy (r # rs) =
     bindS (dispatch_one S W policy r) (\<lambda>d. bindS (dispatch_records S W policy rs) (\<lambda>ds. returnS (d # ds)))"

definition summarise :: "dispatched list \<Rightarrow> DispatchSummary" where
  "summarise ds = \<lparr>delivered = count_where (\<lambda>d. d = Delivered) ds, retried = count_where (\<lambda>d. d = Retried) ds,
     dead_lettered = count_where (\<lambda>d. d = Dead_lettered) ds\<rparr>"

definition dispatch_pending ::
  "'st outbox_ops \<Rightarrow> 'w world_ops \<Rightarrow> RetryPolicy \<Rightarrow> nat \<Rightarrow> ('st \<times> 'w, string, DispatchSummary) op" where
  "dispatch_pending S W policy limit =
     bindS (on_store (op_pending S limit)) (\<lambda>rs.
     bindS (dispatch_records S W policy rs) (\<lambda>ds. returnS (summarise ds)))"

text \<open>
  The Postgres store as an \<open>OutboxStore\<close> restricted to a selection of types. Every method is a
  transaction of its own, so it reads the database's clock once; the clock is the sequence of those
  readings.
\<close>

record pg_outbox =
  pg_rows :: "outbox_row list"
  pg_clock :: "nat \<Rightarrow> instant"
  pg_tick :: nat

definition pg_now :: "pg_outbox \<Rightarrow> instant" where
  "pg_now s = pg_clock s (pg_tick s)"

definition pg_put :: "outbox_row list \<Rightarrow> pg_outbox \<Rightarrow> pg_outbox" where
  "pg_put rows s = s\<lparr>pg_rows := rows, pg_tick := pg_tick s + 1\<rparr>"

definition by_name :: "(string \<Rightarrow> nat option) \<Rightarrow> string \<Rightarrow> (nat \<Rightarrow> instant \<Rightarrow> outbox_row list \<Rightarrow> outbox_row list) \<Rightarrow> (pg_outbox, string, unit) op" where
  "by_name pg_uuid name f s =
     (case pg_uuid name of
        None \<Rightarrow> (Inl ''invalid input syntax for type uuid'', pg_put (pg_rows s) s)
      | Some n \<Rightarrow> (Inr (), pg_put (f n (pg_now s) (pg_rows s)) s))"

definition postgres_outbox :: "pylib \<Rightarrow> (string \<Rightarrow> nat option) \<Rightarrow> string list \<Rightarrow> string list \<Rightarrow> pg_outbox outbox_ops" where
  "postgres_outbox L pg_uuid types exclude_types =
     \<lparr>op_pending = (\<lambda>limit s. (case pending L limit types exclude_types (pg_now s) (pg_rows s) of
          Inl e \<Rightarrow> (Inl ''EnvelopeError'', pg_put (pg_rows s) s)
        | Inr rs \<Rightarrow> (Inr rs, pg_put (pg_rows s) s))),
      op_delivered = (\<lambda>name. by_name pg_uuid name mark_delivered),
      op_retry = (\<lambda>name attempts err delay. by_name pg_uuid name (\<lambda>n. mark_retry n attempts err (int delay))),
      op_dead = (\<lambda>name attempts err. by_name pg_uuid name (\<lambda>n. mark_dead_letter n attempts err))\<rparr>"

section \<open>The store's contract and what dispatching does under it\<close>

text \<open>How one event may move in a pass: the attempts counted are the failed ones.\<close>

fun moved :: "RetryPolicy \<Rightarrow> outbox_status \<times> nat \<Rightarrow> outbox_status \<times> nat \<Rightarrow> bool" where
  "moved policy (st, a) (st', a') \<longleftrightarrow> st \<in> {PENDING, RETRYING} \<and>
     ((st' = DELIVERED \<and> a' = a)
      \<or> (st' = RETRYING \<and> a' = a + 1 \<and> (\<forall>m. max_attempts policy = Some m \<longrightarrow> a' < m))
      \<or> (st' = DEAD \<and> (a' = a + 1 \<or> (a' = a \<and> 0 < a \<and> horizon policy \<noteq> None))))"

definition moved_or_same :: "RetryPolicy \<Rightarrow> (outbox_status \<times> nat) option \<Rightarrow> (outbox_status \<times> nat) option \<Rightarrow> bool" where
  "moved_or_same policy x y \<longleftrightarrow> y = x \<or> (\<exists>p q. x = Some p \<and> y = Some q \<and> moved policy p q)"

fun ended :: "dispatched \<Rightarrow> outbox_status" where
  "ended Delivered = DELIVERED"
| "ended Retried = RETRYING"
| "ended Dead_lettered = DEAD"

text \<open>
  What the dispatcher relies on: a mark sets the status and attempts of its event and of no other, a
  call that raises changes nothing, and \<open>pending\<close> returns events that are waiting, each once, with
  their attempts.
\<close>

locale outbox_contract =
  fixes S :: "'st outbox_ops"
    and view :: "'st \<Rightarrow> 'k \<Rightarrow> (outbox_status \<times> nat) option"
    and key :: "string \<Rightarrow> 'k option"
    and inv :: "'st \<Rightarrow> bool"
  assumes delivered_law: "inv s \<Longrightarrow> key name = Some k \<Longrightarrow> op_delivered S name s = (Inr (), s') \<Longrightarrow>
      inv s' \<and> view s' = (view s)(k := map_option (\<lambda>(_, a). (DELIVERED, a)) (view s k))"
    and retry_law: "inv s \<Longrightarrow> key name = Some k \<Longrightarrow> op_retry S name a err d s = (Inr (), s') \<Longrightarrow>
      inv s' \<and> view s' = (view s)(k := map_option (\<lambda>_. (RETRYING, a)) (view s k))"
    and dead_law: "inv s \<Longrightarrow> key name = Some k \<Longrightarrow> op_dead S name a err s = (Inr (), s') \<Longrightarrow>
      inv s' \<and> view s' = (view s)(k := map_option (\<lambda>_. (DEAD, a)) (view s k))"
    and delivered_raised: "inv s \<Longrightarrow> op_delivered S name s = (Inl e, s') \<Longrightarrow> inv s' \<and> view s' = view s"
    and retry_raised: "inv s \<Longrightarrow> op_retry S name a err d s = (Inl e, s') \<Longrightarrow> inv s' \<and> view s' = view s"
    and dead_raised: "inv s \<Longrightarrow> op_dead S name a err s = (Inl e, s') \<Longrightarrow> inv s' \<and> view s' = view s"
    and pending_raised: "inv s \<Longrightarrow> op_pending S limit s = (Inl e, s') \<Longrightarrow> inv s' \<and> view s' = view s"
    and pending_law: "inv s \<Longrightarrow> op_pending S limit s = (Inr rs, s') \<Longrightarrow>
      inv s' \<and> view s' = view s \<and> distinct (map (key \<circ> or_name) rs)
      \<and> (\<forall>r \<in> set rs. \<exists>k st. key (or_name r) = Some k \<and> st \<in> {PENDING, RETRYING} \<and> view s k = Some (st, or_attempts r))"
begin

lemma elapsed_cases:
  "elapsed W policy created (st, w) = (res, x) \<Longrightarrow> \<exists>b w'. res = Inr b \<and> x = (st, w') \<and> (b \<longrightarrow> horizon policy \<noteq> None)"
  by (auto simp: elapsed_def on_world_def bindS_def split: option.splits prod.splits)

lemma exhausted_cases:
  "exhausted W policy r n (st, w) = (res, x) \<Longrightarrow>
     \<exists>b w'. res = Inr b \<and> x = (st, w') \<and> (\<not> b \<longrightarrow> (\<forall>m. max_attempts policy = Some m \<longrightarrow> n < m))"
  by (auto simp: exhausted_def split: option.splits if_splits dest!: elapsed_cases)

lemma failed_delivery_run:
  assumes "failed_delivery S W policy r msg (st, w) = (res, (st', w'))"
  obtains b where "\<not> b \<longrightarrow> (\<forall>m. max_attempts policy = Some m \<longrightarrow> or_attempts r + 1 < m)"
    "(case (if b then op_dead S (or_name r) (or_attempts r + 1) msg
            else op_retry S (or_name r) (or_attempts r + 1) msg (backoff_seconds (or_attempts r + 1))) st of
        (Inl e, x) \<Rightarrow> res = Inl e \<and> st' = x
      | (Inr u, x) \<Rightarrow> res = Inr (if b then Dead_lettered else Retried) \<and> st' = x)"
proof -
  obtain b w1 where ex: "exhausted W policy r (or_attempts r + 1) (st, w) = (Inr b, (st, w1))"
    and b: "\<not> b \<longrightarrow> (\<forall>m. max_attempts policy = Some m \<longrightarrow> or_attempts r + 1 < m)"
    using exhausted_cases [of W policy r "or_attempts r + 1" st w] by (metis prod.collapse)
  from ex assms show thesis
    by (intro that [of b]) (use b in \<open>auto simp: failed_delivery_def Let_def bindS_def on_store_def
        split: prod.splits sum.splits if_splits\<close>)
qed

text \<open>The three marks, successful or not, on an event the store holds.\<close>

definition marked :: "'st \<Rightarrow> 'st \<Rightarrow> 'k \<Rightarrow> string + unit \<Rightarrow> outbox_status \<times> nat \<Rightarrow> bool" where
  "marked st st' k r p \<longleftrightarrow> inv st' \<and> (\<forall>j. j \<noteq> k \<longrightarrow> view st' j = view st j)
     \<and> view st' k = (case r of Inl _ \<Rightarrow> view st k | Inr _ \<Rightarrow> Some p)"

lemma dead_step:
  assumes "inv st" "key name = Some k" "view st k = Some q" "op_dead S name a err st = (r, st')"
  shows "marked st st' k r (DEAD, a)"
proof (cases r)
  case (Inl e)
  with assms(4) dead_raised [OF assms(1)] show ?thesis by (auto simp: marked_def)
next
  case (Inr u)
  with assms(3,4) dead_law [OF assms(1,2), of a err st'] show ?thesis by (simp add: marked_def)
qed

lemma retry_step:
  assumes "inv st" "key name = Some k" "view st k = Some q" "op_retry S name a err d st = (r, st')"
  shows "marked st st' k r (RETRYING, a)"
proof (cases r)
  case (Inl e)
  with assms(4) retry_raised [OF assms(1)] show ?thesis by (auto simp: marked_def)
next
  case (Inr u)
  with assms(3,4) retry_law [OF assms(1,2), of a err d st'] show ?thesis by (simp add: marked_def)
qed

lemma delivered_step:
  assumes "inv st" "key name = Some k" "view st k = Some (s0, a)" "op_delivered S name st = (r, st')"
  shows "marked st st' k r (DELIVERED, a)"
proof (cases r)
  case (Inl e)
  with assms(4) delivered_raised [OF assms(1)] show ?thesis by (auto simp: marked_def)
next
  case (Inr u)
  with assms(3,4) delivered_law [OF assms(1,2), of st'] show ?thesis by (simp add: marked_def)
qed

lemma failed_delivery_step:
  assumes "inv st" "key (or_name r) = Some k" "view st k = Some (s0, or_attempts r)" "s0 \<in> {PENDING, RETRYING}"
    "failed_delivery S W policy r msg (st, w) = (res, (st', w'))"
  shows "inv st' \<and> (\<forall>j. j \<noteq> k \<longrightarrow> view st' j = view st j)
    \<and> (case res of Inl _ \<Rightarrow> view st' k = view st k
         | Inr d \<Rightarrow> \<exists>a. view st' k = Some (ended d, a) \<and> moved policy (s0, or_attempts r) (ended d, a))"
proof -
  obtain b where b: "\<not> b \<longrightarrow> (\<forall>m. max_attempts policy = Some m \<longrightarrow> or_attempts r + 1 < m)"
    and c: "(case (if b then op_dead S (or_name r) (or_attempts r + 1) msg
            else op_retry S (or_name r) (or_attempts r + 1) msg (backoff_seconds (or_attempts r + 1))) st of
        (Inl e, x) \<Rightarrow> res = Inl e \<and> st' = x
      | (Inr u, x) \<Rightarrow> res = Inr (if b then Dead_lettered else Retried) \<and> st' = x)"
    using assms(5) by (rule failed_delivery_run)
  show ?thesis
  proof (cases b)
    case True
    obtain r1 st1 where d: "op_dead S (or_name r) (or_attempts r + 1) msg st = (r1, st1)"
      by (cases "op_dead S (or_name r) (or_attempts r + 1) msg st")
    note m = dead_step [OF assms(1,2,3) d, unfolded marked_def]
    show ?thesis
    proof (cases r1)
      case (Inl e)
      with c True d have "res = Inl e" "st' = st1" by simp_all
      with m Inl show ?thesis by simp
    next
      case (Inr u)
      with c True d have "res = Inr Dead_lettered" "st' = st1" by simp_all
      with m Inr assms(4) show ?thesis by simp
    qed
  next
    case False
    obtain r1 st1 where d: "op_retry S (or_name r) (or_attempts r + 1) msg (backoff_seconds (or_attempts r + 1)) st = (r1, st1)"
      by (cases "op_retry S (or_name r) (or_attempts r + 1) msg (backoff_seconds (or_attempts r + 1)) st")
    note m = retry_step [OF assms(1,2,3) d, unfolded marked_def]
    show ?thesis
    proof (cases r1)
      case (Inl e)
      with c False d have "res = Inl e" "st' = st1" by simp_all
      with m Inl show ?thesis by simp
    next
      case (Inr u)
      with c False d have "res = Inr Retried" "st' = st1" by simp_all
      with m Inr assms(4) b False show ?thesis by simp
    qed
  qed
qed

lemma dispatch_one_step:
  assumes "inv st" "key (or_name r) = Some k" "view st k = Some (s0, or_attempts r)" "s0 \<in> {PENDING, RETRYING}"
    "dispatch_one S W policy r (st, w) = (res, (st', w'))"
  shows "inv st' \<and> (\<forall>j. j \<noteq> k \<longrightarrow> view st' j = view st j)
    \<and> (case res of Inl _ \<Rightarrow> view st' k = view st k
         | Inr d \<Rightarrow> \<exists>a. view st' k = Some (ended d, a) \<and> moved policy (s0, or_attempts r) (ended d, a))"
proof -
  obtain x w1 where x: "(if 0 < or_attempts r then elapsed W policy (or_created_at r) else returnS False) (st, w) = (Inr x, (st, w1))"
    and xh: "x \<longrightarrow> 0 < or_attempts r \<and> horizon policy \<noteq> None"
    using elapsed_cases [of W policy "or_created_at r" st w]
    by (cases "0 < or_attempts r") (auto, metis prod.collapse)
  have run: "(if x
       then bindS (on_store (op_dead S (or_name r) (or_attempts r) horizon_message)) (\<lambda>_. returnS Dead_lettered)
       else bindS (on_world (deliver W (or_event r))) (\<lambda>d.
         case d of
           Accepted \<Rightarrow> (\<lambda>s. case on_store (op_delivered S (or_name r)) s of
               (Inr _, s') \<Rightarrow> (Inr Delivered, s')
             | (Inl e, s') \<Rightarrow> failed_delivery S W policy r e s')
         | Permanent msg \<Rightarrow> bindS (on_store (op_dead S (or_name r) (or_attempts r + 1) msg)) (\<lambda>_. returnS Dead_lettered)
         | Failed msg \<Rightarrow> failed_delivery S W policy r msg)) (st, w1) = (res, (st', w'))"
    using assms(5) x unfolding dispatch_one_def bindS_def [where s = "(st, w)"] by simp
  show ?thesis
  proof (cases x)
    case True
    obtain r1 st1 where d: "op_dead S (or_name r) (or_attempts r) horizon_message st = (r1, st1)"
      by (cases "op_dead S (or_name r) (or_attempts r) horizon_message st")
    with run True have "res = (case r1 of Inl e \<Rightarrow> Inl e | Inr _ \<Rightarrow> Inr Dead_lettered)" "st' = st1"
      by (auto simp: bindS_def on_store_def split: sum.splits)
    with dead_step [OF assms(1,2,3) d, unfolded marked_def] True xh assms(4) show ?thesis
      by (cases r1) auto
  next
    case False
    obtain dv w2 where dv: "deliver W (or_event r) w1 = (dv, w2)" by (cases "deliver W (or_event r) w1")
    note run = run [unfolded if_not_P [OF False] bindS_def on_world_def, simplified, unfolded dv, simplified]
    show ?thesis
    proof (cases dv)
      case Accepted
      obtain r1 st1 where d: "op_delivered S (or_name r) st = (r1, st1)" by (cases "op_delivered S (or_name r) st")
      note m = delivered_step [OF assms(1,2,3) d, unfolded marked_def]
      show ?thesis
      proof (cases r1)
        case (Inl e)
        with run Accepted d have "failed_delivery S W policy r e (st1, w2) = (res, (st', w'))"
          by (simp add: on_store_def)
        from failed_delivery_step [OF _ assms(2) _ assms(4) this] m Inl assms(3) show ?thesis
          by (cases res) auto
      next
        case (Inr u)
        with run Accepted d have "res = Inr Delivered" "st' = st1" by (simp_all add: on_store_def)
        with m Inr assms(4) show ?thesis by simp
      qed
    next
      case (Permanent msg)
      obtain r1 st1 where d: "op_dead S (or_name r) (or_attempts r + 1) msg st = (r1, st1)"
        by (cases "op_dead S (or_name r) (or_attempts r + 1) msg st")
      with run Permanent have "res = (case r1 of Inl e \<Rightarrow> Inl e | Inr _ \<Rightarrow> Inr Dead_lettered)" "st' = st1"
        by (auto simp: on_store_def split: sum.splits)
      with dead_step [OF assms(1,2,3) d, unfolded marked_def] assms(4) show ?thesis
        by (cases r1) auto
    next
      case (Failed msg)
      with run have "failed_delivery S W policy r msg (st, w2) = (res, (st', w'))" by simp
      then show ?thesis by (rule failed_delivery_step [OF assms(1-4)])
    qed
  qed
qed

definition waiting :: "outbox_record list \<Rightarrow> 'st \<Rightarrow> bool" where
  "waiting rs st \<longleftrightarrow> distinct (map (key \<circ> or_name) rs)
     \<and> (\<forall>r \<in> set rs. \<exists>k s0. key (or_name r) = Some k \<and> s0 \<in> {PENDING, RETRYING} \<and> view st k = Some (s0, or_attempts r))"

lemma dispatch_records_step:
  assumes "inv st" "waiting rs st" "dispatch_records S W policy rs (st, w) = (res, (st', w'))"
  shows "inv st' \<and> (\<forall>k. moved_or_same policy (view st k) (view st' k))
    \<and> (\<forall>k. Some k \<notin> (key \<circ> or_name) ` set rs \<longrightarrow> view st' k = view st k)
    \<and> (case res of Inl _ \<Rightarrow> True
         | Inr ds \<Rightarrow> length ds = length rs \<and> (\<forall>(r, d) \<in> set (zip rs ds). \<exists>k a. key (or_name r) = Some k \<and> view st' k = Some (ended d, a)))"
  using assms
proof (induction rs arbitrary: st w res st' w')
  case Nil
  then have "st' = st" "res = Inr []" by auto
  with Nil show ?case by (simp add: moved_or_same_def)
next
  case (Cons r rs)
  from Cons.prems(2) obtain k s0 where k: "key (or_name r) = Some k" "view st k = Some (s0, or_attempts r)" "s0 \<in> {PENDING, RETRYING}"
    and fresh: "Some k \<notin> (key \<circ> or_name) ` set rs" and rest: "waiting rs st"
    by (auto simp: waiting_def)
  obtain d st1 w1 where one: "dispatch_one S W policy r (st, w) = (d, (st1, w1))" by (metis prod.collapse)
  note step = dispatch_one_step [OF Cons.prems(1) k one]
  have same: "view st1 j = view st j" if "j \<noteq> k" for j using step that by blast
  have mv: "moved_or_same policy (view st j) (view st1 j)" for j
    using step same [of j] k by (cases "j = k") (auto simp: moved_or_same_def split: sum.splits)
  show ?case
  proof (cases d)
    case (Inl e)
    with Cons.prems(3) one have "st' = st1" "res = Inl e" by (simp_all add: bindS_def)
    moreover have "view st1 j = view st j" for j using step same [of j] Inl by (cases "j = k") auto
    ultimately show ?thesis using step by (simp add: moved_or_same_def)
  next
    case (Inr x)
    obtain ds st2 w2 where tl: "dispatch_records S W policy rs (st1, w1) = (ds, (st2, w2))" by (metis prod.collapse)
    have "waiting rs st1"
      using rest fresh same unfolding waiting_def by (metis (no_types, lifting) comp_apply image_eqI option.inject)
    note IH = Cons.IH [OF conjunct1 [OF step] this tl]
    from Cons.prems(3) one tl Inr have res: "st' = st2" "res = (case ds of Inl e \<Rightarrow> Inl e | Inr xs \<Rightarrow> Inr (x # xs))"
      by (auto simp: bindS_def split: sum.splits)
    have st2: "view st2 k = view st1 k" using IH step fresh by auto
    have "moved_or_same policy (view st1 j) (view st2 j)" for j using IH by blast
    then have all: "moved_or_same policy (view st j) (view st2 j)" for j
      by (cases "j = k") (metis mv st2, metis same)
    have others: "view st2 j = view st j" if "Some j \<notin> (key \<circ> or_name) ` set (r # rs)" for j
      using that IH same [of j] k(1) by auto
    have "\<exists>k a. key (or_name r) = Some k \<and> view st2 k = Some (ended x, a)" using step Inr st2 k(1) by auto
    with IH all others show ?thesis unfolding res by (cases ds) simp_all
  qed
qed

lemma count_dispatched:
  "count_where (\<lambda>d. d = Delivered) ds + count_where (\<lambda>d. d = Retried) ds + count_where (\<lambda>d. d = Dead_lettered) ds = length ds"
proof (induction ds)
  case (Cons d ds)
  then show ?case by (cases d) auto
qed simp

lemma dispatch_pending_step:
  assumes "inv st" "dispatch_pending S W policy limit (st, w) = (res, (st', w'))"
  shows "inv st' \<and> (\<forall>k. moved_or_same policy (view st k) (view st' k))
    \<and> (\<forall>sum. res = Inr sum \<longrightarrow> (\<exists>rs st1. op_pending S limit st = (Inr rs, st1)
         \<and> delivered sum + retried sum + dead_lettered sum = length rs
         \<and> (\<forall>k. Some k \<notin> (key \<circ> or_name) ` set rs \<longrightarrow> view st' k = view st k)
         \<and> (\<forall>r \<in> set rs. \<exists>k a d. key (or_name r) = Some k \<and> view st' k = Some (ended d, a))))"
proof -
  obtain p st1 where p: "op_pending S limit st = (p, st1)" by (cases "op_pending S limit st")
  show ?thesis
  proof (cases p)
    case (Inl e)
    with p assms(2) have "res = Inl e" "st' = st1" by (auto simp: dispatch_pending_def bindS_def on_store_def)
    with pending_raised [OF assms(1)] p Inl show ?thesis by (auto simp: moved_or_same_def)
  next
    case (Inr rs)
    with p pending_law [OF assms(1)] have st1: "inv st1" "view st1 = view st" "waiting rs st1"
      by (auto simp: waiting_def)
    obtain ds st2 w2 where run: "dispatch_records S W policy rs (st1, w) = (ds, (st2, w2))" by (metis prod.collapse)
    from assms(2) p Inr run have res: "st' = st2" "res = (case ds of Inl e \<Rightarrow> Inl e | Inr xs \<Rightarrow> Inr (summarise xs))"
      by (auto simp: dispatch_pending_def bindS_def on_store_def split: sum.splits)
    note step = dispatch_records_step [OF st1(1,3) run, unfolded st1(2)]
    have "\<exists>k a d. key (or_name r) = Some k \<and> view st2 k = Some (ended d, a)" if "ds = Inr xs" "r \<in> set rs" for xs r
    proof -
      from step that(1) have "length xs = length rs"
        and all: "\<forall>(r, d) \<in> set (zip rs xs). \<exists>k a. key (or_name r) = Some k \<and> view st2 k = Some (ended d, a)" by auto
      with that(2) obtain d where "(r, d) \<in> set (zip rs xs)" by (metis in_set_impl_in_set_zip1)
      with all show ?thesis by blast
    qed
    with step p Inr show ?thesis unfolding res
      by (cases ds) (auto simp: summarise_def count_dispatched)
  qed
qed

end

section \<open>The Postgres store keeps the contract\<close>

text \<open>The documented behaviour of the server's \<open>uuid\<close> type on the text Python prints.\<close>

definition uuid_law :: "(string \<Rightarrow> nat option) \<Rightarrow> bool" where
  "uuid_law pg_uuid \<longleftrightarrow> (\<forall>n < 2 ^ 128. pg_uuid (show_uuid n) = Some n)"

definition pg_inv :: "(string \<Rightarrow> nat option) \<Rightarrow> pg_outbox \<Rightarrow> bool" where
  "pg_inv pg_uuid s \<longleftrightarrow> uuid_law pg_uuid \<and> distinct (map ob_event_id (pg_rows s)) \<and> (\<forall>r \<in> set (pg_rows s). ob_event_id r < 2 ^ 128)"

definition pg_view :: "pg_outbox \<Rightarrow> nat \<Rightarrow> (outbox_status \<times> nat) option" where
  "pg_view s k = map_option (\<lambda>r. (ob_status r, ob_attempts r)) (select_one (\<lambda>r. ob_event_id r = k) (pg_rows s))"

lemma select_update_key:
  assumes "\<And>r. ob_event_id (f r) = ob_event_id r"
  shows "select_one (\<lambda>r. ob_event_id r = j) (update_where (\<lambda>r. ob_event_id r = k) f rows)
    = map_option (\<lambda>r. if j = k then f r else r) (select_one (\<lambda>r. ob_event_id r = j) rows)"
  using assms by (induction rows) auto

lemma pg_mark:
  assumes "pg_inv pg_uuid s" "\<And>r. ob_event_id (f r) = ob_event_id r" "\<And>r. (ob_status (f r), ob_attempts (f r)) = g (ob_status r, ob_attempts r)"
  shows "pg_inv pg_uuid (pg_put (update_where (\<lambda>r. ob_event_id r = k) f (pg_rows s)) s)
    \<and> pg_view (pg_put (update_where (\<lambda>r. ob_event_id r = k) f (pg_rows s)) s) = (pg_view s)(k := map_option g (pg_view s k))"
proof
  show "pg_inv pg_uuid (pg_put (update_where (\<lambda>r. ob_event_id r = k) f (pg_rows s)) s)"
    using assms(1,2) by (auto simp: pg_inv_def pg_put_def map_update_where set_update_where)
  show "pg_view (pg_put (update_where (\<lambda>r. ob_event_id r = k) f (pg_rows s)) s) = (pg_view s)(k := map_option g (pg_view s k))"
    by (rule ext) (simp add: pg_view_def pg_put_def select_update_key assms(2,3) option.map_comp comp_def)
qed

lemma by_name_Inr:
  "by_name pg_uuid name f s = (Inr u, s') \<Longrightarrow> pg_uuid name = Some k \<Longrightarrow> s' = pg_put (f k (pg_now s) (pg_rows s)) s"
  by (simp add: by_name_def)

lemma by_name_marks:
  assumes "pg_inv pg_uuid s" "pg_uuid name = Some k" "by_name pg_uuid name F s = (Inr (), s')"
    "F k (pg_now s) (pg_rows s) = update_where (\<lambda>r. ob_event_id r = k) f (pg_rows s)"
    "\<And>r. ob_event_id (f r) = ob_event_id r" "\<And>r. (ob_status (f r), ob_attempts (f r)) = g (ob_status r, ob_attempts r)"
  shows "pg_inv pg_uuid s' \<and> pg_view s' = (pg_view s)(k := map_option g (pg_view s k))"
  using pg_mark [OF assms(1,5,6)] by_name_Inr [OF assms(3,2)] assms(4) by simp

lemma pg_put_same: "pg_inv pg_uuid (pg_put (pg_rows s) s) = pg_inv pg_uuid s" "pg_view (pg_put (pg_rows s) s) = pg_view s"
  by (simp_all add: pg_inv_def pg_put_def pg_view_def fun_eq_iff)

lemma by_name_Inl: "by_name pg_uuid name f s = (Inl e, s') \<Longrightarrow> s' = pg_put (pg_rows s) s"
  by (simp add: by_name_def split: option.splits)

lemma due_rows_mem: "r \<in> set (due_rows limit types excl t rows) \<Longrightarrow>
    r \<in> set rows \<and> ob_status r \<in> {PENDING, RETRYING} \<and> ob_cloudevents r"
  unfolding due_rows_def by (drule in_set_takeD) auto

lemma due_rows_distinct: "distinct (map ob_event_id rows) \<Longrightarrow> distinct (map ob_event_id (due_rows limit types excl t rows))"
  unfolding due_rows_def take_map [symmetric]
  by (intro distinct_take) (auto simp: distinct_map inj_on_def)

lemma pending_names:
  assumes "pending L limit types excl t rows = Inr rs"
  shows "map or_name rs = map (show_uuid \<circ> ob_event_id) (due_rows limit types excl t rows)"
    "\<forall>x \<in> set rs. \<exists>r \<in> set (due_rows limit types excl t rows). or_name x = show_uuid (ob_event_id r) \<and> or_attempts x = ob_attempts r"
proof -
  show "map or_name rs = map (show_uuid \<circ> ob_event_id) (due_rows limit types excl t rows)"
    using assms unfolding pending_def by (rule mapE_map) (auto simp: bindE_Inr_iff)
  show "\<forall>x \<in> set rs. \<exists>r \<in> set (due_rows limit types excl t rows). or_name x = show_uuid (ob_event_id r) \<and> or_attempts x = ob_attempts r"
  proof
    fix x assume "x \<in> set rs"
    from mapE_Inr_src [OF assms [unfolded pending_def] this]
    show "\<exists>r \<in> set (due_rows limit types excl t rows). or_name x = show_uuid (ob_event_id r) \<and> or_attempts x = ob_attempts r"
      by (auto simp: bindE_Inr_iff intro: bexI)
  qed
qed

lemma pg_view_mem: "pg_inv pg_uuid s \<Longrightarrow> r \<in> set (pg_rows s) \<Longrightarrow> pg_view s (ob_event_id r) = Some (ob_status r, ob_attempts r)"
  using unique_on_select [of "\<lambda>_. True" ob_event_id "pg_rows s" r] by (simp add: pg_view_def pg_inv_def unique_on_def)

lemma pg_pending:
  assumes "pg_inv pg_uuid s" "pending L limit types excl t (pg_rows s) = Inr rs"
  shows "distinct (map (pg_uuid \<circ> or_name) rs)
    \<and> (\<forall>r \<in> set rs. \<exists>k st. pg_uuid (or_name r) = Some k \<and> st \<in> {PENDING, RETRYING} \<and> pg_view s k = Some (st, or_attempts r))"
proof
  let ?due = "due_rows limit types excl t (pg_rows s)"
  have law: "pg_uuid (show_uuid (ob_event_id r)) = Some (ob_event_id r)" if "r \<in> set ?due" for r
    using assms(1) due_rows_mem [OF that] by (auto simp: pg_inv_def uuid_law_def)
  have "map (pg_uuid \<circ> or_name) rs = map (Some \<circ> ob_event_id) ?due"
    unfolding map_map [symmetric] pending_names(1) [OF assms(2)] using law by simp
  moreover have "distinct (map (Some \<circ> ob_event_id) ?due)"
    using due_rows_distinct [of "pg_rows s"] assms(1) by (auto simp: pg_inv_def distinct_map inj_on_def)
  ultimately show "distinct (map (pg_uuid \<circ> or_name) rs)" by simp
  show "\<forall>r \<in> set rs. \<exists>k st. pg_uuid (or_name r) = Some k \<and> st \<in> {PENDING, RETRYING} \<and> pg_view s k = Some (st, or_attempts r)"
  proof
    fix x assume "x \<in> set rs"
    with pending_names(2) [OF assms(2)] obtain r where r: "r \<in> set ?due" "or_name x = show_uuid (ob_event_id r)" "or_attempts x = ob_attempts r"
      by blast
    from due_rows_mem [OF r(1)] pg_view_mem [OF assms(1)] law [OF r(1)] r(2,3)
    show "\<exists>k st. pg_uuid (or_name x) = Some k \<and> st \<in> {PENDING, RETRYING} \<and> pg_view s k = Some (st, or_attempts x)"
      by auto
  qed
qed

interpretation pg: outbox_contract "postgres_outbox L pg_uuid types excl" pg_view pg_uuid "pg_inv pg_uuid"
  for L pg_uuid types excl
proof unfold_locales
  fix s s' name k
  assume a: "pg_inv pg_uuid s" "pg_uuid name = Some k"
  show "pg_inv pg_uuid s' \<and> pg_view s' = (pg_view s)(k := map_option (\<lambda>(_, a). (DELIVERED, a)) (pg_view s k))"
    if "op_delivered (postgres_outbox L pg_uuid types excl) name s = (Inr (), s')"
    by (rule by_name_marks [OF a that [unfolded postgres_outbox_def outbox_ops.simps] mark_delivered_def]) simp_all
  show "pg_inv pg_uuid s' \<and> pg_view s' = (pg_view s)(k := map_option (\<lambda>_. (RETRYING, n)) (pg_view s k))"
    if "op_retry (postgres_outbox L pg_uuid types excl) name n err d s = (Inr (), s')" for n err d
    by (rule by_name_marks [OF a that [unfolded postgres_outbox_def outbox_ops.simps] mark_retry_def]) simp_all
  show "pg_inv pg_uuid s' \<and> pg_view s' = (pg_view s)(k := map_option (\<lambda>_. (DEAD, n)) (pg_view s k))"
    if "op_dead (postgres_outbox L pg_uuid types excl) name n err s = (Inr (), s')" for n err
    by (rule by_name_marks [OF a that [unfolded postgres_outbox_def outbox_ops.simps] mark_dead_letter_def]) simp_all
next
  fix s s' limit rs
  assume a: "pg_inv pg_uuid s" "op_pending (postgres_outbox L pg_uuid types excl) limit s = (Inr rs, s')"
  then have p: "pending L limit types excl (pg_now s) (pg_rows s) = Inr rs" "s' = pg_put (pg_rows s) s"
    by (auto simp: postgres_outbox_def split: sum.splits)
  show "pg_inv pg_uuid s' \<and> pg_view s' = pg_view s \<and> distinct (map (pg_uuid \<circ> or_name) rs)
      \<and> (\<forall>r \<in> set rs. \<exists>k st. pg_uuid (or_name r) = Some k \<and> st \<in> {PENDING, RETRYING} \<and> pg_view s k = Some (st, or_attempts r))"
    using pg_pending [OF a(1) p(1)] a(1) unfolding p(2) pg_put_same by blast
qed (auto simp: postgres_outbox_def pg_put_same dest!: by_name_Inl split: sum.splits)

section \<open>A recorded event is the event delivered\<close>

text \<open>What the server's \<open>uuid\<close> type accepts, Python's \<open>UUID\<close> reads as the same value.\<close>

definition uuid_agrees :: "(string \<Rightarrow> nat option) \<Rightarrow> bool" where
  "uuid_agrees pg_uuid \<longleftrightarrow> (\<forall>s n. pg_uuid s = Some n \<longrightarrow> uuid_of s = Some n)"

text \<open>The event with its identifiers in the canonical form.\<close>

definition canonical_ids :: "cloud_event \<Rightarrow> cloud_event" where
  "canonical_ids e = e\<lparr>ev_id := opt_text (uuid_text (ev_id e)), ev_correlationid := opt_text (uuid_text (ev_correlationid e)),
     ev_causationid := opt_text (uuid_text (ev_causationid e))\<rparr>"

lemma absolute_uri_Inr: "absolute_uri L v name n = Inr s \<Longrightarrow> v = JStr s"
  by (cases v) (auto split: if_splits option.splits)

lemma sized_match_Inr: "sized_match lo hi ok name v = Inr u \<Longrightarrow> \<exists>s. v = JStr s"
  by (cases v) (auto split: if_splits)

lemma validate_strings:
  assumes "validate L e = Inr e'"
  shows "\<exists>s. ev_type e = JStr s" "\<exists>s. ev_source e = JStr s" "\<exists>s. ev_subject e = JStr s" "\<exists>s. ev_dataschema e = JStr s"
    "\<exists>s. ev_scope e = JStr s" "\<exists>v. ev_tenantid e = opt_text v" "\<exists>v. ev_idempotencykey e = opt_text v"
    "\<exists>v. ev_traceparent e = opt_text v" "\<exists>v. ev_tracestate e = opt_text v"
proof -
  note v = assms [unfolded validate_def bindE_Inr_iff]
  show "\<exists>s. ev_type e = JStr s" using v by (cases "ev_type e") auto
  show "\<exists>s. ev_source e = JStr s" "\<exists>s. ev_dataschema e = JStr s" using v by (auto dest: absolute_uri_Inr)
  show "\<exists>s. ev_subject e = JStr s" using v by (cases "ev_subject e") auto
  have sc: "validate_scope (ev_scope e) (ev_tenantid e) = Inr ()" using validate_facts(5) [OF assms] .
  show "\<exists>s. ev_scope e = JStr s" using sc by (rule validate_scope_cases) auto
  show "\<exists>v. ev_tenantid e = opt_text v"
    using sc by (rule validate_scope_cases) (auto simp: opt_text_def intro: exI [of _ None] exI [of _ "Some x" for x])
  show "\<exists>v. ev_idempotencykey e = opt_text v" "\<exists>v. ev_tracestate e = opt_text v"
    using v by (auto simp: unless_null_def opt_text_def dest!: sized_match_Inr split: if_splits
        intro: exI [of _ None] exI [of _ "Some x" for x])
  show "\<exists>v. ev_traceparent e = opt_text v"
    using v by (cases "ev_traceparent e") (auto simp: opt_text_def intro: exI [of _ None] exI [of _ "Some x" for x])
qed

lemma event_uuid_Inr: "event_uuid pg_uuid v = Inr n \<Longrightarrow> uuid_agrees pg_uuid \<Longrightarrow> uuid_text v = Some (show_uuid n)"
  by (cases v) (auto simp: uuid_agrees_def)

lemma event_uuid_opt_Inr: "event_uuid_opt pg_uuid v = Inr n \<Longrightarrow> uuid_agrees pg_uuid \<Longrightarrow> uuid_text v = map_option show_uuid n"
  by (cases v) (auto simp: uuid_agrees_def bindE_Inr_iff)

lemma text_opt_opt_text [simp]: "opt_text (text_opt (opt_text v)) = opt_text v"
  by (cases v) (simp_all add: opt_text_def)

lemma event_of_event_row:
  assumes "validate L e = Inr e'" "event_uuid pg_uuid (ev_id e) = Inr n" "event_uuid pg_uuid (ev_correlationid e) = Inr corr"
    "event_uuid_opt pg_uuid (ev_causationid e) = Inr caus" "uuid_agrees pg_uuid"
  shows "event_of_row (event_row e n corr caus t) = canonical_ids e"
proof -
  note ids = event_uuid_Inr [OF assms(2,5)] event_uuid_Inr [OF assms(3,5)] event_uuid_opt_Inr [OF assms(4,5)]
  obtain time where t: "ev_time e = Aware time" using validate_facts(3) [OF assms(1)] by blast
  obtain ty src subj ds sc where s: "ev_type e = JStr ty" "ev_source e = JStr src" "ev_subject e = JStr subj"
    "ev_dataschema e = JStr ds" "ev_scope e = JStr sc"
    using validate_strings [OF assms(1)] by metis
  obtain tn ik tp ts where o1: "ev_tenantid e = opt_text tn" "ev_idempotencykey e = opt_text ik"
    "ev_traceparent e = opt_text tp" "ev_tracestate e = opt_text ts"
    using validate_strings [OF assms(1)] by metis
  have c: "opt_text (map_option show_uuid caus) = opt_text (uuid_text (ev_causationid e))" by (simp only: ids)
  have i: "JStr (show_uuid n) = opt_text (uuid_text (ev_id e))" "JStr (show_uuid corr) = opt_text (uuid_text (ev_correlationid e))"
    by (simp_all only: ids opt_text_def option.case)
  have "event_of_row (event_row e n corr caus t) = e\<lparr>ev_id := JStr (show_uuid n), ev_correlationid := JStr (show_uuid corr),
      ev_causationid := opt_text (map_option show_uuid caus)\<rparr>"
    by (simp add: event_of_row_def event_row_def s o1 t)
  then show ?thesis unfolding canonical_ids_def c i .
qed

lemma canonical_ids_valid:
  assumes "validate L e = Inr e'"
  shows "validate L (canonical_ids e) = Inr (canonical_ids e)"
proof -
  have canon: "\<exists>a. check_uuid (opt_text (uuid_text v)) name = Inr a" if "check_uuid v name = Inr b" for v b name
    using that uuid_text_canonical by (auto simp: check_uuid_def opt_text_def split: option.splits)
  have "unless_null (opt_text (uuid_text v)) (bindE (check_uuid (opt_text (uuid_text v)) name) (\<lambda>_. Inr ())) = Inr ()"
    if "unless_null v (bindE (check_uuid v name) (\<lambda>_. Inr ())) = Inr ()" for v name
    using that canon [of v name]
    by (auto simp: unless_null_def bindE_Inr_iff opt_text_def split: if_splits option.splits)
  with assms canon show ?thesis unfolding validate_def canonical_ids_def by (auto simp: bindE_Inr_iff)
qed

lemma record_event_Inr:
  assumes "record_event L pg_uuid e t rows = Inr rows'"
  obtains n corr caus where "validate L e = Inr e" "rows' = rows @ [event_row e n corr caus t]" "n \<notin> ob_event_id ` set rows"
    "event_uuid pg_uuid (ev_id e) = Inr n" "event_uuid pg_uuid (ev_correlationid e) = Inr corr"
    "event_uuid_opt pg_uuid (ev_causationid e) = Inr caus"
    "jtext (ev_type e) \<in> fst ` set PRODUCED" "ev_source e = JStr ERP_SOURCE"
proof -
  from assms obtain e' n corr caus where "validate L e = Inr e'" "jtext (ev_type e) \<in> fst ` set PRODUCED" "ev_source e = JStr ERP_SOURCE"
    "event_uuid pg_uuid (ev_id e) = Inr n" "event_uuid pg_uuid (ev_correlationid e) = Inr corr"
    "event_uuid_opt pg_uuid (ev_causationid e) = Inr caus" "insert_row (event_row e n corr caus t) rows = Inr rows'"
    unfolding record_event_def by (auto simp: bindE_Inr_iff split: sum.splits if_splits)
  with that validate_Inr show thesis
    by (auto simp: insert_row_def event_row_def split: if_splits)
qed

section \<open>Properties\<close>

definition sample_produced :: cloud_event where
  "sample_produced = \<lparr>ev_id = JStr ''00000000-0000-0000-0000-000000000001'',
     ev_type = JStr ''com.baobab-platform.erp.order.consequence-changed.v1'',
     ev_source = JStr ''urn:baobab-platform:service:baobab-erp'', ev_subject = JStr ''erp_1'', ev_time = Aware 0,
     ev_dataschema = JStr ''https://contracts.baobab-platform.com/erp/v1/order-consequence-status.schema.json'',
     ev_scope = JStr ''tenant'', ev_correlationid = JStr ''00000000-0000-0000-0000-000000000002'',
     ev_data = JObj [], ev_tenantid = JStr ''tn_abc01'', ev_causationid = JNull, ev_idempotencykey = JNull,
     ev_traceparent = JNull, ev_tracestate = JNull\<rparr>"

definition sample_outbox :: pg_outbox where
  "sample_outbox = \<lparr>pg_rows = [event_row sample_produced 1 2 None 0], pg_clock = (\<lambda>n. 0), pg_tick = 0\<rparr>"

lemma uuid_of_law: "uuid_law uuid_of" "uuid_agrees uuid_of"
  by (simp_all add: uuid_law_def uuid_agrees_def uuid_roundtrip)

lemma sample_outbox_inv: "pg_inv uuid_of sample_outbox"
  by (simp add: pg_inv_def uuid_of_law sample_outbox_def event_row_def)

text \<open>A transport that fails once and then accepts.\<close>

definition sample_world :: "nat world_ops" where
  "sample_world = \<lparr>deliver = (\<lambda>e n. (if n = 0 then Failed ''timeout'' else Accepted, n + 1)), clock = (\<lambda>n. (0, n))\<rparr>"


lemma sample_due: "due_rows 100 [] [] 0 [event_row sample_produced 1 2 None 0] = [event_row sample_produced 1 2 None 0]" by code_simp
lemma sample_restored: "event_of_row (event_row sample_produced 1 2 None 0) = sample_produced" by code_simp
lemma sample_produced_valid: "validate (sample_lib JNull) sample_produced = Inr sample_produced" by code_simp
lemma sample_pending: "pending (sample_lib JNull) 100 [] [] 0 (pg_rows sample_outbox) =
   Inr [\<lparr>or_name = show_uuid 1, or_attempts = 0, or_status = PENDING, or_event = sample_produced, or_created_at = Some 0\<rparr>]"
  unfolding pending_def sample_outbox_def pg_outbox.simps sample_due
  by (simp del: One_nat_def add: sample_restored sample_produced_valid) (simp add: event_row_def)
lemma sample_pass:
  "\<exists>s'. dispatch_pending (postgres_outbox (sample_lib JNull) uuid_of [] []) sample_world default_policy 100 (sample_outbox, 0)
     = (Inr \<lparr>delivered = 0, retried = 1, dead_lettered = 0\<rparr>, s')"
proof -
  have "pg_now sample_outbox = 0" by (simp add: pg_now_def sample_outbox_def)
  then have p: "op_pending (postgres_outbox (sample_lib JNull) uuid_of [] []) 100 sample_outbox =
    (Inr [\<lparr>or_name = show_uuid 1, or_attempts = 0, or_status = PENDING, or_event = sample_produced, or_created_at = Some 0\<rparr>],
     pg_put (pg_rows sample_outbox) sample_outbox)"
    unfolding postgres_outbox_def by (simp add: sample_pending del: One_nat_def)
  have "uuid_of (show_uuid 1) = Some 1" by (simp add: uuid_roundtrip del: One_nat_def)
  then show ?thesis
    unfolding dispatch_pending_def bindS_def on_store_def fst_conv p
    by (simp add: dispatch_one_def failed_delivery_def sample_world_def on_world_def exhausted_def default_policy_def
        OUTBOX_MAX_ATTEMPTS_def elapsed_def bindS_def on_store_def postgres_outbox_def by_name_def summarise_def del: One_nat_def)
qed

text \<open>The attempts a policy with a maximum allows: a waiting retry is below it, a new event has none.\<close>

definition within_budget :: "nat \<Rightarrow> pg_outbox \<Rightarrow> bool" where
  "within_budget m s \<longleftrightarrow> (\<forall>k st a. pg_view s k = Some (st, a) \<longrightarrow>
     a \<le> m \<and> (st = RETRYING \<longrightarrow> a < m) \<and> (st = PENDING \<longrightarrow> a = 0))"

text \<open>C16: A policy with a maximum of m attempts is kept over any pass, whatever the transport and the clock do: no event
  ever counts more than m failed attempts, an event waiting for a retry has an attempt left, and a
  delivered, dead-lettered or held event is never picked up again.\<close>

theorem attempts_bounded:
  assumes "pg_inv pg_uuid s" "within_budget m s" "0 < m" "max_attempts policy = Some m"
    "dispatch_pending (postgres_outbox L pg_uuid types excl) W policy limit (s, w) = (res, (s', w'))"
  shows "within_budget m s' \<and> (\<forall>k st a. pg_view s k = Some (st, a) \<and> st \<in> {DELIVERED, DEAD, HELD} \<longrightarrow> pg_view s' k = Some (st, a))"
proof -
  have mv: "moved_or_same policy (pg_view s k) (pg_view s' k)" for k
    using pg.dispatch_pending_step [OF assms(1,5)] by blast
  have "a \<le> m \<and> (st = RETRYING \<longrightarrow> a < m) \<and> (st = PENDING \<longrightarrow> a = 0)" if v: "pg_view s' k = Some (st, a)" for k st a
  proof (cases "pg_view s' k = pg_view s k")
    case True
    with v assms(2) show ?thesis by (simp add: within_budget_def)
  next
    case False
    with mv [of k] v obtain st0 a0 where "pg_view s k = Some (st0, a0)" "moved policy (st0, a0) (st, a)"
      by (auto simp: moved_or_same_def)
    moreover from this(1) assms(2) have "a0 \<le> m \<and> (st0 = RETRYING \<longrightarrow> a0 < m) \<and> (st0 = PENDING \<longrightarrow> a0 = 0)"
      by (auto simp: within_budget_def)
    ultimately show ?thesis using assms(3,4) by auto
  qed
  moreover have "pg_view s' k = Some (st, a)" if "pg_view s k = Some (st, a)" "st \<in> {DELIVERED, DEAD, HELD}" for k st a
    using mv [of k] that by (auto simp: moved_or_same_def)
  ultimately show ?thesis by (auto simp: within_budget_def)
qed

theorem attempts_bounded_witness: "\<exists>s'. within_budget 8 s' \<and> pg_inv uuid_of sample_outbox"
proof -
  obtain s' w' where p: "dispatch_pending (postgres_outbox (sample_lib JNull) uuid_of [] []) sample_world default_policy 100 (sample_outbox, 0)
     = (Inr \<lparr>delivered = 0, retried = 1, dead_lettered = 0\<rparr>, (s', w'))"
    using sample_pass by (metis prod.collapse)
  have "within_budget 8 sample_outbox"
    by (simp add: within_budget_def pg_view_def sample_outbox_def event_row_def)
  from attempts_bounded [OF sample_outbox_inv this _ _ p] sample_outbox_inv show ?thesis
    by (auto simp: default_policy_def OUTBOX_MAX_ATTEMPTS_def)
qed



end
