(* ===== verification/Py_Decimal.thy ===== *)
theory Py_Decimal
  imports Py
begin

text \<open>
  Python's \<open>decimal.Decimal\<close> as far as the sources use it: the constructor on a string, \<open>is_finite\<close>,
  the comparison with zero, \<open>quantize\<close> in the default context (28 digits, half-even) and the \<open>f\<close> format.
  A decimal keeps its sign, coefficient and exponent. The limits of the exponent's size are not modelled.
\<close>

datatype dec = Fin bool nat int | Infinite bool | NotANumber

definition digits_val :: "string \<Rightarrow> nat" where
  "digits_val s = foldl (\<lambda>a c. a * 10 + (code c - 48)) 0 s"

definition exponent_of :: "string \<Rightarrow> int option" where
  "exponent_of s =
     (if s = [] then Some 0
      else if hd s = CHR ''e'' \<or> hd s = CHR ''E'' then
        (let (neg, ds) = split_sign (tl s) in
         if ds \<noteq> [] \<and> list_all digit_char ds then Some (if neg then - int (digits_val ds) else int (digits_val ds)) else None)
      else None)"

definition number_of :: "bool \<Rightarrow> string \<Rightarrow> dec option" where
  "number_of neg s =
     (let ip = takeWhile digit_char s;
          rest = dropWhile digit_char s;
          pointed = starts_with rest ''.'';
          fp = (if pointed then takeWhile digit_char (tl rest) else []);
          tail = (if pointed then dropWhile digit_char (tl rest) else rest) in
      if ip @ fp = [] then None
      else map_option (\<lambda>e. Fin neg (digits_val (ip @ fp)) (e - int (length fp))) (exponent_of tail))"

definition dec_of :: "string \<Rightarrow> dec option" where
  "dec_of s =
     (let (neg, body) = split_sign (filter (\<lambda>c. c \<noteq> CHR ''_'') (py_strip s));
          low = py_lower body in
      if low = ''inf'' \<or> low = ''infinity'' then Some (Infinite neg)
      else if starts_with low ''nan'' \<and> list_all digit_char (drop 3 low) then Some NotANumber
      else if starts_with low ''snan'' \<and> list_all digit_char (drop 4 low) then Some NotANumber
      else number_of neg body)"

fun is_finite :: "dec \<Rightarrow> bool" where
  "is_finite (Fin _ _ _) = True"
| "is_finite _ = False"

text \<open>\<open>d < 0\<close> and \<open>d <= 0\<close> of a finite decimal: a negative zero is zero.\<close>

fun dec_neg :: "dec \<Rightarrow> bool" where
  "dec_neg (Fin neg c e) = (neg \<and> c \<noteq> 0)"
| "dec_neg (Infinite neg) = neg"
| "dec_neg NotANumber = False"

fun dec_nonpos :: "dec \<Rightarrow> bool" where
  "dec_nonpos (Fin neg c e) = (neg \<or> c = 0)"
| "dec_nonpos (Infinite neg) = neg"
| "dec_nonpos NotANumber = False"

text \<open>\<open>c / 10 ^ k\<close> rounded half to even.\<close>

definition half_even :: "nat \<Rightarrow> nat \<Rightarrow> nat" where
  "half_even c k =
     (let q = c div 10 ^ k; r = c mod 10 ^ k in
      if 10 ^ k < 2 * r \<or> (2 * r = 10 ^ k \<and> odd q) then q + 1 else q)"

definition scaled :: "nat \<Rightarrow> int \<Rightarrow> nat \<Rightarrow> nat" where
  "scaled c e p = (if 0 \<le> e + int p then c * 10 ^ nat (e + int p) else half_even c (nat (- e - int p)))"

definition PRECISION :: nat where "PRECISION = 28"

text \<open>\<open>d.quantize(Decimal(1).scaleb(-p))\<close>; \<open>None\<close> is \<open>InvalidOperation\<close>.\<close>

fun quantize :: "dec \<Rightarrow> nat \<Rightarrow> dec option" where
  "quantize (Fin neg c e) p =
     (let q = scaled c e p in if 10 ^ PRECISION \<le> q then None else Some (Fin neg q (- int p)))"
| "quantize _ p = None"

text \<open>\<open>int(v)\<close> of a JSON value, \<open>None\<close> for an exception.\<close>

fun column_int :: "json \<Rightarrow> int option" where
  "column_int (JInt i) = Some i"
| "column_int (JBool b) = Some (if b then 1 else 0)"
| "column_int (JStr s) = py_int s"
| "column_int (JFloat s) = (case dec_of s of
     Some (Fin neg c e) \<Rightarrow> let n = int (if 0 \<le> e then c * 10 ^ nat e else c div 10 ^ nat (- e)) in Some (if neg then - n else n)
   | _ \<Rightarrow> None)"
| "column_int _ = None"

fun pad_digits :: "nat \<Rightarrow> nat \<Rightarrow> string" where
  "pad_digits 0 n = []"
| "pad_digits (Suc p) n = pad_digits p (n div 10) @ [char_of (48 + n mod 10)]"

text \<open>\<open>format(d, "f")\<close> of a quantized decimal.\<close>

definition format_fixed :: "bool \<Rightarrow> nat \<Rightarrow> nat \<Rightarrow> string" where
  "format_fixed neg q p =
     (if neg then ''-'' else []) @ show_nat (q div 10 ^ p) @ (if p = 0 then [] else ''.'' @ pad_digits p (q mod 10 ^ p))"

section \<open>Rounding\<close>

lemma half_even_error: "2 * int (half_even c k) * 10 ^ k - 2 * int c \<le> 10 ^ k" "2 * int c - 2 * int (half_even c k) * 10 ^ k \<le> 10 ^ k"
proof -
  define m where "m = (10::nat) ^ k"
  define q r where "q = c div m" and "r = c mod m"
  have im: "(10::int) ^ k = int m" by (simp add: m_def)
  have c: "c = q * m + r" unfolding q_def r_def by (rule div_mult_mod_eq [symmetric])
  have r: "r < m" by (simp add: r_def m_def)
  have h: "half_even c k = (if m < 2 * r \<or> (2 * r = m \<and> odd q) then q + 1 else q)"
    by (simp add: half_even_def q_def r_def m_def Let_def)
  have ci: "int c = int q * int m + int r" by (simp add: c)
  show "2 * int (half_even c k) * 10 ^ k - 2 * int c \<le> 10 ^ k" "2 * int c - 2 * int (half_even c k) * 10 ^ k \<le> 10 ^ k"
    using r unfolding h im ci by (auto simp: algebra_simps split: if_splits)
qed

lemma half_even_exact: "half_even (q * 10 ^ k) k = q"
  by (simp add: half_even_def)

section \<open>Reading a formatted amount back\<close>

lemma digits_val_append: "digits_val (xs @ ys) = digits_val xs * 10 ^ length ys + digits_val ys"
proof -
  have step: "foldl (\<lambda>a c. a * 10 + (code c - 48)) n ys = n * 10 ^ length ys + foldl (\<lambda>a c. a * 10 + (code c - 48)) 0 ys" for n
  proof (induction ys arbitrary: n)
    case (Cons y ys)
    show ?case
      unfolding foldl_Cons Cons.IH [of "n * 10 + (code y - 48)"] Cons.IH [of "0 * 10 + (code y - 48)"]
      by (simp add: algebra_simps)
  qed simp
  show ?thesis unfolding digits_val_def foldl_append by (rule step)
qed

lemma digit_char_of: "d < 10 \<Longrightarrow> digit_char (char_of (48 + d)) \<and> code (char_of (48 + d)) - 48 = d"
  by (simp add: digit_char_def code_char_of)

lemma show_nat_digits: "list_all digit_char (show_nat n) \<and> digits_val (show_nat n) = n \<and> show_nat n \<noteq> []"
proof (induction n rule: show_nat.induct)
  case (1 n)
  show ?case
  proof (cases "n < 10")
    case True
    then show ?thesis
      using digit_char_of [OF True] by (simp add: show_nat.simps [of n] digits_val_def)
  next
    case False
    have "n mod 10 < 10" by simp
    from digit_char_of [OF this] 1 [OF False] False show ?thesis
      by (simp add: show_nat.simps [of n] digits_val_append) (simp add: digits_val_def)
  qed
qed

lemma pad_digits: "length (pad_digits p n) = p \<and> list_all digit_char (pad_digits p n) \<and> (n < 10 ^ p \<longrightarrow> digits_val (pad_digits p n) = n)"
proof (induction p arbitrary: n)
  case (Suc p)
  have "n mod 10 < 10" by simp
  note d = digit_char_of [OF this]
  have "digits_val (pad_digits p (n div 10)) = n div 10" if "n < 10 ^ Suc p"
    using Suc that by (simp add: less_mult_imp_div_less mult.commute)
  with d Suc show ?case by (simp add: digits_val_append) (simp add: digits_val_def)
qed (simp add: digits_val_def)

lemma takeWhile_digits: "list_all P xs \<Longrightarrow> takeWhile P (xs @ y # ys) = xs @ takeWhile P (y # ys)" "list_all P xs \<Longrightarrow> dropWhile P (xs @ y # ys) = dropWhile P (y # ys)"
  by (induction xs) auto

lemma takeWhile_all: "list_all P xs \<Longrightarrow> takeWhile P xs = xs \<and> dropWhile P xs = []"
  by (induction xs) auto

lemma number_of_format:
  assumes "list_all digit_char ip" "ip \<noteq> []" "list_all digit_char fp"
  shows "number_of neg (ip @ (if fp = [] then [] else ''.'' @ fp)) = Some (Fin neg (digits_val (ip @ fp)) (- int (length fp)))"
proof (cases "fp = []")
  case True
  then show ?thesis using assms by (simp add: number_of_def takeWhile_all starts_with_def exponent_of_def)
next
  case False
  have dot: "\<not> digit_char (CHR ''.'')" by (simp add: digit_char_def code_def)
  from False show ?thesis
    using assms dot by (simp add: number_of_def takeWhile_digits takeWhile_all starts_with_def exponent_of_def Let_def)
qed

definition num_char :: "char \<Rightarrow> bool" where
  "num_char c = (digit_char c \<or> c = CHR ''.'' \<or> c = CHR ''-'')"

lemma num_char_plain: "num_char c \<Longrightarrow> \<not> py_isspace c \<and> c \<noteq> CHR ''_''"
  by (auto simp: num_char_def digit_char_def py_isspace_def code_def Let_def)

lemma strip_plain: "(\<And>c. c \<in> set s \<Longrightarrow> \<not> py_isspace c) \<Longrightarrow> py_strip s = s"
proof -
  assume a: "\<And>c. c \<in> set s \<Longrightarrow> \<not> py_isspace c"
  have "dropWhile py_isspace xs = xs" if "\<And>c. c \<in> set xs \<Longrightarrow> \<not> py_isspace c" for xs
    using that by (cases xs) auto
  from this [of s] this [of "rev s"] a show ?thesis by (simp add: py_strip_def)
qed

lemma dec_of_plain:
  assumes "digit_char c" "\<And>x. x \<in> set s \<Longrightarrow> num_char x"
  shows "dec_of ((if neg then ''-'' else []) @ c # s) = number_of neg (c # s)"
proof -
  let ?t = "(if neg then ''-'' else []) @ c # s"
  have all: "num_char x" if "x \<in> set ?t" for x
    using that assms by (auto simp: num_char_def split: if_splits)
  then have plain: "\<not> py_isspace x \<and> x \<noteq> CHR ''_''" if "x \<in> set ?t" for x
    using that by (intro num_char_plain) blast
  have norm: "filter (\<lambda>x. x \<noteq> CHR ''_'') (py_strip ?t) = ?t"
    using plain by (subst strip_plain) (blast, intro filter_True, blast)
  have "c \<noteq> CHR ''-''" "c \<noteq> CHR ''+''" "to_lower c = c" "c \<noteq> CHR ''i''" "c \<noteq> CHR ''n''" "c \<noteq> CHR ''s''"
    using assms(1) by (auto simp: digit_char_def code_def to_lower_def upper_char_def Let_def)
  then show ?thesis
    unfolding dec_of_def norm by (cases neg) (simp_all add: split_sign_def starts_with_def py_lower_def Let_def)
qed

lemma dec_of_format: "dec_of (format_fixed neg q p) = Some (Fin neg q (- int p))"
proof -
  let ?ip = "show_nat (q div 10 ^ p)" and ?fp = "pad_digits p (q mod 10 ^ p)"
  let ?s = "?ip @ (if ?fp = [] then [] else ''.'' @ ?fp)"
  note ip = show_nat_digits [of "q div 10 ^ p"] and fp = pad_digits [of p "q mod 10 ^ p"]
  have len: "length ?fp = p" using fp by blast
  then have nil: "(p = 0) = (?fp = [])" by auto
  then have fmt: "format_fixed neg q p = (if neg then ''-'' else []) @ ?s"
    by (simp add: format_fixed_def)
  from ip obtain c cs where cs: "?ip = c # cs" "digit_char c" by (cases ?ip) auto
  have tail: "num_char x" if "x \<in> set (tl ?s)" for x
  proof -
    from that have "x \<in> set ?s" by (rule list.set_sel(2) [rotated]) (simp add: cs)
    then show ?thesis using ip fp by (auto simp: num_char_def list_all_iff split: if_splits)
  qed
  have "?s = c # tl ?s" by (simp add: cs)
  then have "dec_of (format_fixed neg q p) = number_of neg ?s"
    using dec_of_plain [OF cs(2), of "tl ?s" neg] tail unfolding fmt by simp
  also have "\<dots> = Some (Fin neg (digits_val (?ip @ ?fp)) (- int (length ?fp)))"
    by (rule number_of_format) (use ip fp in auto)
  also have "digits_val (?ip @ ?fp) = q"
    using ip fp unfolding digits_val_append len by (simp add: div_mult_mod_eq)
  finally show ?thesis by (simp add: len)
qed

end
