(* ===== verification/Engine.thy ===== *)
theory Engine
  imports Execution_Policy
begin

text \<open>
  Exceptions as values, and the engine (iDempiere) as the application layer sees it: the
  \<open>IdempiereClient\<close> protocol of \<open>modules/integration/idempiere_client.py\<close> over a state \<open>'w\<close> of the
  engine. An exception that is matched by a class name carries the name; an engine refusal its HTTP
  status; \<open>Stop\<close> is the executors' own (\<open>modules/inbox/execution_support.py\<close>).
\<close>

datatype exn = Exn string string | ApiError int | Stop Outcome

text \<open>The class name an \<open>except Exception\<close> records.\<close>

fun exn_class :: "exn \<Rightarrow> string" where
  "exn_class (Exn c _) = c"
| "exn_class (ApiError _) = ''IdempiereApiError''"
| "exn_class (Stop _) = ''Stop''"

definition is_client_error :: "exn \<Rightarrow> bool" where
  "is_client_error e = (exn_class e \<in> {''IdempiereClientError'', ''IdempiereAuthenticationError'', ''IdempiereApiError'',
     ''NativeFinancialMutationDenied''})"

definition OrderToCashError :: "string \<Rightarrow> exn" where
  "OrderToCashError msg = Exn ''OrderToCashError'' msg"

definition dead :: "string \<Rightarrow> string \<Rightarrow> exn" where
  "dead ocode detail = Stop (outcome DEAD_LETTER ocode detail)"

definition blocked :: "string \<Rightarrow> string \<Rightarrow> exn" where
  "blocked ocode detail = Stop (outcome BLOCKED ocode detail)"

text \<open>\<open>try: m except handler\<close>: the handler decides by the exception what is raised instead.\<close>

definition rethrow :: "(exn \<Rightarrow> exn) \<Rightarrow> ('s, exn, 'a) op \<Rightarrow> ('s, exn, 'a) op" where
  "rethrow h m s = (case m s of (Inl e, s') \<Rightarrow> (Inl (h e), s') | (Inr a, s') \<Rightarrow> (Inr a, s'))"

text \<open>\<open>engine_errors\<close>: a request the engine refuses (400, 422) is a dead letter, any other failure is retried.\<close>

fun engine_outcome :: "exn \<Rightarrow> exn" where
  "engine_outcome (ApiError status) =
     (if status = 400 \<or> status = 422 then dead ''ENGINE_REJECTED'' (''HTTP '' @ show_int status)
      else Stop (outcome RETRY ''ENGINE_UNAVAILABLE'' (''HTTP '' @ show_int status)))"
| "engine_outcome e =
     (if is_client_error e then Stop (outcome RETRY ''ENGINE_UNAVAILABLE'' ''the engine could not be reached'') else e)"

definition engine_errors :: "('s, exn, 'a) op \<Rightarrow> ('s, exn, 'a) op" where
  "engine_errors = rethrow engine_outcome"

type_synonym fields = "(string \<times> json) list"

record 'w engine =
  get_record :: "string \<Rightarrow> int \<Rightarrow> ('w, exn, json) op"
  query :: "string \<Rightarrow> fields \<Rightarrow> string list \<Rightarrow> ('w, exn, json list) op"
  create_record :: "string \<Rightarrow> fields \<Rightarrow> ('w, exn, int) op"
  update_record :: "string \<Rightarrow> int \<Rightarrow> fields \<Rightarrow> ('w, exn, unit) op"
  execute_process :: "int \<Rightarrow> fields \<Rightarrow> ('w, exn, json) op"

lemma rethrow_Inr [simp]: "rethrow h m s = (Inr a, s') \<longleftrightarrow> m s = (Inr a, s')"
  by (auto simp: rethrow_def split: prod.splits sum.splits)

lemma rethrow_Inl: "rethrow h m s = (Inl e, s') \<longleftrightarrow> (\<exists>e0. m s = (Inl e0, s') \<and> e = h e0)"
  by (auto simp: rethrow_def split: prod.splits sum.splits)

lemma engine_outcome_stop: "is_client_error e \<Longrightarrow> \<exists>oc. engine_outcome e = Stop oc \<and> oc_status oc \<in> {RETRY, DEAD_LETTER}"
  by (cases e) (auto simp: dead_def is_client_error_def)

end
