(* ===== verification/Consequence.thy ===== *)
theory Consequence
  imports Outbox Engine
begin

text \<open>
  The order-consequence read model (\<open>modules/order_to_cash/consequence.py\<close>), its Postgres store
  (\<open>consequence_store.py\<close>, migration 0016) and the event that announces a change of it
  (\<open>consequence_events.py\<close>).
\<close>

section \<open>The rules\<close>

datatype Fact = ORDER_COMPLETED | SHIPMENT_COMPLETED | INVOICE_POSTED

record Facts =
  order_completed :: bool
  shipment_completed :: bool
  invoice_posted :: bool

record Derived =
  dv_status :: string
  dv_accounting :: string
  dv_inventory :: string

definition derive :: "Facts \<Rightarrow> Derived" where
  "derive facts =
     (let accounting = (if invoice_posted facts then ''posted'' else ''pending'');
          inventory = (if shipment_completed facts then ''fulfilled'' else ''pending'');
          status = (if accounting = ''posted'' \<and> inventory = ''fulfilled'' then ''posted''
                    else if order_completed facts \<or> shipment_completed facts \<or> invoice_posted facts then ''processing''
                    else ''accepted'') in
      \<lparr>dv_status = status, dv_accounting = accounting, dv_inventory = inventory\<rparr>)"

record OrderConsequence =
  co_tenant :: string
  co_order :: string
  co_entity :: string
  co_version :: int
  co_erp_order :: string
  co_status :: string
  co_accounting :: string
  co_inventory :: string
  co_revision :: nat
  co_updated_at :: instant
  co_invoice :: "string option"
  co_exception :: "string option"

definition consequence_contract :: "pylib \<Rightarrow> OrderConsequence \<Rightarrow> json" where
  "consequence_contract L c = JObj
     ([(''legal_entity_id'', JStr (co_entity c)), (''commerce_order_id'', JStr (co_order c)),
       (''order_version'', JInt (co_version c)), (''erp_order_id'', JStr (co_erp_order c)), (''status'', JStr (co_status c)),
       (''accounting_status'', JStr (co_accounting c)), (''inventory_status'', JStr (co_inventory c)),
       (''revision'', JInt (int (co_revision c))), (''updated_at'', JStr (utc_z L (co_updated_at c)))]
      @ (case co_invoice c of None \<Rightarrow> [] | Some i \<Rightarrow> [(''invoice_id'', JStr i)])
      @ (case co_exception c of None \<Rightarrow> [] | Some x \<Rightarrow> [(''exception_code'', JStr x)]))"

section \<open>The store\<close>

text \<open>A row is the record and the times the facts were first noted.\<close>

record consequence_row = OrderConsequence +
  cr_order_completed_at :: "instant option"
  cr_shipment_completed_at :: "instant option"
  cr_invoice_posted_at :: "instant option"

record document_row =
  cd_tenant :: string
  cd_type :: string
  cd_document :: string
  cd_order :: string

definition of_order :: "string \<Rightarrow> string \<Rightarrow> consequence_row \<Rightarrow> bool" where
  "of_order tenant og r = (co_tenant r = tenant \<and> co_order r = og)"

definition get_consequence :: "string \<Rightarrow> string \<Rightarrow> consequence_row list \<Rightarrow> OrderConsequence option" where
  "get_consequence tenant og rows = map_option OrderConsequence.truncate (select_one (of_order tenant og) rows)"

definition has_order :: "string \<Rightarrow> string \<Rightarrow> consequence_row list \<Rightarrow> bool" where
  "has_order tenant og rows = (select_one (of_order tenant og) rows \<noteq> None)"

definition public_id_rx :: rx where
  "public_id_rx = Seq (Lit ''erp_'') (Rep 4 59 (Cls [(CHR ''a'', CHR ''z''), (CHR ''0'', CHR ''9'')]))"

definition unique_violation :: exn where "unique_violation = Exn ''UniqueViolation'' []"
definition check_violation :: exn where "check_violation = Exn ''CheckViolation'' []"
definition out_of_range :: exn where "out_of_range = Exn ''NumericValueOutOfRange'' []"
definition foreign_key_violation :: exn where "foreign_key_violation = Exn ''ForeignKeyViolation'' []"

text \<open>What fits an \<open>INTEGER\<close> column; the conversion comes before the row's checks.\<close>

definition fits_integer :: "int \<Rightarrow> bool" where
  "fits_integer v \<longleftrightarrow> - (2 ^ 31) \<le> v \<and> v < 2 ^ 31"

definition opened_row :: "string \<Rightarrow> string \<Rightarrow> string \<Rightarrow> int \<Rightarrow> string \<Rightarrow> instant \<Rightarrow> consequence_row" where
  "opened_row tenant entity og version erp_order now =
     (let derived = derive \<lparr>order_completed = False, shipment_completed = False, invoice_posted = False\<rparr> in
      \<lparr>co_tenant = tenant, co_order = og, co_entity = entity, co_version = version, co_erp_order = erp_order,
       co_status = dv_status derived, co_accounting = dv_accounting derived, co_inventory = dv_inventory derived,
       co_revision = 1, co_updated_at = now, co_invoice = None, co_exception = None, cr_order_completed_at = None,
       cr_shipment_completed_at = None, cr_invoice_posted_at = None\<rparr>)"

definition open_order ::
  "string \<Rightarrow> string \<Rightarrow> string \<Rightarrow> int \<Rightarrow> string \<Rightarrow> instant \<Rightarrow> (consequence_row list, exn, OrderConsequence) op" where
  "open_order tenant entity og version erp_order now rows =
     (let row = opened_row tenant entity og version erp_order now in
      if \<not> fits_integer version then (Inl out_of_range, rows)
      else if version < 1 \<or> \<not> fullmatch public_id_rx erp_order then (Inl check_violation, rows)
      else if has_order tenant og rows \<or> list_ex (\<lambda>r. co_erp_order r = erp_order) rows then (Inl unique_violation, rows)
      else (case get_consequence tenant og (rows @ [row]) of
              Some c \<Rightarrow> (Inr c, rows @ [row])
            | None \<Rightarrow> (Inl (Exn ''AssertionError'' []), rows @ [row])))"

text \<open>The document table refers to the consequence table; its own key is the document.\<close>

definition link_document ::
  "string \<Rightarrow> string \<Rightarrow> string \<Rightarrow> string \<Rightarrow> consequence_row list \<Rightarrow> (document_row list, exn, bool) op" where
  "link_document tenant ty doc og orders docs =
     (if \<not> has_order tenant og orders then (Inr False, docs)
      else if ty \<notin> {''GoodsShipment'', ''CustomerInvoice''} then (Inl check_violation, docs)
      else if list_ex (\<lambda>d. cd_tenant d = tenant \<and> cd_type d = ty \<and> cd_document d = doc) docs then (Inl unique_violation, docs)
      else (Inr True, docs @ [\<lparr>cd_tenant = tenant, cd_type = ty, cd_document = doc, cd_order = og\<rparr>]))"

definition order_of_document :: "string \<Rightarrow> string \<Rightarrow> string \<Rightarrow> document_row list \<Rightarrow> string option" where
  "order_of_document tenant ty doc docs =
     map_option cd_order (select_one (\<lambda>d. cd_tenant d = tenant \<and> cd_type d = ty \<and> cd_document d = doc) docs)"

fun fact_at :: "Fact \<Rightarrow> consequence_row \<Rightarrow> instant option" where
  "fact_at ORDER_COMPLETED r = cr_order_completed_at r"
| "fact_at SHIPMENT_COMPLETED r = cr_shipment_completed_at r"
| "fact_at INVOICE_POSTED r = cr_invoice_posted_at r"

fun set_fact :: "Fact \<Rightarrow> instant \<Rightarrow> consequence_row \<Rightarrow> consequence_row" where
  "set_fact ORDER_COMPLETED t r = r\<lparr>cr_order_completed_at := Some t\<rparr>"
| "set_fact SHIPMENT_COMPLETED t r = r\<lparr>cr_shipment_completed_at := Some t\<rparr>"
| "set_fact INVOICE_POSTED t r = r\<lparr>cr_invoice_posted_at := Some t\<rparr>"

definition facts_of :: "consequence_row \<Rightarrow> Facts" where
  "facts_of r = \<lparr>order_completed = cr_order_completed_at r \<noteq> None, shipment_completed = cr_shipment_completed_at r \<noteq> None,
     invoice_posted = cr_invoice_posted_at r \<noteq> None\<rparr>"

definition note_fact :: "Fact \<Rightarrow> instant \<Rightarrow> string option \<Rightarrow> consequence_row \<Rightarrow> consequence_row" where
  "note_fact fct t invoice r =
     (let noted = set_fact fct t r; derived = derive (facts_of noted) in
      noted\<lparr>co_status := dv_status derived, co_accounting := dv_accounting derived, co_inventory := dv_inventory derived,
        co_invoice := (case invoice of None \<Rightarrow> co_invoice r | Some i \<Rightarrow> Some i), co_revision := co_revision r + 1,
        co_updated_at := t\<rparr>)"

text \<open>
  \<open>record_fact\<close>: nothing when ERP keeps no record; a fact already noted changes nothing. The update is refused when the
  invoice's public id fails the check of its column.
\<close>

definition record_fact ::
  "string \<Rightarrow> string \<Rightarrow> Fact \<Rightarrow> instant \<Rightarrow> string option
     \<Rightarrow> (consequence_row list, exn, (OrderConsequence \<times> bool) option) op" where
  "record_fact tenant og fct now invoice rows =
     (case select_one (of_order tenant og) rows of
        None \<Rightarrow> (Inr None, rows)
      | Some r \<Rightarrow>
          let changed = (fact_at fct r = None);
              rows' = (if changed then update_where (of_order tenant og) (note_fact fct now invoice) rows else rows) in
          if changed \<and> \<not> pred_option (fullmatch public_id_rx) invoice then (Inl check_violation, rows)
          else (Inr (map_option (\<lambda>c. (c, changed)) (get_consequence tenant og rows')), rows'))"

section \<open>The event\<close>

definition CONSEQUENCE_EVENT :: string where
  "CONSEQUENCE_EVENT = ''com.baobab-platform.erp.order.consequence-changed.v1''"

definition CONSEQUENCE_NAMESPACE :: nat where
  "CONSEQUENCE_NAMESPACE = 0x5f0cbb6e4a0e5a399d527a3d2d1b8c11"

text \<open>\<open>str(uuid.UUID(str(supplied)))\<close>, or the stable one; \<open>str(None)\<close> is no UUID.\<close>

definition uuid_or :: "string option \<Rightarrow> nat \<Rightarrow> string" where
  "uuid_or supplied derived_id =
     show_uuid (case Option.bind supplied uuid_of of None \<Rightarrow> derived_id | Some n \<Rightarrow> n)"

definition correlation_uuid :: "pylib \<Rightarrow> string \<Rightarrow> string \<Rightarrow> string option \<Rightarrow> string" where
  "correlation_uuid L tenant og supplied =
     uuid_or supplied (uuid5 L CONSEQUENCE_NAMESPACE (''correlation|'' @ tenant @ ''|'' @ og))"

definition consequence_event_id :: "pylib \<Rightarrow> OrderConsequence \<Rightarrow> nat" where
  "consequence_event_id L c =
     uuid5 L CONSEQUENCE_NAMESPACE (co_tenant c @ ''|'' @ co_order c @ ''|'' @ show_nat (co_revision c))"

definition consequence_changed_event :: "pylib \<Rightarrow> nat \<Rightarrow> OrderConsequence \<Rightarrow> string option \<Rightarrow> event_error + cloud_event" where
  "consequence_changed_event L fresh c correlation =
     bindE (new_event L fresh CONSEQUENCE_EVENT (''order:'' @ co_order c) (correlation_uuid L (co_tenant c) (co_order c) correlation)
       (consequence_contract L c) (Some (co_tenant c)) JNull
       (JStr (''erp-order-consequence-'' @ co_order c @ ''-r'' @ show_nat (co_revision c))) JNull (co_updated_at c))
     (\<lambda>e. Inr (e\<lparr>ev_id := JStr (show_uuid (consequence_event_id L c))\<rparr>))"

section \<open>What the read model keeps\<close>

definition noted :: "consequence_row \<Rightarrow> nat" where
  "noted r = count_where (\<lambda>f. fact_at f r \<noteq> None) [ORDER_COMPLETED, SHIPMENT_COMPLETED, INVOICE_POSTED]"

definition row_consistent :: "consequence_row \<Rightarrow> bool" where
  "row_consistent r \<longleftrightarrow>
     derive (facts_of r) = \<lparr>dv_status = co_status r, dv_accounting = co_accounting r, dv_inventory = co_inventory r\<rparr>
     \<and> co_revision r = Suc (noted r) \<and> co_exception r = None \<and> fullmatch public_id_rx (co_erp_order r) \<and> 1 \<le> co_version r"

definition order_key :: "consequence_row \<Rightarrow> string \<times> string" where
  "order_key r = (co_tenant r, co_order r)"

definition consequence_inv :: "consequence_row list \<Rightarrow> bool" where
  "consequence_inv rows \<longleftrightarrow> (\<forall>r \<in> set rows. row_consistent r)
     \<and> distinct (map order_key rows) \<and> distinct (map co_erp_order rows)"

lemma of_order_key: "of_order tenant og r \<longleftrightarrow> order_key r = (tenant, og)"
  by (simp add: of_order_def order_key_def)

lemma set_fact_simps [simp]:
  "co_tenant (set_fact f t r) = co_tenant r" "co_order (set_fact f t r) = co_order r"
  "co_erp_order (set_fact f t r) = co_erp_order r" "co_version (set_fact f t r) = co_version r"
  "co_exception (set_fact f t r) = co_exception r" "co_revision (set_fact f t r) = co_revision r"
  "co_entity (set_fact f t r) = co_entity r"
  by (cases f; simp)+

lemma note_fact_simps [simp]:
  "co_tenant (note_fact f t i r) = co_tenant r" "co_order (note_fact f t i r) = co_order r"
  "co_erp_order (note_fact f t i r) = co_erp_order r" "co_version (note_fact f t i r) = co_version r"
  "co_exception (note_fact f t i r) = co_exception r" "co_revision (note_fact f t i r) = co_revision r + 1"
  "co_entity (note_fact f t i r) = co_entity r" "co_updated_at (note_fact f t i r) = t"
  "order_key (note_fact f t i r) = order_key r" "of_order tenant og (note_fact f t i r) = of_order tenant og r"
  by (simp_all add: note_fact_def Let_def order_key_def of_order_def)

lemma fact_at_note: "fact_at g (note_fact f t i r) = (if g = f then Some t else fact_at g r)"
  by (cases f; cases g) (simp_all add: note_fact_def Let_def)

lemma noted_note: "fact_at f r = None \<Longrightarrow> noted (note_fact f t i r) = Suc (noted r)"
  by (cases f) (auto simp: noted_def fact_at_note)

lemma facts_of_note: "facts_of (note_fact f t i r) = facts_of (set_fact f t r)"
  by (cases f) (simp_all add: facts_of_def note_fact_def Let_def)

lemma row_consistent_note: "row_consistent r \<Longrightarrow> fact_at f r = None \<Longrightarrow> row_consistent (note_fact f t i r)"
  unfolding row_consistent_def facts_of_note by (simp add: noted_note) (simp add: note_fact_def Let_def)

lemma consequence_inv_open:
  assumes "consequence_inv rows" "open_order tenant entity og version erp now rows = (r, rows')"
  shows "consequence_inv rows'"
proof (cases "rows' = rows")
  case False
  from False assms(2) have ok: "\<not> \<not> fits_integer version" "\<not> (version < 1 \<or> \<not> fullmatch public_id_rx erp)"
      "\<not> (has_order tenant og rows \<or> list_ex (\<lambda>r. co_erp_order r = erp) rows)"
    unfolding open_order_def Let_def by (force split: if_splits)+
  let ?row = "opened_row tenant entity og version erp now"
  from assms(2) have rows': "rows' = rows @ [?row]"
    unfolding open_order_def if_not_P [OF ok(1)] if_not_P [OF ok(2)] if_not_P [OF ok(3)] Let_def by (auto split: option.splits)
  have "row_consistent ?row"
    using ok(2) by (simp add: opened_row_def Let_def row_consistent_def facts_of_def noted_def derive_def)
  with rows' have row: "rows' = rows @ [?row]" "row_consistent ?row" "order_key ?row = (tenant, og)" "co_erp_order ?row = erp"
    by (simp_all add: opened_row_def order_key_def Let_def)
  have "(tenant, og) \<notin> order_key ` set rows" "erp \<notin> co_erp_order ` set rows"
    using ok(3) by (auto simp: has_order_def select_one_None_iff of_order_key list_ex_iff)
  with row assms(1) show ?thesis by (simp add: consequence_inv_def ball_Un)
qed (use assms in simp)

lemma consequence_inv_fact:
  assumes "consequence_inv rows" "record_fact tenant og f now invoice rows = (r, rows')"
  shows "consequence_inv rows'"
proof -
  consider "rows' = rows" | x where "select_one (of_order tenant og) rows = Some x" "fact_at f x = None"
      "rows' = update_where (of_order tenant og) (note_fact f now invoice) rows"
    using assms(2) by (auto simp: record_fact_def Let_def split: option.splits if_splits)
  then show ?thesis
  proof cases
    case 2
    have only: "y = x" if "y \<in> set rows" "of_order tenant og y" for y
    proof -
      have "inj_on order_key (set rows)" using assms(1) by (simp add: consequence_inv_def distinct_map)
      moreover have "x \<in> set rows" "order_key x = order_key y"
        using select_one_SomeD [OF 2(1)] that(2) by (simp_all add: of_order_key)
      ultimately show ?thesis using that(1) by (metis inj_onD)
    qed
    have "row_consistent (note_fact f now invoice y)" if "y \<in> set rows" "of_order tenant og y" for y
      using only [OF that] that assms(1) 2(2) by (auto simp: consequence_inv_def intro: row_consistent_note)
    then show ?thesis
      using assms(1) unfolding 2(3) consequence_inv_def
      by (auto simp: set_update_where map_update_where)
  qed (use assms in simp)
qed

lemma record_fact_again:
  assumes "record_fact tenant og f now invoice rows = (Inr (Some (c, b)), rows')"
  shows "record_fact tenant og f now' invoice' rows' = (Inr (Some (c, False)), rows')"
proof -
  from assms obtain r where r: "select_one (of_order tenant og) rows = Some r"
    by (auto simp: record_fact_def split: option.splits)
  show ?thesis
  proof (cases "fact_at f r = None")
    case True
    with assms r have rows': "rows' = update_where (of_order tenant og) (note_fact f now invoice) rows"
      and c: "get_consequence tenant og rows' = Some c"
      by (auto simp: record_fact_def Let_def split: if_splits)
    have "select_one (of_order tenant og) rows' = Some (note_fact f now invoice r)"
      unfolding rows' by (subst select_one_update_same) (simp_all add: r)
    with c show ?thesis by (simp add: record_fact_def fact_at_note)
  next
    case False
    with assms r show ?thesis by (auto simp: record_fact_def)
  qed
qed

section \<open>How the status moves\<close>

fun status_rank :: "string \<Rightarrow> nat" where
  "status_rank s = (if s = ''accepted'' then 0 else if s = ''processing'' then 1 else 2)"

declare status_rank.simps [simp del]

lemma status_rank_note:
  "row_consistent r \<Longrightarrow> status_rank (co_status r) \<le> status_rank (co_status (note_fact f t i r))"
  by (cases f) (auto simp: row_consistent_def note_fact_def Let_def derive_def facts_of_def status_rank.simps split: if_splits)

lemma record_fact_step:
  assumes "consequence_inv rows" "record_fact tenant og f now invoice rows = (Inr (Some (c, b)), rows')"
  obtains r where "select_one (of_order tenant og) rows = Some r" "b \<longleftrightarrow> fact_at f r = None"
    "select_one (of_order tenant og) rows' = Some (if b then note_fact f now invoice r else r)"
    "c = OrderConsequence.truncate (if b then note_fact f now invoice r else r)" "row_consistent r"
proof -
  from assms(2) obtain r where r: "select_one (of_order tenant og) rows = Some r"
    by (auto simp: record_fact_def split: option.splits)
  with assms(1) have con: "row_consistent r" by (auto simp: consequence_inv_def dest: select_one_SomeD)
  from assms(2) r have b: "b \<longleftrightarrow> fact_at f r = None"
    and rows': "rows' = (if b then update_where (of_order tenant og) (note_fact f now invoice) rows else rows)"
    and c: "get_consequence tenant og rows' = Some c"
    by (auto simp: record_fact_def Let_def split: if_splits)
  have sel: "select_one (of_order tenant og) rows' = Some (if b then note_fact f now invoice r else r)"
  proof (cases b)
    case True
    then show ?thesis unfolding rows' by (simp add: select_one_update_same r)
  qed (simp add: rows' r)
  with c have "c = OrderConsequence.truncate (if b then note_fact f now invoice r else r)"
    by (simp add: get_consequence_def)
  with that r b sel con show thesis by blast
qed

section \<open>Properties\<close>

text \<open>C18: The read model is a function of the facts. Opening an order and noting facts, in any order and with
  repetitions, keep in every row: the three statuses are those \<open>derive\<close> gives for the noted facts, the
  revision counts them, one row per (tenant, order) and per public id. A change moves the status
  forward and the revision by one; a repeated fact changes nothing and says so.\<close>

theorem consequence_derived:
  assumes "consequence_inv rows"
  shows "consequence_inv (snd (open_order tenant entity og version erp now rows))
    \<and> consequence_inv (snd (record_fact tenant og f now invoice rows))
    \<and> (\<forall>c b. fst (record_fact tenant og f now invoice rows) = Inr (Some (c, b)) \<longrightarrow>
        (\<exists>old. get_consequence tenant og rows = Some old \<and> co_revision c = co_revision old + (if b then 1 else 0)
           \<and> status_rank (co_status old) \<le> status_rank (co_status c))
        \<and> record_fact tenant og f now' invoice' (snd (record_fact tenant og f now invoice rows))
             = (Inr (Some (c, False)), snd (record_fact tenant og f now invoice rows)))"
proof (intro conjI allI impI)
  show "consequence_inv (snd (open_order tenant entity og version erp now rows))"
    using consequence_inv_open [OF assms] by (metis prod.collapse)
  show "consequence_inv (snd (record_fact tenant og f now invoice rows))"
    using consequence_inv_fact [OF assms] by (metis prod.collapse)
  fix c b assume "fst (record_fact tenant og f now invoice rows) = Inr (Some (c, b))"
  then obtain rows' where run: "record_fact tenant og f now invoice rows = (Inr (Some (c, b)), rows')" by (metis prod.collapse)
  show "record_fact tenant og f now' invoice' (snd (record_fact tenant og f now invoice rows))
             = (Inr (Some (c, False)), snd (record_fact tenant og f now invoice rows))"
    using record_fact_again [OF run] run by simp
  show "\<exists>old. get_consequence tenant og rows = Some old \<and> co_revision c = co_revision old + (if b then 1 else 0)
           \<and> status_rank (co_status old) \<le> status_rank (co_status c)"
    using assms run
    by (rule record_fact_step)
      (auto simp: get_consequence_def OrderConsequence.truncate_def status_rank_note)
qed

theorem consequence_derived_witness:
  "consequence_inv (snd (open_order ''tn_abc01'' ''NABHOLD'' ''order_1'' 1 ''erp_0001'' 0 []))"
  using consequence_derived [of "[]"] by (simp add: consequence_inv_def)

end
