(* ===== verification/Placed_Order.thy ===== *)
theory Placed_Order
  imports Identifiers Py_Decimal Cloud_Event
begin

text \<open>
  The Trade order an \<open>order.placed\<close> event asks ERP to carry (\<open>modules/order_to_cash/placed_order.py\<close>):
  the parser, what it accepts, and that every well-formed order is accepted. A refusal is the reason,
  a fixed text.
\<close>

definition RESOURCE_ID :: rx where
  "RESOURCE_ID = Seq alnum (Rep 2 127 key_char)"

definition upper_letter_rx :: rx where
  "upper_letter_rx = Cls [(CHR ''A'', CHR ''Z'')]"

definition CURRENCY :: rx where
  "CURRENCY = Rep 3 3 upper_letter_rx"

definition MAX_LINES :: nat where
  "MAX_LINES = 500"

record PlacedLine =
  pl_line_id :: string
  pl_sku_id :: string
  pl_quantity :: string
  pl_unit :: string
  pl_unit_price :: string

record PlacedOrder =
  po_entity :: string
  po_order_id :: string
  po_version :: int
  po_customer_id :: string
  po_currency :: string
  po_lines :: "PlacedLine list"

definition resource_id :: "json \<Rightarrow> string \<Rightarrow> string + string" where
  "resource_id data name =
     (case jget data name of
        JStr s \<Rightarrow> if fullmatch RESOURCE_ID s then Inr s else Inl (name @ '' is missing or not a canonical resource id'')
      | _ \<Rightarrow> Inl (name @ '' is missing or not a canonical resource id''))"

fun decimal_text :: "json \<Rightarrow> string \<Rightarrow> bool \<Rightarrow> string + string" where
  "decimal_text (JStr s) what positive =
     (case dec_of s of
        None \<Rightarrow> Inl (what @ '' is not a decimal'')
      | Some d \<Rightarrow> if \<not> is_finite d \<or> (positive \<and> dec_nonpos d) \<or> dec_neg d then Inl (what @ '' is out of range'') else Inr s)"
| "decimal_text _ what positive = Inl (what @ '' must be a decimal string'')"

definition parse_line :: "string \<Rightarrow> string list \<Rightarrow> json \<Rightarrow> string + PlacedLine" where
  "parse_line currency seen raw =
     (if \<not> is_obj raw then Inl ''a line is not an object''
      else bindE (resource_id raw ''line_id'') (\<lambda>line_id.
        if line_id \<in> set seen then Inl ''line_id repeats''
        else (let qty = jget raw ''quantity''; price = jget raw ''unit_price'' in
          if \<not> is_obj qty \<or> \<not> is_obj price then Inl ''a line needs quantity and unit_price objects''
          else (case jget qty ''unit'' of
              JStr unit \<Rightarrow>
                if unit = [] then Inl ''a line quantity needs a unit''
                else if jget price ''currency'' \<noteq> JStr currency then Inl ''a line price is not in the order currency''
                else bindE (resource_id raw ''sku_id'') (\<lambda>sku.
                  bindE (decimal_text (jget qty ''value'') ''quantity'' True) (\<lambda>q.
                  bindE (decimal_text (jget price ''amount'') ''unit_price'' False) (\<lambda>p.
                  Inr \<lparr>pl_line_id = line_id, pl_sku_id = sku, pl_quantity = q, pl_unit = unit, pl_unit_price = p\<rparr>)))
            | _ \<Rightarrow> Inl ''a line quantity needs a unit''))))"

fun parse_lines :: "string \<Rightarrow> string list \<Rightarrow> json list \<Rightarrow> string + PlacedLine list" where
  "parse_lines currency seen [] = Inr []"
| "parse_lines currency seen (raw # raws) =
     bindE (parse_line currency seen raw) (\<lambda>line.
     bindE (parse_lines currency (pl_line_id line # seen) raws) (\<lambda>lines. Inr (line # lines)))"

definition parse_placed_order :: "json \<Rightarrow> string + PlacedOrder" where
  "parse_placed_order data =
     (if \<not> is_obj data then Inl ''data is not an object''
      else (case legal_entity_id (jget data ''legal_entity_id'') of
          Inl _ \<Rightarrow> Inl ''legal_entity_id is missing or malformed''
        | Inr entity \<Rightarrow>
            (case positive_int (jget data ''order_version'') of
               None \<Rightarrow> Inl ''order_version must be a positive integer''
             | Some version \<Rightarrow>
                 (case jget data ''currency'' of
                    JStr currency \<Rightarrow>
                      if \<not> fullmatch CURRENCY currency then Inl ''currency must be an ISO 4217 code''
                      else (case jget data ''lines'' of
                          JArr raw_lines \<Rightarrow>
                            if raw_lines = [] \<or> MAX_LINES < length raw_lines then Inl ''lines must be a non-empty list''
                            else bindE (parse_lines currency [] raw_lines) (\<lambda>lines.
                              bindE (resource_id data ''commerce_order_id'') (\<lambda>og.
                              bindE (resource_id data ''customer_id'') (\<lambda>customer.
                              Inr \<lparr>po_entity = entity, po_order_id = og, po_version = version, po_customer_id = customer,
                                po_currency = currency, po_lines = lines\<rparr>)))
                        | _ \<Rightarrow> Inl ''lines must be a non-empty list'')
                  | _ \<Rightarrow> Inl ''currency must be an ISO 4217 code''))))"

section \<open>What the parser accepts\<close>

definition is_quantity :: "string \<Rightarrow> bool" where
  "is_quantity s = (\<exists>c e. dec_of s = Some (Fin False c e) \<and> 0 < c)"

definition is_price :: "string \<Rightarrow> bool" where
  "is_price s = (\<exists>neg c e. dec_of s = Some (Fin neg c e) \<and> (neg \<longrightarrow> c = 0))"

definition line_ok :: "PlacedLine \<Rightarrow> bool" where
  "line_ok l \<longleftrightarrow> fullmatch RESOURCE_ID (pl_line_id l) \<and> fullmatch RESOURCE_ID (pl_sku_id l) \<and> is_quantity (pl_quantity l)
     \<and> pl_unit l \<noteq> [] \<and> is_price (pl_unit_price l)"

definition order_ok :: "PlacedOrder \<Rightarrow> bool" where
  "order_ok p \<longleftrightarrow> (legal_entity_id (JStr (po_entity p)) = Inr (po_entity p)) \<and> fullmatch RESOURCE_ID (po_order_id p) \<and> 1 \<le> po_version p
     \<and> fullmatch RESOURCE_ID (po_customer_id p) \<and> fullmatch CURRENCY (po_currency p) \<and> po_lines p \<noteq> []
     \<and> length (po_lines p) \<le> 500 \<and> distinct (map pl_line_id (po_lines p)) \<and> (\<forall>l \<in> set (po_lines p). line_ok l)"

text \<open>What the event data says, member by member; other members are not looked at.\<close>

definition line_says :: "string \<Rightarrow> json \<Rightarrow> PlacedLine \<Rightarrow> bool" where
  "line_says currency raw l \<longleftrightarrow> is_obj raw \<and> is_obj (jget raw ''quantity'') \<and> is_obj (jget raw ''unit_price'')
     \<and> jget raw ''line_id'' = JStr (pl_line_id l) \<and> jget raw ''sku_id'' = JStr (pl_sku_id l)
     \<and> jget (jget raw ''quantity'') ''value'' = JStr (pl_quantity l) \<and> jget (jget raw ''quantity'') ''unit'' = JStr (pl_unit l)
     \<and> jget (jget raw ''unit_price'') ''amount'' = JStr (pl_unit_price l)
     \<and> jget (jget raw ''unit_price'') ''currency'' = JStr currency"

definition order_says :: "json \<Rightarrow> PlacedOrder \<Rightarrow> bool" where
  "order_says data p \<longleftrightarrow> is_obj data \<and> jget data ''legal_entity_id'' = JStr (po_entity p)
     \<and> jget data ''commerce_order_id'' = JStr (po_order_id p) \<and> jget data ''order_version'' = JInt (po_version p)
     \<and> jget data ''customer_id'' = JStr (po_customer_id p) \<and> jget data ''currency'' = JStr (po_currency p)
     \<and> (case jget data ''lines'' of JArr raws \<Rightarrow> list_all2 (line_says (po_currency p)) raws (po_lines p) | _ \<Rightarrow> False)"

text \<open>The event data that carries an order.\<close>

definition line_payload :: "string \<Rightarrow> PlacedLine \<Rightarrow> json" where
  "line_payload currency l = JObj
     [(''line_id'', JStr (pl_line_id l)), (''sku_id'', JStr (pl_sku_id l)),
      (''quantity'', JObj [(''value'', JStr (pl_quantity l)), (''unit'', JStr (pl_unit l))]),
      (''unit_price'', JObj [(''amount'', JStr (pl_unit_price l)), (''currency'', JStr currency)])]"

definition order_payload :: "PlacedOrder \<Rightarrow> json" where
  "order_payload p = JObj
     [(''legal_entity_id'', JStr (po_entity p)), (''commerce_order_id'', JStr (po_order_id p)),
      (''order_version'', JInt (po_version p)), (''customer_id'', JStr (po_customer_id p)),
      (''currency'', JStr (po_currency p)), (''lines'', JArr (map (line_payload (po_currency p)) (po_lines p)))]"

lemma resource_id_Inr: "resource_id data name = Inr s \<longleftrightarrow> jget data name = JStr s \<and> fullmatch RESOURCE_ID s"
  by (auto simp: resource_id_def split: json.splits if_splits)

lemma decimal_quantity: "decimal_text v what True = Inr s \<longleftrightarrow> v = JStr s \<and> is_quantity s"
proof (cases v)
  case (JStr t)
  show ?thesis
  proof (cases "dec_of t")
    case (Some d)
    with JStr show ?thesis by (cases d) (auto simp: is_quantity_def)
  qed (use JStr in \<open>auto simp: is_quantity_def\<close>)
qed (auto simp: is_quantity_def)

lemma decimal_price: "decimal_text v what False = Inr s \<longleftrightarrow> v = JStr s \<and> is_price s"
proof (cases v)
  case (JStr t)
  show ?thesis
  proof (cases "dec_of t")
    case (Some d)
    with JStr show ?thesis by (cases d) (auto simp: is_price_def)
  qed (use JStr in \<open>auto simp: is_price_def\<close>)
qed (auto simp: is_price_def)

declare decimal_text.simps [simp del]

lemma parse_line_Inr:
  "parse_line currency seen raw = Inr l \<longleftrightarrow> line_says currency raw l \<and> line_ok l \<and> pl_line_id l \<notin> set seen"
proof
  assume "parse_line currency seen raw = Inr l"
  then show "line_says currency raw l \<and> line_ok l \<and> pl_line_id l \<notin> set seen"
    unfolding line_says_def line_ok_def parse_line_def
    by (auto simp: bindE_Inr_iff resource_id_Inr decimal_quantity decimal_price Let_def split: if_splits json.splits)
next
  assume "line_says currency raw l \<and> line_ok l \<and> pl_line_id l \<notin> set seen"
  moreover from this have "resource_id raw ''line_id'' = Inr (pl_line_id l)" "resource_id raw ''sku_id'' = Inr (pl_sku_id l)"
      "decimal_text (jget (jget raw ''quantity'') ''value'') ''quantity'' True = Inr (pl_quantity l)"
      "decimal_text (jget (jget raw ''unit_price'') ''amount'') ''unit_price'' False = Inr (pl_unit_price l)"
    by (simp_all add: resource_id_Inr decimal_quantity decimal_price line_ok_def line_says_def)
  ultimately show "parse_line currency seen raw = Inr l" by (simp add: parse_line_def line_says_def line_ok_def Let_def)
qed

lemma parse_lines_Inr:
  "parse_lines currency seen raws = Inr ls \<longleftrightarrow>
     list_all2 (line_says currency) raws ls \<and> distinct (map pl_line_id ls) \<and> set (map pl_line_id ls) \<inter> set seen = {} \<and> (\<forall>l \<in> set ls. line_ok l)"
proof (induction raws arbitrary: seen ls)
  case (Cons raw raws)
  show ?case by (cases ls) (auto simp: bindE_Inr_iff parse_line_Inr Cons.IH)
qed auto

lemma parse_placed_order_Inr: "parse_placed_order data = Inr p \<longleftrightarrow> order_says data p \<and> order_ok p"
proof
  assume "parse_placed_order data = Inr p"
  then obtain entity version currency raws lines og customer where
      "is_obj data" "legal_entity_id (jget data ''legal_entity_id'') = Inr entity" "positive_int (jget data ''order_version'') = Some version"
      "jget data ''currency'' = JStr currency" "fullmatch CURRENCY currency" and raws: "jget data ''lines'' = JArr raws"
      and "raws \<noteq> []" "length raws \<le> 500" and lines: "parse_lines currency [] raws = Inr lines"
      and "resource_id data ''commerce_order_id'' = Inr og" "resource_id data ''customer_id'' = Inr customer"
      "p = \<lparr>po_entity = entity, po_order_id = og, po_version = version, po_customer_id = customer, po_currency = currency, po_lines = lines\<rparr>"
    unfolding parse_placed_order_def
    by (auto simp: bindE_Inr_iff MAX_LINES_def split: if_splits sum.splits option.splits json.splits)
  moreover from lines have "list_all2 (line_says currency) raws lines" "distinct (map pl_line_id lines)" "\<forall>l \<in> set lines. line_ok l"
    by (simp_all add: parse_lines_Inr)
  moreover from this(1) have "length raws = length lines" by (rule list_all2_lengthD)
  ultimately show "order_says data p \<and> order_ok p"
    by (auto simp: order_ok_def order_says_def resource_id_Inr legal_entity_id_Inr positive_int_Some)
next
  assume a: "order_says data p \<and> order_ok p"
  then obtain raws where raws: "jget data ''lines'' = JArr raws" "list_all2 (line_says (po_currency p)) raws (po_lines p)"
    by (auto simp: order_says_def split: json.splits)
  then have "length raws = length (po_lines p)" by (simp add: list_all2_lengthD)
  moreover from this a have "raws \<noteq> []" by (auto simp: order_ok_def)
  moreover from a raws have "parse_lines (po_currency p) [] raws = Inr (po_lines p)" by (simp add: parse_lines_Inr order_ok_def)
  moreover from a have "resource_id data ''commerce_order_id'' = Inr (po_order_id p)" "resource_id data ''customer_id'' = Inr (po_customer_id p)"
    by (simp_all add: resource_id_Inr order_ok_def order_says_def)
  ultimately show "parse_placed_order data = Inr p"
    using a raws(1) by (simp add: parse_placed_order_def order_says_def order_ok_def MAX_LINES_def)
qed

lemma order_payload_says: "order_says (order_payload p) p"
  by (simp add: order_says_def order_payload_def jget_def list_all2_map1 list.rel_refl_strong line_says_def line_payload_def)

section \<open>Properties\<close>

text \<open>C21: The order parser accepts exactly the well-formed orders, and returns what the data says. \<open>parse_placed_order\<close> returns an
  order if and only if each of its members is what the data has under the member's own name (the lines one by one and in their
  order, each price in the order's currency) and the order is well formed: canonical identifiers, a legal entity code, a version of
  at least 1, a currency code, 1 to 500 lines with distinct line ids, a unit, positive finite quantities and finite prices that are
  not negative. Every well-formed order is the one read back from the event data that carries it.\<close>

theorem placed_order_exact:
  "(parse_placed_order data = Inr p \<longleftrightarrow> order_says data p \<and> order_ok p) \<and> (order_ok p \<longrightarrow> parse_placed_order (order_payload p) = Inr p)"
  using parse_placed_order_Inr order_payload_says by blast

definition sample_order :: PlacedOrder where
  "sample_order = \<lparr>po_entity = ''NABHOLD'', po_order_id = ''order_1'', po_version = 1, po_customer_id = ''cust_1'',
     po_currency = ''KES'', po_lines = [\<lparr>pl_line_id = ''line_1'', pl_sku_id = ''sku_1'', pl_quantity = ''2.50'',
       pl_unit = ''KG'', pl_unit_price = ''100''\<rparr>]\<rparr>"

lemma sample_order_parsed: "parse_placed_order (order_payload sample_order) = Inr sample_order"
  by code_simp

theorem placed_order_exact_witness: "order_ok sample_order \<and> order_says (order_payload sample_order) sample_order"
  using placed_order_exact [of "order_payload sample_order" sample_order] sample_order_parsed by blast

end
