(* ===== verification/Accounting_Outcomes.thy ===== *)
theory Accounting_Outcomes
  imports Consequence Py_Decimal
begin

text \<open>
  The invoice and payment accounting outcomes (\<open>modules/order_to_cash/accounting_outcomes.py\<close>): the facts
  read back from the engine, the status they establish, the revisions of a document
  (\<open>outcome_store.py\<close>, migration 0022) and the events.
\<close>

section \<open>Facts read from the engine\<close>

definition AccountingFactError :: "string \<Rightarrow> exn" where
  "AccountingFactError msg = Exn ''AccountingFactError'' msg"

record Money =
  mo_amount :: string
  mo_currency :: string

definition money_contract :: "Money \<Rightarrow> json" where
  "money_contract m = JObj [(''amount'', JStr (mo_amount m)), (''currency'', JStr (mo_currency m))]"

record InvoiceFacts =
  if_number :: string
  if_total :: Money
  if_completed :: bool
  if_paid :: bool

record PaymentFacts =
  pf_amount :: Money
  pf_completed :: bool
  pf_fully_allocated :: bool

text \<open>A column that is a list or a reference comes back as an object with an \<open>id\<close>.\<close>

definition code_text :: "json \<Rightarrow> string option" where
  "code_text v = (let x = (if is_obj v then jget v ''id'' else v) in if x = JNull then None else Some (py_str x))"

fun flag :: "json \<Rightarrow> bool" where
  "flag (JBool b) = b"
| "flag v = (py_lower (py_strip (py_str v)) \<in> {''true'', ''y'', ''yes'', ''1''})"

definition get_default :: "json \<Rightarrow> string \<Rightarrow> json \<Rightarrow> json" where
  "get_default v k d = (if has_key v k then jget v k else d)"

text \<open>The amount in the currency's precision; the \<open>quantize\<close> is outside the \<open>try\<close>.\<close>

definition amount_text :: "json \<Rightarrow> json \<Rightarrow> string \<Rightarrow> exn + string" where
  "amount_text amount precision what =
     (case (dec_of (py_str amount), column_int precision) of
        (Some (Fin neg c e), Some places) \<Rightarrow>
          if (neg \<and> c \<noteq> 0) \<or> \<not> (0 \<le> places \<and> places \<le> 6) then Inl (AccountingFactError (what @ '' has no valid amount''))
          else (case quantize (Fin neg c e) (nat places) of
                  Some (Fin n q x) \<Rightarrow> Inr (format_fixed n q (nat places))
                | _ \<Rightarrow> Inl (Exn ''InvalidOperation'' []))
      | _ \<Rightarrow> Inl (AccountingFactError (what @ '' has no valid amount'')))"

definition iso_code :: "json \<Rightarrow> string option" where
  "iso_code v = (case v of JStr s \<Rightarrow> if length s = 3 \<and> py_isupper s then Some s else None | _ \<Rightarrow> None)"

definition read_money :: "'w engine \<Rightarrow> json \<Rightarrow> json \<Rightarrow> string \<Rightarrow> ('w, exn, Money) op" where
  "read_money E amount currency_ref what =
     (case code_text currency_ref of
        None \<Rightarrow> raiseS (AccountingFactError (what @ '' has no currency''))
      | Some cid \<Rightarrow>
          if \<not> py_isdigit cid then raiseS (AccountingFactError (what @ '' has no currency''))
          else (case py_int cid of
              None \<Rightarrow> raiseS (Exn ''ValueError'' [])
            | Some n \<Rightarrow> bindS (get_record E ''C_Currency'' n) (\<lambda>currency.
                case iso_code (jget currency ''ISO_Code'') of
                  None \<Rightarrow> raiseS (AccountingFactError (what @ [CHR 0x27] @ ''s currency has no ISO code''))
                | Some ccy \<Rightarrow> bindS (liftS (amount_text amount (get_default currency ''StdPrecision'' (JInt 2)) what))
                    (\<lambda>a. returnS \<lparr>mo_amount = a, mo_currency = ccy\<rparr>))))"

definition completed_status :: "json \<Rightarrow> bool" where
  "completed_status v = (code_text v \<in> {Some ''CO'', Some ''CL''})"

definition read_invoice :: "'w engine \<Rightarrow> int \<Rightarrow> ('w, exn, InvoiceFacts) op" where
  "read_invoice E native_id =
     bindS (get_record E ''C_Invoice'' native_id) (\<lambda>rec.
     case jget rec ''DocumentNo'' of
       JStr number \<Rightarrow>
         if \<not> nonblank number \<or> 96 < length number then raiseS (AccountingFactError ''the invoice has no document number'')
         else bindS (read_money E (jget rec ''GrandTotal'') (jget rec ''C_Currency_ID'') ''the invoice'') (\<lambda>total.
           returnS \<lparr>if_number = number, if_total = total, if_completed = completed_status (jget rec ''DocStatus''),
             if_paid = flag (get_default rec ''IsPaid'' (JBool False))\<rparr>)
     | _ \<Rightarrow> raiseS (AccountingFactError ''the invoice has no document number''))"

definition read_payment :: "'w engine \<Rightarrow> int \<Rightarrow> ('w, exn, PaymentFacts) op" where
  "read_payment E native_id =
     bindS (get_record E ''C_Payment'' native_id) (\<lambda>rec.
     bindS (read_money E (jget rec ''PayAmt'') (jget rec ''C_Currency_ID'') ''the payment'') (\<lambda>amount.
     returnS \<lparr>pf_amount = amount, pf_completed = completed_status (jget rec ''DocStatus''),
       pf_fully_allocated = flag (get_default rec ''IsAllocated'' (JBool False))\<rparr>))"

section \<open>What the facts establish\<close>

definition invoice_status :: "InvoiceFacts \<Rightarrow> bool \<Rightarrow> exn + string" where
  "invoice_status facts allocated =
     (if \<not> if_completed facts then Inl (AccountingFactError ''the invoice is not completed in the engine'')
      else Inr (if if_paid facts then ''paid'' else if allocated then ''partially_paid'' else ''posted''))"

definition payment_status :: "PaymentFacts \<Rightarrow> bool \<Rightarrow> exn + string" where
  "payment_status facts allocation_requested =
     (if \<not> pf_completed facts then Inl (AccountingFactError ''the payment is not completed in the engine'')
      else Inr (if pf_fully_allocated facts then ''allocated''
                else if allocation_requested then ''partially_allocated'' else ''posted''))"

definition RANK :: "(string \<times> nat) list" where
  "RANK = [(''posted'', 0), (''partially_allocated'', 1), (''partially_paid'', 1), (''allocated'', 2), (''paid'', 2)]"

definition rank :: "string \<Rightarrow> nat" where
  "rank status = (case map_of RANK status of None \<Rightarrow> 0 | Some n \<Rightarrow> n)"

section \<open>The revisions of a document\<close>

record outcome_row =
  do_tenant :: string
  do_type :: string
  do_document :: string
  do_revision :: nat
  do_status :: string
  do_detail :: json
  do_first_seen :: instant
  do_updated :: instant

record Advanced =
  ad_revision :: nat
  ad_first_seen :: instant
  ad_changed :: bool

definition of_document :: "string \<Rightarrow> string \<Rightarrow> string \<Rightarrow> outcome_row \<Rightarrow> bool" where
  "of_document tenant ty doc r = (do_tenant r = tenant \<and> do_type r = ty \<and> do_document r = doc)"

definition advance_row :: "string \<Rightarrow> json \<Rightarrow> instant \<Rightarrow> outcome_row \<Rightarrow> outcome_row" where
  "advance_row status detail now r =
     r\<lparr>do_revision := do_revision r + 1, do_status := status, do_detail := detail, do_updated := now\<rparr>"

definition advance_existing ::
  "string \<Rightarrow> string \<Rightarrow> string \<Rightarrow> string \<Rightarrow> json \<Rightarrow> instant \<Rightarrow> outcome_row \<Rightarrow> outcome_row list \<Rightarrow> Advanced \<times> outcome_row list" where
  "advance_existing tenant ty doc status detail now r rows =
     (if rank status < rank (do_status r) \<or> (do_status r = status \<and> do_detail r = detail)
      then (\<lparr>ad_revision = do_revision r, ad_first_seen = do_first_seen r, ad_changed = False\<rparr>, rows)
      else (\<lparr>ad_revision = do_revision r + 1, ad_first_seen = do_first_seen r, ad_changed = True\<rparr>,
            update_where (of_document tenant ty doc) (advance_row status detail now) rows))"

text \<open>
  \<open>advance\<close>. \<open>raced\<close> is a row another session committed for the document between the \<open>SELECT\<close> and the
  \<open>INSERT ... ON CONFLICT DO NOTHING\<close>, if there was one.
\<close>

definition advance ::
  "string \<Rightarrow> string \<Rightarrow> string \<Rightarrow> string \<Rightarrow> json \<Rightarrow> instant \<Rightarrow> outcome_row option
     \<Rightarrow> (outcome_row list, exn, Advanced) op" where
  "advance tenant ty doc status detail now raced rows =
     (case select_one (of_document tenant ty doc) rows of
        Some r \<Rightarrow> (case advance_existing tenant ty doc status detail now r rows of (a, rows') \<Rightarrow> (Inr a, rows'))
      | None \<Rightarrow>
          if ty \<notin> {''invoice'', ''payment'', ''business_partner'', ''warehouse''} then (Inl check_violation, rows)
          else (let rows1 = rows @ (case raced of None \<Rightarrow> [] | Some r \<Rightarrow> [r]) in
            (case select_one (of_document tenant ty doc) rows1 of
               None \<Rightarrow> (Inr \<lparr>ad_revision = 1, ad_first_seen = now, ad_changed = True\<rparr>,
                 rows1 @ [\<lparr>do_tenant = tenant, do_type = ty, do_document = doc, do_revision = 1, do_status = status,
                   do_detail = detail, do_first_seen = now, do_updated = now\<rparr>])
             | Some r \<Rightarrow> (case advance_existing tenant ty doc status detail now r rows1 of (a, rows') \<Rightarrow> (Inr a, rows')))))"

section \<open>The events\<close>

definition INVOICE_EVENT :: string where "INVOICE_EVENT = ''com.baobab-platform.erp.invoice.changed.v1''"
definition PAYMENT_EVENT :: string where "PAYMENT_EVENT = ''com.baobab-platform.erp.payment.accounting-changed.v1''"
definition OUTCOME_NAMESPACE :: nat where "OUTCOME_NAMESPACE = 0x0a6e1d528f4b5e079c1a7b3d2e9f4a60"

definition stamp_text :: "pylib \<Rightarrow> instant \<Rightarrow> string" where
  "stamp_text L t = strftime_z L (t - t mod 1000000)"

definition outcome_correlation :: "pylib \<Rightarrow> string \<Rightarrow> string \<Rightarrow> string option \<Rightarrow> string" where
  "outcome_correlation L tenant doc supplied =
     uuid_or supplied (uuid5 L OUTCOME_NAMESPACE (''correlation|'' @ tenant @ ''|'' @ doc))"

definition invoice_changed_event ::
  "pylib \<Rightarrow> nat \<Rightarrow> string \<Rightarrow> string \<Rightarrow> string \<Rightarrow> string \<Rightarrow> InvoiceFacts \<Rightarrow> string \<Rightarrow> instant \<Rightarrow> nat \<Rightarrow> instant \<Rightarrow> string option
     \<Rightarrow> event_error + cloud_event" where
  "invoice_changed_event L fresh tenant entity invoice og facts status issued revision now correlation =
     bindE (new_event L fresh INVOICE_EVENT (''invoice:'' @ invoice) (outcome_correlation L tenant og correlation)
       (JObj [(''legal_entity_id'', JStr entity), (''invoice_id'', JStr invoice), (''invoice_number'', JStr (if_number facts)),
         (''commerce_order_id'', JStr og), (''status'', JStr status), (''total'', money_contract (if_total facts)),
         (''issued_at'', JStr (stamp_text L issued)), (''revision'', JInt (int revision))])
       (Some tenant) JNull (JStr (''erp-invoice-'' @ invoice @ ''-r'' @ show_nat revision)) JNull now)
     (\<lambda>e. Inr (e\<lparr>ev_id := JStr (show_uuid (uuid5 L OUTCOME_NAMESPACE
         (''invoice|'' @ tenant @ ''|'' @ invoice @ ''|'' @ show_nat revision)))\<rparr>))"

definition payment_accounting_event ::
  "pylib \<Rightarrow> nat \<Rightarrow> string \<Rightarrow> string \<Rightarrow> string \<Rightarrow> string \<Rightarrow> string option \<Rightarrow> PaymentFacts \<Rightarrow> string \<Rightarrow> nat \<Rightarrow> instant \<Rightarrow> string option
     \<Rightarrow> event_error + cloud_event" where
  "payment_accounting_event L fresh tenant entity capture erp_payment invoice facts status revision now correlation =
     bindE (new_event L fresh PAYMENT_EVENT (''payment:'' @ capture) (outcome_correlation L tenant capture correlation)
       (JObj ([(''legal_entity_id'', JStr entity), (''payment_capture_id'', JStr capture), (''erp_payment_id'', JStr erp_payment),
         (''status'', JStr status), (''amount'', money_contract (pf_amount facts)), (''accounted_at'', JStr (stamp_text L now)),
         (''revision'', JInt (int revision))] @ (case invoice of None \<Rightarrow> [] | Some i \<Rightarrow> [(''invoice_id'', JStr i)])))
       (Some tenant) JNull (JStr (''erp-payment-'' @ capture @ ''-r'' @ show_nat revision)) JNull now)
     (\<lambda>e. Inr (e\<lparr>ev_id := JStr (show_uuid (uuid5 L OUTCOME_NAMESPACE
         (''payment|'' @ tenant @ ''|'' @ capture @ ''|'' @ show_nat revision)))\<rparr>))"

section \<open>What the facts and revisions satisfy\<close>

lemma quantize_Some:
  assumes "quantize (Fin neg c e) p = Some d"
  shows "d = Fin neg (scaled c e p) (- int p)"
  using assms by (auto simp: Let_def split: if_splits)

text \<open>The rounded amount is within half a unit of the last place.\<close>

definition rounds_to :: "nat \<Rightarrow> int \<Rightarrow> nat \<Rightarrow> nat \<Rightarrow> bool" where
  "rounds_to c e q p \<longleftrightarrow> (if 0 \<le> e + int p then q = c * 10 ^ nat (e + int p)
     else \<bar>2 * int q * 10 ^ nat (- e - int p) - 2 * int c\<bar> \<le> 10 ^ nat (- e - int p))"

lemma rounds_to_scaled: "rounds_to c e (scaled c e p) p"
  using half_even_error [of c "nat (- e - int p)"] by (auto simp: rounds_to_def scaled_def abs_le_iff)

lemma amount_text_Inr:
  assumes "amount_text amount precision what = Inr a"
  obtains neg c e q p where "dec_of (py_str amount) = Some (Fin neg c e)" "neg \<longrightarrow> c = 0" "p \<le> 6"
    "column_int precision = Some (int p)" "dec_of a = Some (Fin neg q (- int p))" "rounds_to c e q p"
proof -
  from assms obtain neg c e places where d: "dec_of (py_str amount) = Some (Fin neg c e)" and pl: "column_int precision = Some places"
    and ok: "\<not> (neg \<and> c \<noteq> 0)" "0 \<le> places" "places \<le> 6"
    by (auto simp: amount_text_def split: option.splits dec.splits if_splits)
  with assms obtain q where "quantize (Fin neg c e) (nat places) = Some q"
    by (cases "quantize (Fin neg c e) (nat places)") (auto simp: amount_text_def simp del: quantize.simps)
  from this quantize_Some [OF this] assms d pl ok have "a = format_fixed neg (scaled c e (nat places)) (nat places)"
    by (auto simp: amount_text_def simp del: quantize.simps)
  with that [OF d, of "nat places" "scaled c e (nat places)"] ok pl show thesis
    by (simp add: dec_of_format rounds_to_scaled)
qed

lemma read_money_Inr:
  assumes "read_money E amount currency_ref what w = (Inr m, w')"
  obtains cid n currency where "code_text currency_ref = Some cid" "py_isdigit cid" "py_int cid = Some n"
    "get_record E ''C_Currency'' n w = (Inr currency, w')" "jget currency ''ISO_Code'' = JStr (mo_currency m)"
    "length (mo_currency m) = 3" "py_isupper (mo_currency m)"
    "amount_text amount (get_default currency ''StdPrecision'' (JInt 2)) what = Inr (mo_amount m)"
  using assms by (auto simp: read_money_def bindS_Inr_iff iso_code_def split: option.splits if_splits json.splits)

definition outcome_key :: "outcome_row \<Rightarrow> string \<times> string \<times> string" where
  "outcome_key r = (do_tenant r, do_type r, do_document r)"

lemma advance_row_simps [simp]:
  "of_document tenant ty doc (advance_row s d t r) = of_document tenant ty doc r" "outcome_key (advance_row s d t r) = outcome_key r"
  "do_revision (advance_row s d t r) = do_revision r + 1" "do_status (advance_row s d t r) = s"
  "do_detail (advance_row s d t r) = d" "do_first_seen (advance_row s d t r) = do_first_seen r"
  by (simp_all add: advance_row_def of_document_def outcome_key_def)

lemma advance_existing_row:
  assumes "select_one (of_document tenant ty doc) rows = Some r"
    "advance_existing tenant ty doc status detail now r rows = (a, rows')"
  shows "\<exists>r'. select_one (of_document tenant ty doc) rows' = Some r' \<and> do_revision r' = ad_revision a
    \<and> do_first_seen r' = ad_first_seen a \<and> do_first_seen r' = do_first_seen r \<and> rank (do_status r) \<le> rank (do_status r')
    \<and> ad_revision a = do_revision r + (if ad_changed a then 1 else 0)
    \<and> (rank status < rank (do_status r') \<or> (do_status r' = status \<and> do_detail r' = detail))"
proof (cases "rank status < rank (do_status r) \<or> (do_status r = status \<and> do_detail r = detail)")
  case True
  with assms show ?thesis by (auto simp: advance_existing_def)
next
  case False
  then have a: "a = \<lparr>ad_revision = do_revision r + 1, ad_first_seen = do_first_seen r, ad_changed = True\<rparr>"
    and rows': "rows' = update_where (of_document tenant ty doc) (advance_row status detail now) rows"
    using assms(2) unfolding advance_existing_def if_not_P [OF False] by auto
  have "select_one (of_document tenant ty doc) rows' = Some (advance_row status detail now r)"
    unfolding rows' by (simp add: select_one_update_same assms(1))
  with False show ?thesis by (simp add: a not_less)
qed

lemma advance_row_after:
  assumes "advance tenant ty doc status detail now raced rows = (Inr a, rows')"
  shows "\<exists>r'. select_one (of_document tenant ty doc) rows' = Some r' \<and> do_revision r' = ad_revision a
    \<and> do_first_seen r' = ad_first_seen a \<and> (rank status < rank (do_status r') \<or> (do_status r' = status \<and> do_detail r' = detail))
    \<and> (\<forall>r. select_one (of_document tenant ty doc) rows = Some r \<longrightarrow> rank (do_status r) \<le> rank (do_status r')
         \<and> do_first_seen r' = do_first_seen r \<and> ad_revision a = do_revision r + (if ad_changed a then 1 else 0))"
proof (cases "select_one (of_document tenant ty doc) rows")
  case (Some r)
  with assms obtain b where "advance_existing tenant ty doc status detail now r rows = (a, rows')"
    by (auto simp: advance_def split: prod.splits)
  from advance_existing_row [OF Some this] Some show ?thesis by auto
next
  case None
  let ?rows1 = "rows @ (case raced of None \<Rightarrow> [] | Some r \<Rightarrow> [r])"
  show ?thesis
  proof (cases "select_one (of_document tenant ty doc) ?rows1")
    case (Some r)
    with None assms have "advance_existing tenant ty doc status detail now r ?rows1 = (a, rows')"
      by (auto simp: advance_def Let_def split: prod.splits if_splits)
    from advance_existing_row [OF Some this] None show ?thesis by auto
  next
    case none1: None
    with None assms show ?thesis
      by (auto simp: advance_def Let_def select_one_append of_document_def split: if_splits option.splits)
  qed
qed

lemma advance_again:
  assumes "advance tenant ty doc status detail now raced rows = (Inr a, rows')"
  shows "advance tenant ty doc status detail now' raced' rows'
    = (Inr \<lparr>ad_revision = ad_revision a, ad_first_seen = ad_first_seen a, ad_changed = False\<rparr>, rows')"
  using advance_row_after [OF assms] by (auto simp: advance_def advance_existing_def)

section \<open>Properties\<close>

text \<open>C20: An amount read from the engine is announced without drift, in the precision of its own currency. When \<open>read_money\<close>
  returns, the currency reference is a number, the record read under it in \<open>C_Currency\<close> names the announced currency, a code of
  three characters in capitals, and the announced amount has exactly as many places as that record's \<open>StdPrecision\<close> says (2
  when it says nothing, never more than 6): read back, it is not negative, it is exactly the engine's amount when that has no more
  places, and otherwise within half a unit of the last place.\<close>

theorem money_exact:
  assumes "read_money E amount currency_ref what w = (Inr m, w')"
  shows "\<exists>cid n currency neg c e q p. code_text currency_ref = Some cid \<and> py_isdigit cid \<and> py_int cid = Some n
    \<and> get_record E ''C_Currency'' n w = (Inr currency, w') \<and> jget currency ''ISO_Code'' = JStr (mo_currency m)
    \<and> length (mo_currency m) = 3 \<and> py_isupper (mo_currency m)
    \<and> column_int (if has_key currency ''StdPrecision'' then jget currency ''StdPrecision'' else JInt 2) = Some (int p) \<and> p \<le> 6
    \<and> dec_of (py_str amount) = Some (Fin neg c e) \<and> dec_of (mo_amount m) = Some (Fin neg q (- int p))
    \<and> (neg \<longrightarrow> c = 0) \<and> rounds_to c e q p"
proof -
  from assms obtain cid n currency where r: "code_text currency_ref = Some cid" "py_isdigit cid" "py_int cid = Some n"
      "get_record E ''C_Currency'' n w = (Inr currency, w')" "jget currency ''ISO_Code'' = JStr (mo_currency m)"
      "length (mo_currency m) = 3" "py_isupper (mo_currency m)"
    and a: "amount_text amount (get_default currency ''StdPrecision'' (JInt 2)) what = Inr (mo_amount m)"
    by (rule read_money_Inr)
  from a obtain neg c e q p where "dec_of (py_str amount) = Some (Fin neg c e)" "neg \<longrightarrow> c = 0" "p \<le> 6"
      "column_int (get_default currency ''StdPrecision'' (JInt 2)) = Some (int p)" "dec_of (mo_amount m) = Some (Fin neg q (- int p))"
      "rounds_to c e q p" by (rule amount_text_Inr)
  with r show ?thesis unfolding get_default_def by blast
qed

definition sample_engine :: "unit engine" where
  "sample_engine = \<lparr>get_record = (\<lambda>table n. returnS (JObj [(''ISO_Code'', JStr ''KES''), (''StdPrecision'', JInt 1)])),
     query = (\<lambda>table conditions select. returnS []), create_record = (\<lambda>table fs. returnS 1),
     update_record = (\<lambda>table n fs. returnS ()), execute_process = (\<lambda>n fs. returnS (JObj []))\<rparr>"

lemma sample_amount: "amount_text (JStr ''0.25'') (JInt 1) ''the invoice'' = Inr ''0.2''"
proof -
  have "dec_of ''0.25'' = Some (Fin False 25 (- 2))" by code_simp
  moreover have "scaled 25 (- 2) 1 = 2" by (simp add: scaled_def half_even_def)
  moreover have "format_fixed False 2 1 = ''0.2''" by code_simp
  ultimately show ?thesis by (simp add: amount_text_def PRECISION_def)
qed

lemma sample_money: "read_money sample_engine (JStr ''0.25'') (JInt 5) ''the invoice'' ()
    = (Inr \<lparr>mo_amount = ''0.2'', mo_currency = ''KES''\<rparr>, ())"
proof -
  have "iso_code (JStr ''KES'') = Some ''KES''" "code_text (JInt 5) = Some ''5''" "py_isdigit ''5''" "py_int ''5'' = Some 5"
    by (code_simp, code_simp, code_simp, code_simp)
  then show ?thesis
    by (simp add: read_money_def sample_engine_def bindS_def get_default_def has_key_def jget_def sample_amount)
qed

theorem money_exact_witness: "\<exists>q. dec_of ''0.2'' = Some (Fin False q (- 1)) \<and> rounds_to 25 (- 2) q 1"
proof -
  have "dec_of (py_str (JStr ''0.25'')) = Some (Fin False 25 (- 2))" by code_simp
  moreover have "column_int (JInt 1) = Some 1" by code_simp
  moreover have "py_int ''5'' = Some 5" "code_text (JInt 5) = Some ''5''" by (code_simp, code_simp)
  ultimately show ?thesis using money_exact [OF sample_money]
    by (auto simp: sample_engine_def returnS_def has_key_def jget_def)
qed



end
