(* ===== verification/Finance_Guard.thy ===== *)
theory Finance_Guard
  imports Engine Py_Decimal
begin

text \<open>
  The policy-enforcement point in front of the engine's REST interface
  (\<open>modules/integration/native_finance_guard.py\<close>) and the execution markers it reads, which
  \<open>modules/order_to_cash/service.py\<close> keeps in context variables. The state is the process's context:
  the markers, the one-request permit and the permit's spent flag, the engine session's tokens, the
  requests that have left for the engine, and what lies outside the process.
\<close>

section \<open>The context of the process\<close>

type_synonym deployment = "string \<Rightarrow> string option"

type_synonym action_marker = "string \<times> string \<times> string \<times> string \<times> int \<times> int"
type_synonym invoice_marker = "string \<times> string \<times> string \<times> int \<times> int"

record http_request =
  rq_method :: string
  rq_path :: string
  rq_body :: "json option"
  rq_token :: "json option"

record session =
  se_token :: json
  se_refresh :: json
  se_user :: json
  se_expires :: int

definition no_session :: session where
  "no_session = \<lparr>se_token = JNull, se_refresh = JNull, se_user = JNull, se_expires = 0\<rparr>"

record 'n ctx =
  cx_action :: "action_marker option"
  cx_invoice :: "invoice_marker option"
  cx_request :: "(string \<times> string \<times> string) option"
  cx_spent :: bool
  cx_session :: session
  cx_sent :: "http_request list"
  cx_net :: 'n

record credentials =
  cred_user :: string
  cred_password :: string
  cred_client :: int
  cred_role :: int
  cred_org :: int
  cred_warehouse :: "int option"
  cred_language :: string

text \<open>The default values of the context variables.\<close>

definition fresh_context :: "'n \<Rightarrow> 'n ctx" where
  "fresh_context n = \<lparr>cx_action = None, cx_invoice = None, cx_request = None, cx_spent = True, cx_session = no_session,
     cx_sent = [], cx_net = n\<rparr>"

section \<open>Permits\<close>

definition setting :: "deployment \<Rightarrow> string \<Rightarrow> string" where
  "setting env name = (case env name of None \<Rightarrow> [] | Some v \<Rightarrow> v)"

definition protected_finance_runtime :: "deployment \<Rightarrow> bool" where
  "protected_finance_runtime env =
     (py_lower (setting env ''BAOBAB_DEPLOYMENT_ENV'') \<notin> {''development'', ''test''}
      \<or> py_lower (setting env ''BAOBAB_REQUIRE_LEGAL_ACTOR_GATE'') = ''true'')"

definition request_digest :: "pylib \<Rightarrow> json \<Rightarrow> string" where
  "request_digest L body = sha256_hex L (json_dumps L body)"

text \<open>The context managers: set, run, and put back what was there, whether the body returned or raised.\<close>

definition authorised_native_financial_request ::
  "pylib \<Rightarrow> string \<Rightarrow> string \<Rightarrow> fields \<Rightarrow> (('n, 'm) ctx_scheme, exn, 'a) op \<Rightarrow> (('n, 'm) ctx_scheme, exn, 'a) op" where
  "authorised_native_financial_request L method path body m s =
     (case m (s\<lparr>cx_request := Some (py_upper method, path, request_digest L (JObj body))\<rparr>) of
        (r, s') \<Rightarrow> (r, s'\<lparr>cx_request := cx_request s\<rparr>))"

definition fresh_native_financial_operation :: "(('n, 'm) ctx_scheme, exn, 'a) op \<Rightarrow> (('n, 'm) ctx_scheme, exn, 'a) op" where
  "fresh_native_financial_operation m s =
     (case m (s\<lparr>cx_spent := False\<rparr>) of (r, s') \<Rightarrow> (r, s'\<lparr>cx_spent := cx_spent s\<rparr>))"

section \<open>The tables\<close>

definition FINANCE_TABLES :: "string list" where
  "FINANCE_TABLES = [''C_ORDER'', ''C_ORDERLINE'', ''M_INOUT'', ''M_INOUTLINE'', ''C_INVOICE'', ''C_INVOICELINE'',
     ''C_PAYMENT'', ''C_PAYMENTALLOCATE'', ''C_ALLOCATIONHDR'', ''C_ALLOCATIONLINE'', ''FACT_ACCT'', ''GL_JOURNAL'',
     ''GL_JOURNALLINE'', ''C_BANKSTATEMENT'', ''C_BANKSTATEMENTLINE'', ''C_CASH'', ''C_CASHLINE'', ''C_ACCTSCHEMA'',
     ''C_PERIOD'', ''C_YEAR'', ''C_CALENDAR'', ''C_CONVERSION_RATE'', ''C_TAX'', ''C_TAXCATEGORY'']"

definition CREATION_ACTIONS :: "(string \<times> string) list" where
  "CREATION_ACTIONS = [(''C_ORDER'', ''create_sales_order''), (''M_INOUT'', ''create_shipment''),
     (''C_INVOICE'', ''create_customer_invoice''), (''C_PAYMENT'', ''create_payment'')]"

definition PROCESS_ID_ENV :: "(string \<times> string) list" where
  "PROCESS_ID_ENV =
    [(''complete_sales_order'', ''IDEMPIERE_PROCESS_COMPLETE_SALES_ORDER''),
     (''complete_shipment'', ''IDEMPIERE_PROCESS_COMPLETE_SHIPMENT''),
     (''post_customer_invoice'', ''IDEMPIERE_PROCESS_POST_CUSTOMER_INVOICE''),
     (''complete_payment'', ''IDEMPIERE_PROCESS_COMPLETE_PAYMENT''),
     (''allocate_payment'', ''IDEMPIERE_PROCESS_ALLOCATE_PAYMENT'')]"

definition COMPLETE_ACTIONS :: "(string \<times> string) list" where
  "COMPLETE_ACTIONS = [(''C_Order_ID'', ''complete_sales_order''), (''M_InOut_ID'', ''complete_shipment''),
     (''C_Invoice_ID'', ''post_customer_invoice''), (''C_Payment_ID'', ''complete_payment'')]"

section \<open>What a request needs\<close>

definition denied :: exn where
  "denied = Exn ''NativeFinancialMutationDenied''
     ''native finance action blocked: scoped ERP legal actor and verified company readiness required''"

definition company_bound :: "string \<Rightarrow> string \<Rightarrow> int \<Rightarrow> int \<Rightarrow> credentials \<Rightarrow> bool" where
  "company_bound tenant entity client org c =
     (client = cred_client c \<and> org = cred_org c \<and> tenant \<noteq> [] \<and> entity \<noteq> [])"

fun action_bound :: "action_marker option \<Rightarrow> string \<Rightarrow> credentials \<Rightarrow> bool" where
  "action_bound None action c = False"
| "action_bound (Some (tenant, entity, a, ref, client, org)) action c = (company_bound tenant entity client org c \<and> a = action)"

fun invoice_bound :: "invoice_marker option \<Rightarrow> credentials \<Rightarrow> bool" where
  "invoice_bound None c = False"
| "invoice_bound (Some (tenant, entity, invoice, client, org)) c = company_bound tenant entity client org c"

fun marker_reference :: "action_marker option \<Rightarrow> string" where
  "marker_reference None = []"
| "marker_reference (Some (tenant, entity, a, ref, client, org)) = ref"

fun valid_record_id :: "json \<Rightarrow> bool" where
  "valid_record_id (JInt i) = (0 < i)"
| "valid_record_id _ = False"

text \<open>\<open>v == n\<close> for a value that is not a \<open>bool\<close>\<close>

fun equals_int :: "json \<Rightarrow> int \<Rightarrow> bool" where
  "equals_int (JInt i) n = (i = n)"
| "equals_int (JFloat s) n = (case dec_of s of
     Some (Fin neg c e) \<Rightarrow> (if neg then - int c else int c) * 10 ^ nat e = n * 10 ^ nat (- e) | _ \<Rightarrow> False)"
| "equals_int _ n = False"

text \<open>
  \<open>urlsplit\<close> of the paths the client builds, which begin with a single slash: the path, the query and the
  fragment, with the characters \<open>urlsplit\<close> removes removed.
\<close>

definition split_target :: "string \<Rightarrow> string \<times> string \<times> string" where
  "split_target url =
     (let u = filter (\<lambda>c. code c \<notin> {9, 10, 13}) url;
          a = takeWhile (\<lambda>c. c \<noteq> CHR ''#'') u;
          p = takeWhile (\<lambda>c. c \<noteq> CHR ''?'') a in
      (p, drop (Suc (length p)) a, drop (Suc (length a)) u))"

definition path_parts :: "string \<Rightarrow> string list" where
  "path_parts url = split_on (CHR ''/'') (strip_chars ''/'' (fst (split_target url)))"

text \<open>\<open>s.isdigit()\<close> and \<open>int(s) > 0\<close>; \<open>int\<close> raises on a superscript, which \<open>isdigit\<close> accepts.\<close>

definition positive_number :: "string \<Rightarrow> exn + int" where
  "positive_number s =
     (if \<not> py_isdigit s then Inl denied
      else bindE (of_option (Exn ''ValueError'' []) (py_int s)) (\<lambda>i. if i \<le> 0 then Inl denied else Inr i))"

definition RESERVED_FIELDS :: "string list" where
  "RESERVED_FIELDS = [''DOCSTATUS'', ''DOCACTION'', ''POSTED'', ''PROCESSED'']"

definition company_field_ok :: "fields \<Rightarrow> string \<Rightarrow> int \<Rightarrow> bool" where
  "company_field_ok data k expected = (has_key (JObj data) k \<longrightarrow> equals_int (jget (JObj data) k) expected)"

definition authorise_model ::
  "credentials \<Rightarrow> action_marker option \<Rightarrow> string \<Rightarrow> string list \<Rightarrow> fields \<Rightarrow> exn + unit" where
  "authorise_model c native method parts data =
     (case parts of
        _ # table # rest \<Rightarrow>
          (let t = py_upper table in
           if t \<notin> set FINANCE_TABLES \<or> method \<noteq> ''POST'' \<or> rest \<noteq> [] then Inl denied
           else (case map_of CREATION_ACTIONS t of
               None \<Rightarrow> Inl denied
             | Some action \<Rightarrow>
                 if \<not> action_bound native action c
                   \<or> (t = ''C_ORDER'' \<and> jget (JObj data) ''POReference'' \<noteq> JStr (marker_reference native))
                   \<or> list_ex (\<lambda>k. py_upper k \<in> set RESERVED_FIELDS) (map fst data)
                   \<or> \<not> company_field_ok data ''AD_Client_ID'' (cred_client c)
                   \<or> \<not> company_field_ok data ''AD_Org_ID'' (cred_org c)
                 then Inl denied else Inr ()))
      | _ \<Rightarrow> Inl denied)"

text \<open>The action a process call stands for, and the keys its payload must have.\<close>

definition process_action :: "fields \<Rightarrow> exn + (string \<times> string set)" where
  "process_action data =
     (let present = filter (has_key (JObj data)) (map fst COMPLETE_ACTIONS) in
      if present = [] \<or> list_ex (\<lambda>k. \<not> valid_record_id (jget (JObj data) k)) present then Inl denied
      else if set present = {''C_Invoice_ID'', ''C_Payment_ID''}
      then (if has_key (JObj data) ''DocAction'' then Inl denied
            else (case jget (JObj data) ''Amount'' of
                JStr _ \<Rightarrow> Inr (''allocate_payment'', {''C_Payment_ID'', ''C_Invoice_ID'', ''Amount''})
              | JInt _ \<Rightarrow> Inr (''allocate_payment'', {''C_Payment_ID'', ''C_Invoice_ID'', ''Amount''})
              | JBool _ \<Rightarrow> Inr (''allocate_payment'', {''C_Payment_ID'', ''C_Invoice_ID'', ''Amount''})
              | _ \<Rightarrow> Inl denied))
      else (case present of
          [k] \<Rightarrow> if jget (JObj data) ''DocAction'' \<noteq> JStr ''CO'' then Inl denied
                 else Inr (the_default [] (map_of COMPLETE_ACTIONS k), {k, ''DocAction''})
        | _ \<Rightarrow> Inl denied))"

definition authorise_process ::
  "deployment \<Rightarrow> credentials \<Rightarrow> action_marker option \<Rightarrow> invoice_marker option \<Rightarrow> string \<Rightarrow> string list \<Rightarrow> fields
     \<Rightarrow> exn + unit" where
  "authorise_process env c native invoice method parts data =
     (if method \<noteq> ''POST'' \<or> length parts \<noteq> 2 then Inl denied
      else bindE (positive_number (parts ! 1)) (\<lambda>pid.
        bindE (process_action data) (\<lambda>(action, keys).
        bindE (positive_number (setting env (the_default [] (map_of PROCESS_ID_ENV action)))) (\<lambda>configured.
        if configured \<noteq> pid \<or> set (map fst data) \<noteq> keys
          \<or> (if action = ''post_customer_invoice'' then \<not> invoice_bound invoice c else \<not> action_bound native action c)
        then Inl denied else Inr ()))))"

text \<open>\<open>Inr False\<close>: the request is not one the guard looks at.\<close>

definition authorise ::
  "deployment \<Rightarrow> credentials \<Rightarrow> action_marker option \<Rightarrow> invoice_marker option \<Rightarrow> string \<Rightarrow> string \<Rightarrow> fields \<Rightarrow> exn + bool" where
  "authorise env c native invoice method path data =
     (if \<not> protected_finance_runtime env \<or> py_upper method \<notin> {''POST'', ''PUT'', ''PATCH'', ''DELETE''} then Inr False
      else (let (p, query, fragment) = split_target path; parts = path_parts path in
        if hd parts \<notin> {''models'', ''processes''} then Inr False
        else if query \<noteq> [] \<or> fragment \<noteq> [] \<or> (p \<noteq> [] \<and> last p = CHR ''/'') \<or> CHR ''%'' \<in> set p then Inl denied
        else bindE (if hd parts = ''models'' then authorise_model c native method parts data
                    else authorise_process env c native invoice method parts data) (\<lambda>_. Inr True)))"

section \<open>The guard\<close>

definition require_exact_request :: "pylib \<Rightarrow> string \<Rightarrow> string \<Rightarrow> fields \<Rightarrow> bool \<Rightarrow> (('n, 'm) ctx_scheme, exn, unit) op" where
  "require_exact_request L method path data consume s =
     (if cx_request s \<noteq> Some (py_upper method, path, request_digest L (JObj data)) \<or> cx_spent s then (Inl denied, s)
      else (Inr (), if consume then s\<lparr>cx_request := None, cx_spent := True\<rparr> else s))"

definition require_native_financial_authority ::
  "pylib \<Rightarrow> deployment \<Rightarrow> credentials \<Rightarrow> string \<Rightarrow> string \<Rightarrow> fields option \<Rightarrow> bool \<Rightarrow> (('n, 'm) ctx_scheme, exn, unit) op" where
  "require_native_financial_authority L env c method path body consume s =
     (let data = (case body of None \<Rightarrow> [] | Some b \<Rightarrow> b) in
      case authorise env c (cx_action s) (cx_invoice s) method path data of
        Inl e \<Rightarrow> (Inl e, s)
      | Inr False \<Rightarrow> (Inr (), s)
      | Inr True \<Rightarrow> require_exact_request L method path data consume s)"

end
