(* ===== verification/Rest_Client.thy ===== *)
theory Rest_Client
  imports Finance_Guard Rx
begin

text \<open>
  The engine's REST client (\<open>modules/integration/idempiere_client.py\<close>): filters, paging, the token of the
  session, and the two points where a request passes the guard of \<open>Finance_Guard\<close>. Every request that
  leaves for the engine is logged in the context, newest first.
\<close>

section \<open>Sending\<close>

text \<open>What \<open>urlopen\<close> does: a body, an HTTP error with its body, a \<open>URLError\<close>, or another exception by its class.\<close>

datatype http_result = Replied string | Refused int string | Unreachable | Broken string

record 'n peers =
  send :: "http_request \<Rightarrow> 'n \<Rightarrow> http_result \<times> 'n"
  monotonic :: "'n \<Rightarrow> int \<times> 'n"

definition read_error_body :: "pylib \<Rightarrow> string \<Rightarrow> json" where
  "read_error_body L body = the_default (JObj []) (json_loads L body)"

definition auth_error :: exn where
  "auth_error = Exn ''IdempiereAuthenticationError'' []"

fun http_reply :: "pylib \<Rightarrow> http_result \<Rightarrow> exn + json" where
  "http_reply L (Replied raw) = (if raw = [] then Inr (JObj []) else of_option (Exn ''JSONDecodeError'' []) (json_loads L raw))"
| "http_reply L (Refused status body) =
     (if \<not> is_obj (read_error_body L body) then Inl (Exn ''AttributeError'' [])
      else if status = 401 then Inl auth_error else Inl (ApiError status))"
| "http_reply L Unreachable = Inl (Exn ''IdempiereClientError'' ''Could not reach the engine'')"
| "http_reply L (Broken cls) = Inl (Exn cls [])"

definition send_request :: "pylib \<Rightarrow> 'n peers \<Rightarrow> http_request \<Rightarrow> (('n, 'm) ctx_scheme, exn, json) op" where
  "send_request L P rq s =
     (case send P rq (cx_net s) of
        (res, n) \<Rightarrow> (http_reply L res, s\<lparr>cx_sent := rq # cx_sent s, cx_net := n\<rparr>))"

section \<open>The session\<close>

text \<open>\<open>except IdempiereApiError\<close> around the authentication calls.\<close>

fun as_auth_error :: "exn \<Rightarrow> exn" where
  "as_auth_error (ApiError status) = auth_error"
| "as_auth_error e = e"

definition auth_call :: "pylib \<Rightarrow> 'n peers \<Rightarrow> string \<Rightarrow> json \<Rightarrow> (('n, 'm) ctx_scheme, exn, json) op" where
  "auth_call L P path body =
     rethrow as_auth_error (send_request L P \<lparr>rq_method = ''POST'', rq_path = path, rq_body = Some body, rq_token = None\<rparr>)"

definition TOKEN_LIFETIME_SECONDS :: int where "TOKEN_LIFETIME_SECONDS = 3600"
definition REFRESH_SAFETY_MARGIN_SECONDS :: int where "REFRESH_SAFETY_MARGIN_SECONDS = 60"

definition on_net :: "('n \<Rightarrow> 'a \<times> 'n) \<Rightarrow> (('n, 'm) ctx_scheme, exn, 'a) op" where
  "on_net f s = (case f (cx_net s) of (a, n) \<Rightarrow> (Inr a, s\<lparr>cx_net := n\<rparr>))"

text \<open>\<open>v[k]\<close>\<close>

definition subscript :: "json \<Rightarrow> string \<Rightarrow> exn + json" where
  "subscript v k = (if \<not> is_obj v then Inl (Exn ''TypeError'' []) else of_option (Exn ''KeyError'' k) (map_of (members v) k))"

definition set_session :: "(session \<Rightarrow> session) \<Rightarrow> ('n, 'm) ctx_scheme \<Rightarrow> ('n, 'm) ctx_scheme" where
  "set_session f s = s\<lparr>cx_session := f (cx_session s)\<rparr>"

definition store_token_response :: "'n peers \<Rightarrow> json \<Rightarrow> (('n, 'm) ctx_scheme, exn, json) op" where
  "store_token_response P response =
     bindS (liftS (subscript response ''token'')) (\<lambda>token.
     bindS (writeS (set_session (\<lambda>se. se\<lparr>se_token := token,
        se_refresh := (if has_key response ''refresh_token'' then jget response ''refresh_token'' else se_refresh se),
        se_user := (if has_key response ''userId'' then jget response ''userId'' else se_user se)\<rparr>))) (\<lambda>_.
     bindS (on_net (monotonic P)) (\<lambda>t.
     bindS (writeS (set_session (\<lambda>se. se\<lparr>se_expires := t + TOKEN_LIFETIME_SECONDS - REFRESH_SAFETY_MARGIN_SECONDS\<rparr>))) (\<lambda>_.
     returnS token))))"

definition login_body :: "credentials \<Rightarrow> json" where
  "login_body c = JObj [(''userName'', JStr (cred_user c)), (''password'', JStr (cred_password c)),
     (''parameters'', JObj ([(''clientId'', JInt (cred_client c)), (''roleId'', JInt (cred_role c)),
        (''organizationId'', JInt (cred_org c)), (''language'', JStr (cred_language c))]
        @ (case cred_warehouse c of None \<Rightarrow> [] | Some w \<Rightarrow> [(''warehouseId'', JInt w)])))]"

definition authenticate :: "pylib \<Rightarrow> 'n peers \<Rightarrow> credentials \<Rightarrow> (('n, 'm) ctx_scheme, exn, json) op" where
  "authenticate L P c = bindS (auth_call L P ''/auth/tokens'' (login_body c)) (store_token_response P)"

definition refresh :: "pylib \<Rightarrow> 'n peers \<Rightarrow> credentials \<Rightarrow> (('n, 'm) ctx_scheme, exn, json) op" where
  "refresh L P c =
     bindS (readS cx_session) (\<lambda>se.
     bindS (auth_call L P ''/auth/refresh''
       (JObj [(''refresh_token'', se_refresh se), (''clientId'', JInt (cred_client c)), (''userId'', se_user se)]))
     (store_token_response P))"

text \<open>\<open>try: m except IdempiereAuthenticationError: n\<close>\<close>

definition on_auth_error :: "(('n, 'm) ctx_scheme, exn, 'a) op \<Rightarrow> (('n, 'm) ctx_scheme, exn, 'a) op \<Rightarrow> (('n, 'm) ctx_scheme, exn, 'a) op" where
  "on_auth_error m n s =
     (case m s of
        (Inl e, s') \<Rightarrow> if exn_class e = ''IdempiereAuthenticationError'' then n s' else (Inl e, s')
      | (Inr a, s') \<Rightarrow> (Inr a, s'))"

definition ensure_token :: "pylib \<Rightarrow> 'n peers \<Rightarrow> credentials \<Rightarrow> (('n, 'm) ctx_scheme, exn, json) op" where
  "ensure_token L P c =
     bindS (readS cx_session) (\<lambda>se.
     bindS (if se_token se = JNull then returnS False
            else bindS (on_net (monotonic P)) (\<lambda>t. returnS (t < se_expires se))) (\<lambda>fresh.
     if fresh then returnS (se_token se)
     else if se_refresh se \<noteq> JNull then on_auth_error (refresh L P c) (authenticate L P c)
     else authenticate L P c))"

section \<open>Calls\<close>

definition raw_request ::
  "pylib \<Rightarrow> deployment \<Rightarrow> 'n peers \<Rightarrow> credentials \<Rightarrow> string \<Rightarrow> string \<Rightarrow> fields option \<Rightarrow> json \<Rightarrow> (('n, 'm) ctx_scheme, exn, json) op" where
  "raw_request L env P c method path body token =
     bindS (require_native_financial_authority L env c method path body True) (\<lambda>_.
     send_request L P \<lparr>rq_method = method, rq_path = path, rq_body = map_option JObj body, rq_token = Some token\<rparr>)"

definition rest_call ::
  "pylib \<Rightarrow> deployment \<Rightarrow> 'n peers \<Rightarrow> credentials \<Rightarrow> string \<Rightarrow> string \<Rightarrow> fields option \<Rightarrow> (('n, 'm) ctx_scheme, exn, json) op" where
  "rest_call L env P c method path body =
     bindS (require_native_financial_authority L env c method path body False) (\<lambda>_.
     bindS (ensure_token L P c) (\<lambda>token.
     on_auth_error (raw_request L env P c method path body token)
       (bindS (authenticate L P c) (\<lambda>token'. raw_request L env P c method path body token'))))"

section \<open>Filters and paging\<close>

definition column_rx :: rx where
  "column_rx = Seq (Cls [(CHR ''A'', CHR ''Z''), (CHR ''a'', CHR ''z'')])
     (Star (Cls [(CHR ''A'', CHR ''Z''), (CHR ''a'', CHR ''z''), (CHR ''0'', CHR ''9''), (CHR ''_'', CHR ''_'')]))"

definition quote_text :: "string \<Rightarrow> string" where
  "quote_text v = [CHR 0x27] @ concat (map (\<lambda>c. if c = CHR 0x27 then [c, c] else [c]) v) @ [CHR 0x27]"

fun render_value :: "json \<Rightarrow> exn + string" where
  "render_value (JBool b) = Inr (if b then ''true'' else ''false'')"
| "render_value (JInt i) = Inr (show_int i)"
| "render_value (JStr v) =
     (if list_ex (\<lambda>c. code c < 32) v then Inl (Exn ''ValueError'' ''control characters are not allowed in a filter value'')
      else Inr (quote_text v))"
| "render_value _ = Inl (Exn ''TypeError'' ''unsupported filter value type'')"

definition render_condition :: "string \<times> json \<Rightarrow> exn + string" where
  "render_condition cond =
     (if \<not> fullmatch column_rx (fst cond) then Inl (Exn ''ValueError'' ''not a column name'')
      else bindE (render_value (snd cond)) (\<lambda>v. Inr (fst cond @ '' eq '' @ v)))"

definition build_filter :: "fields \<Rightarrow> exn + string" where
  "build_filter conditions = bindE (mapE render_condition conditions) (\<lambda>parts. Inr (join '' and '' parts))"

definition hex_upper :: "nat \<Rightarrow> char" where
  "hex_upper d = (if d < 10 then char_of (48 + d) else char_of (55 + d))"

definition percent :: "nat \<Rightarrow> string" where
  "percent b = [CHR ''%'', hex_upper (b div 16), hex_upper (b mod 16)]"

definition unreserved :: "char \<Rightarrow> bool" where
  "unreserved c = (let n = code c in (48 \<le> n \<and> n \<le> 57) \<or> (65 \<le> n \<and> n \<le> 90) \<or> (97 \<le> n \<and> n \<le> 122)
     \<or> n \<in> {95, 46, 45, 126})"

text \<open>\<open>urllib.parse.quote(v, safe="")\<close>, over the UTF-8 bytes of the text.\<close>

definition quote_char :: "char \<Rightarrow> string" where
  "quote_char c =
     (if unreserved c then [c]
      else if code c < 128 then percent (code c)
      else percent (192 + code c div 64) @ percent (128 + code c mod 64))"

definition url_quote :: "string \<Rightarrow> string" where
  "url_quote v = concat (map quote_char v)"

definition urlencode :: "(string \<times> string) list \<Rightarrow> string" where
  "urlencode params = join ''&'' (map (\<lambda>(k, v). url_quote k @ ''='' @ url_quote v) params)"

definition PAGE_SIZE :: nat where "PAGE_SIZE = 100"
definition MAX_RECORDS :: nat where "MAX_RECORDS = 5000"

definition page_path :: "string \<Rightarrow> string \<Rightarrow> string list \<Rightarrow> nat \<Rightarrow> string" where
  "page_path table flt select skip =
     ''/models/'' @ table @ ''?'' @ urlencode [(''$filter'', flt), (''$select'', join '','' select),
        (''$top'', show_nat PAGE_SIZE), (''$skip'', show_nat skip)]"

text \<open>\<open>isinstance(total, int)\<close> also holds of a \<open>bool\<close>.\<close>

fun row_count :: "json \<Rightarrow> int option" where
  "row_count (JInt i) = Some i"
| "row_count (JBool b) = Some (if b then 1 else 0)"
| "row_count _ = None"

definition page_records :: "json \<Rightarrow> exn + json list" where
  "page_records page =
     (if \<not> is_obj page then Inl (Exn ''AttributeError'' [])
      else (case jget page ''records'' of
          JArr rows \<Rightarrow> if list_all is_obj rows then Inr rows else Inl (Exn ''IdempiereClientError'' ''unexpected list response'')
        | _ \<Rightarrow> Inl (Exn ''IdempiereClientError'' ''unexpected list response'')))"

text \<open>The last page: shorter than a page, or the announced total is reached.\<close>

definition last_page :: "json \<Rightarrow> nat \<Rightarrow> nat \<Rightarrow> bool" where
  "last_page page batch sofar =
     (batch < PAGE_SIZE \<or> (case row_count (jget page ''row-count'') of None \<Rightarrow> False | Some n \<Rightarrow> n \<le> int sofar))"

text \<open>
  The \<open>while True\<close> loop of \<open>query\<close>; \<open>fetch\<close> is the call for the page after the given number of records. It
  ends: a page that is not the last brings at least \<open>PAGE_SIZE\<close> records, and more than \<open>MAX_RECORDS\<close> is an error.
\<close>

function query_pages :: "(nat \<Rightarrow> ('s, exn, json) op) \<Rightarrow> json list \<Rightarrow> ('s, exn, json list) op" where
  "query_pages fetch records s =
     (case fetch (length records) s of
        (Inl e, s') \<Rightarrow> (Inl e, s')
      | (Inr page, s') \<Rightarrow>
          (case page_records page of
             Inl e \<Rightarrow> (Inl e, s')
           | Inr batch \<Rightarrow>
               let records' = records @ batch in
               if MAX_RECORDS < length records'
               then (Inl (Exn ''IdempiereClientError'' ''query exceeds the record cap; refusing to truncate''), s')
               else if last_page page (length batch) (length records') then (Inr records', s')
               else query_pages fetch records' s'))"
  by pat_completeness auto

termination
  by (relation "measure (\<lambda>(fetch, records, s). Suc MAX_RECORDS - length records)")
    (auto simp: last_page_def PAGE_SIZE_def)

declare query_pages.simps [simp del]

definition rest_query ::
  "(string \<Rightarrow> ('s, exn, json) op) \<Rightarrow> string \<Rightarrow> fields \<Rightarrow> string list \<Rightarrow> ('s, exn, json list) op" where
  "rest_query get table conditions select =
     (if \<not> fullmatch column_rx table \<or> \<not> list_all (fullmatch column_rx) select
      then raiseS (Exn ''ValueError'' ''table and select must be plain AD names'')
      else query_pages (\<lambda>skip. case build_filter conditions of
          Inl e \<Rightarrow> raiseS e
        | Inr flt \<Rightarrow> get (page_path table flt select skip)) [])"

section \<open>The client\<close>

fun int_error :: "json \<Rightarrow> string" where
  "int_error (JStr _) = ''ValueError''"
| "int_error (JFloat s) = (case dec_of s of Some (Infinite _) \<Rightarrow> ''OverflowError'' | _ \<Rightarrow> ''ValueError'')"
| "int_error _ = ''TypeError''"

definition to_int :: "json \<Rightarrow> exn + int" where
  "to_int v = of_option (Exn (int_error v) []) (column_int v)"

definition rest_client :: "pylib \<Rightarrow> deployment \<Rightarrow> 'n peers \<Rightarrow> credentials \<Rightarrow> ('n, 'm) ctx_scheme engine" where
  "rest_client L env P c =
     \<lparr>get_record = (\<lambda>table i. rest_call L env P c ''GET'' (''/models/'' @ table @ ''/'' @ show_int i) None),
      query = rest_query (\<lambda>path. rest_call L env P c ''GET'' path None),
      create_record = (\<lambda>table data. bindS (rest_call L env P c ''POST'' (''/models/'' @ table) (Some data))
        (\<lambda>created. liftS (bindE (subscript created ''id'') to_int))),
      update_record = (\<lambda>table i data. bindS (rest_call L env P c ''PUT'' (''/models/'' @ table @ ''/'' @ show_int i) (Some data))
        (\<lambda>_. returnS ())),
      execute_process = (\<lambda>pid data. rest_call L env P c ''POST'' (''/processes/'' @ show_int pid) (Some data))\<rparr>"

text \<open>\<open>UnconfiguredIdempiereClient\<close>\<close>

definition unconfigured_client :: "'w engine" where
  "unconfigured_client =
     (let no = Exn ''IdempiereClientError'' ''No iDempiere client wired'' in
      \<lparr>get_record = (\<lambda>table i. raiseS no), query = (\<lambda>table conditions select. raiseS no),
       create_record = (\<lambda>table data. raiseS no), update_record = (\<lambda>table i data. raiseS no),
       execute_process = (\<lambda>pid data. raiseS no)\<rparr>)"

section \<open>What leaves for the engine\<close>

definition engine_write :: "http_request \<Rightarrow> bool" where
  "engine_write rq = (py_upper (rq_method rq) \<in> {''POST'', ''PUT'', ''PATCH'', ''DELETE''}
     \<and> hd (path_parts (rq_path rq)) \<in> {''models'', ''processes''})"

text \<open>The guard let the request through under the markers of the context.\<close>

definition permitted :: "deployment \<Rightarrow> credentials \<Rightarrow> ('n, 'm) ctx_scheme \<Rightarrow> http_request \<Rightarrow> bool" where
  "permitted env c s rq =
     (authorise env c (cx_action s) (cx_invoice s) (rq_method rq) (rq_path rq)
        (case rq_body rq of None \<Rightarrow> [] | Some b \<Rightarrow> members b) = Inr True)"

definition permits_left :: "('n, 'm) ctx_scheme \<Rightarrow> nat" where
  "permits_left s = (if cx_spent s then 0 else 1)"

text \<open>
  What a step may do in a protected runtime: the markers stay, every engine write it sends was permitted,
  and the writes it sends are paid for by the permit of the running operation.
\<close>

definition permit_step :: "deployment \<Rightarrow> credentials \<Rightarrow> ('n, 'm) ctx_scheme \<Rightarrow> ('n, 'm) ctx_scheme \<Rightarrow> bool" where
  "permit_step env c s s' \<longleftrightarrow> cx_action s' = cx_action s \<and> cx_invoice s' = cx_invoice s
     \<and> (\<exists>new. cx_sent s' = new @ cx_sent s \<and> (\<forall>rq \<in> set new. engine_write rq \<longrightarrow> permitted env c s rq)
          \<and> count_where engine_write new + permits_left s' \<le> permits_left s)"

lemma permit_step_refl: "reflp (permit_step env c)"
  by (rule reflpI) (simp add: permit_step_def)

lemma permit_step_trans: "transp (permit_step env c)"
proof (rule transpI)
  fix s s1 s2 :: "('a, 'b) ctx_scheme"
  assume a: "permit_step env c s s1" and b: "permit_step env c s1 s2"
  from a obtain new1 where n1: "cx_sent s1 = new1 @ cx_sent s" "\<forall>rq \<in> set new1. engine_write rq \<longrightarrow> permitted env c s rq"
      "count_where engine_write new1 + permits_left s1 \<le> permits_left s"
    and m1: "cx_action s1 = cx_action s" "cx_invoice s1 = cx_invoice s"
    by (auto simp: permit_step_def)
  from b obtain new2 where n2: "cx_sent s2 = new2 @ cx_sent s1" "\<forall>rq \<in> set new2. engine_write rq \<longrightarrow> permitted env c s1 rq"
      "count_where engine_write new2 + permits_left s2 \<le> permits_left s1"
    and m2: "cx_action s2 = cx_action s1" "cx_invoice s2 = cx_invoice s1"
    by (auto simp: permit_step_def)
  have "permitted env c s1 rq = permitted env c s rq" for rq by (simp add: permitted_def m1)
  with n1 n2 m1 m2 show "permit_step env c s s2"
    unfolding permit_step_def by (intro conjI exI [of _ "new2 @ new1"]) auto
qed

lemmas permit_within = within_stop [OF permit_step_refl] within_bindS [OF permit_step_trans] within_if
  within_case_option within_case_sum within_case_prod within_case_list

text \<open>A step that leaves the markers, the permit and the log alone.\<close>

lemma permit_step_quiet:
  assumes "\<And>s. cx_action (snd (m s)) = cx_action s \<and> cx_invoice (snd (m s)) = cx_invoice s
     \<and> cx_spent (snd (m s)) = cx_spent s \<and> cx_sent (snd (m s)) = cx_sent s"
  shows "within (permit_step env c) m"
  using assms by (simp add: within_def permit_step_def permits_left_def)

lemma on_net_within: "within (permit_step env c) (on_net f)"
  by (rule permit_step_quiet) (simp add: on_net_def split: prod.split)

lemma set_session_within: "within (permit_step env c) (writeS (set_session f))"
  by (rule permit_step_quiet) (simp add: set_session_def)

lemma rethrow_within: "within R m \<Longrightarrow> within R (rethrow h m)"
  by (auto simp: within_def rethrow_def split: prod.split sum.split) (metis snd_conv)+

lemma send_within:
  assumes "\<not> engine_write rq"
  shows "within (permit_step env c) (send_request L P rq)"
  using assms unfolding within_def permit_step_def
  by (auto simp: send_request_def permits_left_def split: prod.split)

lemma auth_paths: "hd (path_parts ''/auth/tokens'') = ''auth''" "hd (path_parts ''/auth/refresh'') = ''auth''"
  by code_simp+

lemma auth_call_within:
  assumes "path \<in> {''/auth/tokens'', ''/auth/refresh''}"
  shows "within (permit_step env c) (auth_call L P path body)"
  unfolding auth_call_def
  by (rule rethrow_within, rule send_within) (use assms in \<open>auto simp: engine_write_def auth_paths\<close>)

lemma store_token_within: "within (permit_step env c) (store_token_response P response)"
  unfolding store_token_response_def by (intro permit_within on_net_within set_session_within)

lemma authenticate_within: "within (permit_step env c) (authenticate L P cr)"
  unfolding authenticate_def by (intro permit_within auth_call_within store_token_within) auto

lemma on_auth_error_within:
  assumes "transp R" "within R m" "within R n"
  shows "within R (on_auth_error m n)"
  using assms unfolding within_def on_auth_error_def
  by (auto split: prod.split sum.split) (metis snd_conv transpE)+

lemma ensure_token_within: "within (permit_step env c) (ensure_token L P cr)"
  unfolding ensure_token_def refresh_def
  by (intro permit_within on_net_within on_auth_error_within permit_step_trans authenticate_within auth_call_within
      store_token_within) auto

lemma guard_check_within: "within (permit_step env c) (require_native_financial_authority L env c method path body False)"
  by (rule permit_step_quiet)
    (simp add: require_native_financial_authority_def require_exact_request_def Let_def split: sum.split bool.split)

lemma raw_request_within:
  assumes "protected_finance_runtime env"
  shows "within (permit_step env c) (raw_request L env P c method path body token)"
proof -
  let ?rq = "\<lparr>rq_method = method, rq_path = path, rq_body = map_option JObj body, rq_token = Some token\<rparr>"
  let ?data = "case body of None \<Rightarrow> [] | Some b \<Rightarrow> b"
  have "permit_step env c s (snd (raw_request L env P c method path body token s))" for s :: "('a, 'b) ctx_scheme"
  proof (cases "authorise env c (cx_action s) (cx_invoice s) method path ?data")
    case (Inl e)
    then show ?thesis
      by (simp add: raw_request_def require_native_financial_authority_def bindS_def reflpD [OF permit_step_refl])
  next
    case (Inr guarded)
    have body: "(case rq_body ?rq of None \<Rightarrow> [] | Some b \<Rightarrow> members b) = ?data" by (cases body) auto
    show ?thesis
    proof (cases guarded)
      case False
      with Inr assms have "\<not> engine_write ?rq"
        by (auto simp: engine_write_def authorise_def Let_def bindE_Inr_iff split: if_splits prod.splits)
      from send_within [OF this] have "permit_step env c s (snd (send_request L P ?rq s))" unfolding within_def by blast
      with False Inr show ?thesis by (simp add: raw_request_def require_native_financial_authority_def bindS_def)
    next
      case True
      with Inr body have ok: "permitted env c s ?rq" by (simp add: permitted_def)
      from True Inr ok show ?thesis
        by (auto simp: raw_request_def require_native_financial_authority_def require_exact_request_def bindS_def
            send_request_def permit_step_def permits_left_def permitted_def split: prod.split)
    qed
  qed
  then show ?thesis by (simp add: within_def)
qed

lemma rest_call_within:
  "protected_finance_runtime env \<Longrightarrow> within (permit_step env c) (rest_call L env P c method path body)"
  unfolding rest_call_def
  by (intro permit_within guard_check_within ensure_token_within on_auth_error_within permit_step_trans
      raw_request_within authenticate_within)

lemma query_pages_within:
  assumes "transp R" "\<And>k. within R (fetch k)"
  shows "R s (snd (query_pages fetch records s))"
  using assms(2)
proof (induction fetch records s rule: query_pages.induct)
  case (1 fetch records s)
  show ?case
  proof (cases "fetch (length records) s")
    case (Pair r s1)
    then have step: "R s s1" using 1(2) withinD by metis
    show ?thesis
    proof (cases "\<exists>page batch. r = Inr page \<and> page_records page = Inr batch
        \<and> length (records @ batch) \<le> MAX_RECORDS \<and> \<not> last_page page (length batch) (length (records @ batch))")
      case True
      then obtain page batch where p: "r = Inr page" "page_records page = Inr batch" "\<not> MAX_RECORDS < length (records @ batch)"
          "\<not> last_page page (length batch) (length (records @ batch))"
        by auto
      have "R s1 (snd (query_pages fetch (records @ batch) s1))"
        by (rule "1.IH") (use Pair p 1(2) in auto)
      with p Pair step assms(1) show ?thesis by (subst query_pages.simps) (auto elim: transpE)
    next
      case False
      with Pair step show ?thesis by (subst query_pages.simps) (auto simp: Let_def split: sum.split)
    qed
  qed
qed

lemma query_pages_stay:
  assumes a: "transp R" and b: "\<And>k. within R (fetch k)"
  shows "within R (query_pages fetch records)"
  unfolding within_def by (rule allI, rule query_pages_within [OF a b])

lemma rest_client_within:
  assumes "protected_finance_runtime env"
  shows "within (permit_step env c) (get_record (rest_client L env P c) table i)"
    "within (permit_step env c) (query (rest_client L env P c) table conditions select)"
    "within (permit_step env c) (create_record (rest_client L env P c) table data)"
    "within (permit_step env c) (update_record (rest_client L env P c) table i data)"
    "within (permit_step env c) (execute_process (rest_client L env P c) pid data)"
proof -
  note call = rest_call_within [OF assms]
  show "within (permit_step env c) (query (rest_client L env P c) table conditions select)"
  proof (cases "\<not> fullmatch column_rx table \<or> \<not> list_all (fullmatch column_rx) select")
    case True
    then show ?thesis by (simp add: rest_client_def rest_query_def permit_within)
  next
    case False
    then show ?thesis
      by (simp add: rest_client_def rest_query_def) (intro query_pages_stay permit_step_trans permit_within call)
  qed
qed (simp_all add: rest_client_def permit_within rest_call_within [OF assms])

lemma with_request_within:
  assumes "within (permit_step env c) m"
  shows "within (permit_step env c) (authorised_native_financial_request L method path body m)"
proof -
  have "permit_step env c s (snd (authorised_native_financial_request L method path body m s))" for s
  proof (cases "m (s\<lparr>cx_request := Some (py_upper method, path, request_digest L (JObj body))\<rparr>)")
    case (Pair r s')
    from withinD [OF assms this] Pair show ?thesis
      by (auto simp: authorised_native_financial_request_def permit_step_def permits_left_def permitted_def)
  qed
  then show ?thesis by (simp add: within_def)
qed

text \<open>Whatever extends the context (the connection, the clock) is not touched by the client.\<close>

definition frame :: "('n, 'm) ctx_scheme \<Rightarrow> ('n, 'm) ctx_scheme \<Rightarrow> bool" where
  "frame s s' \<longleftrightarrow> ctx.more s' = ctx.more s"

lemma frame_rules: "reflp frame" "transp frame"
  by (auto simp: frame_def intro: reflpI transpI)

lemmas frame_within = within_stop [OF frame_rules(1)] within_bindS [OF frame_rules(2)] within_if
  within_case_option within_case_sum within_case_prod within_case_list rethrow_within on_auth_error_within [OF frame_rules(2)]

lemma frame_parts:
  "within frame (on_net f)" "within frame (writeS (set_session g))" "within frame (send_request L P rq)"
  "within frame (require_native_financial_authority L env c method path body consume)"
  by (auto simp: within_def frame_def on_net_def set_session_def send_request_def require_native_financial_authority_def
      require_exact_request_def Let_def split: prod.split sum.split bool.split)

lemma frame_session:
  "within frame (store_token_response P response)" "within frame (authenticate L P cr)" "within frame (ensure_token L P cr)"
proof -
  show store: "within frame (store_token_response P response)" for response
    unfolding store_token_response_def by (intro frame_within frame_parts)
  show auth: "within frame (authenticate L P cr)"
    unfolding authenticate_def auth_call_def by (intro frame_within frame_parts store)
  show "within frame (ensure_token L P cr)"
    unfolding ensure_token_def refresh_def auth_call_def by (intro frame_within frame_parts store auth)
qed

lemma rest_call_frame: "within frame (rest_call L env P c method path body)"
  unfolding rest_call_def raw_request_def by (intro frame_within frame_parts frame_session)

lemma rest_client_frame:
  "within frame (get_record (rest_client L env P c) table i)" "within frame (query (rest_client L env P c) table conditions select)"
  "within frame (create_record (rest_client L env P c) table data)" "within frame (update_record (rest_client L env P c) table i data)"
  "within frame (execute_process (rest_client L env P c) pid data)"
  unfolding rest_client_def rest_query_def engine.simps
  by (intro frame_within rest_call_frame query_pages_stay frame_rules)+

section \<open>Any use of the client\<close>

datatype client_call =
    Get string int
  | Query string fields "string list"
  | Create string fields
  | Update string int fields
  | Execute int fields

fun perform :: "'w engine \<Rightarrow> client_call \<Rightarrow> 'w \<Rightarrow> 'w" where
  "perform E (Get table i) s = snd (get_record E table i s)"
| "perform E (Query table conditions select) s = snd (query E table conditions select s)"
| "perform E (Create table data) s = snd (create_record E table data s)"
| "perform E (Update table i data) s = snd (update_record E table i data s)"
| "perform E (Execute pid data) s = snd (execute_process E pid data s)"

lemma performs_permitted:
  assumes "protected_finance_runtime env"
  shows "permit_step env c s (fold (perform (rest_client L env P c)) calls s)"
proof (induction calls arbitrary: s)
  case Nil
  show ?case using permit_step_refl [THEN reflpD] by simp
next
  case (Cons call calls)
  have "permit_step env c s (perform (rest_client L env P c) call s)"
    by (cases call) (simp_all add: rest_client_within [OF assms, unfolded within_def, rule_format])
  then show ?case using Cons.IH permit_step_trans by (auto elim: transpE)
qed

lemma positive_number_Inr: "positive_number t = Inr n \<longleftrightarrow> py_isdigit t \<and> py_int t = Some n \<and> 0 < n"
  by (cases "py_int t") (auto simp: positive_number_def)

lemma authorise_model_Inr:
  assumes "authorise_model c native method parts data = Inr u"
  obtains table action where "tl parts = [table]" "method = ''POST''" "map_of CREATION_ACTIONS (py_upper table) = Some action"
    "action_bound native action c" "py_upper table = ''C_ORDER'' \<longrightarrow> jget (JObj data) ''POReference'' = JStr (marker_reference native)"
proof -
  from assms obtain x table rest where parts: "parts = x # table # rest"
    by (cases parts rule: remdups_adj.cases) (simp_all add: authorise_model_def)
  from assms obtain action where "map_of CREATION_ACTIONS (py_upper table) = Some action"
    unfolding authorise_model_def parts Let_def list.case by (cases "map_of CREATION_ACTIONS (py_upper table)") (auto split: if_splits)
  with assms that [of table action] show thesis
    unfolding authorise_model_def parts Let_def list.case by (simp split: if_splits)
qed

lemma authorise_process_Inr:
  assumes "authorise_process env c native invoice method parts data = Inr u"
  obtains n action keys where "method = ''POST''" "length parts = 2"
        "positive_number (parts ! 1) = Inr n" "process_action data = Inr (action, keys)"
        "positive_number (setting env (the_default [] (map_of PROCESS_ID_ENV action))) = Inr n" "set (map fst data) = keys"
        "if action = ''post_customer_invoice'' then invoice_bound invoice c else action_bound native action c"
proof -
  from assms have m: "method = ''POST''" "length parts = 2" by (auto simp: authorise_process_def split: if_splits)
  from assms obtain n action keys n' where "positive_number (parts ! 1) = Inr n" "process_action data = Inr (action, keys)"
      "positive_number (setting env (the_default [] (map_of PROCESS_ID_ENV action))) = Inr n'"
      "\<not> (n' \<noteq> n \<or> set (map fst data) \<noteq> keys
          \<or> (if action = ''post_customer_invoice'' then \<not> invoice_bound invoice c else \<not> action_bound native action c))"
    unfolding authorise_process_def using m by (auto simp: bindE_Inr_iff split: if_split_asm)
  with m that show thesis by (cases "action = ''post_customer_invoice''") simp_all
qed

text \<open>The two shapes of a permitted write.\<close>

definition creation_permit :: "credentials \<Rightarrow> action_marker option \<Rightarrow> string \<Rightarrow> fields \<Rightarrow> bool" where
  "creation_permit c native path data \<longleftrightarrow>
     (\<exists>table action. path_parts path = [''models'', table] \<and> map_of CREATION_ACTIONS (py_upper table) = Some action
        \<and> action_bound native action c
        \<and> (py_upper table = ''C_ORDER'' \<longrightarrow> jget (JObj data) ''POReference'' = JStr (marker_reference native)))"

definition process_permit ::
  "deployment \<Rightarrow> credentials \<Rightarrow> action_marker option \<Rightarrow> invoice_marker option \<Rightarrow> string \<Rightarrow> fields \<Rightarrow> bool" where
  "process_permit env c native invoice path data \<longleftrightarrow>
     (\<exists>t n action keys. path_parts path = [''processes'', t] \<and> py_int t = Some n \<and> 0 < n
        \<and> process_action data = Inr (action, keys) \<and> set (map fst data) = keys
        \<and> py_int (setting env (the_default [] (map_of PROCESS_ID_ENV action))) = Some n
        \<and> (if action = ''post_customer_invoice'' then invoice_bound invoice c else action_bound native action c))"

lemma authorise_True:
  assumes "authorise env c native invoice method path data = Inr True"
  shows "method = ''POST'' \<and> (creation_permit c native path data \<or> process_permit env c native invoice path data)"
proof -
  from assms have parts: "hd (path_parts path) \<in> {''models'', ''processes''}"
    and ok: "(if hd (path_parts path) = ''models'' then authorise_model c native method (path_parts path) data
              else authorise_process env c native invoice method (path_parts path) data) = Inr ()"
    by (auto simp: authorise_def Let_def bindE_Inr_iff split: if_splits prod.splits)
  show ?thesis
  proof (cases "hd (path_parts path) = ''models''")
    case True
    with ok have "authorise_model c native method (path_parts path) data = Inr ()" by simp
    then obtain table action where t: "tl (path_parts path) = [table]" "method = ''POST''"
        "map_of CREATION_ACTIONS (py_upper table) = Some action" "action_bound native action c"
        "py_upper table = ''C_ORDER'' \<longrightarrow> jget (JObj data) ''POReference'' = JStr (marker_reference native)"
      by (rule authorise_model_Inr)
    have "path_parts path = [''models'', table]" using t(1) True by (cases "path_parts path") simp_all
    with t(3-5) have "creation_permit c native path data" unfolding creation_permit_def by blast
    with t(2) show ?thesis by blast
  next
    case False
    with ok have "authorise_process env c native invoice method (path_parts path) data = Inr ()" by simp
    then obtain n action keys where t: "method = ''POST''" "length (path_parts path) = 2"
        "positive_number (path_parts path ! 1) = Inr n" "process_action data = Inr (action, keys)"
        "positive_number (setting env (the_default [] (map_of PROCESS_ID_ENV action))) = Inr n" "set (map fst data) = keys"
        "if action = ''post_customer_invoice'' then invoice_bound invoice c else action_bound native action c"
      by (rule authorise_process_Inr)
    have "path_parts path = [''processes'', path_parts path ! 1]"
      using t(2) parts False by (cases "path_parts path" rule: remdups_adj.cases) simp_all
    moreover have "py_int (path_parts path ! 1) = Some n" "0 < n"
        "py_int (setting env (the_default [] (map_of PROCESS_ID_ENV action))) = Some n"
      using t(3,5) by (simp_all add: positive_number_Inr)
    ultimately have "process_permit env c native invoice path data"
      unfolding process_permit_def using t(4,6,7) by blast
    with t(1) show ?thesis by blast
  qed
qed

section \<open>Writes leave only under a permit\<close>

definition sample_credentials :: credentials where
  "sample_credentials = \<lparr>cred_user = ''erp'', cred_password = ''pw'', cred_client = 11, cred_role = 102, cred_org = 50,
     cred_warehouse = None, cred_language = ''en_US''\<rparr>"

text \<open>An engine that answers every request with the same document.\<close>

definition sample_peers :: "unit peers" where
  "sample_peers = \<lparr>send = (\<lambda>rq n. (Replied ''{}'', n)), monotonic = (\<lambda>n. (0, n))\<rparr>"

definition sample_answer :: json where
  "sample_answer = JObj [(''token'', JStr ''t''), (''id'', JInt 7)]"

definition sample_order_fields :: fields where
  "sample_order_fields = [(''POReference'', JStr ''order_1'')]"

definition sample_permit :: "unit ctx" where
  "sample_permit = (fresh_context ())\<lparr>cx_action := Some (''tn_1'', ''BV'', ''create_sales_order'', ''order_1'', 11, 50),
     cx_request := Some (''POST'', ''/models/C_Order'', replicate 64 CHR ''0''), cx_spent := False\<rparr>"

text \<open>C13: In a protected runtime (anything that is not explicitly development or test) no use of the client, through
  any of its five calls in any order and with failures anywhere, sends a write to the engine that the guard
  did not permit under the markers of the running operation, and all the calls together send at most one:
  none when the operation's permit is spent, and a retry after a refused token does not send it again.\<close>

theorem client_writes_permitted:
  assumes "protected_finance_runtime env"
  shows "\<exists>new. cx_sent (fold (perform (rest_client L env P c)) calls s) = new @ cx_sent s
    \<and> (\<forall>rq \<in> set new. engine_write rq \<longrightarrow> permitted env c s rq)
    \<and> count_where engine_write new \<le> (if cx_spent s then 0 else 1)"
proof -
  from performs_permitted [OF assms] have "permit_step env c s (fold (perform (rest_client L env P c)) calls s)" .
  then obtain new where "cx_sent (fold (perform (rest_client L env P c)) calls s) = new @ cx_sent s"
      "\<forall>rq \<in> set new. engine_write rq \<longrightarrow> permitted env c s rq"
      "count_where engine_write new + permits_left (fold (perform (rest_client L env P c)) calls s) \<le> permits_left s"
    by (auto simp: permit_step_def)
  then show ?thesis by (auto simp: permits_left_def split: if_splits)
qed

lemma protected_by_default: "protected_finance_runtime (\<lambda>k. None)"
  by code_simp

lemma sample_writes:
  "count_where engine_write (cx_sent (fold (perform (rest_client (sample_lib sample_answer) (\<lambda>k. None) sample_peers sample_credentials))
     [Create ''C_Order'' sample_order_fields, Create ''C_Order'' sample_order_fields] sample_permit)) = 1"
  by code_simp

theorem client_writes_permitted_witness:
  "\<exists>new. length new = 2 \<and> count_where engine_write new = 1
    \<and> cx_sent (fold (perform (rest_client (sample_lib sample_answer) (\<lambda>k. None) sample_peers sample_credentials))
     [Create ''C_Order'' sample_order_fields, Create ''C_Order'' sample_order_fields] sample_permit) = new"
proof -
  let ?run = "fold (perform (rest_client (sample_lib sample_answer) (\<lambda>k. None) sample_peers sample_credentials))
     [Create ''C_Order'' sample_order_fields, Create ''C_Order'' sample_order_fields] sample_permit"
  obtain new where "cx_sent ?run = new @ cx_sent sample_permit"
      "count_where engine_write new \<le> (if cx_spent sample_permit then 0 else 1)"
    using client_writes_permitted [OF protected_by_default] by blast
  moreover have "length (cx_sent ?run) = 2" by code_simp
  ultimately show ?thesis using sample_writes by (auto simp: sample_permit_def fresh_context_def)
qed

text \<open>C14: What a permit is: a write that does leave is a POST with the method, path and payload digest the command
  announced, under an unspent permit, which is spent and withdrawn before the request is sent; it creates one
  of the four governed documents (a sales order only with the permit's own reference) or runs the configured
  process of one governed action on valid document ids, and the permit's markers name the credentials'
  AD_Client and AD_Org.\<close>

theorem write_needs_exact_permit:
  assumes "protected_finance_runtime env" "raw_request L env P c method path (Some data) token s = (r, s')"
    "engine_write \<lparr>rq_method = method, rq_path = path, rq_body = Some (JObj data), rq_token = Some token\<rparr>"
    "cx_sent s' \<noteq> cx_sent s"
  shows "method = ''POST'' \<and> cx_request s = Some (''POST'', path, request_digest L (JObj data)) \<and> \<not> cx_spent s
    \<and> cx_spent s' \<and> cx_request s' = None
    \<and> (creation_permit c (cx_action s) path data \<or> process_permit env c (cx_action s) (cx_invoice s) path data)"
proof (cases "authorise env c (cx_action s) (cx_invoice s) method path data")
  case (Inl e)
  with assms(2,4) show ?thesis by (simp add: raw_request_def require_native_financial_authority_def bindS_def)
next
  case (Inr guarded)
  have guarded: "guarded"
  proof (rule ccontr)
    assume "\<not> guarded"
    with Inr assms(1,3) show False
      by (auto simp: engine_write_def authorise_def Let_def bindE_Inr_iff split: if_splits prod.splits)
  qed
  with Inr have auth: "authorise env c (cx_action s) (cx_invoice s) method path data = Inr True" by simp
  have permit: "\<not> (cx_request s \<noteq> Some (py_upper method, path, request_digest L (JObj data)) \<or> cx_spent s)"
  proof
    assume "cx_request s \<noteq> Some (py_upper method, path, request_digest L (JObj data)) \<or> cx_spent s"
    then have "require_exact_request L method path data True s = (Inl denied, s)"
      unfolding require_exact_request_def by (rule if_P)
    with assms(2,4) auth show False by (simp add: raw_request_def require_native_financial_authority_def bindS_def)
  qed
  have "s' = snd (send_request L P \<lparr>rq_method = method, rq_path = path, rq_body = Some (JObj data), rq_token = Some token\<rparr>
      (s\<lparr>cx_request := None, cx_spent := True\<rparr>))"
    using assms(2) auth permit
    by (simp add: raw_request_def require_native_financial_authority_def require_exact_request_def bindS_def split: prod.splits)
  then have "cx_spent s' \<and> cx_request s' = None" by (simp add: send_request_def split: prod.split)
  moreover have "py_upper ''POST'' = ''POST''" by code_simp
  ultimately show ?thesis using permit authorise_True [OF auth] by simp
qed

theorem write_needs_exact_permit_witness:
  "creation_permit sample_credentials (cx_action sample_permit) ''/models/C_Order'' sample_order_fields"
proof -
  let ?run = "raw_request (sample_lib sample_answer) (\<lambda>k. None) sample_peers sample_credentials ''POST'' ''/models/C_Order''
     (Some sample_order_fields) (JStr ''t'') sample_permit"
  have w: "engine_write \<lparr>rq_method = ''POST'', rq_path = ''/models/C_Order'', rq_body = Some (JObj sample_order_fields),
      rq_token = Some (JStr ''t'')\<rparr>" by code_simp
  have "length (cx_sent (snd ?run)) = 1" by code_simp
  then have "cx_sent (snd ?run) \<noteq> cx_sent sample_permit" by (auto simp: sample_permit_def fresh_context_def)
  from write_needs_exact_permit [OF protected_by_default prod.collapse [symmetric] w this]
  have "creation_permit sample_credentials (cx_action sample_permit) ''/models/C_Order'' sample_order_fields
    \<or> path_parts ''/models/C_Order'' = [''processes'', last (path_parts ''/models/C_Order'')]"
    by (auto simp: process_permit_def)
  moreover have "path_parts ''/models/C_Order'' = [''models'', ''C_Order'']" by code_simp
  ultimately show ?thesis by simp
qed

section \<open>Paging\<close>

text \<open>A server that serves a fixed list in pages of the size asked for, and announces the total or not.\<close>

definition serves :: "json list \<Rightarrow> bool \<Rightarrow> (nat \<Rightarrow> ('s, exn, json) op) \<Rightarrow> bool" where
  "serves xs announced fetch \<longleftrightarrow> (\<forall>k s. fetch k s = (Inr (JObj ((''records'', JArr (take PAGE_SIZE (drop k xs)))
     # (if announced then [(''row-count'', JInt (int (length xs)))] else []))), s))"

lemma query_pages_serves:
  assumes "serves xs announced fetch" "list_all is_obj xs" "k \<le> length xs" "k \<le> MAX_RECORDS"
  shows "query_pages fetch (take k xs) s = ((if length xs \<le> MAX_RECORDS then Inr xs
    else Inl (Exn ''IdempiereClientError'' ''query exceeds the record cap; refusing to truncate'')), s)"
  using assms(3,4)
proof (induction "Suc (length xs) - k" arbitrary: k rule: less_induct)
  case less
  define batch where "batch = take PAGE_SIZE (drop k xs)"
  define page where "page = JObj ((''records'', JArr batch) # (if announced then [(''row-count'', JInt (int (length xs)))] else []))"
  have at: "length (take k xs) = k" using less.prems by simp
  have fetch: "fetch k s = (Inr page, s)"
    using assms(1) by (simp add: serves_def batch_def page_def)
  have recs: "page_records page = Inr batch"
    using assms(2) unfolding page_records_def page_def jget_def
    by (auto simp: list_all_iff batch_def dest!: in_set_takeD in_set_dropD)
  have grow: "take k xs @ batch = take (k + PAGE_SIZE) xs"
    unfolding batch_def by (simp add: take_add)
  have count: "row_count (jget page ''row-count'') = (if announced then Some (int (length xs)) else None)"
    by (simp add: page_def jget_def)
  have len: "length batch = min PAGE_SIZE (length xs - k)" by (simp add: batch_def min.commute)
  note unfold = query_pages.simps [of fetch "take k xs" s, unfolded at fetch prod.case sum.case recs Let_def grow]
  consider (long) "MAX_RECORDS < min (length xs) (k + PAGE_SIZE)"
    | (stop) "min (length xs) (k + PAGE_SIZE) \<le> MAX_RECORDS" "length xs < k + PAGE_SIZE \<or> announced \<and> length xs \<le> k + PAGE_SIZE"
    | (more) "min (length xs) (k + PAGE_SIZE) \<le> MAX_RECORDS" "k + PAGE_SIZE \<le> length xs" "announced \<longrightarrow> k + PAGE_SIZE < length xs"
    by linarith
  then show ?case
  proof cases
    case long
    then show ?thesis by (simp add: unfold)
  next
    case stop
    then have "last_page page (length batch) (length (take (k + PAGE_SIZE) xs))"
      unfolding last_page_def count len using less.prems by auto
    moreover have "take (k + PAGE_SIZE) xs = xs" using stop(2) by auto
    ultimately show ?thesis using stop by (simp add: unfold)
  next
    case more
    then have "\<not> last_page page (length batch) (length (take (k + PAGE_SIZE) xs))"
      unfolding last_page_def count len by (auto simp: PAGE_SIZE_def)
    moreover have "query_pages fetch (take (k + PAGE_SIZE) xs) s = ((if length xs \<le> MAX_RECORDS then Inr xs
        else Inl (Exn ''IdempiereClientError'' ''query exceeds the record cap; refusing to truncate'')), s)"
      by (rule less.hyps) (use more less.prems in \<open>simp_all add: PAGE_SIZE_def\<close>)
    ultimately show ?thesis using more by (simp add: unfold)
  qed
qed

text \<open>
  What the engine's REST plugin answers a list request with: of the records the table has for the filter and the columns, those from
  \<open>$skip\<close> on, at most \<open>$top\<close> of them, with or without the total. The text of the request is spelt out here; \<open>page_path\<close>, the
  code's own, does not occur.
\<close>

definition list_request :: "string \<Rightarrow> string \<Rightarrow> string list \<Rightarrow> nat \<Rightarrow> nat \<Rightarrow> string" where
  "list_request table flt select cap skip =
     ''/models/'' @ table @ ''?%24filter='' @ url_quote flt @ ''&%24select='' @ url_quote (join '','' select)
       @ ''&%24top='' @ show_nat cap @ ''&%24skip='' @ show_nat skip"

definition list_answer :: "json list \<Rightarrow> bool \<Rightarrow> nat \<Rightarrow> nat \<Rightarrow> json" where
  "list_answer xs announced cap skip =
     JObj ((''records'', JArr (take cap (drop skip xs))) # (if announced then [(''row-count'', JInt (int (length xs)))] else []))"

lemma url_quote_digits: "list_all digit_char s \<Longrightarrow> url_quote s = s"
  by (induction s) (auto simp: url_quote_def quote_char_def unreserved_def digit_char_def code_def Let_def)

lemma page_path_request: "page_path table flt select skip = list_request table flt select 100 skip"
proof -
  have "url_quote ''$filter'' = ''%24filter''" "url_quote ''$select'' = ''%24select''" "url_quote ''$top'' = ''%24top''"
      "url_quote ''$skip'' = ''%24skip''"
    by (code_simp, code_simp, code_simp, code_simp)
  then show ?thesis
    using show_nat_digits [of 100] show_nat_digits [of skip]
    by (simp add: page_path_def list_request_def urlencode_def PAGE_SIZE_def url_quote_digits)
qed


text \<open>A server that reads \<open>$skip\<close> and \<open>$top\<close> from the end of the request.\<close>

definition sample_server :: "string \<Rightarrow> (unit, exn, json) op" where
  "sample_server path s =
     (let skip = takeWhile digit_char (rev path);
          cap = takeWhile digit_char (drop 9 (dropWhile digit_char (rev path))) in
      (Inr (list_answer (replicate 250 (JObj [])) False (digits_val (rev cap)) (digits_val (rev skip))), s))"

lemma takeWhile_rev_digits:
  assumes "list_all digit_char ds" "\<not> digit_char c"
  shows "takeWhile digit_char (rev ds @ c # cs) = rev ds" "dropWhile digit_char (rev ds @ c # cs) = c # cs"
  using assms by (simp_all add: takeWhile_digits)

lemma sample_server_serves:
  "sample_server (list_request table flt select cap skip) s = (Inr (list_answer (replicate 250 (JObj [])) False cap skip), s)"
proof -
  have nd: "\<not> digit_char CHR ''=''" by code_simp
  note d = takeWhile_rev_digits [OF conjunct1 [OF show_nat_digits [of skip]] nd] takeWhile_rev_digits [OF conjunct1 [OF show_nat_digits [of cap]] nd]
  show ?thesis by (simp add: sample_server_def list_request_def d show_nat_digits)
qed


end
