(* ===== verification/Filter_Reader.thy ===== *)
theory Filter_Reader
  imports Rest_Client
begin

text \<open>
  The filters \<open>build_filter\<close> (\<open>integration/idempiere_client.py\<close>) writes never run into each other. The proof gives a left
  inverse of the writer: \<open>read_filter\<close> finds the conditions in a text that was written from them (a column, \<open>eq\<close>, and a quoted
  text with its quotes doubled, \<open>true\<close>, \<open>false\<close> or a number, joined by \<open>and\<close>). It is a device of the proof and models no code:
  how the engine reads a filter is not stated.
\<close>

definition column_char :: "char \<Rightarrow> bool" where
  "column_char c = in_cls c [(CHR ''A'', CHR ''Z''), (CHR ''a'', CHR ''z''), (CHR ''0'', CHR ''9''), (CHR ''_'', CHR ''_'')]"

abbreviation Q :: char where "Q \<equiv> CHR 0x27"

text \<open>After the opening quote: the text, and what follows the closing quote.\<close>

fun read_quoted :: "string \<Rightarrow> (string \<times> string) option" where
  "read_quoted [] = None"
| "read_quoted [c] = (if c = Q then Some ([], []) else None)"
| "read_quoted (c # d # cs) =
     (if c = Q then (if d = Q then map_option (\<lambda>(v, r). (Q # v, r)) (read_quoted cs) else Some ([], d # cs))
      else map_option (\<lambda>(v, r). (c # v, r)) (read_quoted (d # cs)))"

definition number_char :: "char \<Rightarrow> bool" where
  "number_char c = (digit_char c \<or> c = CHR ''-'')"

definition read_number :: "string \<Rightarrow> int" where
  "read_number t = (if starts_with t ''-'' then - int (digits_val (tl t)) else int (digits_val t))"

definition read_value :: "string \<Rightarrow> (json \<times> string) option" where
  "read_value s =
     (if starts_with s [Q] then map_option (\<lambda>(v, r). (JStr v, r)) (read_quoted (tl s))
      else if starts_with s ''true'' then Some (JBool True, drop 4 s)
      else if starts_with s ''false'' then Some (JBool False, drop 5 s)
      else if takeWhile number_char s = [] then None
      else Some (JInt (read_number (takeWhile number_char s)), dropWhile number_char s))"

definition read_condition :: "string \<Rightarrow> ((string \<times> json) \<times> string) option" where
  "read_condition s =
     (let col = takeWhile column_char s; r = dropWhile column_char s in
      if starts_with r '' eq '' then map_option (\<lambda>(v, rest). ((col, v), rest)) (read_value (drop 4 r)) else None)"

text \<open>The first argument bounds the number of conditions; a condition takes more than one character.\<close>

fun read_conditions :: "nat \<Rightarrow> string \<Rightarrow> fields option" where
  "read_conditions 0 s = None"
| "read_conditions (Suc n) s =
     (case read_condition s of
        None \<Rightarrow> None
      | Some (c, rest) \<Rightarrow>
          if rest = [] then Some [c]
          else if starts_with rest '' and '' then map_option (\<lambda>cs. c # cs) (read_conditions n (drop 5 rest)) else None)"

definition read_filter :: "string \<Rightarrow> fields option" where
  "read_filter s = read_conditions (length s) s"

section \<open>Reading back what was written\<close>

definition escape :: "string \<Rightarrow> string" where
  "escape v = concat (map (\<lambda>c. if c = Q then [c, c] else [c]) v)"

lemma read_quoted_escape:
  assumes "\<not> starts_with rest [Q]"
  shows "read_quoted (escape v @ Q # rest) = Some (v, rest)"
proof (induction v)
  case Nil
  from assms show ?case by (cases rest) (auto simp: escape_def starts_with_def)
next
  case (Cons c v)
  obtain x xs where tl: "escape v @ Q # rest = x # xs" by (cases "escape v @ Q # rest") auto
  have "escape (c # v) @ Q # rest = (if c = Q then [c, c] else [c]) @ escape v @ Q # rest" by (simp add: escape_def)
  with Cons tl show ?case by (cases "c = Q") simp_all
qed

lemma read_number_show: "list_all number_char (show_int i) \<and> show_int i \<noteq> [] \<and> read_number (show_int i) = i
    \<and> \<not> starts_with (show_int i) [Q] \<and> hd (show_int i) \<noteq> CHR ''t'' \<and> hd (show_int i) \<noteq> CHR ''f''"
proof -
  note ds = show_nat_digits [of "nat (- i)"] show_nat_digits [of "nat i"]
  have first: "hd (show_nat n) \<noteq> CHR ''-'' \<and> hd (show_nat n) \<noteq> Q \<and> hd (show_nat n) \<noteq> CHR ''t'' \<and> hd (show_nat n) \<noteq> CHR ''f''" for n
    using show_nat_digits [of n] by (cases "show_nat n") (auto simp: digit_char_def code_def)
  have "list_all digit_char s \<Longrightarrow> list_all number_char s" for s by (auto simp: list_all_iff number_char_def)
  with ds first [of "nat i"] first [of "nat (- i)"] show ?thesis
    by (cases "show_nat (nat i)") (auto simp: show_int_def read_number_def starts_with_def number_char_def)
qed

text \<open>What may follow a value: nothing, or the separator.\<close>

definition follows :: "string \<Rightarrow> bool" where
  "follows rest \<longleftrightarrow> rest = [] \<or> (\<exists>t. rest = CHR '' '' # t)"

lemma follows_while: "follows rest \<Longrightarrow> list_all number_char s \<Longrightarrow>
    takeWhile number_char (s @ rest) = s \<and> dropWhile number_char (s @ rest) = rest"
  by (induction s) (auto simp: follows_def number_char_def digit_char_def code_def)

lemma read_value_render:
  assumes "render_value v = Inr t" "follows rest"
  shows "read_value (t @ rest) = Some (v, rest)"
proof (cases v)
  case (JBool b)
  with assms show ?thesis by (cases b) (auto simp: read_value_def starts_with_def)
next
  case (JInt i)
  then have t: "t = show_int i" using assms by simp
  obtain c cs where cs: "show_int i = c # cs" using read_number_show [of i] by (cases "show_int i") auto
  with read_number_show [of i] have "\<not> starts_with (t @ rest) [Q]" "\<not> starts_with (t @ rest) ''true''" "\<not> starts_with (t @ rest) ''false''"
    by (auto simp: t starts_with_def)
  with JInt t follows_while [OF assms(2)] read_number_show [of i] show ?thesis by (simp add: read_value_def)
next
  case (JStr s)
  then have t: "t = Q # escape s @ [Q]" using assms by (auto simp: quote_text_def escape_def split: if_splits)
  have "\<not> starts_with rest [Q]" using assms(2) by (auto simp: follows_def starts_with_def)
  from read_quoted_escape [OF this, of s] show ?thesis
    unfolding read_value_def t by (simp add: starts_with_def JStr)
qed (use assms in auto)

lemma column_chars: "fullmatch column_rx s \<Longrightarrow> list_all column_char s"
  by (rule fullmatch_chars, assumption) (auto simp: column_rx_def column_char_def in_cls_def)

lemma read_condition_render:
  assumes "render_condition cond = Inr t" "follows rest"
  shows "read_condition (t @ rest) = Some (cond, rest)"
proof -
  from assms(1) obtain v where col: "list_all column_char (fst cond)" and v: "render_value (snd cond) = Inr v"
    and t: "t = fst cond @ '' eq '' @ v"
    by (auto simp: render_condition_def bindE_Inr_iff column_chars split: if_splits)
  have "\<not> column_char (CHR '' '')" by code_simp
  then have "takeWhile column_char (t @ rest) = fst cond" "dropWhile column_char (t @ rest) = '' eq '' @ v @ rest"
    using col by (simp_all add: t takeWhile_digits)
  with read_value_render [OF v assms(2)] show ?thesis
    by (simp add: read_condition_def starts_with_def)
qed

lemma read_conditions_render:
  assumes "mapE render_condition conds = Inr parts" "conds \<noteq> []" "length conds \<le> n"
  shows "read_conditions n (join '' and '' parts) = Some conds"
  using assms
proof (induction conds arbitrary: parts n)
  case (Cons cond conds)
  then obtain t ts where parts: "parts = t # ts" and t: "render_condition cond = Inr t" and ts: "mapE render_condition conds = Inr ts"
    by (auto simp: bindE_Inr_iff)
  from Cons.prems obtain m where n: "n = Suc m" "length conds \<le> m" by (cases n) auto
  show ?case
  proof (cases "conds = []")
    case True
    with ts have "ts = []" by simp
    with read_condition_render [OF t, of "[]"] True show ?thesis by (simp add: parts n follows_def)
  next
    case False
    with ts have ne: "ts \<noteq> []" by (auto dest: mapE_Inr_length)
    then have j: "join '' and '' parts = t @ '' and '' @ join '' and '' ts" unfolding parts by (cases ts) simp_all
    have "follows ('' and '' @ join '' and '' ts)" by (simp add: follows_def)
    from read_condition_render [OF t this] Cons.IH [OF ts False n(2)] show ?thesis
      unfolding j n by (simp add: starts_with_def)
  qed
qed simp

lemma render_nonempty: "render_condition cond = Inr t \<Longrightarrow> t \<noteq> []"
  by (auto simp: render_condition_def bindE_Inr_iff split: if_splits)

lemma length_join:
  assumes "mapE render_condition conds = Inr parts"
  shows "length conds \<le> length (join '' and '' parts)"
  using assms
proof (induction conds arbitrary: parts)
  case (Cons cond conds)
  then obtain t ts where parts: "parts = t # ts" "t \<noteq> []" and ts: "mapE render_condition conds = Inr ts"
    by (auto simp: bindE_Inr_iff render_nonempty)
  from Cons.IH [OF ts] parts show ?case by (cases ts; cases t) auto
qed simp

lemma read_filter_built:
  assumes "build_filter conds = Inr s" "conds \<noteq> []"
  shows "read_filter s = Some conds"
proof -
  from assms(1) obtain parts where p: "mapE render_condition conds = Inr parts" "s = join '' and '' parts"
    by (auto simp: build_filter_def bindE_Inr_iff)
  from read_conditions_render [OF p(1) assms(2) length_join [OF p(1)]] show ?thesis by (simp add: read_filter_def p(2))
qed

lemma build_filter_nonempty: "build_filter conds = Inr s \<Longrightarrow> conds \<noteq> [] \<Longrightarrow> s \<noteq> []"
  using read_filter_built by (force simp: read_filter_def)

text \<open>C24: A value cannot reach outside its quotes: two lists of conditions that \<open>build_filter\<close> accepts give the same filter text only
  when they are the same list, column by column and value by value, whatever quotes, spaces, keywords of the filter language or other
  characters the texts have, and a number or a flag is never taken for a text.\<close>

theorem filter_says_conditions:
  assumes "build_filter conds = Inr s" "build_filter conds' = Inr s"
  shows "conds = conds'"
proof (cases "conds = [] \<or> conds' = []")
  case True
  then have "s = []" using assms by (auto simp: build_filter_def)
  with assms build_filter_nonempty show ?thesis by blast
next
  case False
  with read_filter_built [OF assms(1)] read_filter_built [OF assms(2)] show ?thesis by simp
qed

definition injected_filter :: fields where
  "injected_filter = [(''POReference'', JStr (''a'' @ [Q] @ '' and IsActive eq true''))]"

text \<open>A value that imitates a second condition gives another filter than the two conditions.\<close>

theorem filter_says_conditions_witness:
  "build_filter injected_filter \<noteq> build_filter [(''POReference'', JStr ''a''), (''IsActive'', JBool True)]"
proof -
  have "\<not> (case build_filter injected_filter of Inl e \<Rightarrow> True | Inr s \<Rightarrow> False)" by code_simp
  then obtain s where s: "build_filter injected_filter = Inr s" by (auto split: sum.splits)
  with filter_says_conditions [OF s, of "[(''POReference'', JStr ''a''), (''IsActive'', JBool True)]"] show ?thesis
    by (auto simp: injected_filter_def)
qed

end
