(* ===== verification/Legal_Actor.thy ===== *)
theory Legal_Actor
  imports Rest_Client
begin

text \<open>
  Who may act: the legal-actor gate (\<open>modules/order_to_cash/legal_actor_gate.py\<close>), the documentary veto
  (\<open>documentary_restriction.py\<close>), the two Control Plane clients that fetch the decisions
  (\<open>legal_actor_http_client.py\<close> and \<open>documentary_restriction.py\<close>) and the gate of one native action
  (\<open>native_action_gate.py\<close>). The validator of the shared wire contracts is a JSON-schema library over
  schema files: it is the argument \<open>contract\<close>, a contract's name and an instance to whether it is valid.
\<close>

section \<open>The operation\<close>

record LegalActorOperation =
  la_context :: string
  la_tenant :: string
  la_organisation :: string
  la_entity :: string
  la_role :: string
  la_activity :: string
  la_market :: string
  la_capability :: string
  la_reference :: string

type_synonym contracts = "string \<Rightarrow> json \<Rightarrow> bool"

definition not_authorised :: "string \<Rightarrow> exn" where
  "not_authorised msg = Exn ''LegalActorNotAuthorised'' msg"

definition unavailable :: "string \<Rightarrow> exn" where
  "unavailable msg = Exn ''ControlPlaneUnavailable'' msg"

definition MAX_DECISION_AGE :: int where "MAX_DECISION_AGE = seconds 30"

definition ALLOWED_ROLES :: "string list" where
  "ALLOWED_ROLES = [''INVOICE_ISSUER'', ''ACCOUNTING_ENTITY'', ''CONTRACTING_PARTY'']"

definition legal_request :: "LegalActorOperation \<Rightarrow> json" where
  "legal_request q = JObj [(''context_id'', JStr (la_context q)), (''role'', JStr (la_role q)), (''activity'', JStr (la_activity q)),
     (''market'', JStr (la_market q)), (''capability'', JStr (la_capability q)), (''operation_reference'', JStr (la_reference q))]"

definition two_capitals :: "string \<Rightarrow> bool" where
  "two_capitals s = (length s = 2 \<and> list_all (\<lambda>c. 65 \<le> code c \<and> code c \<le> 90) s)"

definition validate_operation :: "contracts \<Rightarrow> LegalActorOperation \<Rightarrow> exn + unit" where
  "validate_operation contract q =
     (if \<not> contract ''context_uuid'' (JStr (la_context q)) \<or> \<not> contract ''legal_request'' (legal_request q)
      then Inl (not_authorised ''invalid canonical operation scope'')
      else if list_ex (\<lambda>s. s = []) [la_context q, la_tenant q, la_organisation q, la_entity q, la_activity q, la_capability q, la_reference q]
        \<or> la_role q \<notin> set ALLOWED_ROLES \<or> \<not> two_capitals (la_market q)
      then Inl (not_authorised ''explicit scoped operation identity required'')
      else Inr ())"

section \<open>A current decision\<close>

fun nonempty_text :: "json \<Rightarrow> bool" where
  "nonempty_text (JStr s) = (s \<noteq> [])"
| "nonempty_text _ = False"

fun evidence_ok :: "json \<Rightarrow> bool" where
  "evidence_ok (JArr vs) = (vs \<noteq> [] \<and> list_all nonempty_text vs)"
| "evidence_ok _ = False"

definition decision_time :: "pylib \<Rightarrow> json \<Rightarrow> string \<Rightarrow> exn + datetime" where
  "decision_time L resolution k =
     (if \<not> has_key resolution k then Inl (not_authorised ''missing or invalid validity evidence'')
      else of_option (not_authorised ''missing or invalid validity evidence'') (read_instant L (py_str (jget resolution k))))"

definition decision_lease :: "datetime \<Rightarrow> datetime \<Rightarrow> instant \<Rightarrow> exn + unit" where
  "decision_lease evaluated valid_until now =
     (case (evaluated, valid_until) of
        (Aware e, Aware v) \<Rightarrow>
          if now + seconds 1 < e \<or> MAX_DECISION_AGE < now - e \<or> v \<le> now \<or> e + MAX_DECISION_AGE + seconds 1 < v
          then Inl (not_authorised ''expired or stale legal-actor decision'') else Inr ()
      | _ \<Rightarrow> Inl (not_authorised ''expired or stale legal-actor decision''))"

definition assert_current_decision ::
  "pylib \<Rightarrow> contracts \<Rightarrow> LegalActorOperation \<Rightarrow> json \<Rightarrow> instant \<Rightarrow> exn + string" where
  "assert_current_decision L contract q response now =
     bindE (validate_operation contract q) (\<lambda>_.
     bindE (checkE (contract ''legal_response'' response) (not_authorised ''invalid canonical legal-actor decision'')) (\<lambda>_.
     bindE (checkE (jget response ''context_id'' = JStr (la_context q) \<and> jget response ''operation_reference'' = JStr (la_reference q)
         \<and> jget response ''provider_permissions_granted'' = JBool False)
       (not_authorised ''CP response is not this operation's decision'')) (\<lambda>_.
     let resolution = jget response ''legal_actor_resolution'' in
     bindE (checkE (is_obj resolution \<and> jget resolution ''outcome'' = JStr ''AUTHORIZED'')
       (not_authorised ''current legal actor authority denied'')) (\<lambda>_.
     bindE (checkE (jget resolution ''responsible_legal_entity_id'' = JStr (la_entity q)
         \<and> nonempty_text (jget resolution ''mandate_id'') \<and> evidence_ok (jget resolution ''evidence_references''))
       (not_authorised ''verified legal-actor identity/evidence mismatch'')) (\<lambda>_.
     bindE (decision_time L resolution ''evaluated_at'') (\<lambda>evaluated.
     bindE (decision_time L resolution ''valid_until'') (\<lambda>valid_until.
     bindE (decision_lease evaluated valid_until now) (\<lambda>_.
     Inr (py_str (jget resolution ''mandate_id''))))))))))"

section \<open>The gate\<close>

text \<open>The ports, over a state \<open>'s\<close>; \<open>now\<close> is the clock the caller injects.\<close>

type_synonym 's assessor = "json \<Rightarrow> ('s, exn, json) op"
type_synonym 's readiness = "LegalActorOperation \<Rightarrow> string \<Rightarrow> ('s, exn, unit) op"
type_synonym 's clock = "('s, exn, instant) op"

definition assessed ::
  "pylib \<Rightarrow> contracts \<Rightarrow> 's clock \<Rightarrow> LegalActorOperation \<Rightarrow> 's assessor \<Rightarrow> string \<Rightarrow> ('s, exn, string) op" where
  "assessed L contract now q assess msg =
     bindS (assess (legal_request q)) (\<lambda>decision.
     bindS (checkS (is_obj decision) (not_authorised msg)) (\<lambda>_.
     bindS now (\<lambda>t. liftS (assert_current_decision L contract q decision t))))"

definition legal_actor_gate ::
  "pylib \<Rightarrow> contracts \<Rightarrow> 's clock \<Rightarrow> LegalActorOperation \<Rightarrow> 's assessor option \<Rightarrow> 's readiness option \<Rightarrow> ('s, exn, unit) op" where
  "legal_actor_gate L contract now q assessor provider =
     bindS (liftS (validate_operation contract q)) (\<lambda>_.
     case (assessor, provider) of
       (Some assess, Some ensure) \<Rightarrow>
         bindS (assessed L contract now q assess ''CP legal actor assessment unavailable'') (\<lambda>mandate.
         bindS (ensure q mandate) (\<lambda>_.
         bindS (assessed L contract now q assess ''current CP legal actor authority unavailable'') (\<lambda>current.
         checkS (current = mandate) (not_authorised ''legal actor mandate changed during readiness''))))
     | _ \<Rightarrow> raiseS (not_authorised ''CP assessment and ERP provider readiness required''))"

definition perform_governed_financial_action ::
  "pylib \<Rightarrow> contracts \<Rightarrow> 's clock \<Rightarrow> LegalActorOperation \<Rightarrow> 's assessor option \<Rightarrow> 's readiness option
     \<Rightarrow> ('s, exn, 'a) op \<Rightarrow> ('s, exn, 'a) op" where
  "perform_governed_financial_action L contract now q assessor provider execute =
     bindS (legal_actor_gate L contract now q assessor provider) (\<lambda>_. execute)"

section \<open>The documentary veto\<close>

definition POLICY :: string where "POLICY = ''ADR-BCP-026/PEO-02T:negative-only''"
definition MAX_LEASE :: int where "MAX_LEASE = seconds 2"
definition MAX_AGE :: int where "MAX_AGE = seconds 3"

definition restriction_request :: "contracts \<Rightarrow> LegalActorOperation \<Rightarrow> exn + json" where
  "restriction_request contract q =
     bindE (validate_operation contract q) (\<lambda>_.
     Inr (JObj [(''context_id'', JStr (la_context q)), (''capability'', JStr (la_capability q)), (''market'', JStr (la_market q)),
       (''operation_reference'', JStr (la_reference q))]))"

fun restriction_instant :: "pylib \<Rightarrow> json \<Rightarrow> exn + instant" where
  "restriction_instant L (JStr s) =
     (case read_instant L s of
        None \<Rightarrow> Inl (not_authorised ''invalid documentary restriction validity'')
      | Some (Naive t) \<Rightarrow> Inl (not_authorised ''unbounded documentary restriction decision time'')
      | Some (Aware t) \<Rightarrow> Inr t)"
| "restriction_instant L _ = Inl (not_authorised ''documentary restriction has no valid decision time'')"

definition assert_documentary_scope_unblocked ::
  "pylib \<Rightarrow> contracts \<Rightarrow> LegalActorOperation \<Rightarrow> json \<Rightarrow> instant \<Rightarrow> exn + unit" where
  "assert_documentary_scope_unblocked L contract q raw now =
     bindE (validate_operation contract q) (\<lambda>_.
     bindE (checkE (contract ''documentary_response'' raw) (not_authorised ''invalid canonical documentary decision'')) (\<lambda>_.
     bindE (checkE (is_obj raw) (not_authorised ''current CP documentary restriction unavailable'')) (\<lambda>_.
     bindE (checkE (jget raw ''context_id'' = JStr (la_context q) \<and> jget raw ''organisation_id'' = JStr (la_organisation q)
         \<and> jget raw ''capability'' = JStr (la_capability q) \<and> jget raw ''market'' = JStr (la_market q)
         \<and> jget raw ''operation_reference'' = JStr (la_reference q) \<and> jget raw ''policy_reference'' = JStr POLICY
         \<and> jget raw ''blocked'' = JBool False \<and> jget raw ''authority_granted'' = JBool False)
       (not_authorised ''CP documentary scope blocked or mismatched'')) (\<lambda>_.
     bindE (restriction_instant L (jget raw ''evaluated_at'')) (\<lambda>evaluated.
     bindE (restriction_instant L (jget raw ''expires_at'')) (\<lambda>expires.
     checkE (\<not> (now + seconds 1 < evaluated \<or> MAX_AGE < now - evaluated \<or> expires \<le> now \<or> expires \<le> evaluated
         \<or> MAX_LEASE < expires - evaluated))
       (not_authorised ''documentary scope lease expired or overlong'')))))))"

text \<open>Every exception but the refusal itself becomes a refusal.\<close>

definition as_refusal :: "exn \<Rightarrow> exn" where
  "as_refusal e = (if exn_class e = ''LegalActorNotAuthorised'' then e
     else not_authorised ''documentary restriction authority unavailable'')"

definition require_documentary_scope_unblocked ::
  "pylib \<Rightarrow> contracts \<Rightarrow> LegalActorOperation \<Rightarrow> 's assessor option \<Rightarrow> instant \<Rightarrow> ('s, exn, unit) op" where
  "require_documentary_scope_unblocked L contract q assessor now =
     (case assessor of
        None \<Rightarrow> raiseS (not_authorised ''documentary restriction assessor not configured'')
      | Some assess \<Rightarrow>
          rethrow as_refusal
            (bindS (liftS (restriction_request contract q)) (\<lambda>request.
             bindS (assess request) (\<lambda>raw. liftS (assert_documentary_scope_unblocked L contract q raw now)))))"

text \<open>\<open>_DocumentaryAndNativeReadiness.ensure_legal_actor_usable\<close> (\<open>governed_service.py\<close>).\<close>

definition documentary_and_native ::
  "pylib \<Rightarrow> contracts \<Rightarrow> 's clock \<Rightarrow> 's readiness \<Rightarrow> 's assessor option \<Rightarrow> 's readiness" where
  "documentary_and_native L contract now native documentary q mandate =
     bindS now (\<lambda>t1. bindS (require_documentary_scope_unblocked L contract q documentary t1) (\<lambda>_.
     bindS (native q mandate) (\<lambda>_.
     bindS now (\<lambda>t2. require_documentary_scope_unblocked L contract q documentary t2))))"

section \<open>One native action\<close>

record TenantScope =
  ts_tenant :: string
  ts_entity :: string
  ts_client :: int
  ts_org :: int

record NativeActionPolicy =
  np_action :: string
  np_activity :: string
  np_capability :: string
  np_authority :: string

definition ACTION_ROLE :: "(string \<times> string) list" where
  "ACTION_ROLE = [(''create_sales_order'', ''CONTRACTING_PARTY''), (''complete_sales_order'', ''CONTRACTING_PARTY''),
     (''create_shipment'', ''CONTRACTING_PARTY''), (''complete_shipment'', ''CONTRACTING_PARTY''),
     (''create_customer_invoice'', ''INVOICE_ISSUER''), (''create_payment'', ''ACCOUNTING_ENTITY''),
     (''complete_payment'', ''ACCOUNTING_ENTITY''), (''allocate_payment'', ''ACCOUNTING_ENTITY'')]"

definition policy_binds :: "NativeActionPolicy \<Rightarrow> LegalActorOperation \<Rightarrow> TenantScope \<Rightarrow> string \<Rightarrow> bool" where
  "policy_binds p q scope ref =
     (np_activity p \<noteq> [] \<and> np_capability p \<noteq> [] \<and> np_authority p \<noteq> []
      \<and> map_of ACTION_ROLE (np_action p) = Some (la_role q) \<and> la_activity q = np_activity p
      \<and> la_capability q = np_capability p \<and> la_tenant q = ts_tenant scope \<and> la_entity q = ts_entity scope
      \<and> la_reference q = ref \<and> ref \<noteq> [])"

text \<open>The markers of \<open>service.py\<close>: set with a fresh permit, put back when the body is done.\<close>

definition authorised_native_action ::
  "TenantScope \<Rightarrow> string \<Rightarrow> string \<Rightarrow> (('n, 'm) ctx_scheme, exn, 'a) op \<Rightarrow> (('n, 'm) ctx_scheme, exn, 'a) op" where
  "authorised_native_action scope action ref m s =
     (case fresh_native_financial_operation m
        (s\<lparr>cx_action := Some (ts_tenant scope, ts_entity scope, action, ref, ts_client scope, ts_org scope)\<rparr>) of
        (r, s') \<Rightarrow> (r, s'\<lparr>cx_action := cx_action s\<rparr>))"

definition authorised_invoice_post ::
  "TenantScope \<Rightarrow> string \<Rightarrow> (('n, 'm) ctx_scheme, exn, 'a) op \<Rightarrow> (('n, 'm) ctx_scheme, exn, 'a) op" where
  "authorised_invoice_post scope invoice m s =
     (case fresh_native_financial_operation m
        (s\<lparr>cx_invoice := Some (ts_tenant scope, ts_entity scope, invoice, ts_client scope, ts_org scope)\<rparr>) of
        (r, s') \<Rightarrow> (r, s'\<lparr>cx_invoice := cx_invoice s\<rparr>))"

fun action_matches :: "action_marker option \<Rightarrow> TenantScope \<Rightarrow> string \<Rightarrow> string \<Rightarrow> bool" where
  "action_matches None scope action ref = False"
| "action_matches (Some (t, e, a, r, client, org)) scope action ref =
     (t = ts_tenant scope \<and> e = ts_entity scope \<and> a = action \<and> r = ref)"

fun invoice_matches :: "invoice_marker option \<Rightarrow> TenantScope \<Rightarrow> string \<Rightarrow> bool" where
  "invoice_matches None scope invoice = False"
| "invoice_matches (Some (t, e, i, client, org)) scope invoice = (t = ts_tenant scope \<and> e = ts_entity scope \<and> i = invoice)"

definition OrderToCashError_denied :: exn where
  "OrderToCashError_denied = OrderToCashError ''native order-to-cash action denied''"

definition deny_legacy_native_action :: "deployment \<Rightarrow> TenantScope \<Rightarrow> string \<Rightarrow> string \<Rightarrow> (('n, 'm) ctx_scheme, exn, unit) op" where
  "deny_legacy_native_action env scope action ref =
     bindS (readS cx_action) (\<lambda>marker.
     checkS (\<not> (protected_finance_runtime env \<and> \<not> action_matches marker scope action ref)) OrderToCashError_denied)"

definition deny_legacy_invoice_post :: "deployment \<Rightarrow> TenantScope \<Rightarrow> string \<Rightarrow> (('n, 'm) ctx_scheme, exn, unit) op" where
  "deny_legacy_invoice_post env scope invoice =
     bindS (readS cx_invoice) (\<lambda>marker.
     checkS (\<not> (protected_finance_runtime env \<and> \<not> invoice_matches marker scope invoice)) OrderToCashError_denied)"

definition perform_governed_native_action ::
  "pylib \<Rightarrow> contracts \<Rightarrow> ('n, 'm) ctx_scheme clock \<Rightarrow> NativeActionPolicy option \<Rightarrow> LegalActorOperation \<Rightarrow> TenantScope \<Rightarrow> string
     \<Rightarrow> ('n, 'm) ctx_scheme assessor option \<Rightarrow> ('n, 'm) ctx_scheme readiness option \<Rightarrow> ('n, 'm) ctx_scheme assessor option
     \<Rightarrow> (('n, 'm) ctx_scheme, exn, 'a) op \<Rightarrow> (('n, 'm) ctx_scheme, exn, 'a) op" where
  "perform_governed_native_action L contract now policy q scope ref assessor provider documentary execute =
     (case (policy, provider) of
        (Some p, Some native) \<Rightarrow>
          if \<not> policy_binds p q scope ref \<or> assessor = None \<or> documentary = None
          then raiseS (not_authorised ''exact approved ERP action, responsible actor, documentary and provider contract binding required'')
          else perform_governed_financial_action L contract now q assessor
            (Some (documentary_and_native L contract now native documentary))
            (authorised_native_action scope (np_action p) ref execute)
      | _ \<Rightarrow> raiseS (not_authorised ''exact approved ERP action, responsible actor, documentary and provider contract binding required''))"

section \<open>Fetching the decisions\<close>

text \<open>
  The workload's token and correlation id, the POST with redirects refused (the status and at most one
  byte more than the cap of the body), and the JSON reader that refuses a repeated member.
\<close>

record 's cp_port =
  cp_token :: "('s, exn, json) op"
  cp_correlation :: "('s, exn, json) op"
  cp_open :: "string \<Rightarrow> json \<Rightarrow> json \<Rightarrow> json \<Rightarrow> ('s, exn, int \<times> string) op"
  cp_decode :: "string \<Rightarrow> json option"

definition RESPONSE_CAP :: nat where "RESPONSE_CAP = 16384"

fun blank :: "json \<Rightarrow> bool" where
  "blank (JStr s) = (\<not> nonblank s)"
| "blank _ = True"

text \<open>The documentary client accepts any truthy correlation id, the legal-actor client a non-blank one.\<close>

fun truthy :: "json \<Rightarrow> bool" where
  "truthy JNull = False"
| "truthy (JBool b) = b"
| "truthy (JInt i) = (i \<noteq> 0)"
| "truthy (JFloat s) = (case dec_of s of Some (Fin neg c e) \<Rightarrow> c \<noteq> 0 | _ \<Rightarrow> True)"
| "truthy (JStr s) = (s \<noteq> [])"
| "truthy (JArr vs) = (vs \<noteq> [])"
| "truthy (JObj ms) = (ms \<noteq> [])"

definition cp_fetch :: "'s cp_port \<Rightarrow> (json \<Rightarrow> bool) \<Rightarrow> string \<Rightarrow> json \<Rightarrow> ('s, exn, json) op" where
  "cp_fetch P correlation_ok path request =
     bindS (cp_token P) (\<lambda>token. bindS (cp_correlation P) (\<lambda>correlation.
     bindS (checkS (\<not> blank token \<and> correlation_ok correlation) (Exn ''ValueError'' ''missing authenticated issuer evidence'')) (\<lambda>_.
     bindS (cp_open P path request token correlation) (\<lambda>(status, payload).
     bindS (checkS (status = 200 \<and> length payload \<le> RESPONSE_CAP) (Exn ''ValueError'' ''unusable response'')) (\<lambda>_.
     liftS (of_option (Exn ''ValueError'' ''invalid JSON'') (cp_decode P payload)))))))"

definition ALLOWED_FIELDS :: "string list" where
  "ALLOWED_FIELDS = [''context_id'', ''role'', ''activity'', ''market'', ''capability'', ''operation_reference'']"

definition REQUIRED_FIELDS :: "string list" where
  "REQUIRED_FIELDS = [''context_id'', ''role'', ''activity'', ''market'', ''operation_reference'']"

definition http_legal_actor :: "contracts \<Rightarrow> 's cp_port \<Rightarrow> 's assessor" where
  "http_legal_actor contract P request =
     bindS (checkS (contract ''legal_request'' request \<and> contract ''context_uuid'' (jget request ''context_id''))
       (unavailable ''invalid canonical legal-actor request'')) (\<lambda>_.
     bindS (checkS (is_obj request \<and> set (map fst (members request)) \<subseteq> set ALLOWED_FIELDS
         \<and> list_all (has_key request) REQUIRED_FIELDS \<and> list_all (\<lambda>v. \<not> blank v) (map snd (members request)))
       (unavailable ''invalid legal-actor operation context'')) (\<lambda>_.
     bindS (rethrow (\<lambda>e. unavailable ''legal actor assessment unavailable or invalid'')
       (cp_fetch P (\<lambda>v. \<not> blank v) ''/internal/legal-actor/v1/assess'' request)) (\<lambda>decoded.
     bindS (checkS (contract ''legal_response'' decoded) (unavailable ''invalid canonical legal-actor response'')) (\<lambda>_.
     bindS (checkS (is_obj decoded \<and> jget decoded ''context_id'' = jget request ''context_id''
         \<and> jget decoded ''operation_reference'' = jget request ''operation_reference''
         \<and> jget decoded ''provider_permissions_granted'' = JBool False \<and> is_obj (jget decoded ''legal_actor_resolution''))
       (unavailable ''Control Plane returned an unbound legal actor decision'')) (\<lambda>_.
     returnS decoded)))))"

definition capability_text :: "string \<Rightarrow> bool" where
  "capability_text s = (case s of [] \<Rightarrow> False | c # cs \<Rightarrow> 97 \<le> code c \<and> code c \<le> 122 \<and> 2 \<le> length cs \<and> length cs \<le> 199
     \<and> list_all (\<lambda>d. (97 \<le> code d \<and> code d \<le> 122) \<or> digit_char d \<or> d \<in> {CHR ''.'', CHR ''_'', CHR ''-''}) cs)"

fun text_of :: "json \<Rightarrow> string" where
  "text_of (JStr s) = s"
| "text_of _ = []"

definition http_documentary :: "contracts \<Rightarrow> 's cp_port \<Rightarrow> 's assessor" where
  "http_documentary contract P request =
     bindS (checkS (contract ''documentary_request'' request) (not_authorised ''invalid canonical documentary scope'')) (\<lambda>_.
     bindS (checkS (set (map fst (members request)) = {''context_id'', ''capability'', ''market'', ''operation_reference''}
         \<and> list_all (\<lambda>v. \<not> blank v) (map snd (members request)) \<and> two_capitals (text_of (jget request ''market''))
         \<and> capability_text (text_of (jget request ''capability'')))
       (not_authorised ''invalid documentary scope request'')) (\<lambda>_.
     rethrow (\<lambda>e. not_authorised ''current documentary scope unavailable'')
       (bindS (cp_fetch P truthy ''/internal/documentary/v1/restrictions/assess'' request) (\<lambda>value.
        bindS (checkS (contract ''documentary_response'' value \<and> is_obj value) (Exn ''ValueError'' [])) (\<lambda>_.
        returnS value)))))"

section \<open>What a decision establishes\<close>

text \<open>A decision that is this operation's, authorised, with evidence, and current at \<open>now\<close>.\<close>

definition current_decision :: "pylib \<Rightarrow> LegalActorOperation \<Rightarrow> json \<Rightarrow> instant \<Rightarrow> string \<Rightarrow> bool" where
  "current_decision L q response now mandate \<longleftrightarrow>
     jget response ''context_id'' = JStr (la_context q) \<and> jget response ''operation_reference'' = JStr (la_reference q)
     \<and> jget response ''provider_permissions_granted'' = JBool False
     \<and> (let r = jget response ''legal_actor_resolution'' in
          jget r ''outcome'' = JStr ''AUTHORIZED'' \<and> jget r ''responsible_legal_entity_id'' = JStr (la_entity q)
          \<and> jget r ''mandate_id'' = JStr mandate \<and> mandate \<noteq> [] \<and> evidence_ok (jget r ''evidence_references'')
          \<and> (\<exists>e v. read_instant L (py_str (jget r ''evaluated_at'')) = Some (Aware e)
               \<and> read_instant L (py_str (jget r ''valid_until'')) = Some (Aware v)
               \<and> e \<le> now + seconds 1 \<and> now \<le> e + seconds 30 \<and> now < v \<and> v \<le> e + seconds 31))"

lemma decision_lease_Inr:
  "decision_lease a b now = Inr u \<Longrightarrow>
     \<exists>e v. a = Aware e \<and> b = Aware v \<and> e \<le> now + seconds 1 \<and> now \<le> e + seconds 30 \<and> now < v \<and> v \<le> e + seconds 31"
  by (cases a; cases b) (auto simp: decision_lease_def MAX_DECISION_AGE_def seconds_def split: if_splits)

lemma nonempty_text_str: "nonempty_text v \<Longrightarrow> \<exists>s. v = JStr s \<and> s \<noteq> []"
  by (cases v) auto

lemma assert_current_decision_Inr:
  assumes "assert_current_decision L contract q response now = Inr mandate"
  shows "validate_operation contract q = Inr () \<and> contract ''legal_response'' response \<and> current_decision L q response now mandate"
proof -
  define r where "r = jget response ''legal_actor_resolution''"
  from assms obtain evaluated valid_until where
    v: "validate_operation contract q = Inr ()" "contract ''legal_response'' response"
    and c: "jget response ''context_id'' = JStr (la_context q)" "jget response ''operation_reference'' = JStr (la_reference q)"
      "jget response ''provider_permissions_granted'' = JBool False"
    and res: "jget r ''outcome'' = JStr ''AUTHORIZED''" "jget r ''responsible_legal_entity_id'' = JStr (la_entity q)"
      "nonempty_text (jget r ''mandate_id'')" "evidence_ok (jget r ''evidence_references'')"
    and t: "decision_time L r ''evaluated_at'' = Inr evaluated" "decision_time L r ''valid_until'' = Inr valid_until"
      "decision_lease evaluated valid_until now = Inr ()" and m: "mandate = py_str (jget r ''mandate_id'')"
    unfolding assert_current_decision_def r_def [symmetric] Let_def by (auto simp: bindE_Inr_iff)
  from t(1,2) have "read_instant L (py_str (jget r ''evaluated_at'')) = Some evaluated"
      "read_instant L (py_str (jget r ''valid_until'')) = Some valid_until"
    by (auto simp: decision_time_def split: if_splits)
  with decision_lease_Inr [OF t(3)] nonempty_text_str [OF res(3)] v c res m show ?thesis
    unfolding current_decision_def r_def [symmetric] Let_def by auto
qed

lemma assessed_Inr:
  assumes "assessed L contract now q assess msg s = (Inr m, s')"
  obtains d s1 s2 t where "assess (legal_request q) s = (Inr d, s1)" "now s1 = (Inr t, s2)" "s' = s2"
    "assert_current_decision L contract q d t = Inr m"
  using assms by (auto simp: assessed_def bindS_Inr_iff checkS_def split: if_splits)

text \<open>What the gate has seen when it opens.\<close>

definition twice_authorised :: "pylib \<Rightarrow> contracts \<Rightarrow> LegalActorOperation \<Rightarrow> 's assessor \<Rightarrow> 's clock \<Rightarrow> 's readiness \<Rightarrow> 's \<Rightarrow> 's \<Rightarrow> bool" where
  "twice_authorised L contract q assess now ensure s s' \<longleftrightarrow>
     (\<exists>d1 d2 t1 t2 m s1 s2 s3 s4. assess (legal_request q) s = (Inr d1, s1) \<and> now s1 = (Inr t1, s2)
        \<and> current_decision L q d1 t1 m \<and> ensure q m s2 = (Inr (), s3)
        \<and> assess (legal_request q) s3 = (Inr d2, s4) \<and> now s4 = (Inr t2, s') \<and> current_decision L q d2 t2 m)"

lemma legal_actor_gate_Inr:
  assumes "legal_actor_gate L contract now q assessor provider s = (Inr u, s')"
  shows "\<exists>assess ensure. assessor = Some assess \<and> provider = Some ensure \<and> validate_operation contract q = Inr ()
    \<and> twice_authorised L contract q assess now ensure s s'"
proof -
  from assms obtain assess ensure where ports: "assessor = Some assess" "provider = Some ensure"
    by (cases assessor; cases provider) (auto simp: legal_actor_gate_def bindS_def split: sum.splits)
  from assms obtain m s1 s2 m' where v: "validate_operation contract q = Inr ()"
    and a1: "assessed L contract now q assess ''CP legal actor assessment unavailable'' s = (Inr m, s1)"
    and e: "ensure q m s1 = (Inr (), s2)"
    and a2: "assessed L contract now q assess ''current CP legal actor authority unavailable'' s2 = (Inr m', s')" "m' = m"
    unfolding legal_actor_gate_def ports by (auto simp: bindS_Inr_iff checkS_def split: if_splits)
  from a1 obtain d1 x1 t1 where "assess (legal_request q) s = (Inr d1, x1)" "now x1 = (Inr t1, s1)"
      "current_decision L q d1 t1 m" by (auto elim!: assessed_Inr dest: assert_current_decision_Inr)
  moreover from a2 obtain d2 x2 t2 where "assess (legal_request q) s2 = (Inr d2, x2)" "now x2 = (Inr t2, s')"
      "current_decision L q d2 t2 m" by (auto elim!: assessed_Inr dest: assert_current_decision_Inr)
  ultimately have "twice_authorised L contract q assess now ensure s s'" unfolding twice_authorised_def using e by blast
  with ports v show ?thesis by blast
qed

section \<open>One write per governed action\<close>

text \<open>What the ports and the clock may do: talk to others, but not touch the markers, the permit or the engine.\<close>

definition quiet :: "('n, 'm) ctx_scheme \<Rightarrow> ('n, 'm) ctx_scheme \<Rightarrow> bool" where
  "quiet s s' \<longleftrightarrow> cx_action s' = cx_action s \<and> cx_invoice s' = cx_invoice s \<and> cx_spent s' = cx_spent s \<and> cx_sent s' = cx_sent s"

lemma quiet_rules: "reflp quiet" "transp quiet"
  by (auto simp: quiet_def intro: reflpI transpI)

lemmas quiet_within = within_stop [OF quiet_rules(1)] within_bindS [OF quiet_rules(2)] within_if
  within_case_option within_case_sum within_case_prod within_case_list rethrow_within

definition quiet_ports ::
  "('n, 'm) ctx_scheme clock \<Rightarrow> ('n, 'm) ctx_scheme assessor option \<Rightarrow> ('n, 'm) ctx_scheme readiness option
     \<Rightarrow> ('n, 'm) ctx_scheme assessor option \<Rightarrow> bool" where
  "quiet_ports now assessor provider documentary \<longleftrightarrow> within quiet now
     \<and> (\<forall>a j. assessor = Some a \<or> documentary = Some a \<longrightarrow> within quiet (a j))
     \<and> (\<forall>n q m. provider = Some n \<longrightarrow> within quiet (n q m))"

lemma legal_actor_gate_quiet:
  assumes "within quiet now" "\<And>a j. assessor = Some a \<Longrightarrow> within quiet (a j)" "\<And>n m. provider = Some n \<Longrightarrow> within quiet (n q m)"
  shows "within quiet (legal_actor_gate L contract now q assessor provider)"
  unfolding legal_actor_gate_def assessed_def by (intro quiet_within assms) auto

lemma documentary_and_native_quiet:
  assumes "quiet_ports now assessor (Some native) documentary"
  shows "within quiet (documentary_and_native L contract now native documentary q m)"
  using assms unfolding documentary_and_native_def require_documentary_scope_unblocked_def quiet_ports_def
  by (intro quiet_within) auto

lemma native_action_permits:
  assumes "within (permit_step env c) m" "authorised_native_action scope action ref m s = (r, s')"
  shows "\<exists>new. cx_sent s' = new @ cx_sent s \<and> count_where engine_write new \<le> 1 \<and> cx_action s' = cx_action s
    \<and> cx_spent s' = cx_spent s \<and> cx_invoice s' = cx_invoice s
    \<and> (\<forall>rq \<in> set new. engine_write rq \<longrightarrow> permitted env c (s\<lparr>cx_action := Some (ts_tenant scope, ts_entity scope, action, ref,
         ts_client scope, ts_org scope)\<rparr>) rq)"
proof -
  let ?s0 = "s\<lparr>cx_action := Some (ts_tenant scope, ts_entity scope, action, ref, ts_client scope, ts_org scope)\<rparr>"
  obtain r1 s1 where run: "m (?s0\<lparr>cx_spent := False\<rparr>) = (r1, s1)" by (metis prod.collapse)
  with assms(2) have s': "s' = s1\<lparr>cx_spent := cx_spent s, cx_action := cx_action s\<rparr>"
    by (simp add: authorised_native_action_def fresh_native_financial_operation_def)
  from withinD [OF assms(1) run] obtain new where "cx_sent s1 = new @ cx_sent s" "cx_invoice s1 = cx_invoice s"
      "\<forall>rq \<in> set new. engine_write rq \<longrightarrow> permitted env c (?s0\<lparr>cx_spent := False\<rparr>) rq" "count_where engine_write new \<le> 1"
    by (auto simp: permit_step_def permits_left_def)
  then show ?thesis by (intro exI [of _ new]) (simp add: s' permitted_def)
qed

text \<open>A documentary decision that leaves this operation's scope open, current at \<open>now\<close>.\<close>

definition scope_open :: "pylib \<Rightarrow> LegalActorOperation \<Rightarrow> json \<Rightarrow> instant \<Rightarrow> bool" where
  "scope_open L q raw now \<longleftrightarrow>
     jget raw ''context_id'' = JStr (la_context q) \<and> jget raw ''organisation_id'' = JStr (la_organisation q)
     \<and> jget raw ''capability'' = JStr (la_capability q) \<and> jget raw ''market'' = JStr (la_market q)
     \<and> jget raw ''operation_reference'' = JStr (la_reference q) \<and> jget raw ''blocked'' = JBool False
     \<and> jget raw ''authority_granted'' = JBool False
     \<and> (\<exists>e x. restriction_instant L (jget raw ''evaluated_at'') = Inr e \<and> restriction_instant L (jget raw ''expires_at'') = Inr x
          \<and> e \<le> now + seconds 1 \<and> now \<le> e + seconds 3 \<and> now < x \<and> e < x \<and> x \<le> e + seconds 2)"

lemma documentary_Inr:
  assumes "require_documentary_scope_unblocked L contract q documentary now s = (Inr u, s')"
  obtains d request raw where "documentary = Some d" "restriction_request contract q = Inr request" "d request s = (Inr raw, s')"
    "scope_open L q raw now"
  using assms
  by (auto simp: require_documentary_scope_unblocked_def bindS_Inr_iff assert_documentary_scope_unblocked_def bindE_Inr_iff checkE_def
      scope_open_def MAX_AGE_def MAX_LEASE_def split: option.splits if_splits)

text \<open>
  What a governed native action has seen when it opens: Control Plane's authorisation, the documentary scope open, the native
  provider's readiness, the documentary scope open again, and Control Plane's authorisation of the same mandate again, in this order.
\<close>

definition agreed ::
  "pylib \<Rightarrow> contracts \<Rightarrow> LegalActorOperation \<Rightarrow> 's assessor \<Rightarrow> 's clock \<Rightarrow> 's readiness \<Rightarrow> 's assessor \<Rightarrow> 's \<Rightarrow> 's \<Rightarrow> bool" where
  "agreed L contract q assess now native d s s' \<longleftrightarrow>
     (\<exists>request m d1 t1 u1 v1 u2 v2 d2 t2 s1 s2 s3 s4 s5 s6 s7 s8. restriction_request contract q = Inr request
        \<and> assess (legal_request q) s = (Inr d1, s1) \<and> now s1 = (Inr t1, s2) \<and> current_decision L q d1 t1 m
        \<and> now s2 = (Inr u1, s3) \<and> d request s3 = (Inr v1, s4) \<and> scope_open L q v1 u1
        \<and> native q m s4 = (Inr (), s5)
        \<and> now s5 = (Inr u2, s6) \<and> d request s6 = (Inr v2, s7) \<and> scope_open L q v2 u2
        \<and> assess (legal_request q) s7 = (Inr d2, s8) \<and> now s8 = (Inr t2, s') \<and> current_decision L q d2 t2 m)"

lemma twice_authorised_agreed:
  assumes "twice_authorised L contract q a now (documentary_and_native L contract now native documentary) s s'"
  shows "\<exists>d. documentary = Some d \<and> agreed L contract q a now native d s s'"
proof -
  from assms obtain d1 d2 t1 t2 m s1 s2 s3 s8 where
    l: "a (legal_request q) s = (Inr d1, s1)" "now s1 = (Inr t1, s2)" "current_decision L q d1 t1 m"
      "a (legal_request q) s3 = (Inr d2, s8)" "now s8 = (Inr t2, s')" "current_decision L q d2 t2 m"
    and e: "documentary_and_native L contract now native documentary q m s2 = (Inr (), s3)"
    unfolding twice_authorised_def by blast
  from e obtain u1 x1 x2 x3 u2 x4 where "now s2 = (Inr u1, x1)"
      and r1: "require_documentary_scope_unblocked L contract q documentary u1 x1 = (Inr (), x2)"
      and "native q m x2 = (Inr (), x3)" "now x3 = (Inr u2, x4)"
      and r2: "require_documentary_scope_unblocked L contract q documentary u2 x4 = (Inr (), s3)"
    by (auto simp: documentary_and_native_def bindS_Inr_iff)
  moreover from r1 obtain d request v1 where "documentary = Some d" "restriction_request contract q = Inr request" "d request x1 = (Inr v1, x2)"
      "scope_open L q v1 u1" by (rule documentary_Inr)
  moreover from r2 this(1,2) obtain v2 where "d request x4 = (Inr v2, s3)" "scope_open L q v2 u2" by (auto elim!: documentary_Inr)
  ultimately show ?thesis using l unfolding agreed_def by blast
qed

text \<open>
  Whatever the body of a governed action does through the client (\<open>permit_step\<close>), the engine sees at most one write,
  and only when everyone agreed.
\<close>

lemma governed_body_single_write:
  assumes "within (permit_step env c) execute" "quiet_ports now assessor provider documentary"
    "perform_governed_native_action L contract now policy q scope ref assessor provider documentary execute s = (r, s')"
  shows "\<exists>new. cx_sent s' = new @ cx_sent s \<and> cx_action s' = cx_action s \<and> cx_spent s' = cx_spent s \<and> cx_invoice s' = cx_invoice s
    \<and> (count_where engine_write new = 0 \<or> (count_where engine_write new = 1
        \<and> (\<exists>p a native d s0. policy = Some p \<and> policy_binds p q scope ref \<and> assessor = Some a \<and> provider = Some native
             \<and> documentary = Some d \<and> agreed L contract q a now native d s s0
             \<and> authorised_native_action scope (np_action p) ref execute s0 = (r, s')
             \<and> (\<forall>rq \<in> set new. engine_write rq \<longrightarrow> permitted env c (s\<lparr>cx_action := Some (ts_tenant scope, ts_entity scope,
                  np_action p, ref, ts_client scope, ts_org scope)\<rparr>) rq))))"
proof (cases "\<exists>p native. policy = Some p \<and> provider = Some native \<and> policy_binds p q scope ref \<and> assessor \<noteq> None \<and> documentary \<noteq> None")
  case False
  with assms(3) have "s' = s"
    by (auto simp: perform_governed_native_action_def split: option.splits if_splits)
  then show ?thesis by simp
next
  case True
  then obtain p native where p: "policy = Some p" "provider = Some native" "policy_binds p q scope ref" "assessor \<noteq> None" "documentary \<noteq> None"
    by blast
  let ?ensure = "documentary_and_native L contract now native documentary"
  have quiet: "within quiet (legal_actor_gate L contract now q assessor (Some ?ensure))"
  proof (rule legal_actor_gate_quiet)
    show "within quiet now" using assms(2) by (simp add: quiet_ports_def)
    show "within quiet (a j)" if "assessor = Some a" for a j using that assms(2) by (simp add: quiet_ports_def)
    show "within quiet (n q m)" if "Some ?ensure = Some n" for n m
      using that documentary_and_native_quiet assms(2) p(2) by blast
  qed
  obtain g s1 where gate: "legal_actor_gate L contract now q assessor (Some ?ensure) s = (g, s1)" by (metis prod.collapse)
  from withinD [OF quiet gate] have q: "cx_action s1 = cx_action s" "cx_invoice s1 = cx_invoice s" "cx_spent s1 = cx_spent s" "cx_sent s1 = cx_sent s"
    by (simp_all add: quiet_def)
  show ?thesis
  proof (cases g)
    case (Inl e)
    with gate assms(3) p have "s' = s1"
      by (auto simp: perform_governed_native_action_def perform_governed_financial_action_def bindS_def)
    with q show ?thesis by simp
  next
    case (Inr u)
    with gate assms(3) p have run: "authorised_native_action scope (np_action p) ref execute s1 = (r, s')"
      by (auto simp: perform_governed_native_action_def perform_governed_financial_action_def bindS_def)
    from legal_actor_gate_Inr [OF gate [unfolded Inr]] obtain a where
      a: "assessor = Some a" "twice_authorised L contract q a now ?ensure s s1" by auto
    from native_action_permits [OF assms(1) run] obtain new where n: "cx_sent s' = new @ cx_sent s1"
        "count_where engine_write new \<le> 1" "cx_action s' = cx_action s1" "cx_spent s' = cx_spent s1" "cx_invoice s' = cx_invoice s1"
        "\<forall>rq \<in> set new. engine_write rq \<longrightarrow> permitted env c (s1\<lparr>cx_action := Some (ts_tenant scope, ts_entity scope, np_action p, ref,
         ts_client scope, ts_org scope)\<rparr>) rq"
      by blast
    then have "count_where engine_write new = 0 \<or> count_where engine_write new = 1" by linarith
    moreover from twice_authorised_agreed [OF a(2)] obtain d where d: "documentary = Some d" "agreed L contract q a now native d s s1" by blast
    ultimately show ?thesis using n q a(1) p run
      by (intro exI [of _ new]) (auto simp: permitted_def)
  qed
qed

definition sample_time_lib :: pylib where
  "sample_time_lib = (sample_lib sample_answer)\<lparr>fromisoformat := (\<lambda>s.
     if s = ''2026-01-01T00:00:00+00:00'' then Some (Aware 0)
     else if s = ''2026-01-01T00:00:01+00:00'' then Some (Aware 1000000) else None)\<rparr>"

definition sample_operation :: LegalActorOperation where
  "sample_operation = \<lparr>la_context = ''c'', la_tenant = ''tn_1'', la_organisation = ''o'', la_entity = ''BV'', la_role = ''CONTRACTING_PARTY'',
     la_activity = ''sell'', la_market = ''KE'', la_capability = ''sales'', la_reference = ''order_1''\<rparr>"

definition sample_decision :: json where
  "sample_decision = JObj [(''context_id'', JStr ''c''), (''operation_reference'', JStr ''order_1''),
     (''provider_permissions_granted'', JBool False),
     (''legal_actor_resolution'', JObj [(''outcome'', JStr ''AUTHORIZED''), (''responsible_legal_entity_id'', JStr ''BV''),
        (''mandate_id'', JStr ''m''), (''evidence_references'', JArr [JStr ''e'']),
        (''evaluated_at'', JStr ''2026-01-01T00:00:00Z''), (''valid_until'', JStr ''2026-01-01T00:00:01Z'')])]"

definition sample_veto :: json where
  "sample_veto = JObj [(''context_id'', JStr ''c''), (''organisation_id'', JStr ''o''), (''capability'', JStr ''sales''),
     (''market'', JStr ''KE''), (''operation_reference'', JStr ''order_1''), (''policy_reference'', JStr POLICY),
     (''blocked'', JBool False), (''authority_granted'', JBool False),
     (''evaluated_at'', JStr ''2026-01-01T00:00:00Z''), (''expires_at'', JStr ''2026-01-01T00:00:01Z'')]"

definition sample_policy :: NativeActionPolicy where
  "sample_policy = \<lparr>np_action = ''create_sales_order'', np_activity = ''sell'', np_capability = ''sales'', np_authority = ''r''\<rparr>"

definition sample_scope :: TenantScope where
  "sample_scope = \<lparr>ts_tenant = ''tn_1'', ts_entity = ''BV'', ts_client = 11, ts_org = 50\<rparr>"

text \<open>C26: A decision does not outlive its moment: the Control Plane's authorisation is accepted only for exactly this
  operation and legal entity, at most 30 seconds after it was evaluated, at most one second before it, and before it
  expires; so two acceptances of one decision name the same mandate and lie at most 31 seconds apart.\<close>

theorem decision_freshness:
  assumes "assert_current_decision L contract q response t1 = Inr m1" "assert_current_decision L contract q response t2 = Inr m2"
  shows "current_decision L q response t1 m1 \<and> m1 = m2 \<and> \<bar>t2 - t1\<bar> \<le> seconds 31"
proof -
  note d1 = assert_current_decision_Inr [OF assms(1)] and d2 = assert_current_decision_Inr [OF assms(2)]
  from d1 d2 have "m1 = m2" by (auto simp: current_decision_def Let_def)
  moreover from d1 d2 have "\<bar>t2 - t1\<bar> \<le> seconds 31" by (auto simp: current_decision_def Let_def seconds_def)
  ultimately show ?thesis using d1 by blast
qed

lemma sample_accepted: "assert_current_decision sample_time_lib (\<lambda>n v. True) sample_operation sample_decision 0 = Inr ''m''"
  by code_simp

theorem decision_freshness_witness:
  "current_decision sample_time_lib sample_operation sample_decision 0 ''m''"
  using decision_freshness [OF sample_accepted sample_accepted] by blast

end
