(* ===== verification/Master_Data.thy ===== *)
theory Master_Data
  imports Prelude Py
begin

text \<open>
  The master-data mapping of an engine instance's customers, products and provisioned records
  (\<open>modules/provisioning/master_data_mapping.py\<close>, migrations 0010 and 0023), as the inbox executors read it
  (\<open>PostgresMasterData.native\<close>), and the provisioning steps' own native mapping
  (\<open>native_mapping_store.py\<close>, migration 0009).
\<close>

record master_row =
  mr_engine :: string
  mr_entity :: string
  mr_kind :: string
  mr_canonical :: string
  mr_native :: int
  mr_digest :: string
  mr_version :: string
  mr_public :: string

type_synonym master_key = "string \<times> string \<times> string \<times> string"

definition master_key :: "master_row \<Rightarrow> master_key" where
  "master_key r = (mr_engine r, mr_entity r, mr_kind r, mr_canonical r)"

definition master_get :: "master_key \<Rightarrow> master_row list \<Rightarrow> (int \<times> string \<times> string) option" where
  "master_get k rows = map_option (\<lambda>r. (mr_native r, mr_digest r, mr_version r)) (select_one (\<lambda>r. master_key r = k) rows)"

text \<open>
  The upsert: \<open>fresh\<close> is the public id the column default mints for a new row; an existing row keeps its own.
  It returns the row's public id.
\<close>

definition master_put :: "master_key \<Rightarrow> int \<Rightarrow> string \<Rightarrow> string \<Rightarrow> string \<Rightarrow> master_row list \<Rightarrow> string \<times> master_row list" where
  "master_put k native digest version fresh rows =
     (case select_one (\<lambda>r. master_key r = k) rows of
        Some r \<Rightarrow> (mr_public r, update_where (\<lambda>r. master_key r = k)
          (\<lambda>r. r\<lparr>mr_native := native, mr_digest := digest, mr_version := version\<rparr>) rows)
      | None \<Rightarrow> (case k of (engine, entity, kind, canonical) \<Rightarrow>
          (fresh, rows @ [\<lparr>mr_engine = engine, mr_entity = entity, mr_kind = kind, mr_canonical = canonical, mr_native = native,
             mr_digest = digest, mr_version = version, mr_public = fresh\<rparr>])))"

definition master_native :: "string \<Rightarrow> string \<Rightarrow> string \<Rightarrow> string \<Rightarrow> master_row list \<Rightarrow> int option" where
  "master_native engine entity kind canonical rows =
     map_option mr_native (select_one (\<lambda>r. master_key r = (engine, entity, kind, canonical)) rows)"

text \<open>The store of the provisioning adapter.\<close>

type_synonym native_rows = "((string \<times> string) \<times> int) list"

definition get_native_id :: "string \<Rightarrow> string \<Rightarrow> native_rows \<Rightarrow> int option" where
  "get_native_id provisioning_id resource_key rows = map_of rows (provisioning_id, resource_key)"

definition put_native_id :: "string \<Rightarrow> string \<Rightarrow> int \<Rightarrow> native_rows \<Rightarrow> native_rows" where
  "put_native_id provisioning_id resource_key native rows =
     (if map_of rows (provisioning_id, resource_key) = None then rows @ [((provisioning_id, resource_key), native)]
      else update_where (\<lambda>r. fst r = (provisioning_id, resource_key)) (\<lambda>r. (fst r, native)) rows)"

section \<open>The laws of the stores\<close>

text \<open>A store that maps a key to a value: what was put is read back, other keys are not touched, one row per key.\<close>

locale keyed_store =
  fixes read :: "'k \<Rightarrow> 's \<Rightarrow> 'v option"
    and put :: "'k \<Rightarrow> 'v \<Rightarrow> 's \<Rightarrow> 's"
  assumes read_put: "read k (put k' v s) = (if k = k' then Some v else read k s)"
begin

lemma read_puts:
  "read k (fold (\<lambda>(k, v). put k v) kvs s) = (case map_of (rev kvs) k of None \<Rightarrow> read k s | Some v \<Rightarrow> Some v)"
proof (induction kvs arbitrary: s)
  case (Cons kv kvs)
  show ?case
    by (cases kv) (simp add: Cons.IH read_put map_add_def split: option.split)
qed simp

lemma last_put_wins: "read k (put k v (put k w s)) = Some v"
  by (simp add: read_put)

end

lemma select_one_master_put:
  "select_one (\<lambda>r. master_key r = k) (snd (master_put k' n d v fresh rows)) =
     (if k = k' then Some (case select_one (\<lambda>r. master_key r = k') rows of
        Some r \<Rightarrow> r\<lparr>mr_native := n, mr_digest := d, mr_version := v\<rparr>
      | None \<Rightarrow> (case k' of (engine, entity, kind, canonical) \<Rightarrow>
          \<lparr>mr_engine = engine, mr_entity = entity, mr_kind = kind, mr_canonical = canonical, mr_native = n, mr_digest = d,
           mr_version = v, mr_public = fresh\<rparr>))
      else select_one (\<lambda>r. master_key r = k) rows)"
proof (cases "select_one (\<lambda>r. master_key r = k') rows")
  case None
  then have "select_one (\<lambda>r. master_key r = k) rows = None" if "k = k'" using that by simp
  with None show ?thesis
    by (cases k') (auto simp: master_put_def select_one_append master_key_def split: option.split)
next
  case (Some r)
  let ?f = "\<lambda>r. r\<lparr>mr_native := n, mr_digest := d, mr_version := v\<rparr>"
  have key: "master_key (?f r) = master_key r" for r by (simp add: master_key_def)
  show ?thesis
  proof (cases "k = k'")
    case True
    with Some select_one_update_same [of "\<lambda>r. master_key r = k'" ?f rows] key show ?thesis by (simp add: master_put_def)
  next
    case False
    with Some select_one_update_other [of "\<lambda>r. master_key r = k'" "\<lambda>r. master_key r = k" ?f rows] key
    show ?thesis by (simp add: master_put_def)
  qed
qed

definition put_master :: "master_key \<Rightarrow> int \<times> string \<times> string \<Rightarrow> master_row list \<Rightarrow> master_row list" where
  "put_master k v rows = snd (master_put k (fst v) (fst (snd v)) (snd (snd v)) [] rows)"

interpretation master: keyed_store master_get put_master
proof
  fix k k' v rows
  show "master_get k (put_master k' v rows) = (if k = k' then Some v else master_get k rows)"
    by (cases "select_one (\<lambda>r. master_key r = k') rows")
      (auto simp: master_get_def put_master_def select_one_master_put split: prod.split option.split)
qed

lemma map_of_update_where:
  "map_of (update_where (\<lambda>r. fst r = k) (\<lambda>r. (fst r, v)) rows) x = (if x = k \<and> map_of rows k \<noteq> None then Some v else map_of rows x)"
  by (induction rows) auto

interpretation native_ids: keyed_store "\<lambda>k. get_native_id (fst k) (snd k)" "\<lambda>k. put_native_id (fst k) (snd k)"
proof
  fix k k' :: "string \<times> string" and v rows
  show "get_native_id (fst k) (snd k) (put_native_id (fst k') (snd k') v rows) =
      (if k = k' then Some v else get_native_id (fst k) (snd k) rows)"
    by (cases "map_of rows k'") (auto simp: get_native_id_def put_native_id_def map_of_update_where map_add_def split: option.split)
qed

section \<open>Public identifiers\<close>

text \<open>C31: A public identifier is for ever: whatever is written to the master-data mapping afterwards, under this key or
  others and with any native id, digest or version, a key keeps the identifier its first write minted, the last write
  is what is read, and the executors' look-up agrees with the store's.\<close>

theorem public_id_stable:
  assumes "select_one (\<lambda>r. master_key r = k) rows = Some r"
  shows "mr_public (the (select_one (\<lambda>r. master_key r = k) (snd (master_put k' n d v fresh rows)))) = mr_public r
    \<and> fst (master_put k n d v fresh rows) = mr_public r
    \<and> master_get k (fold (\<lambda>(k, w). put_master k w) writes rows)
        = (case map_of (rev writes) k of None \<Rightarrow> Some (mr_native r, mr_digest r, mr_version r) | Some w \<Rightarrow> Some w)
    \<and> (\<lambda>(e, l, t, c). master_native e l t c) k rows = map_option fst (master_get k rows)"
proof (intro conjI)
  show "mr_public (the (select_one (\<lambda>r. master_key r = k) (snd (master_put k' n d v fresh rows)))) = mr_public r"
    using assms by (auto simp: select_one_master_put split: option.split)
  show "fst (master_put k n d v fresh rows) = mr_public r" using assms by (simp add: master_put_def)
  have "master_get k rows = Some (mr_native r, mr_digest r, mr_version r)" using assms by (simp add: master_get_def)
  then show "master_get k (fold (\<lambda>(k, w). put_master k w) writes rows)
        = (case map_of (rev writes) k of None \<Rightarrow> Some (mr_native r, mr_digest r, mr_version r) | Some w \<Rightarrow> Some w)"
    by (simp add: master.read_puts split: option.split)
  show "(\<lambda>(e, l, t, c). master_native e l t c) k rows = map_option fst (master_get k rows)"
    by (cases k) (simp add: master_native_def master_get_def option.map_comp comp_def)
qed

definition sample_masters :: "master_row list" where
  "sample_masters = [\<lparr>mr_engine = ''e'', mr_entity = ''BV'', mr_kind = ''product'', mr_canonical = ''sku_1'', mr_native = 31,
     mr_digest = ''d'', mr_version = ''1'', mr_public = ''erp_p''\<rparr>]"

theorem public_id_stable_witness:
  "fst (master_put (''e'', ''BV'', ''product'', ''sku_1'') 99 ''d2'' ''2'' ''erp_new'' sample_masters) = ''erp_p''"
proof -
  have "select_one (\<lambda>r. master_key r = (''e'', ''BV'', ''product'', ''sku_1'')) sample_masters = Some (hd sample_masters)"
    by (simp add: sample_masters_def master_key_def)
  from public_id_stable [OF this, THEN conjunct2, THEN conjunct1] show ?thesis by (simp add: sample_masters_def)
qed

end
