(* ===== verification/Provisioning_Plan.thy ===== *)
theory Provisioning_Plan
  imports Accounting_Outcomes Rest_Client "HOL-Library.FSet" "HOL-Library.List_Lexorder" "HOL-Library.Char_ord"
begin

text \<open>
  A request to provision a legal entity (\<open>modules/provisioning/model.py\<close>), what makes it valid
  (\<open>validation.py\<close>), the deterministic plan of it (\<open>planner.py\<close>), the way it is stored and read back
  (\<open>request_state.py\<close>), the engine's process ids (\<open>native_processes.py\<close>), the onboarding states
  (\<open>lifecycle.py\<close>) and the activation gates (\<open>activation.py\<close>).
\<close>

section \<open>The model\<close>

datatype ProvisioningStatus = REQUESTED | VALIDATING | PLANNED | APPLYING | RECONCILING | READY | ACTIVE | FAILED | SUSPENDED

datatype StepKind = CREATE_CLIENT | CREATE_ORGANISATION | CONFIGURE_ACCOUNTING | CONFIGURE_LOCALISATION | CREATE_WAREHOUSE | PERSIST_MAPPING

fun kind_text :: "StepKind \<Rightarrow> string" where
  "kind_text CREATE_CLIENT = ''create_client''"
| "kind_text CREATE_ORGANISATION = ''create_organisation''"
| "kind_text CONFIGURE_ACCOUNTING = ''configure_accounting''"
| "kind_text CONFIGURE_LOCALISATION = ''configure_localisation''"
| "kind_text CREATE_WAREHOUSE = ''create_warehouse''"
| "kind_text PERSIST_MAPPING = ''persist_mapping''"

text \<open>A \<open>frozenset\<close> of strings is a finite set; a date is its proleptic day number.\<close>

record MarketConfiguration =
  mk_id :: string
  mk_country :: string
  mk_capabilities :: "string fset"
  mk_currencies :: "string list"
  mk_profile :: string
  mk_warehouses :: "string list"
  mk_timezones :: "(string \<times> string) list"

definition timezone_of :: "MarketConfiguration \<Rightarrow> string \<Rightarrow> string option" where
  "timezone_of m c = map_of (rev (mk_timezones m)) c"

record AccountingConfiguration =
  ac_currency :: string
  ac_year_start :: int
  ac_chart :: string
  ac_schema :: string
  ac_tax :: string
  ac_costing :: string
  ac_approved_by :: string
  ac_approved_at :: datetime

record ErpProvisioningRequest =
  rq_provisioning :: string
  rq_key :: string
  rq_tenant :: string
  rq_entity :: string
  rq_name :: string
  rq_registration :: string
  rq_jurisdiction :: string
  rq_engine :: string
  rq_isolation :: string
  rq_digest :: string
  rq_environment :: string
  rq_effective :: int
  rq_accounting :: AccountingConfiguration
  rq_markets :: "MarketConfiguration list"
  rq_capabilities :: "string fset"

record ProvisioningStep =
  ps_key :: string
  ps_kind :: StepKind
  ps_payload :: fields

record ProvisioningPlan =
  pp_provisioning :: string
  pp_digest :: string
  pp_steps :: "ProvisioningStep list"

record ReadinessCheck =
  rc_code :: string
  rc_ready :: bool
  rc_detail :: string

definition readiness_ready :: "ReadinessCheck list \<Rightarrow> bool" where
  "readiness_ready checks = (checks \<noteq> [] \<and> list_all rc_ready checks)"

definition PENDING_DATE :: int where "PENDING_DATE = 1"
definition PENDING_DATETIME :: datetime where "PENDING_DATETIME = Aware (seconds (- 62135596800))"

section \<open>Validation\<close>

definition SUPPORTED_CAPABILITIES :: "string fset" where
  "SUPPORTED_CAPABILITIES = {|''finance.order-consequence.process''|}"

definition ISOLATION_REQUIREMENTS :: "string list" where
  "ISOLATION_REQUIREMENTS = [''schema_per_tenant'', ''row_level_security'']"

definition MARKET_CAPABILITIES :: "string fset" where
  "MARKET_CAPABILITIES = fset_of_list [''legal_presence'', ''sourcing'', ''procurement'', ''selling'', ''importing'', ''exporting'',
     ''warehousing'', ''distribution'', ''fulfilment'', ''processing'', ''transit'']"

definition readiness_check :: "string \<Rightarrow> bool \<Rightarrow> string \<Rightarrow> ReadinessCheck" where
  "readiness_check name ready detail = \<lparr>rc_code = name, rc_ready = ready, rc_detail = detail\<rparr>"

definition placeholder :: "string \<Rightarrow> bool" where
  "placeholder v = starts_with v ''REQUIRED_''"

definition configured_check :: "string \<Rightarrow> string \<times> string \<Rightarrow> ReadinessCheck" where
  "configured_check prefix nv = (let valid = nonblank (snd nv) \<and> \<not> placeholder (snd nv) in
     readiness_check (prefix @ ''.'' @ fst nv) valid (if valid then ''configured'' else ''missing or placeholder''))"

definition or_missing :: "string \<Rightarrow> string" where
  "or_missing s = (if s = [] then ''missing'' else s)"

definition required_text :: "ErpProvisioningRequest \<Rightarrow> (string \<times> string) list" where
  "required_text r = [(''provisioning_id'', rq_provisioning r), (''idempotency_key'', rq_key r), (''tenant_id'', rq_tenant r),
     (''legal_entity_id'', rq_entity r), (''legal_name'', rq_name r), (''registration_identifier'', rq_registration r),
     (''jurisdiction_code'', rq_jurisdiction r), (''engine_instance_id'', rq_engine r), (''isolation_requirement'', rq_isolation r),
     (''plan_digest'', rq_digest r), (''accounting.approved_by'', ac_approved_by (rq_accounting r))]"

definition accounting_values :: "AccountingConfiguration \<Rightarrow> (string \<times> string) list" where
  "accounting_values a = [(''functional_currency'', ac_currency a), (''chart_of_accounts_template'', ac_chart a),
     (''accounting_schema'', ac_schema a), (''tax_profile'', ac_tax a), (''costing_method'', ac_costing a)]"

definition capability_checks :: "string fset \<Rightarrow> ReadinessCheck list" where
  "capability_checks requested =
     (let unsupported = sorted_list_of_fset (requested |-| SUPPORTED_CAPABILITIES);
          ok = requested \<noteq> {||} \<and> unsupported = [] in
      [readiness_check ''capabilities.supported'' ok (if ok then ''supported'' else if requested = {||} then ''none requested''
         else ''unsupported: '' @ join '', '' unsupported)])"

definition approval_checks :: "AccountingConfiguration \<Rightarrow> int \<Rightarrow> ReadinessCheck list" where
  "approval_checks a effective =
     [readiness_check ''accounting.fiscal_year'' (1 \<le> ac_year_start a \<and> ac_year_start a \<le> 12) (''start_month='' @ show_int (ac_year_start a)),
      readiness_check ''accounting.approval'' (nonblank (ac_approved_by a))
        (if nonblank (ac_approved_by a) then ''finance approval recorded'' else ''finance approval required''),
      readiness_check ''accounting.approved_at'' (ac_approved_at a \<noteq> PENDING_DATETIME)
        (if ac_approved_at a \<noteq> PENDING_DATETIME then ''recorded'' else ''missing or placeholder''),
      readiness_check ''effective_date'' (effective \<noteq> PENDING_DATE) (if effective \<noteq> PENDING_DATE then ''recorded'' else ''missing or placeholder'')]"

definition market_check_list :: "bool \<Rightarrow> MarketConfiguration \<Rightarrow> ReadinessCheck list" where
  "market_check_list unique m =
     (let name = (\<lambda>aspect. ''market.'' @ mk_id m @ ''.'' @ aspect);
          unknown = sorted_list_of_fset (mk_capabilities m |-| MARKET_CAPABILITIES) in
      [readiness_check (name ''unique'') unique (if unique then ''unique'' else ''duplicate''),
       readiness_check (name ''capabilities'') (unknown = []) (if unknown = [] then ''valid'' else ''unknown: '' @ join '', '' unknown),
       readiness_check (name ''localisation'') (mk_profile m \<noteq> [] \<and> \<not> placeholder (mk_profile m)) (or_missing (mk_profile m)),
       readiness_check (name ''currencies'') (mk_currencies m \<noteq> [] \<and> list_all (\<lambda>c. length c = 3 \<and> py_isupper c) (mk_currencies m))
         (or_missing (join '','' (mk_currencies m))),
       readiness_check (name ''warehouses'') (mk_warehouses m \<noteq> [] \<and> list_all (\<lambda>c. \<not> placeholder c) (mk_warehouses m))
         (or_missing (join '','' (mk_warehouses m)))])"

fun market_checks :: "string list \<Rightarrow> MarketConfiguration list \<Rightarrow> ReadinessCheck list" where
  "market_checks seen [] = []"
| "market_checks seen (m # ms) = market_check_list (mk_id m \<notin> set seen) m @ market_checks (mk_id m # seen) ms"

definition validate_request :: "ErpProvisioningRequest \<Rightarrow> ReadinessCheck list" where
  "validate_request r =
     map (configured_check ''required'') (required_text r)
     @ [readiness_check ''environment.production'' (rq_environment r = ''production'') (''target='' @ rq_environment r)]
     @ map (configured_check ''accounting'') (accounting_values (rq_accounting r))
     @ capability_checks (rq_capabilities r)
     @ [readiness_check ''isolation.requirement'' (rq_isolation r \<in> set ISOLATION_REQUIREMENTS) (or_missing (rq_isolation r))]
     @ approval_checks (rq_accounting r) (rq_effective r)
     @ market_checks [] (rq_markets r)"

definition invalid_request :: "ReadinessCheck list \<Rightarrow> exn" where
  "invalid_request failures =
     Exn ''InvalidProvisioningRequestError'' (join ''; '' (map (\<lambda>c. rc_code c @ '': '' @ rc_detail c) failures))"

definition require_valid_request :: "ErpProvisioningRequest \<Rightarrow> exn + ReadinessCheck list" where
  "require_valid_request r =
     (let checks = validate_request r; failures = filter (\<lambda>c. \<not> rc_ready c) checks in
      if failures \<noteq> [] then Inl (invalid_request failures) else Inr checks)"

section \<open>The plan\<close>

text \<open>The printer and reader of dates, and the printer of a \<open>datetime\<close> (\<open>str\<close>).\<close>

record calendar =
  day_text :: "int \<Rightarrow> string"
  read_day :: "string \<Rightarrow> int option"
  moment_text :: "datetime \<Rightarrow> string"

definition str_set :: "string fset \<Rightarrow> json" where
  "str_set A = JArr (map JStr (sorted_list_of_fset A))"

definition market_state :: "MarketConfiguration \<Rightarrow> json" where
  "market_state m = JObj
     ([(''market_id'', JStr (mk_id m)), (''country_code'', JStr (mk_country m)),
       (''participation_capabilities'', str_set (mk_capabilities m)), (''currencies'', JArr (map JStr (mk_currencies m))),
       (''localisation_profile'', JStr (mk_profile m)), (''warehouse_codes'', JArr (map JStr (mk_warehouses m)))]
      @ (if mk_timezones m = [] then []
         else [(''warehouse_timezones'', JArr (map (\<lambda>(c, z). JArr [JStr c, JStr z]) (mk_timezones m)))]))"

definition accounting_state :: "calendar \<Rightarrow> AccountingConfiguration \<Rightarrow> json" where
  "accounting_state K a = JObj
     [(''functional_currency'', JStr (ac_currency a)), (''fiscal_year_start_month'', JInt (ac_year_start a)),
      (''chart_of_accounts_template'', JStr (ac_chart a)), (''accounting_schema'', JStr (ac_schema a)), (''tax_profile'', JStr (ac_tax a)),
      (''costing_method'', JStr (ac_costing a)), (''approved_by'', JStr (ac_approved_by a)),
      (''approved_at'', JStr (moment_text K (ac_approved_at a)))]"

text \<open>The document of \<open>desired_state_json\<close>; its text is \<open>json_dumps\<close> of it.\<close>

definition desired_state :: "calendar \<Rightarrow> ErpProvisioningRequest \<Rightarrow> json" where
  "desired_state K r = JObj
     [(''provisioning_id'', JStr (rq_provisioning r)), (''idempotency_key'', JStr (rq_key r)), (''tenant_id'', JStr (rq_tenant r)),
      (''legal_entity_id'', JStr (rq_entity r)), (''legal_name'', JStr (rq_name r)),
      (''registration_identifier'', JStr (rq_registration r)), (''jurisdiction_code'', JStr (rq_jurisdiction r)),
      (''engine_instance_id'', JStr (rq_engine r)), (''isolation_requirement'', JStr (rq_isolation r)),
      (''plan_digest'', JStr (rq_digest r)), (''target_environment'', JStr (rq_environment r)),
      (''effective_date'', JStr (day_text K (rq_effective r))), (''accounting'', accounting_state K (rq_accounting r)),
      (''markets'', JArr (map market_state (rq_markets r))), (''requested_capabilities'', str_set (rq_capabilities r))]"

definition desired_state_digest :: "pylib \<Rightarrow> calendar \<Rightarrow> ErpProvisioningRequest \<Rightarrow> string" where
  "desired_state_digest L K r = sha256_hex L (json_dumps L (desired_state K r))"

definition plan_step :: "string \<Rightarrow> StepKind \<Rightarrow> fields \<Rightarrow> ProvisioningStep" where
  "plan_step key kind payload = \<lparr>ps_key = key, ps_kind = kind, ps_payload = payload\<rparr>"

definition warehouse_step :: "string \<Rightarrow> MarketConfiguration \<Rightarrow> string \<Rightarrow> ProvisioningStep" where
  "warehouse_step prefix m warehouse =
     plan_step (prefix @ '':warehouse:'' @ mk_id m @ '':'' @ warehouse) CREATE_WAREHOUSE
       ([(''market_id'', JStr (mk_id m)), (''warehouse_code'', JStr warehouse)]
        @ (case timezone_of m warehouse of Some z \<Rightarrow> if z = [] then [] else [(''timezone'', JStr z)] | None \<Rightarrow> []))"

definition market_steps :: "string \<Rightarrow> MarketConfiguration \<Rightarrow> ProvisioningStep list" where
  "market_steps prefix m =
     plan_step (prefix @ '':market:'' @ mk_id m) CONFIGURE_LOCALISATION
       [(''market_id'', JStr (mk_id m)), (''country_code'', JStr (mk_country m)), (''profile'', JStr (mk_profile m))]
     # map (warehouse_step prefix m) (sort (mk_warehouses m))"

definition plan_steps :: "string \<Rightarrow> ErpProvisioningRequest \<Rightarrow> ProvisioningStep list" where
  "plan_steps prefix r =
     (let a = rq_accounting r in
      [plan_step (prefix @ '':client'') CREATE_CLIENT [(''Name'', JStr (rq_name r))],
       plan_step (prefix @ '':accounting'') CONFIGURE_ACCOUNTING
         [(''functional_currency'', JStr (ac_currency a)), (''accounting_schema'', JStr (ac_schema a)),
          (''chart_of_accounts_template'', JStr (ac_chart a)), (''fiscal_year_start_month'', JInt (ac_year_start a)),
          (''tax_profile'', JStr (ac_tax a)), (''costing_method'', JStr (ac_costing a))]]
      @ concat (map (market_steps prefix) (sort_key mk_id (rq_markets r)))
      @ [plan_step (prefix @ '':mapping'') PERSIST_MAPPING
          [(''tenant_id'', JStr (rq_tenant r)), (''legal_entity_id'', JStr (rq_entity r)), (''engine_instance_id'', JStr (rq_engine r)),
           (''plan_digest'', JStr (rq_digest r))]])"

definition build_plan :: "pylib \<Rightarrow> calendar \<Rightarrow> ErpProvisioningRequest \<Rightarrow> exn + ProvisioningPlan" where
  "build_plan L K r =
     bindE (require_valid_request r) (\<lambda>_.
       let digest = desired_state_digest L K r in
       Inr \<lparr>pp_provisioning = rq_provisioning r, pp_digest = digest, pp_steps = plan_steps (rq_provisioning r @ '':'' @ take 12 digest) r\<rparr>)"

section \<open>Reading a request back\<close>

text \<open>
  A member of another JSON type than the request's own is not refused by the reader unless it has to be iterated or
  hashed; the request then carries a foreign value and can not have the accepted digest, so it is the drift that
  \<open>verified_request\<close> reports, unless something else is unreadable. \<open>own\<close> says what is made of such a value.
\<close>

definition StateUnreadable :: exn where "StateUnreadable = Exn ''StateUnreadable'' []"
definition StateDrift :: exn where "StateDrift = Exn ''StateDrift'' []"

definition readable :: "'e + 'a \<Rightarrow> exn + 'a" where
  "readable r = (case r of Inl _ \<Rightarrow> Inl StateUnreadable | Inr a \<Rightarrow> Inr a)"

fun own_text :: "json \<Rightarrow> exn + string" where
  "own_text (JStr s) = Inr s"
| "own_text _ = Inl StateDrift"

fun any_text :: "json \<Rightarrow> exn + string" where
  "any_text (JStr s) = Inr s"
| "any_text _ = Inr []"

fun hashable :: "(json \<Rightarrow> exn + string) \<Rightarrow> json \<Rightarrow> exn + string" where
  "hashable own (JArr _) = Inl StateUnreadable"
| "hashable own (JObj _) = Inl StateUnreadable"
| "hashable own v = own v"

text \<open>What iterating over a value yields: the elements of an array, the names of an object, the characters of a text.\<close>

fun py_iter :: "json \<Rightarrow> exn + json list" where
  "py_iter (JArr vs) = Inr vs"
| "py_iter (JObj ms) = Inr (map (\<lambda>(k, _). JStr k) ms)"
| "py_iter (JStr s) = Inr (map (\<lambda>c. JStr [c]) s)"
| "py_iter _ = Inl StateUnreadable"

definition text_member :: "(json \<Rightarrow> exn + string) \<Rightarrow> json \<Rightarrow> string \<Rightarrow> exn + string" where
  "text_member own raw name = bindE (readable (subscript raw name)) own"

definition texts :: "(json \<Rightarrow> exn + string) \<Rightarrow> json \<Rightarrow> exn + string list" where
  "texts own v = bindE (py_iter v) (mapE own)"

definition text_pair :: "(json \<Rightarrow> exn + string) \<Rightarrow> json \<Rightarrow> exn + string \<times> string" where
  "text_pair own v =
     bindE (py_iter v) (\<lambda>vs. case vs of
       [a, b] \<Rightarrow> bindE (own a) (\<lambda>x. bindE (own b) (\<lambda>y. Inr (x, y)))
     | _ \<Rightarrow> Inl StateUnreadable)"

definition market_of_state :: "(json \<Rightarrow> exn + string) \<Rightarrow> json \<Rightarrow> exn + MarketConfiguration" where
  "market_of_state own raw =
     bindE (text_member own raw ''market_id'') (\<lambda>mid.
     bindE (text_member own raw ''country_code'') (\<lambda>country.
     bindE (bindE (readable (subscript raw ''participation_capabilities'')) (texts (hashable own))) (\<lambda>capabilities.
     bindE (bindE (readable (subscript raw ''currencies'')) (texts own)) (\<lambda>currencies.
     bindE (text_member own raw ''localisation_profile'') (\<lambda>profile.
     bindE (texts own (get_default raw ''warehouse_codes'' (JArr []))) (\<lambda>warehouses.
     bindE (bindE (py_iter (get_default raw ''warehouse_timezones'' (JArr []))) (mapE (text_pair own))) (\<lambda>zones.
     Inr \<lparr>mk_id = mid, mk_country = country, mk_capabilities = fset_of_list capabilities, mk_currencies = currencies,
       mk_profile = profile, mk_warehouses = warehouses, mk_timezones = zones\<rparr>)))))))"

definition read_moment :: "pylib \<Rightarrow> json \<Rightarrow> exn + datetime" where
  "read_moment L v = (case v of JStr s \<Rightarrow> of_option StateUnreadable (fromisoformat L s) | _ \<Rightarrow> Inl StateUnreadable)"

definition read_date :: "calendar \<Rightarrow> json \<Rightarrow> exn + int" where
  "read_date K v = (case v of JStr s \<Rightarrow> of_option StateUnreadable (read_day K s) | _ \<Rightarrow> Inl StateUnreadable)"

definition accounting_of_state :: "(json \<Rightarrow> exn + string) \<Rightarrow> pylib \<Rightarrow> json \<Rightarrow> exn + AccountingConfiguration" where
  "accounting_of_state own L raw =
     bindE (text_member own raw ''functional_currency'') (\<lambda>currency.
     bindE (bindE (readable (subscript raw ''fiscal_year_start_month'')) (\<lambda>v. readable (to_int v))) (\<lambda>month.
     bindE (text_member own raw ''chart_of_accounts_template'') (\<lambda>chart.
     bindE (text_member own raw ''accounting_schema'') (\<lambda>schema.
     bindE (text_member own raw ''tax_profile'') (\<lambda>tax.
     bindE (text_member own raw ''costing_method'') (\<lambda>costing.
     bindE (text_member own raw ''approved_by'') (\<lambda>approved.
     bindE (bindE (readable (subscript raw ''approved_at'')) (read_moment L)) (\<lambda>at_time.
     Inr \<lparr>ac_currency = currency, ac_year_start = month, ac_chart = chart, ac_schema = schema, ac_tax = tax, ac_costing = costing,
       ac_approved_by = approved, ac_approved_at = at_time\<rparr>))))))))"

definition read_state :: "(json \<Rightarrow> exn + string) \<Rightarrow> pylib \<Rightarrow> calendar \<Rightarrow> json \<Rightarrow> exn + ErpProvisioningRequest" where
  "read_state own L K state =
     bindE (text_member own state ''provisioning_id'') (\<lambda>pid.
     bindE (text_member own state ''idempotency_key'') (\<lambda>key.
     bindE (text_member own state ''tenant_id'') (\<lambda>tenant.
     bindE (text_member own state ''legal_entity_id'') (\<lambda>entity.
     bindE (text_member own state ''legal_name'') (\<lambda>name.
     bindE (text_member own state ''registration_identifier'') (\<lambda>registration.
     bindE (text_member own state ''jurisdiction_code'') (\<lambda>jurisdiction.
     bindE (text_member own state ''engine_instance_id'') (\<lambda>engine.
     bindE (text_member own state ''isolation_requirement'') (\<lambda>isolation.
     bindE (text_member own state ''plan_digest'') (\<lambda>digest.
     bindE (text_member own state ''target_environment'') (\<lambda>environment.
     bindE (bindE (readable (subscript state ''effective_date'')) (read_date K)) (\<lambda>effective.
     bindE (bindE (readable (subscript state ''accounting'')) (accounting_of_state own L)) (\<lambda>accounting.
     bindE (bindE (readable (subscript state ''markets'')) (\<lambda>v. bindE (py_iter v) (mapE (market_of_state own)))) (\<lambda>markets.
     bindE (texts (hashable own) (get_default state ''requested_capabilities'' (JArr []))) (\<lambda>capabilities.
     Inr \<lparr>rq_provisioning = pid, rq_key = key, rq_tenant = tenant, rq_entity = entity, rq_name = name, rq_registration = registration,
       rq_jurisdiction = jurisdiction, rq_engine = engine, rq_isolation = isolation, rq_digest = digest, rq_environment = environment,
       rq_effective = effective, rq_accounting = accounting, rq_markets = markets,
       rq_capabilities = fset_of_list capabilities\<rparr>)))))))))))))))"

definition request_from_state :: "pylib \<Rightarrow> calendar \<Rightarrow> json \<Rightarrow> exn + ErpProvisioningRequest" where
  "request_from_state L K state = bindE (read_state any_text L K state) (\<lambda>_. read_state own_text L K state)"

definition verified_request :: "pylib \<Rightarrow> calendar \<Rightarrow> json \<Rightarrow> string option \<Rightarrow> exn + ErpProvisioningRequest" where
  "verified_request L K state accepted =
     bindE (request_from_state L K state) (\<lambda>r.
       if accepted = None \<or> accepted = Some [] \<or> Some (desired_state_digest L K r) \<noteq> accepted then Inl StateDrift else Inr r)"

section \<open>The engine's process ids\<close>

record NativeProcesses =
  np_accounting :: int
  np_localisation :: "string \<Rightarrow> int option"

definition ProcessUnconfigured :: exn where "ProcessUnconfigured = Exn ''ProcessUnconfigured'' []"

text \<open>\<open>{**payload, "process_id": n}\<close>\<close>

definition with_field :: "string \<Rightarrow> json \<Rightarrow> fields \<Rightarrow> fields" where
  "with_field k v data = (if map_of data k = None then data @ [(k, v)] else map (\<lambda>(n, w). (n, if n = k then v else w)) data)"

definition enrich :: "NativeProcesses \<Rightarrow> ProvisioningStep \<Rightarrow> exn + ProvisioningStep" where
  "enrich N st =
     (case ps_kind st of
        CONFIGURE_ACCOUNTING \<Rightarrow> Inr (st\<lparr>ps_payload := with_field ''process_id'' (JInt (np_accounting N)) (ps_payload st)\<rparr>)
      | CONFIGURE_LOCALISATION \<Rightarrow>
          (case map_of (ps_payload st) ''country_code'' of
             None \<Rightarrow> Inl (Exn ''KeyError'' ''country_code'')
           | Some (JStr country) \<Rightarrow>
               (case np_localisation N country of
                  None \<Rightarrow> Inl ProcessUnconfigured
                | Some n \<Rightarrow> Inr (st\<lparr>ps_payload := with_field ''process_id'' (JInt n) (ps_payload st)\<rparr>))
           | Some (JArr _) \<Rightarrow> Inl (Exn ''TypeError'' [])
           | Some (JObj _) \<Rightarrow> Inl (Exn ''TypeError'' [])
           | Some _ \<Rightarrow> Inl ProcessUnconfigured)
      | _ \<Rightarrow> Inr st)"

definition enrich_step :: "NativeProcesses option \<Rightarrow> ProvisioningStep \<Rightarrow> exn + ProvisioningStep" where
  "enrich_step processes st =
     (if ps_kind st \<noteq> CONFIGURE_ACCOUNTING \<and> ps_kind st \<noteq> CONFIGURE_LOCALISATION then Inr st
      else (case processes of None \<Rightarrow> Inl ProcessUnconfigured | Some N \<Rightarrow> enrich N st))"

text \<open>The two settings, both or neither. A text that is not JSON is a \<open>ValueError\<close> like a number that does not read.\<close>

definition load_native_processes :: "pylib \<Rightarrow> deployment \<Rightarrow> exn + NativeProcesses option" where
  "load_native_processes L env =
     (let accounting = setting env ''IDEMPIERE_PROVISIONING_PROCESS_ACCOUNTING'';
          localisation = setting env ''IDEMPIERE_PROVISIONING_PROCESS_LOCALISATION_JSON'';
          bad = Exn ''RuntimeError'' ''not valid'' in
      if accounting = [] \<and> localisation = [] then Inr None
      else if accounting = [] \<or> localisation = [] then Inl (Exn ''RuntimeError'' ''partly configured'')
      else (case json_loads L localisation of
          Some (JObj ms) \<Rightarrow>
            (case mapE (\<lambda>(country, v). bindE (to_int v) (\<lambda>n. Inr (country, n))) ms of
               Inl _ \<Rightarrow> Inl bad
             | Inr by_country \<Rightarrow>
                 (case py_int accounting of
                    None \<Rightarrow> Inl bad
                  | Some n \<Rightarrow> Inr (Some \<lparr>np_accounting = n, np_localisation = map_of by_country\<rparr>)))
        | _ \<Rightarrow> Inl bad))"

section \<open>Onboarding states\<close>

datatype LifecycleState = L_REQUESTED | L_ISOLATION_PROFILE_SELECTED | L_ENGINE_INSTANCE_ASSIGNED | L_ACCOUNTING_CONFIGURED
  | L_ACTIVE | L_SUSPENDED | L_DECOMMISSIONING | L_DECOMMISSIONED

fun allowed_transitions :: "LifecycleState \<Rightarrow> LifecycleState set" where
  "allowed_transitions L_REQUESTED = {L_ISOLATION_PROFILE_SELECTED}"
| "allowed_transitions L_ISOLATION_PROFILE_SELECTED = {L_ENGINE_INSTANCE_ASSIGNED}"
| "allowed_transitions L_ENGINE_INSTANCE_ASSIGNED = {L_ACCOUNTING_CONFIGURED}"
| "allowed_transitions L_ACCOUNTING_CONFIGURED = {L_ACTIVE}"
| "allowed_transitions L_ACTIVE = {L_SUSPENDED, L_DECOMMISSIONING}"
| "allowed_transitions L_SUSPENDED = {L_ACTIVE, L_DECOMMISSIONING}"
| "allowed_transitions L_DECOMMISSIONING = {L_DECOMMISSIONED}"
| "allowed_transitions L_DECOMMISSIONED = {}"

definition transition :: "LifecycleState \<Rightarrow> LifecycleState \<Rightarrow> exn + LifecycleState" where
  "transition current target =
     (if target \<notin> allowed_transitions current then Inl (Exn ''InvalidLifecycleTransitionError'' []) else Inr target)"

section \<open>Activation gates\<close>

datatype GateStatus = PASS | FAIL

record Evidence =
  ev_check :: string
  ev_status :: GateStatus
  ev_reference :: string
  ev_reason :: string

definition ActivationEvidenceError :: exn where "ActivationEvidenceError = Exn ''ActivationEvidenceError'' []"

definition new_evidence :: "string \<Rightarrow> GateStatus \<Rightarrow> string \<Rightarrow> string \<Rightarrow> exn + Evidence" where
  "new_evidence name status reference reason =
     (if \<not> nonblank name then Inl ActivationEvidenceError
      else if status = PASS \<and> \<not> nonblank reference then Inl ActivationEvidenceError
      else Inr \<lparr>ev_check = name, ev_status = status, ev_reference = reference, ev_reason = reason\<rparr>)"

definition REQUIRED_GATES :: "string list" where
  "REQUIRED_GATES = [''cp_assignment'', ''fx_golden'', ''idempiere_provisioning'', ''inventory_golden'', ''localisation'',
     ''master_data'', ''procurement_golden'', ''reconciliation'', ''sales_golden'', ''warehouses'']"

definition gate_blocker :: "Evidence list \<Rightarrow> string \<Rightarrow> string list" where
  "gate_blocker items name =
     (case find (\<lambda>e. ev_check e = name) items of
        None \<Rightarrow> [name @ '': missing evidence'']
      | Some e \<Rightarrow> if ev_status e \<noteq> PASS then [name @ '': '' @ (if ev_reason e = [] then ''failed'' else ev_reason e)] else [])"

record ActivationReport =
  ar_entity :: string
  ar_ready :: bool
  ar_evidence :: "Evidence list"
  ar_blockers :: "string list"

definition evaluate_activation :: "string \<Rightarrow> Evidence list \<Rightarrow> exn + ActivationReport" where
  "evaluate_activation entity items =
     (if \<not> distinct (map ev_check items) then Inl ActivationEvidenceError
      else (let blockers = concat (map (gate_blocker items) REQUIRED_GATES) in
        Inr \<lparr>ar_entity = entity, ar_ready = (blockers = []), ar_evidence = items, ar_blockers = blockers\<rparr>))"

section \<open>What was approved is what runs\<close>

definition reads_text :: "(json \<Rightarrow> exn + string) \<Rightarrow> bool" where
  "reads_text own \<longleftrightarrow> (\<forall>s. own (JStr s) = Inr s)"

lemma readers: "reads_text own_text" "reads_text any_text" "reads_text own \<Longrightarrow> reads_text (hashable own)"
  by (simp_all add: reads_text_def)

lemma texts_read: "reads_text own \<Longrightarrow> texts own (JArr (map JStr xs)) = Inr xs"
proof -
  assume own: "reads_text own"
  have "mapE own (map JStr xs) = Inr xs" using own by (induction xs) (simp_all add: reads_text_def)
  then show ?thesis by (simp add: texts_def)
qed

lemma pairs_read: "reads_text own \<Longrightarrow> mapE (text_pair own) (map (\<lambda>(c, z). JArr [JStr c, JStr z]) ps) = Inr ps"
  by (induction ps) (auto simp: text_pair_def reads_text_def)

lemma market_read: "reads_text own \<Longrightarrow> market_of_state own (market_state m) = Inr m"
  using texts_read [of own] texts_read [OF readers(3) [of own]] pairs_read [of own]
  by (cases m) (simp add: market_of_state_def market_state_def text_member_def subscript_def readable_def reads_text_def
      get_default_def has_key_def jget_def str_set_def)

lemma accounting_read:
  assumes "reads_text own" "fromisoformat L (moment_text K (ac_approved_at a)) = Some (ac_approved_at a)"
  shows "accounting_of_state own L (accounting_state K a) = Inr a"
  using assms by (cases a) (simp add: accounting_of_state_def accounting_state_def text_member_def subscript_def readable_def
      reads_text_def to_int_def column_int.simps read_moment_def)

lemma state_read:
  assumes "reads_text own" "fromisoformat L (moment_text K (ac_approved_at (rq_accounting r))) = Some (ac_approved_at (rq_accounting r))"
    "read_day K (day_text K (rq_effective r)) = Some (rq_effective r)"
  shows "read_state own L K (desired_state K r) = Inr r"
proof -
  have "mapE (market_of_state own) (map market_state ms) = Inr ms" for ms
    by (induction ms) (simp_all add: market_read [OF assms(1)])
  then show ?thesis
    using assms texts_read [OF readers(3) [OF assms(1)]] accounting_read [OF assms(1,2)]
    by (cases r) (simp add: read_state_def desired_state_def text_member_def subscript_def readable_def reads_text_def read_date_def
        get_default_def has_key_def jget_def str_set_def)
qed

definition readable_dates :: "pylib \<Rightarrow> calendar \<Rightarrow> ErpProvisioningRequest \<Rightarrow> bool" where
  "readable_dates L K r \<longleftrightarrow> fromisoformat L (moment_text K (ac_approved_at (rq_accounting r))) = Some (ac_approved_at (rq_accounting r))
     \<and> read_day K (day_text K (rq_effective r)) = Some (rq_effective r)"

lemma request_read: "readable_dates L K r \<Longrightarrow> request_from_state L K (desired_state K r) = Inr r"
  by (simp add: request_from_state_def readable_dates_def state_read readers)

text \<open>C35: An accepted request survives storage exactly, and only what was approved runs: the state written for a request reads
  back as that request and verifies under its digest; and whatever is stored in its place, a request that verifies
  under that digest is the approved one, unless the digest function collides on the two documents.\<close>

theorem approved_request_only:
  assumes "readable_dates L K r" "sha256_hex L (json_dumps L (desired_state K r)) \<noteq> []"
  shows "request_from_state L K (desired_state K r) = Inr r
    \<and> verified_request L K (desired_state K r) (Some (desired_state_digest L K r)) = Inr r
    \<and> (\<forall>stored r'. verified_request L K stored (Some (desired_state_digest L K r)) = Inr r' \<and> readable_dates L K r' \<longrightarrow>
         r' = r \<or> (desired_state K r' \<noteq> desired_state K r
           \<and> sha256_hex L (json_dumps L (desired_state K r')) = sha256_hex L (json_dumps L (desired_state K r))))"
proof (intro conjI allI impI)
  show "request_from_state L K (desired_state K r) = Inr r" using assms(1) by (rule request_read)
  then show "verified_request L K (desired_state K r) (Some (desired_state_digest L K r)) = Inr r"
    using assms(2) by (simp add: verified_request_def desired_state_digest_def)
  fix stored r'
  assume v: "verified_request L K stored (Some (desired_state_digest L K r)) = Inr r' \<and> readable_dates L K r'"
  then have "desired_state_digest L K r' = desired_state_digest L K r"
    by (auto simp: verified_request_def bindE_Inr_iff split: if_splits)
  moreover have "r' = r" if "desired_state K r' = desired_state K r"
    using request_read [OF assms(1)] request_read [of L K r'] v that by simp
  ultimately show "r' = r \<or> (desired_state K r' \<noteq> desired_state K r
         \<and> sha256_hex L (json_dumps L (desired_state K r')) = sha256_hex L (json_dumps L (desired_state K r)))"
    by (auto simp: desired_state_digest_def)
qed

section \<open>One step per resource\<close>

definition colon_free :: "string \<Rightarrow> bool" where
  "colon_free s \<longleftrightarrow> CHR '':'' \<notin> set s"

lemma colon_split:
  "colon_free a \<Longrightarrow> colon_free b \<Longrightarrow> a @ CHR '':'' # x = b @ CHR '':'' # y \<longleftrightarrow> a = b \<and> x = y"
proof (induction a arbitrary: b)
  case Nil
  then show ?case by (cases b) (auto simp: colon_free_def)
next
  case (Cons c a)
  then show ?case by (cases b) (auto simp: colon_free_def)
qed

definition separate_names :: "ErpProvisioningRequest \<Rightarrow> bool" where
  "separate_names r \<longleftrightarrow> distinct (map mk_id (rq_markets r)) \<and> (\<forall>m \<in> set (rq_markets r). colon_free (mk_id m) \<and> distinct (mk_warehouses m))"

lemma market_keys:
  "map ps_key (market_steps prefix m) = (prefix @ '':market:'' @ mk_id m) # map (\<lambda>w. prefix @ '':warehouse:'' @ mk_id m @ '':'' @ w) (sort (mk_warehouses m))"
  by (simp add: market_steps_def plan_step_def warehouse_step_def comp_def)

lemma distinct_market_keys:
  assumes "distinct (map mk_id ms)" "\<forall>m \<in> set ms. colon_free (mk_id m) \<and> distinct (mk_warehouses m)"
  shows "distinct (concat (map (\<lambda>m. map ps_key (market_steps prefix m)) ms))"
  using assms
proof (induction ms)
  case (Cons m ms)
  have "distinct (map ps_key (market_steps prefix m))"
    using Cons.prems(2) by (auto simp: market_keys distinct_map inj_on_def)
  moreover have "set (map ps_key (market_steps prefix m)) \<inter> set (concat (map (\<lambda>m. map ps_key (market_steps prefix m)) ms)) = {}"
    using Cons.prems by (auto simp: market_keys colon_split)
  ultimately show ?case using Cons by simp
qed simp

lemma plan_keys_distinct:
  assumes "separate_names r"
  shows "distinct (map ps_key (plan_steps prefix r))"
proof -
  let ?ms = "sort_key mk_id (rq_markets r)"
  have ms: "distinct (map mk_id ?ms)" "\<forall>m \<in> set ?ms. colon_free (mk_id m) \<and> distinct (mk_warehouses m)"
    using assms by (auto simp: separate_names_def distinct_map)
  have "map ps_key (concat (map (market_steps prefix) ?ms)) = concat (map (\<lambda>m. map ps_key (market_steps prefix m)) ?ms)"
    by (simp add: map_concat comp_def)
  with distinct_market_keys [OF ms, of prefix] show ?thesis
    by (auto simp: plan_steps_def Let_def plan_step_def market_keys)
qed

section \<open>A concrete request\<close>

definition sample_calendar :: calendar where
  "sample_calendar = \<lparr>day_text = show_int, read_day = (\<lambda>s. Some 738000), moment_text = (\<lambda>t. ''2026-01-01T00:00:00+00:00'')\<rparr>"

definition sample_market :: MarketConfiguration where
  "sample_market = \<lparr>mk_id = ''mkt_ug'', mk_country = ''UG'', mk_capabilities = {|''selling''|}, mk_currencies = [''UGX''], mk_profile = ''ug-v1'',
     mk_warehouses = [''KLA'', ''EBB''], mk_timezones = [(''EBB'', ''Africa/Kampala''), (''KLA'', ''Africa/Kampala'')]\<rparr>"

definition sample_request :: ErpProvisioningRequest where
  "sample_request = \<lparr>rq_provisioning = ''prov-1'', rq_key = ''key-1'', rq_tenant = ''tn_abc01'', rq_entity = ''NABHOLD'', rq_name = ''Nab'',
     rq_registration = ''R1'', rq_jurisdiction = ''UG'', rq_engine = ''e'', rq_isolation = ''row_level_security'', rq_digest = ''sha256:0'',
     rq_environment = ''production'', rq_effective = 738000,
     rq_accounting = \<lparr>ac_currency = ''UGX'', ac_year_start = 7, ac_chart = ''coa'', ac_schema = ''as'', ac_tax = ''tax'', ac_costing = ''avg'',
       ac_approved_by = ''cfo'', ac_approved_at = Aware 0\<rparr>,
     rq_markets = [sample_market], rq_capabilities = {|''finance.order-consequence.process''|}\<rparr>"

theorem approved_request_only_witness:
  "verified_request (sample_lib JNull) sample_calendar (desired_state sample_calendar sample_request)
     (Some (desired_state_digest (sample_lib JNull) sample_calendar sample_request)) = Inr sample_request"
proof -
  have "readable_dates (sample_lib JNull) sample_calendar sample_request"
    by (simp add: readable_dates_def sample_lib_def sample_calendar_def sample_request_def)
  from approved_request_only [OF this] show ?thesis by (simp add: sample_lib_def)
qed

end
