(* ===== verification/Provisioning_Tables.thy ===== *)
theory Provisioning_Tables
  imports Provisioning_Plan Master_Data
begin

text \<open>
  The rows of the provisioning tables (migrations 0007, 0009, 0014, 0015, 0017, 0021 and 0024): the legal entities' operations
  and their steps, the commands that own them, Finance's baselines, and the public identities of warehouses.
\<close>

text \<open>\<open>erp_provisioning_operation\<close>: the stored state and plan are JSON documents.\<close>

record operation_row =
  op_provisioning :: string
  op_key :: string
  op_state :: json
  op_digest :: "string option"
  op_plan :: json
  op_status :: ProvisioningStatus
  op_error :: "string option"
  op_created :: instant
  op_attempts :: nat
  op_next :: "instant option"
  op_outcome :: "string option"

record step_row =
  sr_provisioning :: string
  sr_key :: string
  sr_status :: string
  sr_result :: json

text \<open>\<open>erp_provisioning_command\<close> and its legal entities.\<close>

record CommandRecord =
  cm_operation :: nat
  cm_tenant :: string
  cm_fingerprint :: string
  cm_entities :: "string list"
  cm_state :: string
  cm_revision :: nat
  cm_updated :: instant
  cm_failure :: "string option"
  cm_provisioning :: string
  cm_plan :: string
  cm_plan_version :: int
  cm_plan_digest :: string

record command_row = CommandRecord +
  cm_key :: string
  cm_principal :: string
  cm_baselines :: json

record membership_row =
  mb_operation :: nat
  mb_entity :: string
  mb_provisioning :: string

text \<open>\<open>financial_configuration_baseline\<close> and its withdrawals; a date is its day number.\<close>

record FinancialConfigurationBaseline =
  fb_entity :: string
  fb_version :: int
  fb_currency :: string
  fb_year_start :: int
  fb_chart :: string
  fb_schema :: string
  fb_tax :: string
  fb_costing :: string
  fb_effective :: int
  fb_approved_by :: string
  fb_approved_at :: instant
  fb_evidence :: string

record withdrawal_row =
  wd_entity :: string
  wd_version :: int
  wd_by :: string
  wd_at :: instant
  wd_reason :: string
  wd_evidence :: string

record warehouse_row =
  wh_public :: string
  wh_tenant :: string
  wh_entity :: string
  wh_code :: "string option"
  wh_name :: "string option"
  wh_country :: "string option"
  wh_timezone :: "string option"
  wh_status :: string
  wh_engine :: "string option"
  wh_native :: "int option"

record provisioning_tables =
  pt_operations :: "operation_row list"
  pt_steps :: "step_row list"
  pt_natives :: native_rows
  pt_commands :: "command_row list"
  pt_members :: "membership_row list"
  pt_baselines :: "FinancialConfigurationBaseline list"
  pt_withdrawals :: "withdrawal_row list"
  pt_warehouses :: "warehouse_row list"

definition empty_provisioning :: provisioning_tables where
  "empty_provisioning = \<lparr>pt_operations = [], pt_steps = [], pt_natives = [], pt_commands = [], pt_members = [], pt_baselines = [],
     pt_withdrawals = [], pt_warehouses = []\<rparr>"

end
