(* ===== verification/Order_Service.thy ===== *)
theory Order_Service
  imports Accounting_Outcomes Entity_Mapping Tenant_Context Master_Data Legal_Actor Provisioning_Tables
begin

text \<open>
  The order-to-cash command layer (\<open>modules/order_to_cash/service.py\<close>) and its governed invoice posting
  (\<open>governed_service.py\<close>). The state is the process: the context of \<open>Finance_Guard\<close>, extended by the
  connection's view of the database, the view at the last commit, and the successive readings of the clock
  and of \<open>uuid4\<close>. The stores are the Postgres stores on that connection, so a command's writes are in
  \<open>pr_db\<close> and become durable when its caller commits. Other sessions do not run during a command.
\<close>

section \<open>The process and its database\<close>

record execution_row =
  ox_tenant :: string
  ox_order :: string
  ox_entity :: string
  ox_version :: int
  ox_erp_order :: string
  ox_native :: int
  ox_event :: string
  ox_adopted :: bool

record database =
  db_inbox :: "inbox_row list"
  db_outbox :: "outbox_row list"
  db_mappings :: "entity_row list"
  db_tenants :: "tenant_row list"
  db_masters :: "master_row list"
  db_orders :: "consequence_row list"
  db_documents :: "document_row list"
  db_executions :: "execution_row list"
  db_outcomes :: "outcome_row list"
  db_provisioning :: provisioning_tables

record 'n proc = "'n ctx" +
  pr_db :: database
  pr_saved :: database
  pr_clock :: "nat \<Rightarrow> instant"
  pr_ticks :: nat
  pr_uuids :: "nat \<Rightarrow> nat"
  pr_drawn :: nat

definition read_clock :: "('n proc, exn, instant) op" where
  "read_clock s = (Inr (pr_clock s (pr_ticks s)), s\<lparr>pr_ticks := Suc (pr_ticks s)\<rparr>)"

definition draw_uuid :: "('n proc, exn, nat) op" where
  "draw_uuid s = (Inr (pr_uuids s (pr_drawn s)), s\<lparr>pr_drawn := Suc (pr_drawn s)\<rparr>)"

text \<open>An operation of one table, run on that table of the database.\<close>

definition on_db :: "(database, exn, 'a) op \<Rightarrow> ('n proc, exn, 'a) op" where
  "on_db m s = (case m (pr_db s) of (r, d) \<Rightarrow> (r, s\<lparr>pr_db := d\<rparr>))"

definition commit_tx :: "('n proc, exn, unit) op" where
  "commit_tx s = (Inr (), s\<lparr>pr_saved := pr_db s\<rparr>)"

definition rollback_tx :: "('n proc, exn, unit) op" where
  "rollback_tx s = (Inr (), s\<lparr>pr_db := pr_saved s\<rparr>)"

section \<open>The collaborators of a command\<close>

record ProcessIds =
  complete_sales_order_id :: int
  complete_shipment_id :: int
  post_customer_invoice_id :: int
  complete_payment_id :: int
  allocate_payment_id :: int

text \<open>
  The optional stores are given or not: \<open>su_consequences\<close> and \<open>su_outcomes\<close> say whether the read models are
  passed, \<open>su_outbox\<close> whether \<open>create_sales_order\<close> gets an outbox.
\<close>

record 'n service =
  su_lib :: pylib
  su_pg_uuid :: "string \<Rightarrow> nat option"
  su_env :: deployment
  su_engine :: "'n proc engine"
  su_process_ids :: ProcessIds
  su_consequences :: bool
  su_outcomes :: bool
  su_outbox :: bool

record OrderLine =
  ol_product :: string
  ol_quantity :: string
  ol_price :: string

record NativeDocumentRef =
  nd_canonical :: string
  nd_table :: string
  nd_native :: int

fun mapping_exn :: "mapping_error \<Rightarrow> exn" where
  "mapping_exn (BadIdentifier n) = Exn ''IdentifierError'' n"
| "mapping_exn mapping_error.UniqueViolation = unique_violation"
| "mapping_exn DataError = Exn ''DataError'' []"
| "mapping_exn MappingNotFound = Exn ''MappingNotFoundError'' []"
| "mapping_exn NotPublishable = Exn ''ValueError'' []"

definition envelope_exn :: "event_error \<Rightarrow> exn" where
  "envelope_exn e = Exn ''EnvelopeError'' []"

fun outbox_exn :: "outbox_error \<Rightarrow> exn" where
  "outbox_exn outbox_error.UniqueViolation = unique_violation"
| "outbox_exn BadArgument = Exn ''DataError'' []"
| "outbox_exn _ = Exn ''EnvelopeError'' []"

definition mapE_exn :: "('e \<Rightarrow> exn) \<Rightarrow> 'e + 'a \<Rightarrow> exn + 'a" where
  "mapE_exn f r = (case r of Inl e \<Rightarrow> Inl (f e) | Inr a \<Rightarrow> Inr a)"

definition store_outbox :: "(outbox_row list \<Rightarrow> outbox_error + outbox_row list) \<Rightarrow> (database, exn, unit) op" where
  "store_outbox f d = (case f (db_outbox d) of Inl e \<Rightarrow> (Inl (outbox_exn e), d) | Inr rows \<Rightarrow> (Inr (), d\<lparr>db_outbox := rows\<rparr>))"

definition outbox_record_event :: "'n service \<Rightarrow> cloud_event \<Rightarrow> ('n proc, exn, unit) op" where
  "outbox_record_event U e =
     bindS read_clock (\<lambda>t. on_db (store_outbox (record_event (su_lib U) (su_pg_uuid U) e t)))"

definition outbox_record_legacy :: "'n service \<Rightarrow> EventEnvelope \<Rightarrow> ('n proc, exn, unit) op" where
  "outbox_record_legacy U en =
     bindS read_clock (\<lambda>t. on_db (store_outbox (record_legacy (su_pg_uuid U) en t)))"

definition read_db :: "(database \<Rightarrow> exn + 'a) \<Rightarrow> ('n proc, exn, 'a) op" where
  "read_db f = bindS (readS pr_db) (\<lambda>d. liftS (f d))"

definition mapped_native :: "'n service \<Rightarrow> string \<Rightarrow> string \<Rightarrow> string \<Rightarrow> ('n proc, exn, native_record_ref option) op" where
  "mapped_native U tenant ctype cid =
     read_db (\<lambda>d. mapE_exn mapping_exn (find_native (su_pg_uuid U) (db_mappings d) tenant ctype cid))"

definition mapped_erp_id :: "'n service \<Rightarrow> string \<Rightarrow> string \<Rightarrow> string \<Rightarrow> ('n proc, exn, string option) op" where
  "mapped_erp_id U tenant ctype cid =
     read_db (\<lambda>d. mapE_exn mapping_exn (find_erp_resource_id (su_pg_uuid U) (db_mappings d) tenant ctype cid))"

text \<open>The public identifiers of a new row are column defaults, drawn by the database.\<close>

definition store_mapping :: "'n service \<Rightarrow> TenantScope \<Rightarrow> string \<Rightarrow> string \<Rightarrow> string \<Rightarrow> int \<Rightarrow> ('n proc, exn, unit) op" where
  "store_mapping U scope ctype cid table native =
     bindS read_clock (\<lambda>t. bindS draw_uuid (\<lambda>m. bindS draw_uuid (\<lambda>r.
     on_db (\<lambda>d. case create_mapping (su_pg_uuid U) t (new_mapping_id (hex_digits 32 m)) (new_erp_resource_id (hex_digits 32 r))
         (ts_tenant scope) (ts_entity scope) ctype cid table native ''erp'' (db_mappings d) of
       Inl e \<Rightarrow> (Inl (mapping_exn e), d)
     | Inr (mid, rows) \<Rightarrow> (Inr (), d\<lparr>db_mappings := rows\<rparr>)))))"

definition db_open_order :: "string \<Rightarrow> string \<Rightarrow> string \<Rightarrow> int \<Rightarrow> string \<Rightarrow> instant \<Rightarrow> ('n proc, exn, OrderConsequence) op" where
  "db_open_order tenant entity og version erp now =
     on_db (\<lambda>d. case open_order tenant entity og version erp now (db_orders d) of (r, rows) \<Rightarrow> (r, d\<lparr>db_orders := rows\<rparr>))"

definition db_link_document :: "string \<Rightarrow> string \<Rightarrow> string \<Rightarrow> string \<Rightarrow> ('n proc, exn, bool) op" where
  "db_link_document tenant ty doc og =
     on_db (\<lambda>d. case link_document tenant ty doc og (db_orders d) (db_documents d) of (r, rows) \<Rightarrow> (r, d\<lparr>db_documents := rows\<rparr>))"

definition db_record_fact ::
  "string \<Rightarrow> string \<Rightarrow> Fact \<Rightarrow> instant \<Rightarrow> string option \<Rightarrow> ('n proc, exn, (OrderConsequence \<times> bool) option) op" where
  "db_record_fact tenant og fct now invoice =
     on_db (\<lambda>d. case record_fact tenant og fct now invoice (db_orders d) of (r, rows) \<Rightarrow> (r, d\<lparr>db_orders := rows\<rparr>))"

definition db_advance :: "string \<Rightarrow> string \<Rightarrow> string \<Rightarrow> string \<Rightarrow> json \<Rightarrow> instant \<Rightarrow> ('n proc, exn, Advanced) op" where
  "db_advance tenant ty doc status detail now =
     on_db (\<lambda>d. case advance tenant ty doc status detail now None (db_outcomes d) of (r, rows) \<Rightarrow> (r, d\<lparr>db_outcomes := rows\<rparr>))"

section \<open>Announcements\<close>

definition announce :: "'n service \<Rightarrow> bool \<Rightarrow> OrderConsequence \<Rightarrow> string option \<Rightarrow> ('n proc, exn, unit) op" where
  "announce U outbox rec correlation =
     (if \<not> outbox then returnS ()
      else bindS draw_uuid (\<lambda>fresh.
        bindS (liftS (mapE_exn envelope_exn (consequence_changed_event (su_lib U) fresh rec correlation))) (\<lambda>e.
        outbox_record_event U e)))"

text \<open>\<open>if recorded is not None and recorded.changed: _announce(...)\<close>\<close>

definition announce_changed :: "'n service \<Rightarrow> (OrderConsequence \<times> bool) option \<Rightarrow> string option \<Rightarrow> ('n proc, exn, unit) op" where
  "announce_changed U recorded correlation =
     (case recorded of Some (rec, True) \<Rightarrow> announce U True rec correlation | _ \<Rightarrow> returnS ())"

text \<open>\<open>try: m except AccountingFactError: return\<close>\<close>

definition facts_or_stop :: "('s, exn, 'a) op \<Rightarrow> ('s, exn, 'a option) op" where
  "facts_or_stop m s =
     (case m s of
        (Inr a, s') \<Rightarrow> (Inr (Some a), s')
      | (Inl e, s') \<Rightarrow> if exn_class e = ''AccountingFactError'' then (Inr None, s') else (Inl e, s'))"

definition announce_invoice ::
  "'n service \<Rightarrow> TenantScope \<Rightarrow> string \<Rightarrow> int \<Rightarrow> bool \<Rightarrow> string option \<Rightarrow> ('n proc, exn, unit) op" where
  "announce_invoice U scope invoice native allocated correlation =
     (if \<not> su_outcomes U \<or> \<not> su_consequences U then returnS ()
      else bindS (readS (\<lambda>s. order_of_document (ts_tenant scope) ''CustomerInvoice'' invoice (db_documents (pr_db s)))) (\<lambda>order_id.
        bindS (mapped_erp_id U (ts_tenant scope) ''CustomerInvoice'' invoice) (\<lambda>public_id.
        case (order_id, public_id) of
          (Some og, Some pid) \<Rightarrow>
            bindS (facts_or_stop (bindS (read_invoice (su_engine U) native) (\<lambda>facts.
                bindS (liftS (invoice_status facts allocated)) (\<lambda>status. returnS (facts, status))))) (\<lambda>r.
            case r of
              None \<Rightarrow> returnS ()
            | Some (facts, status) \<Rightarrow>
                bindS read_clock (\<lambda>now.
                bindS (db_advance (ts_tenant scope) ''invoice'' pid status
                   (JObj [(''number'', JStr (if_number facts)), (''total'', money_contract (if_total facts))]) now) (\<lambda>step.
                if \<not> ad_changed step then returnS ()
                else bindS draw_uuid (\<lambda>fresh.
                  bindS (liftS (mapE_exn envelope_exn (invoice_changed_event (su_lib U) fresh (ts_tenant scope) (ts_entity scope) pid og facts
                     status (ad_first_seen step) (ad_revision step) now correlation))) (\<lambda>e. outbox_record_event U e)))))
        | _ \<Rightarrow> returnS ())))"

definition announce_payment ::
  "'n service \<Rightarrow> TenantScope \<Rightarrow> string \<Rightarrow> int \<Rightarrow> string option \<Rightarrow> bool \<Rightarrow> string option \<Rightarrow> ('n proc, exn, unit) op" where
  "announce_payment U scope payment native invoice_public allocation_requested correlation =
     (if \<not> su_outcomes U then returnS ()
      else bindS (mapped_erp_id U (ts_tenant scope) ''Payment'' payment) (\<lambda>public_id.
        case public_id of
          None \<Rightarrow> returnS ()
        | Some pid \<Rightarrow>
            bindS (facts_or_stop (bindS (read_payment (su_engine U) native) (\<lambda>facts.
                bindS (liftS (payment_status facts allocation_requested)) (\<lambda>status. returnS (facts, status))))) (\<lambda>r.
            case r of
              None \<Rightarrow> returnS ()
            | Some (facts, status) \<Rightarrow>
                bindS read_clock (\<lambda>now.
                bindS (db_advance (ts_tenant scope) ''payment'' payment status
                   (JObj ((''amount'', money_contract (pf_amount facts))
                     # (case invoice_public of None \<Rightarrow> [] | Some i \<Rightarrow> [(''invoice_id'', JStr i)]))) now) (\<lambda>step.
                if \<not> ad_changed step then returnS ()
                else bindS draw_uuid (\<lambda>fresh.
                  bindS (liftS (mapE_exn envelope_exn (payment_accounting_event (su_lib U) fresh (ts_tenant scope) (ts_entity scope) payment
                     pid invoice_public facts status (ad_revision step) now correlation))) (\<lambda>e. outbox_record_event U e)))))))"

section \<open>Documents\<close>

definition service_envelope :: "'n service \<Rightarrow> string \<Rightarrow> TenantScope \<Rightarrow> string \<Rightarrow> json \<Rightarrow> ('n proc, exn, EventEnvelope) op" where
  "service_envelope U ty scope correlation payload =
     bindS draw_uuid (\<lambda>u. bindS read_clock (\<lambda>t.
     returnS \<lparr>en_event_id = JStr (show_uuid u), en_event_type = JStr ty, en_schema_version = JStr ''1.0'', en_occurred_at = t,
       en_source = JStr ''baobab-erp'', en_correlation_id = JStr correlation, en_tenant_id = JStr (ts_tenant scope),
       en_entity_id = JStr (ts_entity scope), en_payload = payload\<rparr>))"

definition record_envelope :: "'n service \<Rightarrow> string \<Rightarrow> TenantScope \<Rightarrow> string \<Rightarrow> json \<Rightarrow> ('n proc, exn, unit) op" where
  "record_envelope U ty scope correlation payload =
     bindS (service_envelope U ty scope correlation payload) (\<lambda>en. outbox_record_legacy U en)"

definition create_and_map ::
  "'n service \<Rightarrow> TenantScope \<Rightarrow> string \<Rightarrow> string \<Rightarrow> string \<Rightarrow> fields \<Rightarrow> ('n proc, exn, NativeDocumentRef) op" where
  "create_and_map U scope ctype cid table data =
     bindS (authorised_native_financial_request (su_lib U) ''POST'' (''/models/'' @ table) data
       (create_record (su_engine U) table data)) (\<lambda>native.
     bindS (store_mapping U scope ctype cid table native) (\<lambda>_.
     returnS \<lparr>nd_canonical = cid, nd_table = table, nd_native = native\<rparr>))"

definition execute_governed_process :: "'n service \<Rightarrow> int \<Rightarrow> fields \<Rightarrow> ('n proc, exn, json) op" where
  "execute_governed_process U pid parameters =
     authorised_native_financial_request (su_lib U) ''POST'' (''/processes/'' @ show_int pid) parameters
       (execute_process (su_engine U) pid parameters)"

definition resolve_native :: "'n service \<Rightarrow> TenantScope \<Rightarrow> string \<Rightarrow> string \<Rightarrow> string \<Rightarrow> ('n proc, exn, int) op" where
  "resolve_native U scope ctype cid expected =
     bindS (mapped_native U (ts_tenant scope) ctype cid) (\<lambda>ref.
     case ref of
       None \<Rightarrow> raiseS (mapping_exn MappingNotFound)
     | Some r \<Rightarrow> if ref_table r \<noteq> expected then raiseS (OrderToCashError ''wrong lifecycle stage for this operation'')
                else returnS (ref_record_id r))"

definition sales_order_fields :: "int \<Rightarrow> string \<Rightarrow> OrderLine list \<Rightarrow> string option \<Rightarrow> fields" where
  "sales_order_fields partner currency lines reference =
     [(''C_BPartner_ID'', JInt partner), (''CurrencyISO'', JStr currency),
      (''OrderLines'', JArr (map (\<lambda>l. JObj [(''M_Product_ID'', JStr (ol_product l)), (''QtyOrdered'', JStr (ol_quantity l)),
         (''PriceEntered'', JStr (ol_price l))]) lines))]
     @ (case reference of None \<Rightarrow> [] | Some r \<Rightarrow> [(''POReference'', JStr r)])"

section \<open>The commands\<close>

definition create_sales_order ::
  "'n service \<Rightarrow> TenantScope \<Rightarrow> string \<Rightarrow> int \<Rightarrow> string \<Rightarrow> OrderLine list \<Rightarrow> int option \<Rightarrow> string option
     \<Rightarrow> ('n proc, exn, NativeDocumentRef) op" where
  "create_sales_order U scope og partner currency lines version correlation =
     bindS (deny_legacy_native_action (su_env U) scope ''create_sales_order'' og) (\<lambda>_.
     if lines = [] then raiseS (OrderToCashError ''A sales order requires at least one order line'')
     else bindS (create_and_map U scope ''CommerceOrder'' og ''C_Order'' (sales_order_fields partner currency lines (Some og))) (\<lambda>ref.
       case (if su_consequences U then version else None) of
         None \<Rightarrow> returnS ref
       | Some v \<Rightarrow>
           bindS (mapped_erp_id U (ts_tenant scope) ''CommerceOrder'' og) (\<lambda>erp.
           case erp of
             None \<Rightarrow> raiseS (OrderToCashError ''the order mapping just created has no ERP resource identifier'')
           | Some e \<Rightarrow>
               bindS read_clock (\<lambda>now.
               bindS (db_open_order (ts_tenant scope) (ts_entity scope) og v e now) (\<lambda>opened.
               bindS (announce U (su_outbox U) opened correlation) (\<lambda>_. returnS ref))))))"

definition complete_sales_order :: "'n service \<Rightarrow> TenantScope \<Rightarrow> string \<Rightarrow> string \<Rightarrow> ('n proc, exn, unit) op" where
  "complete_sales_order U scope og correlation =
     bindS (deny_legacy_native_action (su_env U) scope ''complete_sales_order'' og) (\<lambda>_.
     bindS (resolve_native U scope ''CommerceOrder'' og ''C_Order'') (\<lambda>native.
     bindS (execute_governed_process U (complete_sales_order_id (su_process_ids U))
       [(''C_Order_ID'', JInt native), (''DocAction'', JStr ''CO'')]) (\<lambda>_.
     bindS (record_envelope U ''erp.sales-order.accepted.v1'' scope correlation
       (JObj [(''commerce_order_id'', JStr og), (''erp_order_native_id'', JInt native)])) (\<lambda>_.
     if \<not> su_consequences U then returnS ()
     else bindS read_clock (\<lambda>now.
       bindS (db_record_fact (ts_tenant scope) og ORDER_COMPLETED now None) (\<lambda>recorded.
       announce_changed U recorded (Some correlation)))))))"

definition create_shipment :: "'n service \<Rightarrow> TenantScope \<Rightarrow> string \<Rightarrow> string \<Rightarrow> ('n proc, exn, NativeDocumentRef) op" where
  "create_shipment U scope shipment og =
     bindS (deny_legacy_native_action (su_env U) scope ''create_shipment'' shipment) (\<lambda>_.
     bindS (resolve_native U scope ''CommerceOrder'' og ''C_Order'') (\<lambda>native.
     bindS (create_and_map U scope ''GoodsShipment'' shipment ''M_InOut'' [(''C_Order_ID'', JInt native)]) (\<lambda>ref.
     if \<not> su_consequences U then returnS ref
     else bindS (db_link_document (ts_tenant scope) ''GoodsShipment'' shipment og) (\<lambda>_. returnS ref))))"

definition complete_shipment :: "'n service \<Rightarrow> TenantScope \<Rightarrow> string \<Rightarrow> string \<Rightarrow> ('n proc, exn, unit) op" where
  "complete_shipment U scope shipment correlation =
     bindS (deny_legacy_native_action (su_env U) scope ''complete_shipment'' shipment) (\<lambda>_.
     bindS (resolve_native U scope ''GoodsShipment'' shipment ''M_InOut'') (\<lambda>native.
     bindS (execute_governed_process U (complete_shipment_id (su_process_ids U))
       [(''M_InOut_ID'', JInt native), (''DocAction'', JStr ''CO'')]) (\<lambda>_.
     bindS (record_envelope U ''erp.goods-shipment.completed.v1'' scope correlation
       (JObj [(''shipment_id'', JStr shipment), (''erp_shipment_native_id'', JInt native)])) (\<lambda>_.
     if \<not> su_consequences U then returnS ()
     else bindS (readS (\<lambda>s. order_of_document (ts_tenant scope) ''GoodsShipment'' shipment (db_documents (pr_db s)))) (\<lambda>order_id.
       case order_id of
         None \<Rightarrow> returnS ()
       | Some og \<Rightarrow> bindS read_clock (\<lambda>now.
           bindS (db_record_fact (ts_tenant scope) og SHIPMENT_COMPLETED now None) (\<lambda>recorded.
           announce_changed U recorded (Some correlation))))))))"

definition create_customer_invoice :: "'n service \<Rightarrow> TenantScope \<Rightarrow> string \<Rightarrow> ('n proc, exn, NativeDocumentRef) op" where
  "create_customer_invoice U scope og =
     bindS (deny_legacy_native_action (su_env U) scope ''create_customer_invoice'' og) (\<lambda>_.
     bindS (resolve_native U scope ''CommerceOrder'' og ''C_Order'') (\<lambda>native.
     bindS draw_uuid (\<lambda>u.
     bindS (create_and_map U scope ''CustomerInvoice'' (show_uuid u) ''C_Invoice'' [(''C_Order_ID'', JInt native)]) (\<lambda>ref.
     if \<not> su_consequences U then returnS ref
     else bindS (db_link_document (ts_tenant scope) ''CustomerInvoice'' (nd_canonical ref) og) (\<lambda>_. returnS ref)))))"

definition post_customer_invoice :: "'n service \<Rightarrow> TenantScope \<Rightarrow> string \<Rightarrow> string \<Rightarrow> ('n proc, exn, unit) op" where
  "post_customer_invoice U scope invoice correlation =
     bindS (deny_legacy_invoice_post (su_env U) scope invoice) (\<lambda>_.
     bindS (resolve_native U scope ''CustomerInvoice'' invoice ''C_Invoice'') (\<lambda>native.
     bindS (execute_governed_process U (post_customer_invoice_id (su_process_ids U))
       [(''C_Invoice_ID'', JInt native), (''DocAction'', JStr ''CO'')]) (\<lambda>_.
     bindS (record_envelope U ''erp.customer-invoice.posted.v1'' scope correlation
       (JObj [(''invoice_id'', JStr invoice), (''erp_invoice_native_id'', JInt native)])) (\<lambda>_.
     bindS (if \<not> su_consequences U then returnS ()
       else bindS (readS (\<lambda>s. order_of_document (ts_tenant scope) ''CustomerInvoice'' invoice (db_documents (pr_db s)))) (\<lambda>order_id.
         case order_id of
           None \<Rightarrow> returnS ()
         | Some og \<Rightarrow> bindS read_clock (\<lambda>now.
             bindS (mapped_erp_id U (ts_tenant scope) ''CustomerInvoice'' invoice) (\<lambda>public_id.
             bindS (db_record_fact (ts_tenant scope) og INVOICE_POSTED now public_id) (\<lambda>recorded.
             announce_changed U recorded (Some correlation)))))) (\<lambda>_.
     announce_invoice U scope invoice native False (Some correlation))))))"

definition create_payment ::
  "'n service \<Rightarrow> TenantScope \<Rightarrow> string \<Rightarrow> int \<Rightarrow> string \<Rightarrow> string \<Rightarrow> ('n proc, exn, NativeDocumentRef) op" where
  "create_payment U scope payment partner amount currency =
     bindS (deny_legacy_native_action (su_env U) scope ''create_payment'' payment) (\<lambda>_.
     create_and_map U scope ''Payment'' payment ''C_Payment''
       [(''C_BPartner_ID'', JInt partner), (''PayAmt'', JStr amount), (''CurrencyISO'', JStr currency)])"

definition complete_payment :: "'n service \<Rightarrow> TenantScope \<Rightarrow> string \<Rightarrow> string \<Rightarrow> ('n proc, exn, unit) op" where
  "complete_payment U scope payment correlation =
     bindS (deny_legacy_native_action (su_env U) scope ''complete_payment'' payment) (\<lambda>_.
     bindS (resolve_native U scope ''Payment'' payment ''C_Payment'') (\<lambda>native.
     bindS (execute_governed_process U (complete_payment_id (su_process_ids U))
       [(''C_Payment_ID'', JInt native), (''DocAction'', JStr ''CO'')]) (\<lambda>_.
     bindS (record_envelope U ''erp.payment.completed.v1'' scope correlation
       (JObj [(''payment_id'', JStr payment), (''erp_payment_native_id'', JInt native)])) (\<lambda>_.
     announce_payment U scope payment native None False (Some correlation)))))"

definition allocate_payment :: "'n service \<Rightarrow> TenantScope \<Rightarrow> string \<Rightarrow> string \<Rightarrow> string \<Rightarrow> string \<Rightarrow> ('n proc, exn, unit) op" where
  "allocate_payment U scope payment invoice amount correlation =
     bindS (deny_legacy_native_action (su_env U) scope ''allocate_payment'' (payment @ '':'' @ invoice)) (\<lambda>_.
     bindS (resolve_native U scope ''Payment'' payment ''C_Payment'') (\<lambda>payment_native.
     bindS (resolve_native U scope ''CustomerInvoice'' invoice ''C_Invoice'') (\<lambda>invoice_native.
     bindS (execute_governed_process U (allocate_payment_id (su_process_ids U))
       [(''C_Payment_ID'', JInt payment_native), (''C_Invoice_ID'', JInt invoice_native), (''Amount'', JStr amount)]) (\<lambda>_.
     bindS (record_envelope U ''erp.payment.allocated.v1'' scope correlation
       (JObj [(''payment_id'', JStr payment), (''invoice_id'', JStr invoice), (''amount'', JStr amount)])) (\<lambda>_.
     if \<not> su_outcomes U then returnS ()
     else bindS (mapped_erp_id U (ts_tenant scope) ''CustomerInvoice'' invoice) (\<lambda>public_id.
       bindS (announce_payment U scope payment payment_native public_id True (Some correlation)) (\<lambda>_.
       announce_invoice U scope invoice invoice_native True (Some correlation))))))))"

text \<open>\<open>post_customer_invoice_governed\<close>\<close>

definition post_customer_invoice_governed ::
  "contracts \<Rightarrow> 'n proc clock \<Rightarrow> 'n service \<Rightarrow> LegalActorOperation \<Rightarrow> 'n proc assessor option \<Rightarrow> 'n proc readiness option
     \<Rightarrow> 'n proc assessor option \<Rightarrow> TenantScope \<Rightarrow> string \<Rightarrow> string \<Rightarrow> ('n proc, exn, unit) op" where
  "post_customer_invoice_governed contract now U q assessor provider documentary scope invoice correlation =
     (if la_role q \<noteq> ''INVOICE_ISSUER'' \<or> la_capability q \<noteq> ''accounting.customer-invoice.post'' \<or> la_reference q \<noteq> invoice
         \<or> la_tenant q \<noteq> ts_tenant scope \<or> la_entity q \<noteq> ts_entity scope
      then raiseS (not_authorised ''invoice posting legal actor context mismatch'')
      else (case provider of
          None \<Rightarrow> raiseS (not_authorised ''independent documentary and provider readiness required'')
        | Some native \<Rightarrow>
            if documentary = None then raiseS (not_authorised ''independent documentary and provider readiness required'')
            else perform_governed_financial_action (su_lib U) contract now q assessor
              (Some (documentary_and_native (su_lib U) contract now native documentary))
              (authorised_invoice_post scope invoice (post_customer_invoice U scope invoice correlation))))"

section \<open>Every command stays within its permit\<close>

text \<open>An engine whose five calls stay within a relation; the REST client does for \<open>permit_step\<close>.\<close>

definition engine_within :: "('w \<Rightarrow> 'w \<Rightarrow> bool) \<Rightarrow> 'w engine \<Rightarrow> bool" where
  "engine_within R E \<longleftrightarrow> (\<forall>table i. within R (get_record E table i)) \<and> (\<forall>table cs sel. within R (query E table cs sel))
     \<and> (\<forall>table data. within R (create_record E table data)) \<and> (\<forall>table i data. within R (update_record E table i data))
     \<and> (\<forall>pid data. within R (execute_process E pid data))"

text \<open>A command of the layer.\<close>

datatype command =
    CreateOrder string int string "OrderLine list" "int option" "string option"
  | CompleteOrder string string
  | CreateShipment string string
  | CompleteShipment string string
  | CreateInvoice string
  | PostInvoice string string
  | CreatePayment string int string string
  | CompletePayment string string
  | AllocatePayment string string string string

definition discard :: "('s, 'e, 'a) op \<Rightarrow> ('s, 'e, unit) op" where
  "discard m = bindS m (\<lambda>_. returnS ())"

fun run_command :: "'n service \<Rightarrow> TenantScope \<Rightarrow> command \<Rightarrow> ('n proc, exn, unit) op" where
  "run_command U scope (CreateOrder og partner currency lines v correl) = discard (create_sales_order U scope og partner currency lines v correl)"
| "run_command U scope (CompleteOrder og correl) = complete_sales_order U scope og correl"
| "run_command U scope (CreateShipment shipment og) = discard (create_shipment U scope shipment og)"
| "run_command U scope (CompleteShipment shipment correl) = complete_shipment U scope shipment correl"
| "run_command U scope (CreateInvoice og) = discard (create_customer_invoice U scope og)"
| "run_command U scope (PostInvoice invoice correl) = post_customer_invoice U scope invoice correl"
| "run_command U scope (CreatePayment payment partner amount currency) = discard (create_payment U scope payment partner amount currency)"
| "run_command U scope (CompletePayment payment correl) = complete_payment U scope payment correl"
| "run_command U scope (AllocatePayment payment invoice amount correl) = allocate_payment U scope payment invoice amount correl"

lemma rest_client_engine_within:
  "protected_finance_runtime env \<Longrightarrow> engine_within (permit_step env c) (rest_client L env P c)"
  by (simp add: engine_within_def rest_client_within)

text \<open>
  A relation that does not look at the connection: using the database, the clock and \<open>uuid4\<close> stays within
  it, and so does a request announced to the guard when its body does. Then every command does, given an engine
  that does.
\<close>

lemma within_case_json:
  "(\<And>t. x = JStr t \<Longrightarrow> within R (f t)) \<Longrightarrow> within R m \<Longrightarrow> within R (case x of JStr t \<Rightarrow> f t | _ \<Rightarrow> m)"
  by (cases x) auto

lemma within_case_bool:
  "within R m \<Longrightarrow> within R n \<Longrightarrow> within R (case b of True \<Rightarrow> m | False \<Rightarrow> n)"
  by (cases b) auto

lemma within_facts_or_stop: "within R m \<Longrightarrow> within R (facts_or_stop m)"
  by (auto simp: within_def facts_or_stop_def split: prod.split sum.split) (metis snd_conv)+

locale connection_relation =
  fixes R :: "'n proc \<Rightarrow> 'n proc \<Rightarrow> bool"
  assumes refl: "reflp R" and trans: "transp R"
    and uses: "R s (s\<lparr>pr_db := d\<rparr>)" "R s (s\<lparr>pr_ticks := n\<rparr>)" "R s (s\<lparr>pr_drawn := n\<rparr>)" "R s (s\<lparr>cx_request := q\<rparr>)"
begin

lemma request:
  assumes "within R m"
  shows "within R (authorised_native_financial_request L method path body m)"
proof -
  have "R s (snd (authorised_native_financial_request L method path body m s))" for s
  proof (cases "m (s\<lparr>cx_request := Some (py_upper method, path, request_digest L (JObj body))\<rparr>)")
    case (Pair r s')
    have "R s s'" using uses(4) withinD [OF assms Pair] by (rule transpD [OF trans])
    then have "R s (s'\<lparr>cx_request := cx_request s\<rparr>)" using uses(4) by (rule transpD [OF trans])
    with Pair show ?thesis by (simp add: authorised_native_financial_request_def)
  qed
  then show ?thesis by (simp add: within_def)
qed

lemmas rules = within_stop [OF refl] within_bindS [OF trans] within_if within_case_option within_case_sum within_case_prod
  within_case_list within_case_json within_case_bool within_facts_or_stop request

lemma quiet: "within R read_clock" "within R draw_uuid" "within R (on_db m)"
  using uses by (simp_all add: within_def read_clock_def draw_uuid_def on_db_def split: prod.split)

lemma stores:
  "within R (outbox_record_event U e)" "within R (outbox_record_legacy U en)"
  "within R (mapped_native U tenant ctype cid)" "within R (mapped_erp_id U tenant ctype cid)"
  "within R (store_mapping U scope ctype cid table native)"
  "within R (db_open_order tenant entity og v erp now)" "within R (db_link_document tenant ty doc og)"
  "within R (db_record_fact tenant og fct now invoice)" "within R (db_advance tenant ty doc status detail now)"
  unfolding outbox_record_event_def outbox_record_legacy_def mapped_native_def mapped_erp_id_def read_db_def store_mapping_def
    db_open_order_def db_link_document_def db_record_fact_def db_advance_def
  by (intro rules quiet)+

lemma announcing:
  "within R (announce U b rec correlation)" "within R (announce_changed U recorded correlation)"
  "within R (record_envelope U ty scope correl payload)" "within R (resolve_native U scope ctype cid expected)"
  "within R (deny_legacy_native_action e scope action ref)" "within R (deny_legacy_invoice_post e scope invoice)"
  unfolding announce_def announce_changed_def record_envelope_def service_envelope_def resolve_native_def
    deny_legacy_native_action_def deny_legacy_invoice_post_def
  by (intro rules quiet stores)+

lemma reading_facts:
  assumes "engine_within R E"
  shows "within R (read_invoice E native)" "within R (read_payment E native)"
proof -
  have e: "\<And>t i. within R (get_record E t i)" using assms by (simp add: engine_within_def)
  show "within R (read_invoice E native)" "within R (read_payment E native)"
    unfolding read_invoice_def read_payment_def read_money_def by (intro rules e)+
qed

lemma announcing_facts:
  assumes "engine_within R (su_engine U)"
  shows "within R (announce_invoice U scope invoice native allocated correlation)"
    "within R (announce_payment U scope payment native public req correlation)"
  unfolding announce_invoice_def announce_payment_def
  by (intro rules quiet stores reading_facts [OF assms])+

lemma command:
  assumes "engine_within R (su_engine U)"
  shows "within R (run_command U scope cmd)"
proof -
  have create: "\<And>ctype cid t d. within R (create_and_map U scope ctype cid t d)"
    using assms unfolding create_and_map_def engine_within_def by (intro rules stores) simp
  have execute: "\<And>pid d. within R (execute_governed_process U pid d)"
    using assms unfolding execute_governed_process_def engine_within_def by (intro rules) simp
  note parts = rules quiet stores announcing create execute announcing_facts [OF assms]
  show ?thesis
    by (cases cmd)
      (simp_all only: run_command.simps discard_def create_sales_order_def complete_sales_order_def create_shipment_def
        complete_shipment_def create_customer_invoice_def post_customer_invoice_def create_payment_def complete_payment_def
        allocate_payment_def, (intro parts)+)
qed

end

interpretation permit: connection_relation "permit_step env c" for env c
  by unfold_locales (simp_all add: permit_step_refl permit_step_trans permit_step_def permits_left_def)

text \<open>The view at the last commit.\<close>

definition unsaved :: "'n proc \<Rightarrow> 'n proc \<Rightarrow> bool" where
  "unsaved s s' \<longleftrightarrow> pr_saved s' = pr_saved s"

interpretation unsaved: connection_relation unsaved
  by unfold_locales (auto simp: unsaved_def intro: reflpI transpI)

end
