(* ===== verification/Command_Facts.thy ===== *)
theory Command_Facts
  imports Order_Service
begin

text \<open>
  What the commands of \<open>Order_Service\<close> guarantee: nothing happens without a marker, nothing is written before
  the engine accepted, and every revision of the order-consequence read model is announced exactly once in the
  transaction that makes it.
\<close>

section \<open>No marker, no command\<close>

text \<open>The legacy path is closed. In a protected runtime a command that runs outside a governed operation is
  refused before anything happens: whatever the engine, the stores and the arguments, it raises
  \<open>OrderToCashError\<close> and leaves the engine, the database and the context as they were. A marker of another
  tenant, legal entity, action or reference opens nothing either.\<close>

theorem ungoverned_command_refused:
  assumes "protected_finance_runtime (su_env U)"
    "\<And>action ref. \<not> action_matches (cx_action s) scope action ref" "\<And>invoice. \<not> invoice_matches (cx_invoice s) scope invoice"
  shows "run_command U scope cmd s = (Inl OrderToCashError_denied, s)"
proof -
  have "deny_legacy_native_action (su_env U) scope action ref s = (Inl OrderToCashError_denied, s)" for action ref
    using assms by (simp add: deny_legacy_native_action_def checkS_def)
  moreover have "deny_legacy_invoice_post (su_env U) scope invoice s = (Inl OrderToCashError_denied, s)" for invoice
    using assms by (simp add: deny_legacy_invoice_post_def checkS_def)
  ultimately show ?thesis
    by (cases cmd)
      (simp_all add: discard_def create_sales_order_def complete_sales_order_def create_shipment_def complete_shipment_def
        create_customer_invoice_def post_customer_invoice_def create_payment_def complete_payment_def allocate_payment_def bindS_def)
qed

definition idle_process :: "'n \<Rightarrow> database \<Rightarrow> 'n proc" where
  "idle_process n d = \<lparr>cx_action = None, cx_invoice = None, cx_request = None, cx_spent = True, cx_session = no_session,
     cx_sent = [], cx_net = n, pr_db = d, pr_saved = d, pr_clock = (\<lambda>k. int k * 1000000), pr_ticks = 0, pr_uuids = (\<lambda>k. k),
     pr_drawn = 0\<rparr>"

definition empty_database :: database where
  "empty_database = \<lparr>db_inbox = [], db_outbox = [], db_mappings = [], db_tenants = [], db_masters = [], db_orders = [],
     db_documents = [], db_executions = [], db_outcomes = [], db_provisioning = empty_provisioning\<rparr>"

definition sample_service :: "deployment \<Rightarrow> unit service" where
  "sample_service env = \<lparr>su_lib = sample_lib sample_answer, su_pg_uuid = uuid_of, su_env = env,
     su_engine = rest_client (sample_lib sample_answer) env sample_peers sample_credentials,
     su_process_ids = \<lparr>complete_sales_order_id = 1, complete_shipment_id = 2, post_customer_invoice_id = 3,
       complete_payment_id = 4, allocate_payment_id = 5\<rparr>,
     su_consequences = True, su_outcomes = True, su_outbox = True\<rparr>"

theorem ungoverned_command_refused_witness:
  "run_command (sample_service (\<lambda>k. None)) sample_scope (CompleteOrder ''order_1'' ''corr'') (idle_process () empty_database)
     = (Inl OrderToCashError_denied, idle_process () empty_database)"
proof (rule ungoverned_command_refused)
  show "protected_finance_runtime (su_env (sample_service (\<lambda>k. None)))"
    using protected_by_default by (simp add: sample_service_def)
qed (simp_all add: idle_process_def)

section \<open>Every revision is announced once\<close>

definition announcement :: "string \<Rightarrow> string \<Rightarrow> outbox_row \<Rightarrow> bool" where
  "announcement tenant og r \<longleftrightarrow> ob_cloudevents r \<and> ob_type r = CONSEQUENCE_EVENT \<and> ob_tenant r = Some tenant \<and> ob_subject r = ''order:'' @ og"

definition announcements :: "database \<Rightarrow> string \<Rightarrow> string \<Rightarrow> nat" where
  "announcements d tenant og = count_where (announcement tenant og) (db_outbox d)"

definition revision :: "database \<Rightarrow> string \<Rightarrow> string \<Rightarrow> nat" where
  "revision d tenant og = (case select_one (of_order tenant og) (db_orders d) of None \<Rightarrow> 0 | Some r \<Rightarrow> co_revision r)"

definition announced :: "database \<Rightarrow> bool" where
  "announced d \<longleftrightarrow> consequence_inv (db_orders d) \<and> (\<forall>tenant og. announcements d tenant og = revision d tenant og)"

text \<open>The read model and its announcements are left alone.\<close>

definition unannounced :: "'n proc \<Rightarrow> 'n proc \<Rightarrow> bool" where
  "unannounced s s' \<longleftrightarrow> db_orders (pr_db s') = db_orders (pr_db s) \<and> announcements (pr_db s') = announcements (pr_db s)"

lemma unannounced_rules: "reflp unannounced" "transp unannounced"
  by (auto simp: unannounced_def intro: reflpI transpI)

lemma within_bind_lift:
  assumes "reflp R" "\<And>a. r = Inr a \<Longrightarrow> within R (f a)"
  shows "within R (bindS (liftS r) f)"
  using assms by (cases r) (auto simp: within_def bindS_def reflpD)

lemmas unannounced_intros = within_stop [OF unannounced_rules(1)] within_bind_lift [OF unannounced_rules(1)]
  within_bindS [OF unannounced_rules(2)] within_if
  within_case_option within_case_sum within_case_prod within_case_list within_case_json within_case_bool within_facts_or_stop

lemma unannounced_same: "(\<And>s. pr_db (snd (m s)) = pr_db s) \<Longrightarrow> within unannounced m"
  by (simp add: within_def unannounced_def)

lemma unannounced_on_db:
  "(\<And>d. db_orders (snd (m d)) = db_orders d \<and> announcements (snd (m d)) = announcements d) \<Longrightarrow> within unannounced (on_db m)"
  by (simp add: within_def unannounced_def on_db_def split: prod.split) (metis snd_conv)

lemma insert_row_cases: "Outbox.insert_row r rows = Inr rows' \<Longrightarrow> rows' = rows @ [r]"
  by (auto simp: Outbox.insert_row_def split: if_splits)

lemma record_event_cases:
  assumes "record_event L pg e t rows = Inr rows'"
  obtains n corr caus where "rows' = rows @ [event_row e n corr caus t]"
  using assms by (auto simp: record_event_def bindE_Inr_iff dest!: insert_row_cases split: sum.splits if_splits)

lemma record_legacy_cases:
  assumes "record_legacy pg en t rows = Inr rows'"
  obtains r where "rows' = rows @ [r]" "\<not> ob_cloudevents r"
  using assms by (auto simp: record_legacy_def dest!: insert_row_cases split: json.splits option.splits)

lemma store_outbox_unannounced:
  assumes "\<And>rows rows'. f rows = Inr rows' \<Longrightarrow> \<exists>r. rows' = rows @ [r] \<and> (\<forall>tenant og. \<not> announcement tenant og r)"
  shows "within unannounced (on_db (store_outbox f))"
proof (rule unannounced_on_db)
  fix d
  show "db_orders (snd (store_outbox f d)) = db_orders d \<and> announcements (snd (store_outbox f d)) = announcements d"
  proof (cases "f (db_outbox d)")
    case (Inr rows')
    with assms obtain r where "rows' = db_outbox d @ [r]" "\<forall>tenant og. \<not> announcement tenant og r" by blast
    with Inr show ?thesis by (simp add: store_outbox_def announcements_def fun_eq_iff)
  qed (simp add: store_outbox_def)
qed

lemma event_unannounced:
  assumes "jtext (ev_type e) \<noteq> CONSEQUENCE_EVENT"
  shows "within unannounced (outbox_record_event U e)"
proof -
  have "within unannounced (on_db (store_outbox (record_event (su_lib U) (su_pg_uuid U) e t)))" for t
    by (rule store_outbox_unannounced) (use assms in \<open>auto simp: announcement_def event_row_def elim!: record_event_cases\<close>)
  moreover have "within unannounced read_clock" by (rule unannounced_same) (simp add: read_clock_def)
  ultimately show ?thesis unfolding outbox_record_event_def by (intro unannounced_intros)
qed

lemma legacy_unannounced: "within unannounced (outbox_record_legacy U en)"
proof -
  have "within unannounced (on_db (store_outbox (record_legacy (su_pg_uuid U) en t)))" for t
    by (rule store_outbox_unannounced) (auto simp: announcement_def elim!: record_legacy_cases)
  moreover have "within unannounced read_clock" by (rule unannounced_same) (simp add: read_clock_def)
  ultimately show ?thesis unfolding outbox_record_legacy_def by (intro unannounced_intros)
qed

lemma quiet_unannounced:
  "within unannounced read_clock" "within unannounced draw_uuid" "within unannounced (deny_legacy_native_action env scope action ref)"
  "within unannounced (deny_legacy_invoice_post env scope invoice)"
  by (rule unannounced_same, simp add: read_clock_def draw_uuid_def deny_legacy_native_action_def deny_legacy_invoice_post_def checkS_def)+

lemma db_unannounced:
  "within unannounced (db_link_document tenant ty doc og)" "within unannounced (db_advance tenant ty doc status detail now)"
  unfolding db_link_document_def db_advance_def
  by (rule unannounced_on_db, simp add: announcements_def fun_eq_iff split: prod.split)+

lemma store_mapping_unannounced: "within unannounced (store_mapping U scope ctype cid table native)"
  unfolding store_mapping_def
  by (intro unannounced_intros quiet_unannounced unannounced_on_db)
    (simp add: announcements_def fun_eq_iff split: sum.split prod.split)

lemma look_up_unannounced:
  "within unannounced (mapped_native U tenant ctype cid)" "within unannounced (mapped_erp_id U tenant ctype cid)"
  "within unannounced (resolve_native U scope ctype cid expected)" "within unannounced (record_envelope U ty scope correl payload)"
  unfolding resolve_native_def mapped_native_def mapped_erp_id_def read_db_def record_envelope_def service_envelope_def
  by (intro unannounced_intros quiet_unannounced legacy_unannounced)+

lemma with_request_unannounced:
  assumes "within unannounced m"
  shows "within unannounced (authorised_native_financial_request L method path body m)"
proof -
  have "unannounced s (snd (authorised_native_financial_request L method path body m s))" for s
  proof (cases "m (s\<lparr>cx_request := Some (py_upper method, path, request_digest L (JObj body))\<rparr>)")
    case (Pair r s')
    from withinD [OF assms this] Pair show ?thesis by (simp add: authorised_native_financial_request_def unannounced_def)
  qed
  then show ?thesis by (simp add: within_def)
qed

lemma new_event_members:
  assumes "new_event L u ty subject correlation data tenant causation idem tp t = Inr e"
  shows "ev_type e = JStr ty" "ev_subject e = JStr subject" "ev_tenantid e = (case tenant of None \<Rightarrow> JNull | Some s \<Rightarrow> JStr s)"
  using assms by (auto simp: new_event_def dest!: validate_Inr split: option.splits if_splits)

lemma mapE_exn_Inr: "mapE_exn f r = Inr a \<longleftrightarrow> r = Inr a"
  by (cases r) (simp_all add: mapE_exn_def)

lemma outcome_event_types:
  "invoice_changed_event L u tenant entity pid og facts status seen n now c = Inr e \<Longrightarrow> jtext (ev_type e) \<noteq> CONSEQUENCE_EVENT"
  "payment_accounting_event L u tenant entity cap pid paid pfacts status n now c = Inr e \<Longrightarrow> jtext (ev_type e) \<noteq> CONSEQUENCE_EVENT"
  by (auto simp: invoice_changed_event_def payment_accounting_event_def bindE_Inr_iff INVOICE_EVENT_def PAYMENT_EVENT_def
      CONSEQUENCE_EVENT_def dest!: new_event_members(1))

text \<open>An engine that leaves the connection alone, as the REST client does.\<close>

definition apart :: "'n proc \<Rightarrow> 'n proc \<Rightarrow> bool" where
  "apart s s' \<longleftrightarrow> pr_db s' = pr_db s \<and> pr_saved s' = pr_saved s"

lemma frame_apart:
  assumes m: "within frame m"
  shows "within apart m"
proof -
  have "apart s (snd (m s))" for s
  proof -
    have "frame s (snd (m s))" using m by (simp add: within_def)
    then show ?thesis by (cases s; cases "snd (m s)") (simp add: frame_def apart_def)
  qed
  then show ?thesis by (simp add: within_def)
qed

lemma rest_client_apart: "engine_within apart (rest_client L env P c)"
  unfolding engine_within_def by (intro conjI allI frame_apart rest_client_frame)

lemma apart_unannounced: "within apart m \<Longrightarrow> within unannounced m"
  by (simp add: within_def apart_def unannounced_def)

lemma engine_unannounced:
  assumes "engine_within apart E"
  shows "within unannounced (get_record E table i)" "within unannounced (create_record E table data)"
    "within unannounced (execute_process E pid data)"
  using assms by (auto simp: engine_within_def intro: apart_unannounced)

lemma read_facts_unannounced:
  assumes "engine_within apart E"
  shows "within unannounced (read_invoice E native)" "within unannounced (read_payment E native)"
  unfolding read_invoice_def read_payment_def read_money_def
  by (intro unannounced_intros engine_unannounced [OF assms])+

lemma announce_facts_unannounced:
  assumes "engine_within apart (su_engine U)"
  shows "within unannounced (announce_invoice U scope invoice native allocated correlation)"
    "within unannounced (announce_payment U scope payment native public req correlation)"
proof -
  show "within unannounced (announce_invoice U scope invoice native allocated correlation)"
    unfolding announce_invoice_def
    by (intro unannounced_intros read_facts_unannounced [OF assms] look_up_unannounced quiet_unannounced db_unannounced event_unannounced)
      (auto simp: mapE_exn_Inr dest: outcome_event_types)
  show "within unannounced (announce_payment U scope payment native public req correlation)"
    unfolding announce_payment_def
    by (intro unannounced_intros read_facts_unannounced [OF assms] look_up_unannounced quiet_unannounced db_unannounced event_unannounced)
      (auto simp: mapE_exn_Inr dest: outcome_event_types)
qed

lemma create_execute_unannounced:
  assumes "engine_within apart (su_engine U)"
  shows "within unannounced (create_and_map U scope ctype cid table data)" "within unannounced (execute_governed_process U pid data)"
  unfolding create_and_map_def execute_governed_process_def
  by (intro unannounced_intros with_request_unannounced engine_unannounced [OF assms] store_mapping_unannounced)+

lemma consequence_event_members:
  assumes "consequence_changed_event L u c correlation = Inr e"
  shows "jtext (ev_type e) = CONSEQUENCE_EVENT" "jtext (ev_subject e) = ''order:'' @ co_order c" "text_opt (ev_tenantid e) = Some (co_tenant c)"
  using assms by (auto simp: consequence_changed_event_def bindE_Inr_iff dest: new_event_members)

lemma announce_adds:
  assumes "announce U True c correlation s = (Inr (), s')"
  shows "db_orders (pr_db s') = db_orders (pr_db s)
    \<and> announcements (pr_db s') tenant og = announcements (pr_db s) tenant og + (if tenant = co_tenant c \<and> og = co_order c then 1 else 0)"
proof -
  let ?s1 = "s\<lparr>pr_drawn := Suc (pr_drawn s), pr_ticks := Suc (pr_ticks s)\<rparr>"
  have "\<exists>u e t. consequence_changed_event (su_lib U) u c correlation = Inr e
      \<and> on_db (store_outbox (record_event (su_lib U) (su_pg_uuid U) e t)) ?s1 = (Inr (), s')"
    using assms by (auto simp: announce_def outbox_record_event_def bindS_Inr_iff mapE_exn_Inr draw_uuid_def read_clock_def)
  moreover have "pr_db ?s1 = pr_db s" by simp
  ultimately obtain u e s1 t where e: "consequence_changed_event (su_lib U) u c correlation = Inr e"
      and s1: "pr_db s1 = pr_db s" and run: "on_db (store_outbox (record_event (su_lib U) (su_pg_uuid U) e t)) s1 = (Inr (), s')"
    by blast
  from run obtain rows' where "record_event (su_lib U) (su_pg_uuid U) e t (db_outbox (pr_db s1)) = Inr rows'"
      and s': "pr_db s' = (pr_db s)\<lparr>db_outbox := rows'\<rparr>"
    using s1 by (auto simp: on_db_def store_outbox_def split: prod.splits sum.splits)
  then obtain n corr caus where "rows' = db_outbox (pr_db s) @ [event_row e n corr caus t]" using s1 by (auto elim: record_event_cases)
  with s' consequence_event_members [OF e] show ?thesis
    by (auto simp: announcements_def announcement_def event_row_def)
qed

lemma revision_note:
  assumes "consequence_inv (db_orders d)" "select_one (of_order tenant og) (db_orders d) = Some r"
  shows "revision (d\<lparr>db_orders := update_where (of_order tenant og) (note_fact f now i) (db_orders d)\<rparr>) t o' =
    revision d t o' + (if t = tenant \<and> o' = og then 1 else 0)"
proof (cases "t = tenant \<and> o' = og")
  case True
  then show ?thesis using assms select_one_update_same [of "of_order tenant og" "note_fact f now i" "db_orders d"]
    by (simp add: revision_def)
next
  case False
  then have "of_order tenant og r \<Longrightarrow> \<not> of_order t o' r" for r by (auto simp: of_order_def)
  then show ?thesis using select_one_update_other [of "of_order tenant og" "of_order t o'" "note_fact f now i" "db_orders d"] False
    by (simp add: revision_def)
qed

lemma fact_announced:
  "keeps (\<lambda>s. announced (pr_db s)) (bindS (db_record_fact tenant og f now invoice) (\<lambda>recorded. announce_changed U recorded correlation))"
  unfolding keeps_def
proof (intro allI impI)
  fix s r s'
  assume a: "announced (pr_db s)"
    and run: "bindS (db_record_fact tenant og f now invoice) (\<lambda>recorded. announce_changed U recorded correlation) s = (Inr r, s')"
  let ?d = "pr_db s"
  let ?rows' = "update_where (of_order tenant og) (note_fact f now invoice) (db_orders ?d)"
  show "announced (pr_db s')"
  proof (cases "\<exists>r. select_one (of_order tenant og) (db_orders ?d) = Some r \<and> fact_at f r = None")
    case False
    then have "s' = s" using run
      by (cases "get_consequence tenant og (db_orders ?d)")
        (auto simp: bindS_def db_record_fact_def on_db_def record_fact_def announce_changed_def Let_def split: option.splits prod.splits)
    with a show ?thesis by simp
  next
    case True
    then obtain r where r: "select_one (of_order tenant og) (db_orders ?d) = Some r" "fact_at f r = None" by blast
    have i: "pred_option (fullmatch public_id_rx) invoice"
      using run r by (cases "pred_option (fullmatch public_id_rx) invoice")
        (simp_all add: bindS_def db_record_fact_def on_db_def record_fact_def)
    from r have "select_one (of_order tenant og) ?rows' = Some (note_fact f now invoice r)"
      using select_one_update_same [of "of_order tenant og" "note_fact f now invoice" "db_orders ?d"] by simp
    with r have run': "announce U True (OrderConsequence.truncate (note_fact f now invoice r)) correlation
        (s\<lparr>pr_db := ?d\<lparr>db_orders := ?rows'\<rparr>\<rparr>) = (Inr (), s')"
      using run r i by (simp add: bindS_def db_record_fact_def on_db_def record_fact_def announce_changed_def get_consequence_def)
    have key: "co_tenant r = tenant" "co_order r = og" using select_one_SomeD [OF r(1)] by (auto simp: of_order_def)
    have "consequence_inv ?rows'"
      by (rule consequence_inv_fact [of "db_orders ?d" tenant og f now invoice "fst (record_fact tenant og f now invoice (db_orders ?d))"])
        (use a r i in \<open>simp_all add: announced_def record_fact_def Let_def\<close>)
    moreover have "announcements (pr_db s') t o' = revision (pr_db s') t o'" for t o'
    proof -
      have 1: "db_orders (pr_db s') = ?rows'"
        "announcements (pr_db s') t o' = announcements ?d t o' + (if t = tenant \<and> o' = og then 1 else 0)"
        using announce_adds [OF run', of t o'] key by (simp_all add: announcements_def OrderConsequence.truncate_def)
      have "revision (pr_db s') t o' = revision (?d\<lparr>db_orders := ?rows'\<rparr>) t o'" using 1(1) by (simp add: revision_def)
      also have "\<dots> = revision ?d t o' + (if t = tenant \<and> o' = og then 1 else 0)"
        using a r(1) by (intro revision_note) (simp_all add: announced_def)
      finally show ?thesis using 1(2) a by (simp add: announced_def)
    qed
    moreover have "db_orders (pr_db s') = ?rows'" using announce_adds [OF run'] by simp
    ultimately show ?thesis by (simp add: announced_def)
  qed
qed

lemma open_order_new:
  assumes "open_order tenant entity og version erp now rows = (Inr c, rows')"
  shows "rows' = rows @ [opened_row tenant entity og version erp now]" "\<not> has_order tenant og rows"
    "c = OrderConsequence.truncate (opened_row tenant entity og version erp now)"
  using assms
  by (auto simp: open_order_def Let_def get_consequence_def select_one_append has_order_def opened_row_def of_order_def
      split: if_splits option.splits)

lemma revision_opened:
  assumes "open_order tenant entity og version erp now (db_orders d) = (Inr c, orders)" "db_orders d' = orders"
  shows "revision d' t o' = revision d t o' + (if t = tenant \<and> o' = og then 1 else 0)"
proof -
  have "of_order t o' (opened_row tenant entity og version erp now) \<longleftrightarrow> t = tenant \<and> o' = og" for t o'
    by (auto simp: of_order_def opened_row_def Let_def)
  with open_order_new [OF assms(1)] assms(2) show ?thesis
    by (auto simp: revision_def select_one_append has_order_def opened_row_def Let_def split: option.splits)
qed

lemma open_announced:
  "keeps (\<lambda>s. announced (pr_db s)) (bindS (db_open_order tenant entity og version erp now) (\<lambda>opened.
     bindS (announce U True opened correlation) (\<lambda>_. returnS ref)))"
  unfolding keeps_def
proof (intro allI impI)
  fix s x s'
  assume a: "announced (pr_db s)" and run: "bindS (db_open_order tenant entity og version erp now) (\<lambda>opened.
     bindS (announce U True opened correlation) (\<lambda>_. returnS ref)) s = (Inr x, s')"
  let ?d = "pr_db s" and ?row = "opened_row tenant entity og version erp now"
  obtain c rows' where o: "open_order tenant entity og version erp now (db_orders ?d) = (Inr c, rows')"
      and run': "announce U True c correlation (s\<lparr>pr_db := ?d\<lparr>db_orders := rows'\<rparr>\<rparr>) = (Inr (), s')"
    using run by (auto simp: bindS_Inr_iff db_open_order_def on_db_def split: prod.splits)
  note new = open_order_new [OF o]
  have "announcements (pr_db s') t o' = revision (pr_db s') t o'" for t o'
  proof -
    have "db_orders (pr_db s') = rows'"
      "announcements (pr_db s') t o' = announcements ?d t o' + (if t = tenant \<and> o' = og then 1 else 0)"
      using announce_adds [OF run', of t o'] new(3) by (simp_all add: announcements_def OrderConsequence.truncate_def opened_row_def Let_def)
    moreover have "revision (pr_db s') t o' = revision ?d t o' + (if t = tenant \<and> o' = og then 1 else 0)"
      using calculation(1) by (intro revision_opened [OF o]) simp_all
    ultimately show ?thesis using a by (simp add: announced_def)
  qed
  moreover have "db_orders (pr_db s') = rows'" using announce_adds [OF run'] by simp
  moreover have "consequence_inv rows'" using consequence_inv_open [OF _ o] a by (simp add: announced_def)
  ultimately show "announced (pr_db s')" by (simp add: announced_def)
qed

section \<open>Commands in their transactions\<close>

lemma unannounced_keeps: "within unannounced m \<Longrightarrow> keeps (\<lambda>s. announced (pr_db s)) m"
  unfolding keeps_def announced_def revision_def by (metis unannounced_def withinD)

lemma command_announces:
  assumes E: "engine_within apart (su_engine U)" and outbox: "su_outbox U"
  shows "keeps (\<lambda>s. announced (pr_db s)) (run_command U scope cmd)"
proof -
  note quiet = quiet_unannounced look_up_unannounced db_unannounced create_execute_unannounced [OF E] announce_facts_unannounced [OF E]
  note parts = fact_announced open_announced [where tenant = tenant] keeps_stop keeps_cases keeps_bindS
  have case_bool: "keeps P m \<Longrightarrow> keeps P n \<Longrightarrow> keeps P (case b of True \<Rightarrow> m | False \<Rightarrow> n)" for P m n b by (cases b) auto
  show ?thesis
    by (cases cmd)
      (simp_all only: run_command.simps discard_def create_sales_order_def complete_sales_order_def create_shipment_def
        complete_shipment_def create_customer_invoice_def post_customer_invoice_def create_payment_def complete_payment_def
        allocate_payment_def outbox, (intro fact_announced open_announced keeps_stop keeps_cases keeps_bindS unannounced_keeps quiet)+)
qed

text \<open>A caller commits a command that returned and rolls back one that raised.\<close>

definition transaction :: "('n proc, exn, 'a) op \<Rightarrow> 'n proc \<Rightarrow> 'n proc" where
  "transaction m s = (case m s of (Inr a, s') \<Rightarrow> snd (commit_tx s') | (Inl e, s') \<Rightarrow> snd (rollback_tx s'))"

lemma apart_unsaved: "within apart m \<Longrightarrow> within unsaved m"
  by (simp add: within_def apart_def unsaved_def)

lemma engine_unsaved: "engine_within apart E \<Longrightarrow> engine_within unsaved E"
  by (auto simp: engine_within_def intro: apart_unsaved)

lemma transaction_announces:
  assumes "engine_within apart (su_engine U)" "su_outbox U" "announced (pr_saved s)" "pr_db s = pr_saved s"
  shows "announced (pr_saved (transaction (run_command U scope cmd) s)) \<and>
    pr_db (transaction (run_command U scope cmd) s) = pr_saved (transaction (run_command U scope cmd) s)"
proof (cases "run_command U scope cmd s")
  case (Pair r s')
  have saved: "pr_saved s' = pr_saved s"
    using withinD [OF unsaved.command [OF engine_unsaved [OF assms(1)]] Pair] by (simp add: unsaved_def)
  show ?thesis
  proof (cases r)
    case (Inr u)
    have "announced (pr_db s)" using assms(3,4) by simp
    moreover have "run_command U scope cmd s = (Inr u, s')" using Pair Inr by simp
    ultimately have "announced (pr_db s')" by (rule keepsD [OF command_announces [OF assms(1,2)]])
    with Pair Inr show ?thesis by (simp add: transaction_def commit_tx_def)
  qed (use Pair saved assms(3) in \<open>simp add: transaction_def rollback_tx_def\<close>)
qed



section \<open>One engine write, under its own permit\<close>

text \<open>C29: A command in a protected runtime sends the engine at most one write, and that write is one the guard
  permits under the markers the command runs under: none when the permit of the governed operation was spent.
  It leaves the committed database alone, and its markers as they were.\<close>

theorem command_sends_one_write:
  assumes "protected_finance_runtime env" "su_engine U = rest_client L env P c" "run_command U scope cmd s = (r, s')"
  shows "\<exists>new. cx_sent s' = new @ cx_sent s \<and> (\<forall>rq \<in> set new. engine_write rq \<longrightarrow> permitted env c s rq)
    \<and> count_where engine_write new \<le> (if cx_spent s then 0 else 1) \<and> pr_saved s' = pr_saved s
    \<and> cx_action s' = cx_action s \<and> cx_invoice s' = cx_invoice s"
proof -
  have E: "engine_within (permit_step env c) (su_engine U)" "engine_within unsaved (su_engine U)"
    using assms(1,2) by (simp_all add: rest_client_engine_within engine_unsaved rest_client_apart)
  have "permit_step env c s s'" by (rule withinD [OF permit.command [OF E(1)] assms(3)])
  moreover have "pr_saved s' = pr_saved s" using withinD [OF unsaved.command [OF E(2)] assms(3)] by (simp add: unsaved_def)
  ultimately show ?thesis by (auto simp: permit_step_def permits_left_def split: if_splits)
qed

definition sample_governed_process :: "unit proc" where
  "sample_governed_process = (idle_process () empty_database)\<lparr>
     cx_action := Some (''tn_1'', ''BV'', ''create_sales_order'', ''order_1'', 11, 50), cx_spent := False\<rparr>"

definition sample_create_order :: command where
  "sample_create_order = CreateOrder ''order_1'' 5 ''EUR'' [\<lparr>ol_product = ''31'', ol_quantity = ''2'', ol_price = ''1.00''\<rparr>] None None"

theorem command_sends_one_write_witness:
  "count_where engine_write
     (cx_sent (snd (run_command (sample_service (\<lambda>k. None)) sample_scope sample_create_order sample_governed_process))) \<le> 1"
proof -
  let ?run = "run_command (sample_service (\<lambda>k. None)) sample_scope sample_create_order sample_governed_process"
  have "su_engine (sample_service (\<lambda>k. None)) = rest_client (sample_lib sample_answer) (\<lambda>k. None) sample_peers sample_credentials"
    by (simp add: sample_service_def)
  from command_sends_one_write [OF protected_by_default this, of sample_scope sample_create_order sample_governed_process "fst ?run" "snd ?run"]
  show ?thesis by (auto simp: sample_governed_process_def idle_process_def)
qed

section \<open>The governed command\<close>

text \<open>C12: A governed command writes to the engine at most once, and only when everyone agreed. Whichever command of the service is run
  as a governed native action in a protected runtime, over the REST client, a write happens only under a reviewed policy that binds
  exactly this operation, tenant, legal entity and resource, and after, in this order, Control Plane authorised the mandate, the
  documentary scope was open, the native provider was ready, the documentary scope was open again, and Control Plane authorised the
  same mandate again, each decision being for this operation and current at that moment; the write is one the guard permits for this
  action and reference. The markers and the permit are put back afterwards, also when the command fails.\<close>

theorem governed_single_write:
  assumes "protected_finance_runtime env" "su_engine U = rest_client M env P c" "quiet_ports now assessor provider documentary"
    "perform_governed_native_action L contract now policy q scope ref assessor provider documentary (run_command U target cmd) s = (r, s')"
  shows "\<exists>new. cx_sent s' = new @ cx_sent s \<and> cx_action s' = cx_action s \<and> cx_spent s' = cx_spent s \<and> cx_invoice s' = cx_invoice s
    \<and> (count_where engine_write new = 0 \<or> (count_where engine_write new = 1
        \<and> (\<exists>p a native d s0. policy = Some p \<and> policy_binds p q scope ref \<and> assessor = Some a \<and> provider = Some native
             \<and> documentary = Some d \<and> agreed L contract q a now native d s s0
             \<and> authorised_native_action scope (np_action p) ref (run_command U target cmd) s0 = (r, s')
             \<and> (\<forall>rq \<in> set new. engine_write rq \<longrightarrow> permitted env c (s\<lparr>cx_action := Some (ts_tenant scope, ts_entity scope,
                  np_action p, ref, ts_client scope, ts_org scope)\<rparr>) rq))))"
proof -
  have "engine_within (permit_step env c) (su_engine U)" using assms(1,2) by (simp add: rest_client_engine_within)
  then have "within (permit_step env c) (run_command U target cmd)" by (rule permit.command)
  from governed_body_single_write [OF this assms(3,4)] show ?thesis .
qed

text \<open>The sample action: everyone agrees, and the command's create is the one request it sends.\<close>

definition governed_run :: "(exn + unit) \<times> unit proc" where
  "governed_run = perform_governed_native_action sample_time_lib (\<lambda>n v. True) (returnS 0) (Some sample_policy) sample_operation
     sample_scope ''order_1'' (Some (\<lambda>j. returnS sample_decision)) (Some (\<lambda>q m. returnS ())) (Some (\<lambda>j. returnS sample_veto))
     (run_command (sample_service (\<lambda>k. None)) sample_scope sample_create_order) (idle_process () empty_database)"

definition sample_creation :: "(unit proc, exn, int) op" where
  "sample_creation = (let data = sales_order_fields 5 ''EUR'' [\<lparr>ol_product = ''31'', ol_quantity = ''2'', ol_price = ''1.00''\<rparr>] (Some ''order_1'') in
     authorised_native_financial_request (sample_lib sample_answer) ''POST'' (''/models/'' @ ''C_Order'') data
       (create_record (rest_client (sample_lib sample_answer) (\<lambda>k. None) sample_peers sample_credentials) ''C_Order'' data))"

lemma sample_creation_sends:
  "case sample_creation sample_governed_process of (r, s) \<Rightarrow> r = Inr 7 \<and> count_where engine_write (cx_sent s) = 1"
  by code_simp

interpretation silent: connection_relation quiet
  by unfold_locales (simp_all add: quiet_rules quiet_def)

lemma sample_command_sends:
  "count_where engine_write (cx_sent (snd (run_command (sample_service (\<lambda>k. None)) sample_scope sample_create_order sample_governed_process))) = 1"
proof -
  obtain s1 where one: "sample_creation sample_governed_process = (Inr 7, s1)" "count_where engine_write (cx_sent s1) = 1"
    using sample_creation_sends by (cases "sample_creation sample_governed_process") auto
  have silent: "within quiet (bindS (store_mapping U sample_scope ''CommerceOrder'' ''order_1'' ''C_Order'' 7)
      (\<lambda>u. returnS \<lparr>nd_canonical = ''order_1'', nd_table = ''C_Order'', nd_native = 7\<rparr>))" for U :: "unit service"
    by (intro silent.rules silent.stores)
  have gate: "deny_legacy_native_action (\<lambda>k. None) sample_scope ''create_sales_order'' ''order_1'' sample_governed_process
      = (Inr (), sample_governed_process)"
    by (simp add: deny_legacy_native_action_def sample_governed_process_def sample_scope_def bindS_def readS_def checkS_def)
  have "run_command (sample_service (\<lambda>k. None)) sample_scope sample_create_order sample_governed_process
      = discard (bindS (store_mapping (sample_service (\<lambda>k. None)) sample_scope ''CommerceOrder'' ''order_1'' ''C_Order'' 7)
          (\<lambda>u. returnS \<lparr>nd_canonical = ''order_1'', nd_table = ''C_Order'', nd_native = 7\<rparr>)) s1"
    using one(1) gate
    by (simp add: sample_create_order_def create_sales_order_def create_and_map_def sample_service_def sample_creation_def Let_def
        bindS_def discard_def returnS_def split: sum.splits prod.splits)
  moreover from withinD [OF silent] have "cx_sent s' = cx_sent s1"
    if "bindS (store_mapping (sample_service (\<lambda>k. None)) sample_scope ''CommerceOrder'' ''order_1'' ''C_Order'' 7)
          (\<lambda>u. returnS \<lparr>nd_canonical = ''order_1'', nd_table = ''C_Order'', nd_native = 7\<rparr>) s1 = (r, s')" for r s'
    using that by (auto simp: quiet_def)
  ultimately show ?thesis using one(2) by (auto simp: discard_def bindS_def returnS_def split: sum.splits prod.splits)
qed

lemma sample_gate:
  "legal_actor_gate sample_time_lib (\<lambda>n v. True) (returnS 0) sample_operation (Some (\<lambda>j. returnS sample_decision))
     (Some (documentary_and_native sample_time_lib (\<lambda>n v. True) (returnS 0) (\<lambda>q m. returnS ()) (Some (\<lambda>j. returnS sample_veto)))) s
   = (Inr (), s)"
proof -
  have "validate_operation (\<lambda>n v. True) sample_operation = Inr ()" "is_obj sample_decision" by code_simp+
  moreover have "\<exists>request. restriction_request (\<lambda>n v. True) sample_operation = Inr request"
    by (simp add: restriction_request_def calculation(1) bindE_def)
  moreover have "assert_documentary_scope_unblocked sample_time_lib (\<lambda>n v. True) sample_operation sample_veto 0 = Inr ()" by code_simp
  ultimately show ?thesis using sample_accepted
    by (auto simp: legal_actor_gate_def assessed_def documentary_and_native_def require_documentary_scope_unblocked_def bindS_def returnS_def
        liftS_def checkS_def rethrow_def)
qed

lemma governed_run_command:
  "cx_sent (snd governed_run) =
     cx_sent (snd (run_command (sample_service (\<lambda>k. None)) sample_scope sample_create_order sample_governed_process))"
proof -
  have "policy_binds sample_policy sample_operation sample_scope ''order_1''" by code_simp
  then show ?thesis
    by (simp add: governed_run_def perform_governed_native_action_def perform_governed_financial_action_def bindS_def sample_gate
        authorised_native_action_def fresh_native_financial_operation_def sample_governed_process_def sample_policy_def sample_scope_def
        idle_process_def split: prod.split)
qed

theorem governed_single_write_witness:
  "count_where engine_write (cx_sent (snd governed_run)) = 1
   \<and> (\<exists>d s0. agreed sample_time_lib (\<lambda>n v. True) sample_operation (\<lambda>j. returnS sample_decision) (returnS 0) (\<lambda>q m. returnS ()) d
        (idle_process () empty_database) s0)"
proof -
  have engine: "su_engine (sample_service (\<lambda>k. None)) = rest_client (sample_lib sample_answer) (\<lambda>k. None) sample_peers sample_credentials"
    by (simp add: sample_service_def)
  have ports: "quiet_ports (returnS 0 :: (unit proc, exn, instant) op) (Some (\<lambda>j. returnS sample_decision)) (Some (\<lambda>q m. returnS ()))
      (Some (\<lambda>j. returnS sample_veto))"
    by (auto simp: quiet_ports_def intro: quiet_within)
  note run = prod.collapse [of governed_run, symmetric]
  have one: "count_where engine_write (cx_sent (snd governed_run)) = 1" by (simp add: governed_run_command sample_command_sends)
  from governed_single_write [OF protected_by_default engine ports run [unfolded governed_run_def], folded governed_run_def] obtain new where
      "cx_sent (snd governed_run) = new @ cx_sent (idle_process () empty_database)"
      "count_where engine_write new = 0 \<or> (\<exists>d s0. agreed sample_time_lib (\<lambda>n v. True) sample_operation (\<lambda>j. returnS sample_decision) (returnS 0)
        (\<lambda>q m. returnS ()) d (idle_process () empty_database) s0)" by auto
  with one show ?thesis by (auto simp: idle_process_def)
qed

end
