(* ===== verification/Execution_Support.thy ===== *)
theory Execution_Support
  imports Command_Facts
begin

text \<open>
  What every inbox executor needs (\<open>modules/inbox/execution_support.py\<close>): the queue on the worker's
  connection, the per-key advisory lock, and \<open>settle\<close>, which runs one attempt and records how it ended.
  A worker is the process of \<open>Order_Service\<close>; other sessions do not run inside an attempt, except that
  they may hold the lock (\<open>wk_lock_free\<close>) or have taken the row over (then the row no longer carries the claim).
\<close>

section \<open>The worker\<close>

record 'n worker =
  wk_lib :: pylib
  wk_pg_uuid :: "string \<Rightarrow> nat option"
  wk_env :: deployment
  wk_contract :: contracts
  wk_lock_free :: "string \<Rightarrow> bool"
  wk_engine_for :: "int \<Rightarrow> int \<Rightarrow> ('n proc, exn, 'n proc engine option) op"

definition EngineOrgMismatch :: exn where
  "EngineOrgMismatch = Exn ''EngineOrgMismatch'' []"

definition engine_or_block :: "'n worker \<Rightarrow> target \<Rightarrow> ('n proc, exn, 'n proc engine) op" where
  "engine_or_block W g =
     bindS (rethrow (\<lambda>e. if exn_class e = ''EngineOrgMismatch''
         then blocked ''ENGINE_ORG_MISMATCH'' ''the engine credentials are for another AD_Org than the tenant's mapping'' else e)
       (wk_engine_for W (g_client g) (g_org g))) (\<lambda>engine.
     case engine of
       None \<Rightarrow> raiseS (blocked ''ENGINE_UNCONFIGURED'' ''no engine credentials for the tenant's AD_Client'')
     | Some E \<Rightarrow> returnS E)"

text \<open>\<open>int(row["id"] if "id" in row else row[table_ID])\<close>\<close>

definition row_id :: "string \<Rightarrow> json \<Rightarrow> exn + int" where
  "row_id table row =
     bindE (subscript row (if is_obj row \<and> has_key row ''id'' then ''id'' else table @ ''_ID'')) to_int"

fun queue_exn :: "queue_error \<Rightarrow> exn" where
  "queue_exn LeaseLost = Exn ''LeaseLostError'' []"
| "queue_exn Not_a_release_status = Exn ''ValueError'' ''not a release status''"

definition on_queue :: "(inbox_row list \<Rightarrow> (queue_error + 'a) \<times> inbox_row list) \<Rightarrow> ('n proc, exn, 'a) op" where
  "on_queue f = on_db (\<lambda>d. case f (db_inbox d) of (r, rows) \<Rightarrow> (mapE_exn queue_exn r, d\<lparr>db_inbox := rows\<rparr>))"

definition queue_processed :: "Claim \<Rightarrow> string \<Rightarrow> ('n proc, exn, unit) op" where
  "queue_processed c ocode = bindS read_clock (\<lambda>t. on_queue (processed c ocode t))"

definition queue_release :: "Claim \<Rightarrow> row_status \<Rightarrow> string \<Rightarrow> string \<Rightarrow> instant option \<Rightarrow> bool \<Rightarrow> ('n proc, exn, unit) op" where
  "queue_release c status ocode err next refund = bindS read_clock (\<lambda>t. on_queue (release c status ocode err next refund t))"

text \<open>The worker records an event in the outbox of its connection.\<close>

definition worker_record_event :: "'n worker \<Rightarrow> cloud_event \<Rightarrow> ('n proc, exn, unit) op" where
  "worker_record_event W e = bindS read_clock (\<lambda>t. on_db (store_outbox (record_event (wk_lib W) (wk_pg_uuid W) e t)))"

text \<open>
  \<open>with AdvisoryLock(connection, key) as lock: body\<close>. Entering commits; leaving with the lock held rolls back
  what the body left open, unlocks, and commits.
\<close>

definition advisory_lock :: "bool \<Rightarrow> (bool \<Rightarrow> ('n proc, exn, 'a) op) \<Rightarrow> ('n proc, exn, 'a) op" where
  "advisory_lock held body s =
     (case body held (snd (commit_tx s)) of
        (r, s') \<Rightarrow> (r, if held then snd (commit_tx (snd (rollback_tx s'))) else s'))"

text \<open>\<open>try: m; connection.commit() except BaseException: connection.rollback(); raise\<close>\<close>

definition atomically :: "('n proc, exn, 'a) op \<Rightarrow> ('n proc, exn, 'a) op" where
  "atomically m s =
     (case m s of
        (Inr a, s') \<Rightarrow> (Inr a, snd (commit_tx s'))
      | (Inl e, s') \<Rightarrow> (Inl e, snd (rollback_tx s')))"

section \<open>Settling\<close>

text \<open>\<open>try: execute() except Stop as stop: stop.outcome\<close>\<close>

definition stopped :: "('s, exn, Outcome) op \<Rightarrow> ('s, exn, Outcome) op" where
  "stopped m s = (case m s of (Inl (Stop oc), s') \<Rightarrow> (Inr oc, s') | r \<Rightarrow> r)"

definition after_delay :: "int option \<Rightarrow> ('n proc, exn, instant option) op" where
  "after_delay delay =
     (case delay of None \<Rightarrow> returnS None | Some d \<Rightarrow> bindS read_clock (\<lambda>t. returnS (Some (t + seconds d))))"

definition settle_as :: "Claim \<Rightarrow> Outcome \<Rightarrow> ('n proc, exn, unit) op" where
  "settle_as c oc =
     (if oc_status oc = PROCESSED then queue_processed c (oc_code oc)
      else bindS (after_delay (oc_delay oc)) (\<lambda>next.
        queue_release c (oc_status oc) (oc_code oc) (oc_detail oc) next (oc_refund oc)))"

definition settle_outcome :: "Claim \<Rightarrow> Outcome \<Rightarrow> ('n proc, exn, Outcome) op" where
  "settle_outcome c oc0 =
     bindS read_clock (\<lambda>t.
     let oc = failure_outcome oc0 (cl_attempts c) (cl_received_at c) t in
     bindS rollback_tx (\<lambda>_. bindS (settle_as c oc) (\<lambda>_. bindS commit_tx (\<lambda>_. returnS oc))))"

definition lease_lost :: Outcome where
  "lease_lost = outcome RETRY ''LEASE_LOST'' ''another worker holds the row now''"

text \<open>\<open>try: m except Exception: (nothing)\<close>, then \<open>a\<close>\<close>

definition regardless :: "('s, 'e, 'b) op \<Rightarrow> 'a \<Rightarrow> ('s, 'e, 'a) op" where
  "regardless m a s = (Inr a, snd (m s))"

definition release_as :: "Claim \<Rightarrow> Outcome \<Rightarrow> ('n proc, exn, unit) op" where
  "release_as c oc =
     bindS (after_delay (oc_delay oc)) (\<lambda>next. queue_release c (oc_status oc) (oc_code oc) (oc_detail oc) next False)"

definition settle_unexpected :: "Claim \<Rightarrow> exn \<Rightarrow> ('n proc, exn, Outcome) op" where
  "settle_unexpected c e =
     bindS rollback_tx (\<lambda>_.
     bindS read_clock (\<lambda>t.
     let oc = failure_outcome (outcome RETRY ''UNEXPECTED_ERROR'' (exn_class e)) (cl_attempts c) (cl_received_at c) t in
     regardless (atomically (release_as c oc)) oc))"

definition settle :: "string set \<Rightarrow> Claim \<Rightarrow> ('n proc, exn, Outcome) op \<Rightarrow> ('n proc, exn, Outcome) op" where
  "settle settled_in_attempt c execute s =
     (case bindS (stopped execute) (\<lambda>oc.
          if oc_status oc = PROCESSED \<and> oc_code oc \<in> settled_in_attempt then returnS oc else settle_outcome c oc) s of
        (Inr oc, s') \<Rightarrow> (Inr oc, s')
      | (Inl e, s') \<Rightarrow>
          if exn_class e = ''LeaseLostError'' then bindS rollback_tx (\<lambda>_. returnS lease_lost) s'
          else settle_unexpected c e s')"

section \<open>What an attempt leaves behind\<close>

text \<open>Nothing is left uncommitted.\<close>

definition clean :: "'n proc \<Rightarrow> bool" where
  "clean s \<longleftrightarrow> pr_db s = pr_saved s"

text \<open>Two databases that differ in the inbox at most.\<close>

definition inbox_only :: "database \<Rightarrow> database \<Rightarrow> bool" where
  "inbox_only d d' \<longleftrightarrow> d' = d\<lparr>db_inbox := db_inbox d'\<rparr>"

lemma inbox_only_refl [simp]: "inbox_only d d"
  by (simp add: inbox_only_def)

lemma inbox_only_update [simp]: "inbox_only d (d\<lparr>db_inbox := rows\<rparr>)"
  by (simp add: inbox_only_def)

lemma inbox_only_fields:
  assumes "inbox_only d d'"
  shows "db_outbox d' = db_outbox d" "db_orders d' = db_orders d" "db_executions d' = db_executions d"
    "db_masters d' = db_masters d" "db_outcomes d' = db_outcomes d" "db_tenants d' = db_tenants d"
    "db_mappings d' = db_mappings d" "db_documents d' = db_documents d" "db_provisioning d' = db_provisioning d"
proof -
  have "d' = d\<lparr>db_inbox := db_inbox d'\<rparr>" using assms by (simp add: inbox_only_def)
  then obtain rows where d: "d' = d\<lparr>db_inbox := rows\<rparr>" by blast
  show "db_outbox d' = db_outbox d" "db_orders d' = db_orders d" "db_executions d' = db_executions d"
    "db_masters d' = db_masters d" "db_outcomes d' = db_outcomes d" "db_tenants d' = db_tenants d"
    "db_mappings d' = db_mappings d" "db_documents d' = db_documents d" "db_provisioning d' = db_provisioning d"
    by (simp_all add: d)
qed

lemma within_bindS_result:
  assumes "transp R" "within R m" "\<And>s a s'. m s = (Inr a, s') \<Longrightarrow> within R (f a)"
  shows "within R (bindS m f)"
proof -
  have "R s (snd (bindS m f s))" for s
  proof (cases "m s")
    case (Pair r s1)
    show ?thesis
    proof (cases r)
      case (Inl e)
      with Pair withinD [OF assms(2) Pair] show ?thesis by (simp add: bindS_def)
    next
      case (Inr a)
      have "R s1 (snd (f a s1))" using assms(3) Pair Inr by (simp add: within_def)
      with withinD [OF assms(2) Pair] have "R s (snd (f a s1))" by (rule transpD [OF assms(1)])
      with Pair Inr show ?thesis by (simp add: bindS_def)
    qed
  qed
  then show ?thesis by (simp add: within_def)
qed

lemma within_atomically_unsaved_or: "within unsaved m \<Longrightarrow> atomically m s = (Inl e, s') \<Longrightarrow> pr_saved s' = pr_saved s \<and> clean s'"
  by (auto simp: atomically_def rollback_tx_def commit_tx_def clean_def unsaved_def dest: withinD split: prod.splits sum.splits)

text \<open>The queue's operations touch the inbox only, and not the last commit.\<close>

definition inbox_step :: "'n proc \<Rightarrow> 'n proc \<Rightarrow> bool" where
  "inbox_step s s' \<longleftrightarrow> pr_saved s' = pr_saved s \<and> inbox_only (pr_db s) (pr_db s') \<and> cx_net s' = cx_net s"

lemma inbox_only_trans: "inbox_only a b \<Longrightarrow> inbox_only b c \<Longrightarrow> inbox_only a c"
proof -
  assume "inbox_only a b" "inbox_only b c"
  then have "c = b\<lparr>db_inbox := db_inbox c\<rparr>" "b = a\<lparr>db_inbox := db_inbox b\<rparr>" by (simp_all add: inbox_only_def)
  then have "c = a\<lparr>db_inbox := db_inbox b\<rparr>\<lparr>db_inbox := db_inbox c\<rparr>" by simp
  then show "inbox_only a c" by (simp add: inbox_only_def)
qed

lemma inbox_step_rules: "reflp inbox_step" "transp inbox_step"
  by (auto simp: inbox_step_def intro!: reflpI transpI intro: inbox_only_trans)

lemma queue_quiet: "within inbox_step read_clock" "within inbox_step (on_queue f)"
  by (auto simp: within_def inbox_step_def read_clock_def on_queue_def on_db_def split: prod.split)

lemmas inbox_rules = within_stop [OF inbox_step_rules(1)] within_bindS [OF inbox_step_rules(2)] within_if within_case_option queue_quiet

lemma queue_steps:
  "within inbox_step (queue_processed c ocode)" "within inbox_step (queue_release c status ocode err next refund)"
  "within inbox_step (after_delay delay)" "within inbox_step (settle_as c oc)"
  "within inbox_step (release_as c oc)"
  unfolding settle_as_def release_as_def queue_processed_def queue_release_def after_delay_def by (intro inbox_rules)+

lemma bind_process [simp]:
  "bindS read_clock f s = f (pr_clock s (pr_ticks s)) (s\<lparr>pr_ticks := Suc (pr_ticks s)\<rparr>)"
  "bindS draw_uuid g s = g (pr_uuids s (pr_drawn s)) (s\<lparr>pr_drawn := Suc (pr_drawn s)\<rparr>)"
  "bindS commit_tx h s = h () (s\<lparr>pr_saved := pr_db s\<rparr>)"
  "bindS rollback_tx k s = k () (s\<lparr>pr_db := pr_saved s\<rparr>)"
  by (simp_all add: bindS_def read_clock_def draw_uuid_def commit_tx_def rollback_tx_def)

text \<open>
  A settlement in its own transaction: the committed database changes in the inbox only, nothing is left open, and
  nothing is raised except by the queue.
\<close>

definition settles :: "'n proc \<Rightarrow> 'n proc \<Rightarrow> bool" where
  "settles s s' \<longleftrightarrow> clean s' \<and> inbox_only (pr_saved s) (pr_saved s') \<and> cx_net s' = cx_net s"

lemma rollback_inbox_commit:
  assumes "within inbox_step m" "bindS rollback_tx (\<lambda>_. bindS m (\<lambda>a. bindS commit_tx (\<lambda>_. returnS (f a)))) s = (Inr oc, s')"
  shows "settles s s'"
proof -
  from assms(2) obtain a s1 where "m (s\<lparr>pr_db := pr_saved s\<rparr>) = (Inr a, s1)" "s' = s1\<lparr>pr_saved := pr_db s1\<rparr>"
    by (auto simp: bindS_Inr_iff rollback_tx_def commit_tx_def)
  with withinD [OF assms(1) this(1)] show ?thesis by (simp add: settles_def clean_def inbox_step_def)
qed

lemma settle_outcome_settles:
  assumes "settle_outcome c oc s = (Inr oc', s')"
  shows "settles s s'"
proof -
  define t where "t = pr_clock s (pr_ticks s)"
  have "bindS rollback_tx (\<lambda>_. bindS (settle_as c (failure_outcome oc (cl_attempts c) (cl_received_at c) t)) (\<lambda>_.
      bindS commit_tx (\<lambda>_. returnS (failure_outcome oc (cl_attempts c) (cl_received_at c) t))))
      (s\<lparr>pr_ticks := Suc (pr_ticks s)\<rparr>) = (Inr oc', s')"
    using assms by (simp add: settle_outcome_def Let_def t_def)
  from rollback_inbox_commit [OF queue_steps(4) this] show ?thesis by (simp add: settles_def)
qed

lemma settle_unexpected_settles: "\<exists>oc s'. settle_unexpected c e s = (Inr oc, s') \<and> settles s s'"
proof -
  define oc where "oc = failure_outcome (outcome RETRY ''UNEXPECTED_ERROR'' (exn_class e)) (cl_attempts c) (cl_received_at c)
    (pr_clock s (pr_ticks s))"
  let ?s0 = "s\<lparr>pr_db := pr_saved s, pr_ticks := Suc (pr_ticks s)\<rparr>"
  obtain r s1 where run: "release_as c oc ?s0 = (r, s1)" by (cases "release_as c oc ?s0")
  have "settle_unexpected c e s = (Inr oc, snd (atomically (release_as c oc) ?s0))"
    by (simp add: settle_unexpected_def Let_def oc_def regardless_def)
  moreover have "settles s (snd (atomically (release_as c oc) ?s0))"
    using run withinD [OF queue_steps(5) run]
    by (cases r) (auto simp: atomically_def commit_tx_def rollback_tx_def settles_def clean_def inbox_step_def)
  ultimately show ?thesis by blast
qed

text \<open>What leaves the last commit alone, up to the inbox, may be settled.\<close>

lemma settles_after: "inbox_step s s1 \<Longrightarrow> settles s1 s' \<Longrightarrow> settles s s'"
  by (auto simp: inbox_step_def settles_def)

lemma settle_outcome_fails:
  assumes "settle_outcome c oc s = (Inl e, s')"
  shows "pr_saved s' = pr_saved s \<and> cx_net s' = cx_net s"
proof -
  let ?oc = "failure_outcome oc (cl_attempts c) (cl_received_at c) (pr_clock s (pr_ticks s))"
  let ?s0 = "s\<lparr>pr_ticks := Suc (pr_ticks s), pr_db := pr_saved s\<rparr>"
  obtain r s1 where run: "settle_as c ?oc ?s0 = (r, s1)" by (cases "settle_as c ?oc ?s0")
  with assms have "s' = s1"
    by (cases r) (auto simp: settle_outcome_def Let_def bindS_Inl_iff read_clock_def rollback_tx_def commit_tx_def)
  with withinD [OF queue_steps(4) run] show ?thesis by (simp add: inbox_step_def)
qed

text \<open>
  \<open>settle\<close> never raises. Either the attempt settled its own row, or all that is committed after the attempt is what
  \<open>execute\<close> itself committed and the settlement of the row.
\<close>

lemma settle_cases:
  obtains oc s' where "settle codes c m s = (Inr oc, s')"
    "(oc_status oc = PROCESSED \<and> oc_code oc \<in> codes \<and> stopped m s = (Inr oc, s')) \<or> settles (snd (m s)) s'"
proof -
  let ?b = "bindS (stopped m) (\<lambda>oc. if oc_status oc = PROCESSED \<and> oc_code oc \<in> codes then returnS oc else settle_outcome c oc)"
  define s1 where "s1 = snd (m s)"
  have "snd (stopped m s) = s1" by (simp add: stopped_def s1_def split: prod.split sum.split exn.split)
  then obtain r1 where stopped: "stopped m s = (r1, s1)" by (metis prod.collapse)
  consider oc where "r1 = Inr oc" "oc_status oc = PROCESSED" "oc_code oc \<in> codes"
    | oc oc' s2 where "r1 = Inr oc" "?b s = (Inr oc', s2)" "settle_outcome c oc s1 = (Inr oc', s2)"
    | e s2 where "?b s = (Inl e, s2)" "pr_saved s2 = pr_saved s1" "cx_net s2 = cx_net s1"
  proof (cases r1)
    case (Inl e)
    then show thesis using that(3) [of e s1] stopped by (simp add: bindS_def)
  next
    case (Inr oc)
    show thesis
    proof (cases "oc_status oc = PROCESSED \<and> oc_code oc \<in> codes")
      case False
      then have "?b s = settle_outcome c oc s1" using stopped Inr by (auto simp: bindS_def)
      then show thesis
        using that(2) [OF Inr] that(3) settle_outcome_fails [of c oc s1]
        by (cases "settle_outcome c oc s1") (metis sum.exhaust)
    qed (use that(1) Inr in blast)
  qed
  then show thesis
  proof cases
    case 1
    then have "settle codes c m s = (Inr oc, s1)" using stopped by (simp add: settle_def bindS_def)
    with 1 stopped that [of oc s1] show thesis by simp
  next
    case 2
    then have "settle codes c m s = (Inr oc', s2)" by (simp add: settle_def)
    with settle_outcome_settles [OF 2(3)] that show thesis by (simp add: s1_def)
  next
    case 3
    have moved: "settles s2 s' \<Longrightarrow> settles s1 s'" for s' using 3 by (simp add: settles_def)
    show thesis
    proof (cases "exn_class e = ''LeaseLostError''")
      case True
      then have "settle codes c m s = (Inr lease_lost, s2\<lparr>pr_db := pr_saved s2\<rparr>)" using 3(1) by (simp add: settle_def)
      moreover have "settles s2 (s2\<lparr>pr_db := pr_saved s2\<rparr>)" by (simp add: settles_def clean_def)
      ultimately show thesis using that moved by (simp add: s1_def)
    next
      case False
      then have "settle codes c m s = settle_unexpected c e s2" using 3(1) by (simp add: settle_def)
      then show thesis using settle_unexpected_settles [of c e s2] that moved by (metis s1_def)
    qed
  qed
qed

lemma snd_stopped: "snd (stopped m s) = snd (m s)"
  by (simp add: stopped_def split: prod.split sum.split exn.split)

lemma settle_in_attempt:
  "m s = (Inr oc, s1) \<Longrightarrow> oc_status oc = PROCESSED \<Longrightarrow> oc_code oc \<in> codes \<Longrightarrow> settle codes c m s = (Inr oc, s1)"
  by (simp add: settle_def stopped_def bindS_def)

end
