(* ===== verification/Attempts.thy ===== *)
theory Attempts
  imports Execution_Support
begin

text \<open>
  What the proofs about the inbox executors share: relations an operation stays within, the engine's promise about
  records found by a column, and the shape of an attempt that commits its rows together.
\<close>

section \<open>Relations on the context\<close>

text \<open>
  A relation that does not look at the markers or the clock: a governed operation stays within it when its
  body does.
\<close>

locale context_relation =
  fixes R :: "'n proc \<Rightarrow> 'n proc \<Rightarrow> bool"
  assumes refl: "reflp R" and trans: "transp R"
    and markers: "R s (s\<lparr>cx_request := q\<rparr>)" "R s (s\<lparr>cx_action := m\<rparr>)" "R s (s\<lparr>cx_spent := b\<rparr>)" "R s (s\<lparr>pr_ticks := k\<rparr>)"
begin

lemmas rules = within_stop [OF refl] within_bindS [OF trans] within_if within_case_option within_case_sum within_case_prod
  within_case_list within_case_json within_case_bool rethrow_within

lemma clock: "within R read_clock"
  using markers by (simp add: within_def read_clock_def)

lemma request:
  assumes "within R m"
  shows "within R (authorised_native_financial_request L method path body m)"
proof -
  have "R s (snd (authorised_native_financial_request L method path body m s))" for s
  proof (cases "m (s\<lparr>cx_request := Some (py_upper method, path, request_digest L (JObj body))\<rparr>)")
    case (Pair r s')
    have "R s s'" using markers(1) withinD [OF assms Pair] by (rule transpD [OF trans])
    then have "R s (s'\<lparr>cx_request := cx_request s\<rparr>)" using markers(1) by (rule transpD [OF trans])
    with Pair show ?thesis by (simp add: authorised_native_financial_request_def)
  qed
  then show ?thesis by (simp add: within_def)
qed

lemma action:
  assumes "within R m"
  shows "within R (authorised_native_action scope act ref m)"
proof -
  have "R s (snd (authorised_native_action scope act ref m s))" for s
  proof -
    let ?s0 = "s\<lparr>cx_action := Some (ts_tenant scope, ts_entity scope, act, ref, ts_client scope, ts_org scope)\<rparr>"
    obtain r s' where run: "m (?s0\<lparr>cx_spent := False\<rparr>) = (r, s')" by (metis prod.collapse)
    have "R s (?s0\<lparr>cx_spent := False\<rparr>)" using markers(2) markers(3) by (rule transpD [OF trans])
    then have "R s s'" using withinD [OF assms run] by (rule transpD [OF trans])
    then have "R s (s'\<lparr>cx_spent := cx_spent s\<rparr>)" using markers(3) by (rule transpD [OF trans])
    then have "R s (s'\<lparr>cx_spent := cx_spent s\<rparr>\<lparr>cx_action := cx_action s\<rparr>)" using markers(2) by (rule transpD [OF trans])
    with run show ?thesis by (simp add: authorised_native_action_def fresh_native_financial_operation_def)
  qed
  then show ?thesis by (simp add: within_def)
qed

end

text \<open>The relations: the connection is left alone.\<close>

lemma apart_rules: "reflp apart" "transp apart"
  by (auto simp: apart_def intro!: reflpI transpI)

interpretation apart: context_relation apart
  by unfold_locales (auto simp: apart_def intro!: reflpI transpI)

lemma engine_errors_within: "within R m \<Longrightarrow> within R (engine_errors m)"
  unfolding engine_errors_def by (rule rethrow_within)

section \<open>Records found by a column\<close>

text \<open>
  \<open>placed w key\<close> are the ids of the records of a table that carry \<open>key\<close> in a column, in the engine state \<open>w\<close>. The
  engine promises: a query by the column finds exactly them; reading, and updating other columns, changes nothing;
  creating a record with a key adds one under it. A creation that fails (the answer is lost, the connection breaks)
  has added one or none.
\<close>

type_synonym 'n placement = "'n \<Rightarrow> string \<Rightarrow> int list"

definition steady :: "'n placement \<Rightarrow> 'n proc \<Rightarrow> 'n proc \<Rightarrow> bool" where
  "steady placed s s' \<longleftrightarrow> placed (cx_net s') = placed (cx_net s)"

definition keyed_table :: "string \<Rightarrow> string \<Rightarrow> 'n placement \<Rightarrow> 'n proc engine \<Rightarrow> bool" where
  "keyed_table table column placed E \<longleftrightarrow>
     (\<forall>t i. within (steady placed) (get_record E t i)) \<and> (\<forall>t cs sel. within (steady placed) (query E t cs sel))
     \<and> (\<forall>t i data. map_of data column = None \<longrightarrow> within (steady placed) (update_record E t i data))
     \<and> (\<forall>key s rows s'. query E table [(column, JStr key)] [table @ ''_ID''] s = (Inr rows, s')
          \<longrightarrow> mapE (row_id table) rows = Inr (placed (cx_net s) key))
     \<and> (\<forall>data key s r s'. map_of data column = Some (JStr key) \<longrightarrow> create_record E table data s = (r, s')
          \<longrightarrow> (case r of
                Inr n \<Rightarrow> placed (cx_net s') = (placed (cx_net s))(key := placed (cx_net s) key @ [n])
              | Inl e \<Rightarrow> placed (cx_net s') = placed (cx_net s)
                  \<or> (\<exists>n. placed (cx_net s') = (placed (cx_net s))(key := placed (cx_net s) key @ [n]))))"

text \<open>A record appears where there was none.\<close>

definition first_record :: "'n placement \<Rightarrow> string \<Rightarrow> 'n proc \<Rightarrow> 'n proc \<Rightarrow> bool" where
  "first_record placed key s s' \<longleftrightarrow> placed (cx_net s') = placed (cx_net s)
     \<or> (placed (cx_net s) key = [] \<and> (\<exists>n. placed (cx_net s') = (placed (cx_net s))(key := [n])))"

lemma first_record_trans: "first_record placed key a b \<Longrightarrow> first_record placed key b c \<Longrightarrow> first_record placed key a c"
  unfolding first_record_def by (elim disjE conjE exE; simp; blast)

interpretation first_record: context_relation "first_record placed key" for placed key
  by unfold_locales (simp_all add: first_record_def [of _ _ x x for x] reflpI, auto simp: first_record_def intro!: transpI reflpI intro: first_record_trans)

interpretation steady: context_relation "steady placed" for placed
  by unfold_locales (auto simp: steady_def intro!: reflpI transpI)

interpretation steady_connection: connection_relation "steady placed" for placed
  by unfold_locales (auto simp: steady_def intro!: reflpI transpI)

lemma steady_first_record: "within (steady placed) m \<Longrightarrow> within (first_record placed key) m"
  by (simp add: within_def steady_def first_record_def)

lemma first_record_keeps:
  "first_record placed key s s' \<Longrightarrow> (\<And>k. length (placed (cx_net s) k) \<le> 1) \<Longrightarrow>
     length (placed (cx_net s') k) \<le> 1 \<and> (placed (cx_net s) k = [n] \<longrightarrow> placed (cx_net s') k = [n])"
  by (auto simp: first_record_def)

lemma created_once:
  assumes "keyed_table table column placed E" "map_of data column = Some (JStr key)" "create_record E table data s = (r, s')"
    "placed (cx_net s) key = []"
  shows "first_record placed key s s' \<and> (\<forall>n. r = Inr n \<longrightarrow> placed (cx_net s') = (placed (cx_net s))(key := [n]))"
proof -
  have "case r of
       Inr n \<Rightarrow> placed (cx_net s') = (placed (cx_net s))(key := placed (cx_net s) key @ [n])
     | Inl e \<Rightarrow> placed (cx_net s') = placed (cx_net s) \<or> (\<exists>n. placed (cx_net s') = (placed (cx_net s))(key := placed (cx_net s) key @ [n]))"
    using assms(1-3) unfolding keyed_table_def by blast
  with assms(4) show ?thesis by (cases r) (auto simp: first_record_def)
qed

section \<open>Attempts\<close>

lemma engine_or_block_Inr:
  "engine_or_block W g s = (Inr E, s') \<Longrightarrow> wk_engine_for W (g_client g) (g_org g) s = (Inr (Some E), s')"
  by (auto simp: engine_or_block_def bindS_Inr_iff split: option.splits)

lemma engine_or_block_within:
  "reflp R \<Longrightarrow> transp R \<Longrightarrow> within R (wk_engine_for W (g_client g) (g_org g)) \<Longrightarrow> within R (engine_or_block W g)"
  unfolding engine_or_block_def by (intro within_bindS rethrow_within within_case_option within_stop)

lemma engine_errors_Inr: "engine_errors m s = (Inr a, s') \<longleftrightarrow> m s = (Inr a, s')"
  by (simp add: engine_errors_def)

lemma atomically_net: "cx_net (snd (atomically m s)) = cx_net (snd (m s))"
  by (simp add: atomically_def commit_tx_def rollback_tx_def split: prod.split sum.split)

lemma advisory_lock_net: "cx_net (snd (advisory_lock held body s)) = cx_net (snd (body held (snd (commit_tx s))))"
  by (simp add: advisory_lock_def commit_tx_def rollback_tx_def split: prod.split)

lemma advisory_lock_within:
  assumes "\<And>s s' d. R s s' \<Longrightarrow> R s (s'\<lparr>pr_db := d\<rparr>)" "\<And>s s' d. R s s' \<Longrightarrow> R s (s'\<lparr>pr_saved := d\<rparr>)"
    "\<And>s s' d. R (s\<lparr>pr_saved := d\<rparr>) s' \<Longrightarrow> R s s'" "within R (body held)"
  shows "within R (advisory_lock held body)"
  unfolding within_def
proof
  fix s
  obtain r s1 where b: "body held (s\<lparr>pr_saved := pr_db s\<rparr>) = (r, s1)" by (metis prod.collapse)
  have "R s s1" using withinD [OF assms(4) b] by (rule assms(3))
  then show "R s (snd (advisory_lock held body s))"
    using b assms(1,2) by (simp add: advisory_lock_def commit_tx_def rollback_tx_def)
qed

lemma atomically_within:
  assumes "\<And>s s' d. R s s' \<Longrightarrow> R s (s'\<lparr>pr_db := d\<rparr>)" "\<And>s s' d. R s s' \<Longrightarrow> R s (s'\<lparr>pr_saved := d\<rparr>)" "within R m"
  shows "within R (atomically m)"
  unfolding within_def
proof
  fix s
  obtain r s1 where b: "m s = (r, s1)" by (metis prod.collapse)
  then show "R s (snd (atomically m s))"
    using withinD [OF assms(3) b] assms(1,2) by (cases r) (simp_all add: atomically_def commit_tx_def rollback_tx_def)
qed

text \<open>An attempt commits nothing, or it committed everything it did and \<open>Q\<close> says what that is.\<close>

definition attempted :: "('n proc \<Rightarrow> exn + Outcome \<Rightarrow> 'n proc \<Rightarrow> bool) \<Rightarrow> 'n proc \<Rightarrow> exn + Outcome \<Rightarrow> 'n proc \<Rightarrow> bool" where
  "attempted Q s r s' \<longleftrightarrow> (pr_saved s' = pr_saved s \<and> pr_db s' = pr_saved s) \<or> (clean s' \<and> Q s r s')"

lemma attempted_mono: "attempted P s r s' \<Longrightarrow> (P s r s' \<Longrightarrow> Q s r s') \<Longrightarrow> attempted Q s r s'"
  by (auto simp: attempted_def)

lemma nothing_attempted: "clean s \<Longrightarrow> attempted Q s r s"
  by (simp add: attempted_def clean_def)

lemma atomically_attempted:
  assumes "within apart m" "\<And>x. within unsaved (rows x)" "clean s"
    "bindS m (\<lambda>x. bindS (atomically (rows x)) (\<lambda>_. returnS (f x))) s = (r, s')"
  shows "attempted (\<lambda>s r s'. \<exists>x s1 s2. m s = (Inr x, s1) \<and> rows x s1 = (Inr (), s2) \<and> s' = s2\<lparr>pr_saved := pr_db s2\<rparr> \<and> r = Inr (f x)) s r s'"
proof (cases "m s")
  case (Pair r1 s1)
  have s1: "pr_db s1 = pr_saved s" "pr_saved s1 = pr_saved s"
    using withinD [OF assms(1) Pair] assms(3) by (simp_all add: apart_def clean_def)
  show ?thesis
  proof (cases r1)
    case (Inl e)
    with Pair assms(4) s1 show ?thesis by (simp add: bindS_def attempted_def)
  next
    case (Inr x)
    obtain r2 s2 where rows: "rows x s1 = (r2, s2)" by (metis prod.collapse)
    have saved: "pr_saved s2 = pr_saved s" using withinD [OF assms(2) rows] s1 by (simp add: unsaved_def)
    show ?thesis
    proof (cases r2)
      case (Inl e)
      with Pair Inr rows assms(4) saved show ?thesis by (auto simp: bindS_def atomically_def rollback_tx_def attempted_def)
    next
      case (Inr u)
      with Pair \<open>r1 = Inr x\<close> rows assms(4) show ?thesis
        by (auto simp: bindS_def atomically_def commit_tx_def attempted_def clean_def)
    qed
  qed
qed

lemma advisory_lock_attempted:
  assumes "clean s" "\<And>r s'. body held s = (r, s') \<Longrightarrow> attempted Q s r s'" "advisory_lock held body s = (r, s')"
  shows "attempted Q s r s'"
proof -
  have same: "snd (commit_tx s) = s" using assms(1) by (simp add: clean_def commit_tx_def)
  obtain r1 s1 where b: "body held s = (r1, s1)" by (metis prod.collapse)
  have s': "r = r1" "s' = (if held then s1\<lparr>pr_db := pr_saved s1\<rparr> else s1)"
    using assms(3) same b by (auto simp: advisory_lock_def commit_tx_def rollback_tx_def)
  have "s1\<lparr>pr_db := pr_saved s1\<rparr> = s1" if "clean s1" using that by (simp add: clean_def)
  with assms(2) [OF b] s' show ?thesis by (auto simp: attempted_def)
qed

text \<open>
  A settled attempt: nothing is raised and nothing left uncommitted; either only the inbox changed in the committed
  database, or the attempt committed its rows and its own outcome.
\<close>

lemma settle_attempted:
  assumes "clean s" "attempted Q s (fst (m s)) (snd (m s))"
    "\<And>r s'. Q s r s' \<Longrightarrow> \<exists>oc. r = Inr oc \<and> oc_status oc = PROCESSED \<and> oc_code oc \<in> codes"
  obtains oc s' where "settle codes c m s = (Inr oc, s')" "clean s'" "cx_net s' = cx_net (snd (m s))"
    "inbox_only (pr_saved s) (pr_saved s') \<or> Q s (Inr oc) s'"
proof -
  obtain r s1 where m: "m s = (r, s1)" by (metis prod.collapse)
  show thesis
  proof (cases "pr_saved s1 = pr_saved s \<and> pr_db s1 = pr_saved s")
    case True
    obtain oc s' where run: "settle codes c m s = (Inr oc, s')"
      and after: "(oc_status oc = PROCESSED \<and> oc_code oc \<in> codes \<and> stopped m s = (Inr oc, s')) \<or> settles (snd (m s)) s'"
      by (rule settle_cases)
    have "s' = s1 \<or> settles s1 s'" using after snd_stopped [of m s] m by auto
    with True run m that show thesis by (auto simp: settles_def clean_def)
  next
    case False
    with assms(2) m have Q: "clean s1" "Q s r s1" by (auto simp: attempted_def)
    with assms(3) obtain oc where "r = Inr oc" "oc_status oc = PROCESSED" "oc_code oc \<in> codes" by blast
    with settle_in_attempt [of m s oc s1 codes c] m Q that show thesis by auto
  qed
qed

end
