(* ===== verification/Order_Execution.thy ===== *)
theory Order_Execution
  imports Execution_Support Placed_Order
begin

text \<open>
  The executor of a claimed \<open>trade.order.placed\<close> row (\<open>modules/order_to_cash/inbox_execution.py\<close>), from the
  stored payload to the sales order in the engine and ERP's rows about it, and what it guarantees.
\<close>

section \<open>Lines and units\<close>

fun resolve_products :: "(string \<Rightarrow> int option) \<Rightarrow> PlacedLine list \<Rightarrow> string list \<times> OrderLine list" where
  "resolve_products native [] = ([], [])"
| "resolve_products native (l # ls) =
     (case resolve_products native ls of (missing, lines) \<Rightarrow>
        (case native (pl_sku_id l) of
           None \<Rightarrow> (pl_line_id l # missing, lines)
         | Some n \<Rightarrow> (missing, \<lparr>ol_product = show_int n, ol_quantity = pl_quantity l, ol_price = pl_unit_price l\<rparr> # lines)))"

definition resolve_lines :: "(string \<Rightarrow> int option) \<Rightarrow> PlacedOrder \<Rightarrow> exn + OrderLine list" where
  "resolve_lines native p =
     (case resolve_products native (po_lines p) of (missing, lines) \<Rightarrow>
        if missing \<noteq> [] then Inl (blocked ''PRODUCT_UNMAPPED''
          (show_nat (length missing) @ '' line(s) have no product mapping: '' @ join '', '' (take 10 missing)))
        else Inr lines)"

definition not_a_reference :: "string \<Rightarrow> exn" where
  "not_a_reference what = Exn ''IdempiereClientError'' (what @ '' is not a record reference'')"

fun reference_of :: "json \<Rightarrow> string \<Rightarrow> exn + int" where
  "reference_of (JInt i) what = (if py_isdigit (show_int i) then Inr i else Inl (not_a_reference what))"
| "reference_of (JStr s) what =
     (if py_isdigit s then of_option (Exn ''ValueError'' []) (py_int s) else Inl (not_a_reference what))"
| "reference_of _ what = Inl (not_a_reference what)"

definition reference :: "json \<Rightarrow> string \<Rightarrow> exn + int" where
  "reference v what = reference_of (if is_obj v then jget v ''id'' else v) what"

text \<open>\<open>v.get(k)\<close>\<close>

definition py_get :: "json \<Rightarrow> string \<Rightarrow> exn + json" where
  "py_get v k = (if is_obj v then Inr (jget v k) else Inl (Exn ''AttributeError'' []))"

definition unit_code :: "'w engine \<Rightarrow> string \<Rightarrow> ('w, exn, string) op" where
  "unit_code E product =
     bindS (liftS (of_option (Exn ''ValueError'' []) (py_int product))) (\<lambda>n.
     bindS (get_record E ''M_Product'' n) (\<lambda>p.
     bindS (liftS (bindE (py_get p ''C_UOM_ID'') (\<lambda>u. reference u ''C_UOM_ID''))) (\<lambda>u.
     bindS (get_record E ''C_UOM'' u) (\<lambda>uom.
     bindS (liftS (py_get uom ''X12DE355'')) (\<lambda>c. returnS (py_str c))))))"

fun wrong_units ::
  "'w engine \<Rightarrow> (string \<times> string) list \<Rightarrow> (PlacedLine \<times> OrderLine) list \<Rightarrow> ('w, exn, string list) op" where
  "wrong_units E codes [] = returnS []"
| "wrong_units E codes ((placed, native) # rest) =
     bindS (case map_of codes (ol_product native) of Some u \<Rightarrow> returnS u | None \<Rightarrow> unit_code E (ol_product native)) (\<lambda>u.
     bindS (wrong_units E ((ol_product native, u) # codes) rest) (\<lambda>wrong.
     returnS (if u \<noteq> pl_unit placed then pl_line_id placed # wrong else wrong)))"

definition verify_units :: "'w engine \<Rightarrow> PlacedOrder \<Rightarrow> OrderLine list \<Rightarrow> ('w, exn, unit) op" where
  "verify_units E p lines =
     bindS (wrong_units E [] (zip (po_lines p) lines)) (\<lambda>wrong.
     checkS (wrong = []) (dead ''UNIT_MISMATCH''
       (''line(s) in a unit other than the product's own: '' @ join '', '' (take 10 wrong))))"

section \<open>The engine order\<close>

definition find_or_create ::
  "'n worker \<Rightarrow> 'n proc engine \<Rightarrow> PlacedOrder \<Rightarrow> int \<Rightarrow> OrderLine list \<Rightarrow> TenantScope \<Rightarrow> ('n proc, exn, int \<times> bool) op" where
  "find_or_create W E p customer lines scope =
     bindS (if protected_finance_runtime (wk_env W)
            then deny_legacy_native_action (wk_env W) scope ''create_sales_order'' (po_order_id p) else returnS ()) (\<lambda>_.
     engine_errors
       (bindS (query E ''C_Order'' [(''POReference'', JStr (po_order_id p))] [''C_Order_ID'']) (\<lambda>existing.
        if 1 < length existing
        then raiseS (dead ''DUPLICATE_NATIVE_ORDERS'' (show_nat (length existing) @ '' engine orders carry the order's reference''))
        else (case existing of
            row # _ \<Rightarrow> bindS (liftS (row_id ''C_Order'' row)) (\<lambda>n. returnS (n, True))
          | [] \<Rightarrow>
              bindS (verify_units E p lines) (\<lambda>_.
              let data = sales_order_fields customer (po_currency p) lines (Some (po_order_id p)) in
              bindS (authorised_native_financial_request (wk_lib W) ''POST'' ''/models/C_Order'' data (create_record E ''C_Order'' data))
                (\<lambda>n. returnS (n, False)))))))"

section \<open>Authority\<close>

text \<open>\<open>InboxNativeAuthority\<close>: every port is present.\<close>

record 'n authority =
  au_policy :: NativeActionPolicy
  au_operation :: LegalActorOperation
  au_assessor :: "'n proc assessor"
  au_provider :: "'n proc readiness"
  au_documentary :: "'n proc assessor"

definition denied :: "exn \<Rightarrow> bool" where
  "denied e = (exn_class e \<in> {''LegalActorNotAuthorised'', ''OrderToCashError'', ''ControlPlaneUnavailable''})"

definition governed_order ::
  "'n worker \<Rightarrow> 'n authority option \<Rightarrow> 'n proc engine \<Rightarrow> PlacedOrder \<Rightarrow> int \<Rightarrow> OrderLine list \<Rightarrow> TenantScope
     \<Rightarrow> ('n proc, exn, int \<times> bool) op" where
  "governed_order W authority E p customer lines scope =
     (if \<not> protected_finance_runtime (wk_env W) then find_or_create W E p customer lines scope
      else (case authority of
          None \<Rightarrow> raiseS (blocked ''LEGAL_ACTOR_PENDING'' ''current CP legal actor and ERP provider checks required'')
        | Some a \<Rightarrow> rethrow (\<lambda>e. if denied e
              then blocked ''LEGAL_ACTOR_DENIED'' ''current CP legal actor, documentary or native provider authority denied'' else e)
            (perform_governed_native_action (wk_lib W) (wk_contract W) read_clock (Some (au_policy a)) (au_operation a) scope
              (po_order_id p) (Some (au_assessor a)) (Some (au_provider a)) (Some (au_documentary a))
              (find_or_create W E p customer lines scope))))"

section \<open>ERP's rows\<close>

definition insert_execution :: "execution_row \<Rightarrow> (database, exn, unit) op" where
  "insert_execution r d =
     (if \<not> fits_integer (ox_version r) then (Inl out_of_range, d)
      else if ox_version r < 1 \<or> \<not> fullmatch public_id_rx (ox_erp_order r) then (Inl check_violation, d)
      else if list_ex (\<lambda>x. (ox_tenant x = ox_tenant r \<and> ox_order x = ox_order r) \<or> ox_erp_order x = ox_erp_order r
          \<or> (ox_tenant x = ox_tenant r \<and> ox_native x = ox_native r)) (db_executions d) then (Inl unique_violation, d)
      else if \<not> has_order (ox_tenant r) (ox_order r) (db_orders d) then (Inl foreign_key_violation, d)
      else (Inr (), d\<lparr>db_executions := db_executions d @ [r]\<rparr>))"

definition settled_code :: "bool \<Rightarrow> string" where
  "settled_code adopted = (if adopted then ''ADOPTED_NATIVE_ORDER'' else ''EXECUTED'')"

text \<open>The consequence record, the order link, the announcing event and the inbox outcome.\<close>

definition record_execution ::
  "'n worker \<Rightarrow> Claim \<Rightarrow> string \<Rightarrow> PlacedOrder \<Rightarrow> int \<Rightarrow> bool \<Rightarrow> ('n proc, exn, unit) op" where
  "record_execution W c tenant p native adopted =
     bindS read_clock (\<lambda>now.
     bindS (db_open_order tenant (po_entity p) (po_order_id p) (po_version p) (erp_order_id (wk_lib W) tenant (po_order_id p)) now) (\<lambda>rec.
     bindS (on_db (insert_execution \<lparr>ox_tenant = tenant, ox_order = po_order_id p, ox_entity = po_entity p, ox_version = po_version p,
        ox_erp_order = co_erp_order rec, ox_native = native, ox_event = cl_event_id c, ox_adopted = adopted\<rparr>)) (\<lambda>_.
     bindS draw_uuid (\<lambda>fresh.
     bindS (liftS (mapE_exn envelope_exn (consequence_changed_event (wk_lib W) fresh rec (cl_correlation_id c)))) (\<lambda>e.
     bindS (worker_record_event W e) (\<lambda>_.
     queue_processed c (settled_code adopted)))))))"

section \<open>An attempt\<close>

definition order_lock :: "string \<Rightarrow> string \<Rightarrow> string" where
  "order_lock tenant og = ''baobab.order|'' @ tenant @ ''|'' @ og"

definition native_order ::
  "'n worker \<Rightarrow> 'n authority option \<Rightarrow> string \<Rightarrow> string \<Rightarrow> target \<Rightarrow> PlacedOrder \<Rightarrow> ('n proc, exn, int \<times> bool) op" where
  "native_order W authority tenant instance g p =
     bindS (readS (\<lambda>s kind cid. master_native instance (po_entity p) kind cid (db_masters (pr_db s)))) (\<lambda>native.
     bindS (liftS (resolve_lines (native PRODUCT_KIND) p)) (\<lambda>lines.
     bindS (engine_or_block W g) (\<lambda>E.
     case native CUSTOMER_KIND (po_customer_id p) of
       None \<Rightarrow> raiseS (blocked ''CUSTOMER_UNMAPPED'' ''the order's customer has no master-data mapping'')
     | Some customer \<Rightarrow> governed_order W authority E p customer lines
         \<lparr>ts_tenant = tenant, ts_entity = po_entity p, ts_client = g_client g, ts_org = g_org g\<rparr>)))"

definition execute_new ::
  "'n worker \<Rightarrow> 'n authority option \<Rightarrow> Claim \<Rightarrow> string \<Rightarrow> string \<Rightarrow> target \<Rightarrow> PlacedOrder \<Rightarrow> ('n proc, exn, Outcome) op" where
  "execute_new W authority c tenant instance g p =
     bindS (native_order W authority tenant instance g p) (\<lambda>(n, adopted).
     bindS (atomically (record_execution W c tenant p n adopted)) (\<lambda>_.
     returnS (outcome PROCESSED (settled_code adopted) [])))"

definition execute_order :: "'n worker \<Rightarrow> 'n authority option \<Rightarrow> Claim \<Rightarrow> ('n proc, exn, Outcome) op" where
  "execute_order W authority c =
     (case parse_placed_order (cl_data c) of
        Inl reason \<Rightarrow> raiseS (dead ''PAYLOAD_INVALID'' reason)
      | Inr p \<Rightarrow>
          (let tenant = the_default [] (cl_tenant_id c) in
           if tenant = [] then raiseS (dead ''TENANT_MISSING'' ''a tenant-scoped order event carries no tenant'')
           else bindS (readS (\<lambda>s. find_target (db_tenants (pr_db s)) tenant (po_entity p))) (\<lambda>found.
             case Option.bind found (\<lambda>g. map_option (Pair g) (g_engine g)) of
               None \<Rightarrow> raiseS (blocked ''TENANT_UNMAPPED'' ''no active engine placement for the tenant and legal entity'')
             | Some (g, instance) \<Rightarrow>
                 advisory_lock (wk_lock_free W (order_lock tenant (po_order_id p))) (\<lambda>held.
                   if \<not> held then returnS \<lparr>oc_status = RETRY, oc_code = ''ORDER_CONTENDED'', oc_detail = [],
                       oc_delay = Some CONTENTION_DELAY_SECONDS, oc_refund = True\<rparr>
                   else bindS (readS (\<lambda>s. get_consequence tenant (po_order_id p) (db_orders (pr_db s)))) (\<lambda>known.
                     bindS commit_tx (\<lambda>_.
                     case known of
                       Some k \<Rightarrow>
                         if po_version p = co_version k then returnS (outcome PROCESSED ''ALREADY_EXECUTED'' [])
                         else if po_version p < co_version k then returnS (outcome PROCESSED ''STALE_VERSION'' [])
                         else raiseS (dead ''AMENDMENT_UNSUPPORTED''
                           ''a later version of an executed order; amendment is not implemented'')
                     | None \<Rightarrow> execute_new W authority c tenant instance g p))))))"

definition run_order_claim :: "'n worker \<Rightarrow> 'n authority option \<Rightarrow> Claim \<Rightarrow> ('n proc, exn, Outcome) op" where
  "run_order_claim W authority c = settle {''EXECUTED'', ''ADOPTED_NATIVE_ORDER''} c (execute_order W authority c)"

end
