(* ===== verification/Order_Execution_Facts.thy ===== *)
theory Order_Execution_Facts
  imports Order_Execution Attempts
begin

text \<open>
  What the order executor guarantees: ERP's rows appear together or not at all, the engine holds at most one
  order per Trade order, whatever fails in between, and the read model stays announced.
\<close>

section \<open>Governed operations\<close>

text \<open>A governed operation stays within a relation on the context when its ports and its body do.\<close>

context context_relation
begin

definition ports :: "'n authority option \<Rightarrow> bool" where
  "ports authority \<longleftrightarrow> (\<forall>a. authority = Some a \<longrightarrow> (\<forall>j. within R (au_assessor a j)) \<and> (\<forall>q m. within R (au_provider a q m))
     \<and> (\<forall>j. within R (au_documentary a j)))"

lemma gate:
  assumes "ports (Some a)"
  shows "within R (legal_actor_gate L contract read_clock q (Some (au_assessor a))
    (Some (documentary_and_native L contract read_clock (au_provider a) (Some (au_documentary a)))))"
  using assms unfolding ports_def legal_actor_gate_def assessed_def documentary_and_native_def require_documentary_scope_unblocked_def
    option.case prod.case
  by (intro rules clock) auto

lemma governed:
  assumes "ports authority" "within R (find_or_create W E p customer lines scope)"
  shows "within R (governed_order W authority E p customer lines scope)"
  using assms gate unfolding governed_order_def perform_governed_native_action_def perform_governed_financial_action_def
    option.case prod.case
  by (intro rules action) auto

end

lemma unit_parts_within:
  assumes "reflp R" "transp R" "\<And>t i. within R (get_record E t i)"
  shows "within R (unit_code E product)" "within R (verify_units E p lines)"
proof -
  note rules = within_stop [OF assms(1)] within_bindS [OF assms(2)] within_if within_case_option assms(3)
  show u: "within R (unit_code E product)" for product unfolding unit_code_def by (intro rules)
  have "within R (wrong_units E codes ls)" for codes ls
  proof (induction ls arbitrary: codes)
    case (Cons l ls)
    then show ?case by (cases l) (simp only: wrong_units.simps, intro rules u Cons.IH)
  qed (simp only: wrong_units.simps, intro rules)
  then show "within R (verify_units E p lines)" unfolding verify_units_def by (intro rules)
qed

lemma find_or_create_apart:
  assumes "engine_within apart E"
  shows "within apart (find_or_create W E p customer lines scope)"
proof -
  have e: "\<And>t i. within apart (get_record E t i)" "\<And>t c s. within apart (query E t c s)" "\<And>t d. within apart (create_record E t d)"
    using assms by (simp_all add: engine_within_def)
  show ?thesis
    unfolding find_or_create_def deny_legacy_native_action_def Let_def
    by (intro apart.rules engine_errors_within e apart.request unit_parts_within apart_rules)
qed

section \<open>The engine's side\<close>

abbreviation order_engine :: "'n placement \<Rightarrow> 'n proc engine \<Rightarrow> bool" where
  "order_engine \<equiv> keyed_table ''C_Order'' ''POReference''"

lemma sales_order_reference: "map_of (sales_order_fields customer currency lines (Some ref)) ''POReference'' = Some (JStr ref)"
  by (simp add: sales_order_fields_def)

lemma guard_step:
  "bindS (if protected_finance_runtime env then deny_legacy_native_action env scope act ref else returnS ()) f s =
     (if protected_finance_runtime env \<and> \<not> action_matches (cx_action s) scope act ref then (Inl OrderToCashError_denied, s) else f () s)"
  by (simp add: deny_legacy_native_action_def checkS_def bindS_def)

lemma find_or_create_first:
  assumes E: "order_engine placed E" and run: "find_or_create W E p customer lines scope s = (r, s')"
  shows "first_record placed (po_order_id p) s s' \<and> (\<forall>n adopted. r = Inr (n, adopted) \<longrightarrow>
    (if adopted then placed (cx_net s') = placed (cx_net s) \<and> placed (cx_net s) (po_order_id p) = [n]
     else placed (cx_net s) (po_order_id p) = [] \<and> placed (cx_net s') = (placed (cx_net s))(po_order_id p := [n])))"
proof -
  let ?ref = "po_order_id p" and ?data = "sales_order_fields customer (po_currency p) lines (Some (po_order_id p))"
  let ?q = "query E ''C_Order'' [(''POReference'', JStr ?ref)] [''C_Order_ID'']"
  let ?create = "authorised_native_financial_request (wk_lib W) ''POST'' ''/models/C_Order'' ?data (create_record E ''C_Order'' ?data)"
  have steady: "\<And>t i. within (steady placed) (get_record E t i)" "within (steady placed) ?q"
    and found: "\<And>s rows s'. ?q s = (Inr rows, s') \<Longrightarrow> mapE (row_id ''C_Order'') rows = Inr (placed (cx_net s) ?ref)"
    using E by (simp_all add: keyed_table_def)
  have create: "first_record placed ?ref s s' \<and> (\<forall>n. r = Inr n \<longrightarrow> placed (cx_net s') = (placed (cx_net s))(?ref := [n]))"
    if "?create s = (r, s')" "placed (cx_net s) ?ref = []" for s r s'
  proof -
    obtain r1 s1 where c: "create_record E ''C_Order'' ?data (s\<lparr>cx_request := Some (py_upper ''POST'', ''/models/C_Order'', request_digest (wk_lib W) (JObj ?data))\<rparr>) = (r1, s1)"
      by (metis prod.collapse)
    with that(1) have "r = r1" "cx_net s' = cx_net s1" by (auto simp: authorised_native_financial_request_def)
    with created_once [OF E sales_order_reference c] that(2) show ?thesis by (simp add: first_record_def)
  qed
  let ?goal = "\<lambda>r s s'. first_record placed ?ref s s' \<and> (\<forall>n adopted. r = Inr (n, adopted) \<longrightarrow>
    (if adopted then placed (cx_net s') = placed (cx_net s) \<and> placed (cx_net s) ?ref = [n]
     else placed (cx_net s) ?ref = [] \<and> placed (cx_net s') = (placed (cx_net s))(?ref := [n])))"
  let ?new = "bindS (verify_units E p lines) (\<lambda>_. bindS ?create (\<lambda>n. returnS (n, False)))"
  let ?pick = "\<lambda>existing. if 1 < length existing
        then raiseS (dead ''DUPLICATE_NATIVE_ORDERS'' (show_nat (length existing) @ '' engine orders carry the order's reference''))
        else (case existing of row # _ \<Rightarrow> bindS (liftS (row_id ''C_Order'' row)) (\<lambda>n. returnS (n, True)) | [] \<Rightarrow> ?new)"
  have new: "?goal r s s'" if "placed (cx_net s) ?ref = []" "?new s = (r, s')" for s r s'
  proof (cases "verify_units E p lines s")
    case (Pair r1 s1)
    have same: "placed (cx_net s1) = placed (cx_net s)"
      using withinD [OF unit_parts_within(2) [OF steady.refl steady.trans steady(1)] Pair] by (simp add: steady_def)
    show ?thesis
    proof (cases r1)
      case (Inl e)
      with that Pair same show ?thesis by (auto simp: bindS_def first_record_def)
    next
      case (Inr u)
      obtain r2 s2 where c: "?create s1 = (r2, s2)" by (metis prod.collapse)
      then have "s' = s2" "r = (case r2 of Inl e \<Rightarrow> Inl e | Inr n \<Rightarrow> Inr (n, False))"
        using that(2) Pair Inr by (auto simp: bindS_def split: sum.splits)
      with create [OF c] that(1) same show ?thesis by (auto simp: first_record_def split: sum.splits)
    qed
  qed
  have body: "?goal r s s'" if "bindS ?q ?pick s = (r, s')" for s r s'
  proof (cases "?q s")
    case (Pair r1 s1)
    have same: "placed (cx_net s1) = placed (cx_net s)" using withinD [OF steady(2) Pair] by (simp add: steady_def)
    show ?thesis
    proof (cases r1)
      case (Inl e)
      with that Pair same show ?thesis by (auto simp: bindS_def first_record_def)
    next
      case (Inr rows)
      with Pair that have pick: "?pick rows s1 = (r, s')" by (simp add: bindS_def)
      have ids: "mapE (row_id ''C_Order'') rows = Inr (placed (cx_net s) ?ref)" using found Pair Inr by blast
      show ?thesis
      proof (cases rows)
        case Nil
        with ids have "placed (cx_net s1) ?ref = []" using same by simp
        moreover have "?new s1 = (r, s')" using pick Nil by simp
        ultimately have "?goal r s1 s'" by (rule new)
        then show ?thesis unfolding first_record_def same by blast
      next
        case (Cons row more)
        show ?thesis
        proof (cases more)
          case Nil
          with Cons ids obtain n where "row_id ''C_Order'' row = Inr n" "placed (cx_net s) ?ref = [n]" by (auto simp: bindE_Inr_iff)
          with pick Cons Nil same show ?thesis by (auto simp: bindS_def first_record_def)
        qed (use pick Cons same in \<open>auto simp: first_record_def\<close>)
      qed
    qed
  qed
  show ?thesis
  proof (cases "protected_finance_runtime (wk_env W) \<and> \<not> action_matches (cx_action s) scope ''create_sales_order'' ?ref")
    case True
    with run show ?thesis unfolding find_or_create_def guard_step by (auto simp: first_record_def)
  next
    case False
    with run have "engine_errors (bindS ?q ?pick) s = (r, s')" unfolding find_or_create_def guard_step Let_def by (simp only: if_False)
    then obtain r0 where "bindS ?q ?pick s = (r0, s')" "\<forall>x. r = Inr x \<longrightarrow> r0 = Inr x"
      by (auto simp: engine_errors_def rethrow_def split: prod.splits sum.splits)
    from body [OF this(1)] this(2) show ?thesis by auto
  qed
qed

section \<open>ERP's rows about an order\<close>

text \<open>
  What an executed order adds, all of it at once: the consequence record, the order link with the engine's id, the
  event that announces the record, and the outcome of the inbox row, which this claim still held.
\<close>

definition recorded :: "'n worker \<Rightarrow> Claim \<Rightarrow> string \<Rightarrow> PlacedOrder \<Rightarrow> int \<Rightarrow> bool \<Rightarrow> database \<Rightarrow> database \<Rightarrow> bool" where
  "recorded W c tenant p n adopted d d' \<longleftrightarrow>
     (\<exists>t1 t2 t3 u rec orders e outbox inbox.
        open_order tenant (po_entity p) (po_order_id p) (po_version p) (erp_order_id (wk_lib W) tenant (po_order_id p)) t1 (db_orders d)
          = (Inr rec, orders)
      \<and> consequence_changed_event (wk_lib W) u rec (cl_correlation_id c) = Inr e
      \<and> record_event (wk_lib W) (wk_pg_uuid W) e t2 (db_outbox d) = Inr outbox
      \<and> processed c (settled_code adopted) t3 (db_inbox d) = (Inr (), inbox)
      \<and> \<not> list_ex (\<lambda>x. ox_tenant x = tenant \<and> (ox_order x = po_order_id p \<or> ox_native x = n)) (db_executions d)
      \<and> d' = d\<lparr>db_orders := orders, db_outbox := outbox, db_inbox := inbox, db_executions := db_executions d @
          [\<lparr>ox_tenant = tenant, ox_order = po_order_id p, ox_entity = po_entity p, ox_version = po_version p,
            ox_erp_order = co_erp_order rec, ox_native = n, ox_event = cl_event_id c, ox_adopted = adopted\<rparr>]\<rparr>)"

lemma on_db_Inr: "on_db m s = (Inr a, s') \<longleftrightarrow> (\<exists>d. m (pr_db s) = (Inr a, d) \<and> s' = s\<lparr>pr_db := d\<rparr>)"
  by (auto simp: on_db_def split: prod.splits)

lemma db_open_order_Inr:
  "db_open_order tenant entity og v erp t s = (Inr rec, s') \<longleftrightarrow> (\<exists>orders. open_order tenant entity og v erp t (db_orders (pr_db s)) = (Inr rec, orders)
     \<and> s' = s\<lparr>pr_db := (pr_db s)\<lparr>db_orders := orders\<rparr>\<rparr>)"
  by (auto simp: db_open_order_def on_db_Inr split: prod.splits)

lemma insert_execution_Inr:
  "insert_execution r d = (Inr u, d') \<longleftrightarrow> fits_integer (ox_version r) \<and> 1 \<le> ox_version r \<and> fullmatch public_id_rx (ox_erp_order r)
     \<and> \<not> list_ex (\<lambda>x. (ox_tenant x = ox_tenant r \<and> ox_order x = ox_order r) \<or> ox_erp_order x = ox_erp_order r
          \<or> (ox_tenant x = ox_tenant r \<and> ox_native x = ox_native r)) (db_executions d)
     \<and> has_order (ox_tenant r) (ox_order r) (db_orders d) \<and> d' = d\<lparr>db_executions := db_executions d @ [r]\<rparr>"
  by (auto simp: insert_execution_def)

lemma worker_event_Inr:
  "worker_record_event W e s = (Inr u, s') \<longleftrightarrow> (\<exists>outbox. record_event (wk_lib W) (wk_pg_uuid W) e (pr_clock s (pr_ticks s)) (db_outbox (pr_db s)) = Inr outbox
     \<and> s' = s\<lparr>pr_ticks := Suc (pr_ticks s), pr_db := (pr_db s)\<lparr>db_outbox := outbox\<rparr>\<rparr>)"
  by (auto simp: worker_record_event_def on_db_Inr store_outbox_def split: sum.splits)

lemma queue_processed_Inr:
  "queue_processed c ocode s = (Inr u, s') \<longleftrightarrow> (\<exists>rows. processed c ocode (pr_clock s (pr_ticks s)) (db_inbox (pr_db s)) = (Inr (), rows)
     \<and> s' = s\<lparr>pr_ticks := Suc (pr_ticks s), pr_db := (pr_db s)\<lparr>db_inbox := rows\<rparr>\<rparr>)"
  by (auto simp: queue_processed_def on_queue_def on_db_Inr mapE_exn_Inr split: prod.splits)

lemma record_execution_Inr:
  assumes "record_execution W c tenant p n adopted s = (Inr x, s')"
  shows "recorded W c tenant p n adopted (pr_db s) (pr_db s') \<and> cx_net s' = cx_net s"
proof -
  from assms obtain rec orders where o: "open_order tenant (po_entity p) (po_order_id p) (po_version p) (erp_order_id (wk_lib W) tenant (po_order_id p))
       (pr_clock s (pr_ticks s)) (db_orders (pr_db s)) = (Inr rec, orders)"
    and run: "bindS (on_db (insert_execution \<lparr>ox_tenant = tenant, ox_order = po_order_id p, ox_entity = po_entity p, ox_version = po_version p,
        ox_erp_order = co_erp_order rec, ox_native = n, ox_event = cl_event_id c, ox_adopted = adopted\<rparr>)) (\<lambda>_.
     bindS draw_uuid (\<lambda>fresh.
     bindS (liftS (mapE_exn envelope_exn (consequence_changed_event (wk_lib W) fresh rec (cl_correlation_id c)))) (\<lambda>e.
     bindS (worker_record_event W e) (\<lambda>_. queue_processed c (settled_code adopted)))))
     (s\<lparr>pr_ticks := Suc (pr_ticks s), pr_db := (pr_db s)\<lparr>db_orders := orders\<rparr>\<rparr>) = (Inr x, s')"
    by (auto simp: record_execution_def bindS_Inr_iff [of "db_open_order _ _ _ _ _ _"] db_open_order_Inr)
  from run obtain e outbox inbox s1 where
      "consequence_changed_event (wk_lib W) (pr_uuids s (pr_drawn s)) rec (cl_correlation_id c) = Inr e"
      "\<not> list_ex (\<lambda>x. ox_tenant x = tenant \<and> (ox_order x = po_order_id p \<or> ox_native x = n)) (db_executions (pr_db s))"
      "record_event (wk_lib W) (wk_pg_uuid W) e (pr_clock s (Suc (pr_ticks s))) (db_outbox (pr_db s)) = Inr outbox"
      "processed c (settled_code adopted) (pr_clock s (Suc (Suc (pr_ticks s)))) (db_inbox (pr_db s)) = (Inr (), inbox)"
      "pr_db s' = (pr_db s)\<lparr>db_orders := orders, db_outbox := outbox, db_inbox := inbox, db_executions := db_executions (pr_db s) @
          [\<lparr>ox_tenant = tenant, ox_order = po_order_id p, ox_entity = po_entity p, ox_version = po_version p,
            ox_erp_order = co_erp_order rec, ox_native = n, ox_event = cl_event_id c, ox_adopted = adopted\<rparr>]\<rparr>"
      "cx_net s' = cx_net s"
    by (auto simp: bindS_Inr_iff [of "on_db _"] bindS_Inr_iff [of "liftS _"] bindS_Inr_iff [of "worker_record_event _ _"] on_db_Inr
        insert_execution_Inr worker_event_Inr queue_processed_Inr mapE_exn_Inr list_ex_iff)
  with o show ?thesis unfolding recorded_def by blast
qed

text \<open>A worker whose ports leave the connection alone.\<close>

definition worker_apart :: "'n worker \<Rightarrow> 'n authority option \<Rightarrow> bool" where
  "worker_apart W authority \<longleftrightarrow> (\<forall>client org. within apart (wk_engine_for W client org)
     \<and> (\<forall>s E s'. wk_engine_for W client org s = (Inr (Some E), s') \<longrightarrow> engine_within apart E)) \<and> apart.ports authority"

lemma native_order_within:
  assumes R: "reflp R" "transp R" and "within R (wk_engine_for W (g_client g) (g_org g))"
    and order: "\<And>s E s' customer lines. wk_engine_for W (g_client g) (g_org g) s = (Inr (Some E), s') \<Longrightarrow>
      within R (governed_order W authority E p customer lines
        \<lparr>ts_tenant = tenant, ts_entity = po_entity p, ts_client = g_client g, ts_org = g_org g\<rparr>)"
  shows "within R (native_order W authority tenant instance g p)"
  unfolding native_order_def
  by (intro within_bindS [OF R(2)] within_bindS_result [OF R(2)] within_stop [OF R(1)] within_case_option engine_or_block_within assms)
    (auto dest: engine_or_block_Inr)

lemma native_order_apart:
  assumes "worker_apart W authority"
  shows "within apart (native_order W authority tenant instance g p)"
proof (rule native_order_within [OF apart_rules])
  show "within apart (wk_engine_for W (g_client g) (g_org g))" using assms by (simp add: worker_apart_def)
next
  fix s E s' customer lines
  assume "wk_engine_for W (g_client g) (g_org g) s = (Inr (Some E), s')"
  then have "engine_within apart E" using assms unfolding worker_apart_def by blast
  then show "within apart (governed_order W authority E p customer lines
      \<lparr>ts_tenant = tenant, ts_entity = po_entity p, ts_client = g_client g, ts_org = g_org g\<rparr>)"
    using assms by (intro apart.governed find_or_create_apart) (simp add: worker_apart_def)
qed

lemma record_execution_unsaved: "within unsaved (record_execution W c tenant p n adopted)"
  unfolding record_execution_def worker_record_event_def queue_processed_def on_queue_def
  by (intro unsaved.rules unsaved.quiet unsaved.stores)

text \<open>How the rows came about: the engine's order was found or created first.\<close>

definition obtained :: "'n worker \<Rightarrow> 'n authority option \<Rightarrow> PlacedOrder \<Rightarrow> int \<times> bool \<Rightarrow> 'n proc \<Rightarrow> 'n proc \<Rightarrow> bool" where
  "obtained W authority p x s s' \<longleftrightarrow> (\<exists>tenant inst g s1. native_order W authority tenant inst g p s = (Inr x, s1)
     \<and> cx_net s1 = cx_net s')"

definition order_done :: "'n worker \<Rightarrow> 'n authority option \<Rightarrow> Claim \<Rightarrow> 'n proc \<Rightarrow> exn + Outcome \<Rightarrow> 'n proc \<Rightarrow> bool" where
  "order_done W authority c s r s' \<longleftrightarrow> (\<exists>tenant p n adopted. cl_tenant_id c = Some tenant \<and> parse_placed_order (cl_data c) = Inr p
     \<and> r = Inr (outcome PROCESSED (settled_code adopted) []) \<and> recorded W c tenant p n adopted (pr_saved s) (pr_saved s')
     \<and> obtained W authority p (n, adopted) s s')"

lemma execute_new_attempted:
  assumes "worker_apart W authority" "clean s" "execute_new W authority c tenant inst g p s = (r, s')"
    "parse_placed_order (cl_data c) = Inr p" "cl_tenant_id c = Some tenant"
  shows "attempted (order_done W authority c) s r s'"
proof (rule attempted_mono)
  let ?rows = "\<lambda>x. record_execution W c tenant p (fst x) (snd x)"
  show "attempted (\<lambda>s r s'. \<exists>x s1 s2. native_order W authority tenant inst g p s = (Inr x, s1) \<and> ?rows x s1 = (Inr (), s2)
      \<and> s' = s2\<lparr>pr_saved := pr_db s2\<rparr> \<and> r = Inr (outcome PROCESSED (settled_code (snd x)) [])) s r s'"
    by (rule atomically_attempted [OF native_order_apart [OF assms(1)] record_execution_unsaved assms(2)])
      (use assms(3) in \<open>simp add: execute_new_def case_prod_unfold\<close>)
  assume "\<exists>x s1 s2. native_order W authority tenant inst g p s = (Inr x, s1) \<and> ?rows x s1 = (Inr (), s2)
      \<and> s' = s2\<lparr>pr_saved := pr_db s2\<rparr> \<and> r = Inr (outcome PROCESSED (settled_code (snd x)) [])"
  then obtain n adopted s1 s2 where run: "native_order W authority tenant inst g p s = (Inr (n, adopted), s1)"
      "record_execution W c tenant p n adopted s1 = (Inr (), s2)" "s' = s2\<lparr>pr_saved := pr_db s2\<rparr>"
      "r = Inr (outcome PROCESSED (settled_code adopted) [])" by auto
  have "pr_db s1 = pr_saved s"
    using withinD [OF native_order_apart [OF assms(1)] run(1)] assms(2) by (simp add: apart_def clean_def)
  then have "recorded W c tenant p n adopted (pr_saved s) (pr_saved s')" "cx_net s1 = cx_net s'"
    using record_execution_Inr [OF run(2)] run(3) by simp_all
  then show "order_done W authority c s r s'"
    unfolding order_done_def obtained_def using run(1,4) assms(4,5) by blast
qed

lemma execute_order_attempted:
  assumes "worker_apart W authority" "clean s" "execute_order W authority c s = (r, s')"
  shows "attempted (order_done W authority c) s r s'"
proof (cases "parse_placed_order (cl_data c)")
  case (Inl e)
  with assms show ?thesis by (simp add: execute_order_def nothing_attempted)
next
  case (Inr p)
  let ?tenant = "the_default [] (cl_tenant_id c)"
  let ?found = "Option.bind (find_target (db_tenants (pr_db s)) ?tenant (po_entity p)) (\<lambda>g. map_option (Pair g) (g_engine g))"
  show ?thesis
  proof (cases "?tenant = [] \<or> ?found = None")
    case True
    with Inr assms have "s' = s" by (auto simp: execute_order_def Let_def split: if_splits)
    with assms(2) show ?thesis by (simp add: nothing_attempted)
  next
    case False
    then obtain g inst where g: "?found = Some (g, inst)" and tenant: "cl_tenant_id c = Some ?tenant"
      by (cases "cl_tenant_id c") auto
    let ?body = "\<lambda>held. if \<not> held then returnS \<lparr>oc_status = RETRY, oc_code = ''ORDER_CONTENDED'', oc_detail = [],
          oc_delay = Some CONTENTION_DELAY_SECONDS, oc_refund = True\<rparr>
        else bindS (readS (\<lambda>s. get_consequence ?tenant (po_order_id p) (db_orders (pr_db s)))) (\<lambda>known. bindS commit_tx (\<lambda>_.
          case known of
            Some k \<Rightarrow>
              if po_version p = co_version k then returnS (outcome PROCESSED ''ALREADY_EXECUTED'' [])
              else if po_version p < co_version k then returnS (outcome PROCESSED ''STALE_VERSION'' [])
              else raiseS (dead ''AMENDMENT_UNSUPPORTED'' ''a later version of an executed order; amendment is not implemented'')
          | None \<Rightarrow> execute_new W authority c ?tenant inst g p))"
    have run: "advisory_lock (wk_lock_free W (order_lock ?tenant (po_order_id p))) ?body s = (r, s')"
      using assms(3) Inr False g by (simp add: execute_order_def Let_def)
    have same: "s\<lparr>pr_saved := pr_db s\<rparr> = s" using assms(2) by (simp add: clean_def)
    show ?thesis
    proof (rule advisory_lock_attempted [OF assms(2) _ run])
      fix r s' assume "?body (wk_lock_free W (order_lock ?tenant (po_order_id p))) s = (r, s')"
      then show "attempted (order_done W authority c) s r s'"
        using execute_new_attempted [OF assms(1,2) _ Inr tenant] nothing_attempted [OF assms(2)] same
        by (auto simp: commit_tx_def bindS_def split: if_splits option.splits)
    qed
  qed
qed

lemma run_order_claim_cases:
  assumes "worker_apart W authority" "clean s"
  obtains oc s' where "run_order_claim W authority c s = (Inr oc, s')" "clean s'"
    "cx_net s' = cx_net (snd (execute_order W authority c s))"
    "inbox_only (pr_saved s) (pr_saved s') \<or> order_done W authority c s (Inr oc) s'"
  unfolding run_order_claim_def
  by (rule settle_attempted [of s "order_done W authority c" "execute_order W authority c" "{''EXECUTED'', ''ADOPTED_NATIVE_ORDER''}" c])
    (use assms execute_order_attempted [OF assms, of c] in \<open>auto simp: order_done_def settled_code_def\<close>)

text \<open>C2: ERP's rows about an order commit together or not at all. Running a claimed order never raises, leaves nothing
  uncommitted, and either all that changed in the committed database is the inbox, or the outcome is \<open>EXECUTED\<close> or
  \<open>ADOPTED_NATIVE_ORDER\<close> and the consequence record, the order link, its announcement and the outcome of the row
  this claim still held were committed in one transaction.\<close>

theorem order_rows_atomic:
  assumes "worker_apart W authority" "clean s"
  shows "\<exists>oc s'. run_order_claim W authority c s = (Inr oc, s') \<and> clean s'
    \<and> (inbox_only (pr_saved s) (pr_saved s') \<or> (\<exists>tenant p n adopted. cl_tenant_id c = Some tenant \<and> parse_placed_order (cl_data c) = Inr p
        \<and> oc = outcome PROCESSED (settled_code adopted) [] \<and> recorded W c tenant p n adopted (pr_saved s) (pr_saved s')))"
  by (rule run_order_claim_cases [OF assms, of c]) (auto simp: order_done_def)

section \<open>One engine order per Trade order\<close>

text \<open>A worker all of whose engine sessions see the same orders, and whose other ports do not touch them.\<close>

definition order_worker :: "'n placement \<Rightarrow> 'n worker \<Rightarrow> 'n authority option \<Rightarrow> bool" where
  "order_worker placed W authority \<longleftrightarrow> worker_apart W authority \<and> steady.ports placed authority
     \<and> (\<forall>client org. within (steady placed) (wk_engine_for W client org)
        \<and> (\<forall>s E s'. wk_engine_for W client org s = (Inr (Some E), s') \<longrightarrow> order_engine placed E))"

lemma native_order_first:
  assumes "order_worker placed W authority"
  shows "within (first_record placed (po_order_id p)) (native_order W authority tenant inst g p)"
proof (rule native_order_within [OF first_record.refl first_record.trans])
  show "within (first_record placed (po_order_id p)) (wk_engine_for W (g_client g) (g_org g))"
    using assms by (simp add: order_worker_def steady_first_record)
next
  fix s E s' customer lines
  assume "wk_engine_for W (g_client g) (g_org g) s = (Inr (Some E), s')"
  then have E: "order_engine placed E" using assms unfolding order_worker_def by blast
  have "first_record.ports placed (po_order_id p) authority"
    using assms by (auto simp: order_worker_def first_record.ports_def steady.ports_def intro: steady_first_record)
  moreover have "within (first_record placed (po_order_id p)) (find_or_create W E p customer lines scope)" for scope
    unfolding within_def using find_or_create_first [OF E] by (metis prod.collapse)
  ultimately show "within (first_record placed (po_order_id p)) (governed_order W authority E p customer lines
      \<lparr>ts_tenant = tenant, ts_entity = po_entity p, ts_client = g_client g, ts_org = g_org g\<rparr>)"
    by (rule first_record.governed)
qed

lemma record_execution_steady: "within (steady placed) (record_execution W c tenant p n adopted)"
  unfolding record_execution_def worker_record_event_def queue_processed_def on_queue_def
  by (intro steady_connection.rules steady_connection.quiet steady_connection.stores)

lemma execute_order_first:
  assumes "order_worker placed W authority" "parse_placed_order (cl_data c) = Inr p"
  shows "within (first_record placed (po_order_id p)) (execute_order W authority c)"
proof -
  let ?R = "first_record placed (po_order_id p)"
  have rows: "within ?R (atomically (record_execution W c tenant p n adopted))" for tenant n adopted
    by (intro atomically_within steady_first_record [OF record_execution_steady]) (simp_all add: first_record_def)
  have new: "within ?R (execute_new W authority c tenant inst g p)" for tenant inst g
    unfolding execute_new_def by (intro first_record.rules native_order_first assms(1) rows)
  have commit: "within ?R commit_tx" by (simp add: within_def commit_tx_def first_record_def)
  have lock: "within ?R (advisory_lock held body)" if "within ?R (body held)" for held and body :: "bool \<Rightarrow> ('a proc, exn, Outcome) op"
    by (rule advisory_lock_within [where body = body and held = held, OF _ _ _ that]) (simp_all add: first_record_def)
  show ?thesis
    unfolding execute_order_def assms(2) sum.case Let_def
    by (intro first_record.rules lock commit new)
qed

lemma execute_order_unparsed: "parse_placed_order (cl_data c) = Inl e \<Longrightarrow> snd (execute_order W authority c s) = s"
  by (simp add: execute_order_def)

lemma governed_order_Inr:
  assumes "steady.ports placed authority" "governed_order W authority E p customer lines scope s = (Inr x, s')"
  obtains s1 s2 where "find_or_create W E p customer lines scope s1 = (Inr x, s2)" "steady placed s s1" "cx_net s2 = cx_net s'"
proof (cases "protected_finance_runtime (wk_env W)")
  case False
  with assms(2) that [of s s'] show thesis by (simp add: governed_order_def steady_def)
next
  case True
  with assms(2) obtain a where a: "authority = Some a"
      "perform_governed_native_action (wk_lib W) (wk_contract W) read_clock (Some (au_policy a)) (au_operation a) scope
         (po_order_id p) (Some (au_assessor a)) (Some (au_provider a)) (Some (au_documentary a))
         (find_or_create W E p customer lines scope) s = (Inr x, s')"
    by (auto simp: governed_order_def split: option.splits)
  let ?gate = "legal_actor_gate (wk_lib W) (wk_contract W) read_clock (au_operation a) (Some (au_assessor a))
    (Some (documentary_and_native (wk_lib W) (wk_contract W) read_clock (au_provider a) (Some (au_documentary a))))"
  from a(2) obtain u s0 where gate: "?gate s = (Inr u, s0)"
      and act: "authorised_native_action scope (np_action (au_policy a)) (po_order_id p) (find_or_create W E p customer lines scope) s0 = (Inr x, s')"
    by (auto simp: perform_governed_native_action_def perform_governed_financial_action_def bindS_Inr_iff split: if_splits)
  have "steady placed s s0" using withinD [OF steady.gate gate] assms(1) a(1) by simp
  with act that show thesis
    by (auto simp: authorised_native_action_def fresh_native_financial_operation_def steady_def split: prod.splits)
qed

lemma native_order_obtained:
  assumes "order_worker placed W authority" "native_order W authority tenant inst g p s = (Inr (n, adopted), s')"
  shows "placed (cx_net s') (po_order_id p) = [n]"
proof -
  let ?scope = "\<lparr>ts_tenant = tenant, ts_entity = po_entity p, ts_client = g_client g, ts_org = g_org g\<rparr>"
  from assms(2) obtain lines E s1 customer where run: "engine_or_block W g s = (Inr E, s1)"
      "governed_order W authority E p customer lines ?scope s1 = (Inr (n, adopted), s')"
    by (auto simp: native_order_def bindS_Inr_iff [of "liftS _"] bindS_Inr_iff [of "engine_or_block _ _"] split: option.splits)
  have E: "order_engine placed E" and ports: "steady.ports placed authority"
    using engine_or_block_Inr [OF run(1)] assms(1) unfolding order_worker_def by blast+
  from ports run(2) obtain s2 s3 where "find_or_create W E p customer lines ?scope s2 = (Inr (n, adopted), s3)" "cx_net s3 = cx_net s'"
    by (rule governed_order_Inr)
  with find_or_create_first [OF E this(1)] show ?thesis by (cases adopted) auto
qed

text \<open>A history of attempts, each by a worker of its own, with whatever lock, authority and engine it found.\<close>

definition attempts :: "('n worker \<times> 'n authority option \<times> Claim) list \<Rightarrow> 'n proc \<Rightarrow> 'n proc" where
  "attempts work s = fold (\<lambda>(W, authority, c) s. snd (run_order_claim W authority c s)) work s"

text \<open>What holds between the engine and ERP's links after any history.\<close>

definition linked :: "'n placement \<Rightarrow> 'n proc \<Rightarrow> bool" where
  "linked placed s \<longleftrightarrow> clean s \<and> (\<forall>ref. length (placed (cx_net s) ref) \<le> 1)
     \<and> (\<forall>x \<in> set (db_executions (pr_saved s)). placed (cx_net s) (ox_order x) = [ox_native x])
     \<and> distinct (map (\<lambda>x. (ox_tenant x, ox_order x)) (db_executions (pr_saved s)))"

lemma attempt_linked:
  assumes "order_worker placed W authority" "linked placed s"
  shows "linked placed (snd (run_order_claim W authority c s))"
proof -
  have W: "worker_apart W authority" and clean: "clean s" using assms by (simp_all add: order_worker_def linked_def)
  obtain oc s' where run: "run_order_claim W authority c s = (Inr oc, s')" and clean': "clean s'"
    and net: "cx_net s' = cx_net (snd (execute_order W authority c s))"
    and finish: "inbox_only (pr_saved s) (pr_saved s') \<or> order_done W authority c s (Inr oc) s'"
    by (rule run_order_claim_cases [OF W clean])
  have grows: "length (placed (cx_net s') ref) \<le> 1 \<and> (placed (cx_net s) ref = [n] \<longrightarrow> placed (cx_net s') ref = [n])" for ref n
  proof (cases "parse_placed_order (cl_data c)")
    case (Inl reason)
    from execute_order_unparsed [OF this, of W authority s] net assms(2) show ?thesis by (simp add: linked_def)
  next
    case (Inr p)
    have "first_record placed (po_order_id p) s (snd (execute_order W authority c s))"
      using execute_order_first [OF assms(1) Inr] by (simp add: within_def)
    from first_record_keeps [OF this] assms(2) show ?thesis by (simp add: linked_def net)
  qed
  have old: "placed (cx_net s') (ox_order x) = [ox_native x]" if "x \<in> set (db_executions (pr_saved s))" for x
    using grows that assms(2) by (simp add: linked_def)
  from finish show ?thesis
  proof
    assume "inbox_only (pr_saved s) (pr_saved s')"
    then show ?thesis using old grows clean' assms(2) run by (simp add: linked_def inbox_only_fields)
  next
    assume "order_done W authority c s (Inr oc) s'"
    then obtain tenant p n adopted where rec: "recorded W c tenant p n adopted (pr_saved s) (pr_saved s')"
        and got: "obtained W authority p (n, adopted) s s'"
      by (auto simp: order_done_def)
    from got have "placed (cx_net s') (po_order_id p) = [n]"
      unfolding obtained_def using native_order_obtained [OF assms(1)] by metis
    with rec old grows clean' assms(2) run show ?thesis by (auto simp: linked_def recorded_def list_ex_iff)
  qed
qed

text \<open>C1: One sales order per Trade order, however often it is tried. After any history of attempts, by any workers, for
  any claims (redeliveries, second events for the same order, re-claims after an expired lease), with locks held
  elsewhere, authority withheld, engine calls that fail before or after they took effect, and ERP transactions that roll
  back: the engine holds at most one order under each reference, every order link ERP has committed names exactly
  that order, and there is at most one link per tenant and Trade order.\<close>

theorem one_engine_order:
  assumes "list_all (\<lambda>(W, authority, c). order_worker placed W authority) work" "linked placed s"
  shows "linked placed (attempts work s)"
  using assms
proof (induction work arbitrary: s)
  case (Cons w work)
  obtain W authority c where "w = (W, authority, c)" by (cases w)
  with Cons show ?case by (simp add: attempts_def attempt_linked)
qed (simp add: attempts_def)

section \<open>Announcements\<close>

lemma event_row_announcement:
  assumes "consequence_changed_event L u rec correlation = Inr e"
  shows "announcement t og (event_row e n corr caus now) \<longleftrightarrow> t = co_tenant rec \<and> og = co_order rec"
  using consequence_event_members [OF assms] by (auto simp: announcement_def event_row_def)

lemma recorded_announced:
  assumes "announced d" "recorded W c tenant p n adopted d d'"
  shows "announced d'"
proof -
  from assms(2) obtain t1 t2 u rec orders e outbox where
      o: "open_order tenant (po_entity p) (po_order_id p) (po_version p) (erp_order_id (wk_lib W) tenant (po_order_id p)) t1 (db_orders d) = (Inr rec, orders)"
    and e: "consequence_changed_event (wk_lib W) u rec (cl_correlation_id c) = Inr e"
    and out: "record_event (wk_lib W) (wk_pg_uuid W) e t2 (db_outbox d) = Inr outbox" and d': "db_orders d' = orders" "db_outbox d' = outbox"
    unfolding recorded_def by force
  have rec: "co_tenant rec = tenant" "co_order rec = po_order_id p"
    using open_order_new(3) [OF o] by (simp_all add: opened_row_def Let_def OrderConsequence.truncate_def)
  have "announcements d' t og = announcements d t og + (if t = tenant \<and> og = po_order_id p then 1 else 0)" for t og
    by (rule record_event_cases [OF out]) (use d'(2) event_row_announcement [OF e] rec in \<open>auto simp: announcements_def\<close>)
  with revision_opened [OF o d'(1)] assms(1) d'(1) consequence_inv_open [OF _ o] show ?thesis by (simp add: announced_def)
qed

lemma inbox_only_announced: "inbox_only d d' \<Longrightarrow> announced d' = announced d"
  by (simp add: announced_def announcements_def revision_def inbox_only_fields)

text \<open>Orders that come through the inbox keep the same promise as the commands: after any history of attempts, by any
  workers and with any failures, the committed database holds for every order as many consequence events as the
  order's revision, and every record is derived from its facts.\<close>

theorem executed_orders_announced:
  assumes "list_all (\<lambda>(W, authority, c). worker_apart W authority) work" "announced (pr_saved s)" "clean s"
  shows "announced (pr_saved (attempts work s)) \<and> clean (attempts work s)"
  using assms
proof (induction work arbitrary: s)
  case (Cons w work)
  obtain W authority c where w: "w = (W, authority, c)" by (cases w)
  with Cons.prems have W: "worker_apart W authority" by simp
  obtain oc s' where run: "run_order_claim W authority c s = (Inr oc, s')" "clean s'"
    and finish: "inbox_only (pr_saved s) (pr_saved s') \<or> order_done W authority c s (Inr oc) s'"
    by (rule run_order_claim_cases [OF W Cons.prems(3)])
  have "announced (pr_saved s')"
    using finish Cons.prems(2) by (auto simp: inbox_only_announced order_done_def intro: recorded_announced)
  with Cons.IH [of s'] Cons.prems(1) run w show ?case by (simp add: attempts_def)
qed (simp add: attempts_def)

section \<open>A concrete worker\<close>

text \<open>An engine whose state is the list of its orders' references and ids.\<close>

type_synonym shop = "(string \<times> int) list"

definition shop_orders :: "shop placement" where
  "shop_orders w ref = map snd (filter (\<lambda>(r, _). r = ref) w)"

fun reference_in :: "fields \<Rightarrow> string" where
  "reference_in data = jtext (the_default JNull (map_of data ''POReference''))"

definition shop_engine :: "shop proc engine" where
  "shop_engine = \<lparr>get_record = (\<lambda>table n. returnS (JObj [(''C_UOM_ID'', JInt 1), (''X12DE355'', JStr ''KG'')])),
     query = (\<lambda>table conditions select. bindS (readS cx_net) (\<lambda>w.
       returnS (map (\<lambda>n. JObj [(''id'', JInt n)]) (shop_orders w (reference_in conditions))))),
     create_record = (\<lambda>table data. bindS (readS cx_net) (\<lambda>w.
       bindS (writeS (\<lambda>s. s\<lparr>cx_net := w @ [(reference_in data, int (length w))]\<rparr>)) (\<lambda>_. returnS (int (length w))))),
     update_record = (\<lambda>table n data. returnS ()), execute_process = (\<lambda>n data. returnS (JObj []))\<rparr>"

definition shop_worker :: "shop worker" where
  "shop_worker = \<lparr>wk_lib = sample_lib JNull, wk_pg_uuid = uuid_of, wk_env = (\<lambda>k. Some ''test''), wk_contract = (\<lambda>k v. True),
     wk_lock_free = (\<lambda>key. True), wk_engine_for = (\<lambda>client org. returnS (Some shop_engine))\<rparr>"

lemma shop_parts: "reflp (R :: shop proc \<Rightarrow> shop proc \<Rightarrow> bool) \<Longrightarrow> transp R \<Longrightarrow> (\<And>s w. R s (s\<lparr>cx_net := w\<rparr>)) \<Longrightarrow> engine_within R shop_engine"
  unfolding engine_within_def shop_engine_def engine.simps
  by (intro conjI allI within_stop within_bindS) (simp_all add: within_def)

lemma shop_ids: "mapE (row_id ''C_Order'') (map (\<lambda>n. JObj [(''id'', JInt n)]) ns) = Inr ns"
  by (induction ns) (simp_all add: row_id_def subscript_def has_key_def to_int_def column_int.simps)

lemma shop_worker_ok: "order_worker shop_orders shop_worker None"
proof -
  have "engine_within apart shop_engine" by (intro shop_parts apart_rules) (simp add: apart_def)
  moreover have "within (steady shop_orders) (get_record shop_engine t i)" "within (steady shop_orders) (query shop_engine t cs sel)" for t i cs sel
    unfolding shop_engine_def engine.simps by (intro steady.rules)+
  moreover have "query shop_engine ''C_Order'' [(''POReference'', JStr ref)] [''C_Order_ID''] s = (Inr rows, s') \<Longrightarrow>
      mapE (row_id ''C_Order'') rows = Inr (shop_orders (cx_net s) ref)" for ref s rows s'
    by (auto simp: shop_engine_def shop_ids)
  moreover have "within (steady shop_orders) (update_record shop_engine t i data)" for t i data
    unfolding shop_engine_def engine.simps by (intro steady.rules)
  moreover have "map_of data ''POReference'' = Some (JStr ref) \<Longrightarrow> create_record shop_engine ''C_Order'' data s = (r, s') \<Longrightarrow>
      r = Inr (int (length (cx_net s))) \<and> shop_orders (cx_net s') = (shop_orders (cx_net s))(ref := shop_orders (cx_net s) ref @ [int (length (cx_net s))])"
    for data ref s r s'
    by (auto simp: shop_engine_def shop_orders_def fun_eq_iff)
  ultimately have "engine_within apart shop_engine" "order_engine shop_orders shop_engine" by (fastforce simp: keyed_table_def)+
  then show ?thesis
    by (simp add: order_worker_def worker_apart_def shop_worker_def apart.ports_def steady.ports_def within_def returnS_def
        apart_def steady_def)
qed

definition shop_row :: inbox_row where
  "shop_row = stamp ''w1'' (seconds 300) (sample_row\<lparr>ib_data := order_payload sample_order\<rparr>)"

definition shop_claim :: Claim where
  "shop_claim = claim_of ''w1'' shop_row"

definition shop_database :: database where
  "shop_database = empty_database\<lparr>db_inbox := [shop_row],
     db_tenants := [\<lparr>t_tenant = ''tn_abc01'', t_entity = ''NABHOLD'', t_client = 11, t_org = 50, t_engine = Some ''e'', t_active = True\<rparr>],
     db_masters := [\<lparr>mr_engine = ''e'', mr_entity = ''NABHOLD'', mr_kind = ''product'', mr_canonical = ''sku_1'', mr_native = 31,
         mr_digest = ''d'', mr_version = ''1'', mr_public = ''erp_p''\<rparr>,
       \<lparr>mr_engine = ''e'', mr_entity = ''NABHOLD'', mr_kind = ''business_partner'', mr_canonical = ''cust_1'', mr_native = 41,
         mr_digest = ''d'', mr_version = ''1'', mr_public = ''erp_c''\<rparr>]\<rparr>"

definition shop_process :: "shop proc" where
  "shop_process = idle_process [] shop_database"

theorem order_rows_atomic_witness:
  "\<exists>oc s'. run_order_claim shop_worker None shop_claim shop_process = (Inr oc, s') \<and> clean s'"
proof -
  have "worker_apart shop_worker None" using shop_worker_ok by (simp add: order_worker_def)
  moreover have "clean shop_process" by (simp add: clean_def shop_process_def idle_process_def)
  ultimately show ?thesis using order_rows_atomic [of shop_worker None shop_process shop_claim] by blast
qed

theorem one_engine_order_witness:
  "linked shop_orders (attempts [(shop_worker, None, shop_claim), (shop_worker, None, shop_claim)] shop_process)"
proof (rule one_engine_order)
  show "list_all (\<lambda>(W, authority, c). order_worker shop_orders W authority) [(shop_worker, None, shop_claim), (shop_worker, None, shop_claim)]"
    by (simp add: shop_worker_ok)
  show "linked shop_orders shop_process"
    by (simp add: linked_def clean_def shop_process_def idle_process_def shop_orders_def shop_database_def empty_database_def)
qed

theorem executed_orders_announced_witness:
  "announced (pr_saved (attempts [(shop_worker, None, shop_claim)] shop_process))"
proof -
  have "worker_apart shop_worker None" using shop_worker_ok by (simp add: order_worker_def)
  moreover have "announced (pr_saved shop_process)" "clean shop_process"
    by (simp_all add: clean_def shop_process_def idle_process_def shop_database_def empty_database_def announced_def consequence_inv_def
        announcements_def revision_def)
  ultimately show ?thesis
    using executed_orders_announced [of "[(shop_worker, None, shop_claim)]" shop_process] by simp
qed

end
