(* ===== verification/Customers.thy ===== *)
theory Customers
  imports Order_Execution_Facts
begin

text \<open>
  The Trade customer a \<open>customer.projected\<close> event asks ERP to hold as a business partner: the payload
  (\<open>modules/customers/payload.py\<close>), the event about the partner (\<open>partner_events.py\<close>) and the executor of a
  claimed row (\<open>projection_execution.py\<close>).
\<close>

section \<open>The payload\<close>

definition CUSTOMER_TYPES :: "string list" where "CUSTOMER_TYPES = [''person'', ''organisation'']"
definition CUSTOMER_STATUSES :: "string list" where "CUSTOMER_STATUSES = [''active'', ''suspended'', ''closed'']"
definition MAX_NAME :: nat where "MAX_NAME = 255"
definition MAX_MARKER :: nat where "MAX_MARKER = 255"

record CustomerProjection =
  cu_entity :: string
  cu_id :: string
  cu_version :: int
  cu_type :: string
  cu_name :: string
  cu_status :: string

definition PayloadError :: "string \<Rightarrow> exn" where
  "PayloadError reason = Exn ''PayloadError'' reason"

text \<open>\<open>v not in frozenset(...)\<close>: a list or an object is not hashable.\<close>

fun member_of :: "string list \<Rightarrow> string \<Rightarrow> json \<Rightarrow> exn + string" where
  "member_of allowed reason (JStr s) = (if s \<in> set allowed then Inr s else Inl (PayloadError reason))"
| "member_of allowed reason (JArr vs) = Inl (Exn ''TypeError'' [])"
| "member_of allowed reason (JObj ms) = Inl (Exn ''TypeError'' [])"
| "member_of allowed reason v = Inl (PayloadError reason)"

fun printable_name :: "json \<Rightarrow> exn + string" where
  "printable_name (JStr s) = (if \<not> nonblank s \<or> MAX_NAME < length s \<or> list_ex (\<lambda>c. code c < 32) s
     then Inl (PayloadError ''display_name must be 1-255 printable characters'') else Inr s)"
| "printable_name v = Inl (PayloadError ''display_name must be 1-255 printable characters'')"

fun optional_code :: "rx \<Rightarrow> string \<Rightarrow> json \<Rightarrow> exn + unit" where
  "optional_code r reason JNull = Inr ()"
| "optional_code r reason (JStr s) = (if fullmatch r s then Inr () else Inl (PayloadError reason))"
| "optional_code r reason v = Inl (PayloadError reason)"

definition parse_customer_projected :: "json \<Rightarrow> exn + CustomerProjection" where
  "parse_customer_projected data =
     (if \<not> is_obj data then Inl (PayloadError ''data is not an object'')
      else case legal_entity_id (jget data ''legal_entity_id'') of
          Inl _ \<Rightarrow> Inl (PayloadError ''legal_entity_id is missing or malformed'')
        | Inr entity \<Rightarrow>
            (case resource_id data ''customer_id'' of
               Inl _ \<Rightarrow> Inl (PayloadError ''customer_id is missing or not a canonical resource id'')
             | Inr cid \<Rightarrow>
                 (case positive_int (jget data ''customer_version'') of
                    None \<Rightarrow> Inl (PayloadError ''customer_version must be a positive integer'')
                  | Some version \<Rightarrow>
                      bindE (member_of CUSTOMER_TYPES ''customer_type must be person or organisation'' (jget data ''customer_type'')) (\<lambda>ty.
                      bindE (printable_name (jget data ''display_name'')) (\<lambda>name.
                      bindE (member_of CUSTOMER_STATUSES ''status must be active, suspended or closed'' (jget data ''status'')) (\<lambda>status.
                      bindE (optional_code (Rep 2 2 upper_letter_rx) ''billing_country must be an ISO 3166-1 alpha-2 code''
                        (jget data ''billing_country'')) (\<lambda>_.
                      bindE (optional_code CURRENCY ''preferred_currency must be an ISO 4217 code'' (jget data ''preferred_currency'')) (\<lambda>_.
                      Inr \<lparr>cu_entity = entity, cu_id = cid, cu_version = version, cu_type = ty, cu_name = py_strip name,
                        cu_status = status\<rparr>))))))))"

definition customer_active :: "CustomerProjection \<Rightarrow> bool" where
  "customer_active cu = (cu_status cu = ''active'')"

definition customer_digest :: "pylib \<Rightarrow> CustomerProjection \<Rightarrow> string" where
  "customer_digest L cu = sha256_hex L (json_dumps L (JObj
     [(''customer_type'', JStr (cu_type cu)), (''display_name'', JStr (cu_name cu)), (''status'', JStr (cu_status cu))]))"

definition customer_marker :: "pylib \<Rightarrow> string \<Rightarrow> CustomerProjection \<Rightarrow> string" where
  "customer_marker L tenant cu =
     (let text = ''baobab-customer:'' @ tenant @ '':'' @ cu_entity cu @ '':'' @ cu_id cu in
      if length text \<le> MAX_MARKER then text else ''baobab-customer-sha256:'' @ sha256_hex L text)"

section \<open>The event\<close>

definition PARTNER_EVENT :: string where "PARTNER_EVENT = ''com.baobab-platform.erp.business-partner.changed.v1''"
definition PARTNER_NAMESPACE :: nat where "PARTNER_NAMESPACE = 0x0a6e1d528f4b5e079c1a7b3d2e9f4a61"

definition business_partner_changed_event ::
  "pylib \<Rightarrow> nat \<Rightarrow> string \<Rightarrow> string \<Rightarrow> string \<Rightarrow> string \<Rightarrow> string \<Rightarrow> string \<Rightarrow> nat \<Rightarrow> instant \<Rightarrow> string option \<Rightarrow> event_error + cloud_event" where
  "business_partner_changed_event L fresh tenant entity partner source name status rev_no now correlation =
     bindE (new_event L fresh PARTNER_EVENT (''business-partner:'' @ partner)
       (uuid_or correlation (uuid5 L PARTNER_NAMESPACE (''correlation|'' @ tenant @ ''|'' @ partner)))
       (JObj [(''legal_entity_id'', JStr entity), (''business_partner_id'', JStr partner), (''source_customer_id'', JStr source),
         (''roles'', JArr [JStr ''customer'']), (''display_name'', JStr name), (''status'', JStr status),
         (''revision'', JInt (int rev_no))])
       (Some tenant) JNull (JStr (''erp-business-partner-'' @ partner @ ''-r'' @ show_nat rev_no)) JNull now)
     (\<lambda>e. Inr (e\<lparr>ev_id := JStr (show_uuid (uuid5 L PARTNER_NAMESPACE
        (''business-partner|'' @ tenant @ ''|'' @ partner @ ''|'' @ show_nat rev_no)))\<rparr>))"

section \<open>The engine partner\<close>

definition CUSTOMER_PROJECTED :: string where "CUSTOMER_PROJECTED = ''com.baobab-platform.trade.customer.projected.v1''"
definition PARTNER_TABLE :: string where "PARTNER_TABLE = ''C_BPartner''"

definition find_marked :: "'w engine \<Rightarrow> string \<Rightarrow> ('w, exn, int option) op" where
  "find_marked E text =
     bindS (query E PARTNER_TABLE [(''Description'', JStr text)] [''C_BPartner_ID'']) (\<lambda>rows.
     if 1 < length rows then raiseS (dead ''DUPLICATE_NATIVE_PARTNERS''
       (show_nat (length rows) @ '' engine partners carry the customer's marker''))
     else (case rows of
         row # _ \<Rightarrow> bindS (liftS (row_id PARTNER_TABLE row)) (\<lambda>n. returnS (Some n))
       | [] \<Rightarrow> returnS None))"

definition default_group :: "'w engine \<Rightarrow> ('w, exn, int) op" where
  "default_group E =
     bindS (query E ''C_BP_Group'' [(''IsDefault'', JBool True)] [''C_BP_Group_ID'']) (\<lambda>rows.
     case rows of
       [row] \<Rightarrow> liftS (row_id ''C_BP_Group'' row)
     | _ \<Rightarrow> raiseS (blocked ''BP_GROUP_UNAVAILABLE'' (show_nat (length rows)
         @ '' default business-partner groups in the tenant's client (exactly one is needed)'')))"

definition numeric_version :: "string \<Rightarrow> int" where
  "numeric_version source = the_default 0 (py_int source)"

definition update_fields :: "CustomerProjection \<Rightarrow> fields" where
  "update_fields cu = [(''Name'', JStr (cu_name cu)), (''IsActive'', JBool (customer_active cu)), (''IsCustomer'', JBool True)]"

definition partner_fields :: "CustomerProjection \<Rightarrow> int \<Rightarrow> string \<Rightarrow> fields" where
  "partner_fields cu grp text = update_fields cu @
     [(''Value'', JStr (cu_id cu)), (''C_BP_Group_ID'', JInt grp), (''Description'', JStr text)]"

definition update_partner :: "'w engine \<Rightarrow> CustomerProjection \<Rightarrow> int \<Rightarrow> ('w, exn, int \<times> string) op" where
  "update_partner E cu native =
     bindS (rethrow (\<lambda>e. case e of ApiError status \<Rightarrow>
          if status = 404 then dead ''NATIVE_PARTNER_MISSING'' ''the mapped engine partner no longer exists'' else e | _ \<Rightarrow> e)
       (get_record E PARTNER_TABLE native)) (\<lambda>_.
     bindS (update_record E PARTNER_TABLE native (update_fields cu)) (\<lambda>_. returnS (native, ''UPDATED'')))"

definition adopt_or_create :: "'w engine \<Rightarrow> CustomerProjection \<Rightarrow> string \<Rightarrow> ('w, exn, int \<times> string) op" where
  "adopt_or_create E cu text =
     bindS (find_marked E text) (\<lambda>found.
     case found of
       Some n \<Rightarrow> bindS (update_record E PARTNER_TABLE n (update_fields cu)) (\<lambda>_. returnS (n, ''ADOPTED_NATIVE_PARTNER''))
     | None \<Rightarrow> bindS (default_group E) (\<lambda>grp.
         bindS (create_record E PARTNER_TABLE (partner_fields cu grp text)) (\<lambda>n. returnS (n, ''CREATED''))))"

definition place_partner :: "'n worker \<Rightarrow> 'n proc engine \<Rightarrow> string \<Rightarrow> CustomerProjection \<Rightarrow> int option \<Rightarrow> ('n proc, exn, int \<times> string) op" where
  "place_partner W E tenant cu mapped =
     engine_errors (case mapped of
         Some native \<Rightarrow> update_partner E cu native
       | None \<Rightarrow> adopt_or_create E cu (customer_marker (wk_lib W) tenant cu))"

section \<open>ERP's rows\<close>

text \<open>\<open>str(n)\<close>, which the interpreter refuses beyond its digit limit.\<close>

definition int_text :: "int \<Rightarrow> exn + string" where
  "int_text n = (if max_str_digits < length (show_nat (nat \<bar>n\<bar>)) then Inl (Exn ''ValueError'' []) else Inr (show_int n))"

definition put_partner :: "string \<Rightarrow> CustomerProjection \<Rightarrow> int \<Rightarrow> string \<Rightarrow> ('n proc, exn, string) op" where
  "put_partner inst cu native digest =
     bindS (liftS (int_text (cu_version cu))) (\<lambda>version. bindS draw_uuid (\<lambda>u. on_db (\<lambda>d.
       case master_put (inst, cu_entity cu, CUSTOMER_KIND, cu_id cu) native digest version
           (new_erp_resource_id (hex_digits 32 u)) (db_masters d) of
         (public, rows) \<Rightarrow> (Inr public, d\<lparr>db_masters := rows\<rparr>))))"

definition announce_partner :: "'n worker \<Rightarrow> Claim \<Rightarrow> string \<Rightarrow> CustomerProjection \<Rightarrow> string \<Rightarrow> ('n proc, exn, unit) op" where
  "announce_partner W c tenant cu public =
     bindS read_clock (\<lambda>now.
     bindS (db_advance tenant ''business_partner'' public (cu_status cu)
       (JObj [(''display_name'', JStr (cu_name cu)), (''source_customer_id'', JStr (cu_id cu))]) now) (\<lambda>step.
     if \<not> ad_changed step then returnS ()
     else bindS draw_uuid (\<lambda>fresh.
       bindS (liftS (mapE_exn envelope_exn (business_partner_changed_event (wk_lib W) fresh tenant (cu_entity cu) public (cu_id cu)
         (cu_name cu) (cu_status cu) (ad_revision step) now (cl_correlation_id c)))) (\<lambda>e. worker_record_event W e))))"

definition record_partner ::
  "'n worker \<Rightarrow> Claim \<Rightarrow> string \<Rightarrow> string \<Rightarrow> CustomerProjection \<Rightarrow> int \<Rightarrow> string \<Rightarrow> ('n proc, exn, unit) op" where
  "record_partner W c tenant inst cu native ocode =
     bindS (put_partner inst cu native (customer_digest (wk_lib W) cu)) (\<lambda>public.
     bindS (announce_partner W c tenant cu public) (\<lambda>_. queue_processed c ocode))"

section \<open>An attempt\<close>

definition customer_lock :: "string \<Rightarrow> CustomerProjection \<Rightarrow> string" where
  "customer_lock tenant cu = ''baobab.customer|'' @ tenant @ ''|'' @ cu_entity cu @ ''|'' @ cu_id cu"

definition project_customer ::
  "'n worker \<Rightarrow> Claim \<Rightarrow> string \<Rightarrow> string \<Rightarrow> target \<Rightarrow> CustomerProjection \<Rightarrow> int option \<Rightarrow> ('n proc, exn, Outcome) op" where
  "project_customer W c tenant inst g cu mapped =
     bindS (engine_or_block W g) (\<lambda>E.
     bindS (place_partner W E tenant cu mapped) (\<lambda>(n, ocode).
     bindS (atomically (record_partner W c tenant inst cu n ocode)) (\<lambda>_.
     returnS (outcome PROCESSED ocode []))))"

definition execute_customer :: "'n worker \<Rightarrow> Claim \<Rightarrow> ('n proc, exn, Outcome) op" where
  "execute_customer W c =
     (case parse_customer_projected (cl_data c) of
        Inl e \<Rightarrow> raiseS (if exn_class e = ''PayloadError'' then dead ''PAYLOAD_INVALID'' (case e of Exn _ m \<Rightarrow> m | _ \<Rightarrow> []) else e)
      | Inr cu \<Rightarrow>
          (let tenant = the_default [] (cl_tenant_id c) in
           if tenant = [] then raiseS (dead ''TENANT_MISSING'' ''a tenant-scoped customer event carries no tenant'')
           else bindS (readS (\<lambda>s. find_target (db_tenants (pr_db s)) tenant (cu_entity cu))) (\<lambda>found.
             case Option.bind found (\<lambda>g. map_option (Pair g) (g_engine g)) of
               None \<Rightarrow> raiseS (blocked ''TENANT_UNMAPPED'' ''no active engine placement for the tenant and legal entity'')
             | Some (g, inst) \<Rightarrow>
                 advisory_lock (wk_lock_free W (customer_lock tenant cu)) (\<lambda>held.
                   if \<not> held then returnS \<lparr>oc_status = RETRY, oc_code = ''CUSTOMER_CONTENDED'', oc_detail = [],
                       oc_delay = Some CONTENTION_DELAY_SECONDS, oc_refund = True\<rparr>
                   else bindS (readS (\<lambda>s. master_get (inst, cu_entity cu, CUSTOMER_KIND, cu_id cu) (db_masters (pr_db s)))) (\<lambda>mapped.
                     bindS commit_tx (\<lambda>_.
                     case mapped of
                       None \<Rightarrow> project_customer W c tenant inst g cu None
                     | Some (native, digest, source) \<Rightarrow>
                         if cu_version cu < numeric_version source then returnS (outcome PROCESSED ''STALE_VERSION'' [])
                         else if cu_version cu = numeric_version source then
                           (if customer_digest (wk_lib W) cu = digest then returnS (outcome PROCESSED ''ALREADY_PROJECTED'' [])
                            else raiseS (dead ''VERSION_CONFLICT'' ''the same customer version arrived with different content''))
                         else project_customer W c tenant inst g cu (Some native)))))))"

definition run_customer_claim :: "'n worker \<Rightarrow> Claim \<Rightarrow> ('n proc, exn, Outcome) op" where
  "run_customer_claim W c = settle {''CREATED'', ''ADOPTED_NATIVE_PARTNER'', ''UPDATED''} c (execute_customer W c)"

end
