(* ===== verification/Customer_Facts.thy ===== *)
theory Customer_Facts
  imports Customers Py_Decimal
begin

text \<open>
  What the customer executor guarantees: ERP's rows about a customer appear together or not at all, the mapping's
  version only moves forward, and the engine holds at most one partner under each marker.
\<close>

section \<open>ERP's rows about a customer\<close>

abbreviation partner_key :: "string \<Rightarrow> CustomerProjection \<Rightarrow> master_key" where
  "partner_key inst cu \<equiv> (inst, cu_entity cu, CUSTOMER_KIND, cu_id cu)"

text \<open>
  What a projected customer adds, all of it at once: the mapping of the customer to the engine's partner, the revision
  of the partner with the event that announces it when it changed, and the outcome of the row this claim still held.
\<close>

definition projected ::
  "'n worker \<Rightarrow> Claim \<Rightarrow> string \<Rightarrow> string \<Rightarrow> CustomerProjection \<Rightarrow> int \<Rightarrow> string \<Rightarrow> database \<Rightarrow> database \<Rightarrow> bool" where
  "projected W c tenant inst cu n ocode d d' \<longleftrightarrow>
     (\<exists>u version public masters t1 t2 t3 step outcomes outbox inbox.
        int_text (cu_version cu) = Inr version
      \<and> master_put (partner_key inst cu) n (customer_digest (wk_lib W) cu) version (new_erp_resource_id (hex_digits 32 u)) (db_masters d)
          = (public, masters)
      \<and> advance tenant ''business_partner'' public (cu_status cu)
          (JObj [(''display_name'', JStr (cu_name cu)), (''source_customer_id'', JStr (cu_id cu))]) t1 None (db_outcomes d) = (Inr step, outcomes)
      \<and> (if ad_changed step
         then \<exists>fresh e. business_partner_changed_event (wk_lib W) fresh tenant (cu_entity cu) public (cu_id cu) (cu_name cu)
               (cu_status cu) (ad_revision step) t1 (cl_correlation_id c) = Inr e
             \<and> record_event (wk_lib W) (wk_pg_uuid W) e t2 (db_outbox d) = Inr outbox
         else outbox = db_outbox d)
      \<and> processed c ocode t3 (db_inbox d) = (Inr (), inbox)
      \<and> d' = d\<lparr>db_masters := masters, db_outcomes := outcomes, db_outbox := outbox, db_inbox := inbox\<rparr>)"

lemma put_partner_Inr:
  assumes "put_partner inst cu n dg s = (Inr public, s')"
  obtains version masters where "int_text (cu_version cu) = Inr version"
    "master_put (partner_key inst cu) n dg version (new_erp_resource_id (hex_digits 32 (pr_uuids s (pr_drawn s)))) (db_masters (pr_db s)) = (public, masters)"
    "s' = s\<lparr>pr_drawn := Suc (pr_drawn s), pr_db := (pr_db s)\<lparr>db_masters := masters\<rparr>\<rparr>"
proof (cases "int_text (cu_version cu)")
  case (Inr version)
  then show thesis
    using assms that
    by (cases "master_put (partner_key inst cu) n dg version (new_erp_resource_id (hex_digits 32 (pr_uuids s (pr_drawn s)))) (db_masters (pr_db s))")
      (auto simp: put_partner_def bindS_Inr_iff [of "liftS _"] on_db_Inr)
qed (use assms in \<open>auto simp: put_partner_def bindS_Inr_iff\<close>)

lemma db_advance_Inr:
  "db_advance tenant ty doc status detail now s = (Inr step, s') \<longleftrightarrow> (\<exists>outcomes. advance tenant ty doc status detail now None (db_outcomes (pr_db s)) = (Inr step, outcomes)
     \<and> s' = s\<lparr>pr_db := (pr_db s)\<lparr>db_outcomes := outcomes\<rparr>\<rparr>)"
  by (auto simp: db_advance_def on_db_Inr split: prod.splits)

lemma announce_partner_Inr:
  assumes "announce_partner W c tenant cu public s = (Inr x, s')"
  obtains t1 t2 step outcomes outbox where
    "advance tenant ''business_partner'' public (cu_status cu)
        (JObj [(''display_name'', JStr (cu_name cu)), (''source_customer_id'', JStr (cu_id cu))]) t1 None (db_outcomes (pr_db s)) = (Inr step, outcomes)"
    "if ad_changed step
     then \<exists>fresh e. business_partner_changed_event (wk_lib W) fresh tenant (cu_entity cu) public (cu_id cu) (cu_name cu)
           (cu_status cu) (ad_revision step) t1 (cl_correlation_id c) = Inr e
         \<and> record_event (wk_lib W) (wk_pg_uuid W) e t2 (db_outbox (pr_db s)) = Inr outbox
     else outbox = db_outbox (pr_db s)"
    "pr_db s' = (pr_db s)\<lparr>db_outcomes := outcomes, db_outbox := outbox\<rparr>" "cx_net s' = cx_net s"
proof -
  let ?t = "pr_clock s (pr_ticks s)"
  from assms obtain step outcomes where
      adv: "advance tenant ''business_partner'' public (cu_status cu)
        (JObj [(''display_name'', JStr (cu_name cu)), (''source_customer_id'', JStr (cu_id cu))]) ?t None (db_outcomes (pr_db s)) = (Inr step, outcomes)"
    and run: "(if \<not> ad_changed step then returnS ()
     else bindS draw_uuid (\<lambda>fresh.
       bindS (liftS (mapE_exn envelope_exn (business_partner_changed_event (wk_lib W) fresh tenant (cu_entity cu) public (cu_id cu)
         (cu_name cu) (cu_status cu) (ad_revision step) ?t (cl_correlation_id c)))) (worker_record_event W)))
       (s\<lparr>pr_ticks := Suc (pr_ticks s), pr_db := (pr_db s)\<lparr>db_outcomes := outcomes\<rparr>\<rparr>) = (Inr x, s')"
    by (auto simp: announce_partner_def bindS_Inr_iff [of "db_advance _ _ _ _ _ _"] db_advance_Inr)
  show thesis
  proof (cases "ad_changed step")
    case False
    with run adv that show thesis by auto
  next
    case True
    with run obtain e outbox where "business_partner_changed_event (wk_lib W) (pr_uuids s (pr_drawn s)) tenant (cu_entity cu) public (cu_id cu)
         (cu_name cu) (cu_status cu) (ad_revision step) ?t (cl_correlation_id c) = Inr e"
        "record_event (wk_lib W) (wk_pg_uuid W) e (pr_clock s (Suc (pr_ticks s))) (db_outbox (pr_db s)) = Inr outbox"
        "pr_db s' = (pr_db s)\<lparr>db_outcomes := outcomes, db_outbox := outbox\<rparr>" "cx_net s' = cx_net s"
      by (auto simp: bindS_Inr_iff [of "liftS _"] mapE_exn_Inr worker_event_Inr)
    with True adv that show thesis by metis
  qed
qed

lemma record_partner_Inr:
  assumes "record_partner W c tenant inst cu n ocode s = (Inr x, s')"
  shows "projected W c tenant inst cu n ocode (pr_db s) (pr_db s') \<and> cx_net s' = cx_net s"
proof -
  from assms obtain public s1 s2 where put: "put_partner inst cu n (customer_digest (wk_lib W) cu) s = (Inr public, s1)"
    and ann: "announce_partner W c tenant cu public s1 = (Inr (), s2)" and q: "queue_processed c ocode s2 = (Inr x, s')"
    by (auto simp: record_partner_def bindS_Inr_iff)
  from put obtain version masters where m: "int_text (cu_version cu) = Inr version"
      "master_put (partner_key inst cu) n (customer_digest (wk_lib W) cu) version (new_erp_resource_id (hex_digits 32 (pr_uuids s (pr_drawn s)))) (db_masters (pr_db s)) = (public, masters)"
    and s1: "pr_db s1 = (pr_db s)\<lparr>db_masters := masters\<rparr>" "cx_net s1 = cx_net s"
    by (rule put_partner_Inr) auto
  from ann obtain t1 t2 step outcomes outbox where
    a: "advance tenant ''business_partner'' public (cu_status cu)
        (JObj [(''display_name'', JStr (cu_name cu)), (''source_customer_id'', JStr (cu_id cu))]) t1 None (db_outcomes (pr_db s1)) = (Inr step, outcomes)"
    "if ad_changed step
     then \<exists>fresh e. business_partner_changed_event (wk_lib W) fresh tenant (cu_entity cu) public (cu_id cu) (cu_name cu)
           (cu_status cu) (ad_revision step) t1 (cl_correlation_id c) = Inr e
         \<and> record_event (wk_lib W) (wk_pg_uuid W) e t2 (db_outbox (pr_db s1)) = Inr outbox
     else outbox = db_outbox (pr_db s1)"
    and s2: "pr_db s2 = (pr_db s1)\<lparr>db_outcomes := outcomes, db_outbox := outbox\<rparr>" "cx_net s2 = cx_net s1"
    by (rule announce_partner_Inr)
  from q obtain t3 inbox where "processed c ocode t3 (db_inbox (pr_db s2)) = (Inr (), inbox)"
      "pr_db s' = (pr_db s2)\<lparr>db_inbox := inbox\<rparr>" "cx_net s' = cx_net s2"
    by (auto simp: queue_processed_Inr)
  then have "pr_db s' = (pr_db s)\<lparr>db_masters := masters, db_outcomes := outcomes, db_outbox := outbox, db_inbox := inbox\<rparr>"
      "processed c ocode t3 (db_inbox (pr_db s)) = (Inr (), inbox)" "cx_net s' = cx_net s"
    using s1 s2 by simp_all
  moreover have same: "db_outbox (pr_db s1) = db_outbox (pr_db s)" using s1 by simp
  moreover have "advance tenant ''business_partner'' public (cu_status cu)
        (JObj [(''display_name'', JStr (cu_name cu)), (''source_customer_id'', JStr (cu_id cu))]) t1 None (db_outcomes (pr_db s)) = (Inr step, outcomes)"
    using a(1) s1(1) by simp
  moreover have "if ad_changed step
     then \<exists>fresh e. business_partner_changed_event (wk_lib W) fresh tenant (cu_entity cu) public (cu_id cu) (cu_name cu)
           (cu_status cu) (ad_revision step) t1 (cl_correlation_id c) = Inr e
         \<and> record_event (wk_lib W) (wk_pg_uuid W) e t2 (db_outbox (pr_db s)) = Inr outbox
     else outbox = db_outbox (pr_db s)"
    using a(2) unfolding same .
  ultimately show ?thesis unfolding projected_def using m by blast
qed

section \<open>An attempt\<close>

lemma find_marked_within: "transp R \<Longrightarrow> reflp R \<Longrightarrow> (\<And>t c s. within R (query E t c s)) \<Longrightarrow> within R (find_marked E text)"
  unfolding find_marked_def by (intro within_bindS within_if within_case_list within_stop)

lemma default_group_within: "transp R \<Longrightarrow> reflp R \<Longrightarrow> (\<And>t c s. within R (query E t c s)) \<Longrightarrow> within R (default_group E)"
  unfolding default_group_def by (intro within_bindS within_if within_case_list within_stop)

lemma place_partner_apart:
  assumes "engine_within apart E"
  shows "within apart (place_partner W E tenant cu mapped)"
proof -
  have e: "\<And>t i. within apart (get_record E t i)" "\<And>t c s. within apart (query E t c s)" "\<And>t d. within apart (create_record E t d)"
      "\<And>t i d. within apart (update_record E t i d)"
    using assms by (simp_all add: engine_within_def)
  show ?thesis
    unfolding place_partner_def update_partner_def adopt_or_create_def
    by (intro engine_errors_within apart.rules find_marked_within default_group_within apart_rules e)
qed

definition partner_at ::
  "'n worker \<Rightarrow> string \<Rightarrow> target \<Rightarrow> CustomerProjection \<Rightarrow> int option \<Rightarrow> ('n proc, exn, int \<times> string) op" where
  "partner_at W tenant g cu mapped = bindS (engine_or_block W g) (\<lambda>E. place_partner W E tenant cu mapped)"

lemma partner_at_within:
  assumes "reflp R" "transp R" "within R (wk_engine_for W (g_client g) (g_org g))"
    "\<And>s E s'. wk_engine_for W (g_client g) (g_org g) s = (Inr (Some E), s') \<Longrightarrow> within R (place_partner W E tenant cu mapped)"
  shows "within R (partner_at W tenant g cu mapped)"
  unfolding partner_at_def
  by (intro within_bindS_result [OF assms(2)] engine_or_block_within assms) (auto dest: engine_or_block_Inr intro: assms)

lemma partner_at_apart: "worker_apart W None \<Longrightarrow> within apart (partner_at W tenant g cu mapped)"
  unfolding worker_apart_def by (rule partner_at_within [OF apart_rules]) (blast intro: place_partner_apart)+

lemma record_partner_unsaved: "within unsaved (record_partner W c tenant inst cu n ocode)"
  unfolding record_partner_def put_partner_def announce_partner_def worker_record_event_def queue_processed_def on_queue_def
  by (intro unsaved.rules unsaved.quiet unsaved.stores)

lemma bindS_bindS: "bindS (bindS m f) g = bindS m (\<lambda>x. bindS (f x) g)"
  by (auto simp: bindS_def fun_eq_iff split: prod.split sum.split)

text \<open>What was known of the customer when the attempt looked.\<close>

definition newer :: "CustomerProjection \<Rightarrow> (int \<times> string \<times> string) option \<Rightarrow> bool" where
  "newer cu known \<longleftrightarrow> (case known of None \<Rightarrow> True | Some (native, digest, source) \<Rightarrow> numeric_version source < cu_version cu)"

definition customer_done :: "'n worker \<Rightarrow> Claim \<Rightarrow> 'n proc \<Rightarrow> exn + Outcome \<Rightarrow> 'n proc \<Rightarrow> bool" where
  "customer_done W c s r s' \<longleftrightarrow> (\<exists>tenant inst g cu n ocode s1.
     let known = master_get (partner_key inst cu) (db_masters (pr_saved s)) in
     cl_tenant_id c = Some tenant \<and> parse_customer_projected (cl_data c) = Inr cu \<and> newer cu known
     \<and> partner_at W tenant g cu (map_option fst known) s = (Inr (n, ocode), s1) \<and> cx_net s1 = cx_net s'
     \<and> r = Inr (outcome PROCESSED ocode []) \<and> ocode \<in> {''CREATED'', ''ADOPTED_NATIVE_PARTNER'', ''UPDATED''}
     \<and> projected W c tenant inst cu n ocode (pr_saved s) (pr_saved s'))"

lemma place_partner_code:
  "place_partner W E tenant cu mapped s = (Inr (n, ocode), s') \<Longrightarrow>
     ocode \<in> (if mapped = None then {''CREATED'', ''ADOPTED_NATIVE_PARTNER''} else {''UPDATED''}) \<and> (\<forall>m. mapped = Some m \<longrightarrow> n = m)"
  by (auto simp: place_partner_def engine_errors_Inr update_partner_def adopt_or_create_def bindS_Inr_iff split: option.splits)

lemma project_customer_attempted:
  assumes "worker_apart W None" "clean s" "project_customer W c tenant inst g cu mapped s = (r, s')"
    "parse_customer_projected (cl_data c) = Inr cu" "cl_tenant_id c = Some tenant"
    "newer cu (master_get (partner_key inst cu) (db_masters (pr_saved s)))"
    "mapped = map_option fst (master_get (partner_key inst cu) (db_masters (pr_saved s)))"
  shows "attempted (customer_done W c) s r s'"
proof (rule attempted_mono)
  let ?rows = "\<lambda>x. record_partner W c tenant inst cu (fst x) (snd x)"
  show "attempted (\<lambda>s r s'. \<exists>x s1 s2. partner_at W tenant g cu mapped s = (Inr x, s1) \<and> ?rows x s1 = (Inr (), s2)
      \<and> s' = s2\<lparr>pr_saved := pr_db s2\<rparr> \<and> r = Inr (outcome PROCESSED (snd x) [])) s r s'"
    by (rule atomically_attempted [OF partner_at_apart [OF assms(1)] record_partner_unsaved assms(2)])
      (use assms(3) in \<open>simp add: project_customer_def partner_at_def case_prod_unfold bindS_bindS\<close>)
  assume "\<exists>x s1 s2. partner_at W tenant g cu mapped s = (Inr x, s1) \<and> ?rows x s1 = (Inr (), s2)
      \<and> s' = s2\<lparr>pr_saved := pr_db s2\<rparr> \<and> r = Inr (outcome PROCESSED (snd x) [])"
  then obtain n ocode s1 s2 where run: "partner_at W tenant g cu mapped s = (Inr (n, ocode), s1)"
      "record_partner W c tenant inst cu n ocode s1 = (Inr (), s2)" "s' = s2\<lparr>pr_saved := pr_db s2\<rparr>"
      "r = Inr (outcome PROCESSED ocode [])" by auto
  have "pr_db s1 = pr_saved s"
    using withinD [OF partner_at_apart [OF assms(1)] run(1)] assms(2) by (simp add: apart_def clean_def)
  then have "projected W c tenant inst cu n ocode (pr_saved s) (pr_saved s')" "cx_net s1 = cx_net s'"
    using record_partner_Inr [OF run(2)] run(3) by simp_all
  moreover have "ocode \<in> {''CREATED'', ''ADOPTED_NATIVE_PARTNER'', ''UPDATED''}"
    using run(1) by (auto simp: partner_at_def bindS_Inr_iff dest!: place_partner_code split: if_splits)
  ultimately show "customer_done W c s r s'"
    unfolding customer_done_def Let_def using run(1,4) assms(4-7) by blast
qed

lemma execute_customer_attempted:
  assumes "worker_apart W None" "clean s" "execute_customer W c s = (r, s')"
  shows "attempted (customer_done W c) s r s'"
proof (cases "parse_customer_projected (cl_data c)")
  case (Inl e)
  with assms show ?thesis by (simp add: execute_customer_def nothing_attempted)
next
  case (Inr cu)
  let ?tenant = "the_default [] (cl_tenant_id c)"
  let ?found = "Option.bind (find_target (db_tenants (pr_db s)) ?tenant (cu_entity cu)) (\<lambda>g. map_option (Pair g) (g_engine g))"
  show ?thesis
  proof (cases "?tenant = [] \<or> ?found = None")
    case True
    with Inr assms have "s' = s" by (auto simp: execute_customer_def Let_def split: if_splits)
    with assms(2) show ?thesis by (simp add: nothing_attempted)
  next
    case False
    then obtain g inst where g: "?found = Some (g, inst)" and tenant: "cl_tenant_id c = Some ?tenant"
      by (cases "cl_tenant_id c") auto
    let ?key = "customer_lock ?tenant cu"
    let ?body = "\<lambda>held. if \<not> held then returnS \<lparr>oc_status = RETRY, oc_code = ''CUSTOMER_CONTENDED'', oc_detail = [],
          oc_delay = Some CONTENTION_DELAY_SECONDS, oc_refund = True\<rparr>
        else bindS (readS (\<lambda>s. master_get (partner_key inst cu) (db_masters (pr_db s)))) (\<lambda>mapped. bindS commit_tx (\<lambda>_.
          case mapped of
            None \<Rightarrow> project_customer W c ?tenant inst g cu None
          | Some (native, digest, source) \<Rightarrow>
              if cu_version cu < numeric_version source then returnS (outcome PROCESSED ''STALE_VERSION'' [])
              else if cu_version cu = numeric_version source then
                (if customer_digest (wk_lib W) cu = digest then returnS (outcome PROCESSED ''ALREADY_PROJECTED'' [])
                 else raiseS (dead ''VERSION_CONFLICT'' ''the same customer version arrived with different content''))
              else project_customer W c ?tenant inst g cu (Some native)))"
    let ?known = "master_get (partner_key inst cu) (db_masters (pr_saved s))"
    have run: "advisory_lock (wk_lock_free W ?key) ?body s = (r, s')"
      using assms(3) Inr False g by (simp add: execute_customer_def Let_def)
    have same: "s\<lparr>pr_saved := pr_db s\<rparr> = s" "pr_db s = pr_saved s" using assms(2) by (simp_all add: clean_def)
    have new: "attempted (customer_done W c) s r s'"
      if "project_customer W c ?tenant inst g cu (map_option fst ?known) s = (r, s')" "newer cu ?known" for r s'
      using project_customer_attempted [OF assms(1,2) that(1) Inr tenant that(2)] by simp
    show ?thesis
    proof (rule advisory_lock_attempted [OF assms(2) _ run])
      fix r s' assume body: "?body (wk_lock_free W ?key) s = (r, s')"
      show "attempted (customer_done W c) s r s'"
      proof (cases ?known)
        case None
        with body new nothing_attempted [OF assms(2)] show ?thesis
          by (auto simp: commit_tx_def bindS_def same newer_def split: if_splits)
      next
        case (Some k)
        obtain native digest source where k: "k = (native, digest, source)" by (cases k)
        with Some body new nothing_attempted [OF assms(2)] show ?thesis
          by (auto simp: commit_tx_def bindS_def same newer_def split: if_splits)
      qed
    qed
  qed
qed

lemma run_customer_claim_cases:
  assumes "worker_apart W None" "clean s"
  obtains oc s' where "run_customer_claim W c s = (Inr oc, s')" "clean s'"
    "cx_net s' = cx_net (snd (execute_customer W c s))"
    "inbox_only (pr_saved s) (pr_saved s') \<or> customer_done W c s (Inr oc) s'"
  unfolding run_customer_claim_def
  by (rule settle_attempted [of s "customer_done W c" "execute_customer W c" "{''CREATED'', ''ADOPTED_NATIVE_PARTNER'', ''UPDATED''}" c])
    (use assms execute_customer_attempted [OF assms, of c] in \<open>auto simp: customer_done_def Let_def\<close>)

text \<open>C5: ERP's rows about a customer commit together or not at all. Running a claimed customer never raises, leaves
  nothing uncommitted, and either all that changed in the committed database is the inbox, or the outcome is
  \<open>CREATED\<close>, \<open>ADOPTED_NATIVE_PARTNER\<close> or \<open>UPDATED\<close> and the mapping, the partner's revision with the event that
  announces it, and the outcome of the row this claim still held were committed in one transaction.\<close>

theorem customer_rows_atomic:
  assumes "worker_apart W None" "clean s"
  shows "\<exists>oc s'. run_customer_claim W c s = (Inr oc, s') \<and> clean s'
    \<and> (inbox_only (pr_saved s) (pr_saved s') \<or> (\<exists>tenant inst cu n ocode. cl_tenant_id c = Some tenant
        \<and> parse_customer_projected (cl_data c) = Inr cu \<and> ocode \<in> {''CREATED'', ''ADOPTED_NATIVE_PARTNER'', ''UPDATED''}
        \<and> oc = outcome PROCESSED ocode [] \<and> projected W c tenant inst cu n ocode (pr_saved s) (pr_saved s')))"
proof -
  obtain oc s' where run: "run_customer_claim W c s = (Inr oc, s')" "clean s'"
    and finish: "inbox_only (pr_saved s) (pr_saved s') \<or> customer_done W c s (Inr oc) s'"
    by (rule run_customer_claim_cases [OF assms])
  from finish show ?thesis
  proof
    assume "customer_done W c s (Inr oc) s'"
    then show ?thesis using run unfolding customer_done_def Let_def by (metis sum.inject(2))
  qed (use run in blast)
qed

section \<open>Versions only move forward\<close>

lemma read_digits_val: "list_all digit_char ds \<Longrightarrow> ds \<noteq> [] \<or> b \<Longrightarrow> read_digits 10 acc b ds = Some (acc * 10 ^ length ds + digits_val ds)"
proof (induction ds arbitrary: acc b)
  case (Cons d ds)
  then have d: "48 \<le> code d" "code d \<le> 57" by (simp_all add: digit_char_def)
  then have "digit_val d = Some (code d - 48)" "d \<noteq> CHR ''_''" by (auto simp: digit_val_def code_def)
  moreover have "digits_val (d # ds) = (code d - 48) * 10 ^ length ds + digits_val ds"
    using digits_val_append [of "[d]" ds] by (simp add: digits_val_def)
  moreover obtain e where "code d - 48 = e" "e < 10" using d by force
  ultimately show ?case using Cons by (simp add: algebra_simps)
qed (simp add: digits_val_def)

lemma strip_digits: "list_all digit_char ds \<Longrightarrow> py_strip ds = ds"
proof -
  assume ds: "list_all digit_char ds"
  have nospace: "digit_char c \<Longrightarrow> \<not> py_isspace c" for c by (auto simp: digit_char_def py_isspace_def code_def)
  have drop: "list_all digit_char cs \<Longrightarrow> dropWhile py_isspace cs = cs" for cs by (cases cs) (auto simp: nospace)
  show ?thesis using ds drop [of ds] drop [of "rev ds"] by (simp add: py_strip_def)
qed

lemma version_text_read: "int_text v = Inr t \<Longrightarrow> 0 \<le> v \<Longrightarrow> numeric_version t = v"
proof -
  assume t: "int_text v = Inr t" and v: "0 \<le> v"
  let ?ds = "show_nat (nat v)"
  have ds: "list_all digit_char ?ds" "digits_val ?ds = nat v" "?ds \<noteq> []" using show_nat_digits by blast+
  from t v have "t = ?ds" "length ?ds \<le> max_str_digits" by (auto simp: int_text_def show_int_def split: if_splits)
  moreover have "split_sign ?ds = (False, ?ds)"
    using ds by (cases ?ds) (auto simp: split_sign_def starts_with_def digit_char_def code_def)
  moreover have "filter (\<lambda>c. c \<noteq> CHR ''_'') ?ds = ?ds"
    using ds(1) by (auto simp: filter_id_conv list_all_iff digit_char_def code_def)
  ultimately show ?thesis using v ds by (simp add: numeric_version_def py_int_def strip_digits read_digits_val)
qed

definition customer_attempts :: "('n worker \<times> Claim) list \<Rightarrow> 'n proc \<Rightarrow> 'n proc" where
  "customer_attempts work s = fold (\<lambda>(W, c) s. snd (run_customer_claim W c s)) work s"

text \<open>What is known of a customer: the engine's partner, the content and the version.\<close>

definition forward :: "master_row list \<Rightarrow> master_row list \<Rightarrow> bool" where
  "forward rows rows' \<longleftrightarrow> (\<forall>k n dg v. master_get k rows = Some (n, dg, v) \<longrightarrow>
     (\<exists>n' dg' v'. master_get k rows' = Some (n', dg', v') \<and> n' = n
       \<and> (dg' = dg \<and> v' = v \<or> numeric_version v < numeric_version v')))"

lemma forward_refl: "forward rows rows"
  by (auto simp: forward_def)

lemma forward_trans:
  assumes "forward a b" "forward b c"
  shows "forward a c"
  unfolding forward_def
proof (intro allI impI)
  fix k n dg v assume "master_get k a = Some (n, dg, v)"
  with assms(1) obtain dg1 v1 where b: "master_get k b = Some (n, dg1, v1)" and ab: "dg1 = dg \<and> v1 = v \<or> numeric_version v < numeric_version v1"
    unfolding forward_def by blast
  from b assms(2) obtain dg2 v2 where "master_get k c = Some (n, dg2, v2)" "dg2 = dg1 \<and> v2 = v1 \<or> numeric_version v1 < numeric_version v2"
    unfolding forward_def by blast
  with ab show "\<exists>n' dg' v'. master_get k c = Some (n', dg', v') \<and> n' = n \<and> (dg' = dg \<and> v' = v \<or> numeric_version v < numeric_version v')"
    by auto
qed

lemma parsed_version:
  assumes "parse_customer_projected data = Inr cu"
  shows "1 \<le> cu_version cu"
proof -
  from assms obtain entity cid v where v: "positive_int (jget data ''customer_version'') = Some v"
      and "bindE (member_of CUSTOMER_TYPES ''customer_type must be person or organisation'' (jget data ''customer_type'')) (\<lambda>ty.
          bindE (printable_name (jget data ''display_name'')) (\<lambda>name.
          bindE (member_of CUSTOMER_STATUSES ''status must be active, suspended or closed'' (jget data ''status'')) (\<lambda>status.
          bindE (optional_code (Rep 2 2 upper_letter_rx) ''billing_country must be an ISO 3166-1 alpha-2 code'' (jget data ''billing_country'')) (\<lambda>_.
          bindE (optional_code CURRENCY ''preferred_currency must be an ISO 4217 code'' (jget data ''preferred_currency'')) (\<lambda>_.
          Inr \<lparr>cu_entity = entity, cu_id = cid, cu_version = v, cu_type = ty, cu_name = py_strip name, cu_status = status\<rparr>))))) = Inr cu"
    unfolding parse_customer_projected_def by (simp split: if_splits sum.splits option.splits)
  from this(2) have "cu_version cu = v" unfolding bindE_Inr_iff by (elim exE conjE) (drule sum.inject(2) [THEN iffD1], drule sym, simp)
  with v show ?thesis by (simp add: positive_int_Some)
qed

lemma master_get_put:
  "master_get k (snd (master_put k' n d v fresh rows)) = (if k = k' then Some (n, d, v) else master_get k rows)"
  by (cases "select_one (\<lambda>r. master_key r = k') rows") (auto simp: master_get_def select_one_master_put split: prod.split)

lemma customer_done_entry:
  assumes "customer_done W c s r s'"
  obtains tenant inst g cu n ocode s1 v where
    "parse_customer_projected (cl_data c) = Inr cu" "newer cu (master_get (partner_key inst cu) (db_masters (pr_saved s)))"
    "partner_at W tenant g cu (map_option fst (master_get (partner_key inst cu) (db_masters (pr_saved s)))) s = (Inr (n, ocode), s1)"
    "cx_net s1 = cx_net s'" "numeric_version v = cu_version cu"
    "\<And>k. master_get k (db_masters (pr_saved s')) = (if k = partner_key inst cu then Some (n, customer_digest (wk_lib W) cu, v)
        else master_get k (db_masters (pr_saved s)))"
proof -
  from assms obtain tenant inst g cu n ocode s1 where did: "parse_customer_projected (cl_data c) = Inr cu"
      "newer cu (master_get (partner_key inst cu) (db_masters (pr_saved s)))"
      "partner_at W tenant g cu (map_option fst (master_get (partner_key inst cu) (db_masters (pr_saved s)))) s = (Inr (n, ocode), s1)"
      "cx_net s1 = cx_net s'" "projected W c tenant inst cu n ocode (pr_saved s) (pr_saved s')"
    unfolding customer_done_def Let_def by blast
  from did(5) obtain u v public masters where v: "int_text (cu_version cu) = Inr v"
      and put: "master_put (partner_key inst cu) n (customer_digest (wk_lib W) cu) v (new_erp_resource_id (hex_digits 32 u)) (db_masters (pr_saved s))
        = (public, masters)"
      and d': "db_masters (pr_saved s') = masters"
    unfolding projected_def by force
  have "numeric_version v = cu_version cu" using version_text_read [OF v] parsed_version [OF did(1)] by simp
  moreover have "master_get k (db_masters (pr_saved s')) = (if k = partner_key inst cu then Some (n, customer_digest (wk_lib W) cu, v)
        else master_get k (db_masters (pr_saved s)))" for k
    using master_get_put [of k "partner_key inst cu" n "customer_digest (wk_lib W) cu" v "new_erp_resource_id (hex_digits 32 u)"
        "db_masters (pr_saved s)"] put d' by simp
  ultimately show thesis using that did(1-4) by blast
qed

lemma partner_at_native:
  "partner_at W tenant g cu mapped s = (Inr (n, ocode), s') \<Longrightarrow> mapped = Some m \<Longrightarrow> n = m"
  by (auto simp: partner_at_def bindS_Inr_iff dest!: place_partner_code)

lemma customer_done_forward:
  assumes "customer_done W c s r s'"
  shows "forward (db_masters (pr_saved s)) (db_masters (pr_saved s'))"
proof -
  from assms obtain tenant inst g cu n ocode s1 v where run:
      "newer cu (master_get (partner_key inst cu) (db_masters (pr_saved s)))"
      "partner_at W tenant g cu (map_option fst (master_get (partner_key inst cu) (db_masters (pr_saved s)))) s = (Inr (n, ocode), s1)"
      "numeric_version v = cu_version cu"
      "\<And>k. master_get k (db_masters (pr_saved s')) = (if k = partner_key inst cu then Some (n, customer_digest (wk_lib W) cu, v)
        else master_get k (db_masters (pr_saved s)))"
    by (rule customer_done_entry) blast
  have "n = m \<and> numeric_version v0 < numeric_version v" if "master_get (partner_key inst cu) (db_masters (pr_saved s)) = Some (m, dg, v0)" for m dg v0
    using run that partner_at_native [OF run(2)] by (simp add: newer_def)
  then show ?thesis by (auto simp: forward_def run(4))
qed

text \<open>C4: Versions only move forward. After any history of attempts, in any order of the customer's events, with replays and
  failures: a customer ERP has mapped stays mapped to the same partner of the engine, and either its content and version
  are what they were or its version is greater.\<close>

theorem customer_versions_forward:
  assumes "list_all (\<lambda>(W, c). worker_apart W None) work" "clean s"
  shows "forward (db_masters (pr_saved s)) (db_masters (pr_saved (customer_attempts work s)))"
  using assms
proof (induction work arbitrary: s)
  case (Cons w work)
  obtain W c where w: "w = (W, c)" by (cases w)
  with Cons.prems have W: "worker_apart W None" by simp
  obtain oc s' where run: "run_customer_claim W c s = (Inr oc, s')" "clean s'"
    and finish: "inbox_only (pr_saved s) (pr_saved s') \<or> customer_done W c s (Inr oc) s'"
    by (rule run_customer_claim_cases [OF W Cons.prems(2)])
  have "forward (db_masters (pr_saved s)) (db_masters (pr_saved s'))"
    using finish by (auto simp: inbox_only_fields forward_refl customer_done_forward)
  moreover have "forward (db_masters (pr_saved s')) (db_masters (pr_saved (customer_attempts work s')))"
    using Cons.IH run(2) Cons.prems(1) by simp
  ultimately show ?case using w run(1) by (simp add: customer_attempts_def) (rule forward_trans)
qed (simp add: customer_attempts_def forward_refl)

section \<open>One partner per marker\<close>

abbreviation partner_engine :: "'n placement \<Rightarrow> 'n proc engine \<Rightarrow> bool" where
  "partner_engine \<equiv> keyed_table ''C_BPartner'' ''Description''"

definition partner_worker :: "'n placement \<Rightarrow> pylib \<Rightarrow> 'n worker \<Rightarrow> bool" where
  "partner_worker placed L W \<longleftrightarrow> worker_apart W None \<and> wk_lib W = L
     \<and> (\<forall>client org. within (steady placed) (wk_engine_for W client org)
        \<and> (\<forall>s E s'. wk_engine_for W client org s = (Inr (Some E), s') \<longrightarrow> partner_engine placed E))"

lemma partner_description:
  "map_of (update_fields cu) ''Description'' = None" "map_of (partner_fields cu grp text) ''Description'' = Some (JStr text)"
  by (simp_all add: update_fields_def partner_fields_def)

lemma partner_engine_steady:
  assumes "partner_engine placed E"
  shows "within (steady placed) (get_record E t i)" "within (steady placed) (query E t cs sel)"
    "within (steady placed) (update_record E t i (update_fields cu))"
  using assms by (simp_all add: keyed_table_def partner_description)

lemma find_marked_Inr:
  assumes "partner_engine placed E" "find_marked E text s = (Inr found, s')"
  shows "steady placed s s' \<and> placed (cx_net s) text = (case found of None \<Rightarrow> [] | Some n \<Rightarrow> [n])"
proof -
  from assms(2) obtain rows s1 where q: "query E PARTNER_TABLE [(''Description'', JStr text)] [''C_BPartner_ID''] s = (Inr rows, s1)"
    and pick: "(if 1 < length rows then raiseS (dead ''DUPLICATE_NATIVE_PARTNERS''
       (show_nat (length rows) @ '' engine partners carry the customer's marker''))
     else (case rows of
         row # _ \<Rightarrow> bindS (liftS (row_id PARTNER_TABLE row)) (\<lambda>n. returnS (Some n))
       | [] \<Rightarrow> returnS None)) s1 = (Inr found, s')"
    by (auto simp: find_marked_def bindS_Inr_iff [of "query _ _ _ _"])
  have "steady placed s s1" using withinD [OF partner_engine_steady(2) [OF assms(1)] q] .
  moreover have "mapE (row_id PARTNER_TABLE) rows = Inr (placed (cx_net s) text)"
    using assms(1) q by (simp add: keyed_table_def PARTNER_TABLE_def)
  ultimately show ?thesis
    using pick by (cases rows) (auto simp: bindE_Inr_iff bindS_Inr_iff split: if_splits)
qed

lemma adopt_or_create_first:
  assumes E: "partner_engine placed E" and run: "adopt_or_create E cu text s = (r, s')"
  shows "first_record placed text s s' \<and> (\<forall>n ocode. r = Inr (n, ocode) \<longrightarrow> placed (cx_net s') text = [n])"
proof -
  note steady = partner_engine_steady [OF E]
  have find: "within (steady placed) (find_marked E text)" and grp: "within (steady placed) (default_group E)"
    by (intro find_marked_within default_group_within steady.refl steady.trans steady)+
  obtain r1 s1 where f: "find_marked E text s = (r1, s1)" by (metis prod.collapse)
  then have s1: "placed (cx_net s1) = placed (cx_net s)" using withinD [OF find] by (simp add: steady_def)
  show ?thesis
  proof (cases r1)
    case (Inl e)
    with f run s1 show ?thesis by (auto simp: adopt_or_create_def bindS_def first_record_def)
  next
    case (Inr found)
    with find_marked_Inr [OF E] f have before: "placed (cx_net s) text = (case found of None \<Rightarrow> [] | Some n \<Rightarrow> [n])" by blast
    show ?thesis
    proof (cases found)
      case (Some n)
      obtain r2 s2 where u: "update_record E PARTNER_TABLE n (update_fields cu) s1 = (r2, s2)" by (metis prod.collapse)
      then have "placed (cx_net s2) = placed (cx_net s)" using withinD [OF steady(3)] s1 by (simp add: steady_def)
      with Some Inr f run u before show ?thesis
        by (auto simp: adopt_or_create_def bindS_def first_record_def split: sum.splits)
    next
      case None
      obtain r2 s2 where g: "default_group E s1 = (r2, s2)" by (metis prod.collapse)
      then have s2: "placed (cx_net s2) = placed (cx_net s)" using withinD [OF grp] s1 by (simp add: steady_def)
      show ?thesis
      proof (cases r2)
        case (Inl e)
        with None Inr f run g s2 show ?thesis by (auto simp: adopt_or_create_def bindS_def first_record_def)
      next
        case (Inr grp)
        obtain r3 s3 where c: "create_record E PARTNER_TABLE (partner_fields cu grp text) s2 = (r3, s3)" by (metis prod.collapse)
        have "s' = s3" "r = (case r3 of Inl e \<Rightarrow> Inl e | Inr n \<Rightarrow> Inr (n, ''CREATED''))"
          using None \<open>r1 = Inr found\<close> f run g Inr c by (auto simp: adopt_or_create_def bindS_def split: sum.splits)
        moreover have "first_record placed text s2 s3 \<and> (\<forall>n. r3 = Inr n \<longrightarrow> placed (cx_net s3) = (placed (cx_net s2))(text := [n]))"
          using c before None s2 by (intro created_once [OF E partner_description(2)]) (simp_all add: PARTNER_TABLE_def)
        ultimately show ?thesis using s2 by (auto simp: first_record_def split: sum.splits)
      qed
    qed
  qed
qed

lemma place_partner_first:
  assumes E: "partner_engine placed E" and run: "place_partner W E tenant cu mapped s = (r, s')"
  shows "first_record placed (customer_marker (wk_lib W) tenant cu) s s'
    \<and> (mapped = None \<longrightarrow> (\<forall>n ocode. r = Inr (n, ocode) \<longrightarrow> placed (cx_net s') (customer_marker (wk_lib W) tenant cu) = [n]))"
proof (cases mapped)
  case (Some native)
  have "within (steady placed) (place_partner W E tenant cu (Some native))"
    unfolding place_partner_def update_partner_def option.case
    by (intro engine_errors_within steady.rules partner_engine_steady [OF E] rethrow_within)
  from withinD [OF this] run Some show ?thesis by (simp add: steady_def first_record_def)
next
  case None
  let ?text = "customer_marker (wk_lib W) tenant cu"
  obtain r1 where "adopt_or_create E cu ?text s = (r1, s')" "\<forall>x. r = Inr x \<longrightarrow> r1 = Inr x"
    using run None by (auto simp: place_partner_def engine_errors_def rethrow_def split: prod.splits sum.splits)
  with adopt_or_create_first [OF E this(1)] show ?thesis by auto
qed

lemma partner_at_first:
  assumes "partner_worker placed L W"
  shows "within (first_record placed (customer_marker L tenant cu)) (partner_at W tenant g cu mapped)"
proof (rule partner_at_within [OF first_record.refl first_record.trans])
  show "within (first_record placed (customer_marker L tenant cu)) (wk_engine_for W (g_client g) (g_org g))"
    using assms by (simp add: partner_worker_def steady_first_record)
next
  fix s E s'
  assume "wk_engine_for W (g_client g) (g_org g) s = (Inr (Some E), s')"
  then have E: "partner_engine placed E" and L: "wk_lib W = L" using assms unfolding partner_worker_def by blast+
  show "within (first_record placed (customer_marker L tenant cu)) (place_partner W E tenant cu mapped)"
    unfolding within_def using place_partner_first [OF E] L by (metis prod.collapse)
qed

lemma partner_at_marked:
  assumes "partner_worker placed L W" "partner_at W tenant g cu None s = (Inr (n, ocode), s')"
  shows "placed (cx_net s') (customer_marker L tenant cu) = [n]"
proof -
  from assms(2) obtain E s1 where run: "engine_or_block W g s = (Inr E, s1)" "place_partner W E tenant cu None s1 = (Inr (n, ocode), s')"
    by (auto simp: partner_at_def bindS_Inr_iff)
  have "partner_engine placed E" "wk_lib W = L"
    using engine_or_block_Inr [OF run(1)] assms(1) unfolding partner_worker_def by blast+
  with place_partner_first [OF this(1) run(2)] show ?thesis by simp
qed

lemma record_partner_steady: "within (steady placed) (record_partner W c tenant inst cu n ocode)"
  unfolding record_partner_def put_partner_def announce_partner_def worker_record_event_def queue_processed_def on_queue_def
  by (intro steady_connection.rules steady_connection.quiet steady_connection.stores)

lemma execute_customer_first:
  assumes "partner_worker placed L W" "parse_customer_projected (cl_data c) = Inr cu"
  shows "within (first_record placed (customer_marker L (the_default [] (cl_tenant_id c)) cu)) (execute_customer W c)"
proof -
  let ?R = "first_record placed (customer_marker L (the_default [] (cl_tenant_id c)) cu)"
  have rows: "within ?R (atomically (record_partner W c tenant inst cu n ocode))" for tenant inst n ocode
    by (intro atomically_within steady_first_record [OF record_partner_steady]) (simp_all add: first_record_def)
  have "project_customer W c tenant inst g cu mapped = bindS (partner_at W tenant g cu mapped) (\<lambda>(n, ocode).
      bindS (atomically (record_partner W c tenant inst cu n ocode)) (\<lambda>_. returnS (outcome PROCESSED ocode [])))" for tenant inst g mapped
    by (simp add: project_customer_def partner_at_def bindS_bindS)
  then have new: "within ?R (project_customer W c (the_default [] (cl_tenant_id c)) inst g cu mapped)" for inst g mapped
    by (simp only:) (intro first_record.rules partner_at_first assms(1) rows)
  have commit: "within ?R commit_tx" by (simp add: within_def commit_tx_def first_record_def)
  have lock: "within ?R (advisory_lock held body)" if "within ?R (body held)" for held and body :: "bool \<Rightarrow> ('a proc, exn, Outcome) op"
    by (rule advisory_lock_within [where body = body and held = held, OF _ _ _ that]) (simp_all add: first_record_def)
  show ?thesis
    unfolding execute_customer_def assms(2) sum.case Let_def
    by (intro first_record.rules lock commit new)
qed

text \<open>What holds between the engine and ERP's customer mappings after any history.\<close>

definition marked :: "'n placement \<Rightarrow> pylib \<Rightarrow> 'n proc \<Rightarrow> bool" where
  "marked placed L s \<longleftrightarrow> clean s \<and> (\<forall>text. length (placed (cx_net s) text) \<le> 1)
     \<and> (\<forall>inst entity cid n dg v. master_get (inst, entity, CUSTOMER_KIND, cid) (db_masters (pr_saved s)) = Some (n, dg, v)
          \<longrightarrow> (\<exists>tenant cu. cu_entity cu = entity \<and> cu_id cu = cid \<and> placed (cx_net s) (customer_marker L tenant cu) = [n]))"

lemma attempt_marked:
  assumes "partner_worker placed L W" "marked placed L s"
  shows "marked placed L (snd (run_customer_claim W c s))"
proof -
  have W: "worker_apart W None" and clean: "clean s" using assms by (simp_all add: partner_worker_def marked_def)
  obtain oc s' where run: "run_customer_claim W c s = (Inr oc, s')" and clean': "clean s'"
    and net: "cx_net s' = cx_net (snd (execute_customer W c s))"
    and finish: "inbox_only (pr_saved s) (pr_saved s') \<or> customer_done W c s (Inr oc) s'"
    by (rule run_customer_claim_cases [OF W clean])
  have grows: "length (placed (cx_net s') mark) \<le> 1 \<and> (placed (cx_net s) mark = [n] \<longrightarrow> placed (cx_net s') mark = [n])" for mark n
  proof (cases "parse_customer_projected (cl_data c)")
    case (Inl reason)
    then have "snd (execute_customer W c s) = s" by (simp add: execute_customer_def)
    with net assms(2) show ?thesis by (simp add: marked_def)
  next
    case (Inr cu)
    have "first_record placed (customer_marker L (the_default [] (cl_tenant_id c)) cu) s (snd (execute_customer W c s))"
      using execute_customer_first [OF assms(1) Inr] by (simp add: within_def)
    from first_record_keeps [OF this] assms(2) show ?thesis by (simp add: marked_def net)
  qed
  have old: "\<exists>tenant cu. cu_entity cu = entity \<and> cu_id cu = cid \<and> placed (cx_net s') (customer_marker L tenant cu) = [n]"
    if "master_get (inst, entity, CUSTOMER_KIND, cid) (db_masters (pr_saved s)) = Some (n, dg, v)" for inst entity cid n dg v
  proof -
    from that assms(2) obtain tenant cu where "cu_entity cu = entity" "cu_id cu = cid" "placed (cx_net s) (customer_marker L tenant cu) = [n]"
      unfolding marked_def by blast
    with grows show ?thesis by blast
  qed
  from finish have "\<exists>tenant cu. cu_entity cu = entity \<and> cu_id cu = cid \<and> placed (cx_net s') (customer_marker L tenant cu) = [n]"
    if k: "master_get (inst, entity, CUSTOMER_KIND, cid) (db_masters (pr_saved s')) = Some (n, dg, v)" for inst entity cid n dg v
  proof
    assume "inbox_only (pr_saved s) (pr_saved s')"
    with k old show ?thesis by (simp add: inbox_only_fields)
  next
    assume "customer_done W c s (Inr oc) s'"
    then obtain tenant inst' g cu m ocode s1 v' where did: "partner_at W tenant g cu
        (map_option fst (master_get (partner_key inst' cu) (db_masters (pr_saved s)))) s = (Inr (m, ocode), s1)" "cx_net s1 = cx_net s'"
      and entry: "\<And>k. master_get k (db_masters (pr_saved s')) = (if k = partner_key inst' cu then Some (m, customer_digest (wk_lib W) cu, v')
        else master_get k (db_masters (pr_saved s)))"
      by (rule customer_done_entry) blast
    show ?thesis
    proof (cases "(inst, entity, CUSTOMER_KIND, cid) = partner_key inst' cu")
      case False
      with k have "master_get (inst, entity, CUSTOMER_KIND, cid) (db_masters (pr_saved s)) = Some (n, dg, v)"
        unfolding entry by (simp only: if_False)
      then show ?thesis by (rule old)
    next
      case same: True
      show ?thesis
      proof (cases "master_get (partner_key inst' cu) (db_masters (pr_saved s))")
        case None
        with did(1) have "partner_at W tenant g cu None s = (Inr (m, ocode), s1)" by simp
        from partner_at_marked [OF assms(1) this] did(2) have "placed (cx_net s') (customer_marker L tenant cu) = [m]" by simp
        with same k entry show ?thesis by auto
      next
        case (Some known)
        obtain n0 dg0 v0 where "known = (n0, dg0, v0)" by (cases known)
        with Some partner_at_native [OF did(1)] old same k entry show ?thesis by auto
      qed
    qed
  qed
  then show ?thesis using clean' grows run by (auto simp: marked_def)
qed

text \<open>C3: One business partner per customer. After any history of attempts, with locks held elsewhere, engine calls that fail
  before or after they took effect, lost answers and ERP transactions that roll back: the engine holds at most one
  partner under each marker, and every customer ERP has mapped is mapped to the partner that carries its marker.\<close>

theorem one_engine_partner:
  assumes "list_all (\<lambda>(W, c). partner_worker placed L W) work" "marked placed L s"
  shows "marked placed L (customer_attempts work s)"
  using assms
proof (induction work arbitrary: s)
  case (Cons w work)
  obtain W c where "w = (W, c)" by (cases w)
  with Cons show ?case by (simp add: customer_attempts_def attempt_marked)
qed (simp add: customer_attempts_def)

section \<open>A concrete worker\<close>

text \<open>An engine whose state is the list of its partners' markers and ids; its default group has the id 7.\<close>

definition marks :: "shop placement" where
  "marks w mark = map snd (filter (\<lambda>(m, _). m = mark) w)"

fun marker_in :: "fields \<Rightarrow> string" where
  "marker_in data = jtext (the_default JNull (map_of data ''Description''))"

definition partner_shop :: "shop proc engine" where
  "partner_shop = \<lparr>get_record = (\<lambda>table n. returnS (JObj [])),
     query = (\<lambda>table conditions select. bindS (readS cx_net) (\<lambda>w.
       returnS (map (\<lambda>n. JObj [(''id'', JInt n)]) (if table = ''C_BPartner'' then marks w (marker_in conditions) else [7])))),
     create_record = (\<lambda>table data. bindS (readS cx_net) (\<lambda>w.
       bindS (writeS (\<lambda>s. s\<lparr>cx_net := w @ [(marker_in data, int (length w))]\<rparr>)) (\<lambda>_. returnS (int (length w))))),
     update_record = (\<lambda>table n data. returnS ()), execute_process = (\<lambda>n data. returnS (JObj []))\<rparr>"

definition partner_desk :: "shop worker" where
  "partner_desk = shop_worker\<lparr>wk_engine_for := \<lambda>client org. returnS (Some partner_shop)\<rparr>"

lemma row_ids: "mapE (row_id table) (map (\<lambda>n. JObj [(''id'', JInt n)]) ns) = Inr ns"
  by (induction ns) (simp_all add: row_id_def subscript_def has_key_def to_int_def column_int.simps)

lemma partner_desk_ok: "partner_worker marks (sample_lib JNull) partner_desk"
proof -
  have "engine_within apart partner_shop"
    unfolding engine_within_def partner_shop_def engine.simps
    by (intro conjI allI within_stop within_bindS apart_rules) (simp_all add: within_def apart_def)
  moreover have "within (steady marks) (get_record partner_shop t i)" "within (steady marks) (query partner_shop t cs sel)" for t i cs sel
    unfolding partner_shop_def engine.simps by (intro steady.rules)+
  moreover have "within (steady marks) (update_record partner_shop t i data)" for t i data
    unfolding partner_shop_def engine.simps by (intro steady.rules)
  moreover have "query partner_shop ''C_BPartner'' [(''Description'', JStr mark)] [''C_BPartner_ID''] s = (Inr rows, s') \<Longrightarrow>
      mapE (row_id ''C_BPartner'') rows = Inr (marks (cx_net s) mark)" for mark s rows s'
    by (auto simp: partner_shop_def row_ids)
  moreover have "map_of data ''Description'' = Some (JStr mark) \<Longrightarrow> create_record partner_shop ''C_BPartner'' data s = (r, s') \<Longrightarrow>
      r = Inr (int (length (cx_net s))) \<and> marks (cx_net s') = (marks (cx_net s))(mark := marks (cx_net s) mark @ [int (length (cx_net s))])"
    for data mark s r s'
    by (auto simp: partner_shop_def marks_def fun_eq_iff)
  ultimately have "engine_within apart partner_shop" "partner_engine marks partner_shop" by (fastforce simp: keyed_table_def)+
  then show ?thesis
    by (simp add: partner_worker_def worker_apart_def partner_desk_def shop_worker_def apart.ports_def within_def returnS_def
        apart_def steady_def)
qed

definition customer_event :: "int \<Rightarrow> string \<Rightarrow> json" where
  "customer_event version name = JObj [(''legal_entity_id'', JStr ''NABHOLD''), (''customer_id'', JStr ''cust_2''),
     (''customer_version'', JInt version), (''customer_type'', JStr ''person''), (''display_name'', JStr name),
     (''status'', JStr ''active'')]"

definition customer_claim :: "int \<Rightarrow> string \<Rightarrow> Claim" where
  "customer_claim version name = shop_claim\<lparr>cl_data := customer_event version name\<rparr>"

theorem customer_rows_atomic_witness:
  "\<exists>oc s'. run_customer_claim partner_desk (customer_claim 1 ''Ada'') shop_process = (Inr oc, s') \<and> clean s'"
proof -
  have "worker_apart partner_desk None" using partner_desk_ok by (simp add: partner_worker_def)
  moreover have "clean shop_process" by (simp add: clean_def shop_process_def idle_process_def)
  ultimately show ?thesis using customer_rows_atomic [of partner_desk shop_process "customer_claim 1 ''Ada''"] by blast
qed

theorem customer_versions_forward_witness:
  "forward (db_masters shop_database)
     (db_masters (pr_saved (customer_attempts [(partner_desk, customer_claim 2 ''Ada''), (partner_desk, customer_claim 1 ''Ann'')] shop_process)))"
proof -
  have "worker_apart partner_desk None" using partner_desk_ok by (simp add: partner_worker_def)
  moreover have "clean shop_process" "pr_saved shop_process = shop_database"
    by (simp_all add: clean_def shop_process_def idle_process_def)
  ultimately show ?thesis
    using customer_versions_forward [of "[(partner_desk, customer_claim 2 ''Ada''), (partner_desk, customer_claim 1 ''Ann'')]" shop_process]
    by simp
qed

theorem one_engine_partner_witness:
  "marked marks (sample_lib JNull) (customer_attempts [(partner_desk, customer_claim 1 ''Ada''), (partner_desk, customer_claim 2 ''Ada'')]
     (shop_process\<lparr>pr_saved := empty_database, pr_db := empty_database\<rparr>))"
proof (rule one_engine_partner)
  show "list_all (\<lambda>(W, c). partner_worker marks (sample_lib JNull) W)
      [(partner_desk, customer_claim 1 ''Ada''), (partner_desk, customer_claim 2 ''Ada'')]"
    by (simp add: partner_desk_ok)
  show "marked marks (sample_lib JNull) (shop_process\<lparr>pr_saved := empty_database, pr_db := empty_database\<rparr>)"
    by (simp add: marked_def clean_def shop_process_def idle_process_def marks_def empty_database_def master_get_def)
qed

end
