(* ===== verification/Signed_Delivery.thy ===== *)
theory Signed_Delivery
  imports Inbox Outbox Legal_Actor
begin

text \<open>
  Signed delivery of an event to a consumer's ingress (\<open>modules/integration/signed_delivery.py\<close>), the legacy
  webhook (\<open>delivery_transport.py\<close>) and the worker that drains the outbox to both
  (\<open>modules/application/dispatch_worker.py\<close>). The network is a parameter; \<open>urlsplit\<close> is a function argument.
\<close>

section \<open>Keys\<close>

definition DeliveryConfigurationError :: "string \<Rightarrow> exn" where
  "DeliveryConfigurationError reason = Exn ''DeliveryConfigurationError'' reason"

definition DeliveryError :: "string \<Rightarrow> exn" where
  "DeliveryError reason = Exn ''DeliveryError'' reason"

definition PermanentDeliveryError :: "string \<Rightarrow> exn" where
  "PermanentDeliveryError reason = Exn ''PermanentDeliveryError'' reason"

definition SIGNING_LABEL :: string where "SIGNING_LABEL = ''baobab-event-delivery-v1''"
definition ALGORITHM :: string where "ALGORITHM = ''hmac-sha256''"
definition REPLAY_WINDOW :: int where "REPLAY_WINDOW = seconds 300"
definition MIN_SECRET_BYTES :: nat where "MIN_SECRET_BYTES = 32"
definition MAX_BODY_BYTES :: nat where "MAX_BODY_BYTES = 1024 * 1024"
definition PERMANENT_STATUSES :: "int list" where "PERMANENT_STATUSES = [400, 409, 413, 422]"

definition digit_rx :: rx where "digit_rx = Cls [(CHR ''0'', CHR ''9'')]"
definition lower_digit_rx :: rx where "lower_digit_rx = Cls [(CHR ''a'', CHR ''z''), (CHR ''0'', CHR ''9'')]"

definition delivery_key_id :: rx where
  "delivery_key_id = Seq lower_digit_rx (Rep 2 63 (Cls [(CHR ''a'', CHR ''z''), (CHR ''0'', CHR ''9''), (CHR ''.'', CHR ''.''),
     (CHR ''_'', CHR ''_''), (CHR ''-'', CHR ''-'')]))"

definition two_digits :: "char \<Rightarrow> rx" where
  "two_digits high = Seq (Cls [(CHR ''0'', high)]) digit_rx"

definition month_rx :: rx where
  "month_rx = Alt (Seq (Lit ''0'') (Cls [(CHR ''1'', CHR ''9'')])) (Seq (Lit ''1'') (Cls [(CHR ''0'', CHR ''2'')]))"

definition day_rx :: rx where
  "day_rx = Alt (Seq (Lit ''0'') (Cls [(CHR ''1'', CHR ''9'')])) (Alt (Seq (Cls [(CHR ''1'', CHR ''2'')]) digit_rx)
     (Seq (Lit ''3'') (Cls [(CHR ''0'', CHR ''1'')])))"

definition hour_rx :: rx where
  "hour_rx = Alt (Seq (Cls [(CHR ''0'', CHR ''1'')]) digit_rx) (Seq (Lit ''2'') (Cls [(CHR ''0'', CHR ''3'')]))"

definition delivery_timestamp :: rx where
  "delivery_timestamp = Seq (Rep 4 4 digit_rx) (Seq (Lit ''-'') (Seq month_rx (Seq (Lit ''-'') (Seq day_rx (Seq (Lit ''T'')
     (Seq hour_rx (Seq (Lit '':'') (Seq (two_digits (CHR ''5'')) (Seq (Lit '':'') (Seq (two_digits (CHR ''5'')) (Lit ''Z'')))))))))))"

definition delivery_signature :: rx where
  "delivery_signature = Seq (Lit ''hmac-sha256='') (Rep 64 64 hex_rx)"

record DeliveryKey =
  key_id :: string
  key_secret :: string

definition new_key :: "string \<Rightarrow> string \<Rightarrow> exn + DeliveryKey" where
  "new_key kid secret =
     (if \<not> fullmatch delivery_key_id kid then Inl (DeliveryConfigurationError ''the delivery key id must match ^[a-z0-9][a-z0-9._-]{2,63}$'')
      else if length secret < MIN_SECRET_BYTES then Inl (DeliveryConfigurationError ''the delivery secret must be at least 32 bytes'')
      else Inr \<lparr>key_id = kid, key_secret = secret\<rparr>)"

text \<open>\<open>base64.b64decode(s, validate=True)\<close>: groups of four characters, the last one padded.\<close>

definition b64_val :: "char \<Rightarrow> nat option" where
  "b64_val c = (let n = code c in
     if 65 \<le> n \<and> n \<le> 90 then Some (n - 65) else if 97 \<le> n \<and> n \<le> 122 then Some (n - 71)
     else if 48 \<le> n \<and> n \<le> 57 then Some (n + 4) else if c = CHR ''+'' then Some 62 else if c = CHR ''/'' then Some 63 else None)"

fun b64decode :: "string \<Rightarrow> string option" where
  "b64decode [] = Some []"
| "b64decode (a # b # c # d # rest) =
     (case (b64_val a, b64_val b) of
        (Some va, Some vb) \<Rightarrow>
          if c = CHR ''='' then (if d = CHR ''='' \<and> rest = [] then Some [char_of (va * 4 + vb div 16)] else None)
          else (case b64_val c of
              None \<Rightarrow> None
            | Some vc \<Rightarrow>
                if d = CHR ''='' then (if rest = [] then Some [char_of (va * 4 + vb div 16), char_of (vb * 16 + vc div 4)] else None)
                else (case b64_val d of
                    None \<Rightarrow> None
                  | Some vd \<Rightarrow> map_option (\<lambda>t. char_of (va * 4 + vb div 16) # char_of (vb * 16 + vc div 4) # char_of (vc * 64 + vd) # t)
                      (b64decode rest)))
      | _ \<Rightarrow> None)"
| "b64decode _ = None"

definition key_from_base64 :: "string \<Rightarrow> string \<Rightarrow> exn + DeliveryKey" where
  "key_from_base64 kid secret_b64 =
     (case b64decode secret_b64 of
        None \<Rightarrow> Inl (DeliveryConfigurationError ''the delivery secret must be standard base64'')
      | Some secret \<Rightarrow> new_key kid secret)"

section \<open>Signing and verifying\<close>

definition format_timestamp :: "pylib \<Rightarrow> instant \<Rightarrow> string" where
  "format_timestamp L t = strftime_z L (t - t mod 1000000)"

definition signing_string :: "pylib \<Rightarrow> string \<Rightarrow> string \<Rightarrow> string \<Rightarrow> string \<Rightarrow> string" where
  "signing_string L recipient kid timestamp body =
     join [CHR 10] [SIGNING_LABEL, recipient, kid, timestamp, sha256_hex L body]"

definition sign :: "pylib \<Rightarrow> DeliveryKey \<Rightarrow> string \<Rightarrow> string \<Rightarrow> string \<Rightarrow> string" where
  "sign L key recipient timestamp body =
     ALGORITHM @ ''='' @ hmac_sha256_hex L (key_secret key) (signing_string L recipient (key_id key) timestamp body)"

definition headers_for :: "pylib \<Rightarrow> DeliveryKey \<Rightarrow> string \<Rightarrow> string \<Rightarrow> instant \<Rightarrow> (string \<times> string) list" where
  "headers_for L key recipient body now =
     (let timestamp = format_timestamp L now in
      [(''Baobab-Key-Id'', key_id key), (''Baobab-Timestamp'', timestamp), (''Baobab-Signature'', sign L key recipient timestamp body)])"

text \<open>
  What a consumer does. Header names are folded to lower case, a later one wins. A timestamp the pattern accepts and
  \<open>strptime\<close> refuses (a 31st of February) is a \<open>ValueError\<close>, not a refusal.
\<close>

definition header :: "(string \<times> string) list \<Rightarrow> string \<Rightarrow> string" where
  "header headers name = the_default [] (map_of (rev (map (\<lambda>(n, v). (py_lower n, v)) headers)) name)"

definition verify_delivery ::
  "pylib \<Rightarrow> (string \<Rightarrow> DeliveryKey option) \<Rightarrow> string \<Rightarrow> (string \<times> string) list \<Rightarrow> string \<Rightarrow> instant \<Rightarrow> exn + bool" where
  "verify_delivery L keys recipient headers body now =
     (case keys (header headers ''baobab-key-id'') of
        None \<Rightarrow> Inr False
      | Some key \<Rightarrow>
          if \<not> fullmatch delivery_timestamp (header headers ''baobab-timestamp'')
             \<or> \<not> fullmatch delivery_signature (header headers ''baobab-signature'')
          then Inr False
          else (case strptime_z L (header headers ''baobab-timestamp'') of
              None \<Rightarrow> Inl (Exn ''ValueError'' [])
            | Some signed_at \<Rightarrow>
                if REPLAY_WINDOW < \<bar>now - signed_at\<bar> then Inr False
                else Inr (sign L key recipient (header headers ''baobab-timestamp'') body = header headers ''baobab-signature'')))"

definition event_body :: "pylib \<Rightarrow> cloud_event \<Rightarrow> string" where
  "event_body L e = json_dumps L (to_wire L e)"

section \<open>The transport\<close>

record url_parts =
  url_protocol :: string
  url_host :: "string option"
  url_user :: "string option"
  url_pass :: "string option"

text \<open>A request, and what opening it does: an answer with its body, a \<open>URLError\<close>, an \<open>OSError\<close> (a timeout) or another
  exception, by its class.\<close>

record delivery_request =
  dr_url :: string
  dr_headers :: "(string \<times> json) list"
  dr_body :: string

datatype http_answer = Answered int string | Url_error | Os_error string | Raised string

record 'w wire =
  wire_post :: "delivery_request \<Rightarrow> 'w \<Rightarrow> http_answer \<times> 'w"
  wire_clock :: "'w \<Rightarrow> instant \<times> 'w"

record SignedTransport =
  st_url :: string
  st_key :: DeliveryKey
  st_recipient :: string

definition present :: "string option \<Rightarrow> bool" where
  "present x = (x \<noteq> None \<and> x \<noteq> Some [])"

definition local_host :: "string option \<Rightarrow> bool" where
  "local_host h = (h \<in> set [Some ''localhost'', Some ''127.0.0.1'', Some ''::1''])"

definition signed_transport :: "(string \<Rightarrow> url_parts option) \<Rightarrow> string \<Rightarrow> DeliveryKey \<Rightarrow> exn + SignedTransport" where
  "signed_transport urlsplit url key =
     (case urlsplit url of
        None \<Rightarrow> Inl (Exn ''ValueError'' [])
      | Some parts \<Rightarrow>
          if url_protocol parts \<noteq> ''https'' \<and> \<not> (url_protocol parts = ''http'' \<and> local_host (url_host parts))
          then Inl (DeliveryConfigurationError ''the event ingress must be https (http only for a local address)'')
          else if \<not> present (url_host parts) \<or> present (url_user parts) \<or> present (url_pass parts)
          then Inl (DeliveryConfigurationError ''the event ingress must be a host URL without credentials'')
          else Inr \<lparr>st_url = url, st_key = key, st_recipient = ''baobab-control-plane''\<rparr>)"

definition check_receipt :: "pylib \<Rightarrow> cloud_event \<Rightarrow> int \<Rightarrow> string \<Rightarrow> exn + unit" where
  "check_receipt L e status payload =
     (case map_of [(202, ''ACCEPTED''), (200, ''DUPLICATE'')] status of
        None \<Rightarrow> Inl (DeliveryError ''the event ingress answered an unexpected HTTP status'')
      | Some expected \<Rightarrow>
          (case json_loads L payload of
             None \<Rightarrow> Inl (DeliveryError ''the event ingress receipt is not JSON'')
           | Some receipt \<Rightarrow>
               if \<not> is_obj receipt \<or> jget receipt ''event_id'' \<noteq> ev_id e \<or> jget receipt ''status'' \<noteq> JStr expected
               then Inl (DeliveryError ''the event ingress receipt does not acknowledge this event'') else Inr ()))"

text \<open>\<open>urllib\<close> raises \<open>HTTPError\<close> for every status outside 200-299; a redirect is not followed.\<close>

definition answer_result :: "pylib \<Rightarrow> cloud_event \<Rightarrow> http_answer \<Rightarrow> exn + unit" where
  "answer_result L e a =
     (case a of
        Answered status payload \<Rightarrow>
          if 200 \<le> status \<and> status < 300 then check_receipt L e status (take 65536 payload)
          else if status \<in> set PERMANENT_STATUSES
          then Inl (PermanentDeliveryError (''the event ingress refused the event permanently (HTTP '' @ show_int status @ '')''))
          else Inl (DeliveryError (''the event ingress answered HTTP '' @ show_int status))
      | Url_error \<Rightarrow> Inl (DeliveryError ''delivery to the event ingress failed: URLError'')
      | Os_error cls \<Rightarrow> Inl (DeliveryError (''delivery to the event ingress failed: '' @ cls))
      | Raised cls \<Rightarrow> Inl (Exn cls []))"

definition on_wire :: "('w \<Rightarrow> 'a \<times> 'w) \<Rightarrow> ('w, 'e, 'a) op" where
  "on_wire f w = (case f w of (a, w') \<Rightarrow> (Inr a, w'))"

definition signed_request :: "pylib \<Rightarrow> SignedTransport \<Rightarrow> cloud_event \<Rightarrow> instant \<Rightarrow> delivery_request" where
  "signed_request L T e now =
     \<lparr>dr_url = st_url T,
      dr_headers = [(''Content-Type'', JStr ''application/cloudevents+json''), (''X-Correlation-ID'', ev_correlationid e)]
        @ map (\<lambda>(n, v). (n, JStr v)) (headers_for L (st_key T) (st_recipient T) (event_body L e) now)
        @ (if truthy (ev_traceparent e) then [(''traceparent'', ev_traceparent e)] else []),
      dr_body = event_body L e\<rparr>"

definition deliver_signed :: "pylib \<Rightarrow> 'w wire \<Rightarrow> SignedTransport \<Rightarrow> cloud_event \<Rightarrow> ('w, exn, unit) op" where
  "deliver_signed L N T e =
     (if MAX_BODY_BYTES < length (event_body L e)
      then raiseS (PermanentDeliveryError ''the event exceeds the 1 MiB delivery limit'')
      else bindS (on_wire (wire_clock N)) (\<lambda>now.
        bindS (on_wire (wire_post N (signed_request L T e now))) (\<lambda>a. liftS (answer_result L e a))))"

section \<open>The legacy webhook\<close>

record WebhookDestination =
  wh_url :: string
  wh_secret :: string

text \<open>\<open>HTTPError\<close> is a \<open>URLError\<close>; a timeout while reading the answer is not.\<close>

definition webhook_result :: "http_answer \<Rightarrow> exn + unit" where
  "webhook_result a =
     (case a of
        Answered status payload \<Rightarrow> if 200 \<le> status \<and> status < 300 then Inr () else Inl (Exn ''WebhookDeliveryError'' ''Delivery failed'')
      | Url_error \<Rightarrow> Inl (Exn ''WebhookDeliveryError'' ''Delivery failed'')
      | Os_error cls \<Rightarrow> Inl (Exn cls [])
      | Raised cls \<Rightarrow> Inl (Exn cls []))"

definition deliver_webhook :: "pylib \<Rightarrow> 'w wire \<Rightarrow> WebhookDestination \<Rightarrow> cloud_event \<Rightarrow> ('w, exn, unit) op" where
  "deliver_webhook L N D e =
     (let body = event_body L e in
      bindS (on_wire (wire_post N \<lparr>dr_url = wh_url D,
          dr_headers = [(''Content-Type'', JStr ''application/cloudevents+json''), (''X-Baobab-Signature'', JStr (sign_body L body (wh_secret D)))],
          dr_body = body\<rparr>)) (\<lambda>a. liftS (webhook_result a)))"

section \<open>The dispatch worker\<close>

definition PROVISIONING_CHANGED :: string where "PROVISIONING_CHANGED = ''com.baobab-platform.erp.provisioning.changed.v1''"
definition SIGNED_TYPES :: "string list" where "SIGNED_TYPES = [PROVISIONING_CHANGED]"
definition SIGNED_POLICY :: RetryPolicy where "SIGNED_POLICY = \<lparr>max_attempts = None, horizon = Some (hours 72)\<rparr>"
definition DISPATCH_LIMIT :: nat where "DISPATCH_LIMIT = 100"

text \<open>How the dispatcher sees what a transport did: \<open>except PermanentDeliveryError\<close> first, then \<open>except Exception\<close>.\<close>

definition as_delivery :: "exn + unit \<Rightarrow> delivery" where
  "as_delivery r = (case r of
       Inr _ \<Rightarrow> Accepted
     | Inl e \<Rightarrow> (case e of Exn cls msg \<Rightarrow> if cls = ''PermanentDeliveryError'' then Permanent msg else Failed msg | _ \<Rightarrow> Failed []))"

definition world_of :: "'w wire \<Rightarrow> (cloud_event \<Rightarrow> ('w, exn, unit) op) \<Rightarrow> 'w world_ops" where
  "world_of N put = \<lparr>deliver = (\<lambda>e w. case put e w of (r, w') \<Rightarrow> (as_delivery r, w')), clock = wire_clock N\<rparr>"

text \<open>\<open>_group\<close>: all of a destination's settings, or none.\<close>

definition setting_group :: "deployment \<Rightarrow> string list \<Rightarrow> exn + bool" where
  "setting_group env names =
     (let found = map (\<lambda>n. present (env n)) names in
      if list_ex (\<lambda>b. b) found \<and> \<not> list_all (\<lambda>b. b) found then Inl (Exn ''RuntimeError'' ''the settings must be set together'')
      else Inr (list_all (\<lambda>b. b) found))"

record dispatch_report =
  rp_destination :: string
  rp_summary :: DispatchSummary
  rp_backlog :: backlog

text \<open>One destination: drain its types and report. \<open>store.stats\<close> reads the clock once more.\<close>

definition drain ::
  "pylib \<Rightarrow> (string \<Rightarrow> nat option) \<Rightarrow> string \<Rightarrow> 'w world_ops \<Rightarrow> RetryPolicy \<Rightarrow> string list \<Rightarrow> string list
     \<Rightarrow> (pg_outbox \<times> 'w, string, dispatch_report) op" where
  "drain L pg_uuid name W policy types excluded =
     bindS (dispatch_pending (postgres_outbox L pg_uuid types excluded) W policy DISPATCH_LIMIT) (\<lambda>summary s.
       (Inr \<lparr>rp_destination = name, rp_summary = summary, rp_backlog = stats types excluded (pg_now (fst s)) (pg_rows (fst s))\<rparr>,
        (pg_put (pg_rows (fst s)) (fst s), snd s)))"

definition signed_pass ::
  "pylib \<Rightarrow> (string \<Rightarrow> nat option) \<Rightarrow> (string \<Rightarrow> url_parts option) \<Rightarrow> deployment \<Rightarrow> 'w wire \<Rightarrow> (pg_outbox \<times> 'w, string, dispatch_report) op" where
  "signed_pass L pg_uuid urlsplit env N =
     (case bindE (key_from_base64 (setting env ''BAOBAB_CP_EVENT_KEY_ID'') (setting env ''BAOBAB_CP_EVENT_SECRET_B64''))
         (signed_transport urlsplit (setting env ''BAOBAB_CP_EVENT_INGRESS_URL'')) of
        Inl e \<Rightarrow> raiseS (exn_class e)
      | Inr T \<Rightarrow> drain L pg_uuid ''control-plane-ingress'' (world_of N (deliver_signed L N T)) SIGNED_POLICY SIGNED_TYPES [])"

definition webhook_pass ::
  "pylib \<Rightarrow> (string \<Rightarrow> nat option) \<Rightarrow> deployment \<Rightarrow> 'w wire \<Rightarrow> (pg_outbox \<times> 'w, string, dispatch_report) op" where
  "webhook_pass L pg_uuid env N =
     drain L pg_uuid ''webhook'' (world_of N (deliver_webhook L N
       \<lparr>wh_url = setting env ''BAOBAB_WEBHOOK_URL'', wh_secret = setting env ''BAOBAB_EVENT_SIGNING_SECRET''\<rparr>)) default_policy [] SIGNED_TYPES"

definition SIGNED_SETTINGS :: "string list" where
  "SIGNED_SETTINGS = [''BAOBAB_CP_EVENT_INGRESS_URL'', ''BAOBAB_CP_EVENT_KEY_ID'', ''BAOBAB_CP_EVENT_SECRET_B64'']"

definition dispatch_main ::
  "pylib \<Rightarrow> (string \<Rightarrow> nat option) \<Rightarrow> (string \<Rightarrow> url_parts option) \<Rightarrow> deployment \<Rightarrow> 'w wire
     \<Rightarrow> (pg_outbox \<times> 'w, string, dispatch_report list) op" where
  "dispatch_main L pg_uuid urlsplit env N =
     (if \<not> present (env ''DATABASE_URL'') then raiseS ''RuntimeError''
      else (case setting_group env SIGNED_SETTINGS of
          Inl e \<Rightarrow> raiseS (exn_class e)
        | Inr signed \<Rightarrow>
            (let legacy = present (env ''BAOBAB_WEBHOOK_URL'') in
             if legacy \<and> \<not> present (env ''BAOBAB_EVENT_SIGNING_SECRET'') then raiseS ''RuntimeError''
             else if \<not> (signed \<or> legacy) then raiseS ''RuntimeError''
             else bindS (if signed then bindS (signed_pass L pg_uuid urlsplit env N) (\<lambda>r. returnS [r]) else returnS []) (\<lambda>first_report.
               bindS (if legacy then bindS (webhook_pass L pg_uuid env N) (\<lambda>r. returnS [r]) else returnS []) (\<lambda>second.
               returnS (first_report @ second))))))"

section \<open>What a signature binds\<close>

definition one_line :: "string \<Rightarrow> bool" where
  "one_line s = list_all (\<lambda>c. c \<noteq> CHR 10) s"

lemma one_line_split:
  "one_line a \<Longrightarrow> one_line b \<Longrightarrow> a @ CHR 10 # x = b @ CHR 10 # y \<longleftrightarrow> a = b \<and> x = y"
proof (induction a arbitrary: b)
  case Nil
  then show ?case by (cases b) (auto simp: one_line_def)
next
  case (Cons c a)
  then show ?case by (cases b) (auto simp: one_line_def)
qed

lemma signing_string_inject:
  assumes "one_line recipient" "one_line kid" "one_line ts" "one_line recipient'" "one_line kid'" "one_line ts'"
  shows "signing_string L recipient kid ts body = signing_string L recipient' kid' ts' body'
    \<longleftrightarrow> recipient = recipient' \<and> kid = kid' \<and> ts = ts' \<and> sha256_hex L body = sha256_hex L body'"
proof -
  have "one_line SIGNING_LABEL" by (simp add: SIGNING_LABEL_def one_line_def)
  with assms show ?thesis by (simp add: signing_string_def one_line_split)
qed

lemma key_id_one_line: "fullmatch delivery_key_id kid \<Longrightarrow> one_line kid"
  unfolding one_line_def
  by (erule fullmatch_chars) (auto simp: delivery_key_id_def lower_digit_rx_def in_cls_def in_range_def)

lemma timestamp_one_line: "fullmatch delivery_timestamp ts \<Longrightarrow> one_line ts"
  unfolding one_line_def
  by (erule fullmatch_chars)
    (auto simp: delivery_timestamp_def two_digits_def month_rx_def day_rx_def hour_rx_def digit_rx_def in_cls_def in_range_def)

lemma headers_for_read:
  "header (headers_for L key recipient body t) ''baobab-key-id'' = key_id key"
  "header (headers_for L key recipient body t) ''baobab-timestamp'' = format_timestamp L t"
  "header (headers_for L key recipient body t) ''baobab-signature'' = sign L key recipient (format_timestamp L t) body"
proof -
  have "py_lower ''Baobab-Key-Id'' = ''baobab-key-id''" "py_lower ''Baobab-Timestamp'' = ''baobab-timestamp''"
    "py_lower ''Baobab-Signature'' = ''baobab-signature''" by code_simp+
  then show "header (headers_for L key recipient body t) ''baobab-key-id'' = key_id key"
  "header (headers_for L key recipient body t) ''baobab-timestamp'' = format_timestamp L t"
  "header (headers_for L key recipient body t) ''baobab-signature'' = sign L key recipient (format_timestamp L t) body"
    by (simp_all add: header_def headers_for_def Let_def)
qed

text \<open>What ERP signs, a consumer accepts: the headers of a delivery verify against the same body and recipient with the
  registered key for as long as the clocks differ by at most the replay window (for a timestamp and a digest that
  are printed in their documented forms).\<close>

theorem signed_delivery_verifies:
  assumes "keys (key_id key) = Some key" "fullmatch delivery_timestamp (format_timestamp L t)"
    "strptime_z L (format_timestamp L t) = Some (t - t mod 1000000)"
    "\<And>m. fullmatch (Rep 64 64 hex_rx) (hmac_sha256_hex L (key_secret key) m)"
    "\<bar>now - (t - t mod 1000000)\<bar> \<le> REPLAY_WINDOW"
  shows "verify_delivery L keys recipient (headers_for L key recipient body t) body now = Inr True"
proof -
  have "fullmatch delivery_signature (sign L key recipient (format_timestamp L t) body)"
    using assms(4) by (auto simp: delivery_signature_def sign_def ALGORITHM_def fullmatch_Seq fullmatch_Lit)
  with assms show ?thesis by (simp add: verify_delivery_def headers_for_read)
qed

text \<open>C32: What a consumer accepts was signed for it: a delivery verifies only with the HMAC of a registered key over this
  recipient, that key's id, a timestamp inside the replay window and the digest of exactly this body; the signed text
  determines all four, so it is the text of no other delivery. Only a well-formed timestamp that is no date raises.\<close>

theorem verified_delivery_bound:
  assumes "verify_delivery L keys recipient headers body now = r" "r \<noteq> Inr False"
    "\<And>kid key. keys kid = Some key \<Longrightarrow> key_id key = kid \<and> fullmatch delivery_key_id kid" "one_line recipient"
  shows "\<exists>kid key ts. keys kid = Some key \<and> fullmatch delivery_timestamp ts \<and>
    (case r of
       Inl e \<Rightarrow> e = Exn ''ValueError'' [] \<and> strptime_z L ts = None
     | Inr _ \<Rightarrow> (\<exists>t. strptime_z L ts = Some t \<and> \<bar>now - t\<bar> \<le> REPLAY_WINDOW)
         \<and> header headers ''baobab-signature'' = ''hmac-sha256='' @ hmac_sha256_hex L (key_secret key) (signing_string L recipient kid ts body)
         \<and> (\<forall>recipient' kid' ts' body'. one_line recipient' \<and> one_line kid' \<and> one_line ts'
              \<and> signing_string L recipient' kid' ts' body' = signing_string L recipient kid ts body
              \<longrightarrow> recipient' = recipient \<and> kid' = kid \<and> ts' = ts \<and> sha256_hex L body' = sha256_hex L body))"
proof -
  let ?kid = "header headers ''baobab-key-id''" and ?ts = "header headers ''baobab-timestamp''"
  obtain key where key: "keys ?kid = Some key" and ts: "fullmatch delivery_timestamp ?ts" "fullmatch delivery_signature (header headers ''baobab-signature'')"
    using assms(1,2) by (auto simp: verify_delivery_def split: option.splits if_splits)
  then have r: "r = (case strptime_z L ?ts of
      None \<Rightarrow> Inl (Exn ''ValueError'' [])
    | Some t \<Rightarrow> if REPLAY_WINDOW < \<bar>now - t\<bar> then Inr False else Inr (sign L key recipient ?ts body = header headers ''baobab-signature''))"
    unfolding assms(1) [symmetric] verify_delivery_def by simp
  have lines: "one_line ?kid" "one_line ?ts" and same: "key_id key = ?kid"
    using assms(3) [OF key] ts(1) by (simp_all add: key_id_one_line timestamp_one_line)
  show ?thesis
  proof (intro exI conjI)
    show "keys ?kid = Some key" by (rule key)
    show "fullmatch delivery_timestamp ?ts" by (rule ts(1))
    have inject: "\<forall>recipient' kid' ts' body'. one_line recipient' \<and> one_line kid' \<and> one_line ts'
              \<and> signing_string L recipient' kid' ts' body' = signing_string L recipient ?kid ?ts body
              \<longrightarrow> recipient' = recipient \<and> kid' = ?kid \<and> ts' = ?ts \<and> sha256_hex L body' = sha256_hex L body"
      using lines assms(4) by (intro allI impI; elim conjE; simp add: signing_string_inject)
    show "case r of
       Inl e \<Rightarrow> e = Exn ''ValueError'' [] \<and> strptime_z L ?ts = None
     | Inr _ \<Rightarrow> (\<exists>t. strptime_z L ?ts = Some t \<and> \<bar>now - t\<bar> \<le> REPLAY_WINDOW)
         \<and> header headers ''baobab-signature'' = ''hmac-sha256='' @ hmac_sha256_hex L (key_secret key) (signing_string L recipient ?kid ?ts body)
         \<and> (\<forall>recipient' kid' ts' body'. one_line recipient' \<and> one_line kid' \<and> one_line ts'
              \<and> signing_string L recipient' kid' ts' body' = signing_string L recipient ?kid ?ts body
              \<longrightarrow> recipient' = recipient \<and> kid' = ?kid \<and> ts' = ?ts \<and> sha256_hex L body' = sha256_hex L body)"
    proof (cases "strptime_z L ?ts")
      case None
      with r show ?thesis by simp
    next
      case (Some t)
      with r assms(2) have "r = Inr True" "\<bar>now - t\<bar> \<le> REPLAY_WINDOW" "sign L key recipient ?ts body = header headers ''baobab-signature''"
        by (auto split: if_splits)
      then show ?thesis using Some inject same by (auto simp: sign_def ALGORITHM_def)
    qed
  qed
qed

section \<open>Each destination carries its own events\<close>

text \<open>
  A dispatch pass over a selection of types does not depend on what its transport would do with an event of another type:
  it never hands it one.
\<close>

definition same_on :: "(cloud_event \<Rightarrow> bool) \<Rightarrow> (cloud_event \<Rightarrow> 'w \<Rightarrow> delivery \<times> 'w) \<Rightarrow> (cloud_event \<Rightarrow> 'w \<Rightarrow> delivery \<times> 'w) \<Rightarrow> bool" where
  "same_on P f g \<longleftrightarrow> (\<forall>e. P e \<longrightarrow> f e = g e)"

lemma dispatch_records_same:
  assumes "\<forall>r \<in> set rs. deliver W (or_event r) = deliver W' (or_event r)" "clock W = clock W'"
  shows "dispatch_records S W policy rs = dispatch_records S W' policy rs"
  using assms(1)
proof (induction rs)
  case (Cons r rs)
  have e: "elapsed W policy created = elapsed W' policy created" for policy created unfolding elapsed_def assms(2) ..
  have x: "exhausted W policy r n = exhausted W' policy r n" for policy r n unfolding exhausted_def e ..
  have f: "failed_delivery S W policy r msg = failed_delivery S W' policy r msg" for policy r msg unfolding failed_delivery_def x ..
  have d: "deliver W (or_event r) = deliver W' (or_event r)" using Cons.prems by simp
  have "dispatch_one S W policy r = dispatch_one S W' policy r" unfolding dispatch_one_def e d f ..
  with Cons show ?case by simp
qed simp

lemma pending_types:
  assumes "op_pending (postgres_outbox L pg_uuid types excluded) limit s = (Inr rs, s')" "r \<in> set rs"
  shows "\<exists>ty. ev_type (or_event r) = JStr ty \<and> selected types excluded ty"
proof -
  from assms(1) have "pending L limit types excluded (pg_now s) (pg_rows s) = Inr rs"
    by (auto simp: postgres_outbox_def split: sum.splits)
  with assms(2) obtain row where row: "row \<in> set (due_rows limit types excluded (pg_now s) (pg_rows s))"
      and e: "bindE (validate L (event_of_row row)) (\<lambda>e. Inr \<lparr>or_name = show_uuid (ob_event_id row), or_attempts = ob_attempts row,
        or_status = ob_status row, or_event = e, or_created_at = Some (ob_created_at row)\<rparr>) = Inr r"
    unfolding pending_def by (auto dest: mapE_Inr_src)
  from e have "or_event r = event_of_row row" by (auto simp: bindE_Inr_iff dest: validate_Inr)
  moreover have "selected types excluded (ob_type row)" using row by (auto simp: due_rows_def dest: in_set_takeD)
  ultimately show ?thesis by (simp add: event_of_row_def)
qed

lemma drain_same:
  assumes "same_on (\<lambda>e. \<exists>ty. ev_type e = JStr ty \<and> selected types excluded ty) (deliver W) (deliver W')" "clock W = clock W'"
  shows "drain L pg_uuid name W policy types excluded = drain L pg_uuid name W' policy types excluded"
proof -
  let ?S = "postgres_outbox L pg_uuid types excluded"
  have "dispatch_pending ?S W policy DISPATCH_LIMIT s = dispatch_pending ?S W' policy DISPATCH_LIMIT s" for s
  proof (cases "op_pending ?S DISPATCH_LIMIT (fst s)")
    case (Pair r st)
    show ?thesis
    proof (cases r)
      case (Inr rs)
      have "dispatch_records ?S W policy rs = dispatch_records ?S W' policy rs"
        using assms pending_types [OF Pair [unfolded Inr]] by (intro dispatch_records_same) (auto simp: same_on_def)
      with Pair Inr show ?thesis by (simp add: dispatch_pending_def bindS_def on_store_def)
    qed (use Pair in \<open>simp add: dispatch_pending_def bindS_def on_store_def\<close>)
  qed
  then have "dispatch_pending ?S W policy DISPATCH_LIMIT = dispatch_pending ?S W' policy DISPATCH_LIMIT" by (rule ext)
  then show ?thesis by (simp add: drain_def)
qed

text \<open>The worker with a transport of its own for each destination.\<close>

definition dispatch_with ::
  "pylib \<Rightarrow> (string \<Rightarrow> nat option) \<Rightarrow> 'w wire \<Rightarrow> (cloud_event \<Rightarrow> ('w, exn, unit) op) \<Rightarrow> (cloud_event \<Rightarrow> ('w, exn, unit) op)
     \<Rightarrow> (pg_outbox \<times> 'w, string, dispatch_report list) op" where
  "dispatch_with L pg_uuid N signed webhook =
     bindS (drain L pg_uuid ''control-plane-ingress'' (world_of N signed) SIGNED_POLICY SIGNED_TYPES []) (\<lambda>a.
     bindS (drain L pg_uuid ''webhook'' (world_of N webhook) default_policy [] SIGNED_TYPES) (\<lambda>b. returnS [a, b]))"

text \<open>C34: \<open>provisioning.changed\<close> goes to the Control Plane only and nothing else does: the run of a fully configured worker is
  the run in which the signed transport is only ever given \<open>provisioning.changed\<close> events and the webhook only other
  events; what either would do with the other's events (here: raise anything) makes no difference.\<close>

theorem destinations_disjoint:
  assumes "present (env ''DATABASE_URL'')" "list_all (\<lambda>n. present (env n)) SIGNED_SETTINGS" "present (env ''BAOBAB_WEBHOOK_URL'')"
    "present (env ''BAOBAB_EVENT_SIGNING_SECRET'')" "key_from_base64 (setting env ''BAOBAB_CP_EVENT_KEY_ID'') (setting env ''BAOBAB_CP_EVENT_SECRET_B64'') = Inr key"
    "signed_transport urlsplit (setting env ''BAOBAB_CP_EVENT_INGRESS_URL'') key = Inr T"
  shows "dispatch_main L pg_uuid urlsplit env N =
    dispatch_with L pg_uuid N
      (\<lambda>e. if ev_type e = JStr PROVISIONING_CHANGED then deliver_signed L N T e else other e)
      (\<lambda>e. if ev_type e = JStr PROVISIONING_CHANGED then other e else deliver_webhook L N
         \<lparr>wh_url = setting env ''BAOBAB_WEBHOOK_URL'', wh_secret = setting env ''BAOBAB_EVENT_SIGNING_SECRET''\<rparr> e)"
proof -
  have settings: "setting_group env SIGNED_SETTINGS = Inr True"
    using assms(2) by (simp add: setting_group_def Let_def list_all_iff)
  have signed: "signed_pass L pg_uuid urlsplit env N = drain L pg_uuid ''control-plane-ingress''
      (world_of N (\<lambda>e. if ev_type e = JStr PROVISIONING_CHANGED then deliver_signed L N T e else other e)) SIGNED_POLICY SIGNED_TYPES []"
    unfolding signed_pass_def assms(5,6) bindE_simps sum.case
    by (rule drain_same) (auto simp: same_on_def world_of_def selected_def SIGNED_TYPES_def)
  have webhook: "webhook_pass L pg_uuid env N = drain L pg_uuid ''webhook''
      (world_of N (\<lambda>e. if ev_type e = JStr PROVISIONING_CHANGED then other e else deliver_webhook L N
         \<lparr>wh_url = setting env ''BAOBAB_WEBHOOK_URL'', wh_secret = setting env ''BAOBAB_EVENT_SIGNING_SECRET''\<rparr> e)) default_policy [] SIGNED_TYPES"
    unfolding webhook_pass_def
    by (rule drain_same) (auto simp: same_on_def world_of_def selected_def SIGNED_TYPES_def)
  have "bindS (bindS m (\<lambda>r. returnS [r])) (\<lambda>first_report. bindS (bindS m' (\<lambda>r. returnS [r])) (\<lambda>second. returnS (first_report @ second)))
      = bindS m (\<lambda>a. bindS m' (\<lambda>b. returnS [a, b]))" for m m' :: "('s, 'e, dispatch_report) op"
    by (auto simp: bindS_def fun_eq_iff split: prod.split sum.split)
  with assms(1,3,4) show ?thesis
    unfolding dispatch_main_def dispatch_with_def settings signed webhook by simp
qed

section \<open>A concrete delivery\<close>

definition delivery_lib :: pylib where
  "delivery_lib = (sample_lib JNull)\<lparr>strftime_z := (\<lambda>t. ''2026-01-01T00:00:00Z''), strptime_z := (\<lambda>s. Some (seconds 1767225600)),
     hmac_sha256_hex := (\<lambda>secret m. replicate 64 (CHR ''a''))\<rparr>"

definition delivery_key :: DeliveryKey where
  "delivery_key = \<lparr>key_id = ''erp-1'', key_secret = replicate 32 (CHR ''k'')\<rparr>"

definition delivery_keys :: "string \<Rightarrow> DeliveryKey option" where
  "delivery_keys kid = (if kid = ''erp-1'' then Some delivery_key else None)"

lemma delivery_forms:
  "fullmatch delivery_timestamp ''2026-01-01T00:00:00Z''" "fullmatch (Rep 64 64 hex_rx) (replicate 64 (CHR ''a''))"
  "fullmatch delivery_key_id ''erp-1''"
proof -
  show "fullmatch delivery_timestamp ''2026-01-01T00:00:00Z''" by code_simp
  show "fullmatch (Rep 64 64 hex_rx) (replicate 64 (CHR ''a''))"
    by (simp add: hex_rx_def fullmatch_Rep_Cls list_all_iff in_cls_def in_range_def)
  show "fullmatch delivery_key_id ''erp-1''" by code_simp
qed

lemma delivery_verified:
  "verify_delivery delivery_lib delivery_keys ''cp'' (headers_for delivery_lib delivery_key ''cp'' ''{}'' (seconds 1767225600)) ''{}''
     (seconds 1767225700) = Inr True"
proof -
  have sig: "fullmatch delivery_signature (sign delivery_lib delivery_key ''cp'' ''2026-01-01T00:00:00Z'' ''{}'')"
    using delivery_forms(2) by (auto simp: delivery_signature_def sign_def ALGORITHM_def fullmatch_Seq fullmatch_Lit delivery_lib_def)
  have stamp: "format_timestamp delivery_lib (seconds 1767225600) = ''2026-01-01T00:00:00Z''"
    by (simp add: format_timestamp_def delivery_lib_def)
  have key: "delivery_keys (key_id delivery_key) = Some delivery_key" by (simp add: delivery_keys_def delivery_key_def)
  have time: "strptime_z delivery_lib ''2026-01-01T00:00:00Z'' = Some (seconds 1767225600)" by (simp add: delivery_lib_def)
  show ?thesis
    unfolding verify_delivery_def headers_for_read stamp key option.case time
    by (simp only: delivery_forms(1) sig) (simp add: seconds_def REPLAY_WINDOW_def)
qed

theorem signed_delivery_verifies_witness:
  "verify_delivery delivery_lib delivery_keys ''cp'' (headers_for delivery_lib delivery_key ''cp'' ''{}'' (seconds 1767225600 + 5)) ''{}''
     (seconds 1767225700) = Inr True"
proof (rule signed_delivery_verifies)
  have stamp: "format_timestamp delivery_lib t = ''2026-01-01T00:00:00Z''" for t by (simp add: format_timestamp_def delivery_lib_def)
  show "fullmatch delivery_timestamp (format_timestamp delivery_lib (seconds 1767225600 + 5))" unfolding stamp by (rule delivery_forms(1))
  show "fullmatch (Rep 64 64 hex_rx) (hmac_sha256_hex delivery_lib (key_secret delivery_key) m)" for m
    using delivery_forms(2) by (simp add: delivery_lib_def)
qed (simp_all add: delivery_lib_def delivery_keys_def delivery_key_def seconds_def REPLAY_WINDOW_def)

theorem verified_delivery_bound_witness:
  "\<exists>kid key ts. delivery_keys kid = Some key \<and> fullmatch delivery_timestamp ts"
proof -
  have keys: "key_id key = kid \<and> fullmatch delivery_key_id kid" if "delivery_keys kid = Some key" for kid key
  proof -
    from that have "kid = ''erp-1''" "key = delivery_key" by (simp_all add: delivery_keys_def split: if_splits)
    with delivery_forms(3) show ?thesis by (simp only: delivery_key_def DeliveryKey.simps simp_thms)
  qed
  have "one_line ''cp''" by (simp add: one_line_def)
  from verified_delivery_bound [OF delivery_verified _ keys this] show ?thesis by blast
qed

definition delivery_env :: deployment where
  "delivery_env name = Some (if name = ''BAOBAB_CP_EVENT_KEY_ID'' then ''erp-1''
     else if name = ''BAOBAB_CP_EVENT_SECRET_B64'' then ''abcdabcdabcdabcdabcdabcdabcdabcdabcdabcdYWI='' else ''x'')"

definition local_parts :: "string \<Rightarrow> url_parts option" where
  "local_parts url = Some \<lparr>url_protocol = ''http'', url_host = Some ''localhost'', url_user = None, url_pass = None\<rparr>"

definition delivery_secret :: string where
  "delivery_secret = the (b64decode (setting delivery_env ''BAOBAB_CP_EVENT_SECRET_B64''))"

lemma delivery_secret_ok: "b64decode (setting delivery_env ''BAOBAB_CP_EVENT_SECRET_B64'') = Some delivery_secret" "length delivery_secret = 32"
proof -
  have "\<exists>secret. b64decode (setting delivery_env ''BAOBAB_CP_EVENT_SECRET_B64'') = Some secret \<and> length secret = 32"
    by (simp add: setting_def delivery_env_def b64_val_def Let_def code_def)
  then show "b64decode (setting delivery_env ''BAOBAB_CP_EVENT_SECRET_B64'') = Some delivery_secret" "length delivery_secret = 32"
    unfolding delivery_secret_def by auto
qed

definition dead_wire :: "unit wire" where
  "dead_wire = \<lparr>wire_post = (\<lambda>rq w. (Url_error, w)), wire_clock = (\<lambda>w. (seconds 1767225600, w))\<rparr>"

theorem destinations_disjoint_witness:
  "dispatch_main delivery_lib uuid_of local_parts delivery_env dead_wire =
    dispatch_with delivery_lib uuid_of dead_wire
      (\<lambda>e. if ev_type e = JStr PROVISIONING_CHANGED then deliver_signed delivery_lib dead_wire
          \<lparr>st_url = ''x'', st_key = \<lparr>key_id = ''erp-1'', key_secret = delivery_secret\<rparr>, st_recipient = ''baobab-control-plane''\<rparr> e
        else raiseS (Exn ''Misrouted'' []))
      (\<lambda>e. if ev_type e = JStr PROVISIONING_CHANGED then raiseS (Exn ''Misrouted'' []) else deliver_webhook delivery_lib dead_wire
         \<lparr>wh_url = setting delivery_env ''BAOBAB_WEBHOOK_URL'', wh_secret = setting delivery_env ''BAOBAB_EVENT_SIGNING_SECRET''\<rparr> e)"
proof (rule destinations_disjoint)
  show "key_from_base64 (setting delivery_env ''BAOBAB_CP_EVENT_KEY_ID'') (setting delivery_env ''BAOBAB_CP_EVENT_SECRET_B64'')
      = Inr \<lparr>key_id = ''erp-1'', key_secret = delivery_secret\<rparr>"
    using delivery_secret_ok delivery_forms(3)
    by (simp add: key_from_base64_def new_key_def MIN_SECRET_BYTES_def setting_def delivery_env_def)
qed (simp_all add: present_def delivery_env_def SIGNED_SETTINGS_def setting_def signed_transport_def local_parts_def local_host_def)

end
