(* ===== verification/Operation_Request.thy ===== *)
theory Operation_Request
  imports Placed_Order Provisioning_Plan
begin

text \<open>
  The body of a provisioning command (\<open>modules/provisioning/operation_request.py\<close>): the strict parser, which
  gathers every offending member before it refuses, and the fingerprint an idempotency key is bound to.
\<close>

section \<open>The grammars\<close>

definition hex_digit_rx :: rx where
  "hex_digit_rx = Cls [(CHR ''0'', CHR ''9''), (CHR ''a'', CHR ''f''), (CHR ''A'', CHR ''F'')]"

definition CONTEXT_ID :: rx where
  "CONTEXT_ID = Seq (Rep 8 8 hex_digit_rx) (Seq (Lit ''-'') (Seq (Rep 4 4 hex_digit_rx) (Seq (Lit ''-'') (Seq (Rep 4 4 hex_digit_rx)
     (Seq (Lit ''-'') (Seq (Rep 4 4 hex_digit_rx) (Seq (Lit ''-'') (Rep 12 12 hex_digit_rx))))))))"

definition PROVISIONING_ID :: rx where "PROVISIONING_ID = Seq (Lit ''tp_'') (Plus lower_alnum)"
definition PLAN_ID :: rx where "PLAN_ID = Seq (Lit ''plan_'') (Plus lower_alnum)"
definition BASELINE_ID :: rx where "BASELINE_ID = Seq (Lit ''fb_'') (Plus lower_alnum)"

definition PLAN_DIGEST :: rx where
  "PLAN_DIGEST = Seq (Lit ''sha256:'') (Rep 64 64 (Cls [(CHR ''0'', CHR ''9''), (CHR ''a'', CHR ''f'')]))"

definition COUNTRY :: rx where "COUNTRY = Rep 2 2 upper_letter"
definition RESOURCE :: rx where "RESOURCE = Seq alnum (Star key_char)"

definition digit_rx :: rx where "digit_rx = Cls [(CHR ''0'', CHR ''9'')]"

definition CALENDAR_DATE :: rx where
  "CALENDAR_DATE = Seq (Rep 4 4 digit_rx) (Seq (Lit ''-'')
     (Seq (Alt (Seq (Lit ''0'') (Cls [(CHR ''1'', CHR ''9'')])) (Seq (Lit ''1'') (Cls [(CHR ''0'', CHR ''2'')])))
     (Seq (Lit ''-'') (Alt (Seq (Lit ''0'') (Cls [(CHR ''1'', CHR ''9'')]))
       (Alt (Seq (Cls [(CHR ''1'', CHR ''2'')]) digit_rx) (Seq (Lit ''3'') (Cls [(CHR ''0'', CHR ''1'')])))))))"

definition is_tenant_id :: "json \<Rightarrow> bool" where
  "is_tenant_id v = (case v of JStr s \<Rightarrow> 6 \<le> length s \<and> length s \<le> 63 \<and> fullmatch TENANT_ID s | _ \<Rightarrow> False)"

definition COMMAND_REQUIRED :: "string list" where
  "COMMAND_REQUIRED = [''tenant_id'', ''context_id'', ''control_plane_authority'', ''legal_entity_ids'', ''finance_baselines'',
     ''requested_countries'', ''functional_currencies'']"

definition COMMAND_MEMBERS :: "string list" where
  "COMMAND_MEMBERS = COMMAND_REQUIRED @ [''deployment_policy_id'', ''localisation_profile_ids'']"

definition AUTHORITY_MEMBERS :: "string list" where
  "AUTHORITY_MEMBERS = [''tenant_provisioning_id'', ''plan_id'', ''plan_version'', ''plan_digest'']"

definition BASELINE_MEMBERS :: "string list" where
  "BASELINE_MEMBERS = [''baseline_id'', ''legal_entity_id'', ''version'', ''digest'', ''effective_from'', ''authority'']"

section \<open>The command\<close>

record ControlPlaneAuthority =
  au_provisioning :: string
  au_plan :: string
  au_version :: int
  au_digest :: string

record FinanceBaselineRef =
  br_baseline :: string
  br_entity :: string
  br_version :: int
  br_digest :: string
  br_effective :: string

record ProvisioningCommand =
  pc_tenant :: string
  pc_context :: string
  pc_authority :: ControlPlaneAuthority
  pc_entities :: "string list"
  pc_countries :: "string fset"
  pc_currencies :: "string fset"
  pc_policy :: "string option"
  pc_profiles :: "string fset"
  pc_baselines :: "FinanceBaselineRef list"

definition BASELINE_AUTHORITY :: json where
  "BASELINE_AUTHORITY = JObj [(''engine_id'', JStr ''baobab-erp''), (''system_of_record'', JStr ''FINANCE_BASELINE'')]"

definition ref_contract :: "FinanceBaselineRef \<Rightarrow> json" where
  "ref_contract r = JObj [(''baseline_id'', JStr (br_baseline r)), (''legal_entity_id'', JStr (br_entity r)),
     (''version'', JInt (br_version r)), (''digest'', JStr (br_digest r)), (''effective_from'', JStr (br_effective r)),
     (''authority'', BASELINE_AUTHORITY)]"

text \<open>What an idempotency key is bound to: everything but \<open>context_id\<close>, with every list sorted.\<close>

definition canonical_command :: "ProvisioningCommand \<Rightarrow> string \<Rightarrow> json" where
  "canonical_command c who = JObj
     [(''principal'', JStr who), (''tenant_id'', JStr (pc_tenant c)),
      (''authority'', JArr [JStr (au_provisioning (pc_authority c)), JStr (au_plan (pc_authority c)), JInt (au_version (pc_authority c)),
         JStr (au_digest (pc_authority c))]),
      (''legal_entity_ids'', JArr (map JStr (sort (pc_entities c)))),
      (''finance_baselines'', JArr (map ref_contract (sort_key br_entity (pc_baselines c)))),
      (''requested_countries'', str_set (pc_countries c)), (''functional_currencies'', str_set (pc_currencies c)),
      (''deployment_policy_id'', (case pc_policy c of None \<Rightarrow> JNull | Some p \<Rightarrow> JStr p)),
      (''localisation_profile_ids'', str_set (pc_profiles c))]"

definition fingerprint :: "pylib \<Rightarrow> ProvisioningCommand \<Rightarrow> string \<Rightarrow> string" where
  "fingerprint L c who = sha256_hex L (json_dumps L (canonical_command c who))"

section \<open>The parser\<close>

text \<open>A reader yields the errors it appends and what it returns.\<close>

type_synonym faults = "(string \<times> string) list"

definition grammar_text :: "json \<Rightarrow> rx \<Rightarrow> string \<Rightarrow> nat \<Rightarrow> nat \<Rightarrow> faults \<times> string option" where
  "grammar_text v pattern name low high =
     (case v of
        JStr s \<Rightarrow> if low \<le> length s \<and> length s \<le> high \<and> fullmatch pattern s then ([], Some s)
          else ([(name, ''does not match the canonical grammar'')], None)
      | _ \<Rightarrow> ([(name, ''does not match the canonical grammar'')], None))"

definition element_texts :: "json list \<Rightarrow> rx \<Rightarrow> string \<Rightarrow> nat \<Rightarrow> nat \<Rightarrow> (faults \<times> string option) list" where
  "element_texts vs pattern name low high =
     map (\<lambda>(i, v). grammar_text v pattern (name @ ''['' @ show_nat i @ '']'') low high) (enumerate 0 vs)"

definition grammar_list :: "json \<Rightarrow> rx \<Rightarrow> string \<Rightarrow> nat \<Rightarrow> nat \<Rightarrow> nat \<Rightarrow> faults \<times> string list" where
  "grammar_list v pattern name minimum low high =
     (case v of
        JArr vs \<Rightarrow>
          if length vs < minimum then ([(name, ''must be a list of at least '' @ show_nat minimum)], [])
          else (let texts = element_texts vs pattern name low high in
            ((if \<not> distinct (map py_str vs) then [(name, ''must not repeat a value'')] else []) @ concat (map fst texts),
             List.map_filter snd texts))
      | _ \<Rightarrow> ([(name, ''must be a list of at least '' @ show_nat minimum)], []))"

definition unexpected :: "string \<Rightarrow> string list \<Rightarrow> json \<Rightarrow> string \<Rightarrow> faults" where
  "unexpected prefix allowed v message =
     map (\<lambda>k. (prefix @ k, message)) (sort (filter (\<lambda>k. k \<notin> set allowed) (map fst (members v))))"

definition absent :: "string \<Rightarrow> string list \<Rightarrow> json \<Rightarrow> faults" where
  "absent prefix required v = map (\<lambda>k. (prefix @ k, ''is required'')) (sort (filter (\<lambda>k. \<not> has_key v k) required))"

definition version_fault :: "json \<Rightarrow> string \<Rightarrow> faults" where
  "version_fault v name = (if positive_int v = None then [(name, ''must be an integer >= 1'')] else [])"

definition is_baseline_authority :: "json \<Rightarrow> bool" where
  "is_baseline_authority v =
     (case v of
        JObj ms \<Rightarrow> length ms = 2 \<and> map_of ms ''engine_id'' = Some (JStr ''baobab-erp'')
          \<and> map_of ms ''system_of_record'' = Some (JStr ''FINANCE_BASELINE'')
      | _ \<Rightarrow> False)"

definition effective_text :: "calendar \<Rightarrow> json \<Rightarrow> string \<Rightarrow> faults \<times> string option" where
  "effective_text K v name =
     (case grammar_text v CALENDAR_DATE name 10 10 of
        (faults, None) \<Rightarrow> (faults, None)
      | (faults, Some s) \<Rightarrow> if read_day K s = None then (faults @ [(name, ''is not a calendar date'')], None) else (faults, Some s))"

definition baseline_ref :: "calendar \<Rightarrow> string \<Rightarrow> json \<Rightarrow> faults \<times> FinanceBaselineRef option" where
  "baseline_ref K place item =
     (if \<not> is_obj item then ([(place, ''must be an object'')], None)
      else (let b = grammar_text (jget item ''baseline_id'') BASELINE_ID (place @ ''.baseline_id'') 6 63;
          e = grammar_text (jget item ''legal_entity_id'') LEGAL_ENTITY_ID (place @ ''.legal_entity_id'') 3 63;
          d = grammar_text (jget item ''digest'') PLAN_DIGEST (place @ ''.digest'') 71 71;
          f = effective_text K (jget item ''effective_from'') (place @ ''.effective_from'');
          own = fst b @ fst e @ fst d @ fst f @ version_fault (jget item ''version'') (place @ ''.version'')
            @ (if is_baseline_authority (jget item ''authority'') then []
               else [(place @ ''.authority'', ''must be exactly baobab-erp as the FINANCE_BASELINE system of record'')]) in
        (unexpected (place @ ''.'') BASELINE_MEMBERS item ''is not a member of a Finance baseline reference''
           @ absent (place @ ''.'') BASELINE_MEMBERS item @ own,
         (case (snd b, snd e, snd d, snd f, positive_int (jget item ''version'')) of
            (Some baseline, Some entity, Some digest, Some effective, Some version) \<Rightarrow>
              if own = [] then Some \<lparr>br_baseline = baseline, br_entity = entity, br_version = version, br_digest = digest,
                br_effective = effective\<rparr> else None
          | _ \<Rightarrow> None))))"

definition baseline_refs :: "calendar \<Rightarrow> json \<Rightarrow> faults \<times> FinanceBaselineRef list" where
  "baseline_refs K v =
     (case v of
        JArr items \<Rightarrow>
          if items = [] then ([(''finance_baselines'', ''must be a list of at least 1'')], [])
          else (let read = map (\<lambda>(i, item). baseline_ref K (''finance_baselines['' @ show_nat i @ '']'') item) (enumerate 0 items);
              refs = List.map_filter snd read in
            (concat (map fst read)
               @ (if \<not> distinct (map br_entity refs) then [(''finance_baselines'', ''must not reference a legal entity twice'')] else []),
             refs))
      | _ \<Rightarrow> ([(''finance_baselines'', ''must be a list of at least 1'')], []))"

definition authority_of :: "json \<Rightarrow> faults \<times> ControlPlaneAuthority option" where
  "authority_of raw =
     (if \<not> is_obj raw then ([(''control_plane_authority'', ''must be an object'')], None)
      else (let name = (\<lambda>k. ''control_plane_authority.'' @ k);
          p = grammar_text (jget raw ''tenant_provisioning_id'') PROVISIONING_ID (name ''tenant_provisioning_id'') 6 63;
          q = grammar_text (jget raw ''plan_id'') PLAN_ID (name ''plan_id'') 8 63;
          d = grammar_text (jget raw ''plan_digest'') PLAN_DIGEST (name ''plan_digest'') 71 71;
          foreign = unexpected (name []) AUTHORITY_MEMBERS raw ''is not a member'' in
        (foreign @ absent (name []) AUTHORITY_MEMBERS raw
           @ (if has_key raw ''plan_version'' then version_fault (jget raw ''plan_version'') (name ''plan_version'') else [])
           @ fst p @ fst q @ fst d,
         (case (snd p, snd q, snd d, positive_int (jget raw ''plan_version'')) of
            (Some provisioning, Some plan, Some digest, Some version) \<Rightarrow>
              if foreign = [] then Some \<lparr>au_provisioning = provisioning, au_plan = plan, au_version = version, au_digest = digest\<rparr>
              else None
          | _ \<Rightarrow> None))))"

text \<open>A member is read when it is there; otherwise the default is taken.\<close>

definition when_present :: "json \<Rightarrow> string \<Rightarrow> (json \<Rightarrow> faults \<times> 'a) \<Rightarrow> 'a \<Rightarrow> faults \<times> 'a" where
  "when_present body name parse otherwise = (if has_key body name then parse (jget body name) else ([], otherwise))"

definition parse_command :: "calendar \<Rightarrow> json \<Rightarrow> faults + ProvisioningCommand" where
  "parse_command K body =
     (if \<not> is_obj body then Inl [(''body'', ''must be a JSON object'')]
      else (let t = when_present body ''tenant_id'' (\<lambda>v. grammar_text v TENANT_ID ''tenant_id'' 6 63) None;
          x = when_present body ''context_id'' (\<lambda>v. grammar_text v CONTEXT_ID ''context_id'' 36 36) None;
          a = when_present body ''control_plane_authority'' authority_of None;
          e = when_present body ''legal_entity_ids'' (\<lambda>v. grammar_list v LEGAL_ENTITY_ID ''legal_entity_ids'' 1 3 63) [];
          b = when_present body ''finance_baselines'' (baseline_refs K) [];
          c = when_present body ''requested_countries'' (\<lambda>v. grammar_list v COUNTRY ''requested_countries'' 1 2 2) [];
          m = when_present body ''functional_currencies'' (\<lambda>v. grammar_list v CURRENCY ''functional_currencies'' 1 3 3) [];
          p = when_present body ''deployment_policy_id'' (\<lambda>v. grammar_text v RESOURCE ''deployment_policy_id'' 3 128) None;
          l = when_present body ''localisation_profile_ids'' (\<lambda>v. grammar_list v RESOURCE ''localisation_profile_ids'' 0 3 128) [];
          faults = unexpected [] COMMAND_MEMBERS body ''is not a member of the provisioning request'' @ absent [] COMMAND_REQUIRED body
            @ fst t @ fst x @ fst a @ fst e @ fst b @ fst c @ fst m @ fst p @ fst l in
        if faults \<noteq> [] then Inl faults
        else (case (snd t, snd x, snd a) of
            (Some tenant, Some context_id, Some authority) \<Rightarrow>
              Inr \<lparr>pc_tenant = tenant, pc_context = context_id, pc_authority = authority, pc_entities = snd e,
                pc_countries = fset_of_list (snd c), pc_currencies = fset_of_list (snd m), pc_policy = snd p,
                pc_profiles = fset_of_list (snd l), pc_baselines = snd b\<rparr>
          | _ \<Rightarrow> Inl [])))"


section \<open>What is accepted\<close>

definition text_ok :: "rx \<Rightarrow> nat \<Rightarrow> nat \<Rightarrow> string \<Rightarrow> bool" where
  "text_ok pattern low high s \<longleftrightarrow> low \<le> length s \<and> length s \<le> high \<and> fullmatch pattern s"

definition authority_ok :: "ControlPlaneAuthority \<Rightarrow> bool" where
  "authority_ok a \<longleftrightarrow> text_ok PROVISIONING_ID 6 63 (au_provisioning a) \<and> text_ok PLAN_ID 8 63 (au_plan a) \<and> 1 \<le> au_version a
     \<and> text_ok PLAN_DIGEST 71 71 (au_digest a)"

definition ref_ok :: "calendar \<Rightarrow> FinanceBaselineRef \<Rightarrow> bool" where
  "ref_ok K r \<longleftrightarrow> text_ok BASELINE_ID 6 63 (br_baseline r) \<and> text_ok LEGAL_ENTITY_ID 3 63 (br_entity r) \<and> 1 \<le> br_version r
     \<and> text_ok PLAN_DIGEST 71 71 (br_digest r) \<and> text_ok CALENDAR_DATE 10 10 (br_effective r) \<and> read_day K (br_effective r) \<noteq> None"

text \<open>A list of distinct texts of one grammar.\<close>

definition list_ok :: "rx \<Rightarrow> nat \<Rightarrow> nat \<Rightarrow> nat \<Rightarrow> string list \<Rightarrow> bool" where
  "list_ok pattern minimum low high xs \<longleftrightarrow> minimum \<le> length xs \<and> distinct xs \<and> (\<forall>s \<in> set xs. text_ok pattern low high s)"

definition closed :: "string list \<Rightarrow> json \<Rightarrow> bool" where
  "closed allowed v \<longleftrightarrow> is_obj v \<and> fst ` set (members v) \<subseteq> set allowed"

definition authority_says :: "json \<Rightarrow> ControlPlaneAuthority \<Rightarrow> bool" where
  "authority_says v a \<longleftrightarrow> closed AUTHORITY_MEMBERS v \<and> jget v ''tenant_provisioning_id'' = JStr (au_provisioning a)
     \<and> jget v ''plan_id'' = JStr (au_plan a) \<and> jget v ''plan_version'' = JInt (au_version a) \<and> jget v ''plan_digest'' = JStr (au_digest a)"

definition ref_says :: "json \<Rightarrow> FinanceBaselineRef \<Rightarrow> bool" where
  "ref_says v r \<longleftrightarrow> closed BASELINE_MEMBERS v \<and> jget v ''baseline_id'' = JStr (br_baseline r)
     \<and> jget v ''legal_entity_id'' = JStr (br_entity r) \<and> jget v ''version'' = JInt (br_version r) \<and> jget v ''digest'' = JStr (br_digest r)
     \<and> jget v ''effective_from'' = JStr (br_effective r) \<and> is_baseline_authority (jget v ''authority'')"

definition list_says :: "json \<Rightarrow> string list \<Rightarrow> bool" where
  "list_says v xs \<longleftrightarrow> v = JArr (map JStr xs)"

definition set_says :: "rx \<Rightarrow> nat \<Rightarrow> nat \<Rightarrow> nat \<Rightarrow> json \<Rightarrow> string fset \<Rightarrow> bool" where
  "set_says pattern minimum low high v A \<longleftrightarrow> (\<exists>xs. list_says v xs \<and> list_ok pattern minimum low high xs \<and> A = fset_of_list xs)"

lemma grammar_text_result:
  "grammar_text v p n low high = (f, r) \<Longrightarrow> (f = [] \<longleftrightarrow> r \<noteq> None) \<and> (\<forall>s. r = Some s \<longleftrightarrow> v = JStr s \<and> text_ok p low high s)"
  by (auto simp: grammar_text_def text_ok_def split: json.splits if_splits)

lemma grammar_text_fine: "fst (grammar_text v p n low high) = [] \<longleftrightarrow> (\<exists>s. v = JStr s \<and> text_ok p low high s)"
  using grammar_text_result [of v p n low high] by (cases "grammar_text v p n low high") auto

lemma grammar_text_Some: "snd (grammar_text v p n low high) = Some s \<longleftrightarrow> v = JStr s \<and> text_ok p low high s"
  using grammar_text_result [of v p n low high] by (cases "grammar_text v p n low high") auto

lemma sort_empty [simp]: "sort xs = [] \<longleftrightarrow> xs = []"
  by (metis length_0_conv length_sort)

lemma unexpected_empty: "is_obj v \<Longrightarrow> unexpected pre allowed v m = [] \<longleftrightarrow> closed allowed v"
  by (auto simp: unexpected_def closed_def filter_empty_conv)

lemma absent_empty: "absent pre required v = [] \<longleftrightarrow> (\<forall>k \<in> set required. has_key v k)"
  by (auto simp: absent_def filter_empty_conv)

lemma map_py_str [simp]: "map py_str (map JStr xs) = xs"
  by (induction xs) auto

lemma element_texts_fine:
  "(\<forall>r \<in> set (element_texts vs p n low high). fst r = []) \<longleftrightarrow> (\<exists>xs. vs = map JStr xs \<and> (\<forall>s \<in> set xs. text_ok p low high s))"
proof -
  have "(\<forall>(i, v) \<in> set (enumerate k vs). \<exists>s. v = JStr s \<and> text_ok p low high s)
      \<longleftrightarrow> (\<exists>xs. vs = map JStr xs \<and> (\<forall>s \<in> set xs. text_ok p low high s))" for k
  proof (induction vs arbitrary: k)
    case (Cons v vs)
    have "(\<exists>xs. v # vs = map JStr xs \<and> (\<forall>s \<in> set xs. text_ok p low high s)) \<longleftrightarrow>
        (\<exists>s. v = JStr s \<and> text_ok p low high s) \<and> (\<exists>xs. vs = map JStr xs \<and> (\<forall>s \<in> set xs. text_ok p low high s))"
      (is "?l = ?r")
    proof
      assume ?l
      then show ?r by (auto simp: Cons_eq_map_conv)
    next
      assume ?r
      then obtain s xs where "v = JStr s \<and> text_ok p low high s" "vs = map JStr xs \<and> (\<forall>s \<in> set xs. text_ok p low high s)" by blast
      then show ?l by (intro exI [of _ "s # xs"]) simp
    qed
    with Cons.IH [of "Suc k"] show ?case by simp
  qed simp
  then show ?thesis by (simp add: element_texts_def grammar_text_fine case_prod_unfold comp_def)
qed

lemma element_texts_read:
  assumes "\<forall>s \<in> set xs. text_ok p low high s"
  shows "List.map_filter snd (element_texts (map JStr xs) p n low high) = xs"
  using assms unfolding element_texts_def
proof (induction xs rule: rev_induct)
  case (snoc s xs)
  then show ?case by (simp add: map_filter_def grammar_text_def text_ok_def enumerate_append_eq)
qed (simp add: map_filter_simps)

lemma py_str_o_JStr [simp]: "py_str \<circ> JStr = (\<lambda>s. s)"
  by (simp add: fun_eq_iff)

lemma grammar_list_read:
  "list_says v xs \<Longrightarrow> list_ok p minimum low high xs \<Longrightarrow> grammar_list v p n minimum low high = ([], xs)"
  using element_texts_fine [of "map JStr xs" p n low high] element_texts_read [of xs p low high n]
  by (auto simp: grammar_list_def list_says_def list_ok_def Let_def)

lemma grammar_list_fine:
  assumes "fst (grammar_list v p n minimum low high) = []"
  shows "\<exists>xs. list_says v xs \<and> list_ok p minimum low high xs"
  using assms
  by (auto simp: grammar_list_def Let_def element_texts_fine list_says_def list_ok_def split: json.splits if_splits)

lemma grammar_list_result:
  "grammar_list v p n minimum low high = ([], xs) \<longleftrightarrow> list_says v xs \<and> list_ok p minimum low high xs"
  using grammar_list_fine [of v p n minimum low high] grammar_list_read [of v _ p minimum low high n] by fastforce

lemma effective_text_result:
  "effective_text K v n = ([], r) \<longleftrightarrow> (\<exists>s. r = Some s \<and> v = JStr s \<and> text_ok CALENDAR_DATE 10 10 s \<and> read_day K s \<noteq> None)"
  by (auto simp: effective_text_def grammar_text_def text_ok_def split: json.splits)

lemma effective_text_fine:
  "fst (effective_text K v n) = [] \<longleftrightarrow> (\<exists>s. v = JStr s \<and> text_ok CALENDAR_DATE 10 10 s \<and> read_day K s \<noteq> None)"
  by (auto simp: effective_text_def grammar_text_def text_ok_def split: json.splits)

lemma says_has_key: "jget v k = JStr s \<Longrightarrow> has_key v k" "jget v k = JInt i \<Longrightarrow> has_key v k"
  "is_baseline_authority (jget v k) \<Longrightarrow> has_key v k" "jget v k = JArr vs \<Longrightarrow> has_key v k" "is_obj (jget v k) \<Longrightarrow> has_key v k"
  by (auto simp: jget_def has_key_def is_baseline_authority_def split: option.splits)

lemma version_fault_empty: "version_fault v n = [] \<longleftrightarrow> (\<exists>i. v = JInt i \<and> 1 \<le> i)"
  by (auto simp: version_fault_def simp flip: positive_int_Some)

lemma baseline_ref_read: "ref_says item ref \<Longrightarrow> ref_ok K ref \<Longrightarrow> baseline_ref K place item = ([], Some ref)"
  by (auto simp: baseline_ref_def Let_def version_fault_def unexpected_empty absent_empty BASELINE_MEMBERS_def says_has_key
      ref_says_def ref_ok_def text_ok_def effective_text_def grammar_text_def closed_def)

lemma baseline_ref_fine:
  assumes "fst (baseline_ref K place item) = []"
  shows "\<exists>ref. ref_says item ref \<and> ref_ok K ref"
proof -
  have item: "is_obj item" using assms by (auto simp: baseline_ref_def split: if_splits)
  with assms obtain b e d f n where "closed BASELINE_MEMBERS item"
      "jget item ''baseline_id'' = JStr b" "text_ok BASELINE_ID 6 63 b" "jget item ''legal_entity_id'' = JStr e" "text_ok LEGAL_ENTITY_ID 3 63 e"
      "jget item ''digest'' = JStr d" "text_ok PLAN_DIGEST 71 71 d"
      "jget item ''effective_from'' = JStr f" "text_ok CALENDAR_DATE 10 10 f" "read_day K f \<noteq> None"
      "jget item ''version'' = JInt n" "1 \<le> n" "is_baseline_authority (jget item ''authority'')"
    by (auto simp: baseline_ref_def Let_def grammar_text_fine effective_text_fine version_fault_empty unexpected_empty split: if_splits)
  then have "ref_says item r \<and> ref_ok K r"
    if "r = \<lparr>br_baseline = b, br_entity = e, br_version = n, br_digest = d, br_effective = f\<rparr>" for r
    using that by (simp add: ref_says_def ref_ok_def)
  then show ?thesis by blast
qed

lemma baseline_ref_result:
  "baseline_ref K place item = ([], r) \<longleftrightarrow> (\<exists>ref. r = Some ref \<and> ref_says item ref \<and> ref_ok K ref)"
  using baseline_ref_fine [of K place item] baseline_ref_read [of item _ K place] by fastforce

lemma authority_read: "authority_says v a \<Longrightarrow> authority_ok a \<Longrightarrow> authority_of v = ([], Some a)"
  by (auto simp: authority_of_def Let_def version_fault_def unexpected_empty absent_empty AUTHORITY_MEMBERS_def says_has_key
      authority_says_def authority_ok_def text_ok_def grammar_text_def closed_def)

lemma authority_fine:
  assumes "fst (authority_of v) = []"
  shows "\<exists>a. authority_says v a \<and> authority_ok a"
proof -
  have v: "is_obj v" using assms by (auto simp: authority_of_def split: if_splits)
  with assms have has: "\<forall>k \<in> set AUTHORITY_MEMBERS. has_key v k"
    by (simp add: authority_of_def Let_def absent_empty)
  then have "has_key v ''plan_version''" by (simp add: AUTHORITY_MEMBERS_def)
  with assms v obtain p q d n where "closed AUTHORITY_MEMBERS v"
      "jget v ''tenant_provisioning_id'' = JStr p" "text_ok PROVISIONING_ID 6 63 p" "jget v ''plan_id'' = JStr q" "text_ok PLAN_ID 8 63 q"
      "jget v ''plan_digest'' = JStr d" "text_ok PLAN_DIGEST 71 71 d" "jget v ''plan_version'' = JInt n" "1 \<le> n"
    by (auto simp: authority_of_def Let_def grammar_text_fine version_fault_empty unexpected_empty)
  then have "authority_says v a \<and> authority_ok a"
    if "a = \<lparr>au_provisioning = p, au_plan = q, au_version = n, au_digest = d\<rparr>" for a
    using that by (simp add: authority_says_def authority_ok_def)
  then show ?thesis by blast
qed

lemma authority_of_result:
  "authority_of v = ([], r) \<longleftrightarrow> (\<exists>a. r = Some a \<and> authority_says v a \<and> authority_ok a)"
  using authority_fine [of v] authority_read [of v] by fastforce

lemma ref_says_unique: "ref_says v r \<Longrightarrow> ref_says v r' \<Longrightarrow> r = r'"
  by (auto simp: ref_says_def)

lemma baseline_refs_result:
  "baseline_refs K v = ([], refs) \<longleftrightarrow> (\<exists>items. v = JArr items \<and> items \<noteq> [] \<and> list_all2 ref_says items refs
     \<and> (\<forall>r \<in> set refs. ref_ok K r) \<and> distinct (map br_entity refs))"
proof -
  define g where "g p = (case p of (i, item) \<Rightarrow> baseline_ref K (''finance_baselines['' @ show_nat i @ '']'') item)" for p
  have result: "g (i, item) = ([], r) \<longleftrightarrow> (\<exists>ref. r = Some ref \<and> ref_says item ref \<and> ref_ok K ref)" for i item r
    by (simp add: g_def baseline_ref_result)
  have all: "(\<forall>p \<in> set (enumerate n items). fst (g p) = []) \<and> List.map_filter snd (map g (enumerate n items)) = refs \<longleftrightarrow>
      list_all2 ref_says items refs \<and> (\<forall>r \<in> set refs. ref_ok K r)" for n items
  proof (induction items arbitrary: n refs)
    case (Cons item items)
    obtain f r where first: "g (n, item) = (f, r)" by force
    show ?case
    proof (cases "f = []")
      case True
      then obtain ref where ref: "r = Some ref" "ref_says item ref" "ref_ok K ref" using result first by blast
      show ?thesis
      proof (cases refs)
        case refs: (Cons r' rs)
        have "ref_says item r' \<and> ref_ok K r' \<longleftrightarrow> r' = ref" using ref ref_says_unique [OF ref(2)] by blast
        moreover have "(\<forall>p \<in> set (enumerate n (item # items)). fst (g p) = []) \<and>
              List.map_filter snd (map g (enumerate n (item # items))) = refs \<longleftrightarrow>
            r' = ref \<and> (\<forall>p \<in> set (enumerate (Suc n) items). fst (g p) = []) \<and> List.map_filter snd (map g (enumerate (Suc n) items)) = rs"
          using first True ref(1) refs by (auto simp: map_filter_simps)
        ultimately show ?thesis using Cons.IH [of "Suc n" rs] refs by (simp only: list_all2_Cons list.set ball_simps) blast
      qed (use first True ref in \<open>simp add: map_filter_simps\<close>)
    next
      case False
      then have "\<not> (ref_says item ref \<and> ref_ok K ref)" for ref using result first by (metis prod.inject)
      then show ?thesis using first False by (cases refs) auto
    qed
  qed (auto simp: map_filter_simps)
  have read: "(\<lambda>(i, item). baseline_ref K (''finance_baselines['' @ show_nat i @ '']'') item) = g"
    by (rule ext) (simp only: g_def)
  have array: "baseline_refs K (JArr items) = (if items = [] then ([(''finance_baselines'', ''must be a list of at least 1'')], [])
     else (concat (map fst (map g (enumerate 0 items))) @ (if \<not> distinct (map br_entity (List.map_filter snd (map g (enumerate 0 items))))
         then [(''finance_baselines'', ''must not reference a legal entity twice'')] else []),
       List.map_filter snd (map g (enumerate 0 items))))" for items
    by (simp only: baseline_refs_def json.case Let_def read split: if_split)
  show ?thesis
  proof (cases v)
    case (JArr items)
    then show ?thesis using all [of 0 items] by (auto simp: array)
  qed (simp_all add: baseline_refs_def)
qed

section \<open>Exactly the well-formed commands\<close>

definition command_ok :: "calendar \<Rightarrow> ProvisioningCommand \<Rightarrow> bool" where
  "command_ok K c \<longleftrightarrow> text_ok TENANT_ID 6 63 (pc_tenant c) \<and> text_ok CONTEXT_ID 36 36 (pc_context c) \<and> authority_ok (pc_authority c)
     \<and> list_ok LEGAL_ENTITY_ID 1 3 63 (pc_entities c) \<and> pc_baselines c \<noteq> [] \<and> (\<forall>r \<in> set (pc_baselines c). ref_ok K r)
     \<and> distinct (map br_entity (pc_baselines c)) \<and> pc_countries c \<noteq> {||} \<and> fBall (pc_countries c) (text_ok COUNTRY 2 2)
     \<and> pc_currencies c \<noteq> {||} \<and> fBall (pc_currencies c) (text_ok CURRENCY 3 3)
     \<and> (\<forall>p. pc_policy c = Some p \<longrightarrow> text_ok RESOURCE 3 128 p) \<and> fBall (pc_profiles c) (text_ok RESOURCE 3 128)"

text \<open>The document carries the command, and nothing else.\<close>

definition lists_set :: "json \<Rightarrow> string fset \<Rightarrow> bool" where
  "lists_set v A \<longleftrightarrow> (\<exists>xs. list_says v xs \<and> distinct xs \<and> A = fset_of_list xs)"

definition command_says :: "json \<Rightarrow> ProvisioningCommand \<Rightarrow> bool" where
  "command_says body c \<longleftrightarrow> closed COMMAND_MEMBERS body \<and> jget body ''tenant_id'' = JStr (pc_tenant c)
     \<and> jget body ''context_id'' = JStr (pc_context c) \<and> authority_says (jget body ''control_plane_authority'') (pc_authority c)
     \<and> list_says (jget body ''legal_entity_ids'') (pc_entities c)
     \<and> (\<exists>items. jget body ''finance_baselines'' = JArr items \<and> list_all2 ref_says items (pc_baselines c))
     \<and> lists_set (jget body ''requested_countries'') (pc_countries c)
     \<and> lists_set (jget body ''functional_currencies'') (pc_currencies c)
     \<and> (if has_key body ''deployment_policy_id'' then \<exists>p. jget body ''deployment_policy_id'' = JStr p \<and> pc_policy c = Some p
         else pc_policy c = None)
     \<and> (if has_key body ''localisation_profile_ids'' then lists_set (jget body ''localisation_profile_ids'') (pc_profiles c)
         else pc_profiles c = {||})"

lemma when_present_result:
  "when_present body name parse otherwise = ([], r) \<longleftrightarrow>
     (if has_key body name then parse (jget body name) = ([], r) else r = otherwise)"
  by (auto simp: when_present_def)

lemma grammar_text_eq: "grammar_text v p n low high = ([], r) \<longleftrightarrow> (\<exists>s. r = Some s \<and> v = JStr s \<and> text_ok p low high s)"
  by (auto simp: grammar_text_def text_ok_def split: json.splits)

lemma parse_command_parts:
  "parse_command K body = Inr c \<longleftrightarrow> (\<exists>t x a e b cs m p l.
     when_present body ''tenant_id'' (\<lambda>v. grammar_text v TENANT_ID ''tenant_id'' 6 63) None = ([], Some t)
     \<and> when_present body ''context_id'' (\<lambda>v. grammar_text v CONTEXT_ID ''context_id'' 36 36) None = ([], Some x)
     \<and> when_present body ''control_plane_authority'' authority_of None = ([], Some a)
     \<and> when_present body ''legal_entity_ids'' (\<lambda>v. grammar_list v LEGAL_ENTITY_ID ''legal_entity_ids'' 1 3 63) [] = ([], e)
     \<and> when_present body ''finance_baselines'' (baseline_refs K) [] = ([], b)
     \<and> when_present body ''requested_countries'' (\<lambda>v. grammar_list v COUNTRY ''requested_countries'' 1 2 2) [] = ([], cs)
     \<and> when_present body ''functional_currencies'' (\<lambda>v. grammar_list v CURRENCY ''functional_currencies'' 1 3 3) [] = ([], m)
     \<and> when_present body ''deployment_policy_id'' (\<lambda>v. grammar_text v RESOURCE ''deployment_policy_id'' 3 128) None = ([], p)
     \<and> when_present body ''localisation_profile_ids'' (\<lambda>v. grammar_list v RESOURCE ''localisation_profile_ids'' 0 3 128) [] = ([], l)
     \<and> is_obj body \<and> unexpected [] COMMAND_MEMBERS body ''is not a member of the provisioning request'' = []
     \<and> absent [] COMMAND_REQUIRED body = []
     \<and> c = \<lparr>pc_tenant = t, pc_context = x, pc_authority = a, pc_entities = e, pc_countries = fset_of_list cs,
         pc_currencies = fset_of_list m, pc_policy = p, pc_profiles = fset_of_list l, pc_baselines = b\<rparr>)"
  by (cases "is_obj body") (auto simp: parse_command_def Let_def prod_eq_iff split: option.splits)

lemma required_present:
  "absent [] COMMAND_REQUIRED body = [] \<longleftrightarrow> has_key body ''tenant_id'' \<and> has_key body ''context_id'' \<and> has_key body ''control_plane_authority''
     \<and> has_key body ''legal_entity_ids'' \<and> has_key body ''finance_baselines'' \<and> has_key body ''requested_countries''
     \<and> has_key body ''functional_currencies''"
  by (simp add: absent_empty COMMAND_REQUIRED_def)

lemma parse_command_iff:
  "parse_command K body = Inr c \<longleftrightarrow> closed COMMAND_MEMBERS body \<and> jget body ''tenant_id'' = JStr (pc_tenant c)
     \<and> text_ok TENANT_ID 6 63 (pc_tenant c) \<and> jget body ''context_id'' = JStr (pc_context c) \<and> text_ok CONTEXT_ID 36 36 (pc_context c)
     \<and> authority_says (jget body ''control_plane_authority'') (pc_authority c) \<and> authority_ok (pc_authority c)
     \<and> list_says (jget body ''legal_entity_ids'') (pc_entities c) \<and> list_ok LEGAL_ENTITY_ID 1 3 63 (pc_entities c)
     \<and> baseline_refs K (jget body ''finance_baselines'') = ([], pc_baselines c)
     \<and> set_says COUNTRY 1 2 2 (jget body ''requested_countries'') (pc_countries c)
     \<and> set_says CURRENCY 1 3 3 (jget body ''functional_currencies'') (pc_currencies c)
     \<and> (if has_key body ''deployment_policy_id'' then
          \<exists>p. jget body ''deployment_policy_id'' = JStr p \<and> pc_policy c = Some p \<and> text_ok RESOURCE 3 128 p else pc_policy c = None)
     \<and> (if has_key body ''localisation_profile_ids'' then
          set_says RESOURCE 0 3 128 (jget body ''localisation_profile_ids'') (pc_profiles c) else pc_profiles c = {||})" (is "?l \<longleftrightarrow> ?r")
proof
  assume ?l
  then obtain t x a e b cs m p l where
      parts: "when_present body ''tenant_id'' (\<lambda>v. grammar_text v TENANT_ID ''tenant_id'' 6 63) None = ([], Some t)"
      "when_present body ''context_id'' (\<lambda>v. grammar_text v CONTEXT_ID ''context_id'' 36 36) None = ([], Some x)"
      "when_present body ''control_plane_authority'' authority_of None = ([], Some a)"
      "when_present body ''legal_entity_ids'' (\<lambda>v. grammar_list v LEGAL_ENTITY_ID ''legal_entity_ids'' 1 3 63) [] = ([], e)"
      "when_present body ''finance_baselines'' (baseline_refs K) [] = ([], b)"
      "when_present body ''requested_countries'' (\<lambda>v. grammar_list v COUNTRY ''requested_countries'' 1 2 2) [] = ([], cs)"
      "when_present body ''functional_currencies'' (\<lambda>v. grammar_list v CURRENCY ''functional_currencies'' 1 3 3) [] = ([], m)"
      "when_present body ''deployment_policy_id'' (\<lambda>v. grammar_text v RESOURCE ''deployment_policy_id'' 3 128) None = ([], p)"
      "when_present body ''localisation_profile_ids'' (\<lambda>v. grammar_list v RESOURCE ''localisation_profile_ids'' 0 3 128) [] = ([], l)"
      and rest: "is_obj body" "unexpected [] COMMAND_MEMBERS body ''is not a member of the provisioning request'' = []"
      "absent [] COMMAND_REQUIRED body = []"
      and c: "c = \<lparr>pc_tenant = t, pc_context = x, pc_authority = a, pc_entities = e, pc_countries = fset_of_list cs,
         pc_currencies = fset_of_list m, pc_policy = p, pc_profiles = fset_of_list l, pc_baselines = b\<rparr>"
    unfolding parse_command_parts by blast
  note keys = rest(3) [unfolded required_present]
  have "set_says COUNTRY 1 2 2 (jget body ''requested_countries'') (fset_of_list cs)"
    "set_says CURRENCY 1 3 3 (jget body ''functional_currencies'') (fset_of_list m)"
    using parts(6,7) keys by (auto simp: when_present_result grammar_list_result set_says_def)
  moreover have "has_key body ''localisation_profile_ids'' \<Longrightarrow> set_says RESOURCE 0 3 128 (jget body ''localisation_profile_ids'') (fset_of_list l)"
    "\<not> has_key body ''localisation_profile_ids'' \<Longrightarrow> l = []"
    using parts(9) by (auto simp: when_present_result grammar_list_result set_says_def)
  moreover have "has_key body ''deployment_policy_id'' \<Longrightarrow>
      \<exists>q. jget body ''deployment_policy_id'' = JStr q \<and> p = Some q \<and> text_ok RESOURCE 3 128 q"
    "\<not> has_key body ''deployment_policy_id'' \<Longrightarrow> p = None"
    using parts(8) by (auto simp: when_present_result grammar_text_eq)
  moreover have "closed COMMAND_MEMBERS body" using rest(1,2) by (simp add: unexpected_empty)
  moreover have "jget body ''tenant_id'' = JStr t \<and> text_ok TENANT_ID 6 63 t" "jget body ''context_id'' = JStr x \<and> text_ok CONTEXT_ID 36 36 x"
    using parts(1,2) keys by (simp_all add: when_present_result grammar_text_eq)
  moreover have "authority_says (jget body ''control_plane_authority'') a \<and> authority_ok a"
    using parts(3) keys by (simp add: when_present_result authority_of_result)
  moreover have "list_says (jget body ''legal_entity_ids'') e \<and> list_ok LEGAL_ENTITY_ID 1 3 63 e"
    using parts(4) keys by (simp add: when_present_result grammar_list_result)
  moreover have "baseline_refs K (jget body ''finance_baselines'') = ([], b)"
    using parts(5) keys by (simp add: when_present_result)
  ultimately show ?r using c by simp
next
  assume r: ?r
  then have present: "absent [] COMMAND_REQUIRED body = []"
    by (auto simp: required_present authority_says_def closed_def list_says_def set_says_def baseline_refs_result intro: says_has_key)
  have obj: "is_obj body" using r by (simp add: closed_def)
  obtain cs m where sets: "list_says (jget body ''requested_countries'') cs" "list_ok COUNTRY 1 2 2 cs" "pc_countries c = fset_of_list cs"
      "list_says (jget body ''functional_currencies'') m" "list_ok CURRENCY 1 3 3 m" "pc_currencies c = fset_of_list m"
    using r by (auto simp: set_says_def)
  obtain l where l: "if has_key body ''localisation_profile_ids'' then
        list_says (jget body ''localisation_profile_ids'') l \<and> list_ok RESOURCE 0 3 128 l else l = []" "pc_profiles c = fset_of_list l"
    using r by (cases "has_key body ''localisation_profile_ids''") (auto simp: set_says_def)
  show ?l
    unfolding parse_command_parts
    by (rule exI [of _ "pc_tenant c"], rule exI [of _ "pc_context c"], rule exI [of _ "pc_authority c"], rule exI [of _ "pc_entities c"],
        rule exI [of _ "pc_baselines c"], rule exI [of _ cs], rule exI [of _ m], rule exI [of _ "pc_policy c"], rule exI [of _ l])
      (use r present obj sets l in \<open>auto simp: when_present_result grammar_text_eq grammar_list_result authority_of_result
         unexpected_empty required_present split: if_splits\<close>)
qed

lemma listed_set:
  "set_says p 1 low high v A \<longleftrightarrow> lists_set v A \<and> A \<noteq> {||} \<and> fBall A (text_ok p low high)"
  "set_says p 0 low high v A \<longleftrightarrow> lists_set v A \<and> fBall A (text_ok p low high)"
proof -
  have "1 \<le> length xs \<longleftrightarrow> fset_of_list xs \<noteq> {||}" for xs :: "string list" by (cases xs) auto
  then show "set_says p 1 low high v A \<longleftrightarrow> lists_set v A \<and> A \<noteq> {||} \<and> fBall A (text_ok p low high)"
    "set_says p 0 low high v A \<longleftrightarrow> lists_set v A \<and> fBall A (text_ok p low high)"
    by (auto simp: set_says_def lists_set_def list_ok_def fset_of_list_elem)
qed

lemma fault_names_member:
  assumes "parse_command K body = Inl faults"
  shows "faults \<noteq> []"
proof
  assume "faults = []"
  with assms have none: "is_obj body" "absent [] COMMAND_REQUIRED body = []"
      "fst (when_present body ''tenant_id'' (\<lambda>v. grammar_text v TENANT_ID ''tenant_id'' 6 63) None) = []"
      "fst (when_present body ''context_id'' (\<lambda>v. grammar_text v CONTEXT_ID ''context_id'' 36 36) None) = []"
      "fst (when_present body ''control_plane_authority'' authority_of None) = []"
      and cases: "snd (when_present body ''tenant_id'' (\<lambda>v. grammar_text v TENANT_ID ''tenant_id'' 6 63) None) = None
        \<or> snd (when_present body ''context_id'' (\<lambda>v. grammar_text v CONTEXT_ID ''context_id'' 36 36) None) = None
        \<or> snd (when_present body ''control_plane_authority'' authority_of None) = None"
    by (auto simp: parse_command_def Let_def split: if_splits option.splits)
  moreover note keys = none(2) [unfolded required_present]
  ultimately show False
    using grammar_text_eq [of "jget body ''tenant_id''" TENANT_ID "''tenant_id''" 6 63 None]
      grammar_text_eq [of "jget body ''context_id''" CONTEXT_ID "''context_id''" 36 36 None]
      authority_of_result [of "jget body ''control_plane_authority''" None]
    by (auto simp: when_present_def prod_eq_iff)
qed

lemma policy_split:
  "(if h then \<exists>p. v = JStr p \<and> x = Some p \<and> P p else x = None) \<longleftrightarrow>
     (if h then \<exists>p. v = JStr p \<and> x = Some p else x = None) \<and> (\<forall>p. x = Some p \<longrightarrow> P p)"
  by auto

lemma profiles_split:
  "(if h then set_says p 0 low high v A else A = {||}) \<longleftrightarrow> (if h then lists_set v A else A = {||}) \<and> fBall A (text_ok p low high)"
  by (auto simp: listed_set)

lemma baselines_split:
  "baseline_refs K v = ([], refs) \<longleftrightarrow> (\<exists>items. v = JArr items \<and> list_all2 ref_says items refs) \<and> refs \<noteq> []
     \<and> (\<forall>r \<in> set refs. ref_ok K r) \<and> distinct (map br_entity refs)"
  unfolding baseline_refs_result by (metis list_all2_Nil list_all2_Nil2)

text \<open>C36: The parser accepts exactly the commands of the contract: a document is read as a command just when it carries that
  command and no other member, in the canonical grammars, with the required members, lists without repetitions, integer versions of at
  least one, real calendar dates and at most one Finance baseline per legal entity, so everything behind the parser may rely on
  these; and every refusal names at least one offending member.\<close>

theorem commands_accepted_exactly:
  "(\<forall>c. parse_command K body = Inr c \<longleftrightarrow> command_says body c \<and> command_ok K c)
    \<and> (\<forall>faults. parse_command K body = Inl faults \<longrightarrow> faults \<noteq> [])"
proof (intro conjI allI impI)
  fix c
  show "parse_command K body = Inr c \<longleftrightarrow> command_says body c \<and> command_ok K c"
    unfolding parse_command_iff command_says_def command_ok_def policy_split profiles_split baselines_split
    by (simp only: listed_set conj_ac)
qed (rule fault_names_member)

section \<open>A concrete command\<close>

definition sample_hash :: string where "sample_hash = ''sha256:'' @ replicate 64 (CHR ''0'')"

definition sample_command :: ProvisioningCommand where
  "sample_command = \<lparr>pc_tenant = ''tn_abc01'', pc_context = ''00000000-0000-0000-0000-000000000001'',
     pc_authority = \<lparr>au_provisioning = ''tp_a1b2'', au_plan = ''plan_a1b2'', au_version = 1, au_digest = sample_hash\<rparr>,
     pc_entities = [''NABHOLD''], pc_countries = {|''UG''|}, pc_currencies = {|''UGX''|}, pc_policy = None, pc_profiles = {||},
     pc_baselines = [\<lparr>br_baseline = ''fb_0a1b'', br_entity = ''NABHOLD'', br_version = 2, br_digest = sample_hash, br_effective = ''2026-01-01''\<rparr>]\<rparr>"

definition sample_body :: json where
  "sample_body = JObj
     [(''tenant_id'', JStr ''tn_abc01''), (''context_id'', JStr ''00000000-0000-0000-0000-000000000001''),
      (''control_plane_authority'', JObj [(''tenant_provisioning_id'', JStr ''tp_a1b2''), (''plan_id'', JStr ''plan_a1b2''),
         (''plan_version'', JInt 1), (''plan_digest'', JStr sample_hash)]),
      (''legal_entity_ids'', JArr [JStr ''NABHOLD'']),
      (''finance_baselines'', JArr (map ref_contract (pc_baselines sample_command))),
      (''requested_countries'', JArr [JStr ''UG'']), (''functional_currencies'', JArr [JStr ''UGX''])]"

lemma sample_grammars:
  "fullmatch TENANT_ID ''tn_abc01''" "fullmatch CONTEXT_ID ''00000000-0000-0000-0000-000000000001''" "fullmatch PROVISIONING_ID ''tp_a1b2''"
  "fullmatch PLAN_ID ''plan_a1b2''" "fullmatch PLAN_DIGEST sample_hash" "fullmatch LEGAL_ENTITY_ID ''NABHOLD''" "fullmatch BASELINE_ID ''fb_0a1b''"
  "fullmatch CALENDAR_DATE ''2026-01-01''" "fullmatch COUNTRY ''UG''" "fullmatch CURRENCY ''UGX''"
  by code_simp+

lemma sample_command_ok: "command_ok sample_calendar sample_command"
proof -
  have "length sample_hash = 71" by (simp add: sample_hash_def)
  then show ?thesis
    by (simp add: command_ok_def sample_command_def authority_ok_def list_ok_def ref_ok_def text_ok_def sample_grammars sample_calendar_def
        del: fullmatch.simps)
qed

theorem commands_accepted_exactly_witness: "parse_command sample_calendar sample_body = Inr sample_command"
proof -
  have "lists_set (JArr [JStr s]) {|s|}" for s
    unfolding lists_set_def list_says_def by (rule exI [of _ "[s]"]) simp
  then have "command_says sample_body sample_command"
    by (simp add: command_says_def sample_body_def sample_command_def closed_def COMMAND_MEMBERS_def COMMAND_REQUIRED_def jget_def has_key_def
        authority_says_def AUTHORITY_MEMBERS_def list_says_def ref_says_def ref_contract_def BASELINE_MEMBERS_def is_baseline_authority_def
        BASELINE_AUTHORITY_def)
  with sample_command_ok commands_accepted_exactly [of sample_calendar sample_body] show ?thesis by blast
qed

end
