(* ===== verification/Provisioning_Command.thy ===== *)
theory Provisioning_Command
  imports Operation_Request Attempts
begin

text \<open>
  Provisioning commands and the operations of their legal entities: the state of a command as a function of its
  entities' statuses (\<open>modules/provisioning/command_state.py\<close>), the event of a revision (\<open>command_events.py\<close>),
  the command store (\<open>command_store.py\<close>) and the operation store (\<open>store.py\<close>) over the process state of
  \<open>Order_Service\<close>.
\<close>

section \<open>The state of a command\<close>

fun status_text :: "ProvisioningStatus \<Rightarrow> string" where
  "status_text REQUESTED = ''requested''"
| "status_text VALIDATING = ''validating''"
| "status_text PLANNED = ''planned''"
| "status_text APPLYING = ''applying''"
| "status_text RECONCILING = ''reconciling''"
| "status_text READY = ''ready''"
| "status_text ACTIVE = ''active''"
| "status_text FAILED = ''failed''"
| "status_text SUSPENDED = ''suspended''"

definition FAILED_CODE :: string where "FAILED_CODE = ''ERP_PROVISIONING_FAILED''"
definition S_DONE :: "string list" where "S_DONE = [''ready'', ''active'']"
definition S_IN_FLIGHT :: "string list" where "S_IN_FLIGHT = [''applying'']"
definition S_SETTLING :: "string list" where "S_SETTLING = [''reconciling'', ''suspended'']"
definition S_NOT_STARTED :: "string list" where "S_NOT_STARTED = [''requested'', ''planned'']"

definition all_in :: "string list \<Rightarrow> string list \<Rightarrow> bool" where
  "all_in xs ys = list_all (\<lambda>x. x \<in> set ys) xs"

definition derive_state :: "string list \<Rightarrow> exn + string \<times> string option" where
  "derive_state seen =
     (if seen = [] then Inl (Exn ''ValueError'' ''a provisioning command has at least one legal entity'')
      else if \<not> all_in seen (S_DONE @ S_IN_FLIGHT @ S_SETTLING @ S_NOT_STARTED @ [''validating'', ''failed''])
        then Inl (Exn ''ValueError'' ''unknown provisioning status'')
      else if ''failed'' \<in> set seen then Inr (''failed'', Some FAILED_CODE)
      else if all_in seen S_DONE then Inr (''active'', None)
      else if list_ex (\<lambda>x. x \<in> set S_IN_FLIGHT) seen then Inr (''provisioning'', None)
      else if all_in seen S_NOT_STARTED then Inr (''accepted'', None)
      else if all_in seen (''validating'' # S_NOT_STARTED) then Inr (''validating'', None)
      else if all_in seen (S_DONE @ S_SETTLING) then Inr (''reconciling'', None)
      else Inr (''provisioning'', None))"

section \<open>The event of a revision\<close>

definition PROVISIONING_EVENT :: string where "PROVISIONING_EVENT = ''com.baobab-platform.erp.provisioning.changed.v1''"
definition NAMESPACE_URL :: nat where "NAMESPACE_URL = 0x6ba7b8119dad11d180b400c04fd430c8"

definition state_document :: "pylib \<Rightarrow> CommandRecord \<Rightarrow> json" where
  "state_document L c = JObj
     ([(''operation_id'', JStr (show_uuid (cm_operation c))), (''tenant_id'', JStr (cm_tenant c)),
       (''legal_entity_ids'', JArr (map JStr (sort (cm_entities c)))), (''state'', JStr (cm_state c)),
       (''revision'', JInt (int (cm_revision c))), (''updated_at'', JStr (utc_z L (cm_updated c)))]
      @ (case cm_failure c of None \<Rightarrow> [] | Some f \<Rightarrow> if f = [] then [] else [(''failure_code'', JStr f)]))"

definition command_event_id :: "pylib \<Rightarrow> nat \<Rightarrow> nat \<Rightarrow> nat" where
  "command_event_id L op rev_no =
     uuid5 L NAMESPACE_URL (''urn:baobab-platform:event:erp-provisioning:'' @ show_uuid op @ '':'' @ show_nat rev_no)"

definition command_event_key :: "nat \<Rightarrow> nat \<Rightarrow> string" where
  "command_event_key op rev_no = ''erp-provisioning-'' @ show_uuid op @ ''-r'' @ show_nat rev_no"

definition command_correlation :: "pylib \<Rightarrow> nat \<Rightarrow> nat" where
  "command_correlation L op = uuid5 L NAMESPACE_URL (''urn:baobab-platform:correlation:erp-provisioning:'' @ show_uuid op)"

definition command_subject :: "nat \<Rightarrow> string" where
  "command_subject op = ''provisioning:'' @ show_uuid op"

definition provisioning_changed :: "pylib \<Rightarrow> CommandRecord \<Rightarrow> exn + cloud_event" where
  "provisioning_changed L c =
     (case dataschema_for PROVISIONING_EVENT of
        None \<Rightarrow> Inl (Exn ''KeyError'' PROVISIONING_EVENT)
      | Some schema \<Rightarrow> mapE_exn envelope_exn (validate L
          \<lparr>ev_id = JStr (show_uuid (command_event_id L (cm_operation c) (cm_revision c))), ev_type = JStr PROVISIONING_EVENT,
           ev_source = JStr ERP_SOURCE, ev_subject = JStr (command_subject (cm_operation c)), ev_time = Aware (cm_updated c),
           ev_dataschema = JStr schema, ev_scope = JStr ''tenant'',
           ev_correlationid = JStr (show_uuid (command_correlation L (cm_operation c))), ev_data = state_document L c,
           ev_tenantid = JStr (cm_tenant c), ev_causationid = JNull,
           ev_idempotencykey = JStr (command_event_key (cm_operation c) (cm_revision c)), ev_traceparent = JNull, ev_tracestate = JNull\<rparr>))"

section \<open>The command store\<close>

text \<open>An operation of the provisioning tables on the process.\<close>

definition on_tables :: "(provisioning_tables, exn, 'a) op \<Rightarrow> ('n proc, exn, 'a) op" where
  "on_tables m = on_db (\<lambda>d. case m (db_provisioning d) of (r, t) \<Rightarrow> (r, d\<lparr>db_provisioning := t\<rparr>))"

record PlannedEntity =
  pe_entity :: string
  pe_request :: ErpProvisioningRequest
  pe_plan :: ProvisioningPlan

definition step_json :: "ProvisioningStep \<Rightarrow> json" where
  "step_json st = JObj [(''key'', JStr (ps_key st)), (''kind'', JStr (kind_text (ps_kind st))), (''payload'', JObj (ps_payload st))]"

definition plan_json :: "ProvisioningPlan \<Rightarrow> json" where
  "plan_json p = JArr (map step_json (pp_steps p))"

definition operation_of :: "string \<Rightarrow> operation_row \<Rightarrow> bool" where
  "operation_of pid r = (op_provisioning r = pid)"

text \<open>The insert into the operation table, with its two unique keys.\<close>

definition insert_operation :: "operation_row \<Rightarrow> (provisioning_tables, exn, unit) op" where
  "insert_operation r t =
     (if list_ex (\<lambda>x. op_provisioning x = op_provisioning r \<or> op_key x = op_key r) (pt_operations t) then (Inl unique_violation, t)
      else (Inr (), t\<lparr>pt_operations := pt_operations t @ [r]\<rparr>))"

definition planned_row :: "calendar \<Rightarrow> instant \<Rightarrow> PlannedEntity \<Rightarrow> operation_row" where
  "planned_row K now e =
     \<lparr>op_provisioning = rq_provisioning (pe_request e), op_key = rq_key (pe_request e), op_state = desired_state K (pe_request e),
      op_digest = Some (pp_digest (pe_plan e)), op_plan = plan_json (pe_plan e), op_status = PLANNED, op_error = None, op_created = now,
      op_attempts = 0, op_next = None, op_outcome = None\<rparr>"

fun insert_operations :: "operation_row list \<Rightarrow> (provisioning_tables, exn, unit) op" where
  "insert_operations [] = returnS ()"
| "insert_operations (r # rs) = bindS (insert_operation r) (\<lambda>_. insert_operations rs)"

definition fingerprint_rx :: rx where
  "fingerprint_rx = Rep 64 64 (Cls [(CHR ''0'', CHR ''9''), (CHR ''a'', CHR ''f'')])"

definition sql_blank :: "string \<Rightarrow> bool" where
  "sql_blank s = list_all (\<lambda>c. c = CHR '' '') s"

text \<open>The checks of the command table, whose plan version is an \<open>integer\<close>.\<close>

definition command_checks :: "command_row \<Rightarrow> bool" where
  "command_checks r \<longleftrightarrow> \<not> sql_blank (cm_tenant r) \<and> 16 \<le> length (cm_key r) \<and> length (cm_key r) \<le> 128 \<and> \<not> sql_blank (cm_principal r)
     \<and> fullmatch fingerprint_rx (cm_fingerprint r) \<and> 1 \<le> cm_plan_version r \<and> fullmatch PLAN_DIGEST (cm_plan_digest r)
     \<and> cm_entities r \<noteq> []"

definition insert_command :: "command_row \<Rightarrow> (provisioning_tables, exn, unit) op" where
  "insert_command r t =
     (if 2 ^ 31 \<le> cm_plan_version r then (Inl (Exn ''NumericValueOutOfRange'' []), t)
      else if \<not> command_checks r then (Inl check_violation, t)
      else if list_ex (\<lambda>c. cm_operation c = cm_operation r \<or> (cm_tenant c = cm_tenant r \<and> cm_key c = cm_key r)) (pt_commands t)
        then (Inl unique_violation, t)
      else (Inr (), t\<lparr>pt_commands := pt_commands t @ [r]\<rparr>))"

text \<open>A membership row refers to the command and the operation; an operation belongs to one command at most.\<close>

definition insert_member :: "membership_row \<Rightarrow> (provisioning_tables, exn, unit) op" where
  "insert_member m t =
     (if list_ex (\<lambda>x. (mb_operation x = mb_operation m \<and> mb_entity x = mb_entity m) \<or> mb_provisioning x = mb_provisioning m) (pt_members t)
        then (Inl unique_violation, t)
      else if mb_operation m \<notin> cm_operation ` set (pt_commands t) \<or> mb_provisioning m \<notin> op_provisioning ` set (pt_operations t)
        then (Inl foreign_key_violation, t)
      else (Inr (), t\<lparr>pt_members := pt_members t @ [m]\<rparr>))"

fun insert_members :: "membership_row list \<Rightarrow> (provisioning_tables, exn, unit) op" where
  "insert_members [] = returnS ()"
| "insert_members (m # ms) = bindS (insert_member m) (\<lambda>_. insert_members ms)"

definition accepted_row :: "nat \<Rightarrow> ProvisioningCommand \<Rightarrow> string \<Rightarrow> string \<Rightarrow> string \<Rightarrow> instant \<Rightarrow> command_row" where
  "accepted_row op c key who fp now =
     \<lparr>cm_operation = op, cm_tenant = pc_tenant c, cm_fingerprint = fp, cm_entities = sort (pc_entities c), cm_state = ''accepted'',
      cm_revision = 1, cm_updated = now, cm_failure = None, cm_provisioning = au_provisioning (pc_authority c),
      cm_plan = au_plan (pc_authority c), cm_plan_version = au_version (pc_authority c), cm_plan_digest = au_digest (pc_authority c),
      cm_key = key, cm_principal = who,
      cm_baselines = JArr (map ref_contract (sort_key br_entity (pc_baselines c)))\<rparr>"

definition membership_of :: "nat \<Rightarrow> PlannedEntity \<Rightarrow> membership_row" where
  "membership_of op e = \<lparr>mb_operation = op, mb_entity = pe_entity e, mb_provisioning = rq_provisioning (pe_request e)\<rparr>"

definition find_command :: "string \<Rightarrow> string \<Rightarrow> provisioning_tables \<Rightarrow> CommandRecord option" where
  "find_command tenant key t =
     map_option CommandRecord.truncate (select_one (\<lambda>c. cm_tenant c = tenant \<and> cm_key c = key) (pt_commands t))"

text \<open>Another tenant's operation is absent; an id that is no UUID is refused by the database.\<close>

definition get_command :: "(string \<Rightarrow> nat option) \<Rightarrow> string \<Rightarrow> string \<Rightarrow> provisioning_tables \<Rightarrow> exn + CommandRecord option" where
  "get_command pg tenant operation t =
     (case pg operation of
        None \<Rightarrow> Inl (Exn ''DataError'' [])
      | Some n \<Rightarrow> Inr (map_option CommandRecord.truncate (select_one (\<lambda>c. cm_tenant c = tenant \<and> cm_operation c = n) (pt_commands t))))"

definition announce_command :: "pylib \<Rightarrow> (string \<Rightarrow> nat option) \<Rightarrow> CommandRecord \<Rightarrow> ('n proc, exn, unit) op" where
  "announce_command L pg c =
     bindS (liftS (provisioning_changed L c)) (\<lambda>e.
     bindS read_clock (\<lambda>t. on_db (store_outbox (record_event L pg e t))))"

definition accept ::
  "pylib \<Rightarrow> (string \<Rightarrow> nat option) \<Rightarrow> calendar \<Rightarrow> ProvisioningCommand \<Rightarrow> string \<Rightarrow> string \<Rightarrow> string \<Rightarrow> PlannedEntity list
     \<Rightarrow> ('n proc, exn, CommandRecord) op" where
  "accept L pg K c key who fp entities =
     bindS draw_uuid (\<lambda>op.
     bindS read_clock (\<lambda>now.
     bindS (on_tables (insert_operations (map (planned_row K now) entities))) (\<lambda>_.
     bindS (on_tables (insert_command (accepted_row op c key who fp now))) (\<lambda>_.
     bindS (on_tables (insert_members (map (membership_of op) entities))) (\<lambda>_.
     let r = CommandRecord.truncate (accepted_row op c key who fp now) in
     bindS (announce_command L pg r) (\<lambda>_. returnS r))))))"

definition advance_command :: "nat \<Rightarrow> string \<Rightarrow> string option \<Rightarrow> instant \<Rightarrow> (provisioning_tables, exn, CommandRecord option) op" where
  "advance_command op state failure now t =
     (let moves = (\<lambda>c. cm_operation c = op \<and> cm_state c \<noteq> ''cancelled'' \<and> (cm_state c \<noteq> state \<or> cm_failure c \<noteq> failure));
          moved = (\<lambda>c. c\<lparr>cm_state := state, cm_failure := failure, cm_revision := cm_revision c + 1, cm_updated := now\<rparr>) in
      (Inr (map_option (\<lambda>c. CommandRecord.truncate (moved c)) (select_one moves (pt_commands t))),
       t\<lparr>pt_commands := update_where moves moved (pt_commands t)\<rparr>))"

definition advance_state ::
  "pylib \<Rightarrow> (string \<Rightarrow> nat option) \<Rightarrow> nat \<Rightarrow> string \<Rightarrow> string option \<Rightarrow> ('n proc, exn, CommandRecord option) op" where
  "advance_state L pg op state failure =
     bindS (checkS ((state = ''failed'') = (failure \<noteq> None))
       (Exn ''ValueError'' ''a failure code accompanies the failed state and nothing else'')) (\<lambda>_.
     bindS read_clock (\<lambda>now.
     bindS (on_tables (advance_command op state failure now)) (\<lambda>moved.
     case moved of
       None \<Rightarrow> returnS None
     | Some r \<Rightarrow> bindS (announce_command L pg r) (\<lambda>_. returnS (Some r)))))"

text \<open>The statuses of a command's entities: the join of its members with their operations.\<close>

definition member_statuses :: "provisioning_tables \<Rightarrow> nat \<Rightarrow> ProvisioningStatus list" where
  "member_statuses t op =
     concat (map (\<lambda>m. map op_status (filter (operation_of (mb_provisioning m)) (pt_operations t)))
       (filter (\<lambda>m. mb_operation m = op) (pt_members t)))"

definition owner_of :: "provisioning_tables \<Rightarrow> string \<Rightarrow> nat option" where
  "owner_of t pid = map_option mb_operation (select_one (\<lambda>m. mb_provisioning m = pid) (pt_members t))"

definition project :: "pylib \<Rightarrow> (string \<Rightarrow> nat option) \<Rightarrow> string \<Rightarrow> ('n proc, exn, CommandRecord option) op" where
  "project L pg pid =
     bindS (readS (\<lambda>s. db_provisioning (pr_db s))) (\<lambda>t.
     case owner_of t pid of
       None \<Rightarrow> returnS None
     | Some op \<Rightarrow>
         bindS (liftS (derive_state (map status_text (member_statuses t op)))) (\<lambda>(state, failure).
         advance_state L pg op state failure))"

section \<open>The operation store\<close>

definition create_or_get :: "string \<Rightarrow> string \<Rightarrow> string \<Rightarrow> json \<Rightarrow> ('n proc, exn, string) op" where
  "create_or_get pid key digest state =
     bindS read_clock (\<lambda>now.
     bindS (readS (\<lambda>s. select_one (\<lambda>x. op_key x = key) (pt_operations (db_provisioning (pr_db s))))) (\<lambda>existing.
     case existing of
       None \<Rightarrow> bindS (on_tables (insert_operation \<lparr>op_provisioning = pid, op_key = key, op_state = state, op_digest = Some digest,
           op_plan = JNull, op_status = REQUESTED, op_error = None, op_created = now, op_attempts = 0, op_next = None,
           op_outcome = None\<rparr>)) (\<lambda>_. bindS commit_tx (\<lambda>_. returnS pid))
     | Some x \<Rightarrow>
         if op_digest x = Some digest then bindS commit_tx (\<lambda>_. returnS (op_provisioning x))
         else bindS rollback_tx (\<lambda>_. raiseS (Exn ''ValueError'' ''idempotency key was reused with different desired state''))))"

definition update_operation :: "string \<Rightarrow> (operation_row \<Rightarrow> operation_row) \<Rightarrow> (provisioning_tables, exn, unit) op" where
  "update_operation pid f t = (Inr (), t\<lparr>pt_operations := update_where (operation_of pid) f (pt_operations t)\<rparr>)"

definition save_plan :: "pylib \<Rightarrow> (string \<Rightarrow> nat option) \<Rightarrow> ProvisioningPlan \<Rightarrow> ('n proc, exn, unit) op" where
  "save_plan L pg p =
     bindS (on_tables (update_operation (pp_provisioning p)
       (\<lambda>x. x\<lparr>op_digest := Some (pp_digest p), op_plan := plan_json p, op_status := PLANNED\<rparr>))) (\<lambda>_.
     bindS (project L pg (pp_provisioning p)) (\<lambda>_. commit_tx))"

definition upsert_step :: "string \<Rightarrow> string \<Rightarrow> string \<Rightarrow> json \<Rightarrow> (provisioning_tables, exn, unit) op" where
  "upsert_step pid key status result t =
     (let same = (\<lambda>r. sr_provisioning r = pid \<and> sr_key r = key) in
      if status \<notin> {''pending'', ''running'', ''completed'', ''failed''} then (Inl check_violation, t)
      else if list_ex same (pt_steps t)
        then (Inr (), t\<lparr>pt_steps := update_where same (\<lambda>r. r\<lparr>sr_status := status, sr_result := result\<rparr>) (pt_steps t)\<rparr>)
      else if pid \<notin> op_provisioning ` set (pt_operations t) then (Inl foreign_key_violation, t)
      else (Inr (), t\<lparr>pt_steps := pt_steps t @ [\<lparr>sr_provisioning = pid, sr_key = key, sr_status = status, sr_result = result\<rparr>]\<rparr>))"

definition mark_step :: "string \<Rightarrow> string \<Rightarrow> string \<Rightarrow> json \<Rightarrow> ('n proc, exn, unit) op" where
  "mark_step pid key status result = bindS (on_tables (upsert_step pid key status result)) (\<lambda>_. commit_tx)"

definition completed_steps :: "string \<Rightarrow> provisioning_tables \<Rightarrow> string set" where
  "completed_steps pid t = sr_key ` set (filter (\<lambda>r. sr_provisioning r = pid \<and> sr_status r = ''completed'') (pt_steps t))"

definition set_status :: "pylib \<Rightarrow> (string \<Rightarrow> nat option) \<Rightarrow> string \<Rightarrow> ProvisioningStatus \<Rightarrow> string option \<Rightarrow> ('n proc, exn, unit) op" where
  "set_status L pg pid status err =
     bindS (on_tables (update_operation pid (\<lambda>x. x\<lparr>op_status := status, op_error := err\<rparr>))) (\<lambda>_.
     bindS (project L pg pid) (\<lambda>_. commit_tx))"

end
