(* ===== verification/Command_Ledger.thy ===== *)
theory Command_Ledger
  imports Provisioning_Command
begin

text \<open>
  What the provisioning stores keep: the state of every committed command is the one derived from its entities, every
  revision was announced once and in order, and the tables refine a small abstract machine.
\<close>

section \<open>The ledger\<close>

text \<open>The announcements of a command, in the order they were recorded.\<close>

definition command_events :: "database \<Rightarrow> nat \<Rightarrow> outbox_row list" where
  "command_events d op =
     filter (\<lambda>r. ob_cloudevents r \<and> ob_type r = PROVISIONING_EVENT \<and> ob_subject r = command_subject op) (db_outbox d)"

definition announced_upto :: "pylib \<Rightarrow> database \<Rightarrow> CommandRecord \<Rightarrow> bool" where
  "announced_upto L d c \<longleftrightarrow> 1 \<le> cm_revision c
     \<and> map ob_idempotency (command_events d (cm_operation c)) = map (\<lambda>k. Some (command_event_key (cm_operation c) k)) [1..<Suc (cm_revision c)]
     \<and> ob_data (last (command_events d (cm_operation c))) = state_document L c"

definition derived :: "provisioning_tables \<Rightarrow> command_row \<Rightarrow> bool" where
  "derived t c \<longleftrightarrow> derive_state (map status_text (member_statuses t (cm_operation c))) = Inr (cm_state c, cm_failure c)"

text \<open>The tables' keys and references.\<close>

definition tables_ok :: "provisioning_tables \<Rightarrow> bool" where
  "tables_ok t \<longleftrightarrow> distinct (map op_provisioning (pt_operations t)) \<and> distinct (map cm_operation (pt_commands t))
     \<and> distinct (map mb_provisioning (pt_members t))
     \<and> (\<forall>m \<in> set (pt_members t). mb_operation m \<in> cm_operation ` set (pt_commands t) \<and> mb_provisioning m \<in> op_provisioning ` set (pt_operations t))
     \<and> (\<forall>c \<in> set (pt_commands t). cm_operation c < 2 ^ 128 \<and> cm_state c \<noteq> ''cancelled'')"

text \<open>\<open>X\<close> are the commands whose state may be behind their entities, in the middle of a transaction.\<close>

definition ledger_but :: "pylib \<Rightarrow> nat set \<Rightarrow> database \<Rightarrow> bool" where
  "ledger_but L X d \<longleftrightarrow> tables_ok (db_provisioning d)
     \<and> (\<forall>c \<in> set (pt_commands (db_provisioning d)). announced_upto L d (CommandRecord.truncate c)
         \<and> (cm_operation c \<notin> X \<longrightarrow> derived (db_provisioning d) c))
     \<and> (\<forall>op < 2 ^ 128. op \<notin> cm_operation ` set (pt_commands (db_provisioning d)) \<longrightarrow> command_events d op = [])"

definition ledger :: "pylib \<Rightarrow> database \<Rightarrow> bool" where
  "ledger L d = ledger_but L {} d"

lemma show_uuid_inj: "a < 2 ^ 128 \<Longrightarrow> b < 2 ^ 128 \<Longrightarrow> show_uuid a = show_uuid b \<longleftrightarrow> a = b"
  using uuid_roundtrip by (metis option.inject)

lemma on_tables_Inr:
  "on_tables m s = (Inr a, s') \<longleftrightarrow> (\<exists>t. m (db_provisioning (pr_db s)) = (Inr a, t) \<and> s' = s\<lparr>pr_db := (pr_db s)\<lparr>db_provisioning := t\<rparr>\<rparr>)"
  by (auto simp: on_tables_def on_db_def split: prod.splits)

lemma announce_command_Inr:
  assumes "announce_command L pg c s = (Inr (), s')"
  obtains row ticks where "s' = s\<lparr>pr_db := (pr_db s)\<lparr>db_outbox := db_outbox (pr_db s) @ [row]\<rparr>, pr_ticks := ticks\<rparr>"
    "ob_cloudevents row" "ob_type row = PROVISIONING_EVENT" "ob_subject row = command_subject (cm_operation c)"
    "ob_idempotency row = Some (command_event_key (cm_operation c) (cm_revision c))" "ob_data row = state_document L c"
proof -
  obtain e t s1 where e: "provisioning_changed L c = Inr e" and s1: "s1 = s\<lparr>pr_ticks := Suc (pr_ticks s)\<rparr>"
      and run: "on_db (store_outbox (record_event L pg e t)) s1 = (Inr (), s')"
    using assms by (auto simp: announce_command_def bindS_Inr_iff)
  from run obtain rows where "record_event L pg e t (db_outbox (pr_db s1)) = Inr rows" "s' = s1\<lparr>pr_db := (pr_db s1)\<lparr>db_outbox := rows\<rparr>\<rparr>"
    by (auto simp: on_db_def store_outbox_def split: prod.splits sum.splits)
  moreover from this obtain n corr caus where "rows = db_outbox (pr_db s1) @ [event_row e n corr caus t]" by (auto elim: record_event_cases)
  moreover have "jtext (ev_type e) = PROVISIONING_EVENT" "jtext (ev_subject e) = command_subject (cm_operation c)"
      "ev_idempotencykey e = JStr (command_event_key (cm_operation c) (cm_revision c))" "ev_data e = state_document L c"
    using e by (auto simp: provisioning_changed_def mapE_exn_Inr dest!: validate_Inr split: option.splits)
  ultimately show ?thesis
    using that [of "pr_ticks s1" "event_row e n corr caus t"] s1 by (auto simp: event_row_def)
qed

lemma command_events_append:
  "command_events (d\<lparr>db_outbox := db_outbox d @ [row]\<rparr>) op = command_events d op
     @ (if ob_cloudevents row \<and> ob_type row = PROVISIONING_EVENT \<and> ob_subject row = command_subject op then [row] else [])"
  by (simp add: command_events_def)

lemma command_events_tables [simp]: "command_events (d\<lparr>db_provisioning := t\<rparr>) op = command_events d op"
  by (simp add: command_events_def)

lemma derive_never_cancelled: "derive_state xs = Inr (st, f) \<Longrightarrow> st \<noteq> ''cancelled'' \<and> (st = ''failed'' \<longleftrightarrow> f \<noteq> None)"
  by (auto simp: derive_state_def split: if_splits)

section \<open>Projecting a change\<close>

lemma tables_ok_command: "tables_ok t \<Longrightarrow> c \<in> set (pt_commands t) \<Longrightarrow> c' \<in> set (pt_commands t) \<Longrightarrow> cm_operation c = cm_operation c' \<Longrightarrow> c = c'"
  by (auto simp: tables_ok_def distinct_map inj_on_def)

lemma owner_Some: "owner_of t pid = Some op \<Longrightarrow> \<exists>m \<in> set (pt_members t). mb_provisioning m = pid \<and> mb_operation m = op"
  by (auto simp: owner_of_def dest: select_one_SomeD)

lemma member_statuses_commands [simp]: "member_statuses (t\<lparr>pt_commands := cs\<rparr>) op = member_statuses t op"
  by (simp add: member_statuses_def)

lemma owner_of_commands [simp]: "owner_of (t\<lparr>pt_commands := cs\<rparr>) pid = owner_of t pid"
  by (simp add: owner_of_def)

definition moved_row :: "string \<Rightarrow> string option \<Rightarrow> instant \<Rightarrow> command_row \<Rightarrow> command_row" where
  "moved_row state failure now c = c\<lparr>cm_state := state, cm_failure := failure, cm_revision := cm_revision c + 1, cm_updated := now\<rparr>"

lemma moved_row_members [simp]:
  "cm_operation (moved_row st f now c) = cm_operation c" "cm_state (moved_row st f now c) = st" "cm_failure (moved_row st f now c) = f"
  "cm_revision (moved_row st f now c) = cm_revision c + 1"
  by (simp_all add: moved_row_def)

text \<open>What a projection does: nothing without an owner or a difference, and otherwise one revision and its announcement.\<close>

definition projected :: "pylib \<Rightarrow> string \<Rightarrow> database \<Rightarrow> database \<Rightarrow> bool" where
  "projected L pid d d' \<longleftrightarrow> (let t = db_provisioning d in
     case owner_of t pid of
       None \<Rightarrow> d' = d
     | Some op \<Rightarrow> (\<exists>c \<in> set (pt_commands t). cm_operation c = op \<and> (\<exists>state failure.
         derive_state (map status_text (member_statuses t op)) = Inr (state, failure)
         \<and> (if cm_state c = state \<and> cm_failure c = failure then d' = d
             else \<exists>now row. let c' = moved_row state failure now c in
               d' = d\<lparr>db_provisioning := t\<lparr>pt_commands := update_where (\<lambda>x. cm_operation x = op) (\<lambda>_. c') (pt_commands t)\<rparr>,
                 db_outbox := db_outbox d @ [row]\<rparr>
               \<and> ob_cloudevents row \<and> ob_type row = PROVISIONING_EVENT \<and> ob_subject row = command_subject op
               \<and> ob_idempotency row = Some (command_event_key op (cm_revision c'))
               \<and> ob_data row = state_document L (CommandRecord.truncate c')))))"

lemma update_where_cong: "(\<And>r. r \<in> set rows \<Longrightarrow> P r = Q r \<and> (P r \<longrightarrow> f r = g r)) \<Longrightarrow> update_where P f rows = update_where Q g rows"
  by (induction rows) auto

lemma project_Inr:
  assumes "tables_ok (db_provisioning (pr_db s))" "project L pg pid s = (Inr r, s')"
  shows "projected L pid (pr_db s) (pr_db s') \<and> pr_saved s' = pr_saved s"
proof -
  let ?d = "pr_db s" and ?t = "db_provisioning (pr_db s)"
  show ?thesis
  proof (cases "owner_of ?t pid")
    case None
    then show ?thesis using assms(2) by (simp add: project_def projected_def bindS_def)
  next
    case (Some op)
    then obtain c where c: "c \<in> set (pt_commands ?t)" "cm_operation c = op"
      using owner_Some [OF Some] assms(1) by (auto simp: tables_ok_def)
    from Some assms(2) obtain state failure where st: "derive_state (map status_text (member_statuses ?t op)) = Inr (state, failure)"
        and run: "advance_state L pg op state failure s = (Inr r, s')"
      by (auto simp: project_def bindS_Inr_iff)
    define moves where "moves x \<longleftrightarrow> cm_operation x = op \<and> cm_state x \<noteq> ''cancelled'' \<and> (cm_state x \<noteq> state \<or> cm_failure x \<noteq> failure)"
      for x :: command_row
    let ?s1 = "s\<lparr>pr_ticks := Suc (pr_ticks s)\<rparr>" and ?now = "pr_clock s (pr_ticks s)"
    let ?t' = "?t\<lparr>pt_commands := update_where moves (moved_row state failure ?now) (pt_commands ?t)\<rparr>"
    have adv: "advance_command op state failure ?now ?t =
        (Inr (map_option (\<lambda>c. CommandRecord.truncate (moved_row state failure ?now c)) (select_one moves (pt_commands ?t))), ?t')"
      by (simp add: advance_command_def Let_def moves_def [abs_def] moved_row_def [abs_def])
    have run': "(case select_one moves (pt_commands ?t) of
          None \<Rightarrow> returnS None
        | Some c \<Rightarrow> bindS (announce_command L pg (CommandRecord.truncate (moved_row state failure ?now c)))
            (\<lambda>_. returnS (Some (CommandRecord.truncate (moved_row state failure ?now c)))))
        (?s1\<lparr>pr_db := ?d\<lparr>db_provisioning := ?t'\<rparr>\<rparr>) = (Inr r, s')"
      using run adv by (auto simp: advance_state_def bindS_Inr_iff on_tables_Inr split: option.splits if_splits)
    have only: "x \<in> set (pt_commands ?t) \<Longrightarrow> moves x \<longleftrightarrow> x = c \<and> (cm_state c \<noteq> state \<or> cm_failure c \<noteq> failure)" for x
      using c tables_ok_command [OF assms(1)] assms(1) by (auto simp: moves_def tables_ok_def)
    show ?thesis
    proof (cases "cm_state c = state \<and> cm_failure c = failure")
      case True
      then have "select_one moves (pt_commands ?t) = None" "?t' = ?t"
        using only by (auto simp: select_one_None_iff intro!: provisioning_tables.equality update_where_none)
      with run' Some c st True show ?thesis by (auto simp: projected_def Let_def)
    next
      case False
      have sel: "select_one moves (pt_commands ?t) = Some c"
      proof (cases "select_one moves (pt_commands ?t)")
        case None
        then show ?thesis using only c False by (auto simp: select_one_None_iff)
      next
        case (Some c')
        then show ?thesis using only select_one_SomeD [OF Some] by auto
      qed
      let ?c' = "moved_row state failure ?now c"
      have upd: "update_where moves (moved_row state failure ?now) (pt_commands ?t) =
          update_where (\<lambda>x. cm_operation x = op) (\<lambda>_. ?c') (pt_commands ?t)"
        using only False c tables_ok_command [OF assms(1)] by (intro update_where_cong) (auto simp: moves_def)
      from run' sel have "announce_command L pg (CommandRecord.truncate ?c') (?s1\<lparr>pr_db := ?d\<lparr>db_provisioning := ?t'\<rparr>\<rparr>) = (Inr (), s')"
        by (auto simp: bindS_Inr_iff)
      then obtain row ticks where "s' = ?s1\<lparr>pr_db := ?d\<lparr>db_provisioning := ?t'\<rparr>\<rparr>\<lparr>pr_db := (?d\<lparr>db_provisioning := ?t'\<rparr>)\<lparr>db_outbox := db_outbox ?d @ [row]\<rparr>, pr_ticks := ticks\<rparr>"
          "ob_cloudevents row" "ob_type row = PROVISIONING_EVENT" "ob_subject row = command_subject op"
          "ob_idempotency row = Some (command_event_key op (cm_revision ?c'))" "ob_data row = state_document L (CommandRecord.truncate ?c')"
        using c by (elim announce_command_Inr) (auto simp: CommandRecord.truncate_def)
      then show ?thesis
        using Some st c False upd unfolding projected_def Let_def by (auto intro!: bexI [of _ c] exI [of _ ?now] exI [of _ row])
    qed
  qed
qed

lemma moved_ids:
  "map cm_operation (update_where (\<lambda>x. cm_operation x = cm_operation c) (\<lambda>_. moved_row st f now c) rows) = map cm_operation rows"
  by (rule map_update_where) auto

lemma tables_moved:
  assumes "tables_ok t" "c \<in> set (pt_commands t)" "st \<noteq> ''cancelled''"
  shows "tables_ok (t\<lparr>pt_commands := update_where (\<lambda>x. cm_operation x = cm_operation c) (\<lambda>_. moved_row st f now c) (pt_commands t)\<rparr>)"
    (is "tables_ok (t\<lparr>pt_commands := ?rows\<rparr>)")
proof -
  have "cm_operation ` set ?rows = cm_operation ` set (pt_commands t)" using moved_ids [of c st f now "pt_commands t"] by (metis list.set_map)
  moreover have "\<forall>x \<in> set ?rows. cm_operation x < 2 ^ 128 \<and> cm_state x \<noteq> ''cancelled''"
    using assms by (auto simp: set_update_where tables_ok_def)
  ultimately show ?thesis using assms(1) by (simp add: tables_ok_def moved_ids)
qed

lemma ledger_projected:
  assumes l: "ledger_but L (set_option (owner_of (db_provisioning d) pid)) d" and p: "projected L pid d d'"
  shows "ledger L d'"
proof (cases "owner_of (db_provisioning d) pid")
  case None
  then show ?thesis using l p by (simp add: ledger_def projected_def)
next
  case (Some op)
  let ?t = "db_provisioning d"
  have t: "tables_ok ?t" using l by (simp add: ledger_but_def)
  from p Some obtain c state failure where c: "c \<in> set (pt_commands ?t)" "cm_operation c = op"
      and st: "derive_state (map status_text (member_statuses ?t op)) = Inr (state, failure)"
      and change: "if cm_state c = state \<and> cm_failure c = failure then d' = d
         else \<exists>now row. let c' = moved_row state failure now c in
           d' = d\<lparr>db_provisioning := ?t\<lparr>pt_commands := update_where (\<lambda>x. cm_operation x = op) (\<lambda>_. c') (pt_commands ?t)\<rparr>,
             db_outbox := db_outbox d @ [row]\<rparr>
           \<and> ob_cloudevents row \<and> ob_type row = PROVISIONING_EVENT \<and> ob_subject row = command_subject op
           \<and> ob_idempotency row = Some (command_event_key op (cm_revision c'))
           \<and> ob_data row = state_document L (CommandRecord.truncate c')"
    unfolding projected_def Let_def by auto
  show ?thesis
  proof (cases "cm_state c = state \<and> cm_failure c = failure")
    case True
    then have "x = c \<Longrightarrow> derived ?t x" for x using st c by (simp add: derived_def)
    moreover have "cm_operation x = op \<Longrightarrow> x = c" if "x \<in> set (pt_commands ?t)" for x using tables_ok_command [OF t that c(1)] c(2) by simp
    ultimately have "ledger_but L {} d" using l Some by (auto simp: ledger_but_def)
    then show ?thesis using change True by (simp add: ledger_def)
  next
    case False
    then obtain now row where d': "d' = d\<lparr>db_provisioning := ?t\<lparr>pt_commands := update_where (\<lambda>x. cm_operation x = cm_operation c) (\<lambda>_. moved_row state failure now c) (pt_commands ?t)\<rparr>,
             db_outbox := db_outbox d @ [row]\<rparr>"
        and row: "ob_cloudevents row" "ob_type row = PROVISIONING_EVENT" "ob_subject row = command_subject op"
          "ob_idempotency row = Some (command_event_key op (cm_revision (moved_row state failure now c)))"
          "ob_data row = state_document L (CommandRecord.truncate (moved_row state failure now c))"
      using change c unfolding Let_def by auto
    let ?c' = "moved_row state failure now c"
    let ?rows = "update_where (\<lambda>x. cm_operation x = cm_operation c) (\<lambda>_. ?c') (pt_commands ?t)"
    have tables: "tables_ok (db_provisioning d')" using tables_moved [OF t c(1)] derive_never_cancelled [OF st] d' by simp
    have events: "command_events d' o' = command_events d o' @ (if command_subject o' = command_subject op then [row] else [])" for o'
      using row d' by (auto simp: command_events_def)
    have others: "o' < 2 ^ 128 \<Longrightarrow> o' \<noteq> op \<Longrightarrow> command_events d' o' = command_events d o'" for o'
      using events [of o'] show_uuid_inj [of o' op] c t by (auto simp: command_subject_def tables_ok_def)
    have ids: "cm_operation ` set ?rows = cm_operation ` set (pt_commands ?t)"
      using moved_ids [of c state failure now "pt_commands ?t"] by (metis list.set_map)
    have "announced_upto L d' (CommandRecord.truncate x) \<and> derived (db_provisioning d') x" if x: "x \<in> set ?rows" for x
    proof (cases "cm_operation x = op")
      case True
      then have xc: "x = ?c'" using x c by (auto simp: set_update_where)
      have "announced_upto L d (CommandRecord.truncate c)" using l c by (simp add: ledger_but_def)
      then have "announced_upto L d' (CommandRecord.truncate x)"
        using xc c events [of op] row by (simp add: announced_upto_def CommandRecord.truncate_def)
      moreover have "derived (db_provisioning d') x" using st xc c d' by (simp add: derived_def)
      ultimately show ?thesis by blast
    next
      case False
      then have x': "x \<in> set (pt_commands ?t)" "cm_operation x < 2 ^ 128" using x c t by (auto simp: set_update_where tables_ok_def)
      then show ?thesis using l Some False others [of "cm_operation x"] d'
        by (auto simp: ledger_but_def announced_upto_def CommandRecord.truncate_def derived_def)
    qed
    moreover have "command_events d' o' = []" if "o' < 2 ^ 128" "o' \<notin> cm_operation ` set ?rows" for o'
      using that l others [of o'] ids c by (auto simp: ledger_but_def)
    ultimately show ?thesis using tables d' by (simp add: ledger_def ledger_but_def)
  qed
qed

section \<open>What an operation of the stores keeps\<close>

text \<open>The ledger looks at the identities and statuses of the operations, the commands and their members, and the announcements.\<close>

definition same_ledger :: "database \<Rightarrow> database \<Rightarrow> bool" where
  "same_ledger d d' \<longleftrightarrow> (let t = db_provisioning d; t' = db_provisioning d' in
     map (\<lambda>x. (op_provisioning x, op_status x)) (pt_operations t') = map (\<lambda>x. (op_provisioning x, op_status x)) (pt_operations t)
     \<and> pt_commands t' = pt_commands t \<and> pt_members t' = pt_members t \<and> command_events d' = command_events d)"

lemma statuses_cong:
  "map (\<lambda>x. (op_provisioning x, op_status x)) xs = map (\<lambda>x. (op_provisioning x, op_status x)) ys \<Longrightarrow>
     map op_status (filter (operation_of p) xs) = map op_status (filter (operation_of p) ys)"
proof (induction xs arbitrary: ys)
  case (Cons x xs)
  then show ?case by (cases ys) (auto simp: operation_of_def)
qed simp

lemma ids_cong: "map (\<lambda>x. (op_provisioning x, op_status x)) xs = map (\<lambda>x. (op_provisioning x, op_status x)) ys \<Longrightarrow>
    map op_provisioning xs = map op_provisioning ys"
  by (drule arg_cong [where f = "map fst"]) (simp add: comp_def)

lemma same_ledger_keeps:
  assumes "same_ledger d d'" "ledger L d"
  shows "ledger L d'"
proof -
  let ?t = "db_provisioning d" and ?t' = "db_provisioning d'"
  have ops: "map (\<lambda>x. (op_provisioning x, op_status x)) (pt_operations ?t') = map (\<lambda>x. (op_provisioning x, op_status x)) (pt_operations ?t)"
    and rest: "pt_commands ?t' = pt_commands ?t" "pt_members ?t' = pt_members ?t" "command_events d' = command_events d"
    using assms(1) by (simp_all add: same_ledger_def Let_def)
  have "member_statuses ?t' op = member_statuses ?t op" for op
    using statuses_cong [OF ops] rest(2) by (simp add: member_statuses_def)
  moreover have "map op_provisioning (pt_operations ?t') = map op_provisioning (pt_operations ?t)" using ops by (rule ids_cong)
  moreover from this have "op_provisioning ` set (pt_operations ?t') = op_provisioning ` set (pt_operations ?t)" by (metis list.set_map)
  ultimately show ?thesis
    using assms(2) rest by (simp add: ledger_def ledger_but_def tables_ok_def derived_def announced_upto_def)
qed

text \<open>\<open>I\<close> holds of what is committed, and of what is not yet when the operation returned.\<close>

definition safeguards :: "(database \<Rightarrow> bool) \<Rightarrow> ('n proc, exn, 'a) op \<Rightarrow> bool" where
  "safeguards I m \<longleftrightarrow> (\<forall>s r s'. I (pr_db s) \<and> I (pr_saved s) \<and> m s = (r, s') \<longrightarrow>
     I (pr_saved s') \<and> (\<forall>a. r = Inr a \<longrightarrow> I (pr_db s')))"

lemma safeguardsD:
  "safeguards I m \<Longrightarrow> I (pr_db s) \<Longrightarrow> I (pr_saved s) \<Longrightarrow> m s = (r, s') \<Longrightarrow> I (pr_saved s') \<and> (\<forall>a. r = Inr a \<longrightarrow> I (pr_db s'))"
  unfolding safeguards_def by blast

lemma safe_quiet:
  assumes m: "within (\<lambda>s s'. pr_db s' = pr_db s \<and> pr_saved s' = pr_saved s) m"
  shows "safeguards I m"
  unfolding safeguards_def
proof (intro allI impI)
  fix s r s'
  assume a: "I (pr_db s) \<and> I (pr_saved s) \<and> m s = (r, s')"
  then have "m s = (r, s')" by simp
  from withinD [OF m this] a show "I (pr_saved s') \<and> (\<forall>a. r = Inr a \<longrightarrow> I (pr_db s'))" by simp
qed

lemma safe_stop:
  "safeguards I (returnS a)" "safeguards I (raiseS e)" "safeguards I (liftS r)" "safeguards I (readS f)" "safeguards I (checkS ok e)"
  "safeguards I read_clock" "safeguards I draw_uuid"
  by (rule safe_quiet, simp add: within_def checkS_def read_clock_def draw_uuid_def)+

lemma safe_transaction_ends: "safeguards I commit_tx" "safeguards I rollback_tx"
  by (simp_all add: safeguards_def commit_tx_def rollback_tx_def)

lemma safe_bindS: "safeguards I m \<Longrightarrow> (\<And>a. safeguards I (f a)) \<Longrightarrow> safeguards I (bindS m f)"
  unfolding safeguards_def
proof (intro allI impI)
  fix s r s'
  assume m: "\<forall>s r s'. I (pr_db s) \<and> I (pr_saved s) \<and> m s = (r, s') \<longrightarrow> I (pr_saved s') \<and> (\<forall>a. r = Inr a \<longrightarrow> I (pr_db s'))"
    and f: "\<And>a. \<forall>s r s'. I (pr_db s) \<and> I (pr_saved s) \<and> f a s = (r, s') \<longrightarrow> I (pr_saved s') \<and> (\<forall>a. r = Inr a \<longrightarrow> I (pr_db s'))"
    and run: "I (pr_db s) \<and> I (pr_saved s) \<and> bindS m f s = (r, s')"
  obtain r1 s1 where first: "m s = (r1, s1)" by (metis prod.collapse)
  have one: "I (pr_saved s1) \<and> (\<forall>a. r1 = Inr a \<longrightarrow> I (pr_db s1))" using m run first by blast
  show "I (pr_saved s') \<and> (\<forall>a. r = Inr a \<longrightarrow> I (pr_db s'))"
  proof (cases r1)
    case (Inr a)
    then have "f a s1 = (r, s')" using run first by (simp add: bindS_def)
    with f one Inr show ?thesis by blast
  qed (use run first one in \<open>auto simp: bindS_def\<close>)
qed

lemma safe_cases:
  "safeguards I m \<Longrightarrow> safeguards I n \<Longrightarrow> safeguards I (if b then m else n)"
  "safeguards I m \<Longrightarrow> (\<And>a. safeguards I (f a)) \<Longrightarrow> safeguards I (case x of None \<Rightarrow> m | Some a \<Rightarrow> f a)"
  "(\<And>a b. safeguards I (g a b)) \<Longrightarrow> safeguards I (case p of (a, b) \<Rightarrow> g a b)"
  by (simp_all split: option.split prod.split)

lemma safe_on_tables:
  assumes "\<And>d a t. I d \<Longrightarrow> m (db_provisioning d) = (Inr a, t) \<Longrightarrow> I (d\<lparr>db_provisioning := t\<rparr>)"
  shows "safeguards I (on_tables m)"
  unfolding safeguards_def
proof (intro allI impI)
  fix s r s'
  assume a: "I (pr_db s) \<and> I (pr_saved s) \<and> on_tables m s = (r, s')"
  then have "pr_saved s' = pr_saved s" by (auto simp: on_tables_def on_db_def split: prod.splits)
  moreover have "I (pr_db s')" if "r = Inr x" for x
    using a that assms by (auto simp: on_tables_Inr)
  ultimately show "I (pr_saved s') \<and> (\<forall>a. r = Inr a \<longrightarrow> I (pr_db s'))" using a by simp
qed

lemmas safe_rules = safe_stop safe_transaction_ends safe_bindS safe_cases

section \<open>The operations of the stores\<close>

lemma unowned_statuses:
  "p \<noteq> pid \<Longrightarrow> (\<And>x. op_provisioning (f x) = op_provisioning x) \<Longrightarrow>
     filter (operation_of p) (update_where (operation_of pid) f xs) = filter (operation_of p) xs"
  by (induction xs) (auto simp: operation_of_def)

lemma owner_unique: "tables_ok t \<Longrightarrow> m \<in> set (pt_members t) \<Longrightarrow> owner_of t (mb_provisioning m) = Some (mb_operation m)"
proof -
  assume t: "tables_ok t" and m: "m \<in> set (pt_members t)"
  have "select_one (\<lambda>x. mb_provisioning x = mb_provisioning m) (pt_members t) = Some m"
  proof (cases "select_one (\<lambda>x. mb_provisioning x = mb_provisioning m) (pt_members t)")
    case None
    then show ?thesis using m by (auto simp: select_one_None_iff)
  next
    case (Some x)
    then have "x \<in> set (pt_members t)" "mb_provisioning x = mb_provisioning m" using select_one_SomeD by fastforce+
    then show ?thesis using Some t m by (auto simp: tables_ok_def distinct_map inj_on_def)
  qed
  then show ?thesis by (simp add: owner_of_def)
qed

lemma ledger_updated:
  assumes l: "ledger L d" and f: "\<And>x. op_provisioning (f x) = op_provisioning x"
  shows "ledger_but L (set_option (owner_of (db_provisioning d) pid))
     (d\<lparr>db_provisioning := (db_provisioning d)\<lparr>pt_operations := update_where (operation_of pid) f (pt_operations (db_provisioning d))\<rparr>\<rparr>)"
    (is "ledger_but L ?X (d\<lparr>db_provisioning := ?t\<lparr>pt_operations := ?ops\<rparr>\<rparr>)")
proof -
  have t: "tables_ok ?t" using l by (simp add: ledger_def ledger_but_def)
  have ids: "map op_provisioning ?ops = map op_provisioning (pt_operations ?t)" by (rule map_update_where) (rule f)
  then have set: "op_provisioning ` set ?ops = op_provisioning ` set (pt_operations ?t)" by (metis list.set_map)
  have "tables_ok (?t\<lparr>pt_operations := ?ops\<rparr>)" using t ids set by (simp add: tables_ok_def)
  moreover have "member_statuses (?t\<lparr>pt_operations := ?ops\<rparr>) op = member_statuses ?t op" if "op \<notin> ?X" for op
  proof -
    have "mb_provisioning m \<noteq> pid" if "m \<in> set (pt_members ?t)" "mb_operation m = op" for m
      using owner_unique [OF t that(1)] that(2) \<open>op \<notin> ?X\<close> by auto
    then show ?thesis
      by (auto simp: member_statuses_def unowned_statuses f intro!: arg_cong [where f = concat])
  qed
  ultimately show ?thesis using l by (auto simp: ledger_def ledger_but_def derived_def announced_upto_def)
qed

lemma project_unsaved: "within unsaved (project L pg pid)"
proof -
  have quiet: "within unsaved (on_db m)" for m by (simp add: within_def unsaved_def on_db_def split: prod.split)
  show ?thesis
    unfolding project_def advance_state_def announce_command_def on_tables_def
    by (intro within_intros quiet) (auto simp: within_def unsaved_def read_clock_def intro!: reflpI transpI)
qed

text \<open>A change of one operation, its projection and the commit.\<close>

lemma changed_ledger:
  assumes "ledger L (pr_db s)" "ledger L (pr_saved s)" "\<And>x. op_provisioning (f x) = op_provisioning x"
    "bindS (on_tables (update_operation pid f)) (\<lambda>_. bindS (project L pg pid) (\<lambda>_. commit_tx)) s = (r, s')"
  shows "ledger L (pr_saved s') \<and> (\<forall>a. r = Inr a \<longrightarrow> ledger L (pr_db s'))"
proof -
  let ?d = "pr_db s" and ?t = "db_provisioning (pr_db s)"
  let ?d1 = "?d\<lparr>db_provisioning := ?t\<lparr>pt_operations := update_where (operation_of pid) f (pt_operations ?t)\<rparr>\<rparr>"
  let ?s1 = "s\<lparr>pr_db := ?d1\<rparr>"
  have run: "bindS (project L pg pid) (\<lambda>_. commit_tx) ?s1 = (r, s')"
    using assms(4) by (simp add: bindS_def on_tables_def on_db_def update_operation_def)
  obtain r1 s1 where first: "project L pg pid ?s1 = (r1, s1)" by (metis prod.collapse)
  have but: "ledger_but L (set_option (owner_of ?t pid)) ?d1" by (rule ledger_updated [OF assms(1,3)])
  show ?thesis
  proof (cases r1)
    case (Inr u)
    then have "projected L pid ?d1 (pr_db s1) \<and> pr_saved s1 = pr_saved s"
      using project_Inr [of ?s1 L pg pid u s1] first but by (simp add: ledger_but_def)
    moreover have "owner_of (db_provisioning ?d1) pid = owner_of ?t pid" by (simp add: owner_of_def)
    ultimately have "ledger L (pr_db s1)" using ledger_projected [of L ?d1 pid "pr_db s1"] but by simp
    then show ?thesis using run first Inr by (auto simp: bindS_def commit_tx_def)
  next
    case (Inl e)
    have "pr_saved s1 = pr_saved s" using withinD [OF project_unsaved first] by (simp add: unsaved_def)
    then show ?thesis using run first Inl assms(2) by (auto simp: bindS_def)
  qed
qed

lemma change_ledger:
  "(\<And>x. op_provisioning (f x) = op_provisioning x) \<Longrightarrow>
     safeguards (ledger L) (bindS (on_tables (update_operation pid f)) (\<lambda>_. bindS (project L pg pid) (\<lambda>_. commit_tx)))"
  unfolding safeguards_def using changed_ledger by blast

lemma status_changes_ledger:
  "safeguards (ledger L) (set_status L pg pid status err)" "safeguards (ledger L) (save_plan L pg p)"
  unfolding set_status_def save_plan_def by (rule change_ledger, simp)+

lemma safe_same_ledger:
  assumes "\<And>d a t. m (db_provisioning d) = (Inr a, t) \<Longrightarrow> same_ledger d (d\<lparr>db_provisioning := t\<rparr>)"
  shows "safeguards (ledger L) (on_tables m)"
  using assms by (intro safe_on_tables) (blast intro: same_ledger_keeps)

lemma mark_step_ledger: "safeguards (ledger L) (mark_step pid key status result)"
  unfolding mark_step_def
  by (intro safe_rules safe_same_ledger) (auto simp: upsert_step_def same_ledger_def Let_def fun_eq_iff split: if_splits)

lemma insert_operations_Inr:
  assumes "insert_operations rs t = (Inr (), t')"
  shows "t' = t\<lparr>pt_operations := pt_operations t @ rs\<rparr> \<and>
    (distinct (map op_provisioning (pt_operations t)) \<longrightarrow> distinct (map op_provisioning (pt_operations t @ rs)))"
  using assms
proof (induction rs arbitrary: t)
  case (Cons r rs)
  from Cons.prems have fresh: "op_provisioning r \<notin> op_provisioning ` set (pt_operations t)"
      and rest: "insert_operations rs (t\<lparr>pt_operations := pt_operations t @ [r]\<rparr>) = (Inr (), t')"
    by (auto simp: bindS_Inr_iff insert_operation_def list_ex_iff split: if_splits)
  with Cons.IH [OF rest] show ?case by auto
qed simp

lemma insert_members_Inr:
  assumes "insert_members ms t = (Inr (), t')"
  shows "t' = t\<lparr>pt_members := pt_members t @ ms\<rparr> \<and>
    (distinct (map mb_provisioning (pt_members t)) \<longrightarrow> distinct (map mb_provisioning (pt_members t @ ms)))
    \<and> (\<forall>m \<in> set ms. mb_operation m \<in> cm_operation ` set (pt_commands t) \<and> mb_provisioning m \<in> op_provisioning ` set (pt_operations t))"
  using assms
proof (induction ms arbitrary: t)
  case (Cons m ms)
  from Cons.prems have fresh: "mb_provisioning m \<notin> mb_provisioning ` set (pt_members t)"
      "mb_operation m \<in> cm_operation ` set (pt_commands t)" "mb_provisioning m \<in> op_provisioning ` set (pt_operations t)"
      and rest: "insert_members ms (t\<lparr>pt_members := pt_members t @ [m]\<rparr>) = (Inr (), t')"
    by (auto simp: bindS_Inr_iff insert_member_def list_ex_iff split: if_splits)
  with Cons.IH [OF rest] show ?case by auto
qed simp

lemma statuses_new_operations:
  assumes "tables_ok t" "distinct (map op_provisioning (pt_operations t @ rs))"
  shows "member_statuses (t\<lparr>pt_operations := pt_operations t @ rs\<rparr>) op = member_statuses t op"
proof -
  have "filter (operation_of (mb_provisioning m)) rs = []" if "m \<in> set (pt_members t)" for m
  proof -
    have "mb_provisioning m \<in> op_provisioning ` set (pt_operations t)" using assms(1) that by (simp add: tables_ok_def)
    moreover have "op_provisioning ` set (pt_operations t) \<inter> op_provisioning ` set rs = {}" using assms(2) by simp
    ultimately have "op_provisioning x \<noteq> mb_provisioning m" if "x \<in> set rs" for x using that by (metis IntI empty_iff imageI)
    then show ?thesis by (simp add: filter_empty_conv operation_of_def)
  qed
  then show ?thesis by (auto simp: member_statuses_def intro!: arg_cong [where f = concat])
qed

lemma ledger_new_operations:
  assumes "ledger L d" "distinct (map op_provisioning (pt_operations (db_provisioning d) @ rs))"
  shows "ledger L (d\<lparr>db_provisioning := (db_provisioning d)\<lparr>pt_operations := pt_operations (db_provisioning d) @ rs\<rparr>\<rparr>)"
proof -
  let ?t = "db_provisioning d"
  have t: "tables_ok ?t" using assms(1) by (simp add: ledger_def ledger_but_def)
  with assms(2) have "tables_ok (?t\<lparr>pt_operations := pt_operations ?t @ rs\<rparr>)" by (auto simp: tables_ok_def)
  then show ?thesis
    using assms(1) statuses_new_operations [OF t assms(2)] by (auto simp: ledger_def ledger_but_def derived_def announced_upto_def)
qed

lemma create_or_get_ledger: "safeguards (ledger L) (create_or_get pid key digest state)"
  unfolding create_or_get_def
proof (intro safe_rules safe_on_tables)
  fix d a t now
  assume l: "ledger L d" and run: "insert_operation \<lparr>op_provisioning = pid, op_key = key, op_state = state, op_digest = Some digest,
           op_plan = JNull, op_status = REQUESTED, op_error = None, op_created = now, op_attempts = 0, op_next = None,
           op_outcome = None\<rparr> (db_provisioning d) = (Inr a, t)" (is "insert_operation ?r _ = _")
  then have "insert_operations [?r] (db_provisioning d) = (Inr (), t)" by (simp add: bindS_Inr_iff)
  from insert_operations_Inr [OF this] ledger_new_operations [OF l, of "[?r]"] show "ledger L (d\<lparr>db_provisioning := t\<rparr>)"
    using l by (simp add: ledger_def ledger_but_def tables_ok_def)
qed

section \<open>Acceptance\<close>

lemma filter_unique:
  assumes "distinct (map key xs)" "x \<in> set xs"
  shows "filter (\<lambda>y. key y = key x) xs = [x]"
  using assms
proof (induction xs)
  case (Cons y ys)
  show ?case
  proof (cases "key y = key x")
    case True
    then have "y = x" using Cons.prems by (auto simp: image_iff)
    moreover have "filter (\<lambda>z. key z = key x) ys = []" using Cons.prems True by (auto simp: filter_empty_conv image_iff)
    ultimately show ?thesis by simp
  qed (use Cons in auto)
qed simp

definition accepted_tables :: "provisioning_tables \<Rightarrow> calendar \<Rightarrow> instant \<Rightarrow> command_row \<Rightarrow> PlannedEntity list \<Rightarrow> provisioning_tables" where
  "accepted_tables t K now c entities = t\<lparr>pt_operations := pt_operations t @ map (planned_row K now) entities,
     pt_commands := pt_commands t @ [c], pt_members := pt_members t @ map (membership_of (cm_operation c)) entities\<rparr>"

lemma accept_Inr:
  assumes "accept L pg K c key who fp entities s = (Inr r, s')"
  obtains op now row where "op = pr_uuids s (pr_drawn s)" "r = CommandRecord.truncate (accepted_row op c key who fp now)"
    "pr_db s' = (pr_db s)\<lparr>db_provisioning := accepted_tables (db_provisioning (pr_db s)) K now (accepted_row op c key who fp now) entities,
       db_outbox := db_outbox (pr_db s) @ [row]\<rparr>" "pr_saved s' = pr_saved s"
    "op \<notin> cm_operation ` set (pt_commands (db_provisioning (pr_db s)))"
    "tables_ok (db_provisioning (pr_db s)) \<Longrightarrow> distinct (map op_provisioning (pt_operations (db_provisioning (pr_db s)) @ map (planned_row K now) entities))
       \<and> distinct (map mb_provisioning (pt_members (db_provisioning (pr_db s)) @ map (membership_of op) entities))"
    "ob_cloudevents row" "ob_type row = PROVISIONING_EVENT" "ob_subject row = command_subject op"
    "ob_idempotency row = Some (command_event_key op 1)" "ob_data row = state_document L r"
proof -
  let ?t = "db_provisioning (pr_db s)" and ?op = "pr_uuids s (pr_drawn s)" and ?now = "pr_clock s (pr_ticks s)"
  let ?s1 = "s\<lparr>pr_drawn := Suc (pr_drawn s), pr_ticks := Suc (pr_ticks s)\<rparr>"
  let ?c = "accepted_row ?op c key who fp ?now"
  have op_member: "cm_operation ?c = ?op" by (simp add: accepted_row_def)
  from assms obtain t1 t2 t3 where ops: "insert_operations (map (planned_row K ?now) entities) ?t = (Inr (), t1)"
      and cmd: "insert_command ?c t1 = (Inr (), t2)" and mem: "insert_members (map (membership_of ?op) entities) t2 = (Inr (), t3)"
      and ann: "announce_command L pg (CommandRecord.truncate ?c) (?s1\<lparr>pr_db := (pr_db s)\<lparr>db_provisioning := t3\<rparr>\<rparr>) = (Inr (), s')"
      and r: "r = CommandRecord.truncate ?c"
    by (auto simp: accept_def bindS_Inr_iff on_tables_Inr draw_uuid_def Let_def)
  note o1 = insert_operations_Inr [OF ops]
  have o2: "t2 = t1\<lparr>pt_commands := pt_commands t1 @ [?c]\<rparr>" "?op \<notin> cm_operation ` set (pt_commands t1)"
    using cmd op_member by (auto simp: insert_command_def list_ex_iff split: if_splits)
  note o3 = insert_members_Inr [OF mem]
  have t3: "t3 = accepted_tables ?t K ?now ?c entities"
    using o1 o2 o3 op_member by (simp add: accepted_tables_def)
  from ann obtain row ticks where row: "s' = ?s1\<lparr>pr_db := (pr_db s)\<lparr>db_provisioning := t3\<rparr>\<rparr>\<lparr>pr_db := ((pr_db s)\<lparr>db_provisioning := t3\<rparr>)\<lparr>db_outbox := db_outbox (pr_db s) @ [row]\<rparr>, pr_ticks := ticks\<rparr>"
      "ob_cloudevents row" "ob_type row = PROVISIONING_EVENT" "ob_subject row = command_subject ?op"
      "ob_idempotency row = Some (command_event_key ?op 1)" "ob_data row = state_document L r"
    using r by (elim announce_command_Inr) (auto simp: CommandRecord.truncate_def accepted_row_def)
  show ?thesis
  proof (rule that [of ?op ?now row])
    show "tables_ok ?t \<Longrightarrow> distinct (map op_provisioning (pt_operations ?t @ map (planned_row K ?now) entities))
       \<and> distinct (map mb_provisioning (pt_members ?t @ map (membership_of ?op) entities))"
      using o1 o2 o3 by (auto simp: tables_ok_def)
  qed (use r row t3 o1 o2 in simp_all)
qed

lemma accepted_statuses:
  assumes t: "tables_ok t" and d: "distinct (map op_provisioning (pt_operations t @ map (planned_row K now) entities))"
    and op: "cm_operation c \<notin> cm_operation ` set (pt_commands t)"
  shows "member_statuses (accepted_tables t K now c entities) (cm_operation c) = map (\<lambda>_. PLANNED) entities"
    and "x \<noteq> cm_operation c \<Longrightarrow> member_statuses (accepted_tables t K now c entities) x = member_statuses t x"
proof -
  let ?rows = "map (planned_row K now) entities"
  have old: "filter (\<lambda>m. mb_operation m = cm_operation c) (pt_members t) = []"
  proof -
    have "mb_operation m \<noteq> cm_operation c" if "m \<in> set (pt_members t)" for m
      using t op that unfolding tables_ok_def by metis
    then show ?thesis by (simp add: filter_empty_conv)
  qed
  have one: "map op_status (filter (operation_of (rq_provisioning (pe_request e))) (pt_operations t @ ?rows)) = [PLANNED]" if "e \<in> set entities" for e
  proof -
    have "planned_row K now e \<in> set (pt_operations t @ ?rows)" using that by simp
    with d have "filter (\<lambda>x. op_provisioning x = op_provisioning (planned_row K now e)) (pt_operations t @ ?rows) = [planned_row K now e]"
      by (rule filter_unique)
    from arg_cong [OF this, of "map op_status"] show ?thesis by (simp add: operation_of_def [abs_def] planned_row_def)
  qed
  have "concat (map (\<lambda>e. map op_status (filter (operation_of (rq_provisioning (pe_request e))) (pt_operations t @ ?rows))) es) = map (\<lambda>_. PLANNED) es"
    if "set es \<subseteq> set entities" for es
    using that one by (induction es) simp_all
  from this [of entities] show "member_statuses (accepted_tables t K now c entities) (cm_operation c) = map (\<lambda>_. PLANNED) entities"
    using old by (simp add: member_statuses_def accepted_tables_def membership_of_def filter_map comp_def)
  show "x \<noteq> cm_operation c \<Longrightarrow> member_statuses (accepted_tables t K now c entities) x = member_statuses t x"
    using statuses_new_operations [OF t d, of x] by (simp add: member_statuses_def accepted_tables_def membership_of_def filter_map comp_def)
qed

lemma ledger_accepted:
  assumes l: "ledger L d" and op: "op \<notin> cm_operation ` set (pt_commands (db_provisioning d))" "op < 2 ^ 128" and e: "entities \<noteq> []"
    and ops: "distinct (map op_provisioning (pt_operations (db_provisioning d) @ map (planned_row K now) entities))"
    and members: "distinct (map mb_provisioning (pt_members (db_provisioning d) @ map (membership_of op) entities))"
    and c: "c = accepted_row op cmd key who fp now"
    and row: "ob_cloudevents row" "ob_type row = PROVISIONING_EVENT" "ob_subject row = command_subject op"
      "ob_idempotency row = Some (command_event_key op 1)" "ob_data row = state_document L (CommandRecord.truncate c)"
    and d': "d' = d\<lparr>db_provisioning := accepted_tables (db_provisioning d) K now c entities, db_outbox := db_outbox d @ [row]\<rparr>"
  shows "ledger L d'"
proof -
  let ?t = "db_provisioning d" and ?t' = "accepted_tables (db_provisioning d) K now c entities"
  have t: "tables_ok ?t" using l by (simp add: ledger_def ledger_but_def)
  have id: "cm_operation c = op" "cm_revision c = 1" "cm_state c = ''accepted''" "cm_failure c = None" using c by (simp_all add: accepted_row_def)
  have "\<forall>m \<in> set (pt_members ?t'). mb_operation m \<in> cm_operation ` set (pt_commands ?t') \<and> mb_provisioning m \<in> op_provisioning ` set (pt_operations ?t')"
  proof
    fix m
    assume "m \<in> set (pt_members ?t')"
    then consider (old) "m \<in> set (pt_members ?t)" | (new) e where "e \<in> set entities" "m = membership_of op e"
      using id by (auto simp: accepted_tables_def)
    then show "mb_operation m \<in> cm_operation ` set (pt_commands ?t') \<and> mb_provisioning m \<in> op_provisioning ` set (pt_operations ?t')"
    proof cases
      case old
      then show ?thesis using t by (auto simp: tables_ok_def accepted_tables_def)
    next
      case new
      have "planned_row K now e \<in> set (pt_operations ?t')" "c \<in> set (pt_commands ?t')" using new by (simp_all add: accepted_tables_def)
      moreover have "mb_provisioning m = op_provisioning (planned_row K now e)" "mb_operation m = cm_operation c"
        using new id by (simp_all add: membership_of_def planned_row_def)
      ultimately show ?thesis by simp
    qed
  qed
  then have tables: "tables_ok ?t'"
    using t ops members op id by (simp add: tables_ok_def accepted_tables_def)
  have events: "command_events d' o' = command_events d o' @ (if command_subject o' = command_subject op then [row] else [])" for o'
    using row d' by (auto simp: command_events_def)
  have others: "o' < 2 ^ 128 \<Longrightarrow> o' \<noteq> op \<Longrightarrow> command_events d' o' = command_events d o'" for o'
    using events [of o'] show_uuid_inj [of o' op] op by (auto simp: command_subject_def)
  note sts = accepted_statuses [OF t ops, of c]
  have own: "announced_upto L d' (CommandRecord.truncate c) \<and> derived ?t' c"
  proof -
    have "command_events d op = []" using l op by (simp add: ledger_def ledger_but_def)
    then have "command_events d' op = [row]" using events [of op] by simp
    moreover have "derive_state (map status_text (map (\<lambda>_. PLANNED) entities)) = Inr (''accepted'', None)"
      using e by (auto simp: derive_state_def all_in_def S_DONE_def S_IN_FLIGHT_def S_SETTLING_def S_NOT_STARTED_def list_all_iff list_ex_iff)
    ultimately show ?thesis
      using row sts(1) op id by (simp add: announced_upto_def CommandRecord.truncate_def derived_def)
  qed
  have "announced_upto L d' (CommandRecord.truncate x) \<and> derived ?t' x" if "x \<in> set (pt_commands ?t)" for x
  proof -
    have x: "cm_operation x < 2 ^ 128" "cm_operation x \<noteq> op" using that t op(1) by (auto simp: tables_ok_def)
    then show ?thesis
      using that l others [of "cm_operation x"] sts(2) [of "cm_operation x"] id op(1)
      by (simp add: ledger_def ledger_but_def announced_upto_def CommandRecord.truncate_def derived_def)
  qed
  with own have "\<forall>x \<in> set (pt_commands ?t'). announced_upto L d' (CommandRecord.truncate x) \<and> derived ?t' x"
    by (simp add: accepted_tables_def)
  moreover have "command_events d' o' = []" if "o' < 2 ^ 128" "o' \<notin> cm_operation ` set (pt_commands ?t')" for o'
    using that l others [of o'] id by (auto simp: ledger_def ledger_but_def accepted_tables_def)
  ultimately show ?thesis using tables d' by (simp add: ledger_def ledger_but_def)
qed

section \<open>Histories of the stores\<close>

datatype store_step =
    Accept ProvisioningCommand string string string "PlannedEntity list"
  | CreateOrGet string string string json
  | SavePlan ProvisioningPlan
  | MarkStep string string string json
  | SetStatus string ProvisioningStatus "string option"

fun store_op :: "pylib \<Rightarrow> (string \<Rightarrow> nat option) \<Rightarrow> calendar \<Rightarrow> store_step \<Rightarrow> ('n proc, exn, unit) op" where
  "store_op L pg K (Accept c key who fp entities) = discard (accept L pg K c key who fp entities)"
| "store_op L pg K (CreateOrGet pid key digest state) = discard (create_or_get pid key digest state)"
| "store_op L pg K (SavePlan p) = save_plan L pg p"
| "store_op L pg K (MarkStep pid key status result) = mark_step pid key status result"
| "store_op L pg K (SetStatus pid status err) = set_status L pg pid status err"

text \<open>The handler accepts a command with the entities it names, of which there is at least one.\<close>

fun names_entities :: "store_step \<Rightarrow> bool" where
  "names_entities (Accept c key who fp entities) = (entities \<noteq> [])"
| "names_entities _ = True"

text \<open>\<open>uuid4\<close> draws 128 bits.\<close>

definition draws_uuids :: "'n proc \<Rightarrow> bool" where
  "draws_uuids s \<longleftrightarrow> (\<forall>k. pr_uuids s k < 2 ^ 128)"

lemma accept_ledger:
  assumes "draws_uuids s" "entities \<noteq> []" "ledger L (pr_db s)" "ledger L (pr_saved s)" "accept L pg K c key who fp entities s = (Inr r, s')"
  shows "ledger L (pr_db s') \<and> ledger L (pr_saved s')"
proof -
  have t: "tables_ok (db_provisioning (pr_db s))" using assms(3) by (simp add: ledger_def ledger_but_def)
  from assms(5) show ?thesis
  proof (rule accept_Inr)
    fix op now row
    assume a: "op = pr_uuids s (pr_drawn s)" "r = CommandRecord.truncate (accepted_row op c key who fp now)"
      "pr_db s' = (pr_db s)\<lparr>db_provisioning := accepted_tables (db_provisioning (pr_db s)) K now (accepted_row op c key who fp now) entities,
         db_outbox := db_outbox (pr_db s) @ [row]\<rparr>" "pr_saved s' = pr_saved s"
      "op \<notin> cm_operation ` set (pt_commands (db_provisioning (pr_db s)))"
      "tables_ok (db_provisioning (pr_db s)) \<Longrightarrow> distinct (map op_provisioning (pt_operations (db_provisioning (pr_db s)) @ map (planned_row K now) entities))
         \<and> distinct (map mb_provisioning (pt_members (db_provisioning (pr_db s)) @ map (membership_of op) entities))"
      "ob_cloudevents row" "ob_type row = PROVISIONING_EVENT" "ob_subject row = command_subject op"
      "ob_idempotency row = Some (command_event_key op 1)" "ob_data row = state_document L r"
    have "op < 2 ^ 128" using a(1) assms(1) by (simp add: draws_uuids_def)
    with a(6) [OF t] ledger_accepted [OF assms(3) a(5) _ assms(2) _ _ refl a(7-10) _ a(3)] a(2,4,11) assms(4)
    show ?thesis by simp
  qed
qed

lemma safe_discard: "safeguards I m \<Longrightarrow> safeguards I (discard m)"
  unfolding discard_def by (intro safe_rules)

lemma store_op_ledger:
  assumes "draws_uuids s" "names_entities st" "ledger L (pr_db s)" "ledger L (pr_saved s)" "store_op L pg K st s = (r, s')"
  shows "ledger L (pr_saved s') \<and> (\<forall>a. r = Inr a \<longrightarrow> ledger L (pr_db s'))"
proof (cases st)
  case (Accept c key who fp entities)
  obtain r1 where run: "accept L pg K c key who fp entities s = (r1, s')"
    using assms(5) Accept by (auto simp: discard_def bindS_def split: prod.splits sum.splits)
  show ?thesis
  proof (cases r1)
    case (Inr a)
    then show ?thesis using accept_ledger [OF assms(1) _ assms(3,4)] run assms(2) Accept by auto
  next
    case (Inl e)
    have "within unsaved (accept L pg K c key who fp entities)"
      unfolding accept_def announce_command_def on_tables_def Let_def
      by (intro within_intros) (auto simp: within_def unsaved_def read_clock_def draw_uuid_def on_db_def intro!: reflpI transpI split: prod.splits)
    from withinD [OF this run] have "pr_saved s' = pr_saved s" by (simp add: unsaved_def)
    then show ?thesis using assms(4,5) Accept run Inl by (auto simp: discard_def bindS_def)
  qed
next
  case (CreateOrGet pid key digest state)
  then show ?thesis using safeguardsD [OF safe_discard [OF create_or_get_ledger] assms(3,4)] assms(5) by simp
next
  case (SavePlan p)
  then show ?thesis using safeguardsD [OF status_changes_ledger(2) assms(3,4)] assms(5) by simp
next
  case (MarkStep pid key status result)
  then show ?thesis using safeguardsD [OF mark_step_ledger assms(3,4)] assms(5) by simp
next
  case (SetStatus pid status err)
  then show ?thesis using safeguardsD [OF status_changes_ledger(1) assms(3,4)] assms(5) by simp
qed

definition same_uuids :: "'n proc \<Rightarrow> 'n proc \<Rightarrow> bool" where
  "same_uuids s s' \<longleftrightarrow> pr_uuids s' = pr_uuids s"

lemma store_op_uuids: "within same_uuids (store_op L pg K st)"
proof -
  have parts: "within same_uuids (on_tables m)" "within same_uuids (on_db m')" "within same_uuids read_clock" "within same_uuids draw_uuid"
    "within same_uuids commit_tx" "within same_uuids rollback_tx" for m :: "(provisioning_tables, exn, 'c) op" and m' :: "(database, exn, 'd) op"
    by (auto simp: within_def same_uuids_def on_tables_def on_db_def read_clock_def draw_uuid_def commit_tx_def rollback_tx_def split: prod.splits)
  have rules: "reflp same_uuids" "transp same_uuids" by (auto simp: same_uuids_def intro!: reflpI transpI)
  show ?thesis
    by (cases st; simp only: store_op.simps discard_def accept_def create_or_get_def save_plan_def mark_step_def set_status_def project_def
        advance_state_def announce_command_def Let_def) (intro within_intros rules parts)+
qed

lemma transaction_ledger:
  assumes "draws_uuids s" "names_entities st" "ledger L (pr_saved s)" "clean s"
  shows "ledger L (pr_saved (transaction (store_op L pg K st) s)) \<and> clean (transaction (store_op L pg K st) s)
    \<and> draws_uuids (transaction (store_op L pg K st) s)"
proof -
  obtain r s' where run: "store_op L pg K st s = (r, s')" by (metis prod.collapse)
  have "ledger L (pr_db s)" using assms(3,4) by (simp add: clean_def)
  note out = store_op_ledger [OF assms(1,2) this assms(3) run]
  moreover have "pr_uuids s' = pr_uuids s" using withinD [OF store_op_uuids run] by (simp add: same_uuids_def)
  ultimately show ?thesis
    using run assms(1) by (cases r) (auto simp: transaction_def commit_tx_def rollback_tx_def clean_def draws_uuids_def)
qed

text \<open>C37: A provisioning command never disagrees with its legal entities, and every revision is announced once: after any
  sequence of acceptances, plans, step records and status changes, each in its own transaction and with refusals anywhere, every
  committed command has the state and failure code derived from its entities' statuses, its announcements are those of the
  revisions 1 to its own, in that order and with the key of each, the last one carrying the state a read of the operation
  answers, and no other operation is announced.\<close>

theorem commands_announced_in_order:
  assumes "draws_uuids s" "\<forall>st \<in> set work. names_entities st" "ledger L (pr_saved s)" "clean s"
  shows "ledger L (pr_saved (fold (\<lambda>st. transaction (store_op L pg K st)) work s))"
proof -
  have "ledger L (pr_saved (fold (\<lambda>st. transaction (store_op L pg K st)) work s))"
    if "draws_uuids s" "\<forall>st \<in> set work. names_entities st" "ledger L (pr_saved s)" "clean s"
    using that
  proof (induction work arbitrary: s)
    case (Cons st work)
    have "names_entities st" using Cons.prems(2) by simp
    from transaction_ledger [OF Cons.prems(1) this Cons.prems(3,4)] Cons.IH Cons.prems(2) show ?case by simp
  qed simp
  with assms show ?thesis by blast
qed

section \<open>A concrete history\<close>

definition provisioning_process :: "unit proc" where
  "provisioning_process = (idle_process () empty_database)\<lparr>pr_uuids := (\<lambda>k. 7)\<rparr>"

definition sample_entity :: PlannedEntity where
  "sample_entity = \<lparr>pe_entity = ''NABHOLD'', pe_request = sample_request,
     pe_plan = \<lparr>pp_provisioning = ''prov-1'', pp_digest = ''d1'', pp_steps = []\<rparr>\<rparr>"

definition sample_work :: "store_step list" where
  "sample_work =
     [Accept sample_command ''idempotency-key-1'' ''svc'' (replicate 64 (CHR ''0'')) [sample_entity],
      SetStatus ''prov-1'' APPLYING None, MarkStep ''prov-1'' ''k'' ''completed'' JNull, MarkStep ''prov-2'' ''k'' ''completed'' JNull,
      SetStatus ''prov-1'' APPLYING None, SetStatus ''prov-1'' FAILED (Some ''x'')]"

lemma empty_ledger: "ledger L empty_database"
  by (simp add: ledger_def ledger_but_def empty_database_def empty_provisioning_def tables_ok_def command_events_def)

theorem commands_announced_in_order_witness:
  "ledger (sample_lib sample_answer)
     (pr_saved (fold (\<lambda>st. transaction (store_op (sample_lib sample_answer) uuid_of sample_calendar st)) sample_work provisioning_process))"
proof (rule commands_announced_in_order)
  show "ledger (sample_lib sample_answer) (pr_saved provisioning_process)"
    using empty_ledger by (simp add: provisioning_process_def idle_process_def)
qed (simp_all add: draws_uuids_def provisioning_process_def idle_process_def clean_def sample_work_def)

end
