(* ===== verification/Command_Board.thy ===== *)
theory Command_Board
  imports Command_Ledger
begin

text \<open>
  The provisioning tables refine an abstract board: a status per legal entity's operation, the command that owns it, and
  per command a verdict over its entities' statuses with the number of times it changed.
\<close>

section \<open>The board\<close>

record board =
  bd_status :: "string \<Rightarrow> ProvisioningStatus option"
  bd_owner :: "string \<Rightarrow> nat option"
  bd_command :: "nat \<Rightarrow> (string \<times> string option \<times> nat) option"

definition verdict :: "ProvisioningStatus set \<Rightarrow> string \<times> string option" where
  "verdict S =
     (if FAILED \<in> S then (''failed'', Some FAILED_CODE)
      else if S \<subseteq> {READY, ACTIVE} then (''active'', None)
      else if APPLYING \<in> S then (''provisioning'', None)
      else if S \<subseteq> {REQUESTED, PLANNED} then (''accepted'', None)
      else if S \<subseteq> {VALIDATING, REQUESTED, PLANNED} then (''validating'', None)
      else if S \<subseteq> {READY, ACTIVE, RECONCILING, SUSPENDED} then (''reconciling'', None)
      else (''provisioning'', None))"

definition statuses_of :: "board \<Rightarrow> nat \<Rightarrow> ProvisioningStatus set" where
  "statuses_of b op = {x. \<exists>p. bd_owner b p = Some op \<and> bd_status b p = Some x}"

definition judged :: "board \<Rightarrow> nat \<Rightarrow> (string \<times> string option \<times> nat) option" where
  "judged b op =
     (case bd_command b op of
        None \<Rightarrow> None
      | Some (x, f, n) \<Rightarrow> (let v = verdict (statuses_of b op) in Some (if v = (x, f) then (x, f, n) else (fst v, snd v, Suc n))))"

text \<open>An entity's status changes and its owner is judged again; an operation is requested; a command is accepted.\<close>

definition moved_board :: "string \<Rightarrow> ProvisioningStatus \<Rightarrow> board \<Rightarrow> board" where
  "moved_board p x b =
     (let b' = b\<lparr>bd_status := (bd_status b)(p \<mapsto> x)\<rparr> in
      case bd_owner b p of None \<Rightarrow> b' | Some op \<Rightarrow> b'\<lparr>bd_command := (bd_command b)(op := judged b' op)\<rparr>)"

inductive board_step :: "board \<Rightarrow> board \<Rightarrow> bool" where
  idle: "board_step b b"
| requested: "bd_status b p = None \<Longrightarrow> board_step b (b\<lparr>bd_status := (bd_status b)(p \<mapsto> REQUESTED)\<rparr>)"
| moved: "bd_status b p \<noteq> None \<Longrightarrow> board_step b (moved_board p x b)"
| accepted: "bd_command b op = None \<Longrightarrow> ps \<noteq> [] \<Longrightarrow> \<forall>p \<in> set ps. bd_status b p = None \<and> bd_owner b p = None \<Longrightarrow>
    board_step b \<lparr>bd_status = (\<lambda>p. if p \<in> set ps then Some PLANNED else bd_status b p),
      bd_owner = (\<lambda>p. if p \<in> set ps then Some op else bd_owner b p), bd_command = (bd_command b)(op \<mapsto> (''accepted'', None, 1))\<rparr>"

definition board_of :: "database \<Rightarrow> board" where
  "board_of d = (let t = db_provisioning d in
     \<lparr>bd_status = (\<lambda>p. map_option op_status (select_one (operation_of p) (pt_operations t))), bd_owner = owner_of t,
      bd_command = (\<lambda>op. map_option (\<lambda>c. (cm_state c, cm_failure c, cm_revision c)) (select_one (\<lambda>c. cm_operation c = op) (pt_commands t)))\<rparr>)"

section \<open>The derivation is the verdict\<close>

lemma status_text_inj: "status_text a = status_text b \<longleftrightarrow> a = b"
  by (cases a; cases b) simp_all

lemma derive_verdict:
  assumes "xs \<noteq> []"
  shows "derive_state (map status_text xs) = Inr (verdict (set xs))"
proof -
  have groups: "status_text x \<in> set (S_DONE @ S_IN_FLIGHT @ S_SETTLING @ S_NOT_STARTED @ [''validating'', ''failed''])"
    "status_text x \<in> set S_DONE \<longleftrightarrow> x \<in> {READY, ACTIVE}" "status_text x \<in> set S_IN_FLIGHT \<longleftrightarrow> x = APPLYING"
    "status_text x \<in> set S_NOT_STARTED \<longleftrightarrow> x \<in> {REQUESTED, PLANNED}"
    "status_text x \<in> set (''validating'' # S_NOT_STARTED) \<longleftrightarrow> x \<in> {VALIDATING, REQUESTED, PLANNED}"
    "status_text x \<in> set (S_DONE @ S_SETTLING) \<longleftrightarrow> x \<in> {READY, ACTIVE, RECONCILING, SUSPENDED}"
    "status_text x = ''failed'' \<longleftrightarrow> x = FAILED" for x
    by (cases x; simp add: S_DONE_def S_IN_FLIGHT_def S_SETTLING_def S_NOT_STARTED_def)+
  have all: "all_in (map status_text xs) ys \<longleftrightarrow> (\<forall>x \<in> set xs. status_text x \<in> set ys)" for ys
    by (simp add: all_in_def list_all_iff)
  have some: "list_ex (\<lambda>x. x \<in> set S_IN_FLIGHT) (map status_text xs) \<longleftrightarrow> APPLYING \<in> set xs"
    using groups(3) by (auto simp: list_ex_iff)
  have failed: "''failed'' \<in> set (map status_text xs) \<longleftrightarrow> FAILED \<in> set xs"
    by (simp only: list.set_map image_iff eq_commute [of "''failed''"] groups(7)) blast
  have known: "all_in (map status_text xs) (S_DONE @ S_IN_FLIGHT @ S_SETTLING @ S_NOT_STARTED @ [''validating'', ''failed''])"
    unfolding all using groups(1) by blast
  have sets: "all_in (map status_text xs) S_DONE \<longleftrightarrow> set xs \<subseteq> {READY, ACTIVE}"
    "all_in (map status_text xs) S_NOT_STARTED \<longleftrightarrow> set xs \<subseteq> {REQUESTED, PLANNED}"
    "all_in (map status_text xs) (''validating'' # S_NOT_STARTED) \<longleftrightarrow> set xs \<subseteq> {VALIDATING, REQUESTED, PLANNED}"
    "all_in (map status_text xs) (S_DONE @ S_SETTLING) \<longleftrightarrow> set xs \<subseteq> {READY, ACTIVE, RECONCILING, SUSPENDED}"
    unfolding all groups by blast+
  show ?thesis
    using assms by (simp only: derive_state_def verdict_def known sets some failed map_is_Nil_conv if_True if_False not_True_eq_False simp_thms if_distrib [of Inr])
qed

section \<open>Looking up rows\<close>

lemma select_unique:
  assumes "distinct (map key xs)" "x \<in> set xs"
  shows "select_one (\<lambda>y. key y = key x) xs = Some x"
proof (cases "select_one (\<lambda>y. key y = key x) xs")
  case None
  then show ?thesis using assms(2) by (auto simp: select_one_None_iff)
next
  case (Some y)
  then have "y \<in> set xs" "key y = key x" using select_one_SomeD by fastforce+
  then show ?thesis using Some assms by (auto simp: distinct_map inj_on_def)
qed

lemma board_statuses:
  assumes t: "tables_ok (db_provisioning d)"
  shows "statuses_of (board_of d) op = set (member_statuses (db_provisioning d) op)" (is "?l = set (member_statuses ?t op)")
proof -
  have "x \<in> ?l \<longleftrightarrow> (\<exists>m \<in> set (pt_members ?t). mb_operation m = op \<and> (\<exists>r \<in> set (pt_operations ?t). op_provisioning r = mb_provisioning m \<and> op_status r = x))" for x
  proof
    assume "x \<in> ?l"
    then obtain p where "owner_of ?t p = Some op" "map_option op_status (select_one (operation_of p) (pt_operations ?t)) = Some x"
      by (auto simp: statuses_of_def board_of_def Let_def)
    moreover from this obtain r where r: "select_one (operation_of p) (pt_operations ?t) = Some r" "op_status r = x" by auto
    ultimately show "\<exists>m \<in> set (pt_members ?t). mb_operation m = op \<and> (\<exists>r \<in> set (pt_operations ?t). op_provisioning r = mb_provisioning m \<and> op_status r = x)"
      using owner_Some [of ?t p op] select_one_SomeD [OF r(1)] unfolding operation_of_def by blast
  next
    assume "\<exists>m \<in> set (pt_members ?t). mb_operation m = op \<and> (\<exists>r \<in> set (pt_operations ?t). op_provisioning r = mb_provisioning m \<and> op_status r = x)"
    then obtain m r where m: "m \<in> set (pt_members ?t)" "mb_operation m = op"
        and r: "r \<in> set (pt_operations ?t)" "op_provisioning r = mb_provisioning m" "op_status r = x" by blast
    have "select_one (operation_of (mb_provisioning m)) (pt_operations ?t) = Some r"
      using select_unique [of op_provisioning "pt_operations ?t" r] r t by (simp add: tables_ok_def operation_of_def [abs_def])
    then show "x \<in> ?l" using owner_unique [OF t m(1)] m(2) r(3)
      by (auto simp: statuses_of_def board_of_def Let_def intro!: exI [of _ "mb_provisioning m"])
  qed
  moreover have "x \<in> set (member_statuses ?t op) \<longleftrightarrow>
      (\<exists>m \<in> set (pt_members ?t). mb_operation m = op \<and> (\<exists>r \<in> set (pt_operations ?t). op_provisioning r = mb_provisioning m \<and> op_status r = x))" for x
    unfolding member_statuses_def operation_of_def by fastforce
  ultimately show ?thesis by blast
qed

section \<open>The refinement\<close>

lemma board_status_updated:
  assumes "\<And>y. op_provisioning (f y) = op_provisioning y" "\<And>y. op_status (f y) = x"
  shows "map_option op_status (select_one (operation_of p) (update_where (operation_of pid) f rows))
     = (if p = pid then map_option (\<lambda>_. x) (select_one (operation_of p) rows) else map_option op_status (select_one (operation_of p) rows))"
  unfolding operation_of_def [abs_def]
proof (induction rows)
  case (Cons r rows)
  then show ?case using assms by (cases "p = pid"; cases "op_provisioning r = pid") simp_all
qed simp

lemma board_projected:
  assumes t: "tables_ok (db_provisioning d)" and p: "projected L pid d d'"
  shows "board_of d' = (case owner_of (db_provisioning d) pid of None \<Rightarrow> board_of d
     | Some op \<Rightarrow> (board_of d)\<lparr>bd_command := (bd_command (board_of d))(op := judged (board_of d) op)\<rparr>)"
proof (cases "owner_of (db_provisioning d) pid")
  case None
  then show ?thesis using p by (simp add: projected_def)
next
  case (Some op)
  let ?t = "db_provisioning d" and ?b = "board_of d"
  from p Some obtain c state failure where c: "c \<in> set (pt_commands ?t)" "cm_operation c = op"
      and st: "derive_state (map status_text (member_statuses ?t op)) = Inr (state, failure)"
      and change: "if cm_state c = state \<and> cm_failure c = failure then d' = d
         else \<exists>now row. let c' = moved_row state failure now c in
           d' = d\<lparr>db_provisioning := ?t\<lparr>pt_commands := update_where (\<lambda>x. cm_operation x = op) (\<lambda>_. c') (pt_commands ?t)\<rparr>,
             db_outbox := db_outbox d @ [row]\<rparr>
           \<and> ob_cloudevents row \<and> ob_type row = PROVISIONING_EVENT \<and> ob_subject row = command_subject op
           \<and> ob_idempotency row = Some (command_event_key op (cm_revision c'))
           \<and> ob_data row = state_document L (CommandRecord.truncate c')"
    unfolding projected_def Let_def by auto
  have sel: "select_one (\<lambda>x. cm_operation x = op) (pt_commands ?t) = Some c"
    using select_unique [of cm_operation "pt_commands ?t" c] c t by (simp add: tables_ok_def)
  have "member_statuses ?t op \<noteq> []" using st by (auto simp: derive_state_def)
  then have v: "verdict (statuses_of ?b op) = (state, failure)"
    using derive_verdict [of "member_statuses ?t op"] st board_statuses [OF t, of op] by simp
  have "bd_command ?b op = Some (cm_state c, cm_failure c, cm_revision c)" using sel by (simp add: board_of_def Let_def)
  then have j: "judged ?b op = Some (if cm_state c = state \<and> cm_failure c = failure then (cm_state c, cm_failure c, cm_revision c)
      else (state, failure, Suc (cm_revision c)))"
    using v by (auto simp: judged_def Let_def)
  show ?thesis
  proof (cases "cm_state c = state \<and> cm_failure c = failure")
    case True
    then have "judged ?b op = bd_command ?b op" using j sel by (simp add: board_of_def Let_def)
    then show ?thesis using change True Some by simp
  next
    case False
    then obtain now row where d': "d' = d\<lparr>db_provisioning := ?t\<lparr>pt_commands := update_where (\<lambda>x. cm_operation x = op) (\<lambda>_. moved_row state failure now c) (pt_commands ?t)\<rparr>,
         db_outbox := db_outbox d @ [row]\<rparr>"
      using change unfolding Let_def by auto
    have look: "select_one (\<lambda>x. cm_operation x = o') (update_where (\<lambda>x. cm_operation x = op) (\<lambda>_. moved_row state failure now c) rows) =
        (if o' = op then map_option (\<lambda>_. moved_row state failure now c) (select_one (\<lambda>x. cm_operation x = o') rows)
         else select_one (\<lambda>x. cm_operation x = o') rows)" for o' rows
      using c by (induction rows) auto
    show ?thesis
      unfolding Some using d' j False sel by (auto simp: board_of_def Let_def look owner_of_def fun_eq_iff)
  qed
qed

lemma board_tables:
  "board_of (d\<lparr>db_outbox := rows\<rparr>) = board_of d"
  "pt_operations t = pt_operations (db_provisioning d) \<Longrightarrow> pt_commands t = pt_commands (db_provisioning d) \<Longrightarrow>
     pt_members t = pt_members (db_provisioning d) \<Longrightarrow> board_of (d\<lparr>db_provisioning := t\<rparr>) = board_of d"
  by (simp_all add: board_of_def owner_of_def Let_def fun_eq_iff)

lemma changed_board:
  assumes l: "ledger L (pr_db s)" and f: "\<And>y. op_provisioning (f y) = op_provisioning y" "\<And>y. op_status (f y) = x"
    and run: "bindS (on_tables (update_operation pid f)) (\<lambda>_. bindS (project L pg pid) (\<lambda>_. commit_tx)) s = (Inr u, s')"
  shows "board_step (board_of (pr_db s)) (board_of (pr_db s'))"
proof -
  let ?d = "pr_db s" and ?t = "db_provisioning (pr_db s)"
  let ?d1 = "?d\<lparr>db_provisioning := ?t\<lparr>pt_operations := update_where (operation_of pid) f (pt_operations ?t)\<rparr>\<rparr>"
  have "ledger_but L (set_option (owner_of ?t pid)) ?d1" by (rule ledger_updated [OF l f(1)])
  then have t1: "tables_ok (db_provisioning ?d1)" by (simp add: ledger_but_def)
  have t: "tables_ok ?t" using l by (simp add: ledger_def ledger_but_def)
  have "bindS (project L pg pid) (\<lambda>_. commit_tx) (s\<lparr>pr_db := ?d1\<rparr>) = (Inr u, s')"
    using run by (simp add: bindS_def on_tables_def on_db_def update_operation_def)
  then obtain r s1 where first: "project L pg pid (s\<lparr>pr_db := ?d1\<rparr>) = (Inr r, s1)" and s': "pr_db s' = pr_db s1"
    by (auto simp: bindS_Inr_iff commit_tx_def)
  have "projected L pid ?d1 (pr_db s1)" using project_Inr [OF _ first] t1 by simp
  note after = board_projected [OF t1 this]
  have owner: "owner_of (db_provisioning ?d1) pid = bd_owner (board_of ?d) pid" by (simp add: owner_of_def board_of_def Let_def)
  have status: "bd_status (board_of ?d1) = (\<lambda>p. if p = pid then map_option (\<lambda>_. x) (bd_status (board_of ?d) pid) else bd_status (board_of ?d) p)"
    using board_status_updated [OF f, of _ pid "pt_operations ?t"] by (auto simp: board_of_def Let_def fun_eq_iff option.map_comp comp_def)
  have same: "bd_owner (board_of ?d1) = bd_owner (board_of ?d)" "bd_command (board_of ?d1) = bd_command (board_of ?d)"
    by (simp_all add: board_of_def owner_of_def fun_eq_iff Let_def)
  show ?thesis
  proof (cases "bd_status (board_of ?d) pid")
    case None
    then have b: "board_of ?d1 = board_of ?d" using status same by (intro board.equality) auto
    have "owner_of ?t pid = None"
    proof (cases "owner_of ?t pid")
      case (Some op)
      then have "pid \<in> op_provisioning ` set (pt_operations ?t)" using owner_Some [OF Some] t by (auto simp: tables_ok_def)
      with None show ?thesis by (auto simp: board_of_def Let_def select_one_None_iff operation_of_def)
    qed simp
    then have "board_of (pr_db s') = board_of ?d" using after b s' owner by (simp add: board_of_def Let_def)
    then show ?thesis by (simp add: board_step.idle)
  next
    case (Some y)
    then have b: "board_of ?d1 = (board_of ?d)\<lparr>bd_status := (bd_status (board_of ?d))(pid \<mapsto> x)\<rparr>"
      using status same by (intro board.equality) (auto simp: fun_eq_iff)
    have "board_of (pr_db s') = moved_board pid x (board_of ?d)"
      using after owner s' same(2) unfolding b by (simp add: moved_board_def Let_def split: option.splits)
    then show ?thesis using board_step.moved [of "board_of ?d" pid x] Some by simp
  qed
qed

lemma accepted_board:
  assumes t: "tables_ok (db_provisioning d)" and op: "op \<notin> cm_operation ` set (pt_commands (db_provisioning d))" and e: "entities \<noteq> []"
    and ops: "distinct (map op_provisioning (pt_operations (db_provisioning d) @ map (planned_row K now) entities))"
    and members: "distinct (map mb_provisioning (pt_members (db_provisioning d) @ map (membership_of op) entities))"
    and c: "c = accepted_row op cmd key who fp now"
  shows "board_step (board_of d) (board_of (d\<lparr>db_provisioning := accepted_tables (db_provisioning d) K now c entities, db_outbox := rows\<rparr>))"
proof -
  let ?t = "db_provisioning d" and ?ps = "map (\<lambda>x. rq_provisioning (pe_request x)) entities"
  have id: "cm_operation c = op" "cm_state c = ''accepted''" "cm_failure c = None" "cm_revision c = 1" using c by (simp_all add: accepted_row_def)
  have key: "op_provisioning (planned_row K now x) = rq_provisioning (pe_request x)" "mb_provisioning (membership_of op x) = rq_provisioning (pe_request x)"
    "op_status (planned_row K now x) = PLANNED" "mb_operation (membership_of op x) = op" for x
    by (simp_all add: planned_row_def membership_of_def)
  have fresh: "select_one (operation_of p) (pt_operations ?t) = None \<and> select_one (\<lambda>m. mb_provisioning m = p) (pt_members ?t) = None"
    if "p \<in> set ?ps" for p
  proof -
    have "set ?ps \<inter> op_provisioning ` set (pt_operations ?t) = {}" "set ?ps \<inter> mb_provisioning ` set (pt_members ?t) = {}"
      using ops members by (simp_all add: key comp_def Int_commute image_image)
    with that show ?thesis by (auto simp: select_one_None_iff operation_of_def)
  qed
  have new: "map_option op_status (select_one (operation_of p) (map (planned_row K now) es))
        = (if p \<in> (\<lambda>x. rq_provisioning (pe_request x)) ` set es then Some PLANNED else None)"
    "map_option mb_operation (select_one (\<lambda>m. mb_provisioning m = p) (map (membership_of op) es))
        = (if p \<in> (\<lambda>x. rq_provisioning (pe_request x)) ` set es then Some op else None)" for p es
    by (induction es) (auto simp: key operation_of_def)
  have none: "select_one (\<lambda>x. cm_operation x = op) (pt_commands ?t) = None" using op by (auto simp: select_one_None_iff)
  have "bd_command (board_of d) op = None"
    using op by (auto simp: board_of_def Let_def select_one_None_iff)
  moreover have "\<forall>p \<in> set ?ps. bd_status (board_of d) p = None \<and> bd_owner (board_of d) p = None"
    using fresh by (auto simp: board_of_def Let_def owner_of_def)
  moreover have "?ps \<noteq> []" using e by simp
  ultimately have "board_step (board_of d) \<lparr>bd_status = (\<lambda>p. if p \<in> set ?ps then Some PLANNED else bd_status (board_of d) p),
      bd_owner = (\<lambda>p. if p \<in> set ?ps then Some op else bd_owner (board_of d) p), bd_command = (bd_command (board_of d))(op \<mapsto> (''accepted'', None, 1))\<rparr>"
    using board_step.accepted [of "board_of d" op ?ps] by simp
  moreover have "board_of (d\<lparr>db_provisioning := accepted_tables ?t K now c entities, db_outbox := rows\<rparr>) =
      \<lparr>bd_status = (\<lambda>p. if p \<in> set ?ps then Some PLANNED else bd_status (board_of d) p),
       bd_owner = (\<lambda>p. if p \<in> set ?ps then Some op else bd_owner (board_of d) p), bd_command = (bd_command (board_of d))(op \<mapsto> (''accepted'', None, 1))\<rparr>"
  proof (intro board.equality ext)
    fix p
    show "bd_status (board_of (d\<lparr>db_provisioning := accepted_tables ?t K now c entities, db_outbox := rows\<rparr>)) p =
      bd_status \<lparr>bd_status = (\<lambda>p. if p \<in> set ?ps then Some PLANNED else bd_status (board_of d) p),
       bd_owner = (\<lambda>p. if p \<in> set ?ps then Some op else bd_owner (board_of d) p), bd_command = (bd_command (board_of d))(op \<mapsto> (''accepted'', None, 1))\<rparr> p"
      using fresh [of p] new(1) [of p entities]
      by (cases "p \<in> set ?ps") (auto simp: board_of_def Let_def accepted_tables_def select_one_append split: option.splits)
    show "bd_owner (board_of (d\<lparr>db_provisioning := accepted_tables ?t K now c entities, db_outbox := rows\<rparr>)) p =
      bd_owner \<lparr>bd_status = (\<lambda>p. if p \<in> set ?ps then Some PLANNED else bd_status (board_of d) p),
       bd_owner = (\<lambda>p. if p \<in> set ?ps then Some op else bd_owner (board_of d) p), bd_command = (bd_command (board_of d))(op \<mapsto> (''accepted'', None, 1))\<rparr> p"
      using fresh [of p] new(2) [of p entities] id
      by (cases "p \<in> set ?ps") (auto simp: board_of_def Let_def owner_of_def accepted_tables_def select_one_append split: option.splits)
  next
    fix x
    show "bd_command (board_of (d\<lparr>db_provisioning := accepted_tables ?t K now c entities, db_outbox := rows\<rparr>)) x =
      bd_command \<lparr>bd_status = (\<lambda>p. if p \<in> set ?ps then Some PLANNED else bd_status (board_of d) p),
       bd_owner = (\<lambda>p. if p \<in> set ?ps then Some op else bd_owner (board_of d) p), bd_command = (bd_command (board_of d))(op \<mapsto> (''accepted'', None, 1))\<rparr> x"
      using id none by (cases "x = op") (simp_all add: board_of_def Let_def accepted_tables_def select_one_append split: option.split)
  qed simp
  ultimately show ?thesis by simp
qed

lemma requested_board:
  assumes "insert_operation r (db_provisioning d) = (Inr (), t)" "op_status r = REQUESTED"
  shows "board_step (board_of d) (board_of (d\<lparr>db_provisioning := t\<rparr>))"
proof -
  let ?p = "op_provisioning r"
  from assms(1) have t: "t = (db_provisioning d)\<lparr>pt_operations := pt_operations (db_provisioning d) @ [r]\<rparr>"
      and none: "select_one (operation_of ?p) (pt_operations (db_provisioning d)) = None"
    by (auto simp: insert_operation_def list_ex_iff select_one_None_iff operation_of_def split: if_splits)
  have "board_of (d\<lparr>db_provisioning := t\<rparr>) = (board_of d)\<lparr>bd_status := (bd_status (board_of d))(?p \<mapsto> REQUESTED)\<rparr>"
    using t none assms(2)
    by (auto simp: board_of_def Let_def owner_of_def select_one_append operation_of_def fun_eq_iff split: option.split)
  moreover have "bd_status (board_of d) ?p = None" using none by (simp add: board_of_def Let_def)
  ultimately show ?thesis by (simp add: board_step.requested)
qed

lemma create_or_get_board:
  assumes "create_or_get pid key digest state s = (Inr u, s')"
  shows "board_step (board_of (pr_db s)) (board_of (pr_db s'))"
proof (cases "select_one (\<lambda>x. op_key x = key) (pt_operations (db_provisioning (pr_db s)))")
  case None
  then obtain t where "insert_operation \<lparr>op_provisioning = pid, op_key = key, op_state = state, op_digest = Some digest,
           op_plan = JNull, op_status = REQUESTED, op_error = None, op_created = pr_clock s (pr_ticks s), op_attempts = 0, op_next = None,
           op_outcome = None\<rparr> (db_provisioning (pr_db s)) = (Inr (), t)" "pr_db s' = (pr_db s)\<lparr>db_provisioning := t\<rparr>"
    using assms by (auto simp: create_or_get_def bindS_Inr_iff on_tables_Inr commit_tx_def)
  then show ?thesis using requested_board by simp
next
  case (Some x)
  then have "pr_db s' = pr_db s" using assms
    by (auto simp: create_or_get_def bindS_Inr_iff commit_tx_def rollback_tx_def split: if_splits)
  then show ?thesis by (simp add: board_step.idle)
qed

lemma mark_step_board: "mark_step pid key status result s = (Inr u, s') \<Longrightarrow> board_of (pr_db s') = board_of (pr_db s)"
  by (auto simp: mark_step_def bindS_Inr_iff on_tables_Inr commit_tx_def upsert_step_def Let_def board_tables(2) split: if_splits)

lemma store_op_board:
  assumes "names_entities st" "ledger L (pr_db s)" "store_op L pg K st s = (Inr u, s')"
  shows "board_step (board_of (pr_db s)) (board_of (pr_db s'))"
proof (cases st)
  case (Accept c key who fp entities)
  then obtain r where run: "accept L pg K c key who fp entities s = (Inr r, s')" using assms(3) by (auto simp: discard_def bindS_Inr_iff)
  have t: "tables_ok (db_provisioning (pr_db s))" using assms(2) by (simp add: ledger_def ledger_but_def)
  have e: "entities \<noteq> []" using assms(1) Accept by simp
  from run show ?thesis
  proof (rule accept_Inr)
    fix op now row
    assume a: "pr_db s' = (pr_db s)\<lparr>db_provisioning := accepted_tables (db_provisioning (pr_db s)) K now (accepted_row op c key who fp now) entities,
         db_outbox := db_outbox (pr_db s) @ [row]\<rparr>" "op \<notin> cm_operation ` set (pt_commands (db_provisioning (pr_db s)))"
      "tables_ok (db_provisioning (pr_db s)) \<Longrightarrow> distinct (map op_provisioning (pt_operations (db_provisioning (pr_db s)) @ map (planned_row K now) entities))
         \<and> distinct (map mb_provisioning (pt_members (db_provisioning (pr_db s)) @ map (membership_of op) entities))"
    from accepted_board [OF t a(2) e _ _ refl] a(3) [OF t] show ?thesis unfolding a(1) by blast
  qed
next
  case (CreateOrGet pid key digest state)
  then show ?thesis using create_or_get_board assms(3) by (fastforce simp: discard_def bindS_Inr_iff)
next
  case (SavePlan p)
  then show ?thesis using changed_board [OF assms(2), where f = "\<lambda>x. x\<lparr>op_digest := Some (pp_digest p), op_plan := plan_json p, op_status := PLANNED\<rparr>" and x = PLANNED] assms(3)
    by (simp add: save_plan_def)
next
  case (MarkStep pid key status result)
  then have "board_of (pr_db s') = board_of (pr_db s)" using mark_step_board assms(3) by simp
  then show ?thesis by (simp add: board_step.idle)
next
  case (SetStatus pid status err)
  then show ?thesis using changed_board [OF assms(2), where f = "\<lambda>x. x\<lparr>op_status := status, op_error := err\<rparr>" and x = status] assms(3)
    by (simp add: set_status_def)
qed

text \<open>An operation that raises has committed nothing.\<close>

lemma unsaved_tables: "within unsaved (on_tables m)" "within unsaved read_clock"
  by (simp_all add: within_def unsaved_def on_tables_def on_db_def read_clock_def split: prod.split)

lemma change_refused:
  assumes "bindS (on_tables m) (\<lambda>_. bindS (project L pg pid) (\<lambda>_. commit_tx)) s = (Inl e, s')"
  shows "pr_saved s' = pr_saved s"
proof -
  have "within unsaved (bindS (on_tables m) (\<lambda>_. project L pg pid))"
    by (intro within_intros unsaved_tables project_unsaved) (auto simp: unsaved_def intro!: transpI)
  moreover have "bindS (on_tables m) (\<lambda>_. project L pg pid) s = (Inl e, s')"
    using assms by (auto simp: bindS_Inl_iff commit_tx_def)
  ultimately show ?thesis by (auto simp: unsaved_def dest: withinD)
qed

lemma store_op_refused:
  assumes "store_op L pg K st s = (Inl e, s')"
  shows "pr_saved s' = pr_saved s"
proof (cases st)
  case (Accept c key who fp entities)
  have "within unsaved (accept L pg K c key who fp entities)"
    unfolding accept_def announce_command_def on_tables_def Let_def
    by (intro within_intros) (auto simp: within_def unsaved_def read_clock_def draw_uuid_def on_db_def intro!: reflpI transpI split: prod.splits)
  moreover have "accept L pg K c key who fp entities s = (Inl e, s')" using assms Accept by (auto simp: discard_def bindS_Inl_iff)
  ultimately show ?thesis by (auto simp: unsaved_def dest: withinD)
next
  case (CreateOrGet pid key digest state)
  then show ?thesis using assms
    by (auto simp: discard_def create_or_get_def bindS_Inl_iff rollback_tx_def commit_tx_def on_tables_def on_db_def
        split: option.splits if_splits prod.splits)
next
  case (MarkStep pid key status result)
  then show ?thesis using assms by (auto simp: mark_step_def bindS_Inl_iff commit_tx_def on_tables_def on_db_def split: prod.splits)
qed (use assms change_refused in \<open>auto simp: save_plan_def set_status_def\<close>)

lemma transaction_board:
  assumes "draws_uuids s" "names_entities st" "ledger L (pr_saved s)" "clean s"
  shows "board_step (board_of (pr_saved s)) (board_of (pr_saved (transaction (store_op L pg K st) s)))"
proof -
  obtain r s' where run: "store_op L pg K st s = (r, s')" by (metis prod.collapse)
  have l: "ledger L (pr_db s)" using assms(3,4) by (simp add: clean_def)
  show ?thesis
  proof (cases r)
    case (Inr u)
    then show ?thesis using store_op_board [OF assms(2) l] run assms(4) by (simp add: transaction_def commit_tx_def clean_def)
  next
    case (Inl e)
    then have "pr_saved s' = pr_saved s" using store_op_refused run by blast
    then show ?thesis using run Inl by (simp add: transaction_def rollback_tx_def board_step.idle)
  qed
qed

lemma ledger_verdict:
  assumes "ledger L d" "bd_command (board_of d) op = Some (x, f, n)"
  shows "(x, f) = verdict (statuses_of (board_of d) op)"
proof -
  let ?t = "db_provisioning d"
  have t: "tables_ok ?t" using assms(1) by (simp add: ledger_def ledger_but_def)
  obtain c where c: "select_one (\<lambda>c. cm_operation c = op) (pt_commands ?t) = Some c" "x = cm_state c" "f = cm_failure c"
    using assms(2) by (auto simp: board_of_def Let_def)
  then have "derived ?t c" "cm_operation c = op" using assms(1) select_one_SomeD [OF c(1)] by (auto simp: ledger_def ledger_but_def)
  then have "derive_state (map status_text (member_statuses ?t op)) = Inr (x, f)" using c by (simp add: derived_def)
  moreover from this have "member_statuses ?t op \<noteq> []" by (auto simp: derive_state_def)
  ultimately show ?thesis using derive_verdict [of "member_statuses ?t op"] board_statuses [OF t, of op] by simp
qed

text \<open>C38: The provisioning tables refine the board: along any history of the stores, with refusals and rollbacks anywhere, each
  committed transaction is one step of the abstract machine (nothing, a new request, an acceptance under fresh identities, or one
  status change after which only the owning command is judged again and counts one more revision exactly when its verdict
  changed), and on every board reached each command stands at the verdict of its entities.\<close>

theorem stores_refine_board:
  assumes "draws_uuids s" "\<forall>st \<in> set work. names_entities st" "ledger L (pr_saved s)" "clean s"
    and "s' = fold (\<lambda>st. transaction (store_op L pg K st)) work s"
  shows "board_step\<^sup>*\<^sup>* (board_of (pr_saved s)) (board_of (pr_saved s'))
    \<and> (\<forall>op x f n. bd_command (board_of (pr_saved s')) op = Some (x, f, n) \<longrightarrow> (x, f) = verdict (statuses_of (board_of (pr_saved s')) op))"
proof -
  have "board_step\<^sup>*\<^sup>* (board_of (pr_saved s)) (board_of (pr_saved (fold (\<lambda>st. transaction (store_op L pg K st)) work s)))
      \<and> ledger L (pr_saved (fold (\<lambda>st. transaction (store_op L pg K st)) work s))"
    if "draws_uuids s" "\<forall>st \<in> set work. names_entities st" "ledger L (pr_saved s)" "clean s"
    using that
  proof (induction work arbitrary: s)
    case (Cons st work)
    let ?s1 = "transaction (store_op L pg K st) s"
    have st: "names_entities st" using Cons.prems(2) by simp
    note one = transaction_ledger [OF Cons.prems(1) st Cons.prems(3,4), of pg K]
    have "board_step (board_of (pr_saved s)) (board_of (pr_saved ?s1))" by (rule transaction_board [OF Cons.prems(1) st Cons.prems(3,4)])
    moreover have "board_step\<^sup>*\<^sup>* (board_of (pr_saved ?s1)) (board_of (pr_saved (fold (\<lambda>st. transaction (store_op L pg K st)) work ?s1)))
        \<and> ledger L (pr_saved (fold (\<lambda>st. transaction (store_op L pg K st)) work ?s1))"
      using Cons.IH [of ?s1] one Cons.prems(2) by simp
    ultimately show ?case by (auto intro: converse_rtranclp_into_rtranclp)
  qed simp
  from this [OF assms(1-4)] show ?thesis unfolding assms(5) using ledger_verdict by blast
qed

theorem stores_refine_board_witness:
  "board_step\<^sup>*\<^sup>* (board_of (pr_saved provisioning_process))
     (board_of (pr_saved (fold (\<lambda>st. transaction (store_op (sample_lib sample_answer) uuid_of sample_calendar st)) sample_work provisioning_process)))"
proof -
  have "ledger (sample_lib sample_answer) (pr_saved provisioning_process)"
    using empty_ledger by (simp add: provisioning_process_def idle_process_def)
  moreover have "draws_uuids provisioning_process" "clean provisioning_process" "\<forall>st \<in> set sample_work. names_entities st"
    by (simp_all add: draws_uuids_def provisioning_process_def idle_process_def clean_def sample_work_def sample_entity_def)
  ultimately show ?thesis using stores_refine_board by blast
qed

end
