(* ===== verification/Warehouse_Identity.thy ===== *)
theory Warehouse_Identity
  imports Provisioning_Command
begin

text \<open>
  The ERP public identity of a provisioned warehouse: what may be declared (\<open>modules/provisioning/warehouse.py\<close>), the
  event that announces a change (\<open>warehouse_events.py\<close>) and the one transaction that finds or mints the identity, binds
  it and announces it (\<open>warehouse_identity_store.py\<close>, migration 0024).
\<close>

section \<open>Declarations\<close>

record WarehouseDeclaration =
  wd_code :: string
  wd_name :: string
  wd_legal_entity :: string
  wd_market :: string
  wd_country :: string
  wd_organisation :: string
  wd_active :: bool

definition WarehousePolicyError :: exn where "WarehousePolicyError = Exn ''WarehousePolicyError'' []"

fun check_declarations :: "string list \<Rightarrow> string \<Rightarrow> string \<Rightarrow> string \<Rightarrow> WarehouseDeclaration list \<Rightarrow> exn + unit" where
  "check_declarations seen entity market country [] = Inr ()"
| "check_declarations seen entity market country (w # ws) =
     (if wd_code w \<in> set seen then Inl WarehousePolicyError
      else if wd_legal_entity w \<noteq> entity then Inl WarehousePolicyError
      else if wd_market w \<noteq> market \<or> wd_country w \<noteq> country then Inl WarehousePolicyError
      else if \<not> nonblank (wd_organisation w) then Inl WarehousePolicyError
      else check_declarations (wd_code w # seen) entity market country ws)"

definition validate_warehouses :: "string \<Rightarrow> string \<Rightarrow> string \<Rightarrow> WarehouseDeclaration list \<Rightarrow> exn + WarehouseDeclaration list" where
  "validate_warehouses entity market country ws = bindE (check_declarations [] entity market country ws) (\<lambda>_. Inr ws)"

text \<open>\<open>^[A-Za-z_]+(?:/[A-Za-z0-9_+.-]+)+$\<close>\<close>

definition TIMEZONE_SHAPE :: rx where
  "TIMEZONE_SHAPE = Seq (Plus (Cls [(CHR ''A'', CHR ''Z''), (CHR ''a'', CHR ''z''), (CHR ''_'', CHR ''_'')]))
     (Plus (Seq (Lit ''/'') (Plus (Cls [(CHR ''A'', CHR ''Z''), (CHR ''a'', CHR ''z''), (CHR ''0'', CHR ''9''), (CHR ''_'', CHR ''_''),
        (CHR ''+'', CHR ''+''), (CHR ''.'', CHR ''.''), (CHR ''-'', CHR ''-'')]))))"

definition is_timezone :: "string list \<Rightarrow> json \<Rightarrow> bool" where
  "is_timezone known zone =
     (case zone of JStr z \<Rightarrow> length z \<le> 64 \<and> fullmatch TIMEZONE_SHAPE z \<and> z \<in> set known | _ \<Rightarrow> False)"

text \<open>\<open>known\<close> is the installed timezone database (\<open>available_timezones\<close>).\<close>

definition check_warehouse_timezones :: "string list \<Rightarrow> string list \<Rightarrow> json \<Rightarrow> exn + (string \<times> string) list" where
  "check_warehouse_timezones known codes zones =
     (case zones of
        JObj ms \<Rightarrow>
          if set (map fst ms) \<noteq> set codes then Inl WarehousePolicyError
          else if known = [] then Inl WarehousePolicyError
          else if \<not> list_all (\<lambda>(c, z). is_timezone known z) ms then Inl WarehousePolicyError
          else Inr (sort_key fst (map (\<lambda>(c, z). (c, jtext z)) ms))
      | _ \<Rightarrow> Inl WarehousePolicyError)"

section \<open>The event\<close>

definition WAREHOUSE_EVENT :: string where "WAREHOUSE_EVENT = ''com.baobab-platform.erp.warehouse.changed.v1''"
definition WAREHOUSE_NAMESPACE :: nat where "WAREHOUSE_NAMESPACE = 0x0a6e1d528f4b5e079c1a7b3d2e9f4a62"

text \<open>What is recorded about a warehouse.\<close>

record WarehouseFacts =
  wf_tenant :: string
  wf_entity :: string
  wf_code :: string
  wf_name :: string
  wf_country :: string
  wf_timezone :: "string option"
  wf_status :: string
  wf_engine :: string
  wf_native :: int

definition warehouse_correlation :: "pylib \<Rightarrow> string \<Rightarrow> string \<Rightarrow> string option \<Rightarrow> string" where
  "warehouse_correlation L tenant public supplied =
     uuid_or supplied (uuid5 L WAREHOUSE_NAMESPACE (''correlation|'' @ tenant @ ''|'' @ public))"

definition warehouse_event_key :: "string \<Rightarrow> nat \<Rightarrow> string" where
  "warehouse_event_key public rev_no = ''erp-warehouse-'' @ public @ ''-r'' @ show_nat rev_no"

definition warehouse_changed_event ::
  "pylib \<Rightarrow> nat \<Rightarrow> WarehouseFacts \<Rightarrow> string \<Rightarrow> string \<Rightarrow> nat \<Rightarrow> instant \<Rightarrow> string option \<Rightarrow> event_error + cloud_event" where
  "warehouse_changed_event L fresh w public zone rev_no now correlation =
     bindE (new_event L fresh WAREHOUSE_EVENT (''warehouse:'' @ public) (warehouse_correlation L (wf_tenant w) public correlation)
       (JObj [(''legal_entity_id'', JStr (wf_entity w)), (''warehouse_id'', JStr public), (''code'', JStr (wf_code w)),
         (''name'', JStr (wf_name w)), (''country'', JStr (wf_country w)), (''timezone'', JStr zone), (''status'', JStr (wf_status w)),
         (''revision'', JInt (int rev_no))])
       (Some (wf_tenant w)) JNull (JStr (warehouse_event_key public rev_no)) JNull now)
     (\<lambda>e. Inr (e\<lparr>ev_id := JStr (show_uuid (uuid5 L WAREHOUSE_NAMESPACE
         (''warehouse|'' @ wf_tenant w @ ''|'' @ public @ ''|'' @ show_nat rev_no)))\<rparr>))"

section \<open>The identity\<close>

definition WarehouseIdentityConflict :: exn where "WarehouseIdentityConflict = Exn ''WarehouseIdentityConflict'' []"

definition has_code :: "WarehouseFacts \<Rightarrow> warehouse_row \<Rightarrow> bool" where
  "has_code w r \<longleftrightarrow> wh_tenant r = wf_tenant w \<and> wh_entity r = wf_entity w \<and> wh_code r = Some (wf_code w)"

definition has_native :: "WarehouseFacts \<Rightarrow> warehouse_row \<Rightarrow> bool" where
  "has_native w r \<longleftrightarrow> wh_engine r = Some (wf_engine w) \<and> wh_native r = Some (wf_native w)"

text \<open>The identity that carries the code or the native record; two different ones, or another legal entity's, are a conflict.\<close>

definition find_identity :: "WarehouseFacts \<Rightarrow> warehouse_row list \<Rightarrow> exn + string option" where
  "find_identity w rows =
     (let by_code = select_one (has_code w) rows; by_native = select_one (has_native w) rows in
      if (case by_native of Some r \<Rightarrow> (wh_tenant r, wh_entity r) \<noteq> (wf_tenant w, wf_entity w) | None \<Rightarrow> False)
        then Inl WarehouseIdentityConflict
      else (case (by_code, by_native) of
          (Some a, Some b) \<Rightarrow> if wh_public a \<noteq> wh_public b then Inl WarehouseIdentityConflict else Inr (Some (wh_public a))
        | (Some a, None) \<Rightarrow> Inr (Some (wh_public a))
        | (None, Some b) \<Rightarrow> Inr (Some (wh_public b))
        | (None, None) \<Rightarrow> Inr None))"

definition warehouse_of :: "WarehouseFacts \<Rightarrow> string \<Rightarrow> warehouse_row" where
  "warehouse_of w public = \<lparr>wh_public = public, wh_tenant = wf_tenant w, wh_entity = wf_entity w, wh_code = Some (wf_code w),
     wh_name = Some (wf_name w), wh_country = Some (wf_country w), wh_timezone = wf_timezone w, wh_status = wf_status w,
     wh_engine = Some (wf_engine w), wh_native = Some (wf_native w)\<rparr>"

text \<open>The unique keys of the table: the public id, the code in a legal entity, the native record in an engine.\<close>

definition warehouse_clash :: "warehouse_row \<Rightarrow> warehouse_row \<Rightarrow> bool" where
  "warehouse_clash r x \<longleftrightarrow> wh_public x = wh_public r
     \<or> (wh_code r \<noteq> None \<and> wh_tenant x = wh_tenant r \<and> wh_entity x = wh_entity r \<and> wh_code x = wh_code r)
     \<or> (wh_native r \<noteq> None \<and> wh_engine r \<noteq> None \<and> wh_engine x = wh_engine r \<and> wh_native x = wh_native r)"

definition warehouse_status_ok :: "WarehouseFacts \<Rightarrow> bool" where
  "warehouse_status_ok w \<longleftrightarrow> wf_status w \<in> {''active'', ''inactive''}"

definition insert_warehouse :: "WarehouseFacts \<Rightarrow> string \<Rightarrow> (provisioning_tables, exn, unit) op" where
  "insert_warehouse w public t =
     (if \<not> warehouse_status_ok w then (Inl check_violation, t)
      else if list_ex (warehouse_clash (warehouse_of w public)) (pt_warehouses t) then (Inl unique_violation, t)
      else (Inr (), t\<lparr>pt_warehouses := pt_warehouses t @ [warehouse_of w public]\<rparr>))"

text \<open>The code, the native binding and the facts follow the approved state; the public id and the owner do not change.\<close>

definition rebind_warehouse :: "WarehouseFacts \<Rightarrow> warehouse_row \<Rightarrow> warehouse_row" where
  "rebind_warehouse w r = r\<lparr>wh_code := Some (wf_code w), wh_name := Some (wf_name w), wh_country := Some (wf_country w),
     wh_timezone := wf_timezone w, wh_status := wf_status w, wh_engine := Some (wf_engine w), wh_native := Some (wf_native w)\<rparr>"

definition update_warehouse :: "WarehouseFacts \<Rightarrow> string \<Rightarrow> (provisioning_tables, exn, unit) op" where
  "update_warehouse w public t =
     (if \<not> warehouse_status_ok w then (Inl check_violation, t)
      else if list_ex (\<lambda>r. wh_public r = public \<and>
          list_ex (\<lambda>x. wh_public x \<noteq> public \<and> warehouse_clash (rebind_warehouse w r) x) (pt_warehouses t)) (pt_warehouses t)
        then (Inl unique_violation, t)
      else (Inr (), t\<lparr>pt_warehouses := update_where (\<lambda>r. wh_public r = public) (rebind_warehouse w) (pt_warehouses t)\<rparr>))"

definition bind_identity :: "WarehouseFacts \<Rightarrow> ('n proc, exn, string) op" where
  "bind_identity w =
     bindS (readS (\<lambda>s. find_identity w (pt_warehouses (db_provisioning (pr_db s))))) (\<lambda>found.
     bindS (liftS found) (\<lambda>known.
     case known of
       None \<Rightarrow> bindS draw_uuid (\<lambda>u. let public = ''erp_'' @ hex_digits 32 u in
         bindS (on_tables (insert_warehouse w public)) (\<lambda>_. returnS public))
     | Some public \<Rightarrow> bindS (on_tables (update_warehouse w public)) (\<lambda>_. returnS public)))"

definition warehouse_detail :: "WarehouseFacts \<Rightarrow> json" where
  "warehouse_detail w = JObj [(''code'', JStr (wf_code w)), (''name'', JStr (wf_name w)), (''country'', JStr (wf_country w)),
     (''timezone'', (case wf_timezone w of None \<Rightarrow> JNull | Some z \<Rightarrow> JStr z))]"

definition announce_warehouse ::
  "pylib \<Rightarrow> (string \<Rightarrow> nat option) \<Rightarrow> WarehouseFacts \<Rightarrow> string \<Rightarrow> string \<Rightarrow> nat \<Rightarrow> instant \<Rightarrow> string option \<Rightarrow> ('n proc, exn, unit) op" where
  "announce_warehouse L pg w public zone rev_no now correlation =
     bindS draw_uuid (\<lambda>fresh.
     bindS (liftS (mapE_exn envelope_exn (warehouse_changed_event L fresh w public zone rev_no now correlation))) (\<lambda>e.
     bindS read_clock (\<lambda>t. on_db (store_outbox (record_event L pg e t)))))"

definition register_identity ::
  "pylib \<Rightarrow> (string \<Rightarrow> nat option) \<Rightarrow> WarehouseFacts \<Rightarrow> instant \<Rightarrow> string option \<Rightarrow> ('n proc, exn, string) op" where
  "register_identity L pg w now correlation =
     bindS (bind_identity w) (\<lambda>public.
     bindS (db_advance (wf_tenant w) ''warehouse'' public (wf_status w) (warehouse_detail w) now) (\<lambda>moved.
     bindS (case wf_timezone w of
         None \<Rightarrow> returnS ()
       | Some zone \<Rightarrow> if ad_changed moved then announce_warehouse L pg w public zone (ad_revision moved) now correlation else returnS ())
       (\<lambda>_. returnS public)))"

definition record_warehouse ::
  "pylib \<Rightarrow> (string \<Rightarrow> nat option) \<Rightarrow> WarehouseFacts \<Rightarrow> instant \<Rightarrow> string option \<Rightarrow> ('n proc, exn, string) op" where
  "record_warehouse L pg w now correlation = atomically (register_identity L pg w now correlation)"

end
