(* ===== verification/Provisioning_Execution.thy ===== *)
theory Provisioning_Execution
  imports Warehouse_Identity
begin

text \<open>
  Executing an accepted operation: the adapter of the plan's steps onto the engine
  (\<open>modules/provisioning/idempiere_adapter.py\<close>), one pass over an operation and how it is classified (\<open>execution.py\<close>),
  the queue of the operations that still need work (\<open>execution_store.py\<close>) and the worker (\<open>application/provisioning_worker.py\<close>).
  Other workers are the lock oracle \<open>xe_lock_free\<close>. Every statement reads the database's clock once.
\<close>

section \<open>The native mapping on the connection\<close>

fun traverse :: "('a \<Rightarrow> ('s, 'e, 'b) op) \<Rightarrow> 'a list \<Rightarrow> ('s, 'e, 'b list) op" where
  "traverse f [] = returnS []"
| "traverse f (x # xs) = bindS (f x) (\<lambda>y. bindS (traverse f xs) (\<lambda>ys. returnS (y # ys)))"

definition native_of :: "string \<Rightarrow> string \<Rightarrow> ('n proc, exn, int option) op" where
  "native_of pid resource = readS (\<lambda>s. get_native_id pid resource (pt_natives (db_provisioning (pr_db s))))"

text \<open>The upsert: the id is a \<open>bigint\<close>, a new row refers to its operation. It is committed at once.\<close>

definition upsert_native :: "string \<Rightarrow> string \<Rightarrow> int \<Rightarrow> (provisioning_tables, exn, unit) op" where
  "upsert_native pid resource n t =
     (if n < - (2 ^ 63) \<or> 2 ^ 63 \<le> n then (Inl (Exn ''NumericValueOutOfRange'' []), t)
      else if get_native_id pid resource (pt_natives t) = None \<and> pid \<notin> op_provisioning ` set (pt_operations t)
        then (Inl foreign_key_violation, t)
      else (Inr (), t\<lparr>pt_natives := put_native_id pid resource n (pt_natives t)\<rparr>))"

definition store_native :: "string \<Rightarrow> string \<Rightarrow> int \<Rightarrow> ('n proc, exn, unit) op" where
  "store_native pid resource n = bindS (on_tables (upsert_native pid resource n)) (\<lambda>_. commit_tx)"

section \<open>The adapter\<close>

text \<open>\<open>pa_publishes\<close> says whether the adapter has the tenant mappings to write (the worker's always has).\<close>

record 'n adapter =
  pa_engine :: "'n proc engine"
  pa_publishes :: bool

definition resource_key :: "ProvisioningStep \<Rightarrow> string" where
  "resource_key st = kind_text (ps_kind st) @ '':'' @ ps_key st"

definition CLIENT_ALIAS :: string where "CLIENT_ALIAS = ''AD_Client:primary''"
definition MARKER_PREFIX :: string where "MARKER_PREFIX = ''baobab-provisioning:''"

definition safe_value :: "string \<Rightarrow> string" where
  "safe_value v = take 40 (map (\<lambda>c. if c = CHR ''_'' then CHR ''-'' else c) v)"

fun table_of :: "StepKind \<Rightarrow> exn + string" where
  "table_of CREATE_CLIENT = Inr ''AD_Client''"
| "table_of CREATE_ORGANISATION = Inr ''AD_Org''"
| "table_of CREATE_WAREHOUSE = Inr ''M_Warehouse''"
| "table_of _ = Inl (Exn ''KeyError'' [])"

definition step_marker :: "ProvisioningStep \<Rightarrow> exn + string" where
  "step_marker st =
     (let marker = MARKER_PREFIX @ ps_key st in
      if 255 < length marker then Inl (Exn ''ValueError'' ''provisioning step key too long to record as an engine marker'') else Inr marker)"

definition find_marked :: "'n proc engine \<Rightarrow> string \<Rightarrow> string \<Rightarrow> ('n proc, exn, int option) op" where
  "find_marked E table marker =
     bindS (query E table [(''Description'', JStr marker)] [table @ ''_ID'']) (\<lambda>rows.
     case rows of
       [] \<Rightarrow> returnS None
     | [row] \<Rightarrow> bindS (liftS (row_id table row)) (\<lambda>n. returnS (Some n))
     | _ \<Rightarrow> raiseS (Exn ''DuplicateNativeRecords'' []))"

definition created_result :: "string \<Rightarrow> int \<Rightarrow> (string \<times> json) list \<Rightarrow> json" where
  "created_result table n how = JObj ([(''table'', JStr table), (''id'', JInt n)] @ how)"

text \<open>
  A step's record is known by its mapping, or found by the marker an earlier attempt wrote into it and did not live to
  record, or created with the marker. It is never looked for by name.
\<close>

definition create_once ::
  "'n adapter \<Rightarrow> ErpProvisioningRequest \<Rightarrow> ProvisioningStep \<Rightarrow> string \<Rightarrow> fields \<Rightarrow> ('n proc, exn, int \<times> json) op" where
  "create_once A r st table data =
     bindS (native_of (rq_provisioning r) (resource_key st)) (\<lambda>known.
     case known of
       Some n \<Rightarrow> bindS (get_record (pa_engine A) table n) (\<lambda>_. returnS (n, created_result table n [(''reused'', JBool True)]))
     | None \<Rightarrow>
         bindS (liftS (step_marker st)) (\<lambda>marker.
         bindS (find_marked (pa_engine A) table marker) (\<lambda>adopted.
         case adopted of
           Some n \<Rightarrow> bindS (store_native (rq_provisioning r) (resource_key st) n) (\<lambda>_.
             returnS (n, created_result table n [(''reused'', JBool True), (''adopted'', JBool True)]))
         | None \<Rightarrow>
             bindS (create_record (pa_engine A) table (with_field ''Description'' (JStr marker) data)) (\<lambda>n.
             bindS (store_native (rq_provisioning r) (resource_key st) n) (\<lambda>_.
             returnS (n, created_result table n [(''reused'', JBool False)]))))))"

definition create_client :: "'n adapter \<Rightarrow> ErpProvisioningRequest \<Rightarrow> ProvisioningStep \<Rightarrow> ('n proc, exn, json) op" where
  "create_client A r st =
     bindS (create_once A r st ''AD_Client'' [(''Name'', JStr (rq_name r)), (''Value'', JStr (safe_value (rq_entity r))), (''IsActive'', JBool True)])
       (\<lambda>(n, result). bindS (store_native (rq_provisioning r) CLIENT_ALIAS n) (\<lambda>_. returnS result))"

definition with_default :: "string \<Rightarrow> json \<Rightarrow> fields \<Rightarrow> fields" where
  "with_default k v data = (if map_of data k = None then data @ [(k, v)] else data)"

definition create_org :: "'n adapter \<Rightarrow> ErpProvisioningRequest \<Rightarrow> ProvisioningStep \<Rightarrow> ('n proc, exn, json) op" where
  "create_org A r st =
     bindS (create_once A r st ''AD_Org'' (with_default ''IsActive'' (JBool True) (with_default ''Value'' (JStr (safe_value (rq_entity r)))
       (with_default ''Name'' (JStr (rq_name r)) (ps_payload st))))) (\<lambda>(n, result). returnS result)"

definition create_warehouse :: "'n adapter \<Rightarrow> ErpProvisioningRequest \<Rightarrow> ProvisioningStep \<Rightarrow> ('n proc, exn, json) op" where
  "create_warehouse A r st =
     bindS (liftS (subscript (JObj (ps_payload st)) ''warehouse_code'')) (\<lambda>v.
     bindS (create_once A r st ''M_Warehouse'' [(''Name'', v), (''Value'', v), (''IsActive'', JBool True)]) (\<lambda>(n, result). returnS result))"

text \<open>1 is the sentinel of a step without a record.\<close>

definition mark_applied :: "ErpProvisioningRequest \<Rightarrow> ProvisioningStep \<Rightarrow> ('n proc, exn, unit) op" where
  "mark_applied r st = store_native (rq_provisioning r) (resource_key st) 1"

definition run_process :: "'n adapter \<Rightarrow> ErpProvisioningRequest \<Rightarrow> ProvisioningStep \<Rightarrow> string \<Rightarrow> ('n proc, exn, json) op" where
  "run_process A r st refusal =
     (case jget (JObj (ps_payload st)) ''process_id'' of
        JNull \<Rightarrow> raiseS (Exn ''ValueError'' refusal)
      | v \<Rightarrow>
          bindS (liftS (to_int v)) (\<lambda>n.
          bindS (execute_process (pa_engine A) n (ps_payload st)) (\<lambda>answer.
          bindS (mark_applied r st) (\<lambda>_. returnS (JObj [(''process_id'', JInt n), (''result'', answer)])))))"

definition configure_accounting :: "'n adapter \<Rightarrow> ErpProvisioningRequest \<Rightarrow> ProvisioningStep \<Rightarrow> ('n proc, exn, json) op" where
  "configure_accounting A r st = run_process A r st ''CONFIGURE_ACCOUNTING requires approved iDempiere process_id''"

definition configure_localisation :: "'n adapter \<Rightarrow> ErpProvisioningRequest \<Rightarrow> ProvisioningStep \<Rightarrow> ('n proc, exn, json) op" where
  "configure_localisation A r st = run_process A r st ''CONFIGURE_LOCALISATION requires certified localisation process_id''"

text \<open>A text of a payload; the planner writes nothing else.\<close>

definition payload_text :: "ProvisioningStep \<Rightarrow> string \<Rightarrow> exn + string" where
  "payload_text st name =
     bindE (subscript (JObj (ps_payload st)) name) (\<lambda>v. case v of JStr x \<Rightarrow> Inr x | _ \<Rightarrow> Inl (Exn ''ProgrammingError'' []))"

fun context_exn :: "context_error \<Rightarrow> exn" where
  "context_exn context_error.MappingConflict = Exn ''MappingConflict'' []"
| "context_exn EngineInstanceRequired = Exn ''ValueError'' []"
| "context_exn ContextUniqueViolation = unique_violation"
| "context_exn ContextResolutionError = Exn ''ContextResolutionError'' []"

definition publish_mapping :: "string \<Rightarrow> string \<Rightarrow> int \<Rightarrow> int \<Rightarrow> string \<Rightarrow> ('n proc, exn, unit) op" where
  "publish_mapping tenant entity client org engine_id =
     on_db (\<lambda>d. case confirm_tenant_mapping tenant entity client org engine_id (db_tenants d) of
       Inl e \<Rightarrow> (Inl (context_exn e), d)
     | Inr rows \<Rightarrow> (Inr (), d\<lparr>db_tenants := rows\<rparr>))"

definition ALL_ORGANIZATIONS :: int where "ALL_ORGANIZATIONS = 0"

definition persist_mapping :: "'n adapter \<Rightarrow> ErpProvisioningRequest \<Rightarrow> ProvisioningStep \<Rightarrow> ('n proc, exn, json) op" where
  "persist_mapping A r st =
     bindS (mark_applied r st) (\<lambda>_.
     let result = [(''canonical'', JObj (ps_payload st)), (''persisted'', JBool True)] in
     if \<not> pa_publishes A then returnS (JObj result)
     else bindS (native_of (rq_provisioning r) CLIENT_ALIAS) (\<lambda>client.
       case client of
         None \<Rightarrow> raiseS (Exn ''ValueError'' ''PERSIST_MAPPING requires AD_Client_ID from a completed CREATE_CLIENT step'')
       | Some c \<Rightarrow>
           (case jget (JObj (ps_payload st)) ''engine_instance_id'' of
              JStr g \<Rightarrow>
                if \<not> nonblank g then raiseS (Exn ''ValueError'' ''PERSIST_MAPPING requires the engine_instance_id'')
                else bindS (liftS (payload_text st ''tenant_id'')) (\<lambda>tenant.
                  bindS (liftS (payload_text st ''legal_entity_id'')) (\<lambda>entity.
                  bindS (publish_mapping tenant entity c ALL_ORGANIZATIONS g) (\<lambda>_.
                  returnS (JObj (result @ [(''tenant_mapping'', JObj [(''ad_client_id'', JInt c), (''ad_org_id'', JInt ALL_ORGANIZATIONS),
                    (''engine_instance_id'', JStr g)])])))))
            | _ \<Rightarrow> raiseS (Exn ''ValueError'' ''PERSIST_MAPPING requires the engine_instance_id''))))"

fun step_handler :: "StepKind \<Rightarrow> 'n adapter \<Rightarrow> ErpProvisioningRequest \<Rightarrow> ProvisioningStep \<Rightarrow> ('n proc, exn, json) op" where
  "step_handler CREATE_CLIENT = create_client"
| "step_handler CREATE_ORGANISATION = create_org"
| "step_handler CONFIGURE_ACCOUNTING = configure_accounting"
| "step_handler CONFIGURE_LOCALISATION = configure_localisation"
| "step_handler CREATE_WAREHOUSE = create_warehouse"
| "step_handler PERSIST_MAPPING = persist_mapping"

definition apply_step :: "'n adapter \<Rightarrow> ErpProvisioningRequest \<Rightarrow> ProvisioningStep \<Rightarrow> ('n proc, exn, json) op" where
  "apply_step A r st = step_handler (ps_kind st) A r st"

text \<open>The readiness of a step. What an exception says goes into the detail; the model keeps its class.\<close>

definition attempt :: "('s, exn, 'a) op \<Rightarrow> ('s, exn, exn + 'a) op" where
  "attempt m s = (case m s of (r, s') \<Rightarrow> (Inr r, s'))"

definition record_active :: "json \<Rightarrow> exn + bool" where
  "record_active v =
     (if \<not> is_obj v then Inl (Exn ''AttributeError'' [])
      else Inr (if has_key v ''IsActive'' then truthy (jget v ''IsActive'') else True))"

definition check_step :: "'n adapter \<Rightarrow> ErpProvisioningRequest \<Rightarrow> ProvisioningStep \<Rightarrow> ('n proc, exn, ReadinessCheck) op" where
  "check_step A r st =
     (let name = ''idempiere.'' @ kind_text (ps_kind st) in
      bindS (native_of (rq_provisioning r) (resource_key st)) (\<lambda>known.
      if ps_kind st \<in> {CONFIGURE_ACCOUNTING, CONFIGURE_LOCALISATION, PERSIST_MAPPING}
        then returnS (readiness_check name (known \<noteq> None) (if known \<noteq> None then ''applied'' else ''not applied''))
      else (case known of
          None \<Rightarrow> returnS (readiness_check name False ''native mapping missing'')
        | Some n \<Rightarrow>
            bindS (liftS (table_of (ps_kind st))) (\<lambda>table.
            bindS (attempt (get_record (pa_engine A) table n)) (\<lambda>answer.
            case answer of
              Inl e \<Rightarrow> returnS (readiness_check name False (''native record unavailable: '' @ exn_class e))
            | Inr record_doc \<Rightarrow>
                bindS (liftS (record_active record_doc)) (\<lambda>active. returnS (readiness_check name active (table @ '':'' @ show_int n))))))))"

section \<open>How a pass ends\<close>

text \<open>\<open>po_status\<close>: ready, retry (engine trouble or not ready yet), blocked (operator action) or failed.\<close>

record PassOutcome =
  po_status :: string
  po_code :: string
  po_detail :: string
  po_delay :: "int option"

definition pass_outcome :: "string \<Rightarrow> string \<Rightarrow> string \<Rightarrow> PassOutcome" where
  "pass_outcome status ocode detail = \<lparr>po_status = status, po_code = ocode, po_detail = detail, po_delay = None\<rparr>"

text \<open>The classes of the model's exceptions that derive from \<open>ValueError\<close>.\<close>

definition VALUE_ERRORS :: "string list" where
  "VALUE_ERRORS = [''ValueError'', ''InvalidProvisioningRequestError'', ''IdentifierError'', ''EnvelopeError'', ''WarehousePolicyError'']"

definition classify :: "exn \<Rightarrow> PassOutcome" where
  "classify e =
     (let c = exn_class e in
      if c = ''StateUnreadable'' then pass_outcome ''failed'' ''STATE_UNREADABLE'' []
      else if c = ''StateDrift'' then pass_outcome ''failed'' ''STATE_DRIFT'' []
      else if c = ''EngineUnconfigured'' then pass_outcome ''blocked'' ''ENGINE_UNCONFIGURED'' []
      else if c = ''ProcessUnconfigured'' then pass_outcome ''blocked'' ''PROCESS_UNCONFIGURED'' []
      else if c = ''IdempiereAuthenticationError'' then pass_outcome ''blocked'' ''ENGINE_AUTH'' []
      else (case e of
          ApiError status \<Rightarrow>
            if 500 \<le> status \<or> status \<in> {408, 425, 429}
              then pass_outcome ''retry'' ''ENGINE_UNAVAILABLE'' (''HTTP '' @ show_int status)
            else pass_outcome ''failed'' ''ENGINE_REJECTED'' (''HTTP '' @ show_int status)
        | _ \<Rightarrow>
            if is_client_error e then pass_outcome ''retry'' ''ENGINE_UNAVAILABLE'' []
            else if c = ''DuplicateNativeRecords'' then pass_outcome ''failed'' ''DUPLICATE_NATIVE_RECORDS'' []
            else if c = ''MappingConflict'' then pass_outcome ''failed'' ''TENANT_MAPPING_CONFLICT'' []
            else if c = ''WarehouseIdentityConflict'' then pass_outcome ''failed'' ''WAREHOUSE_IDENTITY_CONFLICT'' []
            else if c \<in> set VALUE_ERRORS then pass_outcome ''failed'' ''STEP_INVALID'' c
            else pass_outcome ''retry'' ''UNEXPECTED_ERROR'' c))"

definition PASS_MAX_ATTEMPTS :: nat where "PASS_MAX_ATTEMPTS = 24"
definition PASS_BLOCKED_DELAY :: int where "PASS_BLOCKED_DELAY = 900"
definition PASS_BLOCKED_HORIZON :: int where "PASS_BLOCKED_HORIZON = hours 72"

definition apply_budgets :: "PassOutcome \<Rightarrow> nat \<Rightarrow> instant \<Rightarrow> instant \<Rightarrow> PassOutcome" where
  "apply_budgets oc attempts created now =
     (if po_status oc = ''retry'' then
        (if PASS_MAX_ATTEMPTS \<le> attempts then pass_outcome ''failed'' ''ATTEMPTS_EXHAUSTED'' (po_code oc)
         else (pass_outcome ''retry'' (po_code oc) (po_detail oc))\<lparr>po_delay := Some (retry_delay_seconds attempts)\<rparr>)
      else if po_status oc = ''blocked'' then
        (if PASS_BLOCKED_HORIZON < now - created then pass_outcome ''failed'' ''BLOCKED_HORIZON_EXCEEDED'' (po_code oc)
         else (pass_outcome ''blocked'' (po_code oc) (po_detail oc))\<lparr>po_delay := Some PASS_BLOCKED_DELAY\<rparr>)
      else oc)"

section \<open>One pass over an operation\<close>

record LoadedOperation =
  lo_provisioning :: string
  lo_state :: json
  lo_digest :: "string option"
  lo_plan :: "json list"
  lo_status :: ProvisioningStatus
  lo_attempts :: nat
  lo_created :: instant

record 'n executor =
  xe_lib :: pylib
  xe_pg_uuid :: "string \<Rightarrow> nat option"
  xe_calendar :: calendar
  xe_processes :: "NativeProcesses option"
  xe_engine_for :: "string \<Rightarrow> ('n proc, exn, 'n proc engine option) op"
  xe_lock_free :: "string \<Rightarrow> bool"

definition ALL_KINDS :: "StepKind list" where
  "ALL_KINDS = [CREATE_CLIENT, CREATE_ORGANISATION, CONFIGURE_ACCOUNTING, CONFIGURE_LOCALISATION, CREATE_WAREHOUSE, PERSIST_MAPPING]"

definition read_kind :: "json \<Rightarrow> exn + StepKind" where
  "read_kind v = of_option (Exn ''ValueError'' ''not a StepKind'') (find (\<lambda>k. v = JStr (kind_text k)) ALL_KINDS)"

text \<open>\<open>dict(v)\<close> of a JSON value: an object, or anything empty; \<open>dict\<close> of a list of pairs is not modelled (a plan has none).\<close>

definition read_payload :: "json \<Rightarrow> exn + fields" where
  "read_payload v =
     (case v of
        JObj ms \<Rightarrow> Inr ms
      | JArr [] \<Rightarrow> Inr []
      | JStr [] \<Rightarrow> Inr []
      | JArr _ \<Rightarrow> Inl (Exn ''TypeError'' [])
      | JStr _ \<Rightarrow> Inl (Exn ''ValueError'' [])
      | _ \<Rightarrow> Inl (Exn ''TypeError'' []))"

text \<open>A stored row of the plan, as it is read; its key may be anything until it has been compared.\<close>

definition stored_step :: "json \<Rightarrow> exn + json \<times> StepKind \<times> fields" where
  "stored_step row =
     bindE (subscript row ''key'') (\<lambda>k.
     bindE (subscript row ''kind'') (\<lambda>v. bindE (read_kind v) (\<lambda>kind.
     bindE (subscript row ''payload'') (\<lambda>p. bindE (read_payload p) (\<lambda>payload. Inr (k, kind, payload))))))"

text \<open>Dictionaries are equal whatever the order of their members (\<open>jsonb\<close> keeps an order of its own).\<close>

definition same_fields :: "fields \<Rightarrow> fields \<Rightarrow> bool" where
  "same_fields a b \<longleftrightarrow> list_all (\<lambda>k. map_of a k = map_of b k) (map fst a @ map fst b)"

definition same_step :: "json \<times> StepKind \<times> fields \<Rightarrow> ProvisioningStep \<Rightarrow> bool" where
  "same_step x st \<longleftrightarrow> fst x = JStr (ps_key st) \<and> fst (snd x) = ps_kind st \<and> same_fields (snd (snd x)) (ps_payload st)"

text \<open>The plan to run: the stored one, which must be the one its verified desired state produces.\<close>

definition approved_steps :: "'n executor \<Rightarrow> LoadedOperation \<Rightarrow> exn + ErpProvisioningRequest \<times> ProvisioningStep list" where
  "approved_steps X q =
     bindE (verified_request (xe_lib X) (xe_calendar X) (lo_state q) (lo_digest q)) (\<lambda>r.
     bindE (mapE stored_step (lo_plan q)) (\<lambda>rows.
     bindE (build_plan (xe_lib X) (xe_calendar X) r) (\<lambda>p.
     if \<not> list_all2 same_step rows (pp_steps p) then Inl StateDrift
     else Inr (r, map2 (\<lambda>x st. st\<lparr>ps_payload := snd (snd x)\<rparr>) rows (pp_steps p)))))"

text \<open>The request, the adapter and every step with its process id, before the first step touches anything.\<close>

definition prepare ::
  "'n executor \<Rightarrow> LoadedOperation \<Rightarrow> ('n proc, exn, ErpProvisioningRequest \<times> 'n adapter \<times> ProvisioningStep list) op" where
  "prepare X q =
     bindS (liftS (approved_steps X q)) (\<lambda>(r, steps).
     bindS (xe_engine_for X (rq_engine r)) (\<lambda>client.
     case client of
       None \<Rightarrow> raiseS (Exn ''EngineUnconfigured'' (rq_engine r))
     | Some E \<Rightarrow> bindS (liftS (mapE (enrich_step (xe_processes X)) steps)) (\<lambda>runnable.
         returnS (r, \<lparr>pa_engine = E, pa_publishes = True\<rparr>, runnable))))"

definition apply_and_mark :: "'n adapter \<Rightarrow> ErpProvisioningRequest \<Rightarrow> string \<Rightarrow> ProvisioningStep \<Rightarrow> ('n proc, exn, unit) op" where
  "apply_and_mark A r pid st = bindS (apply_step A r st) (\<lambda>result. mark_step pid (ps_key st) ''completed'' result)"

definition optional_text :: "json \<Rightarrow> exn + string option" where
  "optional_text v = (case v of JNull \<Rightarrow> Inr None | JStr x \<Rightarrow> Inr (Some x) | _ \<Rightarrow> Inl (Exn ''ProgrammingError'' []))"

definition country_of_market :: "ErpProvisioningRequest \<Rightarrow> string \<Rightarrow> exn + string" where
  "country_of_market r m =
     of_option (Exn ''KeyError'' m) (map_of (rev (map (\<lambda>x. (mk_id x, mk_country x)) (rq_markets r))) m)"

definition register_warehouse :: "'n executor \<Rightarrow> ErpProvisioningRequest \<Rightarrow> ProvisioningStep \<Rightarrow> ('n proc, exn, unit) op" where
  "register_warehouse X r st =
     (if ps_kind st \<noteq> CREATE_WAREHOUSE then returnS ()
      else bindS (native_of (rq_provisioning r) (resource_key st)) (\<lambda>known.
        case known of
          None \<Rightarrow> returnS ()
        | Some n \<Rightarrow>
            bindS (liftS (payload_text st ''warehouse_code'')) (\<lambda>wcode.
            bindS (liftS (bindE (payload_text st ''market_id'') (country_of_market r))) (\<lambda>country.
            bindS (liftS (optional_text (jget (JObj (ps_payload st)) ''timezone''))) (\<lambda>zone.
            bindS read_clock (\<lambda>now.
            bindS (record_warehouse (xe_lib X) (xe_pg_uuid X)
              \<lparr>wf_tenant = rq_tenant r, wf_entity = rq_entity r, wf_code = wcode, wf_name = wcode, wf_country = country,
                wf_timezone = zone, wf_status = ''active'', wf_engine = rq_engine r, wf_native = n\<rparr> now None) (\<lambda>_. returnS ())))))))"

definition failing_codes :: "ReadinessCheck list \<Rightarrow> string list" where
  "failing_codes checks = map rc_code (filter (\<lambda>c. \<not> rc_ready c) checks)"

definition perform_pass :: "'n executor \<Rightarrow> LoadedOperation \<Rightarrow> ErpProvisioningRequest \<Rightarrow> 'n adapter \<Rightarrow> ProvisioningStep list \<Rightarrow> ('n proc, exn, PassOutcome) op" where
  "perform_pass X q r A steps =
     (let pid = lo_provisioning q; status = set_status (xe_lib X) (xe_pg_uuid X) pid in
      bindS (readS (\<lambda>s. completed_steps pid (db_provisioning (pr_db s)))) (\<lambda>known.
      let pending = filter (\<lambda>st. ps_key st \<notin> known) steps in
      bindS (if pending \<noteq> [] \<and> lo_status q \<noteq> APPLYING then status APPLYING None else returnS ()) (\<lambda>_.
      bindS (traverse (apply_and_mark A r pid) pending) (\<lambda>_.
      bindS (traverse (register_warehouse X r) steps) (\<lambda>_.
      bindS (if lo_status q \<noteq> RECONCILING then status RECONCILING None else returnS ()) (\<lambda>_.
      bindS (traverse (check_step A r) steps) (\<lambda>checks.
      let failing = failing_codes (validate_request r @ checks) in
      if failing \<noteq> [] then returnS (pass_outcome ''retry'' ''NOT_READY'' (take 200 (join '','' (sort failing))))
      else bindS (status READY None) (\<lambda>_. returnS (pass_outcome ''ready'' ''READY'' [])))))))))"

definition run_operation :: "'n executor \<Rightarrow> LoadedOperation \<Rightarrow> ('n proc, exn, PassOutcome) op" where
  "run_operation X q = bindS (prepare X q) (\<lambda>(r, A, steps). perform_pass X q r A steps)"

text \<open>\<open>run\<close> never raises: whatever goes wrong is classified.\<close>

definition run_pass :: "'n executor \<Rightarrow> LoadedOperation \<Rightarrow> ('n proc, exn, PassOutcome) op" where
  "run_pass X q s = (case run_operation X q s of (Inl e, s') \<Rightarrow> (Inr (classify e), s') | (Inr oc, s') \<Rightarrow> (Inr oc, s'))"

section \<open>The queue\<close>

definition OPEN_STATUSES :: "ProvisioningStatus list" where "OPEN_STATUSES = [PLANNED, APPLYING, RECONCILING]"
definition CLOSED_COMMANDS :: "string list" where "CLOSED_COMMANDS = [''failed'', ''cancelled'']"

text \<open>The states of the commands an operation belongs to.\<close>

definition command_states :: "provisioning_tables \<Rightarrow> string \<Rightarrow> string list" where
  "command_states t pid =
     concat (map (\<lambda>m. map cm_state (filter (\<lambda>c. cm_operation c = mb_operation m) (pt_commands t)))
       (filter (\<lambda>m. mb_provisioning m = pid) (pt_members t)))"

definition due_operations :: "nat \<Rightarrow> instant \<Rightarrow> provisioning_tables \<Rightarrow> string list" where
  "due_operations limit now t =
     (let joined = concat (map (\<lambda>x. map (\<lambda>_. x) (filter (\<lambda>c. c \<notin> set CLOSED_COMMANDS) (command_states t (op_provisioning x))))
          (pt_operations t));
          ready = filter (\<lambda>x. op_status x \<in> set OPEN_STATUSES \<and> (case op_next x of None \<Rightarrow> True | Some u \<Rightarrow> u \<le> now)) joined in
      take limit (map op_provisioning (sort_key (\<lambda>x. (op_created x, op_provisioning x)) ready)))"

definition due :: "nat \<Rightarrow> ('n proc, exn, string list) op" where
  "due limit = bindS read_clock (\<lambda>now. bindS (readS (\<lambda>s. due_operations limit now (db_provisioning (pr_db s)))) (\<lambda>ids.
     bindS commit_tx (\<lambda>_. returnS ids)))"

text \<open>\<open>tuple(plan or ())\<close>\<close>

definition plan_rows :: "json \<Rightarrow> exn + json list" where
  "plan_rows v =
     (if \<not> truthy v then Inr []
      else (case v of
          JArr vs \<Rightarrow> Inr vs
        | JObj ms \<Rightarrow> Inr (map (\<lambda>m. JStr (fst m)) ms)
        | JStr x \<Rightarrow> Inr (map (\<lambda>c. JStr [c]) x)
        | _ \<Rightarrow> Inl (Exn ''TypeError'' [])))"

definition may_begin :: "provisioning_tables \<Rightarrow> operation_row \<Rightarrow> bool" where
  "may_begin t x \<longleftrightarrow> op_status x \<in> set OPEN_STATUSES \<and> list_all (\<lambda>c. c \<notin> set CLOSED_COMMANDS) (command_states t (op_provisioning x))"

definition claim_operation :: "string \<Rightarrow> (provisioning_tables, exn, operation_row option) op" where
  "claim_operation pid t =
     (let hit = (\<lambda>x. operation_of pid x \<and> may_begin t x); more = (\<lambda>x. x\<lparr>op_attempts := op_attempts x + 1\<rparr>) in
      (Inr (map_option more (select_one hit (pt_operations t))), t\<lparr>pt_operations := update_where hit more (pt_operations t)\<rparr>))"

definition begin_pass :: "string \<Rightarrow> ('n proc, exn, LoadedOperation option) op" where
  "begin_pass pid =
     bindS (on_tables (claim_operation pid)) (\<lambda>claimed.
     bindS commit_tx (\<lambda>_.
     case claimed of
       None \<Rightarrow> returnS None
     | Some x \<Rightarrow> bindS (liftS (plan_rows (op_plan x))) (\<lambda>rows.
         returnS (Some \<lparr>lo_provisioning = pid, lo_state = op_state x, lo_digest = op_digest x, lo_plan = rows, lo_status = op_status x,
           lo_attempts = op_attempts x, lo_created = op_created x\<rparr>))))"

text \<open>The next attempt is scheduled on the database's clock; a blocked pass gives its attempt back.\<close>

definition pass_recorded :: "string \<Rightarrow> int option \<Rightarrow> string option \<Rightarrow> bool \<Rightarrow> instant \<Rightarrow> operation_row \<Rightarrow> operation_row" where
  "pass_recorded ocode delay err refund now x =
     x\<lparr>op_outcome := Some ocode, op_next := map_option (\<lambda>d. now + seconds d) delay,
       op_attempts := (if refund then op_attempts x - 1 else op_attempts x),
       op_error := (case err of None \<Rightarrow> op_error x | Some m \<Rightarrow> Some m)\<rparr>"

definition record_pass :: "string \<Rightarrow> string \<Rightarrow> int option \<Rightarrow> string option \<Rightarrow> bool \<Rightarrow> ('n proc, exn, unit) op" where
  "record_pass pid ocode delay err refund =
     bindS read_clock (\<lambda>now.
     bindS (on_tables (update_operation pid (pass_recorded ocode delay err refund now))) (\<lambda>_. commit_tx))"

text \<open>\<open>f"{code}: {detail}".rstrip(": ")\<close>\<close>

definition pass_message :: "PassOutcome \<Rightarrow> string" where
  "pass_message oc = rev (dropWhile (\<lambda>c. c \<in> set '': '') (rev (po_code oc @ '': '' @ po_detail oc)))"

definition settle_pass :: "'n executor \<Rightarrow> LoadedOperation \<Rightarrow> PassOutcome \<Rightarrow> instant \<Rightarrow> ('n proc, exn, PassOutcome) op" where
  "settle_pass X q reached now =
     (let pid = lo_provisioning q; oc = apply_budgets reached (lo_attempts q) (lo_created q) now in
      bindS rollback_tx (\<lambda>_.
      bindS (if po_status oc = ''failed'' then
          bindS (set_status (xe_lib X) (xe_pg_uuid X) pid FAILED (Some (pass_message oc))) (\<lambda>_. record_pass pid (po_code oc) None None False)
        else if po_status oc = ''ready'' then record_pass pid (po_code oc) None None False
        else record_pass pid (po_code oc) (Some (case po_delay oc of None \<Rightarrow> 0 | Some d \<Rightarrow> d)) (Some (pass_message oc))
          (po_status oc = ''blocked'')) (\<lambda>_. returnS oc)))"

text \<open>How many operations of commands are in each status.\<close>

definition backlog_counts :: "provisioning_tables \<Rightarrow> (ProvisioningStatus \<times> nat) list" where
  "backlog_counts t =
     (let joined = concat (map (\<lambda>x. map (\<lambda>_. op_status x) (filter (\<lambda>m. mb_provisioning m = op_provisioning x) (pt_members t))) (pt_operations t)) in
      map (\<lambda>st. (st, length (filter (\<lambda>y. y = st) joined))) (remdups joined))"

section \<open>The worker\<close>

text \<open>What a run reports: the outcomes and codes of its passes in order, and the operations another worker held.\<close>

record PassReport =
  pr_outcomes :: "PassOutcome list"
  pr_contended :: nat

definition tally :: "('a \<Rightarrow> string) \<Rightarrow> 'a list \<Rightarrow> (string \<times> nat) list" where
  "tally key xs = map (\<lambda>k. (k, length (filter (\<lambda>x. key x = k) xs))) (remdups (map key xs))"

text \<open>
  \<open>try: m finally: unlock\<close>. The unlock commits; after a database error its statement fails in turn and the connection rolls
  back when it is closed.
\<close>

definition DATABASE_ERRORS :: "string list" where
  "DATABASE_ERRORS = [''UniqueViolation'', ''CheckViolation'', ''ForeignKeyViolation'', ''DataError'', ''NumericValueOutOfRange'', ''ProgrammingError'']"

definition unlocked :: "('n proc, exn, 'a) op \<Rightarrow> ('n proc, exn, 'a) op" where
  "unlocked m s =
     (case m s of
        (Inr a, s') \<Rightarrow> (Inr a, snd (commit_tx s'))
      | (Inl e, s') \<Rightarrow> (Inl e, if exn_class e \<in> set DATABASE_ERRORS then snd (rollback_tx s') else snd (commit_tx s')))"

definition work_operation :: "'n executor \<Rightarrow> string \<Rightarrow> ('n proc, exn, PassOutcome option) op" where
  "work_operation X pid =
     unlocked (bindS (begin_pass pid) (\<lambda>claimed.
       case claimed of
         None \<Rightarrow> returnS None
       | Some q \<Rightarrow> bindS (run_pass X q) (\<lambda>oc. bindS read_clock (\<lambda>now. bindS (settle_pass X q oc now) (\<lambda>settled. returnS (Some settled))))))"

fun work_through :: "'n executor \<Rightarrow> string list \<Rightarrow> PassReport \<Rightarrow> ('n proc, exn, PassReport) op" where
  "work_through X [] rep = returnS rep"
| "work_through X (pid # pids) rep =
     (if \<not> xe_lock_free X pid then work_through X pids (rep\<lparr>pr_contended := pr_contended rep + 1\<rparr>)
      else bindS (work_operation X pid) (\<lambda>settled.
        work_through X pids (rep\<lparr>pr_outcomes := pr_outcomes rep @ (case settled of None \<Rightarrow> [] | Some oc \<Rightarrow> [oc])\<rparr>)))"

definition count_json :: "(string \<times> nat) list \<Rightarrow> json" where
  "count_json ks = JObj (map (\<lambda>(k, n). (k, JInt (int n))) ks)"

definition run_once :: "'n executor \<Rightarrow> nat \<Rightarrow> ('n proc, exn, json) op" where
  "run_once X limit =
     bindS (due limit) (\<lambda>ids.
     bindS (work_through X ids \<lparr>pr_outcomes = [], pr_contended = 0\<rparr>) (\<lambda>rep.
     bindS (readS (\<lambda>s. backlog_counts (db_provisioning (pr_db s)))) (\<lambda>left.
     bindS commit_tx (\<lambda>_.
     returnS (JObj [(''event'', JStr ''provisioning.execute''), (''pass'', count_json (tally po_status (pr_outcomes rep))),
       (''codes'', count_json (tally po_code (pr_outcomes rep))), (''contended'', JInt (int (pr_contended rep))),
       (''backlog'', count_json (map (\<lambda>(st, n). (status_text st, n)) left))])))))"

section \<open>The service\<close>

text \<open>
  \<open>ErpProvisioningService\<close> (\<open>service.py\<close>): plan, apply and readiness one after the other, for a caller that holds
  the request. What a database error leaves is an aborted transaction, in which the failure itself can not be recorded.
\<close>

definition service_plan :: "'n executor \<Rightarrow> ErpProvisioningRequest \<Rightarrow> ('n proc, exn, ProvisioningPlan) op" where
  "service_plan X r =
     bindS (liftS (build_plan (xe_lib X) (xe_calendar X) r)) (\<lambda>p.
     bindS (create_or_get (rq_provisioning r) (rq_key r) (pp_digest p) (desired_state (xe_calendar X) r)) (\<lambda>existing.
     if existing \<noteq> rq_provisioning r then raiseS (Exn ''ValueError'' ''idempotency key already belongs to another provisioning operation'')
     else bindS (save_plan (xe_lib X) (xe_pg_uuid X) p) (\<lambda>_. returnS p)))"

fun exn_text :: "exn \<Rightarrow> string" where
  "exn_text (Exn c m) = m"
| "exn_text (ApiError n) = ''HTTP '' @ show_int n"
| "exn_text (Stop oc) = []"

definition apply_missing :: "'n adapter \<Rightarrow> ErpProvisioningRequest \<Rightarrow> string \<Rightarrow> string set \<Rightarrow> ProvisioningStep \<Rightarrow> ('n proc, exn, unit) op" where
  "apply_missing A r pid completed st = (if ps_key st \<in> completed then returnS () else apply_and_mark A r pid st)"

definition service_apply :: "'n executor \<Rightarrow> 'n adapter \<Rightarrow> ErpProvisioningRequest \<Rightarrow> ProvisioningPlan \<Rightarrow> ('n proc, exn, unit) op" where
  "service_apply X A r p =
     (let pid = pp_provisioning p; status = set_status (xe_lib X) (xe_pg_uuid X) pid in
      bindS (readS (\<lambda>s. completed_steps pid (db_provisioning (pr_db s)))) (\<lambda>completed.
      bindS (status APPLYING None) (\<lambda>_.
      bindS (attempt (traverse (apply_missing A r pid completed) (pp_steps p))) (\<lambda>ran.
      case ran of
        Inl e \<Rightarrow> if exn_class e \<in> set DATABASE_ERRORS then raiseS (Exn ''InFailedSqlTransaction'' [])
                 else bindS (status FAILED (Some (exn_text e))) (\<lambda>_. raiseS e)
      | Inr _ \<Rightarrow> status RECONCILING None))))"

definition service_readiness :: "'n executor \<Rightarrow> 'n adapter \<Rightarrow> ErpProvisioningRequest \<Rightarrow> ProvisioningPlan \<Rightarrow> ('n proc, exn, ReadinessCheck list) op" where
  "service_readiness X A r p =
     bindS (traverse (check_step A r) (pp_steps p)) (\<lambda>checks.
     let found = validate_request r @ checks in
     bindS (set_status (xe_lib X) (xe_pg_uuid X) (pp_provisioning p) (if readiness_ready found then READY else RECONCILING) None) (\<lambda>_.
     returnS found))"

end
