(* ===== verification/Provisioning_Passes.thy ===== *)
theory Provisioning_Passes
  imports Provisioning_Execution Command_Ledger
begin

text \<open>
  What every pass of the provisioning worker keeps: the records of the engine that carry a step's marker with the native
  ids ERP recorded for them, and the commands' ledger.
\<close>

section \<open>The engine's promise\<close>

text \<open>
  \<open>shelf w table marker\<close> are the ids of the records of a table whose description is a step's marker, in the engine state
  \<open>w\<close>. The engine promises: a query by the marker finds exactly them; reading leaves them alone, and so do the
  configured processes; creating a record with a marker adds one under it, and a creation that fails has added one or none.
\<close>

type_synonym 'n shelf = "'n \<Rightarrow> string \<Rightarrow> string \<Rightarrow> int list"

definition shelved :: "'n shelf \<Rightarrow> 'n proc \<Rightarrow> 'n proc \<Rightarrow> bool" where
  "shelved shelf s s' \<longleftrightarrow> shelf (cx_net s') = shelf (cx_net s) \<and> apart s s'"

definition stocked :: "'n shelf \<Rightarrow> string \<Rightarrow> string \<Rightarrow> 'n proc \<Rightarrow> int \<Rightarrow> 'n proc \<Rightarrow> bool" where
  "stocked shelf table marker s n s' \<longleftrightarrow>
     (\<forall>t m. shelf (cx_net s') t m = shelf (cx_net s) t m @ (if t = table \<and> m = marker then [n] else []))"

definition marked_engine :: "'n shelf \<Rightarrow> 'n proc engine \<Rightarrow> bool" where
  "marked_engine shelf E \<longleftrightarrow>
     (\<forall>t i. within (shelved shelf) (get_record E t i)) \<and> (\<forall>t cs sel. within (shelved shelf) (query E t cs sel))
     \<and> (\<forall>i data. within (shelved shelf) (execute_process E i data))
     \<and> (\<forall>t data. within apart (create_record E t data))
     \<and> (\<forall>t key s rows s'. query E t [(''Description'', JStr (MARKER_PREFIX @ key))] [t @ ''_ID''] s = (Inr rows, s')
          \<longrightarrow> mapE (row_id t) rows = Inr (shelf (cx_net s) t (MARKER_PREFIX @ key)))
     \<and> (\<forall>t data key s r s'. map_of data ''Description'' = Some (JStr (MARKER_PREFIX @ key)) \<longrightarrow> create_record E t data s = (r, s')
          \<longrightarrow> (case r of
                Inr n \<Rightarrow> stocked shelf t (MARKER_PREFIX @ key) s n s'
              | Inl e \<Rightarrow> shelf (cx_net s') = shelf (cx_net s) \<or> (\<exists>n. stocked shelf t (MARKER_PREFIX @ key) s n s')))"

definition marked_executor :: "'n shelf \<Rightarrow> 'n executor \<Rightarrow> bool" where
  "marked_executor shelf X \<longleftrightarrow> (\<forall>g. within (shelved shelf) (xe_engine_for X g))
     \<and> (\<forall>g s E s'. xe_engine_for X g s = (Inr (Some E), s') \<longrightarrow> marked_engine shelf E)"

lemma marked_engineD:
  assumes "marked_engine shelf E"
  shows "within (shelved shelf) (get_record E t i)" "within (shelved shelf) (query E t cs sel)"
    "within (shelved shelf) (execute_process E i data)" "within apart (create_record E t data)"
    "query E t [(''Description'', JStr (MARKER_PREFIX @ key))] [t @ ''_ID''] s = (Inr rows, s') \<Longrightarrow>
       mapE (row_id t) rows = Inr (shelf (cx_net s) t (MARKER_PREFIX @ key))"
    "map_of data ''Description'' = Some (JStr (MARKER_PREFIX @ key)) \<Longrightarrow> create_record E t data s = (r, s') \<Longrightarrow>
       (case r of
          Inr n \<Rightarrow> stocked shelf t (MARKER_PREFIX @ key) s n s'
        | Inl e \<Rightarrow> shelf (cx_net s') = shelf (cx_net s) \<or> (\<exists>n. stocked shelf t (MARKER_PREFIX @ key) s n s'))"
  using assms unfolding marked_engine_def by simp_all

section \<open>The records ERP knows\<close>

definition natives :: "database \<Rightarrow> native_rows" where
  "natives d = pt_natives (db_provisioning d)"

text \<open>A native id recorded for a step that creates a record is the one record under the step's marker.\<close>

definition known_records :: "('w \<Rightarrow> string \<Rightarrow> string \<Rightarrow> int list) \<Rightarrow> 'w \<Rightarrow> native_rows \<Rightarrow> bool" where
  "known_records shelf w rows \<longleftrightarrow> (\<forall>pid st n table. table_of (ps_kind st) = Inr table \<and> get_native_id pid (resource_key st) rows = Some n
     \<longrightarrow> shelf w table (MARKER_PREFIX @ ps_key st) = [n])"

definition one_record :: "('w \<Rightarrow> string \<Rightarrow> string \<Rightarrow> int list) \<Rightarrow> 'w \<Rightarrow> bool" where
  "one_record shelf w \<longleftrightarrow> (\<forall>table marker. length (shelf w table marker) \<le> 1)"

definition records_known :: "'n shelf \<Rightarrow> 'n proc \<Rightarrow> bool" where
  "records_known shelf s \<longleftrightarrow> one_record shelf (cx_net s) \<and> known_records shelf (cx_net s) (natives (pr_db s))
     \<and> known_records shelf (cx_net s) (natives (pr_saved s))"

lemma same_shelf:
  "shelf w' = shelf w \<Longrightarrow> known_records shelf w' = known_records shelf w"
  "shelf w' = shelf w \<Longrightarrow> one_record shelf w' = one_record shelf w"
  by (simp_all add: known_records_def one_record_def fun_eq_iff)

lemma same_shelf_records: "shelf (cx_net s') = shelf (cx_net s) \<Longrightarrow> apart s s' \<Longrightarrow> records_known shelf s \<Longrightarrow> records_known shelf s'"
  using same_shelf [of shelf "cx_net s'" "cx_net s"] by (simp add: records_known_def apart_def)

text \<open>\<open>holds J\<close> is the relation an operation stays within when it keeps \<open>J\<close>, whether it returns or raises.\<close>

definition holds :: "('s \<Rightarrow> bool) \<Rightarrow> 's \<Rightarrow> 's \<Rightarrow> bool" where
  "holds J s s' \<longleftrightarrow> (J s \<longrightarrow> J s')"

lemma holds_rules: "reflp (holds J)" "transp (holds J)"
  by (auto simp: holds_def intro!: reflpI transpI)

lemmas holds_intros = within_stop [OF holds_rules(1)] within_bindS [OF holds_rules(2)] within_if within_case_option within_case_sum
  within_case_prod within_case_list within_case_json

lemma within_holds: "within R m \<Longrightarrow> (\<And>s s'. R s s' \<Longrightarrow> J s \<Longrightarrow> J s') \<Longrightarrow> within (holds J) m"
  by (auto simp: within_def holds_def)

text \<open>What the other operations do to the native ids and the engine: nothing, but for what is committed or rolled back.\<close>

definition natives_kept :: "'n proc \<Rightarrow> 'n proc \<Rightarrow> bool" where
  "natives_kept s s' \<longleftrightarrow> cx_net s' = cx_net s \<and> natives (pr_db s') \<in> {natives (pr_db s), natives (pr_saved s)}
     \<and> natives (pr_saved s') \<in> {natives (pr_db s), natives (pr_saved s)}"

lemma kept_rules: "reflp natives_kept" "transp natives_kept"
  by (auto simp: natives_kept_def intro!: reflpI transpI)

lemmas kept_intros = within_stop [OF kept_rules(1)] within_bindS [OF kept_rules(2)] within_if within_case_option within_case_sum
  within_case_prod within_case_list

lemma kept_parts:
  "within natives_kept read_clock" "within natives_kept draw_uuid" "within natives_kept commit_tx" "within natives_kept rollback_tx"
  by (simp_all add: within_def natives_kept_def read_clock_def draw_uuid_def commit_tx_def rollback_tx_def)

lemma kept_on_db: "(\<And>d r d'. m d = (r, d') \<Longrightarrow> natives d' = natives d) \<Longrightarrow> within natives_kept (on_db m)"
  by (auto simp: within_def natives_kept_def on_db_def split: prod.splits)

lemma kept_on_tables: "(\<And>t r t'. m t = (r, t') \<Longrightarrow> pt_natives t' = pt_natives t) \<Longrightarrow> within natives_kept (on_tables m)"
  unfolding on_tables_def by (rule kept_on_db) (auto simp: natives_def split: prod.splits)

lemma kept_atomically:
  assumes "within natives_kept m"
  shows "within natives_kept (atomically m)"
proof -
  have "natives_kept s (snd (atomically m s))" for s
  proof -
    obtain r s1 where m: "m s = (r, s1)" by (metis prod.collapse)
    with withinD [OF assms m] show ?thesis
      by (cases r) (auto simp: natives_kept_def atomically_def commit_tx_def rollback_tx_def)
  qed
  then show ?thesis by (simp add: within_def)
qed

lemma kept_records: "within natives_kept m \<Longrightarrow> within (holds (records_known shelf)) m"
  by (erule within_holds) (auto simp: natives_kept_def records_known_def)

lemma shelved_records: "within (shelved shelf) m \<Longrightarrow> within (holds (records_known shelf)) m"
  by (erule within_holds) (simp add: shelved_def same_shelf_records)

section \<open>The stores keep the native ids\<close>

lemma kept_project: "within natives_kept (project L pg pid)"
  unfolding project_def advance_state_def announce_command_def
  by (intro kept_intros kept_parts kept_on_tables kept_on_db)
    (auto simp: advance_command_def Let_def store_outbox_def natives_def split: sum.splits)

lemma kept_set_status: "within natives_kept (set_status L pg pid status err)"
  unfolding set_status_def
  by (intro kept_intros kept_parts kept_on_tables kept_project) (simp add: update_operation_def)

lemma kept_mark_step: "within natives_kept (mark_step pid key status result)"
  unfolding mark_step_def
  by (intro kept_intros kept_parts kept_on_tables) (auto simp: upsert_step_def Let_def split: if_splits)

lemma kept_record_warehouse: "within natives_kept (record_warehouse L pg w now correlation)"
  unfolding record_warehouse_def register_identity_def bind_identity_def announce_warehouse_def db_advance_def Let_def
  by (intro kept_atomically kept_intros kept_parts kept_on_tables kept_on_db)
    (auto simp: insert_warehouse_def update_warehouse_def store_outbox_def natives_def split: if_splits sum.splits prod.splits)

lemma kept_publish: "within natives_kept (publish_mapping tenant entity c og g)"
  unfolding publish_mapping_def by (rule kept_on_db) (auto simp: natives_def split: sum.splits)

lemma kept_begin: "within natives_kept (begin_pass pid)"
  unfolding begin_pass_def
  by (intro kept_intros kept_parts kept_on_tables) (auto simp: claim_operation_def Let_def)

lemma kept_record_pass: "within natives_kept (record_pass pid ocode delay err refund)"
  unfolding record_pass_def
  by (intro kept_intros kept_parts kept_on_tables) (auto simp: update_operation_def)

lemma kept_settle: "within natives_kept (settle_pass X q oc now)"
  unfolding settle_pass_def Let_def
  by (intro kept_intros kept_parts kept_set_status kept_record_pass)

lemma kept_due: "within natives_kept (due limit)"
  unfolding due_def by (intro kept_intros kept_parts)

section \<open>The adapter keeps the records known\<close>

lemma kind_text_inj: "kind_text a = kind_text b \<longleftrightarrow> a = b"
  by (cases a; cases b; simp)

lemma kind_text_colon_free: "colon_free (kind_text k)"
  by (cases k) (simp_all add: colon_free_def)

lemma resource_key_eq: "resource_key a = resource_key b \<longleftrightarrow> ps_kind a = ps_kind b \<and> ps_key a = ps_key b"
  using colon_split [OF kind_text_colon_free kind_text_colon_free] by (simp add: resource_key_def kind_text_inj)

lemma client_alias_foreign: "resource_key st \<noteq> CLIENT_ALIAS"
  by (cases "ps_kind st") (simp_all add: resource_key_def CLIENT_ALIAS_def)

lemma get_put_native:
  "get_native_id pid key (put_native_id pid' key' n rows) = (if (pid, key) = (pid', key') then Some n else get_native_id pid key rows)"
  using native_ids.read_put [of "(pid, key)" "(pid', key')" n rows] by simp

text \<open>Recording an id: of a step that creates a record it is the one under its marker; any other resource is free.\<close>

definition recordable :: "('w \<Rightarrow> string \<Rightarrow> string \<Rightarrow> int list) \<Rightarrow> 'w \<Rightarrow> string \<Rightarrow> int \<Rightarrow> bool" where
  "recordable shelf w resource n \<longleftrightarrow> (\<forall>st table. table_of (ps_kind st) = Inr table \<and> resource_key st = resource
     \<longrightarrow> shelf w table (MARKER_PREFIX @ ps_key st) = [n])"

lemma known_put:
  "known_records shelf w rows \<Longrightarrow> recordable shelf w resource n \<Longrightarrow> known_records shelf w (put_native_id pid resource n rows)"
  by (auto simp: known_records_def recordable_def get_put_native split: if_splits)

lemma store_native_records:
  assumes "records_known shelf s" "recordable shelf (cx_net s) resource n" "store_native pid resource n s = (r, s')"
  shows "records_known shelf s' \<and> cx_net s' = cx_net s"
proof -
  let ?t = "db_provisioning (pr_db s)"
  show ?thesis
  proof (cases "upsert_native pid resource n ?t")
    case (Pair r1 t')
    have "t' = ?t \<or> t' = ?t\<lparr>pt_natives := put_native_id pid resource n (pt_natives ?t)\<rparr> \<and> r1 = Inr ()"
      using Pair by (auto simp: upsert_native_def split: if_splits)
    then have known: "known_records shelf (cx_net s) (pt_natives t')"
      using assms(1) known_put [OF _ assms(2)] by (auto simp: records_known_def natives_def)
    have "s' = s\<lparr>pr_db := (pr_db s)\<lparr>db_provisioning := t'\<rparr>\<rparr> \<or> s' = snd (commit_tx (s\<lparr>pr_db := (pr_db s)\<lparr>db_provisioning := t'\<rparr>\<rparr>))"
      using assms(3) Pair by (auto simp: store_native_def bindS_def on_tables_def on_db_def commit_tx_def split: prod.splits sum.splits)
    then show ?thesis using known assms(1) by (auto simp: records_known_def natives_def commit_tx_def)
  qed
qed

lemma mark_applied_records:
  assumes "table_of (ps_kind st) = Inl e"
  shows "within (holds (records_known shelf)) (mark_applied r st)"
proof -
  have "recordable shelf w (resource_key st) 1" for w using assms by (auto simp: recordable_def resource_key_eq)
  then show ?thesis
    unfolding mark_applied_def within_def holds_def using store_native_records by (metis prod.collapse)
qed

lemma find_marked_shelf:
  assumes "marked_engine shelf E" "find_marked E table (MARKER_PREFIX @ key) s = (r, s')"
  shows "shelved shelf s s' \<and> (r = Inr None \<longrightarrow> shelf (cx_net s) table (MARKER_PREFIX @ key) = [])
    \<and> (\<forall>n. r = Inr (Some n) \<longrightarrow> shelf (cx_net s) table (MARKER_PREFIX @ key) = [n])"
proof -
  obtain r1 s1 where q: "query E table [(''Description'', JStr (MARKER_PREFIX @ key))] [table @ ''_ID''] s = (r1, s1)" by (metis prod.collapse)
  have step: "shelved shelf s s1" using marked_engineD(2) [OF assms(1)] q by (rule withinD)
  have rows: "r1 = Inr rows \<Longrightarrow> mapE (row_id table) rows = Inr (shelf (cx_net s) table (MARKER_PREFIX @ key))" for rows
    using marked_engineD(5) [OF assms(1)] q by simp
  show ?thesis
  proof (cases r1)
    case (Inl e)
    then show ?thesis using assms(2) q step by (auto simp: find_marked_def bindS_def)
  next
    case (Inr vs)
    show ?thesis
    proof (cases vs)
      case Nil
      then show ?thesis using assms(2) q step Inr rows [OF Inr] by (auto simp: find_marked_def bindS_def)
    next
      case (Cons v vs')
      then show ?thesis using assms(2) q step Inr rows [OF Inr]
        by (cases vs'; cases "row_id table v") (auto simp: find_marked_def bindS_def)
    qed
  qed
qed

lemma with_field_lookup: "map_of (with_field k v data) k = Some v"
  by (induction data) (auto simp: with_field_def map_add_def split: option.splits)

lemma stocked_records:
  assumes "records_known shelf s" "apart s s'" "stocked shelf table marker s n s'" "shelf (cx_net s) table marker = []"
  shows "records_known shelf s' \<and> shelf (cx_net s') table marker = [n]"
proof -
  have "one_record shelf (cx_net s')" using assms by (auto simp: records_known_def one_record_def stocked_def)
  moreover have "known_records shelf (cx_net s') rows" if "known_records shelf (cx_net s) rows" for rows
    using that assms(3,4) by (fastforce simp: known_records_def stocked_def)
  ultimately show ?thesis using assms by (auto simp: records_known_def apart_def stocked_def)
qed

lemma snd_bindS_return: "snd (bindS m (\<lambda>_. returnS x) s) = snd (m s)"
  by (simp add: bindS_def split: prod.split sum.split)

lemma create_once_records:
  assumes E: "marked_engine shelf (pa_engine A)" and table: "table_of (ps_kind st) = Inr table"
  shows "within (holds (records_known shelf)) (create_once A r st table data)"
proof -
  let ?J = "records_known shelf"
  have get: "within (holds ?J) (get_record (pa_engine A) t i)" for t i
    by (rule shelved_records) (rule marked_engineD [OF E])
  have new: "?J (snd (create_once A r st table data s))"
    if J: "?J s" and none: "get_native_id (rq_provisioning r) (resource_key st) (natives (pr_db s)) = None" for s
  proof (cases "step_marker st")
    case (Inl e)
    then show ?thesis using J none by (simp add: create_once_def native_of_def natives_def bindS_def)
  next
    case (Inr marker)
    then have m: "marker = MARKER_PREFIX @ ps_key st" by (auto simp: step_marker_def Let_def split: if_splits)
    obtain r1 s1 where f: "find_marked (pa_engine A) table marker s = (r1, s1)" by (metis prod.collapse)
    note found = find_marked_shelf [OF E f [unfolded m]]
    have J1: "?J s1" using found same_shelf_records [OF _ _ J] by (simp add: shelved_def)
    have store: "?J (snd (store_native (rq_provisioning r) (resource_key st) n s2))"
      if "?J s2" "shelf (cx_net s2) table marker = [n]" for n s2
    proof -
      have "recordable shelf (cx_net s2) (resource_key st) n" using that(2) table m by (auto simp: recordable_def resource_key_eq)
      from store_native_records [OF that(1) this] show ?thesis by (metis prod.collapse)
    qed
    have after: "?J (snd (bindS (store_native (rq_provisioning r) (resource_key st) n) (\<lambda>_. returnS x) s2))"
      if "?J s2" "shelf (cx_net s2) table marker = [n]" for n s2 x
      using store [OF that] by (simp add: snd_bindS_return)
    show ?thesis
    proof (cases r1)
      case (Inl e)
      then show ?thesis using J1 none Inr f \<open>step_marker st = Inr marker\<close> by (simp add: create_once_def native_of_def natives_def bindS_def)
    next
      case r1: (Inr adopted)
      show ?thesis
      proof (cases adopted)
        case (Some n)
        then have "shelf (cx_net s1) table marker = [n]" using found r1 m by (auto simp: shelved_def)
        from after [OF J1 this] show ?thesis
          using none Inr f r1 Some by (simp add: create_once_def native_of_def natives_def bindS_step)
      next
        case None
        then have empty: "shelf (cx_net s1) table marker = []" using found r1 m by (auto simp: shelved_def)
        let ?data = "with_field ''Description'' (JStr marker) data"
        obtain r2 s2 where c: "create_record (pa_engine A) table ?data s1 = (r2, s2)" by (metis prod.collapse)
        have "map_of ?data ''Description'' = Some (JStr (MARKER_PREFIX @ ps_key st))"
          by (simp add: m with_field_lookup)
        then have out: "case r2 of Inr n \<Rightarrow> stocked shelf table marker s1 n s2
            | Inl e \<Rightarrow> shelf (cx_net s2) = shelf (cx_net s1) \<or> (\<exists>n. stocked shelf table marker s1 n s2)"
          using marked_engineD(6) [OF E _ c] unfolding m by blast
        have apart: "apart s1 s2" using marked_engineD(4) [OF E] c by (rule withinD)
        show ?thesis
        proof (cases r2)
          case (Inl e)
          have "?J s2"
          proof (cases "shelf (cx_net s2) = shelf (cx_net s1)")
            case True
            then show ?thesis using same_shelf_records [OF _ apart J1] by simp
          next
            case False
            then show ?thesis using out Inl stocked_records [OF J1 apart _ empty] by auto
          qed
          then show ?thesis using none \<open>step_marker st = Inr marker\<close> f r1 None c Inl
            by (simp add: create_once_def native_of_def natives_def bindS_step)
        next
          case created: (Inr n)
          then have "?J s2 \<and> shelf (cx_net s2) table marker = [n]" using out stocked_records [OF J1 apart _ empty] by auto
          then show ?thesis using none \<open>step_marker st = Inr marker\<close> f r1 None c created after [of s2 n]
            by (simp add: create_once_def native_of_def natives_def bindS_step)
        qed
      qed
    qed
  qed
  show ?thesis
    unfolding within_def holds_def
  proof (intro allI impI)
    fix s
    assume J: "?J s"
    show "?J (snd (create_once A r st table data s))"
    proof (cases "get_native_id (rq_provisioning r) (resource_key st) (natives (pr_db s))")
      case None
      with J show ?thesis by (rule new)
    next
      case (Some n)
      then have "create_once A r st table data s
          = bindS (get_record (pa_engine A) table n) (\<lambda>_. returnS (n, created_result table n [(''reused'', JBool True)])) s"
        by (simp add: create_once_def native_of_def natives_def)
      moreover have "?J (snd (get_record (pa_engine A) table n s))" using get J by (simp add: within_def holds_def)
      ultimately show ?thesis by (simp add: snd_bindS_return)
    qed
  qed
qed

lemma alias_records: "within (holds (records_known shelf)) (store_native pid CLIENT_ALIAS n)"
proof -
  have "recordable shelf w CLIENT_ALIAS n" for w using client_alias_foreign by (auto simp: recordable_def)
  then show ?thesis unfolding within_def holds_def using store_native_records by (metis prod.collapse)
qed

lemmas known_parts = kept_parts [THEN kept_records] kept_set_status [THEN kept_records] kept_mark_step [THEN kept_records]
  kept_record_warehouse [THEN kept_records] kept_publish [THEN kept_records] kept_begin [THEN kept_records]
  kept_settle [THEN kept_records] kept_due [THEN kept_records]

lemma native_of_kept: "within R (native_of pid resource)" if "reflp R"
  using that unfolding native_of_def by (rule within_stop)

lemma run_process_records:
  assumes E: "marked_engine shelf (pa_engine A)" and st: "table_of (ps_kind st) = Inl e"
  shows "within (holds (records_known shelf)) (run_process A r st refusal)"
proof -
  have "within (holds (records_known shelf)) (execute_process (pa_engine A) i data)" for i data
    by (rule shelved_records) (rule marked_engineD [OF E])
  then show ?thesis
    unfolding run_process_def
    by (cases "jget (JObj (ps_payload st)) ''process_id''"; simp only: json.case; intro holds_intros mark_applied_records [OF st])
qed

lemma apply_step_records:
  assumes E: "marked_engine shelf (pa_engine A)"
  shows "within (holds (records_known shelf)) (apply_step A r st)"
proof (cases "ps_kind st")
  case CREATE_CLIENT
  then show ?thesis
    by (simp add: apply_step_def create_client_def) (intro holds_intros create_once_records [OF E] alias_records; simp)
next
  case CREATE_ORGANISATION
  then show ?thesis
    by (simp add: apply_step_def create_org_def) (intro holds_intros create_once_records [OF E]; simp)
next
  case CREATE_WAREHOUSE
  then show ?thesis
    by (simp add: apply_step_def create_warehouse_def) (intro holds_intros create_once_records [OF E]; simp)
next
  case CONFIGURE_ACCOUNTING
  then show ?thesis
    by (simp add: apply_step_def configure_accounting_def) (rule run_process_records [OF E], simp)
next
  case CONFIGURE_LOCALISATION
  then show ?thesis
    by (simp add: apply_step_def configure_localisation_def) (rule run_process_records [OF E], simp)
next
  case PERSIST_MAPPING
  then show ?thesis
    unfolding apply_step_def PERSIST_MAPPING step_handler.simps persist_mapping_def Let_def
    by (intro holds_intros native_of_kept holds_rules known_parts) (rule mark_applied_records, simp add: PERSIST_MAPPING)
qed

lemma attempt_within: "within R m \<Longrightarrow> within R (attempt m)"
  by (simp add: within_def attempt_def split: prod.splits) (metis prod.collapse snd_conv)

lemma check_step_records:
  assumes E: "marked_engine shelf (pa_engine A)"
  shows "within (holds (records_known shelf)) (check_step A r st)"
proof -
  have "within (holds (records_known shelf)) (get_record (pa_engine A) t i)" for t i
    by (rule shelved_records) (rule marked_engineD [OF E])
  then show ?thesis
    unfolding check_step_def Let_def by (intro holds_intros native_of_kept holds_rules attempt_within)
qed

lemma traverse_within:
  assumes "reflp R" "transp R" "\<And>x. x \<in> set xs \<Longrightarrow> within R (f x)"
  shows "within R (traverse f xs)"
  using assms(3)
proof (induction xs)
  case Nil
  show ?case using assms(1) by (simp add: within_def reflpD)
next
  case (Cons x xs)
  show ?case unfolding traverse.simps
    by (intro within_bindS [OF assms(2)] within_stop [OF assms(1)]) (simp_all add: Cons)
qed

lemma register_warehouse_records: "within (holds (records_known shelf)) (register_warehouse X r st)"
  unfolding register_warehouse_def
  by (intro holds_intros native_of_kept holds_rules known_parts)

lemma perform_pass_records:
  assumes E: "marked_engine shelf (pa_engine A)"
  shows "within (holds (records_known shelf)) (perform_pass X q r A steps)"
  unfolding perform_pass_def apply_and_mark_def [abs_def] Let_def
  by (intro holds_intros traverse_within holds_rules apply_step_records [OF E] check_step_records [OF E] register_warehouse_records known_parts)

lemma run_operation_records:
  assumes X: "marked_executor shelf X"
  shows "within (holds (records_known shelf)) (run_operation X q)"
  unfolding within_def holds_def
proof (intro allI impI)
  fix s
  assume J: "records_known shelf s"
  obtain r1 s1 where p: "prepare X q s = (r1, s1)" by (metis prod.collapse)
  have engine: "within (holds (records_known shelf)) (xe_engine_for X g)" for g
    using X by (intro shelved_records) (simp add: marked_executor_def)
  have "within (holds (records_known shelf)) (prepare X q)"
    unfolding prepare_def by (intro holds_intros engine)
  with p J have J1: "records_known shelf s1" by (auto simp: within_def holds_def dest: spec [of _ s])
  show "records_known shelf (snd (run_operation X q s))"
  proof (cases r1)
    case (Inl e)
    then show ?thesis using p J1 by (simp add: run_operation_def bindS_def)
  next
    case (Inr x)
    obtain r A steps where x: "x = (r, A, steps)" by (metis prod_cases3)
    then have "marked_engine shelf (pa_engine A)"
      using p Inr X unfolding prepare_def marked_executor_def by (auto simp: bindS_Inr_iff split: option.splits) blast
    from perform_pass_records [OF this, of X q r steps] J1 show ?thesis
      using p Inr x by (simp add: run_operation_def bindS_def within_def holds_def)
  qed
qed

lemma run_pass_state: "snd (run_pass X q s) = snd (run_operation X q s)"
  by (simp add: run_pass_def split: prod.split sum.split)

lemma unlocked_within:
  assumes "transp R" "within R m" "within R commit_tx" "within R rollback_tx"
  shows "within R (unlocked m)"
proof -
  have "R s (snd (unlocked m s))" for s
  proof -
    obtain r s1 where m: "m s = (r, s1)" by (metis prod.collapse)
    have "R s s1" using assms(2) m by (rule withinD)
    moreover have "R s1 (snd (commit_tx s1))" "R s1 (snd (rollback_tx s1))" using assms(3,4) by (simp_all add: within_def)
    ultimately show ?thesis using m assms(1) by (cases r) (auto simp: unlocked_def elim: transpE)
  qed
  then show ?thesis by (simp add: within_def)
qed

lemma work_operation_records:
  assumes X: "marked_executor shelf X"
  shows "within (holds (records_known shelf)) (work_operation X pid)"
proof -
  have "within (holds (records_known shelf)) (run_pass X q)" for q
    using run_operation_records [OF X] by (simp add: within_def run_pass_state)
  then show ?thesis
    unfolding work_operation_def
    by (intro unlocked_within holds_rules holds_intros known_parts)
qed

lemma work_through_records:
  assumes X: "marked_executor shelf X"
  shows "within (holds (records_known shelf)) (work_through X pids rep)"
proof (induction pids arbitrary: rep)
  case Nil
  show ?case by (simp add: within_def holds_def)
next
  case (Cons pid pids)
  then show ?case unfolding work_through.simps
    by (intro holds_intros work_operation_records [OF X])
qed

lemma run_once_records:
  assumes X: "marked_executor shelf X"
  shows "within (holds (records_known shelf)) (run_once X limit)"
  unfolding run_once_def
  by (intro holds_intros work_through_records [OF X] known_parts)

section \<open>The passes keep the ledger\<close>

lemma safe_apart: "within apart m \<Longrightarrow> safeguards I m"
  by (rule safe_quiet) (simp add: within_def apart_def)

lemma safe_on_db:
  assumes "\<And>d a d'. I d \<Longrightarrow> m d = (Inr a, d') \<Longrightarrow> I d'"
  shows "safeguards I (on_db m)"
  unfolding safeguards_def
proof (intro allI impI)
  fix s r s'
  assume a: "I (pr_db s) \<and> I (pr_saved s) \<and> on_db m s = (r, s')"
  then obtain d' where m: "m (pr_db s) = (r, d')" and s': "s' = s\<lparr>pr_db := d'\<rparr>" by (auto simp: on_db_def split: prod.splits)
  then show "I (pr_saved s') \<and> (\<forall>a. r = Inr a \<longrightarrow> I (pr_db s'))" using a assms by auto
qed

lemma safe_atomically:
  assumes "safeguards I m"
  shows "safeguards I (atomically m)"
  unfolding safeguards_def
proof (intro allI impI)
  fix s r s'
  assume a: "I (pr_db s) \<and> I (pr_saved s) \<and> atomically m s = (r, s')"
  obtain r1 s1 where m: "m s = (r1, s1)" by (metis prod.collapse)
  with safeguardsD [OF assms _ _ m] a show "I (pr_saved s') \<and> (\<forall>a. r = Inr a \<longrightarrow> I (pr_db s'))"
    by (cases r1) (auto simp: atomically_def commit_tx_def rollback_tx_def)
qed

lemma safe_traverse: "(\<And>x. safeguards I (f x)) \<Longrightarrow> safeguards I (traverse f xs)"
proof (induction xs)
  case Nil
  show ?case by (simp add: safeguards_def)
next
  case (Cons x xs)
  show ?case unfolding traverse.simps by (intro safe_rules Cons.IH Cons.prems)
qed

lemma safe_more:
  "(\<And>x xs. safeguards I (f x xs)) \<Longrightarrow> safeguards I m \<Longrightarrow> safeguards I (case ys of [] \<Rightarrow> m | x # xs \<Rightarrow> f x xs)"
  "(\<And>t. safeguards I (g t)) \<Longrightarrow> safeguards I n \<Longrightarrow> safeguards I (case v of JStr t \<Rightarrow> g t | _ \<Rightarrow> n)"
  "(\<And>e. safeguards I (h e)) \<Longrightarrow> (\<And>a. safeguards I (k a)) \<Longrightarrow> safeguards I (case z of Inl e \<Rightarrow> h e | Inr a \<Rightarrow> k a)"
  by (simp_all split: list.split json.split sum.split)

lemma same_ledger_other:
  "db_provisioning d' = db_provisioning d \<Longrightarrow> db_outbox d' = db_outbox d \<Longrightarrow> same_ledger d d'"
  by (simp add: same_ledger_def command_events_def [abs_def])

lemma store_native_ledger: "safeguards (ledger L) (store_native pid resource n)"
  unfolding store_native_def
  by (intro safe_rules safe_same_ledger) (auto simp: upsert_native_def same_ledger_def Let_def fun_eq_iff split: if_splits)

lemma publish_ledger: "safeguards (ledger L) (publish_mapping tenant entity c og g)"
  unfolding publish_mapping_def
proof (rule safe_on_db)
  fix d a d'
  assume "ledger L d" "(case confirm_tenant_mapping tenant entity c og g (db_tenants d) of Inl e \<Rightarrow> (Inl (context_exn e), d)
     | Inr rows \<Rightarrow> (Inr (), d\<lparr>db_tenants := rows\<rparr>)) = (Inr a, d')"
  then show "ledger L d'" by (auto intro: same_ledger_keeps [OF same_ledger_other] split: sum.splits)
qed

lemma warehouse_event_type: "warehouse_changed_event L fresh w public zone k now correlation = Inr e \<Longrightarrow> jtext (ev_type e) = WAREHOUSE_EVENT"
  by (auto simp: warehouse_changed_event_def bindE_Inr_iff new_event_def dest!: validate_Inr split: option.splits if_splits)

lemma other_event_ledger:
  assumes "jtext (ev_type e) \<noteq> PROVISIONING_EVENT"
  shows "safeguards (ledger L) (on_db (store_outbox (record_event L' pg e t)))"
proof (rule safe_on_db)
  fix d a d'
  assume l: "ledger L d" and run: "store_outbox (record_event L' pg e t) d = (Inr a, d')"
  then obtain n corr caus where "d' = d\<lparr>db_outbox := db_outbox d @ [event_row e n corr caus t]\<rparr>"
    by (auto simp: store_outbox_def split: sum.splits elim!: record_event_cases)
  then have "same_ledger d d'" using assms by (auto simp: same_ledger_def command_events_def event_row_def)
  with l show "ledger L d'" by (rule same_ledger_keeps [rotated])
qed

lemma announce_warehouse_ledger: "safeguards (ledger L) (announce_warehouse L' pg w public zone k now correlation)"
proof -
  have "safeguards (ledger L) (bindS (liftS (mapE_exn envelope_exn (warehouse_changed_event L' fresh w public zone k now correlation)))
      (\<lambda>e. bindS read_clock (\<lambda>t. on_db (store_outbox (record_event L' pg e t)))))" for fresh
  proof (cases "warehouse_changed_event L' fresh w public zone k now correlation")
    case (Inl e)
    then show ?thesis by (simp add: safeguards_def bindS_def mapE_exn_def)
  next
    case (Inr e)
    have "jtext (ev_type e) \<noteq> PROVISIONING_EVENT"
      using warehouse_event_type [OF Inr] by (simp add: WAREHOUSE_EVENT_def PROVISIONING_EVENT_def)
    then have "safeguards (ledger L) (bindS read_clock (\<lambda>t. on_db (store_outbox (record_event L' pg e t))))"
      by (intro safe_rules other_event_ledger)
    then show ?thesis using Inr by (simp add: safeguards_def bindS_def mapE_exn_def)
  qed
  then show ?thesis unfolding announce_warehouse_def by (rule safe_bindS [OF safe_stop(7)])
qed

lemma advance_ledger: "safeguards (ledger L) (db_advance tenant ty doc status detail now)"
  unfolding db_advance_def
proof (rule safe_on_db)
  fix d a d'
  assume "ledger L d" "(case advance tenant ty doc status detail now None (db_outcomes d) of (r, rows) \<Rightarrow> (r, d\<lparr>db_outcomes := rows\<rparr>)) = (Inr a, d')"
  then show "ledger L d'" by (auto intro: same_ledger_keeps [OF same_ledger_other] split: prod.splits)
qed

lemma record_warehouse_ledger: "safeguards (ledger L) (record_warehouse L' pg w now correlation)"
proof -
  have tables: "safeguards (ledger L) (on_tables (insert_warehouse w public))" "safeguards (ledger L) (on_tables (update_warehouse w public))" for public
    by (intro safe_same_ledger; auto simp: insert_warehouse_def update_warehouse_def same_ledger_def Let_def fun_eq_iff split: if_splits)+
  show ?thesis
    unfolding record_warehouse_def register_identity_def bind_identity_def Let_def
    by (intro safe_atomically safe_rules tables advance_ledger announce_warehouse_ledger)
qed

lemma queue_ledger:
  "safeguards (ledger L) (begin_pass pid)" "safeguards (ledger L) (record_pass pid ocode delay err refund)" "safeguards (ledger L) (due limit)"
proof -
  have same: "same_ledger d (d\<lparr>db_provisioning := (db_provisioning d)\<lparr>pt_operations := update_where P f (pt_operations (db_provisioning d))\<rparr>\<rparr>)"
    if "\<And>x. op_provisioning (f x) = op_provisioning x \<and> op_status (f x) = op_status x" for d P f
    using that by (simp add: same_ledger_def Let_def fun_eq_iff map_update_where)
  show "safeguards (ledger L) (begin_pass pid)"
    unfolding begin_pass_def
    by (intro safe_rules safe_same_ledger) (auto simp: claim_operation_def Let_def intro!: same)
  show "safeguards (ledger L) (record_pass pid ocode delay err refund)"
    unfolding record_pass_def
    by (intro safe_rules safe_same_ledger) (auto simp: update_operation_def pass_recorded_def intro!: same)
  show "safeguards (ledger L) (due limit)" unfolding due_def by (intro safe_rules)
qed

lemmas pass_safe = safe_rules safe_more status_changes_ledger mark_step_ledger store_native_ledger publish_ledger record_warehouse_ledger
  queue_ledger safe_traverse

lemma shelved_apart: "within (shelved shelf) m \<Longrightarrow> within apart m"
  by (simp add: within_def shelved_def)

lemma engine_safe:
  assumes "marked_engine shelf E"
  shows "safeguards I (get_record E t i)" "safeguards I (query E t cs sel)" "safeguards I (execute_process E n data)"
    "safeguards I (create_record E t data)"
  by (rule safe_apart, rule shelved_apart, rule marked_engineD [OF assms])+ (rule safe_apart, rule marked_engineD [OF assms])

lemma apply_step_ledger:
  assumes E: "marked_engine shelf (pa_engine A)"
  shows "safeguards (ledger L) (apply_step A r st)"
proof -
  have once: "safeguards (ledger L) (create_once A r st table data)" for table data
    unfolding create_once_def native_of_def find_marked_def by (intro pass_safe engine_safe [OF E])
  have process: "safeguards (ledger L) (run_process A r st refusal)" for refusal
    unfolding run_process_def mark_applied_def
    by (cases "jget (JObj (ps_payload st)) ''process_id''"; simp only: json.case; intro pass_safe engine_safe [OF E])
  show ?thesis
    by (cases "ps_kind st"; simp only: apply_step_def step_handler.simps create_client_def create_org_def create_warehouse_def
        configure_accounting_def configure_localisation_def persist_mapping_def mark_applied_def native_of_def Let_def;
      intro pass_safe once process)
qed

lemma check_step_ledger:
  assumes E: "marked_engine shelf (pa_engine A)"
  shows "safeguards (ledger L) (check_step A r st)"
proof -
  have "safeguards (ledger L) (attempt (get_record (pa_engine A) t i))" for t i
    by (rule safe_apart, rule attempt_within, rule shelved_apart, rule marked_engineD [OF E])
  then show ?thesis unfolding check_step_def native_of_def Let_def by (intro pass_safe)
qed

lemma perform_pass_ledger:
  assumes E: "marked_engine shelf (pa_engine A)"
  shows "safeguards (ledger (xe_lib X)) (perform_pass X q r A steps)"
  unfolding perform_pass_def apply_and_mark_def [abs_def] register_warehouse_def [abs_def] native_of_def Let_def
  by (intro pass_safe apply_step_ledger [OF E] check_step_ledger [OF E])

lemma prepared_engine:
  assumes "marked_executor shelf X" "prepare X q s = (Inr (r, A, steps), s')"
  shows "marked_engine shelf (pa_engine A)"
  using assms unfolding prepare_def marked_executor_def by (auto simp: bindS_Inr_iff split: option.splits) blast

lemma prepare_apart:
  assumes "marked_executor shelf X"
  shows "within (shelved shelf) (prepare X q)"
proof -
  have "reflp (shelved shelf)" "transp (shelved shelf)" by (auto simp: shelved_def apart_def intro!: reflpI transpI)
  moreover have "within (shelved shelf) (xe_engine_for X g)" for g using assms by (simp add: marked_executor_def)
  ultimately show ?thesis
    unfolding prepare_def by (intro within_bindS within_stop within_case_prod within_case_option)
qed

lemma run_pass_ledger:
  assumes X: "marked_executor shelf X" and l: "ledger (xe_lib X) (pr_db s)" "ledger (xe_lib X) (pr_saved s)"
  shows "ledger (xe_lib X) (pr_saved (snd (run_pass X q s)))"
proof -
  obtain r1 s1 where p: "prepare X q s = (r1, s1)" by (metis prod.collapse)
  have s1: "pr_db s1 = pr_db s" "pr_saved s1 = pr_saved s"
    using withinD [OF prepare_apart [OF X] p] by (simp_all add: shelved_def apart_def)
  show ?thesis
  proof (cases r1)
    case (Inl e)
    then show ?thesis using p s1 l by (simp add: run_pass_state run_operation_def bindS_def)
  next
    case (Inr x)
    obtain r A steps where x: "x = (r, A, steps)" by (metis prod_cases3)
    obtain r2 s2 where run: "perform_pass X q r A steps s1 = (r2, s2)" by (metis prod.collapse)
    have "marked_engine shelf (pa_engine A)" using prepared_engine [OF X] p Inr x by simp
    from safeguardsD [OF perform_pass_ledger [OF this] _ _ run] have "ledger (xe_lib X) (pr_saved s2)" using s1 l by simp
    then show ?thesis using p Inr x run by (simp add: run_pass_state run_operation_def bindS_def)
  qed
qed

lemma settle_pass_ledger:
  assumes "ledger (xe_lib X) (pr_saved s)" "settle_pass X q oc now s = (Inr a, s')"
  shows "ledger (xe_lib X) (pr_db s') \<and> ledger (xe_lib X) (pr_saved s')"
proof -
  let ?m = "settle_pass X q oc now"
  have "safeguards (ledger (xe_lib X)) ?m" unfolding settle_pass_def Let_def by (intro pass_safe)
  moreover have "?m s = ?m (snd (rollback_tx s))" by (simp add: settle_pass_def Let_def rollback_tx_def bindS_def)
  ultimately show ?thesis
    using assms safeguardsD [of "ledger (xe_lib X)" ?m "snd (rollback_tx s)" "Inr a" s'] by (simp add: rollback_tx_def)
qed

lemma work_operation_ledger:
  assumes X: "marked_executor shelf X" and l: "ledger (xe_lib X) (pr_db s)" "ledger (xe_lib X) (pr_saved s)"
    and run: "work_operation X pid s = (Inr a, s')"
  shows "ledger (xe_lib X) (pr_db s') \<and> ledger (xe_lib X) (pr_saved s')"
proof -
  obtain s2 where body: "bindS (begin_pass pid) (\<lambda>claimed. case claimed of None \<Rightarrow> returnS None
       | Some q \<Rightarrow> bindS (run_pass X q) (\<lambda>oc. bindS read_clock (\<lambda>now. bindS (settle_pass X q oc now) (\<lambda>settled. returnS (Some settled))))) s
       = (Inr a, s2)" and s': "s' = snd (commit_tx s2)"
    using run by (auto simp: work_operation_def unlocked_def split: prod.splits sum.splits)
  then obtain claimed s1 where b: "begin_pass pid s = (Inr claimed, s1)" by (auto simp: bindS_Inr_iff)
  have l1: "ledger (xe_lib X) (pr_saved s1)" "ledger (xe_lib X) (pr_db s1)" using safeguardsD [OF queue_ledger(1) l b] by auto
  have "ledger (xe_lib X) (pr_db s2)"
  proof (cases claimed)
    case None
    then show ?thesis using body b l1 by (simp add: bindS_step)
  next
    case (Some q)
    then obtain oc t where r: "run_pass X q s1 = (Inr oc, t)"
        and rest: "bindS read_clock (\<lambda>now. bindS (settle_pass X q oc now) (\<lambda>settled. returnS (Some settled))) t = (Inr a, s2)"
      using body b by (auto simp: bindS_Inr_iff)
    have "ledger (xe_lib X) (pr_saved t)" using run_pass_ledger [OF X l1(2,1), of q] r by simp
    moreover obtain now v where "settle_pass X q oc now (t\<lparr>pr_ticks := Suc (pr_ticks t)\<rparr>) = (Inr v, s2)"
      using rest by (auto simp: bindS_Inr_iff read_clock_def)
    ultimately show ?thesis using settle_pass_ledger [of X "t\<lparr>pr_ticks := Suc (pr_ticks t)\<rparr>"] by fastforce
  qed
  then show ?thesis using s' by (simp add: commit_tx_def)
qed

lemma work_through_ledger:
  assumes "marked_executor shelf X" "ledger (xe_lib X) (pr_db s)" "ledger (xe_lib X) (pr_saved s)" "work_through X pids rep s = (Inr a, s')"
  shows "ledger (xe_lib X) (pr_db s') \<and> ledger (xe_lib X) (pr_saved s')"
  using assms(2-4)
proof (induction pids arbitrary: rep s)
  case (Cons pid pids)
  show ?case
  proof (cases "xe_lock_free X pid")
    case False
    then show ?thesis using Cons by auto
  next
    case True
    then obtain v s1 rep' where w: "work_operation X pid s = (Inr v, s1)" and rest: "work_through X pids rep' s1 = (Inr a, s')"
      using Cons.prems(3) by (auto simp: bindS_Inr_iff)
    from work_operation_ledger [OF assms(1) Cons.prems(1,2) w] Cons.IH [OF _ _ rest] show ?thesis by blast
  qed
qed simp

lemma run_once_ledger:
  assumes X: "marked_executor shelf X" and l: "ledger (xe_lib X) (pr_db s)" "ledger (xe_lib X) (pr_saved s)"
    and run: "run_once X limit s = (Inr a, s')"
  shows "ledger (xe_lib X) (pr_saved s') \<and> clean s'"
proof -
  obtain ids s1 rep s2 where d: "due limit s = (Inr ids, s1)"
      and w: "work_through X ids \<lparr>pr_outcomes = [], pr_contended = 0\<rparr> s1 = (Inr rep, s2)" and s': "s' = s2\<lparr>pr_saved := pr_db s2\<rparr>"
    using run by (auto simp: run_once_def bindS_Inr_iff commit_tx_def)
  have "ledger (xe_lib X) (pr_db s1) \<and> ledger (xe_lib X) (pr_saved s1)" using safeguardsD [OF queue_ledger(3) l d] by auto
  then have "ledger (xe_lib X) (pr_db s2)" using work_through_ledger [OF X _ _ w] by blast
  then show ?thesis using s' by (simp add: clean_def)
qed

end
