(* ===== verification/Provisioning_Guarantees.thy ===== *)
theory Provisioning_Guarantees
  imports Provisioning_Passes
begin

text \<open>
  What the passes of the provisioning worker guarantee: whatever the engine answers and wherever a pass breaks off, the
  engine holds at most one record under the marker of a step and a recorded native id is that record's; the commands'
  ledger is kept; only what was approved reaches the engine, and an operation reported ready is done.
\<close>

section \<open>One record for each step\<close>

text \<open>C39: Provisioning never makes a second record and never loses the first: in a run of the worker, whatever the engine
  answers to any request and wherever a pass breaks off, the engine holds at most one record under the marker of each step, a
  native id ERP recorded for a step is that record's, before and after every commit, and a run that reports leaves every
  committed command in the state of its legal entities with all its revisions announced.\<close>

theorem provisioning_records_unique:
  assumes "marked_executor shelf X" "records_known shelf s" "ledger (xe_lib X) (pr_saved s)" "clean s"
  shows "case run_once X limit s of (r, s') \<Rightarrow>
    records_known shelf s' \<and> (\<forall>rep. r = Inr rep \<longrightarrow> ledger (xe_lib X) (pr_saved s') \<and> clean s')"
proof (cases "run_once X limit s")
  case (Pair r s')
  have "records_known shelf s'" using withinD [OF run_once_records [OF assms(1)] Pair] assms(2) by (simp add: holds_def)
  moreover have "ledger (xe_lib X) (pr_db s)" using assms(3,4) by (simp add: clean_def)
  ultimately show ?thesis using run_once_ledger [OF assms(1) _ assms(3), of limit] Pair by auto
qed

section \<open>Ready means done\<close>

lemma keeps_on_tables:
  assumes "\<And>t a t'. P t \<Longrightarrow> m t = (Inr a, t') \<Longrightarrow> P t'"
  shows "keeps (\<lambda>s. P (db_provisioning (pr_db s))) (on_tables m)"
  unfolding keeps_def using assms by (auto simp: on_tables_Inr)

lemma keeps_on_db:
  assumes "\<And>d a d'. m d = (Inr a, d') \<Longrightarrow> db_provisioning d' = db_provisioning d"
  shows "keeps (\<lambda>s. P (db_provisioning (pr_db s))) (on_db m)"
  unfolding keeps_def using assms by (fastforce simp: on_db_def split: prod.splits)

lemma keeps_quiet: "within apart m \<Longrightarrow> keeps (\<lambda>s. P (db_provisioning (pr_db s))) m"
  unfolding keeps_def by (auto simp: apart_def dest!: withinD)

lemma keeps_parts:
  "keeps (\<lambda>s. P (db_provisioning (pr_db s))) read_clock" "keeps (\<lambda>s. P (db_provisioning (pr_db s))) draw_uuid"
  "keeps (\<lambda>s. P (db_provisioning (pr_db s))) commit_tx"
  by (auto simp: keeps_def read_clock_def draw_uuid_def commit_tx_def)

lemma keeps_atomically:
  "keeps (\<lambda>s. P (db_provisioning (pr_db s))) m \<Longrightarrow> keeps (\<lambda>s. P (db_provisioning (pr_db s))) (atomically m)"
  unfolding keeps_def atomically_def by (auto simp: commit_tx_def split: prod.splits sum.splits)

lemma keeps_traverse: "(\<And>x. keeps P (f x)) \<Longrightarrow> keeps P (traverse f xs)"
proof (induction xs)
  case Nil
  show ?case by (simp add: keeps_def)
next
  case (Cons x xs)
  show ?case unfolding traverse.simps by (intro keeps_bindS keeps_stop Cons.IH Cons.prems)
qed

text \<open>A property of the tables that looks at the completed steps and the recorded ids only, and grows with them.\<close>

definition progress :: "(provisioning_tables \<Rightarrow> bool) \<Rightarrow> bool" where
  "progress P \<longleftrightarrow> (\<forall>t t'. P t \<and> (\<forall>pid. completed_steps pid t \<subseteq> completed_steps pid t')
     \<and> (\<forall>pid k. get_native_id pid k (pt_natives t) \<noteq> None \<longrightarrow> get_native_id pid k (pt_natives t') \<noteq> None) \<longrightarrow> P t')"

lemma progressD:
  "progress P \<Longrightarrow> P t \<Longrightarrow> (\<And>pid. completed_steps pid t \<subseteq> completed_steps pid t') \<Longrightarrow>
     (\<And>pid k. get_native_id pid k (pt_natives t) \<noteq> None \<Longrightarrow> get_native_id pid k (pt_natives t') \<noteq> None) \<Longrightarrow> P t'"
  unfolding progress_def by blast

lemma progress_same: "progress P \<Longrightarrow> P t \<Longrightarrow> pt_steps t' = pt_steps t \<Longrightarrow> pt_natives t' = pt_natives t \<Longrightarrow> P t'"
  by (erule progressD) (simp_all add: completed_steps_def)

lemma progress_instances:
  "progress (\<lambda>t. k \<in> completed_steps pid t)" "progress (\<lambda>t. get_native_id pid k (pt_natives t) \<noteq> None)"
  by (auto simp: progress_def)

lemma keeps_set_status: "progress P \<Longrightarrow> keeps (\<lambda>s. P (db_provisioning (pr_db s))) (set_status L pg pid status err)"
  unfolding set_status_def project_def advance_state_def announce_command_def
  by (intro keeps_bindS keeps_stop keeps_cases keeps_parts keeps_on_tables keeps_on_db)
    (auto simp: update_operation_def advance_command_def Let_def store_outbox_def elim: progress_same split: sum.splits)

lemma bex_update_where: "(\<exists>x \<in> set (update_where P f xs). Q x) \<longleftrightarrow> (\<exists>x \<in> set xs. Q (if P x then f x else x))"
  by (induction xs) auto

lemma completed_member:
  "k \<in> completed_steps p t \<longleftrightarrow> (\<exists>r \<in> set (pt_steps t). sr_provisioning r = p \<and> sr_key r = k \<and> sr_status r = ''completed'')"
  unfolding completed_steps_def by auto

lemma upsert_completed:
  assumes "upsert_step pid key ''completed'' result t = (Inr a, t')"
  shows "completed_steps p t' = completed_steps p t \<union> (if p = pid then {key} else {}) \<and> pt_natives t' = pt_natives t"
proof -
  define same where "same r \<longleftrightarrow> sr_provisioning r = pid \<and> sr_key r = key" for r :: step_row
  let ?f = "\<lambda>r. r\<lparr>sr_status := ''completed'', sr_result := result\<rparr>"
  show ?thesis
  proof (cases "list_ex same (pt_steps t)")
    case True
    then have t': "t' = t\<lparr>pt_steps := update_where same ?f (pt_steps t)\<rparr>"
      using assms by (simp add: upsert_step_def Let_def same_def [abs_def])
    have member: "k \<in> completed_steps p t' \<longleftrightarrow> (\<exists>r \<in> set (pt_steps t). sr_provisioning r = p \<and> sr_key r = k \<and> (same r \<or> sr_status r = ''completed''))" for k
    proof -
      have "k \<in> completed_steps p t' \<longleftrightarrow> (\<exists>r \<in> set (pt_steps t). sr_provisioning (if same r then ?f r else r) = p
          \<and> sr_key (if same r then ?f r else r) = k \<and> sr_status (if same r then ?f r else r) = ''completed'')"
        unfolding completed_member by (simp add: t' bex_update_where)
      then show ?thesis by (auto split: if_splits)
    qed
    obtain r0 where r0: "r0 \<in> set (pt_steps t)" "same r0" using True by (auto simp: list_ex_iff)
    have "k \<in> completed_steps p t' \<longleftrightarrow> k \<in> completed_steps p t \<or> (p = pid \<and> k = key)" for k
      unfolding member using r0 by (auto simp: completed_steps_def same_def image_iff)
    then show ?thesis by (auto simp: t')
  next
    case False
    then have t': "t' = t\<lparr>pt_steps := pt_steps t @ [\<lparr>sr_provisioning = pid, sr_key = key, sr_status = ''completed'', sr_result = result\<rparr>]\<rparr>"
      using assms by (simp add: upsert_step_def Let_def same_def [abs_def] split: if_splits)
    then have "k \<in> completed_steps p t' \<longleftrightarrow> k \<in> completed_steps p t \<or> (p = pid \<and> k = key)" for k
      unfolding completed_member by auto
    then show ?thesis by (auto simp: t')
  qed
qed

lemma keeps_mark_step: "progress P \<Longrightarrow> keeps (\<lambda>s. P (db_provisioning (pr_db s))) (mark_step pid key ''completed'' result)"
  unfolding mark_step_def
proof (intro keeps_bindS keeps_parts keeps_on_tables)
  fix t a t'
  assume p: "progress P" "P t" and run: "upsert_step pid key ''completed'' result t = (Inr a, t')"
  show "P t'" using p by (rule progressD) (use upsert_completed [OF run] in auto)
qed

lemma mark_step_completes: "mark_step pid key ''completed'' result s = (Inr a, s') \<Longrightarrow> key \<in> completed_steps pid (db_provisioning (pr_db s'))"
  by (auto simp: mark_step_def bindS_Inr_iff on_tables_Inr commit_tx_def dest!: upsert_completed [where p = pid])

lemma keeps_store_native: "progress P \<Longrightarrow> keeps (\<lambda>s. P (db_provisioning (pr_db s))) (store_native pid k n)"
  unfolding store_native_def
proof (intro keeps_bindS keeps_parts keeps_on_tables)
  fix t a t'
  assume p: "progress P" "P t" and run: "upsert_native pid k n t = (Inr a, t')"
  show "P t'"
    using p by (rule progressD) (use run in \<open>auto simp: upsert_native_def get_put_native completed_steps_def split: if_splits\<close>)
qed

lemma keeps_register: "progress P \<Longrightarrow> keeps (\<lambda>s. P (db_provisioning (pr_db s))) (register_warehouse X r st)"
  unfolding register_warehouse_def record_warehouse_def register_identity_def bind_identity_def announce_warehouse_def db_advance_def
    native_of_def Let_def
  by (intro keeps_bindS keeps_stop keeps_cases keeps_parts keeps_atomically keeps_on_tables keeps_on_db)
    (auto simp: insert_warehouse_def update_warehouse_def store_outbox_def elim: progress_same split: if_splits sum.splits prod.splits)

lemma keeps_apply_step:
  assumes E: "marked_engine shelf (pa_engine A)" and P: "progress P"
  shows "keeps (\<lambda>s. P (db_provisioning (pr_db s))) (apply_step A r st)"
proof -
  note parts = keeps_bindS keeps_stop keeps_cases keeps_parts keeps_store_native [OF P]
  have engine: "keeps (\<lambda>s. P (db_provisioning (pr_db s))) (get_record (pa_engine A) t i)"
    "keeps (\<lambda>s. P (db_provisioning (pr_db s))) (query (pa_engine A) t cs sel)"
    "keeps (\<lambda>s. P (db_provisioning (pr_db s))) (execute_process (pa_engine A) n data)"
    "keeps (\<lambda>s. P (db_provisioning (pr_db s))) (create_record (pa_engine A) t data)" for t i cs sel n data
    by (rule keeps_quiet, rule shelved_apart, rule marked_engineD [OF E])+ (rule keeps_quiet, rule marked_engineD [OF E])
  have more: "keeps Q m \<Longrightarrow> (\<And>x xs. keeps Q (f x xs)) \<Longrightarrow> keeps Q (case ys of [] \<Rightarrow> m | x # xs \<Rightarrow> f x xs)"
    "(\<And>t. keeps Q (g t)) \<Longrightarrow> keeps Q n \<Longrightarrow> keeps Q (case v of JStr t \<Rightarrow> g t | _ \<Rightarrow> n)" for Q m f ys g n v
    by (simp_all split: list.split json.split)
  have once: "keeps (\<lambda>s. P (db_provisioning (pr_db s))) (create_once A r st table data)" for table data
    unfolding create_once_def native_of_def find_marked_def by (intro parts more engine)
  have process: "keeps (\<lambda>s. P (db_provisioning (pr_db s))) (run_process A r st refusal)" for refusal
    unfolding run_process_def mark_applied_def
    by (cases "jget (JObj (ps_payload st)) ''process_id''"; simp only: json.case; intro parts engine)
  have publish: "keeps (\<lambda>s. P (db_provisioning (pr_db s))) (publish_mapping tenant entity c og g)" for tenant entity c og g
    unfolding publish_mapping_def by (rule keeps_on_db) (auto split: sum.splits)
  show ?thesis
    by (cases "ps_kind st"; simp only: apply_step_def step_handler.simps create_client_def create_org_def create_warehouse_def
        configure_accounting_def configure_localisation_def persist_mapping_def mark_applied_def native_of_def Let_def;
      intro parts more once process publish)
qed

lemma keeps_check_step:
  assumes E: "marked_engine shelf (pa_engine A)"
  shows "keeps (\<lambda>s. P (db_provisioning (pr_db s))) (check_step A r st)"
proof -
  have "keeps (\<lambda>s. P (db_provisioning (pr_db s))) (attempt (get_record (pa_engine A) t i))" for t i
    by (rule keeps_quiet, rule attempt_within, rule shelved_apart, rule marked_engineD [OF E])
  then show ?thesis
    unfolding check_step_def native_of_def Let_def by (intro keeps_bindS keeps_stop keeps_cases)
qed

text \<open>Every pending step is completed when all of them were applied and marked.\<close>

lemma steps_completed:
  assumes E: "marked_engine shelf (pa_engine A)" and run: "traverse (apply_and_mark A r pid) sts s = (Inr us, s')"
  shows "\<forall>st \<in> set sts. ps_key st \<in> completed_steps pid (db_provisioning (pr_db s'))"
  using run
proof (induction sts arbitrary: s us)
  case (Cons st sts)
  have keeps: "keeps (\<lambda>s. k \<in> completed_steps pid (db_provisioning (pr_db s))) (traverse (apply_and_mark A r pid) sts)" for k
    unfolding apply_and_mark_def
    by (intro keeps_traverse keeps_bindS keeps_apply_step [OF E progress_instances(1)] keeps_mark_step [OF progress_instances(1)])
  from Cons.prems obtain u s1 vs where one: "apply_and_mark A r pid st s = (Inr u, s1)"
      and rest: "traverse (apply_and_mark A r pid) sts s1 = (Inr vs, s')"
    by (auto simp: bindS_Inr_iff)
  have "ps_key st \<in> completed_steps pid (db_provisioning (pr_db s1))"
    using one by (auto simp: apply_and_mark_def bindS_Inr_iff dest: mark_step_completes)
  from keepsD [OF keeps this rest] Cons.IH [OF rest] show ?case by simp
qed simp

text \<open>A ready step has a recorded id.\<close>

lemma check_step_ready:
  assumes "check_step A r st s = (Inr c, s')" "rc_ready c"
  shows "get_native_id (rq_provisioning r) (resource_key st) (natives (pr_db s)) \<noteq> None"
  using assms by (auto simp: check_step_def native_of_def natives_def Let_def bindS_def readiness_check_def split: if_splits option.splits)

lemma checks_ready:
  assumes E: "marked_engine shelf (pa_engine A)" and run: "traverse (check_step A r) sts s = (Inr cs, s')" and ready: "list_all rc_ready cs"
  shows "\<forall>st \<in> set sts. get_native_id (rq_provisioning r) (resource_key st) (natives (pr_db s')) \<noteq> None"
  using run ready
proof (induction sts arbitrary: s cs)
  case (Cons st sts)
  from Cons.prems obtain c s1 cs' where one: "check_step A r st s = (Inr c, s1)" and rest: "traverse (check_step A r) sts s1 = (Inr cs', s')"
      and c: "rc_ready c" "list_all rc_ready cs'"
    by (auto simp: bindS_Inr_iff)
  have q: "keeps (\<lambda>s. get_native_id (rq_provisioning r) (resource_key st) (pt_natives (db_provisioning (pr_db s))) \<noteq> None) (traverse (check_step A r) xs)"
    "keeps (\<lambda>s. get_native_id (rq_provisioning r) (resource_key st) (pt_natives (db_provisioning (pr_db s))) \<noteq> None) (check_step A r x)" for xs x
    by (intro keeps_traverse keeps_check_step [OF E])+
  have "get_native_id (rq_provisioning r) (resource_key st) (natives (pr_db s')) \<noteq> None"
    using keepsD [OF q(1) _ rest] keepsD [OF q(2) _ one] check_step_ready [OF one c(1)] by (simp add: natives_def)
  with Cons.IH [OF rest c(2)] show ?case by simp
qed simp

lemma updated_statuses:
  "\<forall>x \<in> set (update_where (operation_of pid) (\<lambda>x. x\<lparr>op_status := status, op_error := err\<rparr>) xs). op_provisioning x = pid \<longrightarrow> op_status x = status"
  by (induction xs) (simp_all add: operation_of_def)

lemma set_status_sets:
  assumes "set_status L pg pid status err s = (Inr a, s')"
  shows "clean s' \<and> (\<forall>x \<in> set (pt_operations (db_provisioning (pr_saved s'))). op_provisioning x = pid \<longrightarrow> op_status x = status)"
proof -
  let ?P = "\<lambda>t. \<forall>x \<in> set (pt_operations t). op_provisioning x = pid \<longrightarrow> op_status x = status"
  obtain s1 v s2 where u: "on_tables (update_operation pid (\<lambda>x. x\<lparr>op_status := status, op_error := err\<rparr>)) s = (Inr (), s1)"
      and p: "project L pg pid s1 = (Inr v, s2)" and s': "s' = s2\<lparr>pr_saved := pr_db s2\<rparr>"
    using assms by (auto simp: set_status_def bindS_Inr_iff commit_tx_def)
  let ?f = "\<lambda>x. x\<lparr>op_status := status, op_error := err\<rparr>"
  have "s1 = s\<lparr>pr_db := (pr_db s)\<lparr>db_provisioning := (db_provisioning (pr_db s))\<lparr>pt_operations :=
      update_where (operation_of pid) ?f (pt_operations (db_provisioning (pr_db s)))\<rparr>\<rparr>\<rparr>"
    using u by (simp add: on_tables_def on_db_def update_operation_def)
  then have one: "?P (db_provisioning (pr_db s1))" using updated_statuses by simp
  have "keeps (\<lambda>s. ?P (db_provisioning (pr_db s))) (project L pg pid)"
    unfolding project_def advance_state_def announce_command_def
    by (intro keeps_bindS keeps_stop keeps_cases keeps_parts keeps_on_tables [where P = ?P] keeps_on_db [where P = ?P])
      (auto simp: advance_command_def Let_def store_outbox_def split: sum.splits)
  from keepsD [where P = "\<lambda>s. ?P (db_provisioning (pr_db s))", OF this one p] show ?thesis using s' by (simp add: clean_def)
qed

lemma enriched_step: "enrich_step N st = Inr st' \<Longrightarrow> ps_key st' = ps_key st \<and> ps_kind st' = ps_kind st"
  by (auto simp: enrich_step_def enrich_def split: if_splits option.splits StepKind.splits json.splits)

lemma approved_keys:
  assumes "approved_steps X q = Inr (r, steps)"
  obtains p where "verified_request (xe_lib X) (xe_calendar X) (lo_state q) (lo_digest q) = Inr r"
    "build_plan (xe_lib X) (xe_calendar X) r = Inr p" "map (\<lambda>st. (ps_key st, ps_kind st)) steps = map (\<lambda>st. (ps_key st, ps_kind st)) (pp_steps p)"
proof -
  from assms obtain rows p where v: "verified_request (xe_lib X) (xe_calendar X) (lo_state q) (lo_digest q) = Inr r"
      "build_plan (xe_lib X) (xe_calendar X) r = Inr p" and all: "list_all2 same_step rows (pp_steps p)"
      and steps: "steps = map2 (\<lambda>x st. st\<lparr>ps_payload := snd (snd x)\<rparr>) rows (pp_steps p)"
    by (auto simp: approved_steps_def bindE_Inr_iff split: if_splits)
  have "map (\<lambda>st. (ps_key st, ps_kind st)) steps = map (\<lambda>st. (ps_key st, ps_kind st)) (pp_steps p)"
    using all unfolding steps by (induction rule: list_all2_induct) auto
  with v that show ?thesis by blast
qed

lemma prepared_keys:
  assumes "prepare X q s = (Inr (r, A, steps), s')"
  obtains p where "verified_request (xe_lib X) (xe_calendar X) (lo_state q) (lo_digest q) = Inr r"
    "build_plan (xe_lib X) (xe_calendar X) r = Inr p" "map (\<lambda>st. (ps_key st, ps_kind st)) steps = map (\<lambda>st. (ps_key st, ps_kind st)) (pp_steps p)"
proof -
  from assms obtain steps0 where a: "approved_steps X q = Inr (r, steps0)" and e: "mapE (enrich_step (xe_processes X)) steps0 = Inr steps"
    by (auto simp: prepare_def bindS_Inr_iff split: option.splits)
  have same: "map (\<lambda>st. (ps_key st, ps_kind st)) steps = map (\<lambda>st. (ps_key st, ps_kind st)) steps0"
    using e by (rule mapE_map) (simp add: enriched_step)
  show ?thesis by (rule approved_keys [OF a]) (use that same in simp)
qed

lemma same_keys:
  assumes "map (\<lambda>st. (ps_key st, ps_kind st)) xs = map (\<lambda>st. (ps_key st, ps_kind st)) ys" "\<forall>x \<in> set xs. Q (ps_key x) (resource_key x)"
  shows "\<forall>y \<in> set ys. Q (ps_key y) (resource_key y)"
proof
  fix y
  assume "y \<in> set ys"
  then have "(ps_key y, ps_kind y) \<in> set (map (\<lambda>st. (ps_key st, ps_kind st)) xs)" unfolding assms(1) by force
  then obtain x where "x \<in> set xs" "ps_key x = ps_key y" "ps_kind x = ps_kind y" by auto
  moreover from this have "resource_key x = resource_key y" by (simp add: resource_key_def)
  ultimately show "Q (ps_key y) (resource_key y)" using assms(2) by metis
qed

lemma failing_codes_Nil: "failing_codes cs = [] \<longleftrightarrow> list_all rc_ready cs"
  by (auto simp: failing_codes_def filter_empty_conv list_all_iff)

text \<open>What a pass that ended ready has done.\<close>

lemma performed:
  assumes E: "marked_engine shelf (pa_engine A)" and run: "perform_pass X q r A steps s = (Inr oc, s')" and ready: "po_status oc = ''ready''"
  shows "list_all rc_ready (validate_request r) \<and> clean s'
    \<and> (\<forall>x \<in> set (pt_operations (db_provisioning (pr_saved s'))). op_provisioning x = lo_provisioning q \<longrightarrow> op_status x = READY)
    \<and> (\<forall>st \<in> set steps. ps_key st \<in> completed_steps (lo_provisioning q) (db_provisioning (pr_saved s'))
        \<and> get_native_id (rq_provisioning r) (resource_key st) (natives (pr_saved s')) \<noteq> None)"
proof -
  let ?pid = "lo_provisioning q" and ?status = "set_status (xe_lib X) (xe_pg_uuid X) (lo_provisioning q)"
  let ?known = "completed_steps ?pid (db_provisioning (pr_db s))"
  let ?pending = "filter (\<lambda>st. ps_key st \<notin> ?known) steps"
  from run obtain u1 s1 us s2 vs s3 u4 s4 cs s5 where
      m1: "(if ?pending \<noteq> [] \<and> lo_status q \<noteq> APPLYING then ?status APPLYING None else returnS ()) s = (Inr u1, s1)"
    and m2: "traverse (apply_and_mark A r ?pid) ?pending s1 = (Inr us, s2)"
    and m3: "traverse (register_warehouse X r) steps s2 = (Inr vs, s3)"
    and m4: "(if lo_status q \<noteq> RECONCILING then ?status RECONCILING None else returnS ()) s3 = (Inr u4, s4)"
    and m5: "traverse (check_step A r) steps s4 = (Inr cs, s5)"
    and m6: "(if failing_codes (validate_request r @ cs) \<noteq> [] then returnS (pass_outcome ''retry'' ''NOT_READY''
         (take 200 (join '','' (sort (failing_codes (validate_request r @ cs))))))
       else bindS (?status READY None) (\<lambda>_. returnS (pass_outcome ''ready'' ''READY'' []))) s5 = (Inr oc, s')"
    unfolding perform_pass_def Let_def bindS_Inr_iff readS_def by (simp add: bindS_Inr_iff) blast
  have fine: "list_all rc_ready (validate_request r @ cs)"
  proof (rule ccontr)
    assume "\<not> ?thesis"
    then have "failing_codes (validate_request r @ cs) \<noteq> []" by (simp only: failing_codes_Nil not_False_eq_True)
    with m6 have "po_status oc = ''retry''" by (simp add: pass_outcome_def) (metis PassOutcome.select_convs(1))
    with ready show False by simp
  qed
  then have "failing_codes (validate_request r @ cs) = []" by (simp only: failing_codes_Nil)
  with m6 obtain v where m7: "?status READY None s5 = (Inr v, s')" by (auto simp: bindS_Inr_iff)
  note last = set_status_sets [OF m7]
  have keeps: "P (db_provisioning (pr_db s))  \<Longrightarrow> P (db_provisioning (pr_db s1))"
    "P (db_provisioning (pr_db s2)) \<Longrightarrow> P (db_provisioning (pr_db s'))" "P (db_provisioning (pr_db s5)) \<Longrightarrow> P (db_provisioning (pr_db s'))"
    "P (db_provisioning (pr_db s1)) \<Longrightarrow> P (db_provisioning (pr_db s2))"
    if P: "progress P" for P
  proof -
    let ?Q = "\<lambda>s :: 'a proc. P (db_provisioning (pr_db s))"
    have k: "keeps ?Q (?status st err)" "keeps ?Q (traverse (register_warehouse X r) steps)" "keeps ?Q (traverse (check_step A r) steps)"
      "keeps ?Q (traverse (apply_and_mark A r ?pid) sts)" "keeps ?Q (returnS ())" for st err sts
      unfolding apply_and_mark_def [abs_def]
      by (intro keeps_stop keeps_traverse keeps_set_status [OF P] keeps_register [OF P] keeps_check_step [OF E] keeps_bindS
          keeps_apply_step [OF E P] keeps_mark_step [OF P])+
    show "?Q s \<Longrightarrow> ?Q s1" using m1 keepsD [OF k(1)] keepsD [OF k(5)] by (auto split: if_splits)
    show "?Q s1 \<Longrightarrow> ?Q s2" using m2 keepsD [OF k(4)] by blast
    show five: "?Q s5 \<Longrightarrow> ?Q s'" using m7 keepsD [OF k(1)] by blast
    have "?Q s2 \<Longrightarrow> ?Q s3" using m3 keepsD [OF k(2)] by blast
    moreover have "?Q s3 \<Longrightarrow> ?Q s4" using m4 keepsD [OF k(1)] keepsD [OF k(5)] by (auto split: if_splits)
    moreover have "?Q s4 \<Longrightarrow> ?Q s5" using m5 keepsD [OF k(3)] by blast
    ultimately show "?Q s2 \<Longrightarrow> ?Q s'" using five by blast
  qed
  have "ps_key st \<in> completed_steps ?pid (db_provisioning (pr_db s'))" if "st \<in> set steps" for st
  proof (cases "ps_key st \<in> ?known")
    case True
    then show ?thesis using keeps [OF progress_instances(1)] by blast
  next
    case False
    then have "ps_key st \<in> completed_steps ?pid (db_provisioning (pr_db s2))" using steps_completed [OF E m2] that by simp
    then show ?thesis using keeps(2) [OF progress_instances(1)] by blast
  qed
  moreover have "get_native_id (rq_provisioning r) (resource_key st) (natives (pr_db s')) \<noteq> None" if "st \<in> set steps" for st
  proof -
    have "get_native_id (rq_provisioning r) (resource_key st) (pt_natives (db_provisioning (pr_db s5))) \<noteq> None"
      using checks_ready [OF E m5] fine that by (simp add: natives_def)
    from keeps(3) [OF progress_instances(2) this] show ?thesis by (simp add: natives_def)
  qed
  ultimately show ?thesis using last fine by (simp add: clean_def)
qed


section \<open>A concrete pass\<close>

text \<open>An engine whose state is the list of its records: table, description and id.\<close>

definition depot_request :: ErpProvisioningRequest where
  "depot_request = sample_request\<lparr>rq_markets := []\<rparr>"

definition depot_steps :: "ProvisioningStep list" where
  "depot_steps = plan_steps (''prov-1:'' @ take 12 (desired_state_digest (sample_lib JNull) sample_calendar depot_request)) depot_request"

lemma empty_fset_list: "sorted_list_of_fset {||} = []"
  by (simp add: sorted_list_of_fset.rep_eq)

lemma depot_valid: "list_all rc_ready (validate_request depot_request)"
  by (simp add: validate_request_def required_text_def depot_request_def sample_request_def configured_check_def readiness_check_def
    placeholder_def accounting_values_def capability_checks_def approval_checks_def SUPPORTED_CAPABILITIES_def ISOLATION_REQUIREMENTS_def
    PENDING_DATE_def PENDING_DATETIME_def Let_def nonblank_def py_strip_def py_isspace_def starts_with_def code_def seconds_def empty_fset_list)

lemma depot_plan: "build_plan (sample_lib JNull) sample_calendar depot_request = Inr \<lparr>pp_provisioning = ''prov-1'', 
   pp_digest = desired_state_digest (sample_lib JNull) sample_calendar depot_request, pp_steps = depot_steps\<rparr>"
proof -
  have "filter (\<lambda>c. \<not> rc_ready c) (validate_request depot_request) = []"
    using depot_valid by (simp add: filter_empty_conv list_all_iff)
  then show ?thesis
  by (simp add: build_plan_def require_valid_request_def Let_def depot_steps_def)
   (simp add: depot_request_def sample_request_def)
qed

type_synonym depot = "(string \<times> string \<times> int) list"
definition depot_shelf :: "depot \<Rightarrow> string \<Rightarrow> string \<Rightarrow> int list" where
  "depot_shelf w table marker = map (\<lambda>(t, m, n). n) (filter (\<lambda>(t, m, n). t = table \<and> m = marker) w)"

definition description :: "fields \<Rightarrow> string" where
  "description data = jtext (the_default JNull (map_of data ''Description''))"

definition depot_engine :: "depot proc engine" where
  "depot_engine = \<lparr>get_record = (\<lambda>table n. returnS (JObj [(''IsActive'', JBool True)])),
     query = (\<lambda>table conditions select. bindS (readS cx_net) (\<lambda>w.
       returnS (map (\<lambda>n. JObj [(''id'', JInt n)]) (depot_shelf w table (description conditions))))),
     create_record = (\<lambda>table data. bindS (readS cx_net) (\<lambda>w. let n = 1000000 + int (length w) in
       bindS (writeS (\<lambda>s. s\<lparr>cx_net := w @ [(table, description data, n)]\<rparr>)) (\<lambda>_. returnS n))),
     update_record = (\<lambda>table n data. returnS ()), execute_process = (\<lambda>n data. returnS JNull)\<rparr>"

definition depot_executor :: "depot executor" where
  "depot_executor = \<lparr>xe_lib = sample_lib JNull, xe_pg_uuid = uuid_of, xe_calendar = sample_calendar,
     xe_processes = Some \<lparr>np_accounting = 53, np_localisation = (\<lambda>_. None)\<rparr>, xe_engine_for = (\<lambda>g. returnS (Some depot_engine)),
     xe_lock_free = (\<lambda>_. True)\<rparr>"

definition depot_operation :: LoadedOperation where
  "depot_operation = \<lparr>lo_provisioning = ''prov-1'', lo_state = desired_state sample_calendar depot_request,
     lo_digest = Some (desired_state_digest (sample_lib JNull) sample_calendar depot_request), lo_plan = map step_json depot_steps,
     lo_status = PLANNED, lo_attempts = 1, lo_created = 0\<rparr>"

definition depot_process :: "depot proc" where
  "depot_process = idle_process [] (empty_database\<lparr>db_provisioning := empty_provisioning\<lparr>pt_operations :=
     [\<lparr>op_provisioning = ''prov-1'', op_key = ''key-1'', op_state = desired_state sample_calendar depot_request,
       op_digest = Some (desired_state_digest (sample_lib JNull) sample_calendar depot_request), op_plan = JArr (map step_json depot_steps),
       op_status = PLANNED, op_error = None, op_created = 0, op_attempts = 1, op_next = None, op_outcome = None\<rparr>]\<rparr>\<rparr>)"

lemma readable_kind: "read_kind (JStr (kind_text k)) = Inr k"
  by (cases k) (simp_all add: read_kind_def ALL_KINDS_def)

lemma stored_plan: "mapE stored_step (map step_json sts) = Inr (map (\<lambda>st. (JStr (ps_key st), ps_kind st, ps_payload st)) sts)"
  by (induction sts) (simp_all add: stored_step_def step_json_def subscript_def readable_kind read_payload_def)

lemma depot_approved: "approved_steps depot_executor depot_operation = Inr (depot_request, depot_steps)"
proof -
  have "readable_dates (sample_lib JNull) sample_calendar depot_request"
    by (simp add: readable_dates_def sample_lib_def sample_calendar_def depot_request_def sample_request_def)
  then have "verified_request (sample_lib JNull) sample_calendar (lo_state depot_operation) (lo_digest depot_operation) = Inr depot_request"
    using request_read by (simp add: verified_request_def depot_operation_def desired_state_digest_def sample_lib_def)
  moreover have "list_all2 same_step (map (\<lambda>st. (JStr (ps_key st), ps_kind st, ps_payload st)) sts) sts" for sts
    by (induction sts) (simp_all add: same_step_def same_fields_def list_all_iff)
  moreover have "map2 (\<lambda>x st. st\<lparr>ps_payload := snd (snd x)\<rparr>) (map (\<lambda>st. (JStr (ps_key st), ps_kind st, ps_payload st)) sts) sts = sts" for sts :: "ProvisioningStep list"
    by (induction sts) simp_all
  ultimately show ?thesis
    by (simp add: approved_steps_def depot_executor_def depot_plan) (simp add: depot_operation_def stored_plan)
qed

lemma depot_steps_eq: "depot_steps =
   [plan_step ''prov-1:000000000000:client'' CREATE_CLIENT [(''Name'', JStr ''Nab'')],
    plan_step ''prov-1:000000000000:accounting'' CONFIGURE_ACCOUNTING
      [(''functional_currency'', JStr ''UGX''), (''accounting_schema'', JStr ''as''), (''chart_of_accounts_template'', JStr ''coa''),
       (''fiscal_year_start_month'', JInt 7), (''tax_profile'', JStr ''tax''), (''costing_method'', JStr ''avg'')],
    plan_step ''prov-1:000000000000:mapping'' PERSIST_MAPPING
      [(''tenant_id'', JStr ''tn_abc01''), (''legal_entity_id'', JStr ''NABHOLD''), (''engine_instance_id'', JStr ''e''),
       (''plan_digest'', JStr ''sha256:0'')]]"
proof -
  have "desired_state_digest (sample_lib JNull) sample_calendar depot_request = replicate 64 CHR ''0''"
    by (simp add: desired_state_digest_def sample_lib_def)
  then have "take 12 (desired_state_digest (sample_lib JNull) sample_calendar depot_request) = ''000000000000''"
    by (simp add: numeral_eq_Suc)
  then show ?thesis
    unfolding depot_steps_def plan_steps_def Let_def by (simp add: depot_request_def sample_request_def)
qed

definition depot_runnable :: "ProvisioningStep list" where
  "depot_runnable =
   [plan_step ''prov-1:000000000000:client'' CREATE_CLIENT [(''Name'', JStr ''Nab'')],
    plan_step ''prov-1:000000000000:accounting'' CONFIGURE_ACCOUNTING
      [(''functional_currency'', JStr ''UGX''), (''accounting_schema'', JStr ''as''), (''chart_of_accounts_template'', JStr ''coa''),
       (''fiscal_year_start_month'', JInt 7), (''tax_profile'', JStr ''tax''), (''costing_method'', JStr ''avg''), (''process_id'', JInt 53)],
    plan_step ''prov-1:000000000000:mapping'' PERSIST_MAPPING
      [(''tenant_id'', JStr ''tn_abc01''), (''legal_entity_id'', JStr ''NABHOLD''), (''engine_instance_id'', JStr ''e''),
       (''plan_digest'', JStr ''sha256:0'')]]"

lemma depot_prepared: "prepare depot_executor depot_operation s = (Inr (depot_request, \<lparr>pa_engine = depot_engine, pa_publishes = True\<rparr>, depot_runnable), s)"
  by (simp add: prepare_def depot_approved bindS_def)
    (simp add: depot_executor_def depot_runnable_def depot_steps_eq plan_step_def enrich_step_def enrich_def with_field_def bindS_def)

lemma depot_checks: "failing_codes (validate_request depot_request @ cs) = failing_codes cs"
  using depot_valid by (simp add: failing_codes_def filter_empty_conv list_all_iff)

lemmas depot_run_defs = perform_pass_def apply_and_mark_def apply_step_def create_client_def create_once_def native_of_def get_native_id_def
  step_marker_def find_marked_def store_native_def upsert_native_def put_native_id_def run_process_def configure_accounting_def mark_applied_def
  persist_mapping_def publish_mapping_def confirm_tenant_mapping_def create_tenant_mapping_def insert_tenant_row_def find_active_row_def
  payload_text_def mark_step_def upsert_step_def set_status_def project_def owner_of_def update_operation_def check_step_def attempt_def record_active_def
  register_warehouse_def on_tables_def on_db_def commit_tx_def bindS_def Let_def

lemma depot_prov: "rq_provisioning depot_request = ''prov-1''"
  by (simp add: depot_request_def sample_request_def)

lemma depot_no_failure: "filter (\<lambda>c. \<not> rc_ready c) (validate_request depot_request) = []"
  using depot_valid by (simp add: filter_empty_conv list_all_iff)

lemma depot_performed:
  "\<exists>s'. perform_pass depot_executor depot_operation depot_request \<lparr>pa_engine = depot_engine, pa_publishes = True\<rparr> depot_runnable depot_process
     = (Inr (pass_outcome ''ready'' ''READY'' []), s')"
  by (simp add: depot_run_defs depot_prov depot_no_failure depot_runnable_def plan_step_def depot_engine_def depot_shelf_def description_def
      depot_process_def idle_process_def empty_database_def empty_provisioning_def completed_steps_def depot_operation_def depot_executor_def
      resource_key_def CLIENT_ALIAS_def MARKER_PREFIX_def operation_of_def to_int_def column_int.simps subscript_def jget_def nonblank_def
      py_strip_def py_isspace_def code_def has_key_def readiness_check_def failing_codes_def with_field_def safe_value_def)

lemma depot_ids: "mapE (row_id table) (map (\<lambda>n. JObj [(''id'', JInt n)]) ns) = Inr ns"
  by (induction ns) (simp_all add: row_id_def subscript_def has_key_def to_int_def column_int.simps)

lemma depot_marked: "marked_engine depot_shelf depot_engine"
proof -
  have shelved: "reflp (shelved depot_shelf)" "transp (shelved depot_shelf)" by (auto simp: shelved_def apart_def intro!: reflpI transpI)
  have quiet: "within (shelved depot_shelf) (get_record depot_engine t i)" "within (shelved depot_shelf) (query depot_engine t cs sel)"
    "within (shelved depot_shelf) (execute_process depot_engine i data)" "within apart (create_record depot_engine t data)" for t i cs sel data
    by (simp_all add: depot_engine_def within_def shelved_def apart_def Let_def)
  moreover have "query depot_engine t [(''Description'', JStr (MARKER_PREFIX @ key))] [t @ ''_ID''] s = (Inr rows, s') \<Longrightarrow>
      mapE (row_id t) rows = Inr (depot_shelf (cx_net s) t (MARKER_PREFIX @ key))" for t key s rows s'
    by (auto simp: depot_engine_def depot_ids description_def)
  moreover have "map_of data ''Description'' = Some (JStr (MARKER_PREFIX @ key)) \<Longrightarrow> create_record depot_engine t data s = (r, s') \<Longrightarrow>
      r = Inr (1000000 + int (length (cx_net s))) \<and> stocked depot_shelf t (MARKER_PREFIX @ key) s (1000000 + int (length (cx_net s))) s'"
    for t data key s r s'
    by (auto simp: depot_engine_def description_def Let_def stocked_def depot_shelf_def)
  ultimately show ?thesis unfolding marked_engine_def by (intro conjI allI impI) fastforce+
qed

lemma depot_executor_marked: "marked_executor depot_shelf depot_executor"
  using depot_marked by (simp add: marked_executor_def depot_executor_def within_def shelved_def apart_def)

text \<open>The process in which the operation has been accepted with a command.\<close>

definition depot_entity :: PlannedEntity where
  "depot_entity = \<lparr>pe_entity = ''NABHOLD'', pe_request = depot_request,
     pe_plan = \<lparr>pp_provisioning = ''prov-1'', pp_digest = desired_state_digest (sample_lib JNull) sample_calendar depot_request,
       pp_steps = depot_steps\<rparr>\<rparr>"

definition depot_start :: "depot proc" where
  "depot_start = transaction (store_op (sample_lib JNull) uuid_of sample_calendar
     (Accept sample_command ''idempotency-key-1'' ''svc'' (replicate 64 (CHR ''0'')) [depot_entity])) ((idle_process [] empty_database)\<lparr>pr_uuids := (\<lambda>k. 7)\<rparr>)"

lemma inserts_keep:
  "pt_natives (snd (insert_operations rs t)) = pt_natives t" "pt_natives (snd (insert_members ms t)) = pt_natives t"
  "pt_natives (snd (insert_command c t)) = pt_natives t"
proof -
  show "pt_natives (snd (insert_operations rs t)) = pt_natives t"
    by (induction rs arbitrary: t) (auto simp: bindS_def insert_operation_def)
  show "pt_natives (snd (insert_members ms t)) = pt_natives t"
    by (induction ms arbitrary: t) (auto simp: bindS_def insert_member_def)
qed (simp add: insert_command_def)

lemma kept_accept: "within natives_kept (accept L pg K c key who fp entities)"
proof -
  have "within natives_kept (on_tables (insert_operations rs))" "within natives_kept (on_tables (insert_members ms))"
    "within natives_kept (on_tables (insert_command c'))" for rs ms c'
    by (rule kept_on_tables, metis inserts_keep snd_conv)+
  then show ?thesis
    unfolding accept_def announce_command_def Let_def
    by (intro kept_intros kept_parts kept_on_db) (auto simp: store_outbox_def natives_def split: sum.splits)
qed

lemma depot_start_ok:
  "records_known depot_shelf depot_start" "ledger (sample_lib JNull) (pr_saved depot_start)" "clean depot_start"
proof -
  let ?s = "(idle_process [] empty_database)\<lparr>pr_uuids := (\<lambda>k. 7)\<rparr> :: depot proc"
  let ?st = "Accept sample_command ''idempotency-key-1'' ''svc'' (replicate 64 (CHR ''0'')) [depot_entity]"
  have "ledger (sample_lib JNull) (pr_saved ?s)" using empty_ledger by (simp add: idle_process_def)
  from transaction_ledger [OF _ _ this, of ?st] show "ledger (sample_lib JNull) (pr_saved depot_start)" "clean depot_start"
    by (simp_all add: depot_start_def draws_uuids_def clean_def idle_process_def)
  have "within natives_kept (store_op (sample_lib JNull) uuid_of sample_calendar ?st :: (depot proc, exn, unit) op)"
    unfolding store_op.simps discard_def by (intro kept_intros kept_accept)
  then have kept: "natives_kept ?s (snd (store_op (sample_lib JNull) uuid_of sample_calendar ?st ?s))" by (simp add: within_def)
  have "natives (pr_db ?s) = []" "natives (pr_saved ?s) = []" "cx_net ?s = []"
    by (simp_all add: idle_process_def empty_database_def empty_provisioning_def natives_def)
  with kept have "natives (pr_db depot_start) = []" "natives (pr_saved depot_start) = []" "cx_net depot_start = []"
    by (auto simp: natives_kept_def depot_start_def transaction_def commit_tx_def rollback_tx_def split: prod.splits sum.splits)
  then show "records_known depot_shelf depot_start"
    by (simp add: records_known_def one_record_def known_records_def depot_shelf_def get_native_id_def)
qed

theorem provisioning_records_unique_witness:
  "records_known depot_shelf (snd (run_once depot_executor 10 depot_start))"
proof -
  have "xe_lib depot_executor = sample_lib JNull" by (simp add: depot_executor_def)
  with provisioning_records_unique [OF depot_executor_marked depot_start_ok(1) _ depot_start_ok(3), of 10] depot_start_ok(2)
  show ?thesis by (auto split: prod.splits)
qed


end
