(* ===== verification/Finance_Baseline.thy ===== *)
theory Finance_Baseline
  imports Command_Ledger
begin

text \<open>
  Finance's approved baselines: their references and digests (\<open>modules/provisioning/finance_baseline.py\<close>) and the
  append-only store of versions and withdrawals (\<open>finance_baseline_store.py\<close>, migrations 0014 and 0017).
\<close>

section \<open>References\<close>

definition SYNTHETIC_APPROVERS :: "string list" where
  "SYNTHETIC_APPROVERS = [''system'', ''service'', ''bootstrap'', ''automation'', ''auto'', ''unknown'', ''n/a'', ''none'']"

datatype standing = EFFECTIVE | NOT_YET_EFFECTIVE | SUPERSEDED | WITHDRAWN

fun standing_text :: "standing \<Rightarrow> string" where
  "standing_text EFFECTIVE = ''EFFECTIVE''"
| "standing_text NOT_YET_EFFECTIVE = ''NOT_YET_EFFECTIVE''"
| "standing_text SUPERSEDED = ''SUPERSEDED''"
| "standing_text WITHDRAWN = ''WITHDRAWN''"

definition FinanceBaselineError :: "string \<Rightarrow> exn" where
  "FinanceBaselineError message = Exn ''FinanceBaselineError'' message"

text \<open>The UTC calendar day of an instant; the epoch is day 719163.\<close>

definition utc_day :: "instant \<Rightarrow> int" where
  "utc_day t = 719163 + t div (24 * hours 1)"

text \<open>\<open>isoformat(timespec="microseconds")\<close>, where the plain text leaves out a fraction of zero, and \<open>timespec="seconds"\<close>.\<close>

definition micros_z :: "pylib \<Rightarrow> instant \<Rightarrow> string" where
  "micros_z L t = (if t mod seconds 1 = 0 then replace_all ''+00:00'' ''.000000Z'' 0 (isoformat L t) else utc_z L t)"

definition seconds_z :: "pylib \<Rightarrow> instant \<Rightarrow> string" where
  "seconds_z L t = utc_z L (t - t mod seconds 1)"

definition baseline_id_for :: "pylib \<Rightarrow> string \<Rightarrow> string" where
  "baseline_id_for L entity = ''fb_'' @ take 32 (sha256_hex L entity)"

definition baseline_document :: "pylib \<Rightarrow> calendar \<Rightarrow> FinancialConfigurationBaseline \<Rightarrow> json" where
  "baseline_document L K b = JObj
     [(''legal_entity_id'', JStr (fb_entity b)), (''version'', JInt (fb_version b)), (''functional_currency'', JStr (fb_currency b)),
      (''fiscal_year_start_month'', JInt (fb_year_start b)), (''chart_of_accounts_template'', JStr (fb_chart b)),
      (''accounting_schema'', JStr (fb_schema b)), (''tax_profile'', JStr (fb_tax b)), (''costing_method'', JStr (fb_costing b)),
      (''effective_from'', JStr (day_text K (fb_effective b))), (''approved_by'', JStr (fb_approved_by b)),
      (''approved_at'', JStr (micros_z L (fb_approved_at b))), (''evidence_reference'', JStr (fb_evidence b))]"

definition baseline_digest :: "pylib \<Rightarrow> calendar \<Rightarrow> FinancialConfigurationBaseline \<Rightarrow> string" where
  "baseline_digest L K b = ''sha256:'' @ sha256_hex L (json_dumps_unicode L (baseline_document L K b))"

definition reference_of :: "pylib \<Rightarrow> calendar \<Rightarrow> FinancialConfigurationBaseline \<Rightarrow> json" where
  "reference_of L K b = JObj
     [(''baseline_id'', JStr (baseline_id_for L (fb_entity b))), (''legal_entity_id'', JStr (fb_entity b)),
      (''version'', JInt (fb_version b)), (''digest'', JStr (baseline_digest L K b)),
      (''effective_from'', JStr (day_text K (fb_effective b))), (''authority'', BASELINE_AUTHORITY)]"

definition resolution_of :: "pylib \<Rightarrow> calendar \<Rightarrow> FinancialConfigurationBaseline \<Rightarrow> standing \<Rightarrow> instant \<Rightarrow> json" where
  "resolution_of L K b st now = JObj
     [(''reference'', reference_of L K b), (''status'', JStr (standing_text st)), (''functional_currency'', JStr (fb_currency b)),
      (''resolved_at'', JStr (seconds_z L now))]"

section \<open>Recording and withdrawing\<close>

definition baseline_text :: "string \<Rightarrow> string \<Rightarrow> exn + string" where
  "baseline_text v name = (let cleaned = py_strip v in
     if cleaned = [] \<or> placeholder cleaned then Inl (FinanceBaselineError (name @ '' is missing or a placeholder'')) else Inr cleaned)"

definition named_person :: "string \<Rightarrow> string \<Rightarrow> exn + string" where
  "named_person v name =
     bindE (baseline_text v name) (\<lambda>person.
       if py_lower person \<in> set SYNTHETIC_APPROVERS then Inl (FinanceBaselineError (name @ '' is not an accountable person'')) else Inr person)"

definition zoned :: "datetime \<Rightarrow> string \<Rightarrow> exn + instant" where
  "zoned v name = (case v of Aware t \<Rightarrow> Inr t | Naive _ \<Rightarrow> Inl (FinanceBaselineError (name @ '' has no time zone'')))"

definition now_or_clock :: "instant option \<Rightarrow> ('n proc, exn, instant) op" where
  "now_or_clock now = (case now of Some t \<Rightarrow> returnS t | None \<Rightarrow> read_clock)"

text \<open>The arguments of \<open>record\<close>.\<close>

record baseline_arguments =
  ba_entity :: string
  ba_currency :: string
  ba_year_start :: int
  ba_chart :: string
  ba_schema :: string
  ba_tax :: string
  ba_costing :: string
  ba_effective :: int
  ba_approved_by :: string
  ba_approved_at :: datetime
  ba_evidence :: string

definition baseline_values :: "baseline_arguments \<Rightarrow> string \<Rightarrow> instant \<Rightarrow> exn + FinancialConfigurationBaseline" where
  "baseline_values a approver approved =
     bindE (baseline_text (ba_entity a) ''legal_entity_id'') (\<lambda>entity.
     bindE (baseline_text (ba_currency a) ''functional_currency'') (\<lambda>currency.
     bindE (baseline_text (ba_chart a) ''chart_of_accounts_template'') (\<lambda>chart.
     bindE (baseline_text (ba_schema a) ''accounting_schema'') (\<lambda>schema.
     bindE (baseline_text (ba_tax a) ''tax_profile'') (\<lambda>tax.
     bindE (baseline_text (ba_costing a) ''costing_method'') (\<lambda>costing.
     bindE (baseline_text (ba_evidence a) ''evidence_reference'') (\<lambda>evidence.
       Inr \<lparr>fb_entity = entity, fb_version = 0, fb_currency = currency, fb_year_start = ba_year_start a, fb_chart = chart,
         fb_schema = schema, fb_tax = tax, fb_costing = costing, fb_effective = ba_effective a, fb_approved_by = approver,
         fb_approved_at = approved, fb_evidence = evidence\<rparr>)))))))"

definition versions_of :: "string \<Rightarrow> FinancialConfigurationBaseline list \<Rightarrow> FinancialConfigurationBaseline list" where
  "versions_of entity rows = filter (\<lambda>b. fb_entity b = entity) rows"

definition next_version :: "string \<Rightarrow> FinancialConfigurationBaseline list \<Rightarrow> int" where
  "next_version entity rows = fold max (map fb_version (versions_of entity rows)) 0 + 1"

definition baseline_checks :: "FinancialConfigurationBaseline \<Rightarrow> bool" where
  "baseline_checks b \<longleftrightarrow> fullmatch CURRENCY (fb_currency b) \<and> 1 \<le> fb_year_start b \<and> fb_year_start b \<le> 12"

text \<open>
  The insert of the next version. The month is a \<open>smallint\<close> and the version an \<open>integer\<close>; the other checks of the table
  repeat those of the arguments.
\<close>

definition insert_baseline :: "FinancialConfigurationBaseline \<Rightarrow> (provisioning_tables, exn, FinancialConfigurationBaseline) op" where
  "insert_baseline b t =
     (let row = b\<lparr>fb_version := next_version (fb_entity b) (pt_baselines t)\<rparr> in
      if fb_year_start b < - (2 ^ 15) \<or> 2 ^ 15 \<le> fb_year_start b \<or> 2 ^ 31 \<le> fb_version row then (Inl (Exn ''NumericValueOutOfRange'' []), t)
      else if \<not> baseline_checks b then (Inl check_violation, t)
      else (Inr row, t\<lparr>pt_baselines := pt_baselines t @ [row]\<rparr>))"

definition record_baseline :: "baseline_arguments \<Rightarrow> instant option \<Rightarrow> ('n proc, exn, FinancialConfigurationBaseline) op" where
  "record_baseline a now =
     bindS (liftS (named_person (ba_approved_by a) ''approved_by'')) (\<lambda>approver.
     bindS (liftS (zoned (ba_approved_at a) ''approved_at'')) (\<lambda>approved.
     bindS (now_or_clock now) (\<lambda>t.
     bindS (checkS (approved \<le> t) (FinanceBaselineError ''approved_at is in the future'')) (\<lambda>_.
     bindS (liftS (baseline_values a approver approved)) (\<lambda>b.
     on_tables (insert_baseline b))))))"

definition insert_withdrawal :: "withdrawal_row \<Rightarrow> (provisioning_tables, exn, unit) op" where
  "insert_withdrawal w t =
     (if wd_version w < - (2 ^ 31) \<or> 2 ^ 31 \<le> wd_version w then (Inl (Exn ''NumericValueOutOfRange'' []), t)
      else if list_ex (\<lambda>x. wd_entity x = wd_entity w \<and> wd_version x = wd_version w) (pt_withdrawals t) then (Inl unique_violation, t)
      else if \<not> list_ex (\<lambda>b. fb_entity b = wd_entity w \<and> fb_version b = wd_version w) (pt_baselines t) then (Inl foreign_key_violation, t)
      else (Inr (), t\<lparr>pt_withdrawals := pt_withdrawals t @ [w]\<rparr>))"

definition withdraw_baseline ::
  "string \<Rightarrow> int \<Rightarrow> string \<Rightarrow> datetime \<Rightarrow> string \<Rightarrow> string \<Rightarrow> instant option \<Rightarrow> ('n proc, exn, unit) op" where
  "withdraw_baseline entity version who at_time reason evidence now =
     bindS (liftS (named_person who ''withdrawn_by'')) (\<lambda>person.
     bindS (liftS (zoned at_time ''withdrawn_at'')) (\<lambda>withdrawn.
     bindS (now_or_clock now) (\<lambda>t.
     bindS (checkS (withdrawn \<le> t) (FinanceBaselineError ''withdrawn_at is in the future'')) (\<lambda>_.
     bindS (liftS (baseline_text entity ''legal_entity_id'')) (\<lambda>e.
     bindS (liftS (baseline_text reason ''reason'')) (\<lambda>r.
     bindS (liftS (baseline_text evidence ''evidence_reference'')) (\<lambda>ev.
     on_tables (insert_withdrawal \<lparr>wd_entity = e, wd_version = version, wd_by = person, wd_at = withdrawn, wd_reason = r,
       wd_evidence = ev\<rparr>))))))))"

section \<open>Reading\<close>

definition withdrawn_by_day :: "provisioning_tables \<Rightarrow> string \<Rightarrow> int \<Rightarrow> int \<Rightarrow> bool" where
  "withdrawn_by_day t entity version on \<longleftrightarrow>
     list_ex (\<lambda>w. wd_entity w = entity \<and> wd_version w = version \<and> utc_day (wd_at w) \<le> on) (pt_withdrawals t)"

text \<open>\<open>ORDER BY effective_from DESC, version DESC LIMIT 1\<close>\<close>

definition later_baseline :: "FinancialConfigurationBaseline \<Rightarrow> FinancialConfigurationBaseline \<Rightarrow> bool" where
  "later_baseline b c \<longleftrightarrow> fb_effective b > fb_effective c \<or> (fb_effective b = fb_effective c \<and> fb_version b > fb_version c)"

fun latest_baseline :: "FinancialConfigurationBaseline list \<Rightarrow> FinancialConfigurationBaseline option" where
  "latest_baseline [] = None"
| "latest_baseline (b # bs) = (case latest_baseline bs of None \<Rightarrow> Some b | Some c \<Rightarrow> Some (if later_baseline c b then c else b))"

definition effective_baseline :: "provisioning_tables \<Rightarrow> string \<Rightarrow> int \<Rightarrow> FinancialConfigurationBaseline option" where
  "effective_baseline t entity on =
     latest_baseline (filter (\<lambda>b. fb_effective b \<le> on \<and> \<not> withdrawn_by_day t (fb_entity b) (fb_version b) on)
       (versions_of entity (pt_baselines t)))"

definition get_baseline :: "provisioning_tables \<Rightarrow> string \<Rightarrow> int \<Rightarrow> FinancialConfigurationBaseline option" where
  "get_baseline t entity version = select_one (\<lambda>b. fb_entity b = entity \<and> fb_version b = version) (pt_baselines t)"

definition legal_entity_of :: "pylib \<Rightarrow> provisioning_tables \<Rightarrow> string \<Rightarrow> string option" where
  "legal_entity_of L t bid = map_option fb_entity (select_one (\<lambda>b. baseline_id_for L (fb_entity b) = bid) (pt_baselines t))"

definition baseline_status :: "provisioning_tables \<Rightarrow> FinancialConfigurationBaseline \<Rightarrow> int \<Rightarrow> standing" where
  "baseline_status t b on =
     (if withdrawn_by_day t (fb_entity b) (fb_version b) on then WITHDRAWN
      else if fb_effective b > on then NOT_YET_EFFECTIVE
      else (case effective_baseline t (fb_entity b) on of
          Some c \<Rightarrow> if fb_version c = fb_version b then EFFECTIVE else SUPERSEDED
        | None \<Rightarrow> SUPERSEDED))"

definition baseline_history :: "provisioning_tables \<Rightarrow> string \<Rightarrow> FinancialConfigurationBaseline list" where
  "baseline_history t entity = sort_key fb_version (versions_of entity (pt_baselines t))"

section \<open>What a history keeps\<close>

definition accountable :: "string \<Rightarrow> bool" where
  "accountable who \<longleftrightarrow> nonblank who \<and> \<not> placeholder who \<and> py_lower who \<notin> set SYNTHETIC_APPROVERS"

definition evidenced :: "string \<Rightarrow> bool" where
  "evidenced s \<longleftrightarrow> nonblank s \<and> \<not> placeholder s"

definition approved_baseline :: "FinancialConfigurationBaseline \<Rightarrow> bool" where
  "approved_baseline b \<longleftrightarrow> accountable (fb_approved_by b) \<and> baseline_checks b
     \<and> list_all evidenced [fb_entity b, fb_chart b, fb_schema b, fb_tax b, fb_costing b, fb_evidence b]"

definition finance_ok :: "provisioning_tables \<Rightarrow> bool" where
  "finance_ok t \<longleftrightarrow>
     (\<forall>e. map fb_version (versions_of e (pt_baselines t)) = map (\<lambda>k. int k + 1) [0..<length (versions_of e (pt_baselines t))])
     \<and> (\<forall>b \<in> set (pt_baselines t). approved_baseline b)
     \<and> distinct (map (\<lambda>w. (wd_entity w, wd_version w)) (pt_withdrawals t))
     \<and> (\<forall>w \<in> set (pt_withdrawals t). accountable (wd_by w) \<and> get_baseline t (wd_entity w) (wd_version w) \<noteq> None)"

text \<open>Nothing that was recorded is changed.\<close>

definition finance_grows :: "provisioning_tables \<Rightarrow> provisioning_tables \<Rightarrow> bool" where
  "finance_grows t t' \<longleftrightarrow> (\<exists>bs. pt_baselines t' = pt_baselines t @ bs) \<and> (\<exists>ws. pt_withdrawals t' = pt_withdrawals t @ ws)"

datatype finance_act =
    RecordBaseline baseline_arguments "instant option"
  | WithdrawBaseline string int string datetime string string "instant option"

fun finance_op :: "finance_act \<Rightarrow> ('n proc, exn, unit) op" where
  "finance_op (RecordBaseline a now) = discard (record_baseline a now)"
| "finance_op (WithdrawBaseline e v who at_time reason evidence now) = withdraw_baseline e v who at_time reason evidence now"

lemma strip_nonblank: "py_strip v \<noteq> [] \<Longrightarrow> nonblank (py_strip v)"
proof -
  assume ne: "py_strip v \<noteq> []"
  let ?w = "rev (dropWhile py_isspace v)"
  from ne have w: "dropWhile py_isspace ?w \<noteq> []" by (simp add: py_strip_def)
  then have "\<not> py_isspace (hd (dropWhile py_isspace ?w))" by (rule hd_dropWhile)
  with w have "\<exists>c \<in> set (dropWhile py_isspace ?w). \<not> py_isspace c" by (metis hd_in_set)
  then have "\<exists>c \<in> set (py_strip v). \<not> py_isspace c" unfolding py_strip_def set_rev .
  then show ?thesis by (simp add: nonblank_def list_ex_iff)
qed

lemma baseline_text_Inr: "baseline_text v name = Inr c \<Longrightarrow> evidenced c"
  using strip_nonblank [of v] by (auto simp: baseline_text_def evidenced_def Let_def split: if_splits)

lemma named_person_Inr: "named_person v name = Inr p \<Longrightarrow> accountable p"
  by (auto simp: named_person_def bindE_Inr_iff accountable_def evidenced_def dest: baseline_text_Inr split: if_splits)

lemma baseline_values_Inr:
  "baseline_values a approver approved = Inr b \<Longrightarrow> fb_approved_by b = approver
     \<and> list_all evidenced [fb_entity b, fb_chart b, fb_schema b, fb_tax b, fb_costing b, fb_evidence b]"
  by (auto simp: baseline_values_def bindE_Inr_iff dest: baseline_text_Inr)

lemma fold_max_upto: "fold max (map (\<lambda>k. int k + 1) [0..<n]) 0 = int n"
  by (induction n) auto

lemma versions_of_append: "versions_of e (rows @ [r]) = versions_of e rows @ (if fb_entity r = e then [r] else [])"
  by (simp add: versions_of_def)

lemma finance_versions:
  "finance_ok t \<Longrightarrow> map fb_version (versions_of e (pt_baselines t)) = map (\<lambda>k. int k + 1) [0..<length (versions_of e (pt_baselines t))]"
  by (simp add: finance_ok_def)

lemma next_version_dense: "finance_ok t \<Longrightarrow> next_version e (pt_baselines t) = int (length (versions_of e (pt_baselines t))) + 1"
  by (simp add: next_version_def finance_versions fold_max_upto)

lemma finance_unique:
  assumes "finance_ok t" "b \<in> set (pt_baselines t)" "c \<in> set (pt_baselines t)" "fb_entity b = fb_entity c" "fb_version b = fb_version c"
  shows "b = c"
proof -
  let ?v = "versions_of (fb_entity c) (pt_baselines t)"
  have "distinct (map fb_version ?v)"
    unfolding finance_versions [OF assms(1)] by (auto simp: distinct_map intro: inj_onI)
  moreover have "b \<in> set ?v" "c \<in> set ?v" using assms(2-4) by (auto simp: versions_of_def)
  ultimately show ?thesis using assms(5) by (auto simp: distinct_map dest: inj_onD)
qed

lemma get_baseline_iff:
  assumes "finance_ok t"
  shows "get_baseline t e v = Some b \<longleftrightarrow> b \<in> set (pt_baselines t) \<and> fb_entity b = e \<and> fb_version b = v"
proof
  assume "get_baseline t e v = Some b"
  then show "b \<in> set (pt_baselines t) \<and> fb_entity b = e \<and> fb_version b = v" by (auto simp: get_baseline_def dest: select_one_SomeD)
next
  assume b: "b \<in> set (pt_baselines t) \<and> fb_entity b = e \<and> fb_version b = v"
  then obtain c where c: "get_baseline t e v = Some c"
    using select_one_None_iff [of "\<lambda>b. fb_entity b = e \<and> fb_version b = v" "pt_baselines t"] by (cases "get_baseline t e v") (auto simp: get_baseline_def)
  then have "c \<in> set (pt_baselines t)" "fb_entity c = e" "fb_version c = v" by (auto simp: get_baseline_def dest: select_one_SomeD)
  with finance_unique [OF assms] b c show "get_baseline t e v = Some b" by metis
qed

lemma get_baseline_append:
  "get_baseline t e v = Some b \<Longrightarrow> get_baseline (t\<lparr>pt_baselines := pt_baselines t @ rows\<rparr>) e v = Some b"
  by (simp add: get_baseline_def select_one_append)

lemma insert_baseline_ok:
  assumes ok: "finance_ok t" and run: "insert_baseline b t = (Inr r, t')" and b: "accountable (fb_approved_by b)"
    "list_all evidenced [fb_entity b, fb_chart b, fb_schema b, fb_tax b, fb_costing b, fb_evidence b]"
  shows "finance_ok t' \<and> finance_grows t t'"
proof -
  let ?r = "b\<lparr>fb_version := next_version (fb_entity b) (pt_baselines t)\<rparr>"
  have t': "t' = t\<lparr>pt_baselines := pt_baselines t @ [?r]\<rparr>" and c: "baseline_checks b"
    using run by (auto simp: insert_baseline_def Let_def split: if_splits)
  have r: "approved_baseline ?r" using b c by (simp add: approved_baseline_def baseline_checks_def)
  have "map fb_version (versions_of e (pt_baselines t')) = map (\<lambda>k. int k + 1) [0..<length (versions_of e (pt_baselines t'))]" for e
    using finance_versions [OF ok, of e] next_version_dense [OF ok, of e] by (simp add: t' versions_of_append)
  then show ?thesis
    using ok r get_baseline_append [of t] by (auto simp: finance_ok_def finance_grows_def t')
qed

lemma insert_withdrawal_ok:
  assumes ok: "finance_ok t" and run: "insert_withdrawal w t = (Inr u, t')" and w: "accountable (wd_by w)"
  shows "finance_ok t' \<and> finance_grows t t'"
proof -
  have t': "t' = t\<lparr>pt_withdrawals := pt_withdrawals t @ [w]\<rparr>"
    and fresh: "(wd_entity w, wd_version w) \<notin> (\<lambda>w. (wd_entity w, wd_version w)) ` set (pt_withdrawals t)"
    and named: "\<exists>b \<in> set (pt_baselines t). fb_entity b = wd_entity w \<and> fb_version b = wd_version w"
    using run by (auto simp: insert_withdrawal_def list_ex_iff split: if_splits)
  have same: "get_baseline t' e v = get_baseline t e v" for e v by (simp add: get_baseline_def t')
  from named get_baseline_iff [OF ok] have "get_baseline t (wd_entity w) (wd_version w) \<noteq> None" by blast
  with ok w fresh show ?thesis unfolding finance_ok_def same by (auto simp: finance_grows_def t')
qed

lemma finance_grows_refl [simp]: "finance_grows t t"
  by (simp add: finance_grows_def)

lemma finance_grows_trans: "finance_grows t u \<Longrightarrow> finance_grows u v \<Longrightarrow> finance_grows t v"
  unfolding finance_grows_def by (metis append_assoc)

definition finance_kept :: "provisioning_tables \<Rightarrow> database \<Rightarrow> bool" where
  "finance_kept t0 d \<longleftrightarrow> finance_ok (db_provisioning d) \<and> finance_grows t0 (db_provisioning d)"

lemma safe_tables_kept:
  assumes "\<And>t a t'. finance_ok t \<Longrightarrow> m t = (Inr a, t') \<Longrightarrow> finance_ok t' \<and> finance_grows t t'"
  shows "safeguards (finance_kept t0) (on_tables m)"
  using assms by (intro safe_on_tables) (fastforce simp: finance_kept_def intro: finance_grows_trans)

lemma safe_now: "safeguards I (now_or_clock now)"
  by (auto simp: now_or_clock_def intro!: safe_rules)

lemma bindS_liftS: "bindS (liftS (Inr a)) f = f a" "bindS (liftS (Inl e)) f = raiseS e"
  by (simp_all add: bindS_def fun_eq_iff)

lemma safe_bind_lift: "(\<And>a. r = Inr a \<Longrightarrow> safeguards I (f a)) \<Longrightarrow> safeguards I (bindS (liftS r) f)"
  by (cases r) (simp_all add: bindS_liftS safe_stop)

lemma safe_bind_check: "(ok \<Longrightarrow> safeguards I (f ())) \<Longrightarrow> safeguards I (bindS (checkS ok e) f)"
proof -
  have "bindS (checkS ok e) f = (if ok then f () else raiseS e)" by (simp add: fun_eq_iff)
  then show "(ok \<Longrightarrow> safeguards I (f ())) \<Longrightarrow> ?thesis" by (simp add: safe_stop)
qed

lemma record_baseline_kept: "safeguards (finance_kept t0) (record_baseline a now)"
  unfolding record_baseline_def
  by (rule safe_bind_lift, rule safe_bind_lift, rule safe_bindS [OF safe_now], rule safe_bind_check, rule safe_bind_lift,
      rule safe_tables_kept, erule (1) insert_baseline_ok) (auto dest!: named_person_Inr baseline_values_Inr)

lemma withdraw_baseline_kept: "safeguards (finance_kept t0) (withdraw_baseline e v who at_time reason evidence now)"
  unfolding withdraw_baseline_def
  by (rule safe_bind_lift, rule safe_bind_lift, rule safe_bindS [OF safe_now], rule safe_bind_check, rule safe_bind_lift,
      rule safe_bind_lift, rule safe_bind_lift, rule safe_tables_kept, erule (1) insert_withdrawal_ok) (auto dest!: named_person_Inr)

lemma finance_op_kept: "safeguards (finance_kept t0) (finance_op a)"
  by (cases a) (auto intro: record_baseline_kept withdraw_baseline_kept safe_discard)

lemma transaction_safe:
  assumes "safeguards I m" "I (pr_saved s)" "clean s"
  shows "I (pr_saved (transaction m s)) \<and> clean (transaction m s)"
proof -
  obtain r s' where run: "m s = (r, s')" by (metis prod.collapse)
  have "I (pr_db s)" using assms(2,3) by (simp add: clean_def)
  from safeguardsD [OF assms(1) this assms(2) run] run show ?thesis
    by (cases r) (auto simp: transaction_def commit_tx_def rollback_tx_def clean_def)
qed

lemma history_safe:
  assumes "\<And>a. safeguards I (f a)" "I (pr_saved s)" "clean s"
  shows "I (pr_saved (fold (\<lambda>a. transaction (f a)) acts s))"
  using assms(2,3)
proof (induction acts arbitrary: s)
  case (Cons a acts)
  from transaction_safe [OF assms(1) Cons.prems] Cons.IH show ?case by simp
qed simp

section \<open>Which version is in force\<close>

lemma later_asym: "later_baseline b c \<Longrightarrow> \<not> later_baseline c b"
  by (auto simp: later_baseline_def)

lemma later_negative: "\<not> later_baseline d c \<Longrightarrow> \<not> later_baseline c x \<Longrightarrow> \<not> later_baseline d x"
  by (auto simp: later_baseline_def)

lemma latest_baseline_None [simp]: "latest_baseline bs = None \<longleftrightarrow> bs = []"
  by (cases bs) (auto split: option.splits)

lemma latest_baseline_Some: "latest_baseline bs = Some b \<Longrightarrow> b \<in> set bs \<and> (\<forall>c \<in> set bs. \<not> later_baseline c b)"
proof (induction bs arbitrary: b)
  case (Cons x bs)
  show ?case
  proof (cases "latest_baseline bs")
    case None
    with Cons.prems show ?thesis by (auto simp: later_baseline_def)
  next
    case (Some c)
    with Cons.IH have c: "c \<in> set bs" "\<forall>d \<in> set bs. \<not> later_baseline d c" by auto
    have self: "\<not> later_baseline x x" by (simp add: later_baseline_def)
    have "b = (if later_baseline c x then c else x)" using Cons.prems Some by simp
    with c self show ?thesis by (cases "later_baseline c x") (auto dest: later_asym later_negative)
  qed
qed simp

lemma effective_baseline_Some:
  assumes "effective_baseline t e on = Some b"
  shows "b \<in> set (pt_baselines t)" "fb_entity b = e" "fb_effective b \<le> on" "\<not> withdrawn_by_day t e (fb_version b) on"
    "\<forall>c \<in> set (pt_baselines t). fb_entity c = e \<and> fb_effective c \<le> on \<and> \<not> withdrawn_by_day t e (fb_version c) on \<longrightarrow> \<not> later_baseline c b"
  using latest_baseline_Some [OF assms [unfolded effective_baseline_def]] by (auto simp: versions_of_def)

lemma effective_status: "effective_baseline t e on = Some b \<Longrightarrow> baseline_status t b on = EFFECTIVE"
  using effective_baseline_Some [of t e on b] by (auto simp: baseline_status_def)

lemma status_effective:
  assumes "finance_ok t" "b \<in> set (pt_baselines t)" "baseline_status t b on = EFFECTIVE"
  shows "effective_baseline t (fb_entity b) on = Some b"
proof -
  obtain c where c: "effective_baseline t (fb_entity b) on = Some c" "fb_version c = fb_version b"
    using assms(3) by (auto simp: baseline_status_def split: if_splits option.splits)
  have "c = b" by (rule finance_unique [OF assms(1) effective_baseline_Some(1) [OF c(1)] assms(2) effective_baseline_Some(2) [OF c(1)] c(2)])
  with c(1) show ?thesis by simp
qed

lemma withdrawn_grows:
  "finance_grows t t' \<Longrightarrow> on \<le> on' \<Longrightarrow> withdrawn_by_day t e v on \<Longrightarrow> withdrawn_by_day t' e v on'"
  by (auto simp: finance_grows_def withdrawn_by_day_def list_ex_iff)

lemma status_withdrawn: "baseline_status t b on = WITHDRAWN \<longleftrightarrow> withdrawn_by_day t (fb_entity b) (fb_version b) on"
  by (auto simp: baseline_status_def split: option.splits)

lemma get_baseline_grows: "finance_grows t t' \<Longrightarrow> get_baseline t e v = Some b \<Longrightarrow> get_baseline t' e v = Some b"
  by (auto simp: finance_grows_def get_baseline_def select_one_append)

text \<open>C33: An approved baseline is for ever what was approved. After any sequence of recordings and withdrawals, each in its own
  transaction and with refusals anywhere, the versions of every legal entity are 1, 2, 3, ... without a gap, each with an
  accountable approver and evidence; a version once committed is still the same one under its number, so that its digest never
  changes, and once withdrawn it stays withdrawn from that day on; and on every day a version is effective exactly when it is
  the one in force, so that at most one is.\<close>

theorem baselines_append_only:
  assumes "finance_ok (db_provisioning (pr_saved s))" "clean s"
  shows "let t = db_provisioning (pr_saved s); t' = db_provisioning (pr_saved (fold (\<lambda>a. transaction (finance_op a)) acts s)) in
    finance_ok t'
    \<and> (\<forall>e v b. get_baseline t e v = Some b \<longrightarrow> get_baseline t' e v = Some b
        \<and> (\<forall>on on'. on \<le> on' \<and> baseline_status t b on = WITHDRAWN \<longrightarrow> baseline_status t' b on' = WITHDRAWN))
    \<and> (\<forall>on. \<forall>b \<in> set (pt_baselines t'). baseline_status t' b on = EFFECTIVE \<longleftrightarrow> effective_baseline t' (fb_entity b) on = Some b)"
proof -
  let ?t = "db_provisioning (pr_saved s)" and ?s = "fold (\<lambda>a. transaction (finance_op a)) acts s"
  have "finance_kept ?t (pr_saved ?s)"
    using assms by (intro history_safe [OF finance_op_kept]) (simp_all add: finance_kept_def)
  then have ok: "finance_ok (db_provisioning (pr_saved ?s))" and grows: "finance_grows ?t (db_provisioning (pr_saved ?s))"
    by (simp_all add: finance_kept_def)
  show ?thesis
    unfolding Let_def status_withdrawn
  proof (intro conjI allI ballI impI iffI, goal_cases)
    case 1 show ?case by (rule ok)
  next
    case (2 e v b) then show ?case by (rule get_baseline_grows [OF grows])
  next
    case (3 e v b on on') then show ?case using withdrawn_grows [OF grows] by blast
  next
    case (4 on b) then show ?case using status_effective [OF ok] by blast
  next
    case (5 on b) then show ?case using effective_status by blast
  qed
qed

section \<open>A concrete history\<close>

definition sample_arguments :: baseline_arguments where
  "sample_arguments = \<lparr>ba_entity = '' NABHOLD'', ba_currency = ''UGX'', ba_year_start = 7, ba_chart = ''UG-STD'', ba_schema = ''UG-IFRS'',
     ba_tax = ''UG-VAT'', ba_costing = ''AverageCost'', ba_effective = 738000, ba_approved_by = ''Jane Doe'', ba_approved_at = Aware 0,
     ba_evidence = ''FIN-1''\<rparr>"

definition sample_acts :: "finance_act list" where
  "sample_acts = [RecordBaseline sample_arguments (Some 5), RecordBaseline (sample_arguments\<lparr>ba_year_start := 13\<rparr>) None,
     RecordBaseline (sample_arguments\<lparr>ba_approved_by := ''System ''\<rparr>) None,
     WithdrawBaseline ''NABHOLD'' 1 ''Jane Doe'' (Aware 0) ''wrong chart'' ''FIN-2'' (Some 9), RecordBaseline sample_arguments (Some 5)]"

theorem baselines_append_only_witness:
  "finance_ok (db_provisioning (pr_saved (fold (\<lambda>a. transaction (finance_op a)) sample_acts provisioning_process)))"
proof -
  have "finance_ok (db_provisioning (pr_saved provisioning_process))" "clean provisioning_process"
    by (simp_all add: provisioning_process_def idle_process_def empty_database_def empty_provisioning_def finance_ok_def versions_of_def clean_def)
  from baselines_append_only [OF this, of sample_acts] show ?thesis by (simp only: Let_def)
qed

end
