(* ===== verification/Control_Plane.thy ===== *)
theory Control_Plane
  imports Finance_Baseline Warehouse_Identity Signed_Delivery Legal_Actor
begin

text \<open>
  What Control Plane decides and what ERP adds to it: the ERP assignment with its strict reader, and the provisioning request
  made of it (\<open>modules/provisioning/cp_contract.py\<close>), the HTTP client that reads it (\<open>control_plane_client.py\<close>),
  the native placement (\<open>legal_entity_policy.py\<close>), the deployment's market configuration (\<open>market_configuration.py\<close>)
  and the factory of a request (\<open>authoritative_service.py\<close>).
\<close>

section \<open>The assignment\<close>

definition AssignmentError :: "string \<Rightarrow> exn" where
  "AssignmentError message = Exn ''AssignmentError'' message"

definition TypeError :: exn where "TypeError = Exn ''TypeError'' []"

definition LEGAL_ENTITY_MEMBERS :: "string list" where
  "LEGAL_ENTITY_MEMBERS = [''legal_entity_id'', ''legal_name'', ''jurisdiction_code'', ''registration_identifiers'', ''verification_state'']"

definition ASSIGNMENT_MEMBERS :: "string list" where
  "ASSIGNMENT_MEMBERS = [''tenant_id'', ''tenant_provisioning_id'', ''plan_id'', ''plan_version'', ''plan_digest'', ''legal_entity'',
     ''markets'', ''engine_id'', ''engine_instance_id'', ''isolation_requirement'', ''capabilities'', ''issued_at'', ''expires_at'']"

definition NOT_CONTROL_PLANE_MEMBERS :: "string list" where
  "NOT_CONTROL_PLANE_MEMBERS = [''native_client_mode'', ''native_client_key'', ''capability_binding_id'', ''capability_bindings'',
     ''isolation_profile_id'', ''legal_entity_code'', ''target_environment'', ''currencies'', ''localisation_profile'',
     ''warehouse_codes'', ''warehouse_timezones'']"

definition ERP_ENGINE_ID :: string where "ERP_ENGINE_ID = ''baobab-erp''"

record CpMarketAssignment =
  cpm_market :: string
  cpm_activities :: "string fset"

text \<open>The plan version is kept as it was sent: the contract lets a float without a fraction pass, which \<open>validate\<close> refuses.\<close>

record CpErpAssignment =
  ca_tenant :: string
  ca_provisioning :: string
  ca_plan :: string
  ca_version :: json
  ca_digest :: string
  ca_entity :: string
  ca_name :: string
  ca_jurisdiction :: string
  ca_registrations :: "json list"
  ca_verification :: string
  ca_markets :: "CpMarketAssignment list"
  ca_engine :: string
  ca_instance :: string
  ca_isolation :: string
  ca_capabilities :: "string fset"
  ca_issued :: instant
  ca_expires :: instant

definition assignment_required :: "CpErpAssignment \<Rightarrow> (string \<times> string) list" where
  "assignment_required a = [(''tenant_id'', ca_tenant a), (''tenant_provisioning_id'', ca_provisioning a), (''plan_id'', ca_plan a),
     (''plan_digest'', ca_digest a), (''legal_entity_id'', ca_entity a), (''legal_name'', ca_name a),
     (''jurisdiction_code'', ca_jurisdiction a), (''engine_instance_id'', ca_instance a), (''isolation_requirement'', ca_isolation a)]"

definition validate_assignment :: "CpErpAssignment \<Rightarrow> instant \<Rightarrow> exn + unit" where
  "validate_assignment a now =
     (let missing = map fst (filter (\<lambda>(k, v). \<not> nonblank v) (assignment_required a)) in
      if missing \<noteq> [] then Inl (AssignmentError (''missing authoritative assignment fields: '' @ join '', '' missing))
      else if positive_int (ca_version a) = None then Inl (AssignmentError ''plan_version must be an integer >= 1'')
      else if ca_engine a \<noteq> ERP_ENGINE_ID then Inl (AssignmentError ''the assignment is for another engine'')
      else if ca_verification a \<noteq> ''VERIFIED'' then Inl (AssignmentError ''the legal entity is not VERIFIED'')
      else if ca_expires a \<le> now then Inl (AssignmentError ''authoritative CP assignment has expired'')
      else if ca_markets a = [] then Inl (AssignmentError ''at least one CP-authorised market assignment is required'')
      else if \<not> distinct (map cpm_market (ca_markets a)) then Inl (AssignmentError ''duplicate market in CP assignment'')
      else if ca_capabilities a = {||} then Inl (AssignmentError ''the assignment binds no capability'')
      else Inr ())"

definition registration_identifier :: "CpErpAssignment \<Rightarrow> exn + string" where
  "registration_identifier a =
     (let found = filter (\<lambda>i. jget i ''type'' = JStr ''COMPANY_REGISTRATION'') (ca_registrations a) in
      case found of
        [i] \<Rightarrow> if has_key i ''value'' \<and> nonblank (py_str (jget i ''value'')) then Inr (py_str (jget i ''value''))
               else Inl (AssignmentError ''the legal entity needs exactly one COMPANY_REGISTRATION identifier, found 1'')
      | _ \<Rightarrow> Inl (AssignmentError (''the legal entity needs exactly one COMPANY_REGISTRATION identifier, found '' @ show_nat (length found))))"

definition provisioning_record_id :: "CpErpAssignment \<Rightarrow> string" where
  "provisioning_record_id a = ca_provisioning a @ ''.'' @ ca_entity a @ ''.v'' @ py_str (ca_version a)"

definition assignment_key :: "pylib \<Rightarrow> CpErpAssignment \<Rightarrow> string" where
  "assignment_key L a = ''erp-prov-'' @ sha256_hex L
     (join ''|'' [ca_provisioning a, ca_entity a, ca_plan a, py_str (ca_version a), ca_digest a])"

section \<open>Reading an assignment\<close>

definition closed_object :: "json \<Rightarrow> string list \<Rightarrow> string \<Rightarrow> exn + unit" where
  "closed_object v allowed place =
     (if \<not> is_obj v then Inl (AssignmentError (place @ '' must be an object''))
      else (let ks = map fst (members v);
          named = sort (filter (\<lambda>k. k \<in> set NOT_CONTROL_PLANE_MEMBERS) ks);
          unknown = sort (filter (\<lambda>k. k \<notin> set allowed) ks);
          missing = sort (filter (\<lambda>k. k \<notin> set ks \<and> \<not> (place = ''legal_entity'' \<and> k = ''registration_identifiers'')) allowed) in
        if named \<noteq> [] then Inl (AssignmentError (place @ '' carries '' @ join '', '' named @ '': not a Control Plane projection member''))
        else if unknown \<noteq> [] then Inl (AssignmentError (place @ '' carries unknown members: '' @ join '', '' unknown))
        else if missing \<noteq> [] then Inl (AssignmentError (place @ '' lacks required members: '' @ join '', '' missing))
        else Inr ()))"

definition assignment_instant :: "pylib \<Rightarrow> json \<Rightarrow> string \<Rightarrow> exn + instant" where
  "assignment_instant L v name =
     (case read_instant L (py_str v) of
        None \<Rightarrow> Inl (AssignmentError (name @ '' is not a date-time''))
      | Some (Naive _) \<Rightarrow> Inl (AssignmentError (name @ '' has no time zone''))
      | Some (Aware t) \<Rightarrow> Inr t)"

text \<open>Iterating over a value, and making a \<open>frozenset\<close> and a \<open>dict\<close> of one.\<close>

fun py_iter :: "json \<Rightarrow> exn + json list" where
  "py_iter (JArr vs) = Inr vs"
| "py_iter (JStr s) = Inr (map (\<lambda>c. JStr [c]) s)"
| "py_iter (JObj ms) = Inr (map (\<lambda>m. JStr (fst m)) ms)"
| "py_iter _ = Inl TypeError"

fun hashable :: "json \<Rightarrow> bool" where
  "hashable (JArr _) = False"
| "hashable (JObj _) = False"
| "hashable _ = True"

definition py_set :: "json \<Rightarrow> exn + json list" where
  "py_set v = bindE (py_iter v) (\<lambda>vs. if list_all hashable vs then Inr (remdups vs) else Inl TypeError)"

fun pair_fault :: "json \<Rightarrow> exn option" where
  "pair_fault (JStr s) = (if length s = 2 then None else Some (Exn ''ValueError'' []))"
| "pair_fault (JObj ms) = (if length ms = 2 then None else Some (Exn ''ValueError'' []))"
| "pair_fault (JArr [k, v]) = (if hashable k then None else Some TypeError)"
| "pair_fault (JArr _) = Some (Exn ''ValueError'' [])"
| "pair_fault _ = Some TypeError"

text \<open>\<open>dict\<close> of anything else than an object; what it makes of a list of pairs is refused by the contract.\<close>

definition py_dict :: "json \<Rightarrow> exn + json" where
  "py_dict v = (if is_obj v then Inr v
     else bindE (py_iter v) (\<lambda>vs. case List.map_filter pair_fault vs of [] \<Rightarrow> Inr (JObj []) | e # _ \<Rightarrow> Inl e))"

definition market_item :: "json \<Rightarrow> exn + json \<times> json list" where
  "market_item v = bindE (closed_object v [''market'', ''activities''] ''market'') (\<lambda>_.
     bindE (py_set (jget v ''activities'')) (\<lambda>acts. Inr (jget v ''market'', acts)))"

definition texts_fset :: "json list \<Rightarrow> string fset" where
  "texts_fset vs = fset_of_list (map jtext vs)"

text \<open>The types the contract requires of what the assignment is made of.\<close>

definition schema_typed :: "json \<Rightarrow> (json \<times> json list) list \<Rightarrow> json list \<Rightarrow> json list \<Rightarrow> bool" where
  "schema_typed v markets caps ids \<longleftrightarrow>
     list_all (\<lambda>k. is_jstr (jget v k)) [''tenant_id'', ''tenant_provisioning_id'', ''plan_id'', ''plan_digest'', ''engine_id'',
       ''engine_instance_id'', ''isolation_requirement'']
     \<and> list_all (\<lambda>k. is_jstr (jget (jget v ''legal_entity'') k)) [''legal_entity_id'', ''legal_name'', ''jurisdiction_code'', ''verification_state'']
     \<and> list_all (\<lambda>(m, acts). is_jstr m \<and> list_all is_jstr acts) markets \<and> list_all is_jstr caps \<and> list_all is_obj ids"

text \<open>
  \<open>contract\<close> is the packaged JSON schema's validator, which the code runs last; \<open>schema_typed\<close> is the part of the schema
  that the record's types need.
\<close>

definition assignment_from_payload :: "pylib \<Rightarrow> (string \<Rightarrow> json \<Rightarrow> bool) \<Rightarrow> json \<Rightarrow> exn + CpErpAssignment" where
  "assignment_from_payload L contract v =
     bindE (closed_object v ASSIGNMENT_MEMBERS ''assignment'') (\<lambda>_.
     let entity = jget v ''legal_entity'' in
     bindE (closed_object entity LEGAL_ENTITY_MEMBERS ''legal_entity'') (\<lambda>_.
     bindE (py_iter (jget v ''markets'')) (\<lambda>items.
     bindE (mapE market_item items) (\<lambda>markets.
     bindE (if has_key entity ''registration_identifiers'' then py_iter (jget entity ''registration_identifiers'') else Inr []) (\<lambda>raw.
     bindE (mapE py_dict raw) (\<lambda>ids.
     bindE (py_set (jget v ''capabilities'')) (\<lambda>caps.
     bindE (assignment_instant L (jget v ''issued_at'') ''issued_at'') (\<lambda>issued.
     bindE (assignment_instant L (jget v ''expires_at'') ''expires_at'') (\<lambda>expires.
     bindE (py_iter (jget v ''capabilities'')) (\<lambda>listed.
     bindE (checkE (length caps = length listed) (AssignmentError ''capabilities must be unique'')) (\<lambda>_.
     bindE (checkE (contract ''erp_assignment'' v \<and> schema_typed v markets caps ids)
       (AssignmentError ''Invalid Shared erp_assignment wire contract'')) (\<lambda>_.
     Inr \<lparr>ca_tenant = jtext (jget v ''tenant_id''), ca_provisioning = jtext (jget v ''tenant_provisioning_id''),
       ca_plan = jtext (jget v ''plan_id''), ca_version = jget v ''plan_version'', ca_digest = jtext (jget v ''plan_digest''),
       ca_entity = jtext (jget entity ''legal_entity_id''), ca_name = jtext (jget entity ''legal_name''),
       ca_jurisdiction = jtext (jget entity ''jurisdiction_code''), ca_registrations = ids,
       ca_verification = jtext (jget entity ''verification_state''),
       ca_markets = map (\<lambda>(m, acts). \<lparr>cpm_market = jtext m, cpm_activities = texts_fset acts\<rparr>) markets,
       ca_engine = jtext (jget v ''engine_id''), ca_instance = jtext (jget v ''engine_instance_id''),
       ca_isolation = jtext (jget v ''isolation_requirement''), ca_capabilities = texts_fset caps,
       ca_issued = issued, ca_expires = expires\<rparr>))))))))))))"

section \<open>The HTTP client\<close>

definition ControlPlaneUnavailable :: "string \<Rightarrow> exn" where
  "ControlPlaneUnavailable message = Exn ''ControlPlaneUnavailable'' message"

text \<open>The message is the part ERP's caller is told: Control Plane's code, or else the status.\<close>

definition AssignmentNotEstablished :: "string \<Rightarrow> exn" where
  "AssignmentNotEstablished told = Exn ''AssignmentNotEstablished'' told"

text \<open>\<open>urllib.parse.quote(part, safe="")\<close>, which encodes in UTF-8.\<close>

definition hex_upper :: "nat \<Rightarrow> char" where
  "hex_upper d = (if d < 10 then char_of (48 + d) else char_of (55 + d))"

definition percent :: "nat \<Rightarrow> string" where
  "percent n = [CHR ''%'', hex_upper (n div 16), hex_upper (n mod 16)]"

definition quote_char :: "char \<Rightarrow> string" where
  "quote_char c = (let n = code c in
     if (48 \<le> n \<and> n \<le> 57) \<or> (65 \<le> n \<and> n \<le> 90) \<or> (97 \<le> n \<and> n \<le> 122) \<or> c \<in> set ''_.-~'' then [c]
     else if n < 128 then percent n
     else percent (192 + n div 64) @ percent (128 + n mod 64))"

definition py_quote :: "string \<Rightarrow> string" where
  "py_quote s = concat (map quote_char s)"

record assignment_client =
  hc_lib :: pylib
  hc_base :: string
  hc_token :: "exn + string"
  hc_contract :: "string \<Rightarrow> json \<Rightarrow> bool"
  hc_decode :: "string \<Rightarrow> json option"
  hc_get :: "string \<Rightarrow> (string \<times> string) list \<Rightarrow> http_answer"

definition assignment_url :: "assignment_client \<Rightarrow> string \<Rightarrow> string \<Rightarrow> string \<Rightarrow> string" where
  "assignment_url C tenant provisioning entity = hc_base C @ ''/v1/tenants/'' @ py_quote tenant @ ''/provisioning/'' @ py_quote provisioning
     @ ''/erp-assignments/'' @ py_quote entity"

text \<open>The code a problem document names; a body that is no object, or an absent code, leaves the status.\<close>

definition told_code :: "pylib \<Rightarrow> int \<Rightarrow> string \<Rightarrow> string" where
  "told_code L status body =
     (case json_loads L (if body = [] then ''{}'' else body) of
        Some (JObj ms) \<Rightarrow> (let c = jget (JObj ms) ''code'' in if truthy c then py_str c else show_int status)
      | _ \<Rightarrow> show_int status)"

definition assignment_headers :: "string \<Rightarrow> string option \<Rightarrow> (string \<times> string) list" where
  "assignment_headers token correlation = [(''Authorization'', ''Bearer '' @ token), (''Accept'', ''application/json''), (''Cache-Control'', ''no-store'')]
     @ (case correlation of Some c \<Rightarrow> if c = [] then [] else [(''X-Correlation-ID'', c)] | None \<Rightarrow> [])"

definition resolve_erp_assignment :: "assignment_client \<Rightarrow> string \<Rightarrow> string \<Rightarrow> string \<Rightarrow> string option \<Rightarrow> exn + CpErpAssignment" where
  "resolve_erp_assignment C tenant provisioning entity correlation =
     (case hc_token C of
        Inl _ \<Rightarrow> Inl (ControlPlaneUnavailable ''could not obtain a Control Plane access token'')
      | Inr token \<Rightarrow>
          (case hc_get C (assignment_url C tenant provisioning entity) (assignment_headers token correlation) of
             Answered status body \<Rightarrow>
               if status = 200 then
                 (case (if length body > 65536 then None else hc_decode C body) of
                    None \<Rightarrow> Inl (ControlPlaneUnavailable ''Control Plane could not be reached or answered unreadably'')
                  | Some payload \<Rightarrow>
                      (case assignment_from_payload (hc_lib C) (hc_contract C) payload of
                         Inr a \<Rightarrow> Inr a
                       | Inl e \<Rightarrow> if exn_class e \<in> {''AssignmentError'', ''KeyError'', ''TypeError''}
                           then Inl (ControlPlaneUnavailable ''Control Plane returned an invalid assignment'') else Inl e))
               else if (200 < status \<and> status < 300) \<or> status \<in> {301, 302, 303, 307, 308}
                 then Inl (ControlPlaneUnavailable ''Control Plane could not be reached or answered unreadably'')
               else if status = 404 \<or> status = 409 then Inl (AssignmentNotEstablished (told_code (hc_lib C) status body))
               else Inl (ControlPlaneUnavailable (''Control Plane answered '' @ show_int status))
           | Raised e \<Rightarrow> Inl (Exn e [])
           | _ \<Rightarrow> Inl (ControlPlaneUnavailable ''Control Plane could not be reached or answered unreadably'')))"

text \<open>
  The workload's token, kept until shortly before it expires. Times are in microseconds; \<open>to_float\<close> is the reading of a
  lifetime (\<open>None\<close> when \<open>float\<close> raises), and the endpoint's answer is its body or the exception.
\<close>

definition no_token :: exn where
  "no_token = ControlPlaneUnavailable ''the IAM token endpoint refused or did not answer''"

definition lifetime_of :: "(json \<Rightarrow> int option) \<Rightarrow> json \<Rightarrow> int option" where
  "lifetime_of to_float body = (if has_key body ''expires_in'' then to_float (jget body ''expires_in'') else Some 0)"

definition fresh_token ::
  "(json \<Rightarrow> int option) \<Rightarrow> int \<Rightarrow> int \<Rightarrow> exn + json \<Rightarrow> ((string \<times> int) option, exn, string) op" where
  "fresh_token to_float leeway now answer cache =
     (case answer of
        Inl _ \<Rightarrow> (Inl no_token, cache)
      | Inr body \<Rightarrow>
          if \<not> is_obj body \<or> \<not> has_key body ''access_token'' then (Inl no_token, cache)
          else (case lifetime_of to_float body of
              None \<Rightarrow> (Inl no_token, cache)
            | Some lifetime \<Rightarrow> (let token = jtext (jget body ''access_token'') in
                (Inr token, Some (token, now + max 0 (lifetime - leeway))))))"

definition access_token ::
  "(json \<Rightarrow> int option) \<Rightarrow> int \<Rightarrow> int \<Rightarrow> exn + json \<Rightarrow> ((string \<times> int) option, exn, string) op" where
  "access_token to_float leeway now answer cache =
     (case cache of
        Some (token, until) \<Rightarrow> if now < until then (Inr token, cache) else fresh_token to_float leeway now answer cache
      | None \<Rightarrow> fresh_token to_float leeway now answer cache)"

section \<open>Native placement\<close>

datatype NativeClientMode = DEDICATED_CLIENT | EXISTING_CLIENT

record NativePlacement =
  np_key :: string
  np_mode :: NativeClientMode

record NativeBoundary =
  nb_entity :: string
  nb_key :: string
  nb_mode :: NativeClientMode

definition placement_for :: "(string \<times> NativePlacement) list \<Rightarrow> CpErpAssignment \<Rightarrow> exn + NativePlacement" where
  "placement_for placements a =
     of_option (AssignmentError (''no ERP native placement is configured for legal entity '' @ ca_entity a)) (map_of placements (ca_entity a))"

definition native_boundary :: "CpErpAssignment \<Rightarrow> (CpErpAssignment \<Rightarrow> exn + NativePlacement) \<Rightarrow> instant \<Rightarrow> exn + NativeBoundary" where
  "native_boundary a policy now =
     bindE (validate_assignment a now) (\<lambda>_.
     bindE (policy a) (\<lambda>p.
     if \<not> nonblank (np_key p) then Inl (AssignmentError ''native placement has an empty native_client_key'')
     else Inr \<lparr>nb_entity = ca_entity a, nb_key = np_key p, nb_mode = np_mode p\<rparr>))"

section \<open>The deployment's configuration\<close>

record ErpMarketConfiguration =
  em_currencies :: "string list"
  em_profile :: string
  em_warehouses :: "string list"
  em_timezones :: "(string \<times> string) list"

record DeploymentConfiguration =
  dc_markets :: "(string \<times> ErpMarketConfiguration) list"
  dc_placements :: "(string \<times> NativePlacement) list"
  dc_environment :: string

definition MarketConfigurationError :: "string \<Rightarrow> exn" where
  "MarketConfigurationError message = Exn ''MarketConfigurationError'' message"

definition TOP_LEVEL :: "string list" where
  "TOP_LEVEL = [''schema_version'', ''status'', ''target_environment'', ''markets'', ''native_placements'']"

definition MARKET_MEMBERS :: "string list" where
  "MARKET_MEMBERS = [''currencies'', ''localisation_profile'', ''warehouse_codes'', ''warehouse_timezones'']"

text \<open>An explicit placeholder, at any depth.\<close>

fun holds_placeholder :: "json \<Rightarrow> bool" where
  "holds_placeholder (JStr s) = placeholder s"
| "holds_placeholder (JArr vs) = list_ex holds_placeholder vs"
| "holds_placeholder (JObj ms) = list_ex (\<lambda>m. holds_placeholder (snd m)) ms"
| "holds_placeholder _ = False"

text \<open>A non-empty list without repetitions whose elements are texts of a kind; \<open>set\<close> refuses an element that can not be hashed.\<close>

definition distinct_texts :: "(string \<Rightarrow> bool) \<Rightarrow> json \<Rightarrow> string \<Rightarrow> exn + string list" where
  "distinct_texts ok v message =
     (case v of
        JArr vs \<Rightarrow>
          if vs = [] then Inl (MarketConfigurationError message)
          else if \<not> list_all hashable vs then Inl TypeError
          else if \<not> distinct vs \<or> \<not> list_all (\<lambda>x. is_jstr x \<and> ok (jtext x)) vs then Inl (MarketConfigurationError message)
          else Inr (map jtext vs)
      | _ \<Rightarrow> Inl (MarketConfigurationError message))"

definition market_entry :: "string list \<Rightarrow> string \<times> json \<Rightarrow> exn + (string \<times> ErpMarketConfiguration) option" where
  "market_entry known ce = (case ce of (country, entry) \<Rightarrow>
     if \<not> fullmatch COUNTRY country then Inl (MarketConfigurationError (country @ '' is not an ISO 3166-1 alpha-2 country code''))
     else if \<not> is_obj entry \<or> set (map fst (members entry)) \<noteq> set MARKET_MEMBERS
       then Inl (MarketConfigurationError (country @ '': needs exactly the members of a market''))
     else if list_ex (\<lambda>k. holds_placeholder (jget entry k)) MARKET_MEMBERS then Inr None
     else
       bindE (distinct_texts (fullmatch CURRENCY) (jget entry ''currencies'')
         (country @ '': currencies must be a non-empty list of distinct ISO 4217 codes'')) (\<lambda>currencies.
       case jget entry ''localisation_profile'' of
         JStr profile \<Rightarrow>
           if \<not> nonblank profile then Inl (MarketConfigurationError (country @ '': localisation_profile must be a non-blank string''))
           else
             bindE (distinct_texts nonblank (jget entry ''warehouse_codes'')
               (country @ '': warehouse_codes must be a non-empty list of distinct codes'')) (\<lambda>warehouses.
             case check_warehouse_timezones known warehouses (jget entry ''warehouse_timezones'') of
               Inl _ \<Rightarrow> Inl (MarketConfigurationError (country @ '': warehouse timezones''))
             | Inr zones \<Rightarrow> Inr (Some (country, \<lparr>em_currencies = currencies, em_profile = py_strip profile, em_warehouses = warehouses,
                 em_timezones = zones\<rparr>)))
       | _ \<Rightarrow> Inl (MarketConfigurationError (country @ '': localisation_profile must be a non-blank string''))))"

definition parse_market_configuration :: "string list \<Rightarrow> json \<Rightarrow> exn + (string \<times> ErpMarketConfiguration) list" where
  "parse_market_configuration known document =
     (if \<not> is_obj document then Inl (MarketConfigurationError ''market configuration must be an object'')
      else if \<not> is_obj (jget document ''markets'')
        then Inl (MarketConfigurationError ''markets must be an object keyed by ISO 3166-1 alpha-2 country'')
      else bindE (mapE (market_entry known) (members (jget document ''markets''))) (\<lambda>entries. Inr (List.map_filter id entries)))"

definition placement_entry :: "string \<times> json \<Rightarrow> exn + (string \<times> NativePlacement) option" where
  "placement_entry ce = (case ce of (entity, entry) \<Rightarrow>
     if \<not> fullmatch LEGAL_ENTITY_ID entity then Inl (MarketConfigurationError (entity @ '' is not a canonical legal entity id''))
     else if \<not> is_obj entry \<or> set (map fst (members entry)) \<noteq> {''native_client_key''}
       then Inl (MarketConfigurationError (entity @ '': needs exactly ['native_client_key']''))
     else (case jget entry ''native_client_key'' of
         JStr key \<Rightarrow>
           if \<not> nonblank key then Inl (MarketConfigurationError (entity @ '': native_client_key must be a non-blank string''))
           else Inr (if placeholder key then None else Some (entity, \<lparr>np_key = py_strip key, np_mode = DEDICATED_CLIENT\<rparr>))
       | _ \<Rightarrow> Inl (MarketConfigurationError (entity @ '': native_client_key must be a non-blank string''))))"

definition parse_deployment_configuration :: "string list \<Rightarrow> json \<Rightarrow> exn + DeploymentConfiguration" where
  "parse_deployment_configuration known document =
     (if \<not> is_obj document \<or> \<not> set (map fst (members document)) \<subseteq> set TOP_LEVEL
        then Inl (MarketConfigurationError ''deployment configuration must be an object with only the top-level members'')
      else (case jget document ''target_environment'' of
          JStr environment \<Rightarrow>
            if \<not> nonblank environment \<or> placeholder environment
              then Inl (MarketConfigurationError ''target_environment must be set (no placeholder)'')
            else (let placements = (if has_key document ''native_placements'' then jget document ''native_placements'' else JObj []) in
              if \<not> is_obj placements
                then Inl (MarketConfigurationError ''native_placements must be an object keyed by canonical legal entity id'')
              else
                bindE (mapE placement_entry (members placements)) (\<lambda>configured.
                bindE (parse_market_configuration known document) (\<lambda>markets.
                Inr \<lparr>dc_markets = markets, dc_placements = List.map_filter id configured, dc_environment = py_strip environment\<rparr>)))
        | _ \<Rightarrow> Inl (MarketConfigurationError ''target_environment must be set (no placeholder)'')))"

text \<open>The file's text, or \<open>None\<close> when it can not be read; a text that is no JSON is a \<open>ValueError\<close>.\<close>

definition load_deployment_configuration :: "pylib \<Rightarrow> string list \<Rightarrow> string option \<Rightarrow> exn + DeploymentConfiguration" where
  "load_deployment_configuration L known file =
     (case file of
        None \<Rightarrow> Inl (MarketConfigurationError ''cannot read deployment configuration'')
      | Some s \<Rightarrow> (case json_loads L s of
            None \<Rightarrow> Inl (MarketConfigurationError ''cannot read deployment configuration'')
          | Some document \<Rightarrow> parse_deployment_configuration known document))"

section \<open>The request\<close>

record FinanceBaseline =
  fin_currency :: string
  fin_year_start :: int
  fin_chart :: string
  fin_schema :: string
  fin_tax :: string
  fin_costing :: string
  fin_approved_by :: string
  fin_approved_at :: instant

definition configured_market :: "(string \<times> ErpMarketConfiguration) list \<Rightarrow> CpMarketAssignment \<Rightarrow> exn + MarketConfiguration" where
  "configured_market conf m =
     (case map_of conf (cpm_market m) of
        None \<Rightarrow> Inl (AssignmentError (''no ERP market configuration for '' @ cpm_market m))
      | Some c \<Rightarrow> Inr \<lparr>mk_id = cpm_market m, mk_country = cpm_market m, mk_capabilities = py_lower |`| cpm_activities m,
          mk_currencies = em_currencies c, mk_profile = em_profile c, mk_warehouses = em_warehouses c, mk_timezones = em_timezones c\<rparr>)"

definition materialize_request ::
  "pylib \<Rightarrow> CpErpAssignment \<Rightarrow> FinanceBaseline \<Rightarrow> (string \<times> ErpMarketConfiguration) list \<Rightarrow> string \<Rightarrow> int \<Rightarrow> instant
     \<Rightarrow> exn + ErpProvisioningRequest" where
  "materialize_request L a f conf environment effective now =
     bindE (validate_assignment a now) (\<lambda>_.
     bindE (mapE (configured_market conf) (sort_key cpm_market (ca_markets a))) (\<lambda>markets.
     bindE (registration_identifier a) (\<lambda>registration.
     Inr \<lparr>rq_provisioning = provisioning_record_id a, rq_key = assignment_key L a, rq_tenant = ca_tenant a, rq_entity = ca_entity a,
       rq_name = ca_name a, rq_registration = registration, rq_jurisdiction = ca_jurisdiction a, rq_engine = ca_instance a,
       rq_isolation = ca_isolation a, rq_digest = ca_digest a, rq_environment = environment, rq_effective = effective,
       rq_accounting = \<lparr>ac_currency = fin_currency f, ac_year_start = fin_year_start f, ac_chart = fin_chart f, ac_schema = fin_schema f,
         ac_tax = fin_tax f, ac_costing = fin_costing f, ac_approved_by = fin_approved_by f, ac_approved_at = Aware (fin_approved_at f)\<rparr>,
       rq_markets = markets, rq_capabilities = ca_capabilities a\<rparr>)))"

text \<open>The factory: the assignment for exactly what was asked, a dedicated client, and Finance's baseline of this entity.\<close>

record request_factory =
  rf_control_plane :: "string \<Rightarrow> string \<Rightarrow> string \<Rightarrow> exn + CpErpAssignment"
  rf_placement :: "CpErpAssignment \<Rightarrow> exn + NativePlacement"
  rf_markets :: "(string \<times> ErpMarketConfiguration) list"
  rf_finance :: "string \<Rightarrow> int \<Rightarrow> FinancialConfigurationBaseline option"
  rf_environment :: string

definition accounting_of :: "FinancialConfigurationBaseline \<Rightarrow> FinanceBaseline" where
  "accounting_of b = \<lparr>fin_currency = fb_currency b, fin_year_start = fb_year_start b, fin_chart = fb_chart b, fin_schema = fb_schema b,
     fin_tax = fb_tax b, fin_costing = fb_costing b, fin_approved_by = fb_approved_by b, fin_approved_at = fb_approved_at b\<rparr>"

definition build_request :: "pylib \<Rightarrow> calendar \<Rightarrow> request_factory \<Rightarrow> string \<Rightarrow> string \<Rightarrow> string \<Rightarrow> int \<Rightarrow> instant \<Rightarrow> exn + ErpProvisioningRequest" where
  "build_request L K F tenant provisioning entity on now =
     bindE (rf_control_plane F tenant provisioning entity) (\<lambda>a.
     bindE (checkE ((ca_tenant a, ca_provisioning a, ca_entity a) = (tenant, provisioning, entity))
       (AssignmentError ''Control Plane returned a cross-boundary ERP assignment'')) (\<lambda>_.
     bindE (native_boundary a (rf_placement F) now) (\<lambda>boundary.
     bindE (checkE (nb_mode boundary = DEDICATED_CLIENT) (Exn ''NotImplementedError'' ''native_client_mode is not supported by the provisioning adapter'')) (\<lambda>_.
     bindE (of_option (AssignmentError (''no Finance-approved baseline is in force for '' @ entity @ '' on '' @ day_text K on))
       (rf_finance F entity on)) (\<lambda>b.
     bindE (checkE (fb_entity b = entity) (AssignmentError ''the Finance baseline belongs to another legal entity'')) (\<lambda>_.
     materialize_request L a (accounting_of b) (rf_markets F) (rf_environment F) (fb_effective b) now))))))"

section \<open>What a built request is\<close>

lemma build_request_Inr:
  assumes "build_request L K F tenant provisioning entity on now = Inr r"
  obtains a b markets registration where
    "rf_control_plane F tenant provisioning entity = Inr a" "ca_tenant a = tenant" "ca_provisioning a = provisioning" "ca_entity a = entity"
    "validate_assignment a now = Inr ()" "rf_finance F entity on = Some b" "fb_entity b = entity"
    "\<exists>p. rf_placement F a = Inr p \<and> np_mode p = DEDICATED_CLIENT \<and> nonblank (np_key p)"
    "mapE (configured_market (rf_markets F)) (sort_key cpm_market (ca_markets a)) = Inr markets"
    "registration_identifier a = Inr registration"
    "rq_tenant r = tenant" "rq_entity r = entity" "rq_provisioning r = provisioning_record_id a" "rq_key r = assignment_key L a"
    "rq_digest r = ca_digest a" "rq_environment r = rf_environment F" "rq_effective r = fb_effective b" "rq_markets r = markets"
    "rq_capabilities r = ca_capabilities a" "ac_currency (rq_accounting r) = fb_currency b"
    "rq_accounting r = \<lparr>ac_currency = fb_currency b, ac_year_start = fb_year_start b, ac_chart = fb_chart b, ac_schema = fb_schema b,
       ac_tax = fb_tax b, ac_costing = fb_costing b, ac_approved_by = fb_approved_by b, ac_approved_at = Aware (fb_approved_at b)\<rparr>"
proof -
  from assms obtain a boundary b where a: "rf_control_plane F tenant provisioning entity = Inr a"
      "ca_tenant a = tenant" "ca_provisioning a = provisioning" "ca_entity a = entity"
    and p: "native_boundary a (rf_placement F) now = Inr boundary" "nb_mode boundary = DEDICATED_CLIENT"
    and b: "rf_finance F entity on = Some b" "fb_entity b = entity"
    and m: "materialize_request L a (accounting_of b) (rf_markets F) (rf_environment F) (fb_effective b) now = Inr r"
    by (auto simp: build_request_def bindE_Inr_iff)
  from p have "\<exists>p. rf_placement F a = Inr p \<and> np_mode p = DEDICATED_CLIENT \<and> nonblank (np_key p)"
    by (auto simp: native_boundary_def bindE_Inr_iff split: if_splits)
  with that [OF a(1-4) _ b] m show ?thesis
    by (auto simp: materialize_request_def bindE_Inr_iff accounting_of_def a)
qed

lemma validate_assignment_Inr:
  assumes "validate_assignment a now = Inr u"
  shows "ca_engine a = ERP_ENGINE_ID" "ca_verification a = ''VERIFIED''" "now < ca_expires a" "positive_int (ca_version a) \<noteq> None"
    "distinct (map cpm_market (ca_markets a))" "ca_markets a \<noteq> []" "ca_capabilities a \<noteq> {||}"
  using assms by (auto simp: validate_assignment_def Let_def split: if_splits)

lemma mapE_map_filter: "mapE f xs = Inr ys \<Longrightarrow> z \<in> set (List.map_filter id ys) \<Longrightarrow> \<exists>x \<in> set xs. f x = Inr (Some z)"
  by (induction xs arbitrary: ys) (auto simp: bindE_Inr_iff map_filter_simps split: option.splits)

lemma distinct_texts_Inr:
  "distinct_texts ok v message = Inr xs \<Longrightarrow> v = JArr (map JStr xs) \<and> xs \<noteq> [] \<and> distinct xs \<and> list_all ok xs"
proof -
  assume run: "distinct_texts ok v message = Inr xs"
  then obtain vs where v: "v = JArr vs" "vs \<noteq> []" "distinct vs" "list_all (\<lambda>x. is_jstr x \<and> ok (jtext x)) vs" "xs = map jtext vs"
    by (auto simp: distinct_texts_def split: json.splits if_splits)
  have again: "map JStr xs = vs" unfolding v(5) using v(4)
  proof (induction vs)
    case (Cons x vs)
    then show ?case by (cases x) auto
  qed simp
  have shape: "v = JArr (map JStr xs)" "distinct (map JStr xs)" using v(1,3) by (simp_all only: again)
  then have "distinct xs" by (simp add: distinct_map)
  moreover have "xs \<noteq> []" "list_all ok xs" using v(2,4,5) by (simp_all add: list_all_iff)
  ultimately show ?thesis using shape by blast
qed

lemma market_entry_Inr:
  assumes "market_entry known (k, entry) = Inr (Some (country, c))"
  obtains cur profile ws zones m1 m2 where "country = k" "fullmatch COUNTRY k" "nonblank profile"
    "distinct_texts (fullmatch CURRENCY) (jget entry ''currencies'') m1 = Inr cur"
    "distinct_texts nonblank (jget entry ''warehouse_codes'') m2 = Inr ws"
    "check_warehouse_timezones known ws (jget entry ''warehouse_timezones'') = Inr zones"
    "c = \<lparr>em_currencies = cur, em_profile = py_strip profile, em_warehouses = ws, em_timezones = zones\<rparr>"
proof -
  note run = assms [unfolded market_entry_def prod.case]
  have key: "fullmatch COUNTRY k" by (rule ccontr) (use run in simp)
  have shape: "\<not> (\<not> is_obj entry \<or> set (map fst (members entry)) \<noteq> set MARKET_MEMBERS)" by (rule ccontr) (use run key in simp)
  have filled: "\<not> list_ex (\<lambda>k. holds_placeholder (jget entry k)) MARKET_MEMBERS" by (rule ccontr) (use run key shape in simp)
  have rest: "bindE (distinct_texts (fullmatch CURRENCY) (jget entry ''currencies'')
      (k @ '': currencies must be a non-empty list of distinct ISO 4217 codes'')) (\<lambda>currencies.
       case jget entry ''localisation_profile'' of
         JStr profile \<Rightarrow>
           if \<not> nonblank profile then Inl (MarketConfigurationError (k @ '': localisation_profile must be a non-blank string''))
           else
             bindE (distinct_texts nonblank (jget entry ''warehouse_codes'')
               (k @ '': warehouse_codes must be a non-empty list of distinct codes'')) (\<lambda>warehouses.
             case check_warehouse_timezones known warehouses (jget entry ''warehouse_timezones'') of
               Inl _ \<Rightarrow> Inl (MarketConfigurationError (k @ '': warehouse timezones''))
             | Inr zones \<Rightarrow> Inr (Some (k, \<lparr>em_currencies = currencies, em_profile = py_strip profile, em_warehouses = warehouses,
                 em_timezones = zones\<rparr>)))
       | _ \<Rightarrow> Inl (MarketConfigurationError (k @ '': localisation_profile must be a non-blank string''))) = Inr (Some (country, c))"
    using run unfolding if_not_P [OF shape] if_not_P [OF filled] by (simp only: key not_True_eq_False if_False)
  from rest obtain cur where cur: "distinct_texts (fullmatch CURRENCY) (jget entry ''currencies'')
      (k @ '': currencies must be a non-empty list of distinct ISO 4217 codes'') = Inr cur"
    by (auto simp: bindE_Inr_iff)
  obtain profile where profile: "jget entry ''localisation_profile'' = JStr profile"
    using rest by (cases "jget entry ''localisation_profile''") (simp_all add: cur)
  have blank: "nonblank profile" by (rule ccontr) (use rest in \<open>simp add: cur profile\<close>)
  from rest obtain ws where ws: "distinct_texts nonblank (jget entry ''warehouse_codes'')
      (k @ '': warehouse_codes must be a non-empty list of distinct codes'') = Inr ws"
    by (auto simp: cur profile blank bindE_Inr_iff)
  obtain zones where zones: "check_warehouse_timezones known ws (jget entry ''warehouse_timezones'') = Inr zones"
    using rest by (cases "check_warehouse_timezones known ws (jget entry ''warehouse_timezones'')") (auto simp: cur profile blank ws)
  have "country = k" "c = \<lparr>em_currencies = cur, em_profile = py_strip profile, em_warehouses = ws, em_timezones = zones\<rparr>"
    using rest by (auto simp: cur profile blank ws zones)
  then show ?thesis by (intro that [OF _ key blank cur ws zones])
qed

text \<open>A configured market is complete: nothing in it is a placeholder and every warehouse has its time zone.\<close>

lemma configured_market_complete:
  assumes "parse_market_configuration known document = Inr conf" "(country, c) \<in> set conf"
  shows "fullmatch COUNTRY country" "em_currencies c \<noteq> []" "list_all (fullmatch CURRENCY) (em_currencies c)" "nonblank (em_profile c)"
    "em_warehouses c \<noteq> []" "distinct (em_warehouses c)" "list_all nonblank (em_warehouses c)"
    "fst ` set (em_timezones c) = set (em_warehouses c)"
proof -
  from assms(1) obtain entries where e: "mapE (market_entry known) (members (jget document ''markets'')) = Inr entries"
      "conf = List.map_filter id entries"
    by (auto simp: parse_market_configuration_def bindE_Inr_iff split: if_splits)
  with assms(2) mapE_map_filter obtain k entry where "market_entry known (k, entry) = Inr (Some (country, c))" by (metis surj_pair)
  then obtain cur profile ws zones m1 m2 where p: "country = k" "fullmatch COUNTRY k" "nonblank profile"
      "distinct_texts (fullmatch CURRENCY) (jget entry ''currencies'') m1 = Inr cur"
      "distinct_texts nonblank (jget entry ''warehouse_codes'') m2 = Inr ws"
      "check_warehouse_timezones known ws (jget entry ''warehouse_timezones'') = Inr zones"
      "c = \<lparr>em_currencies = cur, em_profile = py_strip profile, em_warehouses = ws, em_timezones = zones\<rparr>"
    by (rule market_entry_Inr)
  from p(6) obtain ms where "set (map fst ms) = set ws" "zones = sort_key fst (map (\<lambda>(c, z). (c, jtext z)) ms)"
    by (auto simp: check_warehouse_timezones_def split: json.splits if_splits)
  then have zones: "fst ` set zones = set ws" by (auto simp: image_image case_prod_beta)
  note cur = distinct_texts_Inr [OF p(4)] and ws = distinct_texts_Inr [OF p(5)]
  have "nonblank (py_strip profile)" using p(3) strip_nonblank by (simp add: nonblank_strip)
  with p(1,2) cur ws zones show "fullmatch COUNTRY country" "em_currencies c \<noteq> []" "list_all (fullmatch CURRENCY) (em_currencies c)"
    "nonblank (em_profile c)" "em_warehouses c \<noteq> []" "distinct (em_warehouses c)" "list_all nonblank (em_warehouses c)"
    "fst ` set (em_timezones c) = set (em_warehouses c)"
    by (simp_all add: p(7))
qed

end
