(* ===== verification/Problem_Document.thy ===== *)
theory Problem_Document
  imports Cloud_Event "HOL-Library.List_Lexorder" "HOL-Library.Char_ord"
begin

text \<open>
  The problem documents the HTTP application answers with and the request headers that identify a request
  (\<open>modules/application/problem.py\<close>).
\<close>

datatype problem_kind = Invalid_request | Unauthenticated | Forbidden | Tenant_context_required | Not_found | Conflict | Not_implemented
  | Upstream_rejected | Unavailable | Internal

definition PROBLEM_BASE :: string where "PROBLEM_BASE = ''https://contracts.baobab-platform.com/problems/erp/''"

text \<open>The kind's place in the documentation, its status, title, whether it may be retried, and its code.\<close>

fun known_problem :: "problem_kind \<Rightarrow> string \<times> int \<times> string \<times> bool \<times> string" where
  "known_problem Invalid_request = (''invalid-request'', 400, ''Invalid request'', False, ''ERP_INVALID_REQUEST'')"
| "known_problem Unauthenticated = (''unauthenticated'', 401, ''Authentication required'', False, ''ERP_AUTHENTICATION_REQUIRED'')"
| "known_problem Forbidden = (''forbidden'', 403, ''Not authorised'', False, ''ERP_FORBIDDEN'')"
| "known_problem Tenant_context_required =
     (''tenant-context-required'', 403, ''Tenant context required'', False, ''ERP_TENANT_CONTEXT_REQUIRED'')"
| "known_problem Not_found = (''not-found'', 404, ''Resource not found'', False, ''ERP_RESOURCE_NOT_FOUND'')"
| "known_problem Conflict = (''conflict'', 409, ''Conflict'', False, ''ERP_CONFLICT'')"
| "known_problem Not_implemented = (''not-implemented'', 501, ''Operation not implemented'', False, ''ERP_OPERATION_NOT_IMPLEMENTED'')"
| "known_problem Upstream_rejected =
     (''upstream-rejected'', 502, ''Upstream system rejected the request'', False, ''ERP_UPSTREAM_REJECTED'')"
| "known_problem Unavailable = (''unavailable'', 503, ''Service unavailable'', True, ''ERP_SERVICE_UNAVAILABLE'')"
| "known_problem Internal = (''internal'', 500, ''Internal error'', True, ''ERP_INTERNAL_ERROR'')"

definition kind_for_status :: "int \<Rightarrow> problem_kind option" where
  "kind_for_status status = map_of [(400, Invalid_request), (401, Unauthenticated), (403, Forbidden), (404, Not_found), (409, Conflict),
     (501, Not_implemented), (502, Upstream_rejected), (503, Unavailable), (500, Internal)] status"

text \<open>\<open>fresh\<close> is a new \<open>uuid4\<close>; \<open>None\<close> is a header that is there and is no UUID.\<close>

definition correlation_id_from :: "nat \<Rightarrow> string option \<Rightarrow> string option" where
  "correlation_id_from fresh header =
     (case header of None \<Rightarrow> Some (show_uuid fresh) | Some h \<Rightarrow> map_option show_uuid (uuid_of h))"

text \<open>The pattern is the envelope's: the trace id is what stands between the first hyphens.\<close>

definition trace_id_from :: "string option \<Rightarrow> bool \<times> string option" where
  "trace_id_from header =
     (case header of None \<Rightarrow> (True, None) | Some h \<Rightarrow> if traceparent_ok h then (True, Some (take 32 (drop 3 h))) else (False, None))"

definition opt_text :: "string \<Rightarrow> nat \<Rightarrow> string option \<Rightarrow> (string \<times> json) list" where
  "opt_text name limit v = (case v of Some s \<Rightarrow> if s = [] then [] else [(name, JStr (take limit s))] | None \<Rightarrow> [])"

type_synonym response = "int \<times> json \<times> (string \<times> string) list"

definition problem ::
  "problem_kind \<Rightarrow> string \<Rightarrow> string option \<Rightarrow> string option \<Rightarrow> json list \<Rightarrow> string option \<Rightarrow> int \<times> json" where
  "problem kind correlation trace detail errors named =
     (case known_problem kind of (place, status, title, retryable, kind_code) \<Rightarrow>
       (status, JObj
         ([(''type'', JStr (PROBLEM_BASE @ place)), (''title'', JStr title), (''status'', JInt status),
           (''code'', JStr (case named of Some c \<Rightarrow> if c = [] then kind_code else c | None \<Rightarrow> kind_code)),
           (''correlation_id'', JStr correlation), (''retryable'', JBool retryable)]
          @ (case trace of Some t \<Rightarrow> if t = [] then [] else [(''trace_id'', JStr t)] | None \<Rightarrow> [])
          @ opt_text ''detail'' 2048 detail
          @ (if errors = [] then [] else [(''errors'', JArr (take 50 errors))]))))"

section \<open>Query strings\<close>

text \<open>
  \<open>parse_qs(query, keep_blank_values=True)\<close> as its pairs in order. Percent escapes are UTF-8; a character beyond U+00FF, or
  bytes that are no UTF-8, become U+00FF here (no grammar of the application accepts either).
\<close>

definition hex_val :: "char \<Rightarrow> nat option" where
  "hex_val c = (case digit_val c of Some d \<Rightarrow> if d < 16 then Some d else None | None \<Rightarrow> None)"

fun unquote_bytes :: "string \<Rightarrow> (bool \<times> nat) list" where
  "unquote_bytes (c # a # b # cs) =
     (if c = CHR ''%'' \<and> hex_val a \<noteq> None \<and> hex_val b \<noteq> None
      then (True, 16 * the (hex_val a) + the (hex_val b)) # unquote_bytes cs
      else (False, code c) # unquote_bytes (a # b # cs))"
| "unquote_bytes [c, a] = [(False, code c), (False, code a)]"
| "unquote_bytes [c] = [(False, code c)]"
| "unquote_bytes [] = []"

text \<open>\<open>True\<close> marks a byte of an escape, \<open>False\<close> a character that stood there.\<close>

definition continuation :: "nat \<Rightarrow> (bool \<times> nat) list \<Rightarrow> bool" where
  "continuation n ps \<longleftrightarrow> n \<in> {194, 195} \<and> ps \<noteq> [] \<and> fst (hd ps) \<and> 128 \<le> snd (hd ps) \<and> snd (hd ps) < 192"

fun decode_utf8 :: "(bool \<times> nat) list \<Rightarrow> string" where
  "decode_utf8 ((escaped, n) # (e2, m) # ps) =
     (if \<not> escaped \<or> n < 128 then char_of n # decode_utf8 ((e2, m) # ps)
      else if continuation n [(e2, m)] then char_of ((n - 192) * 64 + (m - 128)) # decode_utf8 ps
      else char_of (255 :: nat) # decode_utf8 ((e2, m) # ps))"
| "decode_utf8 [(escaped, n)] = [if \<not> escaped \<or> n < 128 then char_of n else char_of (255 :: nat)]"
| "decode_utf8 [] = []"

definition unquote_plus :: "string \<Rightarrow> string" where
  "unquote_plus s = decode_utf8 (unquote_bytes (map (\<lambda>c. if c = CHR ''+'' then CHR '' '' else c) s))"

definition query_pair :: "string \<Rightarrow> string \<times> string" where
  "query_pair s = (unquote_plus (takeWhile (\<lambda>c. c \<noteq> CHR ''='') s), unquote_plus (drop 1 (dropWhile (\<lambda>c. c \<noteq> CHR ''='') s)))"

definition parse_qs :: "string \<Rightarrow> (string \<times> string) list" where
  "parse_qs q = map query_pair (filter (\<lambda>s. s \<noteq> []) (split_on CHR ''&'' q))"

definition query_values :: "(string \<times> string) list \<Rightarrow> string \<Rightarrow> string list" where
  "query_values pairs name = map snd (filter (\<lambda>p. fst p = name) pairs)"

definition unknown_parameters :: "(string \<times> string) list \<Rightarrow> string list \<Rightarrow> string list" where
  "unknown_parameters pairs allowed = sort (remdups (filter (\<lambda>n. n \<notin> set allowed) (map fst pairs)))"

section \<open>Facts\<close>

lemma parse_qs_example:
  "parse_qs ''a=1&b=%C3%A9+x&c&a=%zz'' = [(''a'', ''1''), (''b'', char_of (233 :: nat) # '' x''), (''c'', []), (''a'', ''%zz'')]"
  by code_simp

lemma problem_status: "problem kind correlation trace detail errors named = (status, body) \<Longrightarrow> 400 \<le> status \<and> kind_for_status status \<noteq> None"
  by (cases kind) (auto simp: problem_def kind_for_status_def)

lemma kind_for_status_known: "kind_for_status status = Some kind \<Longrightarrow> fst (snd (known_problem kind)) = status"
  by (auto simp: kind_for_status_def split: if_splits)

text \<open>A trace id is 32 hexadecimal digits.\<close>

lemma trace_id_length: "trace_id_from header = (ok, Some t) \<Longrightarrow> ok \<and> length t = 32"
proof -
  assume run: "trace_id_from header = (ok, Some t)"
  then obtain h where h: "header = Some h" "traceparent_ok h" "t = take 32 (drop 3 h)" "ok"
    by (auto simp: trace_id_from_def split: option.splits if_splits)
  have "length h = 55" if "fullmatch (Seq (Lit ''00-'') (Seq (Rep 32 32 hex_rx) (Seq (Lit ''-'') (Seq (Rep 16 16 hex_rx) (Seq (Lit ''-'') (Rep 2 2 hex_rx)))))) h"
    using that by (auto simp: fullmatch_Seq fullmatch_Rep_Cls hex_rx_def fullmatch_Lit simp del: Lit.simps)
  with h show ?thesis by (simp add: traceparent_ok_def)
qed

end
