(* ===== verification/Accepted_Operations.thy ===== *)
theory Accepted_Operations
  imports Control_Plane Problem_Document Provisioning_Execution
begin

text \<open>
  The provisioning operations of the boundary (\<open>modules/application/provisioning_operations.py\<close>) and the reads that resolve a
  Finance baseline (\<open>finance_baselines.py\<close>): a request becomes an accepted command only when Control Plane's approved plan,
  Finance's approved baselines and ERP's own configuration agree with it.
\<close>

section \<open>The request\<close>

record provisioning_dependencies =
  pd_control_plane :: "string \<Rightarrow> string \<Rightarrow> string \<Rightarrow> exn + CpErpAssignment"
  pd_placement :: "CpErpAssignment \<Rightarrow> exn + NativePlacement"
  pd_markets :: "(string \<times> ErpMarketConfiguration) list"
  pd_environment :: string

text \<open>What every handler is given: the library, the date functions and the two ids of the request.\<close>

record asked =
  as_lib :: pylib
  as_pg_uuid :: "string \<Rightarrow> nat option"
  as_calendar :: calendar
  as_correlation :: string
  as_trace :: "string option"

definition PLAN_AUTHORITY_MISMATCH :: string where "PLAN_AUTHORITY_MISMATCH = ''PLAN_AUTHORITY_MISMATCH''"
definition IDEMPOTENCY_KEY_REUSED :: string where "IDEMPOTENCY_KEY_REUSED = ''IDEMPOTENCY_KEY_REUSED''"
definition FINANCE_BASELINE_MISMATCH :: string where "FINANCE_BASELINE_MISMATCH = ''FINANCE_BASELINE_MISMATCH''"
definition FINANCE_BASELINE_NOT_USABLE :: string where "FINANCE_BASELINE_NOT_USABLE = ''FINANCE_BASELINE_NOT_USABLE''"
definition MAX_BODY_BYTES :: nat where "MAX_BODY_BYTES = 256 * 1024"
definition RETRY_AFTER :: "(string \<times> string) list" where "RETRY_AFTER = [(''Retry-After'', ''30'')]"

definition refuse :: "asked \<Rightarrow> problem_kind \<Rightarrow> string \<Rightarrow> string option \<Rightarrow> response" where
  "refuse W kind detail named =
     (case problem kind (as_correlation W) (as_trace W) (Some detail) [] named of (st, body) \<Rightarrow> (st, body, []))"

definition refuse_later :: "asked \<Rightarrow> string \<Rightarrow> response" where
  "refuse_later W detail =
     (case problem Unavailable (as_correlation W) (as_trace W) (Some detail) [] None of (st, body) \<Rightarrow> (st, body, RETRY_AFTER))"

definition parameter_error :: "string \<times> string \<Rightarrow> json" where
  "parameter_error fm = JObj [(''code'', JStr ''ERP_INVALID_PARAMETER''), (''message'', JStr (snd fm)), (''field'', JStr (fst fm))]"

definition refuse_fields :: "asked \<Rightarrow> string option \<Rightarrow> (string \<times> string) list \<Rightarrow> response" where
  "refuse_fields W detail faults =
     (case problem Invalid_request (as_correlation W) (as_trace W) detail (map parameter_error faults) None of (st, body) \<Rightarrow> (st, body, []))"

text \<open>A step either goes on, ends the request with an answer, or lets an exception out.\<close>

datatype refusal = Refusal response | Escapes exn

text \<open>\<open>!=\<close> between the assignment's version and the request's integer.\<close>

definition same_version :: "json \<Rightarrow> int \<Rightarrow> bool" where
  "same_version v n = (case v of JInt i \<Rightarrow> i = n | JFloat s \<Rightarrow> n < 10 ^ 16 \<and> s = show_int n @ ''.0'' | JBool b \<Rightarrow> n = (if b then 1 else 0) | _ \<Rightarrow> False)"

definition plan_differences :: "CpErpAssignment \<Rightarrow> ProvisioningCommand \<Rightarrow> string \<Rightarrow> string list" where
  "plan_differences a c entity = map fst (filter (\<lambda>(name, same). \<not> same)
     [(''tenant_id'', ca_tenant a = pc_tenant c), (''tenant_provisioning_id'', ca_provisioning a = au_provisioning (pc_authority c)),
      (''plan_id'', ca_plan a = au_plan (pc_authority c)), (''plan_version'', same_version (ca_version a) (au_version (pc_authority c))),
      (''plan_digest'', ca_digest a = au_digest (pc_authority c)), (''legal_entity_id'', ca_entity a = entity)])"

definition assignment_refusal :: "asked \<Rightarrow> string \<Rightarrow> exn \<Rightarrow> refusal" where
  "assignment_refusal W entity e =
     (if exn_class e = ''AssignmentNotEstablished'' then Refusal (refuse W Conflict
          (''Control Plane has no executable approved plan for '' @ entity @ '': '' @ exn_text e) (Some PLAN_AUTHORITY_MISMATCH))
      else if exn_class e = ''ControlPlaneUnavailable''
        then Refusal (refuse_later W ''Control Plane's assignment could not be read; nothing was provisioned'')
      else if exn_class e = ''AssignmentError'' then Refusal (refuse W Conflict (exn_text e) (Some PLAN_AUTHORITY_MISMATCH))
      else Escapes e)"

text \<open>Control Plane's approved plan, legal entity by legal entity, against the exact plan the request names.\<close>

fun read_assignments :: "asked \<Rightarrow> provisioning_dependencies \<Rightarrow> ProvisioningCommand \<Rightarrow> string list \<Rightarrow> refusal + (string \<times> CpErpAssignment) list" where
  "read_assignments W P c [] = Inr []"
| "read_assignments W P c (e # es) =
     (case pd_control_plane P (pc_tenant c) (au_provisioning (pc_authority c)) e of
        Inl x \<Rightarrow> Inl (assignment_refusal W e x)
      | Inr a \<Rightarrow>
          if plan_differences a c e \<noteq> [] then Inl (Refusal (refuse W Conflict (''the approved plan differs from the request for '' @ e @ '': ''
              @ join '', '' (plan_differences a c e)) (Some PLAN_AUTHORITY_MISMATCH)))
          else bindE (read_assignments W P c es) (\<lambda>rest. Inr ((e, a) # rest)))"

definition approved_markets :: "(string \<times> CpErpAssignment) list \<Rightarrow> string fset" where
  "approved_markets assignments = fset_of_list (concat (map (\<lambda>(e, a). map cpm_market (ca_markets a)) assignments))"

definition approved_assignments :: "asked \<Rightarrow> provisioning_dependencies \<Rightarrow> ProvisioningCommand \<Rightarrow> refusal + (string \<times> CpErpAssignment) list" where
  "approved_assignments W P c =
     bindE (read_assignments W P c (sort (pc_entities c))) (\<lambda>assignments.
     bindE (checkE (approved_markets assignments = pc_countries c) (Refusal (refuse W Conflict
       ''requested_countries differ from the markets of the approved plan'' (Some PLAN_AUTHORITY_MISMATCH)))) (\<lambda>_.
     Inr assignments))"

text \<open>The Finance baselines: each reference is exactly the version ERP holds, and that version is in force.\<close>

definition referenced :: "ProvisioningCommand \<Rightarrow> string \<Rightarrow> FinanceBaselineRef option" where
  "referenced c = map_of (rev (map (\<lambda>r. (br_entity r, r)) (pc_baselines c)))"

definition baseline_matches :: "asked \<Rightarrow> string \<Rightarrow> FinanceBaselineRef \<Rightarrow> FinancialConfigurationBaseline \<Rightarrow> bool" where
  "baseline_matches W e r b \<longleftrightarrow> baseline_id_for (as_lib W) e = br_baseline r
     \<and> baseline_digest (as_lib W) (as_calendar W) b = br_digest r \<and> day_text (as_calendar W) (fb_effective b) = br_effective r"

fun exact_baselines ::
  "asked \<Rightarrow> provisioning_tables \<Rightarrow> (string \<Rightarrow> FinanceBaselineRef option) \<Rightarrow> string list \<Rightarrow> refusal + (string \<times> FinancialConfigurationBaseline) list" where
  "exact_baselines W t refs [] = Inr []"
| "exact_baselines W t refs (e # es) =
     (case refs e of
        None \<Rightarrow> Inl (Escapes (Exn ''KeyError'' e))
      | Some r \<Rightarrow>
          (case get_baseline t e (br_version r) of
             Some b \<Rightarrow>
               if baseline_matches W e r b then bindE (exact_baselines W t refs es) (\<lambda>rest. Inr ((e, b) # rest))
               else Inl (Refusal (refuse W Conflict (''the Finance baseline reference for '' @ e @ '' is not what ERP holds'')
                 (Some FINANCE_BASELINE_MISMATCH)))
           | None \<Rightarrow> Inl (Refusal (refuse W Conflict (''the Finance baseline reference for '' @ e @ '' is not what ERP holds'')
               (Some FINANCE_BASELINE_MISMATCH)))))"

fun all_effective :: "asked \<Rightarrow> provisioning_tables \<Rightarrow> int \<Rightarrow> (string \<times> FinancialConfigurationBaseline) list \<Rightarrow> refusal + unit" where
  "all_effective W t today [] = Inr ()"
| "all_effective W t today ((e, b) # rest) =
     (if baseline_status t b today \<noteq> EFFECTIVE
      then Inl (Refusal (refuse W Conflict (''the referenced Finance baseline of '' @ e @ '' is not effective'') (Some FINANCE_BASELINE_NOT_USABLE)))
      else all_effective W t today rest)"

definition referenced_baselines ::
  "asked \<Rightarrow> provisioning_tables \<Rightarrow> ProvisioningCommand \<Rightarrow> int \<Rightarrow> refusal + (string \<times> FinancialConfigurationBaseline) list" where
  "referenced_baselines W t c today =
     bindE (checkE (set (map br_entity (pc_baselines c)) = set (pc_entities c)) (Refusal (refuse W Conflict
       ''finance_baselines must reference exactly the requested legal entities, one each'' (Some FINANCE_BASELINE_MISMATCH)))) (\<lambda>_.
     bindE (exact_baselines W t (referenced c) (sort (remdups (map br_entity (pc_baselines c))))) (\<lambda>exact.
     bindE (all_effective W t today exact) (\<lambda>_. Inr exact)))"

text \<open>The request and the plan of each legal entity, from exactly the assignment and the baseline that were compared.\<close>

definition factory_for :: "provisioning_dependencies \<Rightarrow> (string \<times> FinancialConfigurationBaseline) list \<Rightarrow> CpErpAssignment \<Rightarrow> request_factory" where
  "factory_for P exact a = \<lparr>rf_control_plane = (\<lambda>_ _ _. Inr a), rf_placement = pd_placement P, rf_markets = pd_markets P,
     rf_finance = (\<lambda>e _. map_of exact e), rf_environment = pd_environment P\<rparr>"

fun plan_entities ::
  "asked \<Rightarrow> provisioning_dependencies \<Rightarrow> (string \<times> FinancialConfigurationBaseline) list \<Rightarrow> string \<Rightarrow> instant
     \<Rightarrow> (string \<times> CpErpAssignment) list \<Rightarrow> refusal + PlannedEntity list" where
  "plan_entities W P exact tenant now [] = Inr []"
| "plan_entities W P exact tenant now ((e, a) # rest) =
     (case bindE (build_request (as_lib W) (as_calendar W) (factory_for P exact a) tenant (ca_provisioning a) e (utc_day now) now)
        (\<lambda>r. bindE (build_plan (as_lib W) (as_calendar W) r) (\<lambda>p. Inr \<lparr>pe_entity = e, pe_request = r, pe_plan = p\<rparr>)) of
        Inl x \<Rightarrow> if exn_class x \<in> {''AssignmentError'', ''AssignmentNotEstablished'', ''InvalidProvisioningRequestError'', ''NotImplementedError''}
            then Inl (Refusal (refuse W Conflict (e @ '' cannot be provisioned yet: '' @ exn_text x) None)) else Inl (Escapes x)
      | Inr entity \<Rightarrow> bindE (plan_entities W P exact tenant now rest) (\<lambda>es. Inr (entity # es)))"

definition planned_entities ::
  "asked \<Rightarrow> provisioning_dependencies \<Rightarrow> provisioning_tables \<Rightarrow> ProvisioningCommand \<Rightarrow> instant \<Rightarrow> (string \<times> CpErpAssignment) list
     \<Rightarrow> refusal + PlannedEntity list" where
  "planned_entities W P t c now assignments =
     bindE (referenced_baselines W t c (utc_day now)) (\<lambda>exact.
     bindE (plan_entities W P exact (pc_tenant c) now assignments) (\<lambda>entities.
     bindE (checkE (fset_of_list (map (\<lambda>x. ac_currency (rq_accounting (pe_request x))) entities) = pc_currencies c) (Refusal (refuse W Conflict
       ''functional_currencies differ from the Finance-approved baselines'' (Some PLAN_AUTHORITY_MISMATCH)))) (\<lambda>_.
     Inr entities)))"

definition answer :: "refusal \<Rightarrow> ('n proc, exn, response) op" where
  "answer x = (case x of Refusal r \<Rightarrow> returnS r | Escapes e \<Rightarrow> raiseS e)"

definition state_response :: "asked \<Rightarrow> CommandRecord \<Rightarrow> response" where
  "state_response W r = (202, state_document (as_lib W) r, [])"

definition accept_planned ::
  "asked \<Rightarrow> ProvisioningCommand \<Rightarrow> string \<Rightarrow> string \<Rightarrow> PlannedEntity list \<Rightarrow> ('n proc, exn, response) op" where
  "accept_planned W c key who entities s =
     (case accept (as_lib W) (as_pg_uuid W) (as_calendar W) c key who (fingerprint (as_lib W) c who) entities s of
        (Inr r, s') \<Rightarrow> (Inr (state_response W r), s')
      | (Inl e, s') \<Rightarrow>
          if exn_class e = ''UniqueViolation'' then (Inr (refuse W Conflict
            ''a legal entity of this request is already being provisioned under this approved plan by another command'' None), snd (rollback_tx s'))
          else (Inl e, s'))"

definition decide_command ::
  "asked \<Rightarrow> provisioning_dependencies \<Rightarrow> ProvisioningCommand \<Rightarrow> string \<Rightarrow> string \<Rightarrow> ('n proc, exn, response) op" where
  "decide_command W P c key who =
     bindS (readS (\<lambda>s. db_provisioning (pr_db s))) (\<lambda>t.
     case find_command (pc_tenant c) key t of
       Some r \<Rightarrow>
         if cm_fingerprint r \<noteq> fingerprint (as_lib W) c who
         then returnS (refuse W Conflict ''this Idempotency-Key was used for a different request'' (Some IDEMPOTENCY_KEY_REUSED))
         else returnS (state_response W r)
     | None \<Rightarrow>
         (case approved_assignments W P c of
            Inl x \<Rightarrow> answer x
          | Inr assignments \<Rightarrow>
              bindS read_clock (\<lambda>now.
              case planned_entities W P t c now assignments of
                Inl x \<Rightarrow> answer x
              | Inr entities \<Rightarrow> accept_planned W c key who entities)))"

definition valid_key :: "string option \<Rightarrow> bool" where
  "valid_key key = (case key of Some k \<Rightarrow> 16 \<le> length k \<and> length k \<le> 128 \<and> fullmatch idempotency_rx k | None \<Rightarrow> False)"

definition request_provisioning ::
  "asked \<Rightarrow> provisioning_dependencies option \<Rightarrow> string \<Rightarrow> string \<Rightarrow> string option \<Rightarrow> string \<Rightarrow> ('n proc, exn, response) op" where
  "request_provisioning W provisioning tenant who key body =
     (if \<not> valid_key key then returnS (refuse_fields W (Some ''Idempotency-Key is required (16-128 characters of the canonical grammar)'')
          [(''Idempotency-Key'', ''missing or malformed'')])
      else if MAX_BODY_BYTES < length body then returnS (refuse W Invalid_request ''the request body is too large'' None)
      else (case json_loads (as_lib W) body of
          None \<Rightarrow> returnS (refuse W Invalid_request ''the request body is not valid JSON'' None)
        | Some document \<Rightarrow>
            (case parse_command (as_calendar W) document of
               Inl faults \<Rightarrow> returnS (refuse_fields W (Some ''the provisioning request is invalid'') faults)
             | Inr c \<Rightarrow>
                 if pc_tenant c \<noteq> tenant then returnS (refuse W Forbidden ''tenant_id differs from the tenant of the validated context'' None)
                 else (case provisioning of
                     None \<Rightarrow> returnS (refuse_later W ''provisioning is not configured in this deployment'')
                   | Some P \<Rightarrow> decide_command W P c (the key) who))))"

section \<open>Reading an operation\<close>

text \<open>The plan a provisioning context is bound to has the members of the request's authority.\<close>

definition uuid_error :: "string \<Rightarrow> json" where
  "uuid_error field =
     JObj [(''code'', JStr ''ERP_INVALID_IDENTIFIER''), (''message'', JStr ''must be a UUID''), (''field'', JStr field)]"

definition bare :: "asked \<Rightarrow> problem_kind \<Rightarrow> string option \<Rightarrow> response" where
  "bare W kind named = (case problem kind (as_correlation W) (as_trace W) None [] named of (st, body) \<Rightarrow> (st, body, []))"

definition get_provisioning_operation ::
  "asked \<Rightarrow> string \<Rightarrow> string \<Rightarrow> ControlPlaneAuthority option \<Rightarrow> ('n proc, exn, response) op" where
  "get_provisioning_operation W tenant argument authority =
     (case uuid_of argument of
        None \<Rightarrow> returnS (case problem Invalid_request (as_correlation W) (as_trace W) (Some ''operation_id is not a UUID'')
          [uuid_error ''operation_id''] None of (st, body) \<Rightarrow> (st, body, []))
      | Some n \<Rightarrow>
          bindS (readS (\<lambda>s. db_provisioning (pr_db s))) (\<lambda>t.
          bindS (liftS (get_command (as_pg_uuid W) tenant (show_uuid n) t)) (\<lambda>found.
          case found of
            None \<Rightarrow> returnS (bare W Not_found None)
          | Some r \<Rightarrow>
              if authority = Some \<lparr>au_provisioning = cm_provisioning r, au_plan = cm_plan r, au_version = cm_plan_version r,
                au_digest = cm_plan_digest r\<rparr>
              then returnS (200, state_document (as_lib W) r, []) else returnS (bare W Forbidden (Some ''ERP_CONTEXT_REJECTED'')))))"

section \<open>Resolving a Finance baseline\<close>

datatype belonging = Belongs | Foreign | Unreadable

definition same_plan :: "CpErpAssignment \<Rightarrow> string \<Rightarrow> ControlPlaneAuthority \<Rightarrow> string \<Rightarrow> bool" where
  "same_plan a tenant authority entity \<longleftrightarrow> ca_tenant a = tenant \<and> ca_provisioning a = au_provisioning authority \<and> ca_plan a = au_plan authority
     \<and> same_version (ca_version a) (au_version authority) \<and> ca_digest a = au_digest authority \<and> ca_entity a = entity"

definition in_provisioning ::
  "provisioning_dependencies option \<Rightarrow> string \<Rightarrow> ControlPlaneAuthority option \<Rightarrow> string \<Rightarrow> ('n proc, exn, belonging) op" where
  "in_provisioning provisioning tenant context_authority entity =
     (case provisioning of
        None \<Rightarrow> returnS Unreadable
      | Some P \<Rightarrow>
          (case context_authority of
             None \<Rightarrow> returnS Foreign
           | Some authority \<Rightarrow>
               (case pd_control_plane P tenant (au_provisioning authority) entity of
                  Inl e \<Rightarrow> if exn_class e \<in> {''AssignmentNotEstablished'', ''AssignmentError''} then returnS Foreign
                    else if exn_class e = ''ControlPlaneUnavailable'' then returnS Unreadable else raiseS e
                | Inr a \<Rightarrow>
                    bindS read_clock (\<lambda>now.
                    returnS (case validate_assignment a now of Inl _ \<Rightarrow> Foreign
                      | Inr _ \<Rightarrow> if same_plan a tenant authority entity then Belongs else Foreign)))))"

definition not_resolved :: "asked \<Rightarrow> response" where
  "not_resolved W = refuse_later W ''Control Plane's assignment could not be read; nothing was resolved''"

definition DATE_TEXT :: rx where
  "DATE_TEXT = Seq (Rep 4 4 digit_rx) (Seq (Lit ''-'') (Seq (Rep 2 2 digit_rx) (Seq (Lit ''-'') (Rep 2 2 digit_rx))))"

text \<open>The day asked for: \<open>None\<close> is a parameter that is no date.\<close>

definition asked_day :: "calendar \<Rightarrow> (string \<times> string) list \<Rightarrow> int \<Rightarrow> int option" where
  "asked_day K pairs today =
     (if ''effective_on'' \<in> set (map fst pairs)
      then (case query_values pairs ''effective_on'' of [raw] \<Rightarrow> if fullmatch DATE_TEXT raw then read_day K raw else None | _ \<Rightarrow> None)
      else Some today)"

definition resolved :: "asked \<Rightarrow> provisioning_tables \<Rightarrow> FinancialConfigurationBaseline \<Rightarrow> int \<Rightarrow> instant \<Rightarrow> response" where
  "resolved W t b on now = (200, resolution_of (as_lib W) (as_calendar W) b (baseline_status t b on) now, [])"

definition get_effective_finance_baseline ::
  "asked \<Rightarrow> provisioning_dependencies option \<Rightarrow> string \<Rightarrow> string \<Rightarrow> string \<Rightarrow> ControlPlaneAuthority option \<Rightarrow> ('n proc, exn, response) op" where
  "get_effective_finance_baseline W P tenant argument query_string authority =
     (let pairs = parse_qs query_string; unknown = unknown_parameters pairs [''effective_on'', ''context_id''] in
      if \<not> (3 \<le> length argument \<and> length argument \<le> 63 \<and> fullmatch LEGAL_ENTITY_ID argument)
        then returnS (refuse_fields W None [(''legal_entity_id'', ''must be a canonical legal entity identifier'')])
      else if unknown \<noteq> [] then returnS (refuse_fields W None [(hd unknown, ''unknown query parameter'')])
      else
        bindS read_clock (\<lambda>t0.
        case asked_day (as_calendar W) pairs (utc_day t0) of
          None \<Rightarrow> returnS (refuse_fields W None [(''effective_on'', ''must be a calendar date (YYYY-MM-DD)'')])
        | Some on \<Rightarrow>
            bindS (in_provisioning P tenant authority argument) (\<lambda>belongs.
            case belongs of
              Unreadable \<Rightarrow> returnS (not_resolved W)
            | Foreign \<Rightarrow> returnS (bare W Not_found None)
            | Belongs \<Rightarrow>
                bindS (readS (\<lambda>s. db_provisioning (pr_db s))) (\<lambda>t.
                case effective_baseline t argument on of
                  None \<Rightarrow> returnS (refuse W Not_found ''no Finance-approved baseline is in force for the legal entity'' None)
                | Some b \<Rightarrow> bindS read_clock (\<lambda>now. returnS (resolved W t b on now))))))"

definition VERSION_TEXT :: rx where
  "VERSION_TEXT = Seq (Cls [(CHR ''1'', CHR ''9'')]) (Rep 0 8 digit_rx)"

text \<open>The exact version and digest asked for, or the parameter that is refused.\<close>

definition asked_version :: "(string \<times> string) list \<Rightarrow> string + int \<times> string" where
  "asked_version pairs =
     (case query_values pairs ''version'' of
        [v] \<Rightarrow>
          if \<not> fullmatch VERSION_TEXT v then Inl ''version''
          else (case query_values pairs ''digest'' of
              [d] \<Rightarrow> if \<not> fullmatch PLAN_DIGEST d then Inl ''digest''
                else (case py_int v of Some n \<Rightarrow> Inr (n, d) | None \<Rightarrow> Inl ''version'')
            | _ \<Rightarrow> Inl ''digest'')
      | _ \<Rightarrow> Inl ''version'')"

definition exact_fault :: "string \<Rightarrow> string \<times> string" where
  "exact_fault field = (field, if field = ''version'' then ''is required and must be an integer >= 1'' else ''is required and must be a sha256 digest'')"

definition mismatch :: "asked \<Rightarrow> response" where
  "mismatch W = refuse W Conflict ''the baseline has no such version, or that version's digest differs'' (Some FINANCE_BASELINE_MISMATCH)"

definition get_finance_baseline ::
  "asked \<Rightarrow> provisioning_dependencies option \<Rightarrow> string \<Rightarrow> string \<Rightarrow> string \<Rightarrow> ControlPlaneAuthority option \<Rightarrow> ('n proc, exn, response) op" where
  "get_finance_baseline W P tenant argument query_string authority =
     (let pairs = parse_qs query_string; unknown = unknown_parameters pairs [''version'', ''digest'', ''context_id''] in
      if \<not> (6 \<le> length argument \<and> length argument \<le> 63 \<and> fullmatch BASELINE_ID argument)
        then returnS (refuse_fields W None [(''baseline_id'', ''must be a Finance baseline identifier'')])
      else if unknown \<noteq> [] then returnS (refuse_fields W None [(hd unknown, ''unknown query parameter'')])
      else (case asked_version pairs of
          Inl field \<Rightarrow> returnS (refuse_fields W None [exact_fault field])
        | Inr (version, digest) \<Rightarrow>
            bindS (readS (\<lambda>s. db_provisioning (pr_db s))) (\<lambda>t.
            case legal_entity_of (as_lib W) t argument of
              None \<Rightarrow> returnS (bare W Not_found None)
            | Some entity \<Rightarrow>
                bindS (in_provisioning P tenant authority entity) (\<lambda>belongs.
                case belongs of
                  Unreadable \<Rightarrow> returnS (not_resolved W)
                | Foreign \<Rightarrow> returnS (bare W Not_found None)
                | Belongs \<Rightarrow>
                    (case get_baseline t entity version of
                       Some b \<Rightarrow>
                         if baseline_digest (as_lib W) (as_calendar W) b = digest
                         then bindS read_clock (\<lambda>t1. bindS read_clock (\<lambda>now. returnS (resolved W t b (utc_day t1) now)))
                         else returnS (mismatch W)
                     | None \<Rightarrow> returnS (mismatch W))))))"

end
