(* ===== verification/Accepted_Facts.thy ===== *)
theory Accepted_Facts
  imports Accepted_Operations
begin

text \<open>
  What the acceptance of a provisioning command guarantees: request is not authority. Everything that is recorded was approved by
  Control Plane and Finance, it is recorded whole or not at all, and asking again changes nothing.
\<close>

section \<open>The stages\<close>

lemma read_assignments_Inr:
  "read_assignments W P c es = Inr as \<Longrightarrow> map fst as = es
     \<and> (\<forall>(e, a) \<in> set as. pd_control_plane P (pc_tenant c) (au_provisioning (pc_authority c)) e = Inr a \<and> plan_differences a c e = [])"
proof (induction es arbitrary: as)
  case (Cons e es)
  then obtain a rest where "pd_control_plane P (pc_tenant c) (au_provisioning (pc_authority c)) e = Inr a" "plan_differences a c e = []"
      "read_assignments W P c es = Inr rest" "as = (e, a) # rest"
    by (auto simp: bindE_Inr_iff split: sum.splits if_splits)
  with Cons.IH show ?case by simp
qed simp

lemma plan_differences_Nil:
  "plan_differences a c e = [] \<longleftrightarrow> ca_tenant a = pc_tenant c \<and> ca_provisioning a = au_provisioning (pc_authority c)
     \<and> ca_plan a = au_plan (pc_authority c) \<and> same_version (ca_version a) (au_version (pc_authority c))
     \<and> ca_digest a = au_digest (pc_authority c) \<and> ca_entity a = e"
  by (auto simp: plan_differences_def)

lemma exact_baselines_Inr:
  "exact_baselines W t refs es = Inr bs \<Longrightarrow> map fst bs = es
     \<and> (\<forall>(e, b) \<in> set bs. \<exists>r. refs e = Some r \<and> get_baseline t e (br_version r) = Some b \<and> baseline_matches W e r b)"
proof (induction es arbitrary: bs)
  case (Cons e es)
  then obtain r b rest where "refs e = Some r" "get_baseline t e (br_version r) = Some b" "baseline_matches W e r b"
      "exact_baselines W t refs es = Inr rest" "bs = (e, b) # rest"
    by (auto simp: bindE_Inr_iff split: option.splits if_splits)
  with Cons.IH show ?case by simp
qed simp

lemma all_effective_Inr: "all_effective W t today bs = Inr u \<Longrightarrow> \<forall>(e, b) \<in> set bs. baseline_status t b today = EFFECTIVE"
  by (induction bs) (auto split: if_splits)

lemma plan_entities_Inr:
  "plan_entities W P exact tenant now as = Inr xs \<Longrightarrow> map pe_entity xs = map fst as
     \<and> (\<forall>x \<in> set xs. \<exists>a. (pe_entity x, a) \<in> set as
         \<and> build_request (as_lib W) (as_calendar W) (factory_for P exact a) tenant (ca_provisioning a) (pe_entity x) (utc_day now) now = Inr (pe_request x)
         \<and> build_plan (as_lib W) (as_calendar W) (pe_request x) = Inr (pe_plan x))"
proof (induction as arbitrary: xs)
  case (Cons ea as)
  obtain e a where ea: "ea = (e, a)" by (cases ea)
  from Cons.prems obtain r p rest where
      "build_request (as_lib W) (as_calendar W) (factory_for P exact a) tenant (ca_provisioning a) e (utc_day now) now = Inr r"
      "build_plan (as_lib W) (as_calendar W) r = Inr p" "plan_entities W P exact tenant now as = Inr rest"
      "xs = \<lparr>pe_entity = e, pe_request = r, pe_plan = p\<rparr> # rest"
    unfolding ea by (auto simp: bindE_Inr_iff split: sum.splits if_splits)
  with Cons.IH ea show ?case by fastforce
qed simp

lemma referenced_Some: "referenced c e = Some r \<Longrightarrow> r \<in> set (pc_baselines c) \<and> br_entity r = e"
  by (auto simp: referenced_def dest!: map_of_SomeD)

section \<open>What was approved\<close>

definition approved_entity ::
  "asked \<Rightarrow> provisioning_dependencies \<Rightarrow> provisioning_tables \<Rightarrow> ProvisioningCommand \<Rightarrow> instant \<Rightarrow> PlannedEntity \<Rightarrow> bool" where
  "approved_entity W P t c now x \<longleftrightarrow> (\<exists>a ref b.
     pd_control_plane P (pc_tenant c) (au_provisioning (pc_authority c)) (pe_entity x) = Inr a
     \<and> ca_tenant a = pc_tenant c \<and> ca_provisioning a = au_provisioning (pc_authority c) \<and> ca_plan a = au_plan (pc_authority c)
     \<and> ca_version a = JInt (au_version (pc_authority c)) \<and> ca_digest a = au_digest (pc_authority c) \<and> ca_entity a = pe_entity x
     \<and> ca_verification a = ''VERIFIED'' \<and> ca_engine a = ERP_ENGINE_ID \<and> now < ca_expires a
     \<and> ref \<in> set (pc_baselines c) \<and> br_entity ref = pe_entity x \<and> get_baseline t (pe_entity x) (br_version ref) = Some b
     \<and> baseline_digest (as_lib W) (as_calendar W) b = br_digest ref \<and> baseline_status t b (utc_day now) = EFFECTIVE
     \<and> rq_tenant (pe_request x) = pc_tenant c \<and> rq_entity (pe_request x) = pe_entity x \<and> rq_digest (pe_request x) = ca_digest a
     \<and> map mk_id (rq_markets (pe_request x)) = map cpm_market (sort_key cpm_market (ca_markets a))
     \<and> ac_currency (rq_accounting (pe_request x)) = fb_currency b \<and> ac_chart (rq_accounting (pe_request x)) = fb_chart b
     \<and> ac_approved_by (rq_accounting (pe_request x)) = fb_approved_by b
     \<and> build_plan (as_lib W) (as_calendar W) (pe_request x) = Inr (pe_plan x))"

lemma exact_version: "same_version v n \<Longrightarrow> positive_int v \<noteq> None \<Longrightarrow> v = JInt n"
  by (cases v) (auto simp: same_version_def)

lemma planned_entity_approved:
  assumes a: "pd_control_plane P (pc_tenant c) (au_provisioning (pc_authority c)) (pe_entity x) = Inr a" "plan_differences a c (pe_entity x) = []"
    and r: "build_request (as_lib W) (as_calendar W) (factory_for P exact a) (pc_tenant c) (ca_provisioning a) (pe_entity x) (utc_day now) now
       = Inr (pe_request x)"
    and p: "build_plan (as_lib W) (as_calendar W) (pe_request x) = Inr (pe_plan x)"
    and exact: "\<forall>(e, b) \<in> set exact. \<exists>r. referenced c e = Some r \<and> get_baseline t e (br_version r) = Some b \<and> baseline_matches W e r b"
    and eff: "\<forall>(e, b) \<in> set exact. baseline_status t b (utc_day now) = EFFECTIVE"
  shows "approved_entity W P t c now x"
proof -
  from r show ?thesis
  proof (rule build_request_Inr)
    fix a' b markets registration
    assume f: "rf_control_plane (factory_for P exact a) (pc_tenant c) (ca_provisioning a) (pe_entity x) = Inr a'"
      "rf_finance (factory_for P exact a) (pe_entity x) (utc_day now) = Some b" "validate_assignment a' now = Inr ()"
      "mapE (configured_market (rf_markets (factory_for P exact a))) (sort_key cpm_market (ca_markets a')) = Inr markets"
      "rq_tenant (pe_request x) = pc_tenant c" "rq_entity (pe_request x) = pe_entity x" "rq_digest (pe_request x) = ca_digest a'"
      "rq_markets (pe_request x) = markets"
      "rq_accounting (pe_request x) = \<lparr>ac_currency = fb_currency b, ac_year_start = fb_year_start b, ac_chart = fb_chart b,
         ac_schema = fb_schema b, ac_tax = fb_tax b, ac_costing = fb_costing b, ac_approved_by = fb_approved_by b,
         ac_approved_at = Aware (fb_approved_at b)\<rparr>"
    have same: "a' = a" and "map_of exact (pe_entity x) = Some b" using f(1,2) by (simp_all add: factory_for_def)
    then have mem: "(pe_entity x, b) \<in> set exact" by (simp add: map_of_SomeD)
    with exact obtain ref where "referenced c (pe_entity x) = Some ref" "get_baseline t (pe_entity x) (br_version ref) = Some b"
        "baseline_matches W (pe_entity x) ref b" by blast
    moreover have "baseline_status t b (utc_day now) = EFFECTIVE" using mem eff by blast
    moreover have "map mk_id markets = map cpm_market (sort_key cpm_market (ca_markets a'))"
      using f(4) by (rule mapE_map) (auto simp: configured_market_def split: option.splits)
    moreover note validate_assignment_Inr [OF f(3)]
    moreover have "ca_version a = JInt (au_version (pc_authority c))"
      using a(2) validate_assignment_Inr(4) [OF f(3)] by (auto simp: plan_differences_Nil same intro: exact_version)
    ultimately show ?thesis
      using a p f(5-9) referenced_Some [of c "pe_entity x" ref] unfolding approved_entity_def same plan_differences_Nil baseline_matches_def
      by (intro exI [of _ a] exI [of _ ref] exI [of _ b]) simp
  qed
qed

lemma planned_entities_Inr:
  assumes "approved_assignments W P c = Inr as" "planned_entities W P t c now as = Inr xs"
  shows "map pe_entity xs = sort (pc_entities c)" "\<forall>x \<in> set xs. approved_entity W P t c now x"
    "fset_of_list (map (\<lambda>x. ac_currency (rq_accounting (pe_request x))) xs) = pc_currencies c"
    "approved_markets as = pc_countries c"
proof -
  from assms(1) have as: "read_assignments W P c (sort (pc_entities c)) = Inr as" and m: "approved_markets as = pc_countries c"
    by (auto simp: approved_assignments_def bindE_Inr_iff)
  from assms(2) obtain exact where exact: "referenced_baselines W t c (utc_day now) = Inr exact"
    and xs: "plan_entities W P exact (pc_tenant c) now as = Inr xs"
    and cur: "fset_of_list (map (\<lambda>x. ac_currency (rq_accounting (pe_request x))) xs) = pc_currencies c"
    by (auto simp: planned_entities_def bindE_Inr_iff)
  from exact obtain names where e: "exact_baselines W t (referenced c) names = Inr exact" "all_effective W t (utc_day now) exact = Inr ()"
    by (auto simp: referenced_baselines_def bindE_Inr_iff)
  note r = read_assignments_Inr [OF as] and p = plan_entities_Inr [OF xs] and b = exact_baselines_Inr [OF e(1)] and eff = all_effective_Inr [OF e(2)]
  have "approved_entity W P t c now x" if "x \<in> set xs" for x
  proof -
    from p that obtain a where "(pe_entity x, a) \<in> set as"
        "build_request (as_lib W) (as_calendar W) (factory_for P exact a) (pc_tenant c) (ca_provisioning a) (pe_entity x) (utc_day now) now
           = Inr (pe_request x)" "build_plan (as_lib W) (as_calendar W) (pe_request x) = Inr (pe_plan x)"
      by blast
    with r b eff show ?thesis by (intro planned_entity_approved [where a = a and exact = exact]) auto
  qed
  with r p m cur show "map pe_entity xs = sort (pc_entities c)" "\<forall>x \<in> set xs. approved_entity W P t c now x"
    "fset_of_list (map (\<lambda>x. ac_currency (rq_accounting (pe_request x))) xs) = pc_currencies c" "approved_markets as = pc_countries c"
    by simp_all
qed

section \<open>Refusals\<close>

lemma refuse_status [simp]: "400 \<le> fst (refuse W kind detail named)" "400 \<le> fst (refuse_later W detail)" "400 \<le> fst (refuse_fields W d faults)"
  by (auto simp: refuse_def refuse_later_def refuse_fields_def dest: problem_status split: prod.splits)

lemma refused_status: "refuse W kind detail named = (st, doc, hs) \<Longrightarrow> 400 \<le> st"
  using refuse_status(1) [of W kind detail named] by simp

definition refuses :: "refusal \<Rightarrow> bool" where
  "refuses x \<longleftrightarrow> (\<forall>r. x = Refusal r \<longrightarrow> 400 \<le> fst r)"

lemma refuses_simps [simp]: "refuses (Escapes e)" "refuses (Refusal r) \<longleftrightarrow> 400 \<le> fst r"
  by (simp_all add: refuses_def)

lemma read_assignments_refuses: "read_assignments W P c es = Inl x \<Longrightarrow> refuses x"
  by (induction es) (auto simp: bindE_Inl_iff assignment_refusal_def split: sum.splits if_splits)

lemma approved_assignments_refuses: "approved_assignments W P c = Inl x \<Longrightarrow> refuses x"
  by (auto simp: approved_assignments_def bindE_Inl_iff dest: read_assignments_refuses)

lemma exact_baselines_refuses: "exact_baselines W t refs es = Inl x \<Longrightarrow> refuses x"
  by (induction es) (auto simp: bindE_Inl_iff split: option.splits if_splits)

lemma all_effective_refuses: "all_effective W t today bs = Inl x \<Longrightarrow> refuses x"
  by (induction bs) (auto split: if_splits)

lemma plan_entities_refuses: "plan_entities W P exact tenant now as = Inl x \<Longrightarrow> refuses x"
proof (induction as)
  case (Cons ea as)
  obtain e a where ea: "ea = (e, a)" by (cases ea)
  let ?built = "bindE (build_request (as_lib W) (as_calendar W) (factory_for P exact a) tenant (ca_provisioning a) e (utc_day now) now)
        (\<lambda>r. bindE (build_plan (as_lib W) (as_calendar W) r) (\<lambda>p. Inr \<lparr>pe_entity = e, pe_request = r, pe_plan = p\<rparr>))"
  show ?case
  proof (cases ?built)
    case (Inl y)
    with Cons.prems ea show ?thesis by (auto split: if_splits)
  next
    case (Inr y)
    with Cons ea show ?thesis by (auto simp: bindE_Inl_iff)
  qed
qed simp

lemma planned_entities_refuses: "planned_entities W P t c now as = Inl x \<Longrightarrow> refuses x"
  by (auto simp: planned_entities_def referenced_baselines_def bindE_Inl_iff
      dest: exact_baselines_refuses all_effective_refuses plan_entities_refuses)

section \<open>The decision\<close>

lemma accept_unsaved: "accept L pg K c key who fp entities s = (r, s') \<Longrightarrow> pr_saved s' = pr_saved s"
proof -
  assume run: "accept L pg K c key who fp entities s = (r, s')"
  have "within unsaved (accept L pg K c key who fp entities)"
    unfolding accept_def announce_command_def on_tables_def Let_def
    by (intro within_intros) (auto simp: within_def unsaved_def read_clock_def draw_uuid_def on_db_def intro!: reflpI transpI split: prod.splits)
  from withinD [OF this run] show ?thesis by (simp add: unsaved_def)
qed

text \<open>Every way a decision ends: a refusal or a replay that changes no table, or an acceptance of what was planned.\<close>

lemma decide_command_cases:
  assumes "decide_command W P c key who s = (r, s')"
  obtains (kept) "pr_db s' = pr_db s \<or> pr_db s' = pr_saved s" "pr_saved s' = pr_saved s"
      "\<And>st doc hs. r = Inr (st, doc, hs) \<Longrightarrow> 400 \<le> st"
  | (failed) e where "r = Inl e" "pr_saved s' = pr_saved s"
  | (replayed) x where "find_command (pc_tenant c) key (db_provisioning (pr_db s)) = Some x" "cm_fingerprint x = fingerprint (as_lib W) c who"
      "s' = s" "r = Inr (state_response W x)"
  | (accepted) as now xs x where "find_command (pc_tenant c) key (db_provisioning (pr_db s)) = None"
      "approved_assignments W P c = Inr as" "planned_entities W P (db_provisioning (pr_db s)) c now as = Inr xs"
      "accept (as_lib W) (as_pg_uuid W) (as_calendar W) c key who (fingerprint (as_lib W) c who) xs (s\<lparr>pr_ticks := Suc (pr_ticks s)\<rparr>) = (Inr x, s')"
      "r = Inr (state_response W x)"
proof (cases "find_command (pc_tenant c) key (db_provisioning (pr_db s))")
  case (Some x)
  show ?thesis
  proof (cases "cm_fingerprint x = fingerprint (as_lib W) c who")
    case True
    with Some assms show ?thesis by (intro replayed) (auto simp: decide_command_def)
  next
    case False
    with Some assms have "r = Inr (refuse W Conflict ''this Idempotency-Key was used for a different request'' (Some IDEMPOTENCY_KEY_REUSED))" "s' = s"
      by (auto simp: decide_command_def)
    moreover from this have "400 \<le> st" if "r = Inr (st, doc, hs)" for st doc hs using that by (auto dest: refused_status [OF sym] refused_status)
    ultimately show ?thesis by (intro kept) (simp, simp, blast)
  qed
next
  case None
  let ?s = "s\<lparr>pr_ticks := Suc (pr_ticks s)\<rparr>" and ?now = "pr_clock s (pr_ticks s)"
  have answered: ?thesis if "refuses x" "answer x s1 = (r, s')" "pr_db s1 = pr_db s" "pr_saved s1 = pr_saved s" for x s1
    using that by (cases x) (auto simp: answer_def intro: kept failed)
  show ?thesis
  proof (cases "approved_assignments W P c")
    case (Inl x)
    have "answer x s = (r, s')" using assms None Inl by (simp add: decide_command_def)
    then show ?thesis by (rule answered [OF approved_assignments_refuses [OF Inl]]) simp_all
  next
    case as: (Inr as)
    show ?thesis
    proof (cases "planned_entities W P (db_provisioning (pr_db s)) c ?now as")
      case (Inl x)
      have "answer x ?s = (r, s')" using assms None as Inl by (simp add: decide_command_def bindS_def read_clock_def)
      then show ?thesis by (rule answered [OF planned_entities_refuses [OF Inl]]) simp_all
    next
      case xs: (Inr xs)
      have run: "accept_planned W c key who xs ?s = (r, s')"
        using assms None as xs by (simp add: decide_command_def bindS_def read_clock_def)
      obtain q s1 where acc: "accept (as_lib W) (as_pg_uuid W) (as_calendar W) c key who (fingerprint (as_lib W) c who) xs ?s = (q, s1)"
        by (metis surj_pair)
      show ?thesis
      proof (cases q)
        case (Inr x)
        with acc run have "s1 = s'" "r = Inr (state_response W x)" by (auto simp: accept_planned_def)
        with accepted [OF None as xs] acc Inr show ?thesis by simp
      next
        case (Inl e)
        have "pr_saved s1 = pr_saved s" using accept_unsaved [OF acc] by simp
        show ?thesis
        proof (cases "exn_class e = ''UniqueViolation''")
          case True
          with acc run Inl have r: "r = Inr (refuse W Conflict ''a legal entity of this request is already being provisioned under this approved plan by another command'' None)"
              "s' = s1\<lparr>pr_db := pr_saved s1\<rparr>"
            by (simp_all add: accept_planned_def rollback_tx_def)
          moreover from r(1) have "400 \<le> st" if "r = Inr (st, doc, hs)" for st doc hs using that by (auto dest: refused_status [OF sym] refused_status)
          ultimately show ?thesis using \<open>pr_saved s1 = pr_saved s\<close> by (intro kept) (simp, simp, blast)
        next
          case False
          with acc run Inl have "r = Inl e" "s' = s1" by (simp_all add: accept_planned_def)
          with \<open>pr_saved s1 = pr_saved s\<close> show ?thesis by (intro failed) simp_all
        qed
      qed
    qed
  qed
qed

section \<open>Requests\<close>

text \<open>What a request is before it is decided: a command of the validated tenant under a valid key.\<close>

definition admitted :: "asked \<Rightarrow> string \<Rightarrow> string option \<Rightarrow> string \<Rightarrow> ProvisioningCommand \<Rightarrow> bool" where
  "admitted W tenant key body c \<longleftrightarrow> valid_key key \<and> length body \<le> MAX_BODY_BYTES \<and> pc_tenant c = tenant
     \<and> (\<exists>document. json_loads (as_lib W) body = Some document \<and> parse_command (as_calendar W) document = Inr c)"

lemma request_cases:
  obtains (refused) st doc hs where "request_provisioning W D tenant who key body s = (Inr (st, doc, hs), s)" "400 \<le> st"
  | (decided) P c where "D = Some P" "admitted W tenant key body c"
      "request_provisioning W D tenant who key body s = decide_command W P c (the key) who s"
proof (cases "valid_key key \<and> length body \<le> MAX_BODY_BYTES \<and> D \<noteq> None
    \<and> (\<exists>document c. json_loads (as_lib W) body = Some document \<and> parse_command (as_calendar W) document = Inr c \<and> pc_tenant c = tenant)")
  case True
  then obtain P document c where p: "valid_key key" "length body \<le> MAX_BODY_BYTES" "D = Some P" "json_loads (as_lib W) body = Some document"
      "parse_command (as_calendar W) document = Inr c" "pc_tenant c = tenant"
    by blast
  then show ?thesis by (intro decided [of P c]) (auto simp: admitted_def request_provisioning_def)
next
  case False
  have "\<exists>r. request_provisioning W D tenant who key body s = (Inr r, s) \<and> 400 \<le> fst r"
  proof (cases "valid_key key \<and> length body \<le> MAX_BODY_BYTES")
    case bad: False
    then show ?thesis by (cases "valid_key key") (simp_all add: request_provisioning_def)
  next
    case good: True
    show ?thesis
    proof (cases "json_loads (as_lib W) body")
      case None
      with good show ?thesis by (simp add: request_provisioning_def)
    next
      case doc: (Some document)
      show ?thesis
      proof (cases "parse_command (as_calendar W) document")
        case (Inl faults)
        with good doc show ?thesis by (simp add: request_provisioning_def)
      next
        case (Inr c)
        with good doc False have "pc_tenant c = tenant \<Longrightarrow> D = None" by simp
        with good doc Inr show ?thesis by (cases "pc_tenant c = tenant") (simp_all add: request_provisioning_def)
      qed
    qed
  qed
  then obtain st doc hs where "request_provisioning W D tenant who key body s = (Inr (st, doc, hs), s)" "400 \<le> st" by auto
  then show ?thesis by (rule refused)
qed

text \<open>C30: Request is not authority. A provisioning command is newly accepted (answered 202) only when two independent authorities agree with
  it exactly, for every legal entity it names and no other: Control Plane's current assignment of a verified entity to this engine
  carries the same tenant, provisioning, plan, version and digest, its markets are the requested countries, and the Finance baseline
  version the request refers to is the one ERP holds under that digest and is in force; what is planned for each entity is made of
  exactly these, its plan passes every check, and the plans of all entities, the command, its members and its announcement are what
  the transaction adds, nothing else.\<close>

theorem accepted_as_approved:
  assumes "request_provisioning W D tenant who key body s = (Inr (202, doc, hs), s')"
    "find_command tenant (the key) (db_provisioning (pr_db s)) = None"
  shows "\<exists>P c now entities op time row. D = Some P \<and> admitted W tenant key body c
    \<and> map pe_entity entities = sort (pc_entities c)
    \<and> (\<forall>x \<in> set entities. approved_entity W P (db_provisioning (pr_db s)) c now x)
    \<and> fset_of_list (map (\<lambda>x. ac_currency (rq_accounting (pe_request x))) entities) = pc_currencies c
    \<and> (\<exists>as. approved_assignments W P c = Inr as \<and> approved_markets as = pc_countries c)
    \<and> pr_db s' = (pr_db s)\<lparr>db_provisioning := accepted_tables (db_provisioning (pr_db s)) (as_calendar W) time
          (accepted_row op c (the key) who (fingerprint (as_lib W) c who) time) entities, db_outbox := db_outbox (pr_db s) @ [row]\<rparr>
    \<and> ob_subject row = command_subject op \<and> ob_idempotency row = Some (command_event_key op 1) \<and> ob_data row = doc
    \<and> doc = state_document (as_lib W) (CommandRecord.truncate (accepted_row op c (the key) who (fingerprint (as_lib W) c who) time))"
proof (rule request_cases [of W D tenant who key body s])
  fix P c
  assume p: "D = Some P" "admitted W tenant key body c"
    and run: "request_provisioning W D tenant who key body s = decide_command W P c (the key) who s"
  have tenant: "pc_tenant c = tenant" using p(2) by (simp add: admitted_def)
  have "decide_command W P c (the key) who s = (Inr (202, doc, hs), s')" using run assms(1) by simp
  then show ?thesis
  proof (cases rule: decide_command_cases)
    case (accepted as now xs x)
    note plan = planned_entities_Inr [OF accepted(2,3)]
    from accepted(4) obtain op time row where a: "x = CommandRecord.truncate (accepted_row op c (the key) who (fingerprint (as_lib W) c who) time)"
      "pr_db s' = (pr_db s)\<lparr>db_provisioning := accepted_tables (db_provisioning (pr_db s)) (as_calendar W) time
          (accepted_row op c (the key) who (fingerprint (as_lib W) c who) time) xs, db_outbox := db_outbox (pr_db s) @ [row]\<rparr>"
      "ob_subject row = command_subject op" "ob_idempotency row = Some (command_event_key op 1)" "ob_data row = state_document (as_lib W) x"
      by (rule accept_Inr) simp
    have "doc = state_document (as_lib W) x" using accepted(5) by (simp add: state_response_def)
    with p plan a accepted(2) show ?thesis by blast
  next
    case kept
    then show ?thesis by force
  next
    case (replayed x)
    then show ?thesis using assms(2) tenant by simp
  qed simp
next
  fix st doc' hs'
  assume "request_provisioning W D tenant who key body s = (Inr (st, doc', hs'), s)" "400 \<le> st"
  with assms(1) show ?thesis by simp
qed


end
