(* ===== verification/Accepted_Witness.thy ===== *)
theory Accepted_Witness
  imports Accepted_Facts
begin

text \<open>
  A head office whose provisioning is requested, with the plan Control Plane approved for it and the baseline Finance
  approved: concrete inputs at which the hypotheses of \<open>Accepted_Facts\<close> hold.
\<close>

definition office_reference :: FinanceBaselineRef where
  "office_reference = \<lparr>br_baseline = ''fb_'' @ replicate 32 (CHR ''0''), br_entity = ''NABHOLD'', br_version = 1, br_digest = sample_hash,
     br_effective = ''2026-01-01''\<rparr>"

definition office_command :: ProvisioningCommand where
  "office_command = sample_command\<lparr>pc_baselines := [office_reference]\<rparr>"

definition office_body :: json where
  "office_body = JObj
     [(''tenant_id'', JStr ''tn_abc01''), (''context_id'', JStr ''00000000-0000-0000-0000-000000000001''),
      (''control_plane_authority'', JObj [(''tenant_provisioning_id'', JStr ''tp_a1b2''), (''plan_id'', JStr ''plan_a1b2''),
         (''plan_version'', JInt 1), (''plan_digest'', JStr sample_hash)]),
      (''legal_entity_ids'', JArr [JStr ''NABHOLD'']), (''finance_baselines'', JArr [ref_contract office_reference]),
      (''requested_countries'', JArr [JStr ''UG'']), (''functional_currencies'', JArr [JStr ''UGX''])]"

definition office_calendar :: calendar where
  "office_calendar = sample_calendar\<lparr>day_text := (\<lambda>d. ''2026-01-01'')\<rparr>"

definition office :: asked where
  "office = \<lparr>as_lib = sample_lib office_body, as_pg_uuid = uuid_of, as_calendar = office_calendar,
     as_correlation = ''00000000-0000-0000-0000-000000000002'', as_trace = None\<rparr>"

definition office_assignment :: CpErpAssignment where
  "office_assignment = \<lparr>ca_tenant = ''tn_abc01'', ca_provisioning = ''tp_a1b2'', ca_plan = ''plan_a1b2'', ca_version = JInt 1,
     ca_digest = sample_hash, ca_entity = ''NABHOLD'', ca_name = ''Nab'', ca_jurisdiction = ''UG'',
     ca_registrations = [JObj [(''type'', JStr ''COMPANY_REGISTRATION''), (''value'', JStr ''R1'')]], ca_verification = ''VERIFIED'',
     ca_markets = [\<lparr>cpm_market = ''UG'', cpm_activities = {|''SELLING''|}\<rparr>], ca_engine = ''baobab-erp'', ca_instance = ''ei_abc'',
     ca_isolation = ''row_level_security'', ca_capabilities = {|''finance.order-consequence.process''|}, ca_issued = 0, ca_expires = 100\<rparr>"

definition office_dependencies :: provisioning_dependencies where
  "office_dependencies = \<lparr>pd_control_plane = (\<lambda>t p e. Inr office_assignment), pd_placement = (\<lambda>a. Inr \<lparr>np_key = ''NAB'', np_mode = DEDICATED_CLIENT\<rparr>),
     pd_markets = [(''UG'', \<lparr>em_currencies = [''UGX''], em_profile = ''ug'', em_warehouses = [''W1''], em_timezones = []\<rparr>)],
     pd_environment = ''production''\<rparr>"

definition office_baseline :: FinancialConfigurationBaseline where
  "office_baseline = \<lparr>fb_entity = ''NABHOLD'', fb_version = 1, fb_currency = ''UGX'', fb_year_start = 7, fb_chart = ''coa'', fb_schema = ''as'',
     fb_tax = ''tax'', fb_costing = ''avg'', fb_effective = 700000, fb_approved_by = ''cfo'', fb_approved_at = 0, fb_evidence = ''FIN-1''\<rparr>"

definition office_process :: "unit proc" where
  "office_process = (idle_process () (empty_database\<lparr>db_provisioning := empty_provisioning\<lparr>pt_baselines := [office_baseline]\<rparr>\<rparr>))\<lparr>pr_uuids := (\<lambda>k. 7)\<rparr>"

lemma parse_says: "parse_command K body = Inr c \<longleftrightarrow> command_says body c \<and> command_ok K c"
  unfolding parse_command_iff command_says_def command_ok_def policy_split profiles_split baselines_split
  by (simp only: listed_set conj_ac)

lemma office_admitted: "parse_command office_calendar office_body = Inr office_command"
proof -
  have hash: "length sample_hash = 71" by (simp add: sample_hash_def)
  have id_ok: "fullmatch BASELINE_ID (''fb_'' @ replicate 32 (CHR ''0''))" by code_simp
  have ok: "command_ok office_calendar office_command"
    using hash id_ok by (simp add: command_ok_def office_command_def office_reference_def sample_command_def authority_ok_def list_ok_def ref_ok_def
        text_ok_def sample_grammars office_calendar_def sample_calendar_def del: fullmatch.simps)
  have "lists_set (JArr [JStr s]) {|s|}" for s
    unfolding lists_set_def list_says_def by (rule exI [of _ "[s]"]) simp
  then have "command_says office_body office_command"
    by (simp add: command_says_def office_body_def office_command_def office_reference_def sample_command_def closed_def COMMAND_MEMBERS_def
        COMMAND_REQUIRED_def jget_def has_key_def authority_says_def AUTHORITY_MEMBERS_def list_says_def ref_says_def ref_contract_def
        BASELINE_MEMBERS_def is_baseline_authority_def BASELINE_AUTHORITY_def)
  with ok show ?thesis by (simp add: parse_says)
qed

lemma office_key: "valid_key (Some ''idempotency-key-1'')"
  by code_simp

definition office_record :: "instant \<Rightarrow> CommandRecord" where
  "office_record now = \<lparr>cm_operation = 7, cm_tenant = ''tn_abc01'', cm_fingerprint = replicate 64 (CHR ''0''), cm_entities = [''NABHOLD''],
     cm_state = ''accepted'', cm_revision = 1, cm_updated = now, cm_failure = None, cm_provisioning = ''tp_a1b2'', cm_plan = ''plan_a1b2'',
     cm_plan_version = 1, cm_plan_digest = sample_hash\<rparr>"

lemma office_record_accepted:
  "CommandRecord.truncate (accepted_row 7 office_command ''idempotency-key-1'' ''svc'' (replicate 64 (CHR ''0'')) now) = office_record now"
  by (simp add: CommandRecord.truncate_def accepted_row_def office_command_def sample_command_def office_record_def)

lemma office_key_text: "fullmatch idempotency_rx (command_event_key 7 1)" "16 \<le> length (command_event_key 7 1)" "length (command_event_key 7 1) \<le> 128"
proof -
  have key: "command_event_key 7 1 = ''erp-provisioning-00000000-0000-0000-0000-000000000007-r1''" by code_simp
  show "fullmatch idempotency_rx (command_event_key 7 1)" "16 \<le> length (command_event_key 7 1)" "length (command_event_key 7 1) \<le> 128"
    unfolding key idempotency_rx_iff by (simp_all add: in_cls_def in_range_def)
qed

definition office_event :: "instant \<Rightarrow> cloud_event" where
  "office_event now = \<lparr>ev_id = JStr (show_uuid 0), ev_type = JStr PROVISIONING_EVENT, ev_source = JStr ERP_SOURCE,
     ev_subject = JStr (command_subject 7), ev_time = Aware now,
     ev_dataschema = JStr (erp_schema ''provisioning-state''), ev_scope = JStr ''tenant'', ev_correlationid = JStr (show_uuid 0),
     ev_data = state_document (sample_lib office_body) (office_record now), ev_tenantid = JStr ''tn_abc01'', ev_causationid = JNull,
     ev_idempotencykey = JStr (command_event_key 7 1), ev_traceparent = JNull, ev_tracestate = JNull\<rparr>"

lemma office_event_valid: "validate (sample_lib office_body) (office_event now) = Inr (office_event now)"
proof -
  have ty: "PROVISIONING_EVENT \<in> fst ` set PRODUCED" "dataschema_for PROVISIONING_EVENT = Some (erp_schema ''provisioning-state'')" by code_simp+
  from ty(1) obtain schema where sch: "validate_type (JStr PROVISIONING_EVENT) = Inr ()" "dataschema_for PROVISIONING_EVENT = Some schema"
      "starts_with schema CONTRACT_HOST" "schema \<noteq> []" "length schema \<le> 512"
    by (rule produced_schema)
  have lib: "lib_ok (sample_lib office_body)" by (rule sample_lib_ok)
  have ids: "check_uuid (JStr (show_uuid 0)) name = Inr (show_uuid 0)" for name by (simp add: check_uuid_def uuid_roundtrip)
  have src: "absolute_uri (sample_lib office_body) (JStr ERP_SOURCE) ''source'' 255 = Inr ERP_SOURCE"
    using lib ERP_SOURCE_length by (simp add: lib_ok_def)
  have ds: "absolute_uri (sample_lib office_body) (JStr (erp_schema ''provisioning-state'')) ''dataschema'' 512 = Inr (erp_schema ''provisioning-state'')"
    using lib sch ty(2) by (simp add: lib_ok_def)
  have scope: "validate_scope (JStr ''tenant'') (JStr ''tn_abc01'') = Inr ()" by code_simp
  show ?thesis
    unfolding validate_def office_event_def
    by (simp add: ids src ds scope sch(1) unless_null_def office_key_text state_document_def command_subject_def
        del: validate_type.simps absolute_uri.simps One_nat_def)
qed

lemma office_announced: "provisioning_changed (sample_lib office_body) (office_record now) = Inr (office_event now)"
proof -
  have "dataschema_for PROVISIONING_EVENT = Some (erp_schema ''provisioning-state'')" by code_simp
  moreover have "uuid5 (sample_lib office_body) = (\<lambda>n s. 0)" by (simp add: sample_lib_def)
  ultimately show ?thesis
    using office_event_valid [of now]
    by (simp add: provisioning_changed_def office_event_def office_record_def command_event_id_def command_correlation_def mapE_exn_def)
qed

lemma office_recorded: "\<exists>row. record_event (sample_lib office_body) uuid_of (office_event now) t [] = Inr [row]"
proof -
  have ty: "PROVISIONING_EVENT \<in> fst ` set PRODUCED" "dataschema_for PROVISIONING_EVENT = Some (erp_schema ''provisioning-state'')" by code_simp+
  show ?thesis
    unfolding record_event_def office_event_valid using ty
    by (simp add: office_event_def uuid_roundtrip Outbox.insert_row_def)
qed

definition office_request :: ErpProvisioningRequest where
  "office_request = \<lparr>rq_provisioning = ''tp_a1b2.NABHOLD.v1'', rq_key = ''erp-prov-'' @ replicate 64 CHR ''0'', rq_tenant = ''tn_abc01'',
     rq_entity = ''NABHOLD'', rq_name = ''Nab'', rq_registration = ''R1'', rq_jurisdiction = ''UG'', rq_engine = ''ei_abc'',
     rq_isolation = ''row_level_security'', rq_digest = sample_hash, rq_environment = ''production'', rq_effective = 700000,
     rq_accounting = \<lparr>ac_currency = ''UGX'', ac_year_start = 7, ac_chart = ''coa'', ac_schema = ''as'', ac_tax = ''tax'', ac_costing = ''avg'',
       ac_approved_by = ''cfo'', ac_approved_at = Aware 0\<rparr>,
     rq_markets = [\<lparr>mk_id = ''UG'', mk_country = ''UG'', mk_capabilities = {|''selling''|}, mk_currencies = [''UGX''], mk_profile = ''ug'',
       mk_warehouses = [''W1''], mk_timezones = []\<rparr>],
     rq_capabilities = {|''finance.order-consequence.process''|}\<rparr>"

lemma office_built:
  assumes "0 \<le> now" "now < 100"
  shows "build_request (as_lib office) (as_calendar office) (factory_for office_dependencies [(''NABHOLD'', office_baseline)] office_assignment)
     ''tn_abc01'' ''tp_a1b2'' ''NABHOLD'' on now = Inr office_request"
proof -
  have nb: "nonblank sample_hash" by (simp add: sample_hash_def nonblank_def py_isspace_def code_def)
  have "validate_assignment office_assignment now = Inr ()"
    using assms nb by (simp add: validate_assignment_def office_assignment_def assignment_required_def ERP_ENGINE_ID_def nonblank_def
        py_isspace_def code_def Let_def)
  moreover have "registration_identifier office_assignment = Inr ''R1''"
    by (simp add: registration_identifier_def office_assignment_def jget_def has_key_def nonblank_def py_isspace_def code_def)
  moreover have "sha256_hex (as_lib office) s = replicate 64 CHR ''0''" for s by (simp add: office_def sample_lib_def)
  moreover have "py_lower ''SELLING'' = ''selling''" "show_int 1 = ''1''" by code_simp+
  ultimately show ?thesis
    by (simp add: build_request_def factory_for_def office_dependencies_def native_boundary_def materialize_request_def configured_market_def
        accounting_of_def office_baseline_def office_assignment_def provisioning_record_id_def assignment_key_def office_request_def nonblank_def
        py_isspace_def code_def)
qed

definition office_entity :: PlannedEntity where
  "office_entity = \<lparr>pe_entity = ''NABHOLD'', pe_request = office_request,
     pe_plan = (case build_plan (as_lib office) (as_calendar office) office_request of Inr p \<Rightarrow> p | Inl e \<Rightarrow> \<lparr>pp_provisioning = [], pp_digest = [], pp_steps = []\<rparr>)\<rparr>"

lemma no_elements: "sorted_list_of_fset {||} = []"
  by (simp add: sorted_list_of_fset.rep_eq)

lemma office_valid: "list_all rc_ready (validate_request office_request)"
proof -
  have nb: "nonblank sample_hash" "\<not> placeholder sample_hash"
    by (simp_all add: sample_hash_def nonblank_def py_isspace_def code_def placeholder_def starts_with_def)
  have "{|''selling''|} |-| MARKET_CAPABILITIES = {||}" by (simp add: MARKET_CAPABILITIES_def)
  then have "sorted_list_of_fset ({|''selling''|} |-| MARKET_CAPABILITIES) = []" by (simp add: no_elements)
  moreover have "py_isupper ''UGX''" by code_simp
  ultimately show ?thesis
    using nb by (simp add: validate_request_def required_text_def office_request_def configured_check_def readiness_check_def
      accounting_values_def capability_checks_def approval_checks_def SUPPORTED_CAPABILITIES_def ISOLATION_REQUIREMENTS_def
      PENDING_DATE_def PENDING_DATETIME_def Let_def nonblank_def py_isspace_def placeholder_def starts_with_def code_def seconds_def no_elements
      market_check_list_def)
qed

lemma office_planned: "build_plan (as_lib office) (as_calendar office) office_request = Inr (pe_plan office_entity)"
proof -
  have "filter (\<lambda>c. \<not> rc_ready c) (validate_request office_request) = []"
    using office_valid by (simp add: filter_empty_conv list_all_iff)
  then have "\<exists>p. build_plan (as_lib office) (as_calendar office) office_request = Inr p" by (simp add: build_plan_def require_valid_request_def Let_def)
  then show ?thesis by (auto simp: office_entity_def)
qed

lemma office_approved: "approved_assignments office office_dependencies office_command = Inr [(''NABHOLD'', office_assignment)]"
  by (simp add: approved_assignments_def office_command_def sample_command_def office_dependencies_def plan_differences_def
      office_assignment_def same_version_def approved_markets_def)

lemma office_exact: "referenced_baselines office (empty_provisioning\<lparr>pt_baselines := [office_baseline]\<rparr>) office_command 719163 = Inr [(''NABHOLD'', office_baseline)]"
proof -
  have "baseline_matches office ''NABHOLD'' office_reference office_baseline"
    by (simp add: baseline_matches_def baseline_id_for_def baseline_digest_def office_def sample_lib_def office_reference_def sample_hash_def
        office_calendar_def)
  then show ?thesis
    by (simp add: referenced_baselines_def office_command_def office_reference_def sample_command_def referenced_def get_baseline_def
        office_baseline_def baseline_status_def withdrawn_by_day_def empty_provisioning_def effective_baseline_def versions_of_def)
qed

lemma office_entities:
  "planned_entities office office_dependencies (empty_provisioning\<lparr>pt_baselines := [office_baseline]\<rparr>) office_command 0
     [(''NABHOLD'', office_assignment)] = Inr [office_entity]"
proof -
  have tenant: "pc_tenant office_command = ''tn_abc01''" "ca_provisioning office_assignment = ''tp_a1b2''"
    by (simp_all add: office_command_def sample_command_def office_assignment_def)
  have day: "utc_day 0 = 719163" by (simp add: utc_day_def)
  have "pe_entity office_entity = ''NABHOLD''" "pe_request office_entity = office_request" by (simp_all add: office_entity_def)
  moreover have "office_entity = \<lparr>pe_entity = ''NABHOLD'', pe_request = office_request, pe_plan = pe_plan office_entity\<rparr>" by (simp add: office_entity_def)
  moreover have "ac_currency (rq_accounting office_request) = ''UGX''" "pc_currencies office_command = {|''UGX''|}"
    by (simp_all add: office_request_def office_command_def sample_command_def)
  ultimately show ?thesis
    using office_exact by (simp add: planned_entities_def tenant day office_built office_planned)
qed

lemma office_accepted:
  "\<exists>s'. accept (as_lib office) (as_pg_uuid office) (as_calendar office) office_command ''idempotency-key-1'' ''svc''
     (fingerprint (as_lib office) office_command ''svc'') [office_entity] (office_process\<lparr>pr_ticks := 1\<rparr>) = (Inr (office_record 1000000), s')"
proof -
  have fp: "fingerprint (as_lib office) office_command ''svc'' = replicate 64 CHR ''0''" by (simp add: fingerprint_def office_def sample_lib_def)
  have lib: "as_lib office = sample_lib office_body" "as_pg_uuid office = uuid_of" by (simp_all add: office_def)
  have rec: "CommandRecord.truncate (accepted_row 7 office_command ''idempotency-key-1'' ''svc'' (replicate 64 CHR ''0'') 1000000) = office_record 1000000"
    by (rule office_record_accepted)
  have checks: "command_checks (accepted_row 7 office_command ''idempotency-key-1'' ''svc'' (replicate 64 CHR ''0'') 1000000)"
  proof -
    have "fullmatch fingerprint_rx (replicate 64 CHR ''0'')"
      by (simp only: fingerprint_rx_def fullmatch_Rep_Cls) (simp add: list_all_iff in_cls_def in_range_def)
    then show ?thesis
      by (simp add: command_checks_def accepted_row_def office_command_def sample_command_def sql_blank_def sample_grammars del: fullmatch.simps)
  qed
  obtain row where row: "record_event (sample_lib office_body) uuid_of (office_event 1000000) 2000000 [] = Inr [row]" using office_recorded by blast
  have version: "cm_plan_version (accepted_row 7 office_command ''idempotency-key-1'' ''svc'' (replicate 64 CHR ''0'') 1000000) = 1"
    "cm_operation (accepted_row 7 office_command ''idempotency-key-1'' ''svc'' (replicate 64 CHR ''0'') 1000000) = 7"
    by (simp_all add: accepted_row_def office_command_def sample_command_def)
  show ?thesis
    unfolding fp unfolding lib accept_def
    by (simp add: office_process_def idle_process_def bindS_def draw_uuid_def read_clock_def on_tables_def on_db_def empty_database_def
        empty_provisioning_def insert_operation_def insert_command_def checks version insert_member_def membership_of_def planned_row_def
        announce_command_def rec office_announced store_outbox_def row returnS_def Let_def)
qed

theorem accepted_as_approved_witness:
  "\<exists>doc s'. request_provisioning office (Some office_dependencies) ''tn_abc01'' ''svc'' (Some ''idempotency-key-1'') ''{}'' office_process = (Inr (202, doc, []), s')
     \<and> (\<exists>P c now entities. (\<forall>x \<in> set entities. approved_entity office P (db_provisioning (pr_db office_process)) c now x) \<and> entities \<noteq> [])"
proof -
  let ?t = "db_provisioning (pr_db office_process)"
  have t: "?t = empty_provisioning\<lparr>pt_baselines := [office_baseline]\<rparr>" by (simp add: office_process_def idle_process_def)
  have none: "find_command ''tn_abc01'' (the (Some ''idempotency-key-1'')) ?t = None" by (simp add: t find_command_def empty_provisioning_def)
  obtain s' where acc: "accept (as_lib office) (as_pg_uuid office) (as_calendar office) office_command ''idempotency-key-1'' ''svc''
     (fingerprint (as_lib office) office_command ''svc'') [office_entity] (office_process\<lparr>pr_ticks := 1\<rparr>) = (Inr (office_record 1000000), s')"
    using office_accepted by blast
  have tenant: "pc_tenant office_command = ''tn_abc01''" by (simp add: office_command_def sample_command_def)
  have clock: "read_clock office_process = (Inr 0, office_process\<lparr>pr_ticks := 1\<rparr>)" by (simp add: read_clock_def office_process_def idle_process_def)
  have "decide_command office office_dependencies office_command ''idempotency-key-1'' ''svc'' office_process = (Inr (state_response office (office_record 1000000)), s')"
    using none office_entities acc
    by (simp add: decide_command_def tenant t office_approved bindS_def clock accept_planned_def)
  moreover have "json_loads (as_lib office) ''{}'' = Some office_body" "as_calendar office = office_calendar" by (simp_all add: office_def sample_lib_def)
  ultimately have run: "request_provisioning office (Some office_dependencies) ''tn_abc01'' ''svc'' (Some ''idempotency-key-1'') ''{}'' office_process
      = (Inr (202, state_document (as_lib office) (office_record 1000000), []), s')"
    by (simp add: request_provisioning_def office_key office_admitted tenant MAX_BODY_BYTES_def state_response_def)
  from accepted_as_approved [OF run none] obtain P c now entities where
      "map pe_entity entities = sort (pc_entities c)" "\<forall>x \<in> set entities. approved_entity office P ?t c now x" "admitted office ''tn_abc01'' (Some ''idempotency-key-1'') ''{}'' c"
    by blast
  moreover from this(3) office_admitted have "c = office_command" by (simp add: admitted_def office_def sample_lib_def)
  ultimately have "entities \<noteq> []" by (auto simp: office_command_def sample_command_def)
  with run \<open>\<forall>x \<in> set entities. approved_entity office P ?t c now x\<close> show ?thesis by blast
qed


end
