(* ===== verification/Spec2Isabelle.thy ===== *)
theory Spec2Isabelle
  imports Prelude Rx Py Identifiers Entity_Mapping Tenant_Context Cloud_Event Execution_Policy Inbox Outbox
    Py_Decimal Engine Consequence Placed_Order Accounting_Outcomes Finance_Guard Rest_Client Filter_Reader Legal_Actor
    Master_Data Order_Service Command_Facts Execution_Support Attempts Order_Execution Order_Execution_Facts Customers Customer_Facts Signed_Delivery Provisioning_Plan Provisioning_Tables
    Operation_Request Provisioning_Command Command_Ledger Command_Board Warehouse_Identity Provisioning_Execution Provisioning_Passes Provisioning_Guarantees
    Finance_Baseline Control_Plane Problem_Document Accepted_Operations Accepted_Facts Accepted_Witness
begin

text \<open>
  ERP keeps the enterprise engine (iDempiere) in step with the platform: it receives signed events, executes them
  against the engine, runs the commands of the order-to-cash process, provisions legal entities, and announces what it
  did through a transactional outbox. This library models that core, the Python package \<open>src/modules\<close>.

  \<^bold>\<open>How the parts interact.\<close> The receiver (\<open>Inbox\<close>) stores signed events; workers claim them under a lease and hand
  them to an executor (\<open>Order_Execution\<close>, \<open>Customers\<close>), which calls the engine through the REST client
  (\<open>Rest_Client\<close>) guarded by the finance guard (\<open>Finance_Guard\<close>), and then commits mapping, read model
  (\<open>Consequence\<close>), outgoing event and the claim's outcome in one transaction. The commands of \<open>Order_Service\<close>
  do the same on request, under the permits the legal-actor and documentary gates (\<open>Legal_Actor\<close>) grant. The dispatcher
  (\<open>Outbox\<close>) delivers recorded events, signed (\<open>Signed_Delivery\<close>). Provisioning accepts a command, keeps
  it with the operations of its legal entities (\<open>Provisioning_Command\<close>), and a worker runs the plan of each
  (\<open>Provisioning_Plan\<close>) through the engine adapter (\<open>Provisioning_Execution\<close>).

  \<^bold>\<open>How state is represented.\<close> A table of the database is the list of its rows in insertion order, each row a record with
  the columns the code uses; primary keys, unique indexes, CHECK constraints and triggers of the migrations under
  \<open>src/db/migrations\<close> are written into the operation that meets them, and their violation is a value of
  the exception type \<open>failed\<close>. The state of a process, \<open>'n proc\<close> (\<open>Order_Service\<close>), has the context variables (markers
  and permit of the guard), the connection's view of the database (\<open>pr_db\<close>), the last committed database (\<open>pr_saved\<close>),
  the engine's state \<open>'n\<close>, and the readings still to come of the clock and of \<open>uuid4\<close>. \<open>within\<close>, \<open>commit\<close>-like
  and rollback steps copy between the two views as \<open>with connection\<close>, \<open>connection.commit()\<close> and \<open>rollback()\<close> do.
  A process that dies has the effect of a rollback after the calls it made. Fallible code is a function to a sum of an
  error and a value (\<open>Prelude\<close>: \<open>bindS\<close>, \<open>liftS\<close>, \<open>tryS\<close> over a state); every raise is a constructor.

  \<^bold>\<open>What is a parameter.\<close> The engine is a record of operations over a state of any type (\<open>Engine\<close>); the HTTP peer, the
  network, \<open>urlsplit\<close>, HMAC and SHA-256, the readers of dates, the installed timezone database, Control Plane,
  provider and documentary assessors are arguments of the definitions that call them. Locks and row changes by other
  sessions are oracles. What a property relies on about one of these is a premise of it, and its witness instantiates it.

  \<^bold>\<open>The theories and the code they model\<close> (paths under \<open>src/modules\<close>).
  \<^item> \<open>Prelude\<close>, \<open>Rx\<close>, \<open>Py\<close>, \<open>Py_Decimal\<close>: the error monads, tables, Python's \<open>re\<close>, \<open>str\<close>, \<open>int\<close>, JSON documents, instants
    and \<open>Decimal\<close>. \<open>Engine\<close>: exceptions and the engine's protocol.
  \<^item> \<open>Identifiers\<close>, \<open>Entity_Mapping\<close> (\<open>mapping/\<close>), \<open>Tenant_Context\<close> (\<open>context/\<close>, \<open>identity/\<close>, \<open>reconciliation/\<close>).
  \<^item> \<open>Cloud_Event\<close> (\<open>events/\<close>): envelope, registry and both wire directions; C22, C23.
  \<^item> \<open>Inbox\<close> (\<open>inbox/postgres_queue.py\<close>, \<open>postgres_store.py\<close>, \<open>service.py\<close>, \<open>security/signing.py\<close>): the queue as a step
    relation \<open>queue_step\<close> with its reachable states; C6 to C11.
  \<^item> \<open>Outbox\<close> (\<open>outbox/\<close>): the dispatcher proved in the locale of an outbox store and interpreted on the Postgres store;
    C15 to C17. \<open>Signed_Delivery\<close> (\<open>integration/signed_delivery.py\<close>, \<open>delivery_transport.py\<close>,
    \<open>application/dispatch_worker.py\<close>): C32, C34.
  \<^item> \<open>Execution_Policy\<close>, \<open>Placed_Order\<close>, \<open>Consequence\<close>, \<open>Accounting_Outcomes\<close>, \<open>Order_Service\<close>, \<open>Order_Execution\<close>
    (\<open>order_to_cash/\<close>), \<open>Execution_Support\<close> (\<open>inbox/execution_support.py\<close>): C18 to C21. \<open>Attempts\<close>,
    \<open>Order_Execution_Facts\<close> and \<open>Command_Facts\<close> hold what is proved of their composition, and of the commands under the gates:
    C1, C2, C12, C27, C29.
  \<^item> \<open>Finance_Guard\<close>, \<open>Rest_Client\<close>, \<open>Filter_Reader\<close> (\<open>integration/native_finance_guard.py\<close>, \<open>idempiere_client.py\<close>): the
    permit of one request, sessions, paging and filters; C13, C14, C24, C25. \<open>read_filter\<close> is a left inverse of the writer of
    filters, used in the proof of C24 only; it is no model of how the engine reads them.
  \<^item> \<open>Legal_Actor\<close> (\<open>legal_actor_gate.py\<close>, \<open>documentary_restriction.py\<close>, \<open>native_action_gate.py\<close>,
    \<open>legal_actor_http_client.py\<close>, \<open>governed_service.py\<close>): C26, and the gates C12 is about.
  \<^item> \<open>Master_Data\<close> (\<open>provisioning/master_data_mapping.py\<close>, \<open>native_mapping_store.py\<close>): C31. \<open>Customers\<close> and
    \<open>Customer_Facts\<close> (\<open>customers/\<close>): C3 to C5.
  \<^item> \<open>Operation_Request\<close> (\<open>provisioning/operation_request.py\<close>): the strict parser; C36. \<open>Provisioning_Plan\<close>
    (\<open>model.py\<close>, \<open>validation.py\<close>, \<open>planner.py\<close>, \<open>request_state.py\<close>, \<open>native_processes.py\<close>, \<open>lifecycle.py\<close>,
    \<open>activation.py\<close>): C35.
  \<^item> \<open>Provisioning_Tables\<close>, \<open>Provisioning_Command\<close> (\<open>command_state.py\<close>, \<open>command_store.py\<close>, \<open>command_events.py\<close>,
    \<open>store.py\<close>), with \<open>Command_Ledger\<close> (the invariant of committed commands, C37) and \<open>Command_Board\<close> (the refinement of an
    abstract machine, C38).
  \<^item> \<open>Warehouse_Identity\<close> (\<open>warehouse.py\<close>, \<open>warehouse_events.py\<close>, \<open>warehouse_identity_store.py\<close>),
    \<open>Provisioning_Execution\<close> (\<open>idempiere_adapter.py\<close>, \<open>execution.py\<close>, \<open>execution_store.py\<close>, \<open>service.py\<close>,
    \<open>application/provisioning_worker.py\<close>), \<open>Provisioning_Passes\<close> (what a pass keeps) and \<open>Provisioning_Guarantees\<close>
    (C39, C40).
  \<^item> \<open>Finance_Baseline\<close> (\<open>finance_baseline.py\<close>, \<open>finance_baseline_store.py\<close>): versions, withdrawals and references of the
    accounting configuration; C33. \<open>Control_Plane\<close> (\<open>cp_contract.py\<close>, \<open>control_plane_client.py\<close>, \<open>legal_entity_policy.py\<close>,
    \<open>market_configuration.py\<close>, \<open>authoritative_service.py\<close>): the assignment, its strict reader and client, the deployment
    configuration and the factory of requests.
  \<^item> \<open>Problem_Document\<close> (\<open>application/problem.py\<close>), \<open>Accepted_Operations\<close> (\<open>application/provisioning_operations.py\<close>,
    \<open>finance_baselines.py\<close>): the boundary's provisioning operations; \<open>Accepted_Facts\<close> and \<open>Accepted_Witness\<close> hold C28 and C30.

  \<^bold>\<open>What the groups of lemmas show.\<close> Safety of the engine: whatever fails in between, retries never make a second record
  (C1, C3, C39), no write leaves the client without its permit (C12 to C14, C29), and
  no provisioning starts that Control Plane's plan and Finance's baselines do not both carry (C30). Repetition is harmless:
  events, provisioning requests and customer versions (C4, C11, C28). Atomicity: ERP's rows appear together
  or not at all (C2, C5). The queue: one holder, fenced leases, progress, final rows (C6 to C10). The ledgers: read
  models are functions of the facts and are announced once per revision (C18, C19, C27, C37, C38), and versions of a
  baseline are never rewritten (C33). Parsers accept
  exactly what is well formed and return what the document says (C11, C21, C23, C35, C36), amounts keep the precision of their currency (C20),
  filters do not run into each other (C24). Bounds: attempts, freshness and replay windows (C16, C26, C32). Termination
  and liveness: paging returns all records (C25), due rows are claimed (C8), a pass that reports ready did every step (C40).

  \<^bold>\<open>Bounds and fuel.\<close> All definitions are total. The one loop without a structural measure, the paging of \<open>query\<close>, stops by
  the code's own bound of records per query: \<open>query_pages\<close> (\<open>Rest_Client\<close>) is a \<open>function\<close> whose termination proof is that bound; the
  regular expressions are matched by structural recursion over derivatives. Where a value that comes from outside reaches a column of a machine width (the \<open>order_version\<close> of an order, \<open>INTEGER\<close> in the
  migrations 0016 and 0019; the versions of plans and baselines; the engine's ids in mappings), the range check of the database is written out, as a refusal; the counters that
  only the code increments (revisions, attempts) are naturals without their bound of 2147483647.

  \<^bold>\<open>Modelling decisions.\<close> A Python \<open>str\<close> is a HOL \<open>string\<close>, that is Latin-1: characters beyond U+00FF are not represented.
  Every statement that reads \<open>now()\<close> takes a clock reading of its own, which allows more behaviours than PostgreSQL's
  transaction timestamp. An engine with promises about its records (\<open>keyed_table\<close>, a premise of C1 and C3) is one
  \<open>AD_Client\<close>. Advisory locks of other sessions are an oracle where the code tries a lock and are left out where it
  only waits. Concurrency between workers is the interleaving of their transactions; PostgreSQL's own isolation is assumed.
  A \<open>jsonb\<close> column gives back the document that was stored in it: the order of members and repeated members, which PostgreSQL
  does not keep, are not looked at by the code that reads these columns. The message of an exception is kept where a caller or a
  stored column depends on it and otherwise shortened; its class is always the source's.

  \<^bold>\<open>Not modelled.\<close>
  The HTTP server (\<open>application/server.py\<close>, \<open>boundary.py\<close>) with the token and context checks in front of it
  (\<open>security/\<close>), the inventory read, the inbox worker's loop, the master-data and localisation adapters of provisioning and
  the trade projections. Out of reach: the migrations' SQL beyond the constraints the code meets, the acceptance drivers and
  deployment scripts (I/O against running systems), the packaged JSON schemas (a parameter) and the Java plug-ins.
\<close>

end
